(* ===== verification/Prelude.thy ===== *)
theory Prelude
  imports Main "HOL-Library.Word"
begin

unbundle bit_operations_syntax

text \<open>
  Shared vocabulary of the development: the C integer types as words, the bit-field
  access used by the register layouts (\<open>extract32\<close>, \<open>deposit32\<close>), little-endian
  encoding of 32-bit values, and the interface through which the device models reach
  guest memory.  The guest address space itself is not part of the repository, so every
  operation that uses it takes its read and write functions as arguments; what the
  clients rely on is the locale \<open>dma_bus\<close>, and \<open>ram_read\<close>/\<open>ram_write\<close> (a flat byte
  memory) is shown to provide it.
\<close>

section \<open>Integer types\<close>

type_synonym u8 = "8 word"
type_synonym u16 = "16 word"
type_synonym u32 = "32 word"
type_synonym u64 = "64 word"

text \<open>Facts the component proofs use again and again.\<close>

named_theorems bits_simps \<open>bit-level unfolding of register fields\<close>

section \<open>Register fields\<close>

text \<open>
  \<open>FIELD(reg, field, shift, length)\<close> declares a bit range; \<open>FIELD_EX32\<close> reads it,
  \<open>FIELD_DP32\<close> and \<open>deposit32\<close> replace it.  A field is its shift and length.
\<close>

type_synonym field = "nat \<times> nat"

definition extract32 :: "u32 \<Rightarrow> nat \<Rightarrow> nat \<Rightarrow> u32" where
  "extract32 v start len = take_bit len (drop_bit start v)"

definition deposit32 :: "u32 \<Rightarrow> nat \<Rightarrow> nat \<Rightarrow> u32 \<Rightarrow> u32" where
  "deposit32 v start len fv =
     (v AND NOT (push_bit start (mask len))) OR (push_bit start fv AND push_bit start (mask len))"

definition FIELD_EX32 :: "u32 \<Rightarrow> field \<Rightarrow> u32" where
  "FIELD_EX32 v f = extract32 v (fst f) (snd f)"

definition FIELD_DP32 :: "u32 \<Rightarrow> field \<Rightarrow> u32 \<Rightarrow> u32" where
  "FIELD_DP32 v f fv = deposit32 v (fst f) (snd f) fv"

definition field_mask :: "field \<Rightarrow> u32" where
  "field_mask f = push_bit (fst f) (mask (snd f))"

lemma bit_extract32 [bits_simps]:
  "bit (extract32 v start len) n \<longleftrightarrow> n < len \<and> bit v (start + n)"
  by (simp add: extract32_def bit_simps add.commute)

lemma bit_deposit32 [bits_simps]:
  "bit (deposit32 v start len fv) n \<longleftrightarrow>
     n < 32 \<and> (if start \<le> n \<and> n < start + len then bit fv (n - start) else bit v n)"
  by (auto simp: deposit32_def bit_simps dest: bit_imp_le_length)

lemma extract32_lt: "len < 32 \<Longrightarrow> unat (extract32 v start len) < 2 ^ len"
  by (simp add: extract32_def unsigned_take_bit_eq)

lemma FIELD_EX32_lt: "snd f < 32 \<Longrightarrow> unat (FIELD_EX32 v f) < 2 ^ snd f"
  by (simp add: FIELD_EX32_def extract32_lt)

text \<open>Reading back a deposited field, and leaving the other fields alone.\<close>

lemma extract32_deposit32:
  assumes "start + len \<le> 32"
  shows "extract32 (deposit32 v start len fv) start len = take_bit len fv"
proof (rule bit_word_eqI)
  fix n assume "n < LENGTH(32)"
  with assms show "bit (extract32 (deposit32 v start len fv) start len) n = bit (take_bit len fv) n"
    by (auto simp: bits_simps bit_simps)
qed

lemma extract32_deposit32_other:
  assumes "start + len \<le> start' \<or> start' + len' \<le> start"
  shows "extract32 (deposit32 v start len fv) start' len' = extract32 v start' len'"
proof (rule bit_word_eqI)
  fix n assume "n < LENGTH(32)"
  with assms show "bit (extract32 (deposit32 v start len fv) start' len') n = bit (extract32 v start' len') n"
    by (auto simp: bits_simps dest: bit_imp_le_length)
qed

text \<open>A one-bit flag is read as a truth value.\<close>

lemma FIELD_EX32_flag: "FIELD_EX32 v (n, 1) \<noteq> 0 \<longleftrightarrow> bit v n"
proof -
  have "FIELD_EX32 v (n, 1) = of_bool (bit v n)"
    by (rule bit_word_eqI) (auto simp: FIELD_EX32_def bits_simps bit_simps)
  then show ?thesis by simp
qed

lemma FIELD_EX32_flag_Suc: "FIELD_EX32 v (n, Suc 0) = 0 \<longleftrightarrow> \<not> bit v n"
  using FIELD_EX32_flag [of v n] unfolding One_nat_def by blast

lemma u8_bit_ge: "8 \<le> n \<Longrightarrow> \<not> bit (w :: u8) n"
  using bit_imp_le_length [of w n] by auto

lemma and_one_bit: "drop_bit n w AND 1 \<noteq> 0 \<longleftrightarrow> bit w n" for w :: "'a::len word"
  by (simp add: and_one_eq mod_2_eq_odd bit_iff_odd_drop_bit)

section \<open>Searching from the top of four slots\<close>

lemma less_4_cases: "i < (4::nat) \<longleftrightarrow> i = 0 \<or> i = 1 \<or> i = 2 \<or> i = 3"
  by auto

lemma find_down4_None: "find P [3, 2, 1, 0 :: nat] = None \<longleftrightarrow> (\<forall>i<4. \<not> P i)"
  by (auto simp: find_None_iff less_4_cases)

lemma find_down4_Some:
  "find P [3, 2, 1, 0 :: nat] = Some i \<longleftrightarrow> i < 4 \<and> P i \<and> (\<forall>j. i < j \<and> j < 4 \<longrightarrow> \<not> P j)"
proof -
  have above: "(\<forall>j. i < j \<and> j < 4 \<longrightarrow> \<not> P j) \<longleftrightarrow> (\<forall>j\<in>{1, 2, 3}. i < j \<longrightarrow> \<not> P j)"
    by (metis insertI1 insertI2 insertE empty_iff less_4_cases not_less_zero)
  consider "i = 0" | "i = 1" | "i = 2" | "i = 3" | "4 \<le> i" by linarith
  then show ?thesis
    unfolding above by cases (auto split: if_split)
qed

lemma all_less_Suc: "(\<forall>i<Suc n. P i) \<longleftrightarrow> (\<forall>i<n. P i) \<and> P n" "(\<forall>i\<le>Suc n. P i) \<longleftrightarrow> (\<forall>i\<le>n. P i) \<and> P (Suc n)"
  by (auto simp: less_Suc_eq le_Suc_eq)

section \<open>Little-endian encoding\<close>

definition le32 :: "u32 \<Rightarrow> u8 list" where
  "le32 w = [ucast w, ucast (drop_bit 8 w), ucast (drop_bit 16 w), ucast (drop_bit 24 w)]"

fun of_le32 :: "u8 list \<Rightarrow> u32" where
  "of_le32 (a # b # c # d # _) =
     ucast a OR push_bit 8 (ucast b) OR push_bit 16 (ucast c) OR push_bit 24 (ucast d)"
| "of_le32 _ = 0"

fun of_le16 :: "u8 list \<Rightarrow> u32" where
  "of_le16 (a # b # _) = ucast a OR push_bit 8 (ucast b)"
| "of_le16 _ = 0"

lemma length_le32 [simp]: "length (le32 w) = 4"
  by (simp add: le32_def)

lemma of_le32_le32 [simp]: "of_le32 (le32 w @ rest) = w"
proof (rule bit_word_eqI)
  fix n assume n: "n < LENGTH(32)"
  then have "n < 8 \<or> 8 \<le> n \<and> n < 16 \<or> 16 \<le> n \<and> n < 24 \<or> 24 \<le> n \<and> n < 32"
    by auto
  then show "bit (of_le32 (le32 w @ rest)) n = bit w n"
    by (elim disjE) (auto simp: le32_def bit_simps)
qed

lemma of_le32_le32_nil [simp]: "of_le32 (le32 w) = w"
  using of_le32_le32 [of w "[]"] by simp

lemma le32_of_le32 [simp]:
  assumes "length bs = 4"
  shows "le32 (of_le32 bs) = bs"
proof -
  from assms obtain a b c d where bs: "bs = [a, b, c, d]"
    by (auto simp: numeral_eq_Suc length_Suc_conv)
  have "ucast (of_le32 bs) = a" "ucast (drop_bit 8 (of_le32 bs)) = b"
    "ucast (drop_bit 16 (of_le32 bs)) = c" "ucast (drop_bit 24 (of_le32 bs)) = d"
    unfolding bs by (rule bit_word_eqI, auto simp: bit_simps dest: bit_imp_le_length)+
  then show ?thesis by (simp add: le32_def bs)
qed

lemma of_le32_take [simp]: "of_le32 (take 4 xs) = of_le32 xs"
  by (cases xs rule: of_le32.cases) simp_all

lemma le32_of_le32_take: "4 \<le> length xs \<Longrightarrow> le32 (of_le32 xs) = take 4 xs"
  using le32_of_le32 [of "take 4 xs"] by simp

text \<open>Truncation to 32 bits distributes over address arithmetic.\<close>

lemma or_and_absorb: "(x OR y) AND y = y" for x y :: "'a::len word"
  by (rule bit_word_eqI) (auto simp: bit_simps)

lemma mod_64_32: "(x :: int) mod 18446744073709551616 mod 4294967296 = x mod 4294967296"
  by (rule mod_mod_cancel) simp

lemma ucast_add_32: "ucast (a + b :: u64) = (ucast a + ucast b :: u32)"
  by transfer (simp add: take_bit_eq_mod mod_64_32, metis mod_64_32 mod_add_eq)

lemma ucast_mult_32: "ucast (a * b :: u64) = (ucast a * ucast b :: u32)"
  by transfer (simp add: take_bit_eq_mod mod_64_32, metis mod_64_32 mod_mult_eq)

lemma ucast_of_nat_32: "ucast (of_nat n :: u64) = (of_nat n :: u32)"
  by transfer (simp add: take_bit_eq_mod mod_64_32)

lemma ucast_advance:
  "ucast (ucast x + 8 * of_nat k + 8 :: u64) = (x :: u32) + 8 * of_nat (Suc k)"
proof -
  have "ucast (ucast x :: u64) = x"
    by (rule bit_word_eqI) (auto simp: bit_simps)
  moreover have "ucast (8 :: u64) = (8 :: u32)"
    by simp
  ultimately show ?thesis
    by (simp only: ucast_add_32 ucast_mult_32 ucast_of_nat_32 of_nat_Suc distrib_left mult_1_right
        add.assoc add.commute [of "8 * of_nat k"])
qed

lemma ucast_inc_64:
  assumes "unat x + 8 < 2 ^ 32"
  shows "ucast (x :: u32) + 8 = (ucast (x + 8) :: u64)"
proof -
  have "unat (x + 8) = unat x + 8"
    using assms by (simp add: unat_word_ariths)
  then have "(of_nat (unat (x + 8)) :: u64) = of_nat (unat x) + 8"
    by simp
  then show ?thesis by simp
qed

section \<open>Updating a function at several points\<close>

lemma fold_upd_other: "j \<notin> set xs \<Longrightarrow> fold (\<lambda>i l. l(i := f i)) xs g j = g j"
  by (induction xs arbitrary: g) auto

lemma fold_upd_in: "j \<in> set xs \<Longrightarrow> fold (\<lambda>i l. l(i := f i)) xs g j = f j"
proof (induction xs arbitrary: g)
  case Nil
  then show ?case by simp
next
  case (Cons x xs)
  have "fold (\<lambda>i l. l(i := f i)) xs (g(x := f x)) j = f j"
  proof (cases "j \<in> set xs")
    case True
    then show ?thesis by (rule Cons.IH)
  next
    case False
    with Cons.prems show ?thesis by (simp only: fold_upd_other [OF False] set_simps insert_iff) simp
  qed
  then show ?case unfolding fold_simps .
qed

section \<open>Guest memory\<close>

text \<open>The addresses an access of \<open>n\<close> bytes at \<open>a\<close> touches (addresses wrap at 64 bits).\<close>

definition mem_range :: "u64 \<Rightarrow> nat \<Rightarrow> u64 set" where
  "mem_range a n = (\<lambda>i. a + of_nat i) ` {..<n}"

lemma mem_range_mono: "n \<le> m \<Longrightarrow> mem_range a n \<subseteq> mem_range a m"
  by (auto simp: mem_range_def)

lemma mem_range_disjoint:
  assumes "x + n \<le> y" and "y + k \<le> 2 ^ 64"
  shows "mem_range (a + of_nat x) n \<inter> mem_range (a + of_nat y) k = {}"
proof -
  have "of_nat (x + i) \<noteq> (of_nat (y + j) :: u64)" if "i < n" "j < k" for i j
  proof
    assume "of_nat (x + i) = (of_nat (y + j) :: u64)"
    then have "take_bit 64 (x + i) = take_bit 64 (y + j)"
      unfolding word_of_nat_eq_iff by simp
    then have "x + i = y + j"
      using assms that by (simp add: take_bit_nat_eq_self)
    with assms that show False by simp
  qed
  then show ?thesis by (auto simp: mem_range_def add.assoc simp flip: of_nat_add)
qed

lemma mem_range_apart:
  assumes "unat x + n \<le> unat y \<or> unat y + k \<le> unat x" "unat y + k \<le> 2 ^ 64" "unat x + n \<le> 2 ^ 64"
  shows "mem_range x n \<inter> mem_range y k = {}"
  using mem_range_disjoint [of "unat x" n "unat y" k 0] mem_range_disjoint [of "unat y" k "unat x" n 0] assms
  by (auto simp: Int_commute)

lemma mem_range_sub: "k + n \<le> len \<Longrightarrow> mem_range (a + of_nat k) n \<subseteq> mem_range a len"
proof
  fix x assume "k + n \<le> len" "x \<in> mem_range (a + of_nat k) n"
  then obtain i where "x = a + of_nat (k + i)" "k + i < len"
    by (auto simp: mem_range_def add.assoc)
  then show "x \<in> mem_range a len" unfolding mem_range_def by blast
qed

lemma ucast_add_no_wrap:
  assumes "unat (v :: u32) + n < 2 ^ 32"
  shows "ucast (v + of_nat n) = (ucast v + of_nat n :: u64)"
proof -
  have "unat (v + of_nat n) = unat v + n"
    using assms by (simp add: unat_word_ariths unat_of_nat take_bit_nat_eq_self)
  then have "(of_nat (unat (v + of_nat n)) :: u64) = of_nat (unat v) + of_nat n"
    by simp
  then show ?thesis by simp
qed

lemma unat_u32_add: "unat v + n < 2 ^ 32 \<Longrightarrow> unat (v + of_nat n :: u32) = unat v + n"
  by (simp add: unat_word_ariths unat_of_nat take_bit_nat_eq_self)

lemma unat_ucast_32_64: "unat (ucast (v :: u32) :: u64) = unat v"
proof -
  have "unat v < 2 ^ 32" using unsigned_less [of v] by simp
  then show ?thesis by (simp add: unsigned_ucast_eq take_bit_nat_eq_self)
qed

lemma unat_window: "unat (ucast (v :: u32) + 8 :: u64) = unat v + 8"
proof -
  have "unat v < 2 ^ 32" using unsigned_less [of v] by simp
  then show ?thesis by (simp add: unat_word_ariths unat_ucast_32_64)
qed

lemma aligned_room: "unat ((v :: u32) AND NOT 0xf) + 16 \<le> 2 ^ 32"
proof -
  have "v AND NOT 0xf \<le> NOT 0xf" by (rule word_and_le1)
  then have "unat (v AND NOT 0xf) \<le> unat (NOT 0xf :: u32)" by (rule word_le_nat_alt [THEN iffD1])
  then show ?thesis by simp
qed

locale dma_bus =
  fixes rd :: "'m \<Rightarrow> u64 \<Rightarrow> nat \<Rightarrow> u8 list"
    and wr :: "'m \<Rightarrow> u64 \<Rightarrow> u8 list \<Rightarrow> 'm"
  assumes length_rd: "length (rd m a n) = n"
    and rd_wr_same: "length bs < 2 ^ 64 \<Longrightarrow> rd (wr m a bs) a (length bs) = bs"
    and rd_wr_other: "mem_range a (length bs) \<inter> mem_range b n = {} \<Longrightarrow>
          rd (wr m a bs) b n = rd m b n"
    and rd_split: "rd m a (n + k) = rd m a n @ rd m (a + of_nat n) k"
begin

text \<open>Reads of a part of a longer read.\<close>

lemma rd_take: "k \<le> n \<Longrightarrow> take k (rd m a n) = rd m a k"
  using rd_split [of m a k "n - k"] by (simp add: length_rd)

lemma rd_drop: "k \<le> n \<Longrightarrow> drop k (rd m a n) = rd m (a + of_nat k) (n - k)"
  using rd_split [of m a k "n - k"] by (simp add: length_rd)

lemma rd_wr_sub:
  assumes "length bs < 2 ^ 64" and "k + n \<le> length bs"
  shows "rd (wr m a bs) (a + of_nat k) n = take n (drop k bs)"
proof -
  have "rd (wr m a bs) (a + of_nat k) (length bs - k) = drop k bs"
    using rd_drop [of k "length bs" "wr m a bs" a] assms by (simp add: rd_wr_same)
  then show ?thesis
    using rd_take [of n "length bs - k" "wr m a bs" "a + of_nat k"] assms by simp
qed

lemma rd_wr_prefix:
  assumes "length bs < 2 ^ 64" and "k \<le> length bs"
  shows "rd (wr m a bs) a k = take k bs"
  using rd_take [OF assms(2), of "wr m a bs" a] assms(1) by (simp add: rd_wr_same)

lemma length_rd_simp [simp]: "length (rd m a n) = n"
  by (rule length_rd)

lemma ld32_st32: "of_le32 (rd (wr m a (le32 v)) a 4) = v"
  using rd_wr_same [of "le32 v" m a] by simp

lemma ld32_st32_other:
  "mem_range a 4 \<inter> mem_range b 4 = {} \<Longrightarrow>
     of_le32 (rd (wr m a (le32 v)) b 4) = of_le32 (rd m b 4)"
  by (simp add: rd_wr_other)

end

text \<open>Flat RAM: the byte at each address.\<close>

type_synonym ram = "u64 \<Rightarrow> u8"

definition ram_read :: "ram \<Rightarrow> u64 \<Rightarrow> nat \<Rightarrow> u8 list" where
  "ram_read m a n = map (\<lambda>i. m (a + of_nat i)) [0..<n]"

definition ram_write :: "ram \<Rightarrow> u64 \<Rightarrow> u8 list \<Rightarrow> ram" where
  "ram_write m a bs =
     (\<lambda>x. if unat (x - a) < length bs then bs ! unat (x - a) else m x)"

lemma unat_of_nat_diff:
  fixes a :: u64
  assumes "i < 2 ^ 64"
  shows "unat (a + of_nat i - a) = i"
  using assms by (simp add: unat_of_nat take_bit_nat_eq_self)

interpretation ram: dma_bus ram_read ram_write
proof
  fix m :: ram and a b :: u64 and n k :: nat and bs :: "u8 list"
  show "length (ram_read m a n) = n"
    by (simp add: ram_read_def)
  show "length bs < 2 ^ 64 \<Longrightarrow> ram_read (ram_write m a bs) a (length bs) = bs"
    by (rule nth_equalityI)
      (auto simp: ram_read_def ram_write_def unat_of_nat take_bit_nat_eq_self)
  have "map (\<lambda>i. m (a + of_nat i)) [n..<n + k] = map (\<lambda>i. m (a + of_nat n + of_nat i)) [0..<k]"
    by (rule nth_equalityI) (simp_all add: add.assoc)
  then show "ram_read m a (n + k) = ram_read m a n @ ram_read m (a + of_nat n) k"
    using upt_add_eq_append [of 0 n k] by (simp add: ram_read_def)
  assume disj: "mem_range a (length bs) \<inter> mem_range b n = {}"
  have "ram_write m a bs (b + of_nat i) = m (b + of_nat i)" if "i < n" for i
  proof -
    have "b + of_nat i \<in> mem_range b n"
      using that by (auto simp: mem_range_def)
    with disj have "b + of_nat i \<notin> mem_range a (length bs)" by auto
    moreover have "b + of_nat i = a + of_nat (unat (b + of_nat i - a))" by simp
    ultimately have "\<not> unat (b + of_nat i - a) < length bs"
      unfolding mem_range_def by blast
    then show ?thesis by (simp add: ram_write_def)
  qed
  then show "ram_read (ram_write m a bs) b n = ram_read m b n"
    by (simp add: ram_read_def)
qed

end
