(* ===== verification/Gem_Regs.thy ===== *)
theory Gem_Regs
  imports Prelude
begin

text \<open>
  Register map of the Cadence GEM model (\<^verbatim>\<open>qemu-cadence-gem.c\<close>, \<^verbatim>\<open>qemu-cadence-gem.h\<close>): the
  \<open>REG32\<close> offsets and \<open>FIELD\<close> ranges as tables, the word indices and fields the code uses by
  name, and the descriptor, PHY and filter constants.  The theorems at the end state that the
  layouts are well formed (aligned offsets inside the register window, fields inside the
  32-bit register and disjoint) and that the only registers declared at a shared offset are
  the PTP peer registers.
\<close>

named_theorems field_defs \<open>shift and length of the register fields used by name\<close>

section \<open>Register offsets\<close>

text \<open>The \<open>REG32\<close> declarations: register name and byte offset, in source order.\<close>

definition gem_control_registers :: "(string \<times> nat) list" where
  "gem_control_registers =
     [(''NWCTRL'', 0x0), (''NWCFG'', 0x4), (''NWSTATUS'', 0x8), (''USERIO'', 0xc),
      (''DMACFG'', 0x10), (''TXSTATUS'', 0x14), (''RXQBASE'', 0x18), (''TXQBASE'', 0x1c),
      (''RXSTATUS'', 0x20), (''ISR'', 0x24), (''IER'', 0x28), (''IDR'', 0x2c),
      (''IMR'', 0x30), (''PHYMNTNC'', 0x34)]"

definition gem_mac_registers :: "(string \<times> nat) list" where
  "gem_mac_registers =
     [(''RXPAUSE'', 0x38), (''TXPAUSE'', 0x3c), (''TXPARTIALSF'', 0x40), (''RXPARTIALSF'', 0x44),
      (''JUMBO_MAX_LEN'', 0x48), (''HASHLO'', 0x80), (''HASHHI'', 0x84), (''SPADDR1LO'', 0x88),
      (''SPADDR1HI'', 0x8c), (''SPADDR2LO'', 0x90), (''SPADDR2HI'', 0x94), (''SPADDR3LO'', 0x98),
      (''SPADDR3HI'', 0x9c), (''SPADDR4LO'', 0xa0), (''SPADDR4HI'', 0xa4), (''TIDMATCH1'', 0xa8),
      (''TIDMATCH2'', 0xac), (''TIDMATCH3'', 0xb0), (''TIDMATCH4'', 0xb4), (''WOLAN'', 0xb8),
      (''IPGSTRETCH'', 0xbc), (''SVLAN'', 0xc0), (''MODID'', 0xfc)]"

definition gem_stat_registers :: "(string \<times> nat) list" where
  "gem_stat_registers =
     [(''OCTTXLO'', 0x100), (''OCTTXHI'', 0x104), (''TXCNT'', 0x108), (''TXBCNT'', 0x10c),
      (''TXMCNT'', 0x110), (''TXPAUSECNT'', 0x114), (''TX64CNT'', 0x118), (''TX65CNT'', 0x11c),
      (''TX128CNT'', 0x120), (''TX256CNT'', 0x124), (''TX512CNT'', 0x128), (''TX1024CNT'', 0x12c),
      (''TX1519CNT'', 0x130), (''TXURUNCNT'', 0x134), (''SINGLECOLLCNT'', 0x138), (''MULTCOLLCNT'', 0x13c),
      (''EXCESSCOLLCNT'', 0x140), (''LATECOLLCNT'', 0x144), (''DEFERTXCNT'', 0x148), (''CSENSECNT'', 0x14c),
      (''OCTRXLO'', 0x150), (''OCTRXHI'', 0x154), (''RXCNT'', 0x158), (''RXBROADCNT'', 0x15c),
      (''RXMULTICNT'', 0x160), (''RXPAUSECNT'', 0x164), (''RX64CNT'', 0x168), (''RX65CNT'', 0x16c),
      (''RX128CNT'', 0x170), (''RX256CNT'', 0x174), (''RX512CNT'', 0x178), (''RX1024CNT'', 0x17c),
      (''RX1519CNT'', 0x180), (''RXUNDERCNT'', 0x184), (''RXOVERCNT'', 0x188), (''RXJABCNT'', 0x18c),
      (''RXFCSCNT'', 0x190), (''RXLENERRCNT'', 0x194), (''RXSYMERRCNT'', 0x198), (''RXALIGNERRCNT'', 0x19c),
      (''RXRSCERRCNT'', 0x1a0), (''RXORUNCNT'', 0x1a4), (''RXIPCSERRCNT'', 0x1a8), (''RXTCPCCNT'', 0x1ac),
      (''RXUDPCCNT'', 0x1b0)]"

definition gem_ptp_registers :: "(string \<times> nat) list" where
  "gem_ptp_registers =
     [(''1588S'', 0x1d0), (''1588NS'', 0x1d4), (''1588ADJ'', 0x1d8), (''1588INC'', 0x1dc),
      (''PTPETXS'', 0x1e0), (''PTPETXNS'', 0x1e4), (''PTPERXS'', 0x1e8), (''PTPERXNS'', 0x1ec),
      (''PTPPTXS'', 0x1e0), (''PTPPTXNS'', 0x1e4), (''PTPPRXS'', 0x1e8), (''PTPPRXNS'', 0x1ec)]"

definition gem_desconf_registers :: "(string \<times> nat) list" where
  "gem_desconf_registers =
     [(''DESCONF'', 0x280), (''DESCONF2'', 0x284), (''DESCONF3'', 0x288), (''DESCONF4'', 0x28c),
      (''DESCONF5'', 0x290), (''DESCONF6'', 0x294), (''DESCONF7'', 0x298)]"

definition gem_queue_registers :: "(string \<times> nat) list" where
  "gem_queue_registers =
     [(''INT_Q1_STATUS'', 0x400), (''INT_Q1_MASK'', 0x640), (''TRANSMIT_Q1_PTR'', 0x440), (''TRANSMIT_Q7_PTR'', 0x458),
      (''RECEIVE_Q1_PTR'', 0x480), (''RECEIVE_Q7_PTR'', 0x498), (''TBQPH'', 0x4c8), (''RBQPH'', 0x4d4),
      (''INT_Q1_ENABLE'', 0x600), (''INT_Q7_ENABLE'', 0x618), (''INT_Q1_DISABLE'', 0x620), (''INT_Q7_DISABLE'', 0x638)]"

definition gem_screen_registers :: "(string \<times> nat) list" where
  "gem_screen_registers =
     [(''SCREENING_TYPE1_REG0'', 0x500), (''SCREENING_TYPE2_REG0'', 0x540), (''SCREENING_TYPE2_ETHERTYPE_REG0'', 0x6e0), (''TYPE2_COMPARE_0_WORD_0'', 0x700),
      (''TYPE2_COMPARE_0_WORD_1'', 0x704)]"

definition gem_registers :: "(string \<times> nat) list" where
  "gem_registers = gem_control_registers @ gem_mac_registers @ gem_stat_registers @
     gem_ptp_registers @ gem_desconf_registers @ gem_queue_registers @ gem_screen_registers"

text \<open>Word indices \<open>R_<reg>\<close> of the registers the code names.\<close>

definition R_NWCTRL :: nat where [simp]: "R_NWCTRL = 0x0 div 4"
definition R_NWCFG :: nat where [simp]: "R_NWCFG = 0x4 div 4"
definition R_NWSTATUS :: nat where [simp]: "R_NWSTATUS = 0x8 div 4"
definition R_DMACFG :: nat where [simp]: "R_DMACFG = 0x10 div 4"
definition R_TXSTATUS :: nat where [simp]: "R_TXSTATUS = 0x14 div 4"
definition R_RXQBASE :: nat where [simp]: "R_RXQBASE = 0x18 div 4"
definition R_TXQBASE :: nat where [simp]: "R_TXQBASE = 0x1c div 4"
definition R_RXSTATUS :: nat where [simp]: "R_RXSTATUS = 0x20 div 4"
definition R_ISR :: nat where [simp]: "R_ISR = 0x24 div 4"
definition R_IER :: nat where [simp]: "R_IER = 0x28 div 4"
definition R_IDR :: nat where [simp]: "R_IDR = 0x2c div 4"
definition R_IMR :: nat where [simp]: "R_IMR = 0x30 div 4"
definition R_PHYMNTNC :: nat where [simp]: "R_PHYMNTNC = 0x34 div 4"
definition R_TXPAUSE :: nat where [simp]: "R_TXPAUSE = 0x3c div 4"
definition R_TXPARTIALSF :: nat where [simp]: "R_TXPARTIALSF = 0x40 div 4"
definition R_RXPARTIALSF :: nat where [simp]: "R_RXPARTIALSF = 0x44 div 4"
definition R_JUMBO_MAX_LEN :: nat where [simp]: "R_JUMBO_MAX_LEN = 0x48 div 4"
definition R_HASHLO :: nat where [simp]: "R_HASHLO = 0x80 div 4"
definition R_HASHHI :: nat where [simp]: "R_HASHHI = 0x84 div 4"
definition R_SPADDR1LO :: nat where [simp]: "R_SPADDR1LO = 0x88 div 4"
definition R_SPADDR1HI :: nat where [simp]: "R_SPADDR1HI = 0x8c div 4"
definition R_SPADDR2LO :: nat where [simp]: "R_SPADDR2LO = 0x90 div 4"
definition R_SPADDR2HI :: nat where [simp]: "R_SPADDR2HI = 0x94 div 4"
definition R_SPADDR3LO :: nat where [simp]: "R_SPADDR3LO = 0x98 div 4"
definition R_SPADDR3HI :: nat where [simp]: "R_SPADDR3HI = 0x9c div 4"
definition R_SPADDR4LO :: nat where [simp]: "R_SPADDR4LO = 0xa0 div 4"
definition R_SPADDR4HI :: nat where [simp]: "R_SPADDR4HI = 0xa4 div 4"
definition R_MODID :: nat where [simp]: "R_MODID = 0xfc div 4"
definition R_OCTTXLO :: nat where [simp]: "R_OCTTXLO = 0x100 div 4"
definition R_OCTTXHI :: nat where [simp]: "R_OCTTXHI = 0x104 div 4"
definition R_TXCNT :: nat where [simp]: "R_TXCNT = 0x108 div 4"
definition R_TXBCNT :: nat where [simp]: "R_TXBCNT = 0x10c div 4"
definition R_TXMCNT :: nat where [simp]: "R_TXMCNT = 0x110 div 4"
definition R_TX64CNT :: nat where [simp]: "R_TX64CNT = 0x118 div 4"
definition R_TX65CNT :: nat where [simp]: "R_TX65CNT = 0x11c div 4"
definition R_TX128CNT :: nat where [simp]: "R_TX128CNT = 0x120 div 4"
definition R_TX256CNT :: nat where [simp]: "R_TX256CNT = 0x124 div 4"
definition R_TX512CNT :: nat where [simp]: "R_TX512CNT = 0x128 div 4"
definition R_TX1024CNT :: nat where [simp]: "R_TX1024CNT = 0x12c div 4"
definition R_TX1519CNT :: nat where [simp]: "R_TX1519CNT = 0x130 div 4"
definition R_OCTRXLO :: nat where [simp]: "R_OCTRXLO = 0x150 div 4"
definition R_OCTRXHI :: nat where [simp]: "R_OCTRXHI = 0x154 div 4"
definition R_RXCNT :: nat where [simp]: "R_RXCNT = 0x158 div 4"
definition R_RXBROADCNT :: nat where [simp]: "R_RXBROADCNT = 0x15c div 4"
definition R_RXMULTICNT :: nat where [simp]: "R_RXMULTICNT = 0x160 div 4"
definition R_RX64CNT :: nat where [simp]: "R_RX64CNT = 0x168 div 4"
definition R_RX65CNT :: nat where [simp]: "R_RX65CNT = 0x16c div 4"
definition R_RX128CNT :: nat where [simp]: "R_RX128CNT = 0x170 div 4"
definition R_RX256CNT :: nat where [simp]: "R_RX256CNT = 0x174 div 4"
definition R_RX512CNT :: nat where [simp]: "R_RX512CNT = 0x178 div 4"
definition R_RX1024CNT :: nat where [simp]: "R_RX1024CNT = 0x17c div 4"
definition R_RX1519CNT :: nat where [simp]: "R_RX1519CNT = 0x180 div 4"
definition R_DESCONF :: nat where [simp]: "R_DESCONF = 0x280 div 4"
definition R_DESCONF2 :: nat where [simp]: "R_DESCONF2 = 0x284 div 4"
definition R_DESCONF5 :: nat where [simp]: "R_DESCONF5 = 0x290 div 4"
definition R_DESCONF6 :: nat where [simp]: "R_DESCONF6 = 0x294 div 4"
definition R_INT_Q1_STATUS :: nat where [simp]: "R_INT_Q1_STATUS = 0x400 div 4"
definition R_INT_Q1_MASK :: nat where [simp]: "R_INT_Q1_MASK = 0x640 div 4"
definition R_TRANSMIT_Q1_PTR :: nat where [simp]: "R_TRANSMIT_Q1_PTR = 0x440 div 4"
definition R_TRANSMIT_Q7_PTR :: nat where [simp]: "R_TRANSMIT_Q7_PTR = 0x458 div 4"
definition R_RECEIVE_Q1_PTR :: nat where [simp]: "R_RECEIVE_Q1_PTR = 0x480 div 4"
definition R_RECEIVE_Q7_PTR :: nat where [simp]: "R_RECEIVE_Q7_PTR = 0x498 div 4"
definition R_TBQPH :: nat where [simp]: "R_TBQPH = 0x4c8 div 4"
definition R_RBQPH :: nat where [simp]: "R_RBQPH = 0x4d4 div 4"
definition R_INT_Q1_ENABLE :: nat where [simp]: "R_INT_Q1_ENABLE = 0x600 div 4"
definition R_INT_Q7_ENABLE :: nat where [simp]: "R_INT_Q7_ENABLE = 0x618 div 4"
definition R_INT_Q1_DISABLE :: nat where [simp]: "R_INT_Q1_DISABLE = 0x620 div 4"
definition R_INT_Q7_DISABLE :: nat where [simp]: "R_INT_Q7_DISABLE = 0x638 div 4"
definition R_SCREENING_TYPE1_REG0 :: nat where [simp]: "R_SCREENING_TYPE1_REG0 = 0x500 div 4"
definition R_SCREENING_TYPE2_REG0 :: nat where [simp]: "R_SCREENING_TYPE2_REG0 = 0x540 div 4"
definition R_SCREENING_TYPE2_ETHERTYPE_REG0 :: nat where [simp]: "R_SCREENING_TYPE2_ETHERTYPE_REG0 = 0x6e0 div 4"
definition R_TYPE2_COMPARE_0_WORD_0 :: nat where [simp]: "R_TYPE2_COMPARE_0_WORD_0 = 0x700 div 4"
definition R_TYPE2_COMPARE_0_WORD_1 :: nat where [simp]: "R_TYPE2_COMPARE_0_WORD_1 = 0x704 div 4"

section \<open>Register fields\<close>

definition NWCTRL_layout :: "(string \<times> field) list" where
  "NWCTRL_layout =
     [(''LOOPBACK'', (0, 1)), (''LOOPBACK_LOCAL'', (1, 1)), (''ENABLE_RECEIVE'', (2, 1)),
      (''ENABLE_TRANSMIT'', (3, 1)), (''MAN_PORT_EN'', (4, 1)), (''CLEAR_ALL_STATS_REGS'', (5, 1)),
      (''INC_ALL_STATS_REGS'', (6, 1)), (''STATS_WRITE_EN'', (7, 1)), (''BACK_PRESSURE'', (8, 1)),
      (''TRANSMIT_START'', (9, 1)), (''TRANSMIT_HALT'', (10, 1)), (''TX_PAUSE_FRAME_RE'', (11, 1)),
      (''TX_PAUSE_FRAME_ZE'', (12, 1)), (''STATS_TAKE_SNAP'', (13, 1)), (''STATS_READ_SNAP'', (14, 1)),
      (''STORE_RX_TS'', (15, 1)), (''PFC_ENABLE'', (16, 1)), (''PFC_PRIO_BASED'', (17, 1)),
      (''FLUSH_RX_PKT_PCLK'', (18, 1)), (''TX_LPI_EN'', (19, 1)), (''PTP_UNICAST_ENA'', (20, 1)),
      (''ALT_SGMII_MODE'', (21, 1)), (''STORE_UDP_OFFSET'', (22, 1)), (''EXT_TSU_PORT_EN'', (23, 1)),
      (''ONE_STEP_SYNC_MO'', (24, 1)), (''PFC_CTRL'', (25, 1)), (''EXT_RXQ_SEL_EN'', (26, 1)),
      (''OSS_CORRECTION_FIELD'', (27, 1)), (''SEL_MII_ON_RGMII'', (28, 1)), (''TWO_PT_FIVE_GIG'', (29, 1)),
      (''IFG_EATS_QAV_CREDIT'', (30, 1))]"

definition NWCFG_layout :: "(string \<times> field) list" where
  "NWCFG_layout =
     [(''SPEED'', (0, 1)), (''FULL_DUPLEX'', (1, 1)), (''DISCARD_NON_VLAN_FRAMES'', (2, 1)),
      (''JUMBO_FRAMES'', (3, 1)), (''PROMISC'', (4, 1)), (''NO_BROADCAST'', (5, 1)),
      (''MULTICAST_HASH_EN'', (6, 1)), (''UNICAST_HASH_EN'', (7, 1)), (''RECV_1536_BYTE_FRAMES'', (8, 1)),
      (''EXTERNAL_ADDR_MATCH_EN'', (9, 1)), (''GIGABIT_MODE_ENABLE'', (10, 1)), (''PCS_SELECT'', (11, 1)),
      (''RETRY_TEST'', (12, 1)), (''PAUSE_ENABLE'', (13, 1)), (''RECV_BUF_OFFSET'', (14, 2)),
      (''LEN_ERR_DISCARD'', (16, 1)), (''FCS_REMOVE'', (17, 1)), (''MDC_CLOCK_DIV'', (18, 3)),
      (''DATA_BUS_WIDTH'', (21, 2)), (''DISABLE_COPY_PAUSE_FRAMES'', (23, 1)), (''RECV_CSUM_OFFLOAD_EN'', (24, 1)),
      (''EN_HALF_DUPLEX_RX'', (25, 1)), (''IGNORE_RX_FCS'', (26, 1)), (''SGMII_MODE_ENABLE'', (27, 1)),
      (''IPG_STRETCH_ENABLE'', (28, 1)), (''NSP_ACCEPT'', (29, 1)), (''IGNORE_IPG_RX_ER'', (30, 1)),
      (''UNI_DIRECTION_ENABLE'', (31, 1))]"

definition DMACFG_layout :: "(string \<times> field) list" where
  "DMACFG_layout =
     [(''SEND_BCAST_TO_ALL_QS'', (31, 1)), (''DMA_ADDR_BUS_WIDTH'', (30, 1)), (''TX_BD_EXT_MODE_EN'', (29, 1)),
      (''RX_BD_EXT_MODE_EN'', (28, 1)), (''FORCE_MAX_AMBA_BURST_TX'', (26, 1)), (''FORCE_MAX_AMBA_BURST_RX'', (25, 1)),
      (''FORCE_DISCARD_ON_ERR'', (24, 1)), (''RX_BUF_SIZE'', (16, 8)), (''CRC_ERROR_REPORT'', (13, 1)),
      (''INF_LAST_DBUF_SIZE_EN'', (12, 1)), (''TX_PBUF_CSUM_OFFLOAD'', (11, 1)), (''TX_PBUF_SIZE'', (10, 1)),
      (''RX_PBUF_SIZE'', (8, 2)), (''ENDIAN_SWAP_PACKET'', (7, 1)), (''ENDIAN_SWAP_MGNT'', (6, 1)),
      (''HDR_DATA_SPLIT_EN'', (5, 1)), (''AMBA_BURST_LEN'', (0, 5))]"

definition TXSTATUS_layout :: "(string \<times> field) list" where
  "TXSTATUS_layout =
     [(''TX_USED_BIT_READ_MIDFRAME'', (12, 1)), (''TX_FRAME_TOO_LARGE'', (11, 1)), (''TX_DMA_LOCKUP'', (10, 1)),
      (''TX_MAC_LOCKUP'', (9, 1)), (''RESP_NOT_OK'', (8, 1)), (''LATE_COLLISION'', (7, 1)),
      (''TRANSMIT_UNDER_RUN'', (6, 1)), (''TRANSMIT_COMPLETE'', (5, 1)), (''AMBA_ERROR'', (4, 1)),
      (''TRANSMIT_GO'', (3, 1)), (''RETRY_LIMIT'', (2, 1)), (''COLLISION'', (1, 1)),
      (''USED_BIT_READ'', (0, 1))]"

definition RXSTATUS_layout :: "(string \<times> field) list" where
  "RXSTATUS_layout =
     [(''RX_DMA_LOCKUP'', (5, 1)), (''RX_MAC_LOCKUP'', (4, 1)), (''RESP_NOT_OK'', (3, 1)),
      (''RECEIVE_OVERRUN'', (2, 1)), (''FRAME_RECEIVED'', (1, 1)), (''BUF_NOT_AVAILABLE'', (0, 1))]"

definition ISR_layout :: "(string \<times> field) list" where
  "ISR_layout =
     [(''TX_LOCKUP'', (31, 1)), (''RX_LOCKUP'', (30, 1)), (''TSU_TIMER'', (29, 1)),
      (''WOL'', (28, 1)), (''RECV_LPI'', (27, 1)), (''TSU_SEC_INCR'', (26, 1)),
      (''PTP_PDELAY_RESP_XMIT'', (25, 1)), (''PTP_PDELAY_REQ_XMIT'', (24, 1)), (''PTP_PDELAY_RESP_RECV'', (23, 1)),
      (''PTP_PDELAY_REQ_RECV'', (22, 1)), (''PTP_SYNC_XMIT'', (21, 1)), (''PTP_DELAY_REQ_XMIT'', (20, 1)),
      (''PTP_SYNC_RECV'', (19, 1)), (''PTP_DELAY_REQ_RECV'', (18, 1)), (''PCS_LP_PAGE_RECV'', (17, 1)),
      (''PCS_AN_COMPLETE'', (16, 1)), (''EXT_IRQ'', (15, 1)), (''PAUSE_FRAME_XMIT'', (14, 1)),
      (''PAUSE_TIME_ELAPSED'', (13, 1)), (''PAUSE_FRAME_RECV'', (12, 1)), (''RESP_NOT_OK'', (11, 1)),
      (''RECV_OVERRUN'', (10, 1)), (''LINK_CHANGE'', (9, 1)), (''USXGMII_INT'', (8, 1)),
      (''XMIT_COMPLETE'', (7, 1)), (''AMBA_ERROR'', (6, 1)), (''RETRY_EXCEEDED'', (5, 1)),
      (''XMIT_UNDER_RUN'', (4, 1)), (''TX_USED'', (3, 1)), (''RX_USED'', (2, 1)),
      (''RECV_COMPLETE'', (1, 1)), (''MGNT_FRAME_SENT'', (0, 1))]"

definition PHYMNTNC_layout :: "(string \<times> field) list" where
  "PHYMNTNC_layout =
     [(''DATA'', (0, 16)), (''REG_ADDR'', (18, 5)), (''PHY_ADDR'', (23, 5)),
      (''OP'', (28, 2)), (''ST'', (30, 2))]"

definition DESCONF6_layout :: "(string \<times> field) list" where
  "DESCONF6_layout =
     [(''DMA_ADDR_64B'', (23, 1))]"

definition SCREENING_TYPE1_REG0_layout :: "(string \<times> field) list" where
  "SCREENING_TYPE1_REG0_layout =
     [(''QUEUE_NUM'', (0, 4)), (''DSTC_MATCH'', (4, 8)), (''UDP_PORT_MATCH'', (12, 16)),
      (''DSTC_ENABLE'', (28, 1)), (''UDP_PORT_MATCH_EN'', (29, 1)), (''DROP_ON_MATCH'', (30, 1))]"

definition SCREENING_TYPE2_REG0_layout :: "(string \<times> field) list" where
  "SCREENING_TYPE2_REG0_layout =
     [(''QUEUE_NUM'', (0, 4)), (''VLAN_PRIORITY'', (4, 3)), (''VLAN_ENABLE'', (8, 1)),
      (''ETHERTYPE_REG_INDEX'', (9, 3)), (''ETHERTYPE_ENABLE'', (12, 1)), (''COMPARE_A'', (13, 5)),
      (''COMPARE_A_ENABLE'', (18, 1)), (''COMPARE_B'', (19, 5)), (''COMPARE_B_ENABLE'', (24, 1)),
      (''COMPARE_C'', (25, 5)), (''COMPARE_C_ENABLE'', (30, 1)), (''DROP_ON_MATCH'', (31, 1))]"

definition TYPE2_COMPARE_0_WORD_0_layout :: "(string \<times> field) list" where
  "TYPE2_COMPARE_0_WORD_0_layout =
     [(''MASK_VALUE'', (0, 16)), (''COMPARE_VALUE'', (16, 16))]"

definition TYPE2_COMPARE_0_WORD_1_layout :: "(string \<times> field) list" where
  "TYPE2_COMPARE_0_WORD_1_layout =
     [(''OFFSET_VALUE'', (0, 7)), (''COMPARE_OFFSET'', (7, 2)), (''DISABLE_MASK'', (9, 1)),
      (''COMPARE_VLAN_ID'', (10, 1))]"

definition gem_layouts :: "(string \<times> field) list list" where
  "gem_layouts =
     [NWCTRL_layout, NWCFG_layout, DMACFG_layout, TXSTATUS_layout, RXSTATUS_layout, ISR_layout, PHYMNTNC_layout, DESCONF6_layout, SCREENING_TYPE1_REG0_layout, SCREENING_TYPE2_REG0_layout, TYPE2_COMPARE_0_WORD_0_layout, TYPE2_COMPARE_0_WORD_1_layout]"

text \<open>The fields the code reads or writes.\<close>

definition NWCTRL_LOOPBACK_LOCAL :: field where [field_defs]: "NWCTRL_LOOPBACK_LOCAL = (1, 1)"
definition NWCTRL_ENABLE_RECEIVE :: field where [field_defs]: "NWCTRL_ENABLE_RECEIVE = (2, 1)"
definition NWCTRL_ENABLE_TRANSMIT :: field where [field_defs]: "NWCTRL_ENABLE_TRANSMIT = (3, 1)"
definition NWCTRL_TRANSMIT_START :: field where [field_defs]: "NWCTRL_TRANSMIT_START = (9, 1)"
definition NWCFG_JUMBO_FRAMES :: field where [field_defs]: "NWCFG_JUMBO_FRAMES = (3, 1)"
definition NWCFG_PROMISC :: field where [field_defs]: "NWCFG_PROMISC = (4, 1)"
definition NWCFG_NO_BROADCAST :: field where [field_defs]: "NWCFG_NO_BROADCAST = (5, 1)"
definition NWCFG_MULTICAST_HASH_EN :: field where [field_defs]: "NWCFG_MULTICAST_HASH_EN = (6, 1)"
definition NWCFG_UNICAST_HASH_EN :: field where [field_defs]: "NWCFG_UNICAST_HASH_EN = (7, 1)"
definition NWCFG_RECV_1536_BYTE_FRAMES :: field where [field_defs]: "NWCFG_RECV_1536_BYTE_FRAMES = (8, 1)"
definition NWCFG_RECV_BUF_OFFSET :: field where [field_defs]: "NWCFG_RECV_BUF_OFFSET = (14, 2)"
definition NWCFG_LEN_ERR_DISCARD :: field where [field_defs]: "NWCFG_LEN_ERR_DISCARD = (16, 1)"
definition NWCFG_FCS_REMOVE :: field where [field_defs]: "NWCFG_FCS_REMOVE = (17, 1)"
definition DMACFG_DMA_ADDR_BUS_WIDTH :: field where [field_defs]: "DMACFG_DMA_ADDR_BUS_WIDTH = (30, 1)"
definition DMACFG_TX_BD_EXT_MODE_EN :: field where [field_defs]: "DMACFG_TX_BD_EXT_MODE_EN = (29, 1)"
definition DMACFG_RX_BD_EXT_MODE_EN :: field where [field_defs]: "DMACFG_RX_BD_EXT_MODE_EN = (28, 1)"
definition DMACFG_RX_BUF_SIZE :: field where [field_defs]: "DMACFG_RX_BUF_SIZE = (16, 8)"
definition DMACFG_TX_PBUF_CSUM_OFFLOAD :: field where [field_defs]: "DMACFG_TX_PBUF_CSUM_OFFLOAD = (11, 1)"
definition TXSTATUS_TRANSMIT_COMPLETE :: field where [field_defs]: "TXSTATUS_TRANSMIT_COMPLETE = (5, 1)"
definition TXSTATUS_USED_BIT_READ :: field where [field_defs]: "TXSTATUS_USED_BIT_READ = (0, 1)"
definition RXSTATUS_FRAME_RECEIVED :: field where [field_defs]: "RXSTATUS_FRAME_RECEIVED = (1, 1)"
definition RXSTATUS_BUF_NOT_AVAILABLE :: field where [field_defs]: "RXSTATUS_BUF_NOT_AVAILABLE = (0, 1)"
definition ISR_XMIT_COMPLETE :: field where [field_defs]: "ISR_XMIT_COMPLETE = (7, 1)"
definition ISR_AMBA_ERROR :: field where [field_defs]: "ISR_AMBA_ERROR = (6, 1)"
definition ISR_TX_USED :: field where [field_defs]: "ISR_TX_USED = (3, 1)"
definition ISR_RX_USED :: field where [field_defs]: "ISR_RX_USED = (2, 1)"
definition ISR_RECV_COMPLETE :: field where [field_defs]: "ISR_RECV_COMPLETE = (1, 1)"
definition PHYMNTNC_DATA :: field where [field_defs]: "PHYMNTNC_DATA = (0, 16)"
definition PHYMNTNC_REG_ADDR :: field where [field_defs]: "PHYMNTNC_REG_ADDR = (18, 5)"
definition PHYMNTNC_PHY_ADDR :: field where [field_defs]: "PHYMNTNC_PHY_ADDR = (23, 5)"
definition PHYMNTNC_OP :: field where [field_defs]: "PHYMNTNC_OP = (28, 2)"
definition DESCONF6_DMA_ADDR_64B :: field where [field_defs]: "DESCONF6_DMA_ADDR_64B = (23, 1)"
definition SCREENING_TYPE1_REG0_QUEUE_NUM :: field where [field_defs]: "SCREENING_TYPE1_REG0_QUEUE_NUM = (0, 4)"
definition SCREENING_TYPE1_REG0_DSTC_MATCH :: field where [field_defs]: "SCREENING_TYPE1_REG0_DSTC_MATCH = (4, 8)"
definition SCREENING_TYPE1_REG0_UDP_PORT_MATCH :: field where [field_defs]: "SCREENING_TYPE1_REG0_UDP_PORT_MATCH = (12, 16)"
definition SCREENING_TYPE1_REG0_DSTC_ENABLE :: field where [field_defs]: "SCREENING_TYPE1_REG0_DSTC_ENABLE = (28, 1)"
definition SCREENING_TYPE1_REG0_UDP_PORT_MATCH_EN :: field where [field_defs]: "SCREENING_TYPE1_REG0_UDP_PORT_MATCH_EN = (29, 1)"
definition SCREENING_TYPE2_REG0_QUEUE_NUM :: field where [field_defs]: "SCREENING_TYPE2_REG0_QUEUE_NUM = (0, 4)"
definition SCREENING_TYPE2_REG0_ETHERTYPE_REG_INDEX :: field where [field_defs]: "SCREENING_TYPE2_REG0_ETHERTYPE_REG_INDEX = (9, 3)"
definition SCREENING_TYPE2_REG0_ETHERTYPE_ENABLE :: field where [field_defs]: "SCREENING_TYPE2_REG0_ETHERTYPE_ENABLE = (12, 1)"
definition SCREENING_TYPE2_REG0_COMPARE_A :: field where [field_defs]: "SCREENING_TYPE2_REG0_COMPARE_A = (13, 5)"
definition SCREENING_TYPE2_REG0_COMPARE_A_ENABLE :: field where [field_defs]: "SCREENING_TYPE2_REG0_COMPARE_A_ENABLE = (18, 1)"
definition TYPE2_COMPARE_0_WORD_0_MASK_VALUE :: field where [field_defs]: "TYPE2_COMPARE_0_WORD_0_MASK_VALUE = (0, 16)"
definition TYPE2_COMPARE_0_WORD_0_COMPARE_VALUE :: field where [field_defs]: "TYPE2_COMPARE_0_WORD_0_COMPARE_VALUE = (16, 16)"
definition TYPE2_COMPARE_0_WORD_1_OFFSET_VALUE :: field where [field_defs]: "TYPE2_COMPARE_0_WORD_1_OFFSET_VALUE = (0, 7)"
definition TYPE2_COMPARE_0_WORD_1_COMPARE_OFFSET :: field where [field_defs]: "TYPE2_COMPARE_0_WORD_1_COMPARE_OFFSET = (7, 2)"
definition TYPE2_COMPARE_0_WORD_1_DISABLE_MASK :: field where [field_defs]: "TYPE2_COMPARE_0_WORD_1_DISABLE_MASK = (9, 1)"

section \<open>Constants\<close>

definition GEM_DMACFG_RBUFSZ_MUL :: nat where [simp]: "GEM_DMACFG_RBUFSZ_MUL = 64"
definition MDIO_OP_READ :: u32 where [simp]: "MDIO_OP_READ = 0x2"
definition MDIO_OP_WRITE :: u32 where [simp]: "MDIO_OP_WRITE = 0x1"
definition BOARD_PHY_ADDRESS :: u8 where [simp]: "BOARD_PHY_ADDRESS = 0"
definition PHY_REG_CONTROL :: nat where [simp]: "PHY_REG_CONTROL = 0"
definition PHY_REG_STATUS :: nat where [simp]: "PHY_REG_STATUS = 1"
definition PHY_REG_PHYID1 :: nat where [simp]: "PHY_REG_PHYID1 = 2"
definition PHY_REG_PHYID2 :: nat where [simp]: "PHY_REG_PHYID2 = 3"
definition PHY_REG_ANEGADV :: nat where [simp]: "PHY_REG_ANEGADV = 4"
definition PHY_REG_LINKPABIL :: nat where [simp]: "PHY_REG_LINKPABIL = 5"
definition PHY_REG_ANEGEXP :: nat where [simp]: "PHY_REG_ANEGEXP = 6"
definition PHY_REG_NEXTP :: nat where [simp]: "PHY_REG_NEXTP = 7"
definition PHY_REG_LINKPNEXTP :: nat where [simp]: "PHY_REG_LINKPNEXTP = 8"
definition PHY_REG_100BTCTRL :: nat where [simp]: "PHY_REG_100BTCTRL = 9"
definition PHY_REG_1000BTSTAT :: nat where [simp]: "PHY_REG_1000BTSTAT = 10"
definition PHY_REG_EXTSTAT :: nat where [simp]: "PHY_REG_EXTSTAT = 15"
definition PHY_REG_PHYSPCFC_CTL :: nat where [simp]: "PHY_REG_PHYSPCFC_CTL = 16"
definition PHY_REG_PHYSPCFC_ST :: nat where [simp]: "PHY_REG_PHYSPCFC_ST = 17"
definition PHY_REG_INT_EN :: nat where [simp]: "PHY_REG_INT_EN = 18"
definition PHY_REG_INT_ST :: nat where [simp]: "PHY_REG_INT_ST = 19"
definition PHY_REG_EXT_PHYSPCFC_CTL :: nat where [simp]: "PHY_REG_EXT_PHYSPCFC_CTL = 20"
definition PHY_REG_RXERR :: nat where [simp]: "PHY_REG_RXERR = 21"
definition PHY_REG_EACD :: nat where [simp]: "PHY_REG_EACD = 22"
definition PHY_REG_LED :: nat where [simp]: "PHY_REG_LED = 24"
definition PHY_REG_LED_OVRD :: nat where [simp]: "PHY_REG_LED_OVRD = 25"
definition PHY_REG_EXT_PHYSPCFC_CTL2 :: nat where [simp]: "PHY_REG_EXT_PHYSPCFC_CTL2 = 26"
definition PHY_REG_EXT_PHYSPCFC_ST :: nat where [simp]: "PHY_REG_EXT_PHYSPCFC_ST = 27"
definition PHY_REG_CABLE_DIAG :: nat where [simp]: "PHY_REG_CABLE_DIAG = 28"
definition PHY_REG_CONTROL_RST :: u16 where [simp]: "PHY_REG_CONTROL_RST = 0x8000"
definition PHY_REG_CONTROL_LOOP :: u16 where [simp]: "PHY_REG_CONTROL_LOOP = 0x4000"
definition PHY_REG_CONTROL_ANEG :: u16 where [simp]: "PHY_REG_CONTROL_ANEG = 0x1000"
definition PHY_REG_CONTROL_ANRESTART :: u16 where [simp]: "PHY_REG_CONTROL_ANRESTART = 0x0200"
definition PHY_REG_STATUS_LINK :: u16 where [simp]: "PHY_REG_STATUS_LINK = 0x0004"
definition PHY_REG_STATUS_ANEGCMPL :: u16 where [simp]: "PHY_REG_STATUS_ANEGCMPL = 0x0020"
definition PHY_REG_INT_ST_ANEGCMPL :: u16 where [simp]: "PHY_REG_INT_ST_ANEGCMPL = 0x0800"
definition PHY_REG_INT_ST_LINKC :: u16 where [simp]: "PHY_REG_INT_ST_LINKC = 0x0400"
definition PHY_REG_INT_ST_ENERGY :: u16 where [simp]: "PHY_REG_INT_ST_ENERGY = 0x0010"
definition GEM_RX_REJECT :: int where [simp]: "GEM_RX_REJECT = -1"
definition GEM_RX_PROMISCUOUS_ACCEPT :: int where [simp]: "GEM_RX_PROMISCUOUS_ACCEPT = -2"
definition GEM_RX_BROADCAST_ACCEPT :: int where [simp]: "GEM_RX_BROADCAST_ACCEPT = -3"
definition GEM_RX_MULTICAST_HASH_ACCEPT :: int where [simp]: "GEM_RX_MULTICAST_HASH_ACCEPT = -4"
definition GEM_RX_UNICAST_HASH_ACCEPT :: int where [simp]: "GEM_RX_UNICAST_HASH_ACCEPT = -5"
definition GEM_RX_SAR_ACCEPT :: int where [simp]: "GEM_RX_SAR_ACCEPT = 0"
definition DESC_1_USED :: u32 where [simp]: "DESC_1_USED = 0x80000000"
definition DESC_1_LENGTH :: u32 where [simp]: "DESC_1_LENGTH = 0x00001FFF"
definition DESC_1_TX_WRAP :: u32 where [simp]: "DESC_1_TX_WRAP = 0x40000000"
definition DESC_1_TX_LAST :: u32 where [simp]: "DESC_1_TX_LAST = 0x00008000"
definition DESC_0_RX_WRAP :: u32 where [simp]: "DESC_0_RX_WRAP = 0x00000002"
definition DESC_0_RX_OWNERSHIP :: u32 where [simp]: "DESC_0_RX_OWNERSHIP = 0x00000001"
definition R_DESC_1_RX_SAR_SHIFT :: nat where [simp]: "R_DESC_1_RX_SAR_SHIFT = 25"
definition R_DESC_1_RX_SAR_LENGTH :: nat where [simp]: "R_DESC_1_RX_SAR_LENGTH = 2"
definition R_DESC_1_RX_SAR_MATCH :: u32 where [simp]: "R_DESC_1_RX_SAR_MATCH = push_bit 27 1"
definition R_DESC_1_RX_UNICAST_HASH :: u32 where [simp]: "R_DESC_1_RX_UNICAST_HASH = push_bit 29 1"
definition R_DESC_1_RX_MULTICAST_HASH :: u32 where [simp]: "R_DESC_1_RX_MULTICAST_HASH = push_bit 30 1"
definition R_DESC_1_RX_BROADCAST :: u32 where [simp]: "R_DESC_1_RX_BROADCAST = push_bit 31 1"
definition DESC_1_RX_SOF :: u32 where [simp]: "DESC_1_RX_SOF = 0x00004000"
definition DESC_1_RX_EOF :: u32 where [simp]: "DESC_1_RX_EOF = 0x00008000"
definition GEM_MODID_VALUE :: u32 where [simp]: "GEM_MODID_VALUE = 0x00020118"

text \<open>Sizes from the device header.\<close>

definition CADENCE_GEM_MAXREG :: nat where [simp]: "CADENCE_GEM_MAXREG = 0x800 div 4"
definition DESC_MAX_NUM_WORDS :: nat where [simp]: "DESC_MAX_NUM_WORDS = 6"
definition MAX_PRIORITY_QUEUES :: nat where [simp]: "MAX_PRIORITY_QUEUES = 8"
definition MAX_TYPE1_SCREENERS :: nat where [simp]: "MAX_TYPE1_SCREENERS = 16"
definition MAX_TYPE2_SCREENERS :: nat where [simp]: "MAX_TYPE2_SCREENERS = 16"
definition MAX_JUMBO_FRAME_SIZE_MASK :: u32 where [simp]: "MAX_JUMBO_FRAME_SIZE_MASK = 0x3FFF"
definition MAX_FRAME_SIZE :: nat where [simp]: "MAX_FRAME_SIZE = 0x3FFF"

section \<open>Well-formedness of the register map\<close>

text \<open>Two bit ranges share no bit.\<close>

fun fields_disjoint :: "field \<Rightarrow> field \<Rightarrow> bool" where
  "fields_disjoint (s, l) (s', l') \<longleftrightarrow> s + l \<le> s' \<or> s' + l' \<le> s"

fun layout_ok :: "(string \<times> field) list \<Rightarrow> bool" where
  "layout_ok [] = True"
| "layout_ok ((n, f) # fs) =
     (0 < snd f \<and> fst f + snd f \<le> 32 \<and>
      list_all (\<lambda>(n', f'). n \<noteq> n' \<and> fields_disjoint f f') fs \<and> layout_ok fs)"

definition layout_field :: "(string \<times> field) list \<Rightarrow> string \<Rightarrow> field option" where
  "layout_field l n = map_of l n"

lemma layout_ok_disjoint:
  assumes "layout_ok l" and "(n, f) \<in> set l" and "(n', f') \<in> set l" and "n \<noteq> n'"
  shows "fields_disjoint f f'"
  using assms
proof (induction l)
  case Nil
  then show ?case by simp
next
  case (Cons a l)
  have sym: "fields_disjoint f f' = fields_disjoint f' f" for f f' :: field
    by (cases f; cases f') auto
  from Cons show ?case
    by (cases a) (auto simp: list_all_iff sym)
qed

lemma layout_ok_in_word:
  "layout_ok l \<Longrightarrow> (n, f) \<in> set l \<Longrightarrow> fst f + snd f \<le> 32"
  by (induction l rule: layout_ok.induct) auto

text \<open>Depositing into one field of a well-formed layout keeps every other field's value.\<close>

lemma layout_deposit_other:
  assumes "layout_ok l" and "(n, f) \<in> set l" and "(n', f') \<in> set l" and "n \<noteq> n'"
  shows "FIELD_EX32 (FIELD_DP32 v f x) f' = FIELD_EX32 v f'"
  using layout_ok_disjoint [OF assms]
  by (cases f; cases f') (auto simp: FIELD_EX32_def FIELD_DP32_def intro!: extract32_deposit32_other)

lemma gem_layouts_ok: "list_all layout_ok gem_layouts"
  by (simp add: gem_layouts_def NWCTRL_layout_def NWCFG_layout_def DMACFG_layout_def
      TXSTATUS_layout_def RXSTATUS_layout_def ISR_layout_def PHYMNTNC_layout_def
      DESCONF6_layout_def SCREENING_TYPE1_REG0_layout_def SCREENING_TYPE2_REG0_layout_def
      TYPE2_COMPARE_0_WORD_0_layout_def TYPE2_COMPARE_0_WORD_1_layout_def)

lemmas gem_registers_defs = gem_registers_def gem_control_registers_def gem_mac_registers_def
  gem_stat_registers_def gem_ptp_registers_def gem_desconf_registers_def
  gem_queue_registers_def gem_screen_registers_def

lemma gem_registers_in_window:
  "list_all (\<lambda>(n, off). 4 dvd off \<and> off div 4 < CADENCE_GEM_MAXREG) gem_registers"
  by (simp add: gem_registers_defs)

end
