(* ===== verification/Gem_State.thy ===== *)
theory Gem_State
  imports Gem_Regs
begin

text \<open>
  State of the Cadence GEM model and its leaf operations: the device structure of
  \<^verbatim>\<open>qemu-cadence-gem.h\<close>, the descriptor accessors, the interrupt status and line updates,
  the one-time register masks, the emulated PHY and the statistics counters
  (\<^verbatim>\<open>qemu-cadence-gem.c\<close>, lines 425 to 754, 1236 to 1280 and 1436 to 1541).

  The parts of QEMU the device calls and that are not in the repository are the fields of
  \<open>gem_env\<close>: the DMA address space, the CRC and checksum routines, the network layer's
  loopback and flush entry points, and the bytes that lie after a packet buffer in host
  memory.  Host byte order is little-endian.
\<close>

section \<open>State\<close>

text \<open>A C pointer into a byte buffer, read by index; a DMA descriptor, read by word index.\<close>

type_synonym ptr = "nat \<Rightarrow> u8"
type_synonym desc = "nat \<Rightarrow> u32"

text \<open>The PHY part of the device (of the device itself, or of its \<open>phy_consumer\<close>).\<close>

record gem_phy =
  phy_addr :: u8
  phy_regs :: "nat \<Rightarrow> u16"
  phy_loop :: bool
  link_down :: bool

record 'm gem =
  dma_as :: 'm
  nic_sent :: "u8 list list"
  macaddr :: "u8 list"
  irq :: "nat \<Rightarrow> bool"
  num_priority_queues :: nat
  num_type1_screeners :: nat
  num_type2_screeners :: nat
  revision :: u32
  jumbo_max_len :: u16
  pcs_enabled :: bool
  regs :: "nat \<Rightarrow> u32"
  regs_wo :: "nat \<Rightarrow> u32"
  regs_ro :: "nat \<Rightarrow> u32"
  regs_rtc :: "nat \<Rightarrow> u32"
  regs_w1c :: "nat \<Rightarrow> u32"
  phy :: gem_phy
  phy_connected :: bool
  phy_consumer :: "gem_phy option"
  rx_desc_addr :: "nat \<Rightarrow> u32"
  tx_desc_addr :: "nat \<Rightarrow> u32"
  can_rx_state :: nat
  rx_desc :: "nat \<Rightarrow> desc"
  sar_active :: "nat \<Rightarrow> bool"

record 'm gem_env =
  as_read :: "'m \<Rightarrow> u64 \<Rightarrow> nat \<Rightarrow> u8 list"
  as_write :: "'m \<Rightarrow> u64 \<Rightarrow> u8 list \<Rightarrow> 'm"
  is_multicast_ether_addr :: "ptr \<Rightarrow> bool"
  crc32 :: "u8 list \<Rightarrow> u32"
  net_checksum_calculate :: "u8 list \<Rightarrow> u8 list"
  qemu_receive_packet :: "'m gem \<Rightarrow> u8 list \<Rightarrow> 'm gem"
  qemu_flush_queued_packets :: "'m gem \<Rightarrow> 'm gem"
  beyond :: ptr

definition buf_ptr :: "'m gem_env \<Rightarrow> u8 list \<Rightarrow> ptr" where
  "buf_ptr e buf = (\<lambda>i. if i < length buf then buf ! i else beyond e i)"

lemma map_buf_ptr: "n = length buf \<Longrightarrow> map (buf_ptr e buf) [0..<n] = buf"
  by (rule nth_equalityI) (simp_all add: buf_ptr_def)

definition set_reg :: "nat \<Rightarrow> u32 \<Rightarrow> 'm gem \<Rightarrow> 'm gem" where
  "set_reg r v s = s\<lparr>regs := (regs s)(r := v)\<rparr>"

definition or_reg :: "nat \<Rightarrow> u32 \<Rightarrow> 'm gem \<Rightarrow> 'm gem" where
  "or_reg r v s = set_reg r (regs s r OR v) s"

definition inc_reg :: "nat \<Rightarrow> 'm gem \<Rightarrow> 'm gem" where
  "inc_reg r s = set_reg r (regs s r + 1) s"

text \<open>Words loaded over the first words of a descriptor, and a descriptor's bytes.\<close>

definition desc_load :: "desc \<Rightarrow> nat \<Rightarrow> u8 list \<Rightarrow> desc" where
  "desc_load d n bs = (\<lambda>i. if i < n then of_le32 (drop (4 * i) bs) else d i)"

definition desc_bytes :: "nat \<Rightarrow> desc \<Rightarrow> u8 list" where
  "desc_bytes n d = concat (map (\<lambda>i. le32 (d i)) [0..<n])"

section \<open>Descriptors\<close>

definition dma_64b :: "'m gem \<Rightarrow> bool" where
  "dma_64b s \<longleftrightarrow> FIELD_EX32 (regs s R_DMACFG) DMACFG_DMA_ADDR_BUS_WIDTH \<noteq> 0"

definition tx_desc_get_buffer :: "'m gem \<Rightarrow> desc \<Rightarrow> u64" where
  "tx_desc_get_buffer s d =
     (let ret = ucast (d 0) in
      if dma_64b s then ret OR push_bit 32 (ucast (d 2)) else ret)"

definition tx_desc_get_used :: "desc \<Rightarrow> nat" where
  "tx_desc_get_used d = (if d 1 AND DESC_1_USED \<noteq> 0 then 1 else 0)"

definition tx_desc_set_used :: "desc \<Rightarrow> desc" where
  "tx_desc_set_used d = d(1 := d 1 OR DESC_1_USED)"

definition tx_desc_get_wrap :: "desc \<Rightarrow> nat" where
  "tx_desc_get_wrap d = (if d 1 AND DESC_1_TX_WRAP \<noteq> 0 then 1 else 0)"

definition tx_desc_get_last :: "desc \<Rightarrow> nat" where
  "tx_desc_get_last d = (if d 1 AND DESC_1_TX_LAST \<noteq> 0 then 1 else 0)"

definition tx_desc_get_length :: "desc \<Rightarrow> nat" where
  "tx_desc_get_length d = unat (d 1 AND DESC_1_LENGTH)"

definition rx_desc_get_buffer :: "'m gem \<Rightarrow> desc \<Rightarrow> u64" where
  "rx_desc_get_buffer s d =
     (let ret = ucast (d 0) AND NOT 3 in
      if dma_64b s then ret OR push_bit 32 (ucast (d 2)) else ret)"

definition gem_get_desc_len :: "'m gem \<Rightarrow> bool \<Rightarrow> nat" where
  "gem_get_desc_len s rx_n_tx =
     2 + (if dma_64b s then 2 else 0)
       + (if regs s R_DMACFG AND
             (if rx_n_tx then field_mask DMACFG_RX_BD_EXT_MODE_EN
              else field_mask DMACFG_TX_BD_EXT_MODE_EN) \<noteq> 0 then 2 else 0)"

definition rx_desc_get_wrap :: "desc \<Rightarrow> nat" where
  "rx_desc_get_wrap d = (if d 0 AND DESC_0_RX_WRAP \<noteq> 0 then 1 else 0)"

definition rx_desc_get_ownership :: "desc \<Rightarrow> nat" where
  "rx_desc_get_ownership d = (if d 0 AND DESC_0_RX_OWNERSHIP \<noteq> 0 then 1 else 0)"

definition rx_desc_set_ownership :: "desc \<Rightarrow> desc" where
  "rx_desc_set_ownership d = d(0 := d 0 OR DESC_0_RX_OWNERSHIP)"

definition rx_desc_set_sof :: "desc \<Rightarrow> desc" where
  "rx_desc_set_sof d = d(1 := d 1 OR DESC_1_RX_SOF)"

definition rx_desc_clear_control :: "desc \<Rightarrow> desc" where
  "rx_desc_clear_control d = d(1 := 0)"

definition rx_desc_set_eof :: "desc \<Rightarrow> desc" where
  "rx_desc_set_eof d = d(1 := d 1 OR DESC_1_RX_EOF)"

definition rx_desc_set_length :: "desc \<Rightarrow> nat \<Rightarrow> desc" where
  "rx_desc_set_length d len = d(1 := (d 1 AND NOT DESC_1_LENGTH) OR of_nat len)"

definition rx_desc_set_broadcast :: "desc \<Rightarrow> desc" where
  "rx_desc_set_broadcast d = d(1 := d 1 OR R_DESC_1_RX_BROADCAST)"

definition rx_desc_set_unicast_hash :: "desc \<Rightarrow> desc" where
  "rx_desc_set_unicast_hash d = d(1 := d 1 OR R_DESC_1_RX_UNICAST_HASH)"

definition rx_desc_set_multicast_hash :: "desc \<Rightarrow> desc" where
  "rx_desc_set_multicast_hash d = d(1 := d 1 OR R_DESC_1_RX_MULTICAST_HASH)"

definition rx_desc_set_sar :: "desc \<Rightarrow> int \<Rightarrow> desc" where
  "rx_desc_set_sar d sar_idx =
     d(1 := deposit32 (d 1) R_DESC_1_RX_SAR_SHIFT R_DESC_1_RX_SAR_LENGTH (of_int sar_idx)
            OR R_DESC_1_RX_SAR_MATCH)"

definition broadcast_addr :: "u8 list" where
  "broadcast_addr = [0xFF, 0xFF, 0xFF, 0xFF, 0xFF, 0xFF]"

definition gem_get_max_buf_len :: "'m gem \<Rightarrow> bool \<Rightarrow> nat" where
  "gem_get_max_buf_len s tx =
     (if FIELD_EX32 (regs s R_NWCFG) NWCFG_JUMBO_FRAMES \<noteq> 0 then
        (let size = unat (regs s R_JUMBO_MAX_LEN) in
         if size > unat (jumbo_max_len s) then unat (jumbo_max_len s) else size)
      else if tx then 1518
      else if FIELD_EX32 (regs s R_NWCFG) NWCFG_RECV_1536_BYTE_FRAMES \<noteq> 0 then 1538 else 1518)"

section \<open>Interrupts\<close>

definition gem_set_isr :: "nat \<Rightarrow> u32 \<Rightarrow> 'm gem \<Rightarrow> 'm gem" where
  "gem_set_isr q flag s =
     (if q = 0 then or_reg R_ISR (flag AND NOT (regs s R_IMR)) s
      else or_reg (R_INT_Q1_STATUS + q - 1)
             (flag AND NOT (regs s (R_INT_Q1_MASK + q - 1))) s)"

definition gem_update_int_status :: "'m gem \<Rightarrow> 'm gem" where
  "gem_update_int_status s =
     s\<lparr>irq := fold (\<lambda>i l. l(i := regs s (R_INT_Q1_STATUS + i - 1) \<noteq> 0))
                [1..<num_priority_queues s] ((irq s)(0 := regs s R_ISR \<noteq> 0))\<rparr>"

section \<open>Register masks\<close>

definition gem_init_register_masks :: "'m gem \<Rightarrow> 'm gem" where
  "gem_init_register_masks s =
     (let n = num_priority_queues s;
          ro = (\<lambda>_. 0)(R_NWCTRL := 0xFFF80000, R_NWSTATUS := 0xFFFFFFFF, R_DMACFG := 0x8E00F000,
                       R_TXSTATUS := 0xFFFFFE08, R_RXQBASE := 0x00000003,
                       R_TXQBASE := 0x00000003, R_RXSTATUS := 0xFFFFFFF0, R_ISR := 0xFFFFFFFF,
                       R_IMR := 0xFFFFFFFF, R_MODID := 0xFFFFFFFF);
          ro = fold (\<lambda>i m. m(R_INT_Q1_STATUS + i := 0xFFFFFFFF, R_INT_Q1_ENABLE + i := 0xFFFFF319,
                              R_INT_Q1_DISABLE + i := 0xFFFFF319, R_INT_Q1_MASK + i := 0xFFFFFFFF))
                 [0..<n] ro;
          rtc = fold (\<lambda>i m. m(R_INT_Q1_STATUS + i := 0x00000CE6)) [0..<n]
                  ((\<lambda>_. 0)(R_ISR := 0xFFFFFFFF));
          w1c = (\<lambda>_. 0)(R_TXSTATUS := 0x000001F7, R_RXSTATUS := 0x0000000F);
          wo = fold (\<lambda>i m. m(R_INT_Q1_ENABLE + i := 0x00000CE6, R_INT_Q1_DISABLE + i := 0x00000CE6))
                 [0..<n] ((\<lambda>_. 0)(R_NWCTRL := 0x00073E60, R_IER := 0x07FFFFFF, R_IDR := 0x07FFFFFF))
      in s\<lparr>regs_ro := ro, regs_rtc := rtc, regs_w1c := w1c, regs_wo := wo\<rparr>)"

section \<open>Emulated PHY\<close>

definition phy_update_link :: "gem_phy \<Rightarrow> gem_phy" where
  "phy_update_link p =
     (if link_down p then
        p\<lparr>phy_regs := (phy_regs p)
           (PHY_REG_STATUS := phy_regs p PHY_REG_STATUS AND
                                NOT (PHY_REG_STATUS_ANEGCMPL OR PHY_REG_STATUS_LINK),
            PHY_REG_INT_ST := phy_regs p PHY_REG_INT_ST OR PHY_REG_INT_ST_LINKC)\<rparr>
      else
        p\<lparr>phy_regs := (phy_regs p)
           (PHY_REG_STATUS := phy_regs p PHY_REG_STATUS OR
                                (PHY_REG_STATUS_ANEGCMPL OR PHY_REG_STATUS_LINK),
            PHY_REG_INT_ST := phy_regs p PHY_REG_INT_ST OR
                                (PHY_REG_INT_ST_LINKC OR PHY_REG_INT_ST_ANEGCMPL OR
                                 PHY_REG_INT_ST_ENERGY))\<rparr>)"

definition gem_phy_reset :: "gem_phy \<Rightarrow> gem_phy" where
  "gem_phy_reset p =
     phy_update_link (p\<lparr>phy_regs := (\<lambda>_. 0)
       (PHY_REG_CONTROL := 0x1140, PHY_REG_STATUS := 0x7969, PHY_REG_PHYID1 := 0x0141,
        PHY_REG_PHYID2 := 0x0CC2, PHY_REG_ANEGADV := 0x01E1, PHY_REG_LINKPABIL := 0xCDE1,
        PHY_REG_ANEGEXP := 0x000F, PHY_REG_NEXTP := 0x2001, PHY_REG_LINKPNEXTP := 0x40E6,
        PHY_REG_100BTCTRL := 0x0300, PHY_REG_1000BTSTAT := 0x7C00, PHY_REG_EXTSTAT := 0x3000,
        PHY_REG_PHYSPCFC_CTL := 0x0078, PHY_REG_PHYSPCFC_ST := 0x7C00,
        PHY_REG_EXT_PHYSPCFC_CTL := 0x0C60, PHY_REG_LED := 0x4100,
        PHY_REG_EXT_PHYSPCFC_CTL2 := 0x000A, PHY_REG_EXT_PHYSPCFC_ST := 0x848B)\<rparr>)"

definition gem_phy_read :: "gem_phy \<Rightarrow> nat \<Rightarrow> u16" where
  "gem_phy_read p reg_num = phy_regs p reg_num"

definition gem_phy_write :: "gem_phy \<Rightarrow> nat \<Rightarrow> u16 \<Rightarrow> gem_phy" where
  "gem_phy_write p reg_num val =
     (let (p, val) =
        (if reg_num = PHY_REG_CONTROL then
           (let (p, val) =
              (if val AND PHY_REG_CONTROL_RST \<noteq> 0 then
                 ((gem_phy_reset p)\<lparr>phy_loop := False\<rparr>,
                  val AND NOT (PHY_REG_CONTROL_RST OR PHY_REG_CONTROL_LOOP))
               else (p, val));
                (p, val) =
              (if val AND PHY_REG_CONTROL_ANEG \<noteq> 0 then
                 (p\<lparr>phy_regs := (phy_regs p)(PHY_REG_STATUS :=
                       phy_regs p PHY_REG_STATUS OR PHY_REG_STATUS_ANEGCMPL)\<rparr>,
                  val AND NOT (PHY_REG_CONTROL_ANEG OR PHY_REG_CONTROL_ANRESTART))
               else (p, val))
            in (p\<lparr>phy_loop := (val AND PHY_REG_CONTROL_LOOP \<noteq> 0)\<rparr>, val))
         else (p, val))
      in p\<lparr>phy_regs := (phy_regs p)(reg_num := val)\<rparr>)"

section \<open>Receive readiness\<close>

definition gem_can_receive :: "'m gem \<Rightarrow> bool \<times> 'm gem" where
  "gem_can_receive s =
     (if FIELD_EX32 (regs s R_NWCTRL) NWCTRL_ENABLE_RECEIVE = 0 then
        (False, if can_rx_state s \<noteq> 1 then s\<lparr>can_rx_state := 1\<rparr> else s)
      else if list_all (\<lambda>i. rx_desc_get_ownership (rx_desc s i) = 1) [0..<num_priority_queues s] then
        (False, if can_rx_state s \<noteq> 2 then s\<lparr>can_rx_state := 2\<rparr> else s)
      else (True, if can_rx_state s \<noteq> 0 then s\<lparr>can_rx_state := 0\<rparr> else s))"

section \<open>Statistics\<close>

definition add_octets :: "nat \<Rightarrow> nat \<Rightarrow> nat \<Rightarrow> 'm gem \<Rightarrow> 'm gem" where
  "add_octets lo hi bytes s =
     (let octets = (push_bit 32 (ucast (regs s lo)) OR ucast (regs s hi)) + of_nat bytes :: u64
      in set_reg hi (ucast octets) (set_reg lo (ucast (drop_bit 32 octets)) s))"

definition gem_receive_updatestats :: "ptr \<Rightarrow> nat \<Rightarrow> 'm gem \<Rightarrow> 'm gem" where
  "gem_receive_updatestats packet bytes s =
     (let s = add_octets R_OCTRXLO R_OCTRXHI bytes s;
          s = inc_reg R_RXCNT s;
          s = (if map packet [0..<6] = broadcast_addr then inc_reg R_RXBROADCNT s else s);
          s = (if packet 0 = 0x01 then inc_reg R_RXMULTICNT s else s)
      in if bytes \<le> 64 then inc_reg R_RX64CNT s
         else if bytes \<le> 127 then inc_reg R_RX65CNT s
         else if bytes \<le> 255 then inc_reg R_RX128CNT s
         else if bytes \<le> 511 then inc_reg R_RX256CNT s
         else if bytes \<le> 1023 then inc_reg R_RX512CNT s
         else if bytes \<le> 1518 then inc_reg R_RX1024CNT s
         else inc_reg R_RX1519CNT s)"

definition gem_transmit_updatestats :: "ptr \<Rightarrow> nat \<Rightarrow> 'm gem \<Rightarrow> 'm gem" where
  "gem_transmit_updatestats packet bytes s =
     (let s = add_octets R_OCTTXLO R_OCTTXHI bytes s;
          s = inc_reg R_TXCNT s;
          s = (if map packet [0..<6] = broadcast_addr then inc_reg R_TXBCNT s else s);
          s = (if packet 0 = 0x01 then inc_reg R_TXMCNT s else s)
      in if bytes \<le> 64 then inc_reg R_TX64CNT s
         else if bytes \<le> 127 then inc_reg R_TX65CNT s
         else if bytes \<le> 255 then inc_reg R_TX128CNT s
         else if bytes \<le> 511 then inc_reg R_TX256CNT s
         else if bytes \<le> 1023 then inc_reg R_TX512CNT s
         else if bytes \<le> 1518 then inc_reg R_TX1024CNT s
         else inc_reg R_TX1519CNT s)"

section \<open>Default properties\<close>

text \<open>
  The device object with the values of its property table; \<open>m\<close> is the DMA address space and
  \<open>mac\<close> the address the network configuration assigns.
\<close>

definition gem_defaults :: "'m \<Rightarrow> u8 list \<Rightarrow> 'm gem" where
  "gem_defaults m mac =
     \<lparr>dma_as = m, nic_sent = [], macaddr = mac, irq = (\<lambda>_. False),
      num_priority_queues = 1, num_type1_screeners = 4, num_type2_screeners = 4,
      revision = GEM_MODID_VALUE, jumbo_max_len = 10240, pcs_enabled = False,
      regs = (\<lambda>_. 0), regs_wo = (\<lambda>_. 0), regs_ro = (\<lambda>_. 0), regs_rtc = (\<lambda>_. 0), regs_w1c = (\<lambda>_. 0),
      phy = \<lparr>phy_addr = BOARD_PHY_ADDRESS, phy_regs = (\<lambda>_. 0), phy_loop = False, link_down = False\<rparr>,
      phy_connected = True, phy_consumer = None,
      rx_desc_addr = (\<lambda>_. 0), tx_desc_addr = (\<lambda>_. 0), can_rx_state = 0,
      rx_desc = (\<lambda>_ _. 0), sar_active = (\<lambda>_. False)\<rparr>"

text \<open>A concrete environment over flat RAM, for evaluating the model on inputs.\<close>

definition ram_env :: "ram gem_env" where
  "ram_env =
     \<lparr>as_read = ram_read, as_write = ram_write,
      is_multicast_ether_addr = (\<lambda>p. bit (p 0) 0), crc32 = (\<lambda>_. 0),
      net_checksum_calculate = (\<lambda>bs. bs), qemu_receive_packet = (\<lambda>s _. s),
      qemu_flush_queued_packets = (\<lambda>s. s), beyond = (\<lambda>_. 0)\<rparr>"

lemmas reg_ops = set_reg_def or_reg_def inc_reg_def

section \<open>Descriptor facts\<close>

lemma gem_get_desc_len_cases: "gem_get_desc_len s b = 2 \<or> gem_get_desc_len s b = 4 \<or> gem_get_desc_len s b = 6"
  by (auto simp: gem_get_desc_len_def)

lemma length_desc_bytes [simp]: "length (desc_bytes n d) = 4 * n"
  by (induction n) (simp_all add: desc_bytes_def)

text \<open>Writing a descriptor out and loading it again gives the same words.\<close>

lemma drop_desc_bytes:
  "i < n \<Longrightarrow> \<exists>rest. drop (4 * i) (desc_bytes n d) = le32 (d i) @ rest"
proof (induction n)
  case 0
  then show ?case by simp
next
  case (Suc n)
  have split: "desc_bytes (Suc n) d = desc_bytes n d @ le32 (d n)"
    by (simp add: desc_bytes_def)
  from Suc show ?case
    by (cases "i = n") (auto simp: split less_Suc_eq)
qed

lemma desc_load_bytes: "i < n \<Longrightarrow> desc_load d0 n (desc_bytes n d) i = d i"
  using drop_desc_bytes [of i n d] by (auto simp: desc_load_def)

section \<open>Statistics facts\<close>

definition octets :: "nat \<Rightarrow> nat \<Rightarrow> 'm gem \<Rightarrow> u64" where
  "octets lo hi s = push_bit 32 (ucast (regs s lo)) OR ucast (regs s hi)"

lemma octets_split: "push_bit 32 (ucast (ucast (drop_bit 32 w) :: u32)) OR ucast (ucast w :: u32) = w" for w :: u64
proof (rule bit_word_eqI)
  fix n assume "n < LENGTH(64)"
  then show "bit (push_bit 32 (ucast (ucast (drop_bit 32 w) :: u32)) OR ucast (ucast w :: u32) :: u64) n = bit w n"
    by (cases "n < 32") (auto simp: bit_simps)
qed

lemma octets_add_octets:
  "lo \<noteq> hi \<Longrightarrow> octets lo hi (add_octets lo hi bytes s) = octets lo hi s + of_nat bytes"
  using octets_split [of "octets lo hi s + of_nat bytes"]
  by (simp add: octets_def add_octets_def reg_ops Let_def)

text \<open>The size-class register: the thresholds below the frame size select it.\<close>

definition size_class :: "nat \<Rightarrow> nat" where
  "size_class bytes = length (filter (\<lambda>t. t < bytes) [64, 127, 255, 511, 1023, 1518])"

lemma size_class_le: "size_class bytes \<le> 6"
  by (simp add: size_class_def)

lemma update_stats_regs:
  assumes "r \<noteq> R_OCTRXLO" "r \<noteq> R_OCTRXHI"
  shows "regs (gem_receive_updatestats p bytes s) r =
     regs s r + of_bool (r = R_RXCNT) + of_bool (r = R_RXBROADCNT \<and> map p [0..<6] = broadcast_addr)
       + of_bool (r = R_RXMULTICNT \<and> p 0 = 1) + of_bool (r = R_RX64CNT + size_class bytes)"
  using assms
  by (auto simp: gem_receive_updatestats_def add_octets_def reg_ops Let_def size_class_def)

lemma octets_updatestats:
  "octets R_OCTRXLO R_OCTRXHI (gem_receive_updatestats p bytes s) = octets R_OCTRXLO R_OCTRXHI s + of_nat bytes"
proof -
  have "octets R_OCTRXLO R_OCTRXHI (gem_receive_updatestats p bytes s) =
        octets R_OCTRXLO R_OCTRXHI (add_octets R_OCTRXLO R_OCTRXHI bytes s)"
    by (simp add: gem_receive_updatestats_def octets_def reg_ops Let_def)
  then show ?thesis by (simp add: octets_add_octets)
qed

section \<open>Interrupt lines\<close>

text \<open>Every line shows whether its queue has an unmasked interrupt pending.\<close>

definition irq_ok :: "'m gem \<Rightarrow> bool" where
  "irq_ok s \<longleftrightarrow> irq s 0 = (regs s R_ISR \<noteq> 0) \<and>
     (\<forall>i. 0 < i \<and> i < num_priority_queues s \<longrightarrow> irq s i = (regs s (R_INT_Q1_STATUS + i - 1) \<noteq> 0))"

lemma irq_ok_update [simp]: "irq_ok (gem_update_int_status s)"
  by (auto simp: irq_ok_def gem_update_int_status_def fold_upd_other fold_upd_in)

section \<open>Environments with a well-behaved bus\<close>

text \<open>What the device relies on of the address space it is given.\<close>

locale gem_bus =
  fixes e :: "'m gem_env"
  assumes bus: "dma_bus (as_read e) (as_write e)"

sublocale gem_bus \<subseteq> dma_bus "as_read e" "as_write e"
  by (rule bus)

interpretation ram_gem: gem_bus ram_env
  by unfold_locales (simp_all add: ram_env_def ram.length_rd ram.rd_wr_same ram.rd_wr_other ram.rd_split)

end
