(* ===== verification/Gem_Filter.thy ===== *)
theory Gem_Filter
  imports Gem_State
begin

text \<open>
  Receive classification of the Cadence GEM model: the hash of a destination address, the
  address filter and the screeners that choose the receive queue
  (\<^verbatim>\<open>qemu-cadence-gem.c\<close>, lines 756 to 983).  The lemmas relate the shift-and-mask hash loop to the
  XOR of the address's six-bit groups, characterise when a frame is rejected and which
  specific-address register is reported, and bound the queue number.
\<close>

section \<open>Hash index\<close>

definition get_bit :: "ptr \<Rightarrow> nat \<Rightarrow> u32" where
  "get_bit mac b = drop_bit (b mod 8) (ucast (mac (b div 8))) AND 1"

definition calc_mac_hash :: "ptr \<Rightarrow> u32" where
  "calc_mac_hash mac =
     fst (fold (\<lambda>index_bit (hash_index, mac_bit).
            (hash_index OR push_bit index_bit
               (get_bit mac mac_bit XOR get_bit mac (mac_bit + 6) XOR get_bit mac (mac_bit + 12) XOR
                get_bit mac (mac_bit + 18) XOR get_bit mac (mac_bit + 24) XOR
                get_bit mac (mac_bit + 30) XOR get_bit mac (mac_bit + 36) XOR
                get_bit mac (mac_bit + 42)),
             mac_bit - 1))
          [5, 4, 3, 2, 1, 0] (0, 5))"

section \<open>Address filter\<close>

definition spaddr_bytes :: "'m gem \<Rightarrow> nat \<Rightarrow> u8 list" where
  "spaddr_bytes s i =
     take 6 (le32 (regs s (R_SPADDR1LO + 2 * i)) @ le32 (regs s (R_SPADDR1LO + 2 * i + 1)))"

definition hash_buckets :: "'m gem \<Rightarrow> u64" where
  "hash_buckets s = push_bit 32 (ucast (regs s R_HASHHI)) OR ucast (regs s R_HASHLO)"

definition gem_mac_address_filter :: "'m gem_env \<Rightarrow> 'm gem \<Rightarrow> ptr \<Rightarrow> int" where
  "gem_mac_address_filter e s packet =
     (if FIELD_EX32 (regs s R_NWCFG) NWCFG_PROMISC \<noteq> 0 then GEM_RX_PROMISCUOUS_ACCEPT
      else if map packet [0..<6] = broadcast_addr then
        (if FIELD_EX32 (regs s R_NWCFG) NWCFG_NO_BROADCAST \<noteq> 0 then GEM_RX_REJECT
         else GEM_RX_BROADCAST_ACCEPT)
      else
        (let is_mc = is_multicast_ether_addr e packet in
         if (is_mc \<and> FIELD_EX32 (regs s R_NWCFG) NWCFG_MULTICAST_HASH_EN \<noteq> 0 \<or>
             \<not> is_mc \<and> FIELD_EX32 (regs s R_NWCFG) NWCFG_UNICAST_HASH_EN \<noteq> 0) \<and>
            drop_bit (unat (calc_mac_hash packet)) (hash_buckets s) AND 1 \<noteq> 0
         then (if is_mc then GEM_RX_MULTICAST_HASH_ACCEPT else GEM_RX_UNICAST_HASH_ACCEPT)
         else
           (case find (\<lambda>i. sar_active s i \<and> map packet [0..<6] = spaddr_bytes s i) [3, 2, 1, 0] of
              Some i \<Rightarrow> GEM_RX_SAR_ACCEPT + int i
            | None \<Rightarrow> GEM_RX_REJECT)))"

section \<open>Queue screening\<close>

text \<open>A screener accepts when some enabled comparison matched and none mismatched.\<close>

definition screen_verdict :: "bool option list \<Rightarrow> bool" where
  "screen_verdict rs \<longleftrightarrow> Some True \<in> set rs \<and> Some False \<notin> set rs"

definition type1_screen :: "u32 \<Rightarrow> ptr \<Rightarrow> bool" where
  "type1_screen reg rxbuf =
     screen_verdict
       [if FIELD_EX32 reg SCREENING_TYPE1_REG0_UDP_PORT_MATCH_EN \<noteq> 0
        then Some (push_bit 8 (ucast (rxbuf (14 + 22))) OR ucast (rxbuf (14 + 23)) =
                   FIELD_EX32 reg SCREENING_TYPE1_REG0_UDP_PORT_MATCH)
        else None,
        if FIELD_EX32 reg SCREENING_TYPE1_REG0_DSTC_ENABLE \<noteq> 0
        then Some (ucast (rxbuf (14 + 1)) = FIELD_EX32 reg SCREENING_TYPE1_REG0_DSTC_MATCH)
        else None]"

definition type2_ethertype :: "'m gem \<Rightarrow> u32 \<Rightarrow> ptr \<Rightarrow> bool option" where
  "type2_ethertype s reg rxbuf =
     (if FIELD_EX32 reg SCREENING_TYPE2_REG0_ETHERTYPE_ENABLE \<noteq> 0
      then Some (push_bit 8 (ucast (rxbuf 12)) OR ucast (rxbuf 13) =
                 regs s (R_SCREENING_TYPE2_ETHERTYPE_REG0 +
                         unat (FIELD_EX32 reg SCREENING_TYPE2_REG0_ETHERTYPE_REG_INDEX)))
      else None)"

definition type2_offset :: "u32 \<Rightarrow> nat" where
  "type2_offset cr1 =
     (let offset = unat (FIELD_EX32 cr1 TYPE2_COMPARE_0_WORD_1_OFFSET_VALUE);
          sel = FIELD_EX32 cr1 TYPE2_COMPARE_0_WORD_1_COMPARE_OFFSET
      in if sel = 3 then offset + 8 + 20 + 14
         else if sel = 2 then offset + 20 + 14
         else if sel = 1 then offset + 14
         else offset)"

definition type2_compare :: "'m gem \<Rightarrow> u32 \<Rightarrow> ptr \<Rightarrow> nat \<Rightarrow> bool option" where
  "type2_compare s reg rxbuf j =
     (let cr_idx = unat (extract32 reg (fst SCREENING_TYPE2_REG0_COMPARE_A + j * 6)
                                       (snd SCREENING_TYPE2_REG0_COMPARE_A))
      in if extract32 reg (fst SCREENING_TYPE2_REG0_COMPARE_A_ENABLE + j * 6)
                          (snd SCREENING_TYPE2_REG0_COMPARE_A_ENABLE) = 0 then None
         else
           (let cr0 = regs s (R_TYPE2_COMPARE_0_WORD_0 + cr_idx * 2);
                cr1 = regs s (R_TYPE2_COMPARE_0_WORD_1 + cr_idx * 2);
                offset = type2_offset cr1;
                (rx_cmp, mask, compare) =
                  (if FIELD_EX32 cr1 TYPE2_COMPARE_0_WORD_1_DISABLE_MASK \<noteq> 0
                   then (of_le32 (map rxbuf [offset..<offset + 4]), 0xFFFFFFFF, cr0)
                   else (of_le16 (map rxbuf [offset..<offset + 2]),
                         FIELD_EX32 cr0 TYPE2_COMPARE_0_WORD_0_MASK_VALUE,
                         FIELD_EX32 cr0 TYPE2_COMPARE_0_WORD_0_COMPARE_VALUE))
            in Some (rx_cmp AND mask = compare AND mask)))"

definition type2_screen :: "'m gem \<Rightarrow> u32 \<Rightarrow> ptr \<Rightarrow> bool" where
  "type2_screen s reg rxbuf =
     screen_verdict (type2_ethertype s reg rxbuf # map (type2_compare s reg rxbuf) [0..<3])"

definition get_queue_from_screen :: "'m gem \<Rightarrow> ptr \<Rightarrow> nat" where
  "get_queue_from_screen s rxbuf =
     (case find (\<lambda>i. type1_screen (regs s (R_SCREENING_TYPE1_REG0 + i)) rxbuf)
             [0..<num_type1_screeners s] of
        Some i \<Rightarrow> unat (FIELD_EX32 (regs s (R_SCREENING_TYPE1_REG0 + i))
                                    SCREENING_TYPE1_REG0_QUEUE_NUM)
      | None \<Rightarrow>
          (case find (\<lambda>i. type2_screen s (regs s (R_SCREENING_TYPE2_REG0 + i)) rxbuf)
                  [0..<num_type2_screeners s] of
             Some i \<Rightarrow> unat (FIELD_EX32 (regs s (R_SCREENING_TYPE2_REG0 + i))
                                         SCREENING_TYPE2_REG0_QUEUE_NUM)
           | None \<Rightarrow> 0))"

section \<open>The hash is the XOR of the six-bit groups\<close>

text \<open>The destination address as one 48-bit number, first byte lowest.\<close>

definition mac48 :: "ptr \<Rightarrow> u64" where
  "mac48 mac =
     ucast (mac 0) OR push_bit 8 (ucast (mac 1)) OR push_bit 16 (ucast (mac 2)) OR
     push_bit 24 (ucast (mac 3)) OR push_bit 32 (ucast (mac 4)) OR push_bit 40 (ucast (mac 5))"

definition mac_group :: "ptr \<Rightarrow> nat \<Rightarrow> u32" where
  "mac_group mac k = take_bit 6 (ucast (drop_bit (6 * k) (mac48 mac)))"

lemma bit_get_bit [bits_simps]:
  "bit (get_bit mac b) n \<longleftrightarrow> n = 0 \<and> bit (mac (b div 8)) (b mod 8)"
  by (auto simp: get_bit_def bit_simps)


definition xor_groups :: "ptr \<Rightarrow> u32" where
  "xor_groups mac = mac_group mac 0 XOR mac_group mac 1 XOR mac_group mac 2 XOR mac_group mac 3 XOR mac_group mac 4 XOR mac_group mac 5 XOR mac_group mac 6 XOR mac_group mac 7"

lemma bit_mac_group [bits_simps]:
  "bit (mac_group mac k) n \<longleftrightarrow> n < 6 \<and> bit (mac48 mac) (6 * k + n)"
  by (auto simp: mac_group_def bit_simps)

lemma calc_mac_hash_eq: "calc_mac_hash mac = xor_groups mac"
proof (rule bit_word_eqI)
  fix n assume "n < LENGTH(32)"
  have "n = 0 \<or> n = 1 \<or> n = 2 \<or> n = 3 \<or> n = 4 \<or> n = 5 \<or> 6 \<le> n" by arith
  then show "bit (calc_mac_hash mac) n = bit (xor_groups mac) n"
    by (elim disjE)
      (simp_all add: calc_mac_hash_def xor_groups_def bits_simps bit_simps mac48_def u8_bit_ge
        numeral_2_eq_2 [symmetric] del: push_bit_Suc)
qed

lemma calc_mac_hash_lt: "unat (calc_mac_hash mac) < 64"
proof -
  have "calc_mac_hash mac = take_bit 6 (calc_mac_hash mac)"
    unfolding calc_mac_hash_eq by (rule bit_word_eqI) (auto simp: xor_groups_def bits_simps bit_simps)
  then have "unat (calc_mac_hash mac) = take_bit 6 (unat (calc_mac_hash mac))"
    by (metis unsigned_take_bit_eq)
  also have "\<dots> < 2 ^ 6" by (rule take_bit_nat_less_exp)
  finally show ?thesis by simp
qed

section \<open>What the filter accepts\<close>

definition is_broadcast :: "ptr \<Rightarrow> bool" where
  "is_broadcast p \<longleftrightarrow> map p [0..<6] = broadcast_addr"

definition hash_hit :: "'m gem_env \<Rightarrow> 'm gem \<Rightarrow> ptr \<Rightarrow> bool" where
  "hash_hit e s p \<longleftrightarrow>
     bit (regs s R_NWCFG) (if is_multicast_ether_addr e p then 6 else 7) \<and>
     bit (hash_buckets s) (unat (xor_groups p))"

definition sar_match :: "'m gem \<Rightarrow> ptr \<Rightarrow> nat \<Rightarrow> bool" where
  "sar_match s p i \<longleftrightarrow> sar_active s i \<and> map p [0..<6] = spaddr_bytes s i"

lemma gem_filter_cases:
  "gem_mac_address_filter e s p =
     (if bit (regs s R_NWCFG) 4 then GEM_RX_PROMISCUOUS_ACCEPT
      else if is_broadcast p then
        (if bit (regs s R_NWCFG) 5 then GEM_RX_REJECT else GEM_RX_BROADCAST_ACCEPT)
      else if hash_hit e s p then
        (if is_multicast_ether_addr e p then GEM_RX_MULTICAST_HASH_ACCEPT
         else GEM_RX_UNICAST_HASH_ACCEPT)
      else case find (sar_match s p) [3, 2, 1, 0] of Some i \<Rightarrow> int i | None \<Rightarrow> GEM_RX_REJECT)"
proof -
  have "find (\<lambda>i. sar_active s i \<and> map p [0..<6] = spaddr_bytes s i) [3, 2, 1, 0] =
        find (sar_match s p) [3, 2, 1, 0]"
    by (simp add: sar_match_def)
  then show ?thesis
    unfolding gem_mac_address_filter_def is_broadcast_def [symmetric] and_one_bit
    by (simp add: field_defs FIELD_EX32_flag_Suc hash_hit_def Let_def
        calc_mac_hash_eq split: option.splits)
qed

theorem gem_filter_reject_iff:
  "gem_mac_address_filter e s p = GEM_RX_REJECT \<longleftrightarrow>
     \<not> bit (regs s R_NWCFG) 4 \<and>
     (if is_broadcast p then bit (regs s R_NWCFG) 5
      else \<not> hash_hit e s p \<and> (\<forall>i<4. \<not> sar_match s p i))"
  unfolding gem_filter_cases find_down4_None [symmetric]
  by (simp split: option.split del: find.simps)

theorem gem_filter_sar:
  "gem_mac_address_filter e s p = int i \<longleftrightarrow>
     \<not> bit (regs s R_NWCFG) 4 \<and> \<not> is_broadcast p \<and> \<not> hash_hit e s p \<and>
     i < 4 \<and> sar_match s p i \<and> (\<forall>j. i < j \<and> j < 4 \<longrightarrow> \<not> sar_match s p j)"
  unfolding gem_filter_cases find_down4_Some [symmetric]
  by (simp split: option.split del: find.simps)

theorem get_queue_from_screen_lt:
  "get_queue_from_screen s p < 16"
  using FIELD_EX32_lt [of SCREENING_TYPE1_REG0_QUEUE_NUM] FIELD_EX32_lt [of SCREENING_TYPE2_REG0_QUEUE_NUM]
  by (auto simp: get_queue_from_screen_def field_defs split: option.splits)

theorem get_queue_from_screen_configured:
  assumes "0 < n"
    and "\<forall>i<num_type1_screeners s. unat (extract32 (regs s (R_SCREENING_TYPE1_REG0 + i)) 0 4) < n"
    and "\<forall>i<num_type2_screeners s. unat (extract32 (regs s (R_SCREENING_TYPE2_REG0 + i)) 0 4) < n"
  shows "get_queue_from_screen s p < n"
  using assms
  by (auto simp: get_queue_from_screen_def field_defs FIELD_EX32_def find_Some_iff split: option.splits)

lemma type2_offset_le: "type2_offset cr1 \<le> 169"
  using FIELD_EX32_lt [of TYPE2_COMPARE_0_WORD_1_OFFSET_VALUE cr1]
  by (auto simp: type2_offset_def field_defs Let_def)

lemma type2_compare_cong:
  assumes "\<And>i. i < 173 \<Longrightarrow> p i = p' i"
  shows "type2_compare s reg p j = type2_compare s reg p' j"
proof -
  have "map p [type2_offset c..<type2_offset c + k] = map p' [type2_offset c..<type2_offset c + k]"
    if "k \<le> 4" for c k
    using that type2_offset_le [of c] by (intro map_cong) (auto intro!: assms)
  then have "map p [type2_offset c..<type2_offset c + 4] = map p' [type2_offset c..<type2_offset c + 4]"
    "map p [type2_offset c..<type2_offset c + 2] = map p' [type2_offset c..<type2_offset c + 2]" for c
    by (metis order_refl, metis one_le_numeral numeral_le_iff semiring_norm(69) semiring_norm(71) semiring_norm(68))
  then show ?thesis
    unfolding type2_compare_def Let_def by (simp only: )
qed

theorem get_queue_from_screen_reads_173:
  assumes "\<And>i. i < 173 \<Longrightarrow> p i = p' i"
  shows "get_queue_from_screen s p = get_queue_from_screen s p'"
proof -
  have "type1_screen r p = type1_screen r p'" for r
    using assms by (simp add: type1_screen_def)
  moreover have "type2_compare s r p = type2_compare s r p'" for r
    by (rule ext) (rule type2_compare_cong [OF assms])
  then have "type2_screen s r p = type2_screen s r p'" for r
    using assms by (simp add: type2_screen_def type2_ethertype_def)
  ultimately show ?thesis unfolding get_queue_from_screen_def by (simp only:)
qed
end
