(* ===== verification/Gem_Rx.thy ===== *)
theory Gem_Rx
  imports Gem_Filter
begin

text \<open>
  Receive path of the Cadence GEM model: the descriptor address registers, the fetch of the
  current receive descriptor, and \<open>gem_receive\<close>, which fits one packet into the descriptor ring
  (\<^verbatim>\<open>qemu-cadence-gem.c\<close>, lines 985 to 1234).  An access to \<open>rx_desc[q]\<close> outside the array and the
  unreachable-code assertion of the queue base address are the outcome \<open>Rx_fault\<close>.
\<close>

section \<open>Descriptor addresses\<close>

definition gem_get_queue_base_addr :: "'m gem \<Rightarrow> bool \<Rightarrow> nat \<Rightarrow> u32 option" where
  "gem_get_queue_base_addr s tx q =
     (if q = 0 then Some (regs s (if tx then R_TXQBASE else R_RXQBASE))
      else if q \<le> MAX_PRIORITY_QUEUES - 1 then
        Some (regs s ((if tx then R_TRANSMIT_Q1_PTR else R_RECEIVE_Q1_PTR) + q - 1))
      else None)"

definition gem_get_tx_queue_base_addr :: "'m gem \<Rightarrow> nat \<Rightarrow> u32 option" where
  "gem_get_tx_queue_base_addr s q = gem_get_queue_base_addr s True q"

definition gem_get_rx_queue_base_addr :: "'m gem \<Rightarrow> nat \<Rightarrow> u32 option" where
  "gem_get_rx_queue_base_addr s q = gem_get_queue_base_addr s False q"

definition gem_get_desc_addr :: "'m gem \<Rightarrow> bool \<Rightarrow> nat \<Rightarrow> u64" where
  "gem_get_desc_addr s tx q =
     (let desc_addr = (if dma_64b s then ucast (regs s (if tx then R_TBQPH else R_RBQPH)) else 0)
      in push_bit 32 desc_addr OR ucast (if tx then tx_desc_addr s q else rx_desc_addr s q))"

definition gem_get_tx_desc_addr :: "'m gem \<Rightarrow> nat \<Rightarrow> u64" where
  "gem_get_tx_desc_addr s q = gem_get_desc_addr s True q"

definition gem_get_rx_desc_addr :: "'m gem \<Rightarrow> nat \<Rightarrow> u64" where
  "gem_get_rx_desc_addr s q = gem_get_desc_addr s False q"

definition gem_get_rx_desc :: "'m gem_env \<Rightarrow> nat \<Rightarrow> 'm gem \<Rightarrow> 'm gem" where
  "gem_get_rx_desc e q s =
     (let n = gem_get_desc_len s True;
          s = s\<lparr>rx_desc := (rx_desc s)(q := desc_load (rx_desc s q) n
                  (as_read e (dma_as s) (gem_get_rx_desc_addr s q) (4 * n)))\<rparr>
      in if rx_desc_get_ownership (rx_desc s q) = 1 then
           gem_update_int_status
             (gem_set_isr q (field_mask ISR_RX_USED)
               (or_reg R_RXSTATUS (field_mask RXSTATUS_BUF_NOT_AVAILABLE) s))
         else s)"

section \<open>Receiving a packet\<close>

datatype 'm rx_out = Rx_done "'m gem" | Rx_stop "'m gem" | Rx_fault

definition rx_desc_set_maf :: "int \<Rightarrow> desc \<Rightarrow> desc" where
  "rx_desc_set_maf maf d =
     (if maf = GEM_RX_PROMISCUOUS_ACCEPT then d
      else if maf = GEM_RX_BROADCAST_ACCEPT then rx_desc_set_broadcast d
      else if maf = GEM_RX_UNICAST_HASH_ACCEPT then rx_desc_set_unicast_hash d
      else if maf = GEM_RX_MULTICAST_HASH_ACCEPT then rx_desc_set_multicast_hash d
      else rx_desc_set_sar d maf)"

text \<open>The descriptor after one buffer has been filled.\<close>

definition rx_desc_fill :: "int \<Rightarrow> bool \<Rightarrow> bool \<Rightarrow> nat \<Rightarrow> desc \<Rightarrow> desc" where
  "rx_desc_fill maf first_desc last_desc psize d =
     (let d = rx_desc_clear_control d;
          d = (if first_desc then rx_desc_set_sof d else d);
          d = (if last_desc then rx_desc_set_length (rx_desc_set_eof d) psize else d)
      in rx_desc_set_maf maf (rx_desc_set_ownership d))"

text \<open>
  One pass of the copy loop for queue \<open>q\<close>: \<open>chunk\<close> is the data this buffer takes, \<open>last_desc\<close>
  whether it exhausts the packet.
\<close>

definition gem_rx_step ::
  "'m gem_env \<Rightarrow> int \<Rightarrow> nat \<Rightarrow> nat \<Rightarrow> nat \<Rightarrow> bool \<Rightarrow> bool \<Rightarrow> u8 list \<Rightarrow> 'm gem \<Rightarrow> 'm gem option" where
  "gem_rx_step e maf q rxbuf_offset psize first_desc last_desc chunk s =
     (let s = s\<lparr>dma_as := as_write e (dma_as s)
                  (rx_desc_get_buffer s (rx_desc s q) + of_nat rxbuf_offset) chunk\<rparr>;
          s = s\<lparr>rx_desc := (rx_desc s)(q := rx_desc_fill maf first_desc last_desc psize (rx_desc s q))\<rparr>;
          s = s\<lparr>dma_as := as_write e (dma_as s) (gem_get_rx_desc_addr s q)
                  (desc_bytes (gem_get_desc_len s True) (rx_desc s q))\<rparr>
      in if rx_desc_get_wrap (rx_desc s q) \<noteq> 0 then
           (case gem_get_rx_queue_base_addr s q of
              None \<Rightarrow> None
            | Some base \<Rightarrow>
                Some (gem_get_rx_desc e q (s\<lparr>rx_desc_addr := (rx_desc_addr s)(q := base)\<rparr>)))
         else
           Some (gem_get_rx_desc e q
             (s\<lparr>rx_desc_addr := (rx_desc_addr s)
                  (q := rx_desc_addr s q + 4 * of_nat (gem_get_desc_len s True))\<rparr>)))"

text \<open>
  The loop \<open>while (bytes_to_copy)\<close>.  \<open>data\<close> is what is still to be copied, so its length is
  \<open>bytes_to_copy\<close>.  \<open>gem_receive\<close> never passes a zero buffer size.
\<close>

function gem_rx_loop ::
  "'m gem_env \<Rightarrow> int \<Rightarrow> nat \<Rightarrow> nat \<Rightarrow> nat \<Rightarrow> nat \<Rightarrow> bool \<Rightarrow> u8 list \<Rightarrow> 'm gem \<Rightarrow> 'm rx_out" where
  "gem_rx_loop e maf q rxbufsize rxbuf_offset psize first_desc data s =
     (if data = [] then Rx_done s
      else
        (let (ok, s) = gem_can_receive s in
         if \<not> ok then Rx_stop s
         else if MAX_PRIORITY_QUEUES \<le> q \<or> rxbufsize = 0 then Rx_fault
         else
           (case gem_rx_step e maf q rxbuf_offset psize first_desc (drop rxbufsize data = [])
                   (take rxbufsize data) s of
              None \<Rightarrow> Rx_fault
            | Some s \<Rightarrow>
                gem_rx_loop e maf q rxbufsize rxbuf_offset psize False (drop rxbufsize data) s)))"
  by pat_completeness auto
termination
  by (relation "measure (\<lambda>(e, maf, q, b, off, psize, f, data, s). length data)") auto

declare gem_rx_loop.simps [simp del]

text \<open>The result of \<open>gem_receive\<close>: its return value and the new state.\<close>

datatype 'm rx_ret = Rx_ret int "'m gem" | Rx_ret_fault

definition rx_bufsize :: "'m gem \<Rightarrow> nat" where
  "rx_bufsize s =
     (let rxbufsize = unat (FIELD_EX32 (regs s R_DMACFG) DMACFG_RX_BUF_SIZE) * GEM_DMACFG_RBUFSZ_MUL
      in if rxbufsize < GEM_DMACFG_RBUFSZ_MUL then GEM_DMACFG_RBUFSZ_MUL else rxbufsize)"

text \<open>
  The frame that is copied out: the packet itself when the FCS is stripped, otherwise the
  packet padded to 60 bytes and cut to the buffer, followed by a computed FCS.  The result is
  the bytes to copy, the pointer the screeners read and the reported size.
\<close>

definition rx_frame :: "'m gem_env \<Rightarrow> 'm gem \<Rightarrow> u8 list \<Rightarrow> u8 list \<times> ptr \<times> nat" where
  "rx_frame e s buf =
     (let psize = (if length buf < 60 then 60 else length buf) in
      if FIELD_EX32 (regs s R_NWCFG) NWCFG_FCS_REMOVE \<noteq> 0 then
        (take (length buf mod 2 ^ 32) buf, buf_ptr e buf, psize)
      else
        (let psize = (if psize > MAX_FRAME_SIZE - 4 then MAX_FRAME_SIZE - 4 else psize);
             pkt = map (buf_ptr e buf) [0..<psize];
             crc_val = crc32 e (take (max psize 60) (pkt @ replicate (MAX_FRAME_SIZE - psize) 0));
             data = pkt @ le32 crc_val
         in (data, (\<lambda>i. if i < length data then data ! i else 0), psize + 4)))"

text \<open>Count the frame and raise the completion interrupt.\<close>

definition rx_finish :: "nat \<Rightarrow> ptr \<Rightarrow> nat \<Rightarrow> 'm gem \<Rightarrow> 'm gem" where
  "rx_finish q packet psize s =
     gem_update_int_status
       (gem_set_isr q (field_mask ISR_RECV_COMPLETE)
         (or_reg R_RXSTATUS (field_mask RXSTATUS_FRAME_RECEIVED)
           (gem_receive_updatestats packet psize s)))"

definition gem_receive :: "'m gem_env \<Rightarrow> u8 list \<Rightarrow> 'm gem \<Rightarrow> 'm rx_ret" where
  "gem_receive e buf s =
     (let maf = gem_mac_address_filter e s (buf_ptr e buf);
          type_len = unat (ucast (buf_ptr e buf 12) :: u32) * 256 + unat (buf_ptr e buf 13)
      in if maf = GEM_RX_REJECT then Rx_ret (int (length buf)) s
         else if FIELD_EX32 (regs s R_NWCFG) NWCFG_LEN_ERR_DISCARD \<noteq> 0 \<and>
                 type_len < 0x600 \<and> length buf < type_len then Rx_ret (-1) s
         else
           (let rxbuf_offset = unat (FIELD_EX32 (regs s R_NWCFG) NWCFG_RECV_BUF_OFFSET);
                (data, rxbuf, psize) = rx_frame e s buf;
                q = get_queue_from_screen s rxbuf
            in if psize > gem_get_max_buf_len s False then
                 Rx_ret (-1) (gem_set_isr q (field_mask ISR_AMBA_ERROR) s)
               else
                 (case gem_rx_loop e maf q (rx_bufsize s) rxbuf_offset psize True data s of
                    Rx_fault \<Rightarrow> Rx_ret_fault
                  | Rx_stop s \<Rightarrow> Rx_ret (-1) s
                  | Rx_done s \<Rightarrow>
                      Rx_ret (int psize) (rx_finish q (buf_ptr e buf) psize s))))"

end
