(* ===== verification/Gem_Tx.thy ===== *)
theory Gem_Tx
  imports Gem_Rx
begin

text \<open>
  Transmit path of the Cadence GEM model: \<open>gem_transmit\<close> walks the descriptor ring of every queue,
  gathers the fragments of a packet in \<open>tx_packet\<close> and hands the packet to the network layer
  (\<^verbatim>\<open>qemu-cadence-gem.c\<close>, lines 1282 to 1434).  The walk of a ring ends at a used descriptor; a guest
  can build a ring in which it finds none, so the loop is a partial function and \<open>None\<close> is the
  call that does not return.
\<close>

datatype 'm tx_ctl =
    Tx_return "'m gem"
  | Tx_break "'m gem" desc "u8 list"
  | Tx_next "'m gem" u64 desc "u8 list"
  | Tx_fault

text \<open>The descriptor after \<open>d\<close> in the ring of queue \<open>q\<close>, at \<open>packet_desc_addr\<close>.\<close>

definition tx_next_addr :: "'m gem \<Rightarrow> nat \<Rightarrow> u64 \<Rightarrow> desc \<Rightarrow> u64 option" where
  "tx_next_addr s q packet_desc_addr d =
     (if tx_desc_get_wrap d \<noteq> 0 then
        map_option (\<lambda>base. (if dma_64b s then push_bit 32 (ucast (regs s R_TBQPH)) else 0) OR ucast base)
          (gem_get_tx_queue_base_addr s q)
      else Some (packet_desc_addr + 4 * of_nat (gem_get_desc_len s False)))"

text \<open>Mark the first descriptor of the packet as used and move the queue pointer past the packet.\<close>

definition tx_complete_desc :: "'m gem_env \<Rightarrow> nat \<Rightarrow> u64 \<Rightarrow> desc \<Rightarrow> 'm gem \<Rightarrow> 'm gem option" where
  "tx_complete_desc e q packet_desc_addr d s =
     (let desc_addr = gem_get_tx_desc_addr s q;
          desc_first = desc_load (\<lambda>_. 0) DESC_MAX_NUM_WORDS
                         (as_read e (dma_as s) desc_addr (4 * DESC_MAX_NUM_WORDS));
          s = s\<lparr>dma_as := as_write e (dma_as s) desc_addr
                  (desc_bytes DESC_MAX_NUM_WORDS (tx_desc_set_used desc_first))\<rparr>
      in if tx_desc_get_wrap d \<noteq> 0 then
           map_option (\<lambda>base. s\<lparr>tx_desc_addr := (tx_desc_addr s)(q := base)\<rparr>)
             (gem_get_tx_queue_base_addr s q)
         else
           Some (s\<lparr>tx_desc_addr := (tx_desc_addr s)
                     (q := ucast (packet_desc_addr + 4 * of_nat (gem_get_desc_len s False)))\<rparr>))"

text \<open>Hand the gathered packet off.\<close>

definition tx_handoff :: "'m gem_env \<Rightarrow> nat \<Rightarrow> u8 list \<Rightarrow> 'm gem \<Rightarrow> 'm gem" where
  "tx_handoff e q packet s =
     (let s = or_reg R_TXSTATUS (field_mask TXSTATUS_TRANSMIT_COMPLETE) s;
          s = gem_set_isr q (field_mask ISR_XMIT_COMPLETE) s;
          s = gem_update_int_status s;
          pkt = (if FIELD_EX32 (regs s R_DMACFG) DMACFG_TX_PBUF_CSUM_OFFLOAD \<noteq> 0
                 then net_checksum_calculate e packet else packet);
          s = gem_transmit_updatestats (buf_ptr e pkt) (length packet) s
      in if phy_loop (phy s) \<or> FIELD_EX32 (regs s R_NWCTRL) NWCTRL_LOOPBACK_LOCAL \<noteq> 0
         then qemu_receive_packet e s pkt
         else s\<lparr>nic_sent := nic_sent s @ [pkt]\<rparr>)"

text \<open>
  One pass of the ring loop on a descriptor owned by the device.  \<open>acc\<close> is the packet gathered
  so far: \<open>p - s->tx_packet\<close> and \<open>total_bytes\<close> are both its length.
\<close>

definition gem_tx_step ::
  "'m gem_env \<Rightarrow> nat \<Rightarrow> u64 \<Rightarrow> desc \<Rightarrow> u8 list \<Rightarrow> 'm gem \<Rightarrow> 'm tx_ctl" where
  "gem_tx_step e q packet_desc_addr d acc s =
     (if FIELD_EX32 (regs s R_NWCTRL) NWCTRL_ENABLE_TRANSMIT = 0 then Tx_return s
      else if tx_desc_get_buffer s d = 0 \<or> tx_desc_get_length d = 0 then Tx_break s d acc
      else if int (tx_desc_get_length d) > int (gem_get_max_buf_len s True) - int (length acc) then
        Tx_break (gem_set_isr q (field_mask ISR_AMBA_ERROR) s) d acc
      else
        (let acc = acc @ as_read e (dma_as s) (tx_desc_get_buffer s d) (tx_desc_get_length d);
             r = (if tx_desc_get_last d \<noteq> 0 then
                    map_option (\<lambda>s. (tx_handoff e q acc s, [])) (tx_complete_desc e q packet_desc_addr d s)
                  else Some (s, acc))
         in case r of
              None \<Rightarrow> Tx_fault
            | Some (s, acc) \<Rightarrow>
                (case tx_next_addr s q packet_desc_addr d of
                   None \<Rightarrow> Tx_fault
                 | Some a \<Rightarrow>
                     (let n = gem_get_desc_len s False
                      in Tx_next s a (desc_load d n (as_read e (dma_as s) a (4 * n))) acc))))"

partial_function (option) gem_tx_loop ::
  "'m gem_env \<Rightarrow> nat \<Rightarrow> u64 \<Rightarrow> desc \<Rightarrow> u8 list \<Rightarrow> 'm gem \<Rightarrow> 'm tx_ctl option" where
  "gem_tx_loop e q packet_desc_addr d acc s =
     (if tx_desc_get_used d \<noteq> 0 then Some (Tx_break s d acc)
      else
        (case gem_tx_step e q packet_desc_addr d acc s of
           Tx_next s' a d' acc' \<Rightarrow> gem_tx_loop e q a d' acc' s'
         | Tx_return s' \<Rightarrow> Some (Tx_return s')
         | Tx_break s' d' acc' \<Rightarrow> Some (Tx_break s' d' acc')
         | Tx_fault \<Rightarrow> Some Tx_fault))"

datatype 'm gem_out = Gem_ok "'m gem" | Gem_abort

text \<open>The walk of queue \<open>q\<close> met a used descriptor; the interrupt is defined only for queue 0.\<close>

definition tx_ring_used :: "nat \<Rightarrow> 'm gem \<Rightarrow> 'm gem" where
  "tx_ring_used q s =
     (let s = or_reg R_TXSTATUS (field_mask TXSTATUS_USED_BIT_READ) s;
          s = (if q = 0 then gem_set_isr 0 (field_mask ISR_TX_USED) s else s)
      in gem_update_int_status s)"

text \<open>The loop over the queues, highest first.\<close>

primrec gem_tx_queues :: "'m gem_env \<Rightarrow> nat \<Rightarrow> u8 list \<Rightarrow> 'm gem \<Rightarrow> 'm gem_out option" where
  "gem_tx_queues e 0 acc s = Some (Gem_ok s)"
| "gem_tx_queues e (Suc q) acc s =
     (let packet_desc_addr = gem_get_tx_desc_addr s q;
          n = gem_get_desc_len s False;
          d = desc_load (\<lambda>_. 0) n (as_read e (dma_as s) packet_desc_addr (4 * n))
      in case gem_tx_loop e q packet_desc_addr d acc s of
           None \<Rightarrow> None
         | Some (Tx_return s) \<Rightarrow> Some (Gem_ok s)
         | Some (Tx_break s d acc) \<Rightarrow>
             gem_tx_queues e q acc (if tx_desc_get_used d \<noteq> 0 then tx_ring_used q s else s)
         | Some _ \<Rightarrow> Some Gem_abort)"

definition gem_transmit :: "'m gem_env \<Rightarrow> 'm gem \<Rightarrow> 'm gem_out option" where
  "gem_transmit e s =
     (if FIELD_EX32 (regs s R_NWCTRL) NWCTRL_ENABLE_TRANSMIT = 0 then Some (Gem_ok s)
      else gem_tx_queues e (num_priority_queues s) [] s)"

text \<open>Induction over the passes of the ring loop that returns.\<close>

lemma gem_tx_loop_induct [consumes 1, case_names used stop more]:
  assumes "gem_tx_loop e q a d acc s = Some c"
    and "\<And>a d acc s. tx_desc_get_used d \<noteq> 0 \<Longrightarrow> P a d acc s (Tx_break s d acc)"
    and "\<And>a d acc s. tx_desc_get_used d = 0 \<Longrightarrow>
          (\<And>s' a' d' acc'. gem_tx_step e q a d acc s \<noteq> Tx_next s' a' d' acc') \<Longrightarrow>
          P a d acc s (gem_tx_step e q a d acc s)"
    and "\<And>a d acc s s' a' d' acc' c. tx_desc_get_used d = 0 \<Longrightarrow>
          gem_tx_step e q a d acc s = Tx_next s' a' d' acc' \<Longrightarrow> P a' d' acc' s' c \<Longrightarrow> P a d acc s c"
  shows "P a d acc s c"
proof -
  have "e = e \<longrightarrow> q = q \<longrightarrow> P a d acc s c"
  proof (rule gem_tx_loop.raw_induct [of "\<lambda>e' q' a d acc s c. e' = e \<longrightarrow> q' = q \<longrightarrow> P a d acc s c", OF _ assms(1)], intro impI)
    fix loop e' q' a d acc s c
    assume IH: "\<And>e' q' a d acc s c. loop e' q' a d acc s = Some c \<Longrightarrow> e' = e \<longrightarrow> q' = q \<longrightarrow> P a d acc s c"
      and body: "(if tx_desc_get_used d \<noteq> 0 then Some (Tx_break s d acc)
        else case gem_tx_step e' q' a d acc s of
               Tx_return s' \<Rightarrow> Some (Tx_return s')
             | Tx_break s' d' acc' \<Rightarrow> Some (Tx_break s' d' acc')
             | Tx_next s' a' d' acc' \<Rightarrow> loop e' q' a' d' acc' s'
             | Tx_fault \<Rightarrow> Some Tx_fault) = Some c"
      and eq: "e' = e" "q' = q"
    show "P a d acc s c"
    proof (cases "tx_desc_get_used d = 0")
      case True
      then show ?thesis
        using body IH [of e q] assms(3) [of d a acc s] assms(4) [of d a acc s] unfolding eq
        by (cases "gem_tx_step e q a d acc s") auto
    qed (use body assms(2) [of d] in auto)
  qed
  then show ?thesis by simp
qed

end
