(* ===== verification/Gem_Mmio.thy ===== *)
theory Gem_Mmio
  imports Gem_Tx
begin

text \<open>
  The register interface of the Cadence GEM model: reset, PHY access through \<open>PHYMNTNC\<close>, the read
  and write handlers with their side effects, link changes and the checks of \<open>realize\<close>
  (\<^verbatim>\<open>qemu-cadence-gem.c\<close>, lines 1461 to 1795).  A write can start a transmission, so \<open>gem_write\<close> has
  that operation's result type.
\<close>

section \<open>Reset\<close>

definition mask64 :: "nat \<Rightarrow> nat \<Rightarrow> u64" where
  "mask64 shift len = push_bit shift (mask len)"

definition gem_reset :: "'m gem \<Rightarrow> 'm gem" where
  "gem_reset s =
     (let r = (\<lambda>_. 0)(R_NWCFG := 0x00080000, R_NWSTATUS := 0x00000006, R_DMACFG := 0x00020784,
                R_IMR := 0x07ffffff, R_TXPAUSE := 0x0000ffff, R_TXPARTIALSF := 0x000003ff,
                R_RXPARTIALSF := 0x000003ff, R_MODID := revision s, R_DESCONF := 0x02D00110);
          r = (if \<not> pcs_enabled s then r(R_DESCONF := r R_DESCONF OR 0x00000001) else r);
          r = r(R_DESCONF2 := 0x2ab10000 OR ucast (jumbo_max_len s), R_DESCONF5 := 0x002f2045,
                R_DESCONF6 := field_mask DESCONF6_DMA_ADDR_64B, R_INT_Q1_MASK := 0x00000CE6,
                R_JUMBO_MAX_LEN := ucast (jumbo_max_len s));
          r = (if num_priority_queues s > 1 then
                 r(R_DESCONF6 := r R_DESCONF6 OR ucast (mask64 1 (num_priority_queues s - 1)))
               else r);
          a = (\<lambda>i. ucast (macaddr s ! i) :: u32);
          r = r(R_SPADDR1LO := a 0 OR push_bit 8 (a 1) OR push_bit 16 (a 2) OR push_bit 24 (a 3),
                R_SPADDR1HI := a 4 OR push_bit 8 (a 5));
          s = s\<lparr>regs := r,
                sar_active := (sar_active s)(0 := False, 1 := False, 2 := False, 3 := False),
                phy := gem_phy_reset (phy s)\<rparr>
      in gem_update_int_status s)"

section \<open>PHY access\<close>

definition gem_handle_phy_access :: "'m gem \<Rightarrow> 'm gem" where
  "gem_handle_phy_access s =
     (let val = regs s R_PHYMNTNC;
          phy_a = FIELD_EX32 val PHYMNTNC_PHY_ADDR;
          op = FIELD_EX32 val PHYMNTNC_OP;
          consumer = (case phy_consumer s of
                        Some c \<Rightarrow> if phy_a = ucast (phy_addr c) then Some c else None
                      | None \<Rightarrow> None);
          ps = (case consumer of Some c \<Rightarrow> c | None \<Rightarrow> phy s)
      in if \<not> phy_connected s \<or> phy_a \<noteq> ucast (phy_addr ps) then
           (if op = MDIO_OP_READ
            then set_reg R_PHYMNTNC (FIELD_DP32 val PHYMNTNC_DATA 0xffff) s else s)
         else
           (let reg_num = unat (FIELD_EX32 val PHYMNTNC_REG_ADDR) in
            if op = MDIO_OP_READ then
              set_reg R_PHYMNTNC (FIELD_DP32 val PHYMNTNC_DATA (ucast (gem_phy_read ps reg_num))) s
            else if op = MDIO_OP_WRITE then
              (let ps' = gem_phy_write ps reg_num (ucast val) in
               case consumer of Some _ \<Rightarrow> s\<lparr>phy_consumer := Some ps'\<rparr> | None \<Rightarrow> s\<lparr>phy := ps'\<rparr>)
            else s))"

section \<open>Register read and write\<close>

text \<open>\<open>off\<close> is the word index \<open>offset >> 2\<close>; the memory region keeps it below \<open>CADENCE_GEM_MAXREG\<close>.\<close>

definition gem_read :: "nat \<Rightarrow> 'm gem \<Rightarrow> u32 \<times> 'm gem" where
  "gem_read off s =
     (let retval = regs s off;
          s = set_reg off (regs s off AND NOT (regs_rtc s off)) s;
          retval = retval AND NOT (regs_wo s off)
      in (retval, gem_update_int_status s))"

text \<open>Reset the transmit pointers of queues \<open>0..<n\<close> to their base registers.\<close>

definition tx_desc_rewind :: "nat \<Rightarrow> 'm gem \<Rightarrow> 'm gem option" where
  "tx_desc_rewind n s =
     fold (\<lambda>i so. case so of None \<Rightarrow> None | Some s \<Rightarrow>
             map_option (\<lambda>base. s\<lparr>tx_desc_addr := (tx_desc_addr s)(i := base)\<rparr>)
               (gem_get_tx_queue_base_addr s i))
       [0..<n] (Some s)"

definition gem_write_nwctrl :: "'m gem_env \<Rightarrow> u32 \<Rightarrow> 'm gem \<Rightarrow> 'm gem_out option" where
  "gem_write_nwctrl e val s =
     (let s = (if FIELD_EX32 val NWCTRL_ENABLE_RECEIVE \<noteq> 0
               then fold (gem_get_rx_desc e) [0..<num_priority_queues s] s else s);
          r = (if FIELD_EX32 val NWCTRL_TRANSMIT_START \<noteq> 0 then gem_transmit e s
               else Some (Gem_ok s))
      in case r of
           None \<Rightarrow> None
         | Some Gem_abort \<Rightarrow> Some Gem_abort
         | Some (Gem_ok s) \<Rightarrow>
             (let so = (if FIELD_EX32 val NWCTRL_ENABLE_TRANSMIT = 0
                        then tx_desc_rewind (num_priority_queues s) s else Some s)
              in case so of
                   None \<Rightarrow> Some Gem_abort
                 | Some s \<Rightarrow>
                     (let (ok, s) = gem_can_receive s
                      in Some (Gem_ok (if ok then qemu_flush_queued_packets e s else s)))))"

text \<open>The store that every register write makes before its side effects.\<close>

definition gem_store :: "nat \<Rightarrow> u32 \<Rightarrow> 'm gem \<Rightarrow> 'm gem" where
  "gem_store off val s =
     (let val = val AND NOT (regs_ro s off);
          readonly = regs s off AND (regs_ro s off OR regs_w1c s off);
          s = set_reg off ((val AND NOT (regs_w1c s off)) OR readonly) s
      in set_reg off (regs s off AND NOT (regs_w1c s off AND val)) s)"

definition gem_write :: "'m gem_env \<Rightarrow> nat \<Rightarrow> u32 \<Rightarrow> 'm gem \<Rightarrow> 'm gem_out option" where
  "gem_write e off val0 s =
     (let val = val0 AND NOT (regs_ro s off);
          s = gem_store off val0 s;
          ok = (\<lambda>s. Some (Gem_ok s))
      in if off = R_NWCTRL then gem_write_nwctrl e val s
         else if off = R_TXSTATUS then ok (gem_update_int_status s)
         else if off = R_RXQBASE then ok (s\<lparr>rx_desc_addr := (rx_desc_addr s)(0 := val)\<rparr>)
         else if R_RECEIVE_Q1_PTR \<le> off \<and> off \<le> R_RECEIVE_Q7_PTR then
           ok (s\<lparr>rx_desc_addr := (rx_desc_addr s)(off - R_RECEIVE_Q1_PTR + 1 := val)\<rparr>)
         else if off = R_TXQBASE then ok (s\<lparr>tx_desc_addr := (tx_desc_addr s)(0 := val)\<rparr>)
         else if R_TRANSMIT_Q1_PTR \<le> off \<and> off \<le> R_TRANSMIT_Q7_PTR then
           ok (s\<lparr>tx_desc_addr := (tx_desc_addr s)(off - R_TRANSMIT_Q1_PTR + 1 := val)\<rparr>)
         else if off = R_RXSTATUS then ok (gem_update_int_status s)
         else if off = R_IER then
           ok (gem_update_int_status (set_reg R_IMR (regs s R_IMR AND NOT val) s))
         else if off = R_JUMBO_MAX_LEN then
           ok (set_reg R_JUMBO_MAX_LEN (val AND MAX_JUMBO_FRAME_SIZE_MASK) s)
         else if R_INT_Q1_ENABLE \<le> off \<and> off \<le> R_INT_Q7_ENABLE then
           ok (gem_update_int_status
                (set_reg (R_INT_Q1_MASK + off - R_INT_Q1_ENABLE)
                  (regs s (R_INT_Q1_MASK + off - R_INT_Q1_ENABLE) AND NOT val) s))
         else if off = R_IDR then
           ok (gem_update_int_status (set_reg R_IMR (regs s R_IMR OR val) s))
         else if R_INT_Q1_DISABLE \<le> off \<and> off \<le> R_INT_Q7_DISABLE then
           ok (gem_update_int_status
                (set_reg (R_INT_Q1_MASK + off - R_INT_Q1_DISABLE)
                  (regs s (R_INT_Q1_MASK + off - R_INT_Q1_DISABLE) OR val) s))
         else if off \<in> {R_SPADDR1LO, R_SPADDR2LO, R_SPADDR3LO, R_SPADDR4LO} then
           ok (s\<lparr>sar_active := (sar_active s)((off - R_SPADDR1LO) div 2 := False)\<rparr>)
         else if off \<in> {R_SPADDR1HI, R_SPADDR2HI, R_SPADDR3HI, R_SPADDR4HI} then
           ok (s\<lparr>sar_active := (sar_active s)((off - R_SPADDR1HI) div 2 := True)\<rparr>)
         else if off = R_PHYMNTNC then ok (gem_handle_phy_access s)
         else ok s)"

section \<open>Link changes and realize\<close>

definition gem_set_link :: "'m gem \<Rightarrow> 'm gem" where
  "gem_set_link s = gem_update_int_status (s\<lparr>phy := phy_update_link (phy s)\<rparr>)"

datatype gem_error =
    Invalid_num_priority_queues nat
  | Invalid_num_type1_screeners nat
  | Invalid_num_type2_screeners nat
  | Jumbo_max_len_too_large

text \<open>
  \<open>qemu_macaddr_default_if_unset\<close> is the argument \<open>mac_default\<close>.  The masks are installed before
  the last check fails, as in the source.
\<close>

definition gem_realize :: "(u8 list \<Rightarrow> u8 list) \<Rightarrow> 'm gem \<Rightarrow> gem_error + 'm gem" where
  "gem_realize mac_default s =
     (if num_priority_queues s = 0 \<or> num_priority_queues s > MAX_PRIORITY_QUEUES then
        Inl (Invalid_num_priority_queues (num_priority_queues s))
      else if num_type1_screeners s > MAX_TYPE1_SCREENERS then
        Inl (Invalid_num_type1_screeners (num_type1_screeners s))
      else if num_type2_screeners s > MAX_TYPE2_SCREENERS then
        Inl (Invalid_num_type2_screeners (num_type2_screeners s))
      else
        (let s = gem_init_register_masks s;
             s = s\<lparr>macaddr := mac_default (macaddr s)\<rparr>
         in if unat (jumbo_max_len s) > MAX_FRAME_SIZE then Inl Jumbo_max_len_too_large
            else Inr s))"

section \<open>What a store does to each bit\<close>

lemma gem_store_bit:
  "bit (regs (gem_store off val s) off) n \<longleftrightarrow>
     (if bit (regs_w1c s off) n then bit (regs s off) n \<and> (bit (regs_ro s off) n \<or> \<not> bit val n)
      else if bit (regs_ro s off) n then bit (regs s off) n
      else bit val n)"
  by (auto simp: gem_store_def Let_def reg_ops bit_simps dest: bit_imp_le_length)

lemma gem_store_other: "r \<noteq> off \<Longrightarrow> regs (gem_store off val s) r = regs s r"
  by (simp add: gem_store_def Let_def reg_ops)

end
