(* ===== verification/Gem_Tx_Props.thy ===== *)
theory Gem_Tx_Props
  imports Gem_Mmio
begin

text \<open>
  Transmission of one packet: a chain of descriptors that describes it is gathered, handed to the
  network layer, marked used and accounted.
\<close>

text \<open>Descriptor in 32-bit mode without extended words\<close>

definition tx_basic :: "'m gem \<Rightarrow> bool" where
  "tx_basic s \<longleftrightarrow> gem_get_desc_len s False = 2"

definition desc_at :: "'m gem_env \<Rightarrow> 'm \<Rightarrow> u64 \<Rightarrow> desc" where
  "desc_at e m a = desc_load (\<lambda>_. 0) 2 (as_read e m a 8)"

lemma desc_load_desc_at [simp]:
  "desc_load (desc_at e m a) 2 (as_read e m' a' 8) = desc_at e m' a'"
  by (auto simp: desc_at_def desc_load_def fun_eq_iff)

definition tx_desc_fits :: "nat \<Rightarrow> 'm gem \<Rightarrow> desc \<Rightarrow> bool" where
  "tx_desc_fits room s d \<longleftrightarrow> tx_desc_get_used d = 0 \<and> tx_desc_get_wrap d = 0 \<and>
     tx_desc_get_buffer s d \<noteq> 0 \<and> 0 < tx_desc_get_length d \<and> tx_desc_get_length d \<le> room"

text \<open>The fragments of one packet in consecutive descriptors from \<open>a\<close>: all but the last without \<open>LAST\<close>.\<close>

fun tx_chain :: "'m gem_env \<Rightarrow> 'm gem \<Rightarrow> nat \<Rightarrow> nat \<Rightarrow> u64 \<Rightarrow> bool" where
  "tx_chain e s room 0 a = False"
| "tx_chain e s room (Suc 0) a =
     (tx_desc_fits room s (desc_at e (dma_as s) a) \<and> tx_desc_get_last (desc_at e (dma_as s) a) \<noteq> 0)"
| "tx_chain e s room (Suc (Suc k)) a =
     (tx_desc_fits room s (desc_at e (dma_as s) a) \<and> tx_desc_get_last (desc_at e (dma_as s) a) = 0 \<and>
      tx_chain e s (room - tx_desc_get_length (desc_at e (dma_as s) a)) (Suc k) (a + 8))"

fun tx_fragments :: "'m gem_env \<Rightarrow> 'm gem \<Rightarrow> nat \<Rightarrow> u64 \<Rightarrow> u8 list" where
  "tx_fragments e s 0 a = []"
| "tx_fragments e s (Suc k) a =
     (let d = desc_at e (dma_as s) a
      in as_read e (dma_as s) (tx_desc_get_buffer s d) (tx_desc_get_length d) @ tx_fragments e s k (a + 8))"

context gem_bus
begin

lemma gem_tx_loop_gather:
  assumes "tx_basic s"
    and en: "FIELD_EX32 (regs s R_NWCTRL) NWCTRL_ENABLE_TRANSMIT \<noteq> 0"
    and "tx_chain e s (gem_get_max_buf_len s True - length acc) (Suc k) a"
    and "length acc \<le> gem_get_max_buf_len s True"
  shows "\<exists>acc'. gem_tx_loop e q a (desc_at e (dma_as s) a) acc s =
           gem_tx_loop e q (a + 8 * of_nat k) (desc_at e (dma_as s) (a + 8 * of_nat k)) acc' s \<and>
         acc' @ tx_fragments e s 1 (a + 8 * of_nat k) = acc @ tx_fragments e s (Suc k) a \<and>
         length acc' \<le> gem_get_max_buf_len s True \<and>
         tx_chain e s (gem_get_max_buf_len s True - length acc') 1 (a + 8 * of_nat k)"
  using assms(3,4)
proof (induction k arbitrary: a acc)
  case 0
  then show ?case by auto
next
  case (Suc k)
  let ?d = "desc_at e (dma_as s) a"
  let ?acc = "acc @ as_read e (dma_as s) (tx_desc_get_buffer s ?d) (tx_desc_get_length ?d)"
  have fits: "tx_desc_fits (gem_get_max_buf_len s True - length acc) s ?d" "tx_desc_get_last ?d = 0"
    and rest: "tx_chain e s (gem_get_max_buf_len s True - length ?acc) (Suc k) (a + 8)"
    using Suc.prems by simp_all
  have room: "\<not> int (tx_desc_get_length ?d) > int (gem_get_max_buf_len s True) - int (length acc)"
    using fits Suc.prems(2) by (auto simp: tx_desc_fits_def)
  have "gem_tx_step e q a ?d acc s = Tx_next s (a + 8) (desc_at e (dma_as s) (a + 8)) ?acc"
    using fits Suc.prems(2) en assms(1) room
    by (simp add: gem_tx_step_def tx_desc_fits_def tx_next_addr_def tx_basic_def Let_def)
  then have "gem_tx_loop e q a ?d acc s = gem_tx_loop e q (a + 8) (desc_at e (dma_as s) (a + 8)) ?acc s"
    using fits by (subst gem_tx_loop.simps) (simp add: tx_desc_fits_def)
  moreover have "length ?acc \<le> gem_get_max_buf_len s True"
    using fits Suc.prems(2) by (auto simp: tx_desc_fits_def)
  ultimately show ?case
    using Suc.IH [OF rest] by (auto simp: Let_def algebra_simps)
qed

lemma desc_load_of_read:
  "i < n \<Longrightarrow> desc_load d n (as_read e m a (4 * n)) i = of_le32 (as_read e m (a + of_nat (4 * i)) (4 * (n - i)))"
  by (simp add: desc_load_def rd_drop diff_mult_distrib2)


text \<open>Marking the first descriptor used changes only the second word there.\<close>

lemma mark_used_bytes:
  assumes "length bs = 24"
  shows "desc_bytes 6 (tx_desc_set_used (desc_load d0 6 bs)) =
    take 4 bs @ le32 (of_le32 (drop 4 bs) OR DESC_1_USED) @ drop 8 bs"
proof -
  have w: "le32 (of_le32 (drop k bs)) = take 4 (drop k bs)" if "k + 4 \<le> 24" for k
    using that assms by (intro le32_of_le32_take) simp
  have tail: "drop 8 bs = take 4 (drop 8 bs) @ take 4 (drop 12 bs) @ take 4 (drop 16 bs) @ take 4 (drop 20 bs)"
    using assms by (simp add: list_eq_iff_nth_eq nth_append)
  have six: "[0..<6] = [0, 1, 2, 3, 4, 5::nat]" by (simp add: upt_rec)
  show ?thesis
    using w [of 0] w [of 8] w [of 12] w [of 16] w [of 20]
    by (simp add: desc_bytes_def six tx_desc_set_used_def desc_load_def flip: tail)
qed

lemma mark_used_reads:
  fixes m and A :: u64
  defines "m' \<equiv> as_write e m A (desc_bytes 6 (tx_desc_set_used (desc_load (\<lambda>_. 0) 6 (as_read e m A 24))))"
  shows "8 \<le> k \<Longrightarrow> k + n \<le> 24 \<Longrightarrow> as_read e m' (A + of_nat k) n = as_read e m (A + of_nat k) n"
    and "as_read e m' A 4 = as_read e m A 4"
    and "of_le32 (as_read e m' (A + 4) 4) = of_le32 (as_read e m (A + 4) 4) OR DESC_1_USED"
    and "mem_range A 24 \<inter> mem_range x n = {} \<Longrightarrow> as_read e m' x n = as_read e m x n"
proof -
  let ?bs = "as_read e m A 24"
  have m': "m' = as_write e m A (take 4 ?bs @ le32 (of_le32 (drop 4 ?bs) OR DESC_1_USED) @ drop 8 ?bs)"
    (is "_ = as_write e m A ?bs'")
    unfolding m'_def by (subst mark_used_bytes) simp_all
  have sub: "as_read e m' (A + of_nat k) n = take n (drop k ?bs')" if "k + n \<le> 24" for k n
    unfolding m' using that by (intro rd_wr_sub) simp_all
  have old: "as_read e m (A + of_nat k) n = take n (drop k ?bs)" if "k + n \<le> 24" for k n
    using rd_drop [of k 24 m A] rd_take [of n "24 - k" m "A + of_nat k"] that by simp
  show "8 \<le> k \<Longrightarrow> k + n \<le> 24 \<Longrightarrow> as_read e m' (A + of_nat k) n = as_read e m (A + of_nat k) n"
    using sub [of k n] old [of k n] by simp
  show "as_read e m' A 4 = as_read e m A 4"
    using sub [of 0 4] old [of 0 4] by simp
  show "of_le32 (as_read e m' (A + 4) 4) = of_le32 (as_read e m (A + 4) 4) OR DESC_1_USED"
    using sub [of 4 4] old [of 4 4] by (simp add: of_le32_take)
  show "mem_range A 24 \<inter> mem_range x n = {} \<Longrightarrow> as_read e m' x n = as_read e m x n"
    unfolding m' by (rule rd_wr_other) simp
qed

end

lemma tx_basic_32: "tx_basic s \<Longrightarrow> \<not> dma_64b s"
  by (auto simp: tx_basic_def gem_get_desc_len_def)

text \<open>Statistics and interrupt updates leave the registers that steer the transmit path alone.\<close>

definition tx_ctrl_same :: "'m gem \<Rightarrow> 'm gem \<Rightarrow> bool" where
  "tx_ctrl_same s t \<longleftrightarrow> regs t R_NWCTRL = regs s R_NWCTRL \<and> regs t R_DMACFG = regs s R_DMACFG \<and>
     regs t R_TXQBASE = regs s R_TXQBASE \<and> dma_as t = dma_as s \<and> tx_desc_addr t = tx_desc_addr s \<and>
     num_priority_queues t = num_priority_queues s \<and> phy t = phy s"

lemma transmit_updatestats_same:
  "tx_ctrl_same s (gem_transmit_updatestats p n s) \<and> nic_sent (gem_transmit_updatestats p n s) = nic_sent s \<and>
   regs (gem_transmit_updatestats p n s) R_TXSTATUS = regs s R_TXSTATUS \<and>
   regs (gem_transmit_updatestats p n s) R_ISR = regs s R_ISR \<and>
   regs (gem_transmit_updatestats p n s) R_IMR = regs s R_IMR"
  by (simp add: gem_transmit_updatestats_def add_octets_def reg_ops Let_def tx_ctrl_same_def)

lemma set_isr_same: "tx_ctrl_same s (gem_set_isr q f s) \<and> nic_sent (gem_set_isr q f s) = nic_sent s \<and>
   regs (gem_set_isr q f s) R_TXSTATUS = regs s R_TXSTATUS"
  by (simp add: gem_set_isr_def reg_ops tx_ctrl_same_def)

lemma tx_ctrl_same_trans: "tx_ctrl_same s t \<Longrightarrow> tx_ctrl_same t u \<Longrightarrow> tx_ctrl_same s u"
  by (simp add: tx_ctrl_same_def)

lemma or_txstatus_same: "tx_ctrl_same s (or_reg R_TXSTATUS f s)"
  by (simp add: reg_ops tx_ctrl_same_def)

lemma update_int_status_same:
  "tx_ctrl_same s (gem_update_int_status s) \<and> nic_sent (gem_update_int_status s) = nic_sent s \<and>
   regs (gem_update_int_status s) = regs s"
  by (simp add: gem_update_int_status_def tx_ctrl_same_def)

text \<open>The device state when the packet is handed to the network layer.\<close>

definition tx_accounted :: "'m gem_env \<Rightarrow> nat \<Rightarrow> u8 list \<Rightarrow> u8 list \<Rightarrow> 'm gem \<Rightarrow> 'm gem" where
  "tx_accounted e q packet pkt s =
     gem_transmit_updatestats (buf_ptr e pkt) (length packet)
       (gem_update_int_status
         (gem_set_isr q (field_mask ISR_XMIT_COMPLETE)
           (or_reg R_TXSTATUS (field_mask TXSTATUS_TRANSMIT_COMPLETE) s)))"

lemma tx_accounted_effect:
  "tx_ctrl_same s (tx_accounted e q packet pkt s)"
  "nic_sent (tx_accounted e q packet pkt s) = nic_sent s"
  "regs (tx_accounted e q packet pkt s) R_TXSTATUS = regs s R_TXSTATUS OR field_mask TXSTATUS_TRANSMIT_COMPLETE"
proof -
  let ?u0 = "or_reg R_TXSTATUS (field_mask TXSTATUS_TRANSMIT_COMPLETE) s"
  let ?u1 = "gem_set_isr q (field_mask ISR_XMIT_COMPLETE) ?u0"
  let ?u2 = "gem_update_int_status ?u1"
  show "tx_ctrl_same s (tx_accounted e q packet pkt s)"
    unfolding tx_accounted_def
    using transmit_updatestats_same [of ?u2] set_isr_same [of ?u0] update_int_status_same [of ?u1]
      or_txstatus_same [of s] by (blast intro: tx_ctrl_same_trans)
  show "nic_sent (tx_accounted e q packet pkt s) = nic_sent s"
    unfolding tx_accounted_def
    using transmit_updatestats_same [of ?u2] set_isr_same [of ?u0] update_int_status_same [of ?u1]
    by (simp add: reg_ops)
  show "regs (tx_accounted e q packet pkt s) R_TXSTATUS = regs s R_TXSTATUS OR field_mask TXSTATUS_TRANSMIT_COMPLETE"
    unfolding tx_accounted_def
    using transmit_updatestats_same [of ?u2] set_isr_same [of ?u0] update_int_status_same [of ?u1]
    by (simp add: reg_ops)
qed

definition tx_checksummed :: "'m gem_env \<Rightarrow> 'm gem \<Rightarrow> u8 list \<Rightarrow> u8 list" where
  "tx_checksummed e s packet =
     (if FIELD_EX32 (regs s R_DMACFG) DMACFG_TX_PBUF_CSUM_OFFLOAD \<noteq> 0
      then net_checksum_calculate e packet else packet)"

lemma tx_handoff_eq:
  "tx_handoff e q packet s =
     (let pkt = tx_checksummed e s packet; t = tx_accounted e q packet pkt s
      in if phy_loop (phy s) \<or> FIELD_EX32 (regs s R_NWCTRL) NWCTRL_LOOPBACK_LOCAL \<noteq> 0
         then qemu_receive_packet e t pkt else t\<lparr>nic_sent := nic_sent s @ [pkt]\<rparr>)"
proof -
  have cs: "(if FIELD_EX32 (regs (gem_update_int_status (gem_set_isr q f (or_reg R_TXSTATUS g s))) R_DMACFG)
               DMACFG_TX_PBUF_CSUM_OFFLOAD \<noteq> 0
             then net_checksum_calculate e packet else packet) = tx_checksummed e s packet" for f g
    using set_isr_same [of "or_reg R_TXSTATUS g s" q f] or_txstatus_same [of s g]
    by (simp add: tx_checksummed_def update_int_status_same tx_ctrl_same_def)
  let ?t = "tx_accounted e q packet (tx_checksummed e s packet) s"
  have "regs ?t R_NWCTRL = regs s R_NWCTRL" "phy ?t = phy s" "nic_sent ?t = nic_sent s"
    using tx_accounted_effect(1) [of s e q packet "tx_checksummed e s packet"]
    by (simp_all add: tx_ctrl_same_def tx_accounted_effect(2))
  then show ?thesis
    unfolding tx_handoff_def Let_def cs tx_accounted_def [symmetric] by simp
qed

lemma tx_handoff_effect:
  assumes "\<not> phy_loop (phy s)" "FIELD_EX32 (regs s R_NWCTRL) NWCTRL_LOOPBACK_LOCAL = 0"
  shows "tx_ctrl_same s (tx_handoff e q packet s)"
    and "nic_sent (tx_handoff e q packet s) = nic_sent s @ [tx_checksummed e s packet]"
    and "regs (tx_handoff e q packet s) R_TXSTATUS = regs s R_TXSTATUS OR field_mask TXSTATUS_TRANSMIT_COMPLETE"
  using assms tx_accounted_effect(1) [of s e q packet "tx_checksummed e s packet"]
    tx_accounted_effect(3) [of e q packet "tx_checksummed e s packet" s]
  by (simp_all add: tx_handoff_eq Let_def tx_ctrl_same_def)

lemma tx_ring_used_effect:
  "tx_ctrl_same s (tx_ring_used q s)"
  "nic_sent (tx_ring_used q s) = nic_sent s"
  "regs (tx_ring_used q s) R_TXSTATUS = regs s R_TXSTATUS OR field_mask TXSTATUS_USED_BIT_READ"
  "irq_ok (tx_ring_used q s)"
  by (simp_all add: tx_ring_used_def Let_def gem_set_isr_def reg_ops update_int_status_same tx_ctrl_same_def)
     (simp_all add: gem_update_int_status_def)

lemma tx_ctrl_same_desc_len: "tx_ctrl_same s t \<Longrightarrow> gem_get_desc_len t b = gem_get_desc_len s b"
  by (simp add: tx_ctrl_same_def gem_get_desc_len_def dma_64b_def)

context gem_bus
begin

lemma desc_at_words:
  "desc_at e m a 0 = of_le32 (as_read e m a 4)"
  "desc_at e m a 1 = of_le32 (as_read e m (a + 4) 4)"
proof -
  have "as_read e m a 8 = as_read e m a 4 @ as_read e m (a + 4) 4"
    using rd_split [of m a 4 4] by simp
  moreover have "of_le32 (xs @ ys) = of_le32 xs" if "length xs = 4" for xs ys
    using that of_le32_take [of "xs @ ys"] by simp
  ultimately show "desc_at e m a 0 = of_le32 (as_read e m a 4)"
    "desc_at e m a 1 = of_le32 (as_read e m (a + 4) 4)"
    by (simp_all add: desc_at_def desc_load_def)
qed

lemma desc_at_cong: "as_read e m a 8 = as_read e m' a 8 \<Longrightarrow> desc_at e m a = desc_at e m' a"
  by (simp add: desc_at_def)

lemma mark_used_next:
  assumes "k < 2 ^ 32"
  shows "desc_at e (as_write e m A (desc_bytes 6 (tx_desc_set_used (desc_load (\<lambda>_. 0) 6 (as_read e m A 24)))))
           (A + 8 * of_nat k + 8) = desc_at e m (A + 8 * of_nat k + 8)"
proof -
  have off: "A + 8 * of_nat k + 8 = A + of_nat (8 * k + 8)" by simp
  show ?thesis
  proof (cases "k < 2")
    case True
    then show ?thesis
      unfolding off by (intro desc_at_cong mark_used_reads(1)) simp_all
  next
    case False
    then have "mem_range (A + of_nat 0) 24 \<inter> mem_range (A + of_nat (8 * k + 8)) 8 = {}"
      using assms by (intro mem_range_disjoint) simp_all
    then show ?thesis
      unfolding off by (intro desc_at_cong mark_used_reads(4)) simp
  qed
qed

lemma mark_used_first:
  "tx_desc_get_used (desc_at e (as_write e m A (desc_bytes 6 (tx_desc_set_used
     (desc_load (\<lambda>_. 0) 6 (as_read e m A 24))))) A) \<noteq> 0"
proof -
  have "desc_at e (as_write e m A (desc_bytes 6 (tx_desc_set_used (desc_load (\<lambda>_. 0) 6 (as_read e m A 24))))) A 1 =
        desc_at e m A 1 OR DESC_1_USED"
    using mark_used_reads(3) [of m A] unfolding desc_at_words .
  then show ?thesis
    using or_and_absorb [of "desc_at e m A 1" DESC_1_USED] unfolding tx_desc_get_used_def by simp
qed

lemma gem_tx_loop_last:
  assumes basic: "tx_basic s" and en: "FIELD_EX32 (regs s R_NWCTRL) NWCTRL_ENABLE_TRANSMIT \<noteq> 0"
    and noloop: "\<not> phy_loop (phy s)" "FIELD_EX32 (regs s R_NWCTRL) NWCTRL_LOOPBACK_LOCAL = 0"
    and last: "tx_chain e s (gem_get_max_buf_len s True - length acc) 1 a"
    and acc: "length acc \<le> gem_get_max_buf_len s True"
    and A: "A = gem_get_tx_desc_addr s q"
    and m': "m' = as_write e (dma_as s) A
               (desc_bytes 6 (tx_desc_set_used (desc_load (\<lambda>_. 0) 6 (as_read e (dma_as s) A 24))))"
    and used: "tx_desc_get_used (desc_at e m' (a + 8)) \<noteq> 0"
    and s1: "s1 = s\<lparr>dma_as := m', tx_desc_addr := (tx_desc_addr s)(q := ucast (a + 8))\<rparr>"
  shows "gem_tx_loop e q a (desc_at e (dma_as s) a) acc s =
     Some (Tx_break (tx_handoff e q (acc @ tx_fragments e s 1 a) s1) (desc_at e m' (a + 8)) [])"
proof -
  let ?d = "desc_at e (dma_as s) a"
  let ?acc = "acc @ tx_fragments e s 1 a"
  let ?s2 = "tx_handoff e q ?acc s1"
  have fits: "tx_desc_fits (gem_get_max_buf_len s True - length acc) s ?d" "tx_desc_get_last ?d \<noteq> 0"
    using last by simp_all
  have room: "\<not> int (tx_desc_get_length ?d) > int (gem_get_max_buf_len s True) - int (length acc)"
    using fits acc by (auto simp: tx_desc_fits_def)
  have c: "tx_complete_desc e q a ?d s = Some s1"
    using fits basic A m' s1
    by (simp add: tx_complete_desc_def Let_def tx_desc_fits_def tx_basic_def gem_get_desc_len_def dma_64b_def)
  have same: "tx_ctrl_same s1 ?s2"
    using noloop s1 by (intro tx_handoff_effect) simp_all
  then have len: "gem_get_desc_len ?s2 False = 2" and mem: "dma_as ?s2 = m'"
    using basic s1 tx_ctrl_same_desc_len [OF same, of False]
    by (auto simp: tx_basic_def tx_ctrl_same_def gem_get_desc_len_def dma_64b_def)
  have "gem_tx_step e q a ?d acc s = Tx_next ?s2 (a + 8) (desc_at e m' (a + 8)) []"
    using fits room en c len mem
    by (simp add: gem_tx_step_def tx_desc_fits_def tx_next_addr_def Let_def)
  then show ?thesis
    using fits used by (subst gem_tx_loop.simps, simp add: tx_desc_fits_def) (subst gem_tx_loop.simps, simp)
qed

lemma gem_transmit_packet:
  assumes basic: "tx_basic s" and en: "FIELD_EX32 (regs s R_NWCTRL) NWCTRL_ENABLE_TRANSMIT \<noteq> 0"
    and noloop: "\<not> phy_loop (phy s)" "FIELD_EX32 (regs s R_NWCTRL) NWCTRL_LOOPBACK_LOCAL = 0"
    and one: "num_priority_queues s = 1"
    and A: "A = ucast (tx_desc_addr s 0)"
    and chain: "tx_chain e s (gem_get_max_buf_len s True) (Suc k) A"
    and stop: "tx_desc_get_used (desc_at e (dma_as s) (A + 8 * of_nat (Suc k))) \<noteq> 0"
    and k: "k < 2 ^ 32"
  shows "\<exists>s'. gem_transmit e s = Some (Gem_ok s') \<and>
     nic_sent s' = nic_sent s @ [tx_checksummed e s (tx_fragments e s (Suc k) A)] \<and>
     tx_desc_addr s' 0 = tx_desc_addr s 0 + 8 * of_nat (Suc k) \<and>
     tx_desc_get_used (desc_at e (dma_as s') A) \<noteq> 0 \<and>
     regs s' R_TXSTATUS = regs s R_TXSTATUS OR field_mask TXSTATUS_TRANSMIT_COMPLETE OR field_mask TXSTATUS_USED_BIT_READ \<and>
     irq_ok s'"
proof -
  define m where "m = dma_as s"
  define a where "a = A + 8 * of_nat k"
  define m' where "m' = as_write e m A (desc_bytes 6 (tx_desc_set_used (desc_load (\<lambda>_. 0) 6 (as_read e m A 24))))"
  define s1 where "s1 = s\<lparr>dma_as := m', tx_desc_addr := (tx_desc_addr s)(0 := ucast (a + 8))\<rparr>"
  define pkt where "pkt = tx_fragments e s (Suc k) A"
  define s2 where "s2 = tx_handoff e 0 pkt s1"
  define s3 where "s3 = tx_ring_used 0 s2"
  have addr: "gem_get_tx_desc_addr s 0 = A"
    using A tx_basic_32 [OF basic] by (simp add: gem_get_tx_desc_addr_def gem_get_desc_addr_def)
  have used: "tx_desc_get_used (desc_at e m' (a + 8)) \<noteq> 0"
    using stop mark_used_next [OF k, of m A] unfolding m'_def m_def a_def
    by (simp add: algebra_simps)
  obtain acc where acc: "gem_tx_loop e 0 A (desc_at e m A) [] s = gem_tx_loop e 0 a (desc_at e m a) acc s"
    "acc @ tx_fragments e s 1 a = pkt" "length acc \<le> gem_get_max_buf_len s True"
    "tx_chain e s (gem_get_max_buf_len s True - length acc) 1 a"
    using gem_tx_loop_gather [OF basic en, of "[]" k A 0] chain unfolding m_def a_def pkt_def by auto
  have loop: "gem_tx_loop e 0 A (desc_at e m A) [] s = Some (Tx_break s2 (desc_at e m' (a + 8)) [])"
    using gem_tx_loop_last [OF basic en noloop acc(4,3) addr [symmetric] m'_def [unfolded m_def] used s1_def]
    unfolding acc(2) s2_def using acc(1) by (simp add: m_def)
  have run: "gem_transmit e s = Some (Gem_ok s3)"
    using en one addr basic loop used
    by (simp add: gem_transmit_def Let_def tx_basic_def s3_def m_def flip: desc_at_def)
  have noloop1: "\<not> phy_loop (phy s1)" "FIELD_EX32 (regs s1 R_NWCTRL) NWCTRL_LOOPBACK_LOCAL = 0"
    using noloop by (simp_all add: s1_def)
  note h = tx_handoff_effect [OF noloop1, where e = e and q = 0 and packet = pkt, folded s2_def] and u = tx_ring_used_effect [where s = s2 and q = 0, folded s3_def]
  have "tx_ctrl_same s1 s3" using h(1) u(1) by (rule tx_ctrl_same_trans)
  then have fin: "dma_as s3 = m'" "tx_desc_addr s3 0 = ucast (a + 8)"
    by (simp_all add: tx_ctrl_same_def s1_def)
  have "ucast (a + 8) = tx_desc_addr s 0 + 8 * of_nat (Suc k)"
    unfolding a_def A by (rule ucast_advance)
  moreover have "nic_sent s3 = nic_sent s @ [tx_checksummed e s pkt]"
    using h(2) u(2) by (simp add: s1_def tx_checksummed_def)
  moreover have "regs s3 R_TXSTATUS = regs s R_TXSTATUS OR field_mask TXSTATUS_TRANSMIT_COMPLETE OR field_mask TXSTATUS_USED_BIT_READ"
    using h(3) u(3) by (simp add: s1_def or.assoc)
  moreover have "tx_desc_get_used (desc_at e m' A) \<noteq> 0"
    unfolding m'_def by (rule mark_used_first)
  ultimately show ?thesis
    using run fin u(4) unfolding pkt_def by auto
qed
end
end
