(* ===== verification/Gem_Frame.thy ===== *)
theory Gem_Frame
  imports Gem_Mmio
begin

text \<open>
  What no operation of the Cadence GEM model changes, and the states a guest and the network can
  drive the device into.  The network layer (not in the repository) enters through the locale
  \<open>net_layer\<close>: its loopback and flush entry points do nothing to the device but call back into
  \<open>gem_can_receive\<close> and \<open>gem_receive\<close>.
\<close>

section \<open>The frame of an operation\<close>

definition gem_cfg :: "'m gem \<Rightarrow> nat \<times> nat \<times> nat \<times> u32 \<times> u16 \<times> bool \<times> u8 list \<times>
    (nat \<Rightarrow> u32) \<times> (nat \<Rightarrow> u32) \<times> (nat \<Rightarrow> u32) \<times> (nat \<Rightarrow> u32)" where
  "gem_cfg s = (num_priority_queues s, num_type1_screeners s, num_type2_screeners s, revision s,
     jumbo_max_len s, pcs_enabled s, macaddr s, regs_ro s, regs_rtc s, regs_w1c s, regs_wo s)"

definition gem_frame :: "'m gem \<Rightarrow> 'm gem \<Rightarrow> bool" where
  "gem_frame s t \<longleftrightarrow> gem_cfg t = gem_cfg s \<and> regs t R_MODID = regs s R_MODID \<and>
     regs t R_NWSTATUS = regs s R_NWSTATUS"

lemma gem_frame_refl [simp]: "gem_frame s s"
  by (simp add: gem_frame_def)

lemma gem_frame_trans [trans]: "gem_frame s t \<Longrightarrow> gem_frame t u \<Longrightarrow> gem_frame s u"
  by (simp add: gem_frame_def)

named_theorems frame_intros \<open>the frame of each operation\<close>

lemma frame_set_reg [frame_intros]:
  "gem_frame s t \<Longrightarrow> r \<noteq> R_MODID \<Longrightarrow> r \<noteq> R_NWSTATUS \<Longrightarrow> gem_frame s (set_reg r v t)"
  by (simp add: gem_frame_def gem_cfg_def reg_ops)

lemma frame_or_reg [frame_intros]:
  "gem_frame s t \<Longrightarrow> r \<noteq> R_MODID \<Longrightarrow> r \<noteq> R_NWSTATUS \<Longrightarrow> gem_frame s (or_reg r v t)"
  by (simp add: or_reg_def frame_set_reg)

lemma frame_inc_reg [frame_intros]:
  "gem_frame s t \<Longrightarrow> r \<noteq> R_MODID \<Longrightarrow> r \<noteq> R_NWSTATUS \<Longrightarrow> gem_frame s (inc_reg r t)"
  by (simp add: inc_reg_def frame_set_reg)

lemma frame_updates [frame_intros]:
  "gem_frame s t \<Longrightarrow> gem_frame s (t\<lparr>dma_as := m\<rparr>)"
  "gem_frame s t \<Longrightarrow> gem_frame s (t\<lparr>nic_sent := ps\<rparr>)"
  "gem_frame s t \<Longrightarrow> gem_frame s (t\<lparr>irq := l\<rparr>)"
  "gem_frame s t \<Longrightarrow> gem_frame s (t\<lparr>phy := p\<rparr>)"
  "gem_frame s t \<Longrightarrow> gem_frame s (t\<lparr>phy_consumer := c\<rparr>)"
  "gem_frame s t \<Longrightarrow> gem_frame s (t\<lparr>rx_desc_addr := a\<rparr>)"
  "gem_frame s t \<Longrightarrow> gem_frame s (t\<lparr>tx_desc_addr := a\<rparr>)"
  "gem_frame s t \<Longrightarrow> gem_frame s (t\<lparr>can_rx_state := n\<rparr>)"
  "gem_frame s t \<Longrightarrow> gem_frame s (t\<lparr>rx_desc := d\<rparr>)"
  "gem_frame s t \<Longrightarrow> gem_frame s (t\<lparr>sar_active := b\<rparr>)"
  by (simp_all add: gem_frame_def gem_cfg_def)

lemma frame_set_isr [frame_intros]: "gem_frame s t \<Longrightarrow> gem_frame s (gem_set_isr q f t)"
  by (auto simp: gem_set_isr_def intro!: frame_intros)

lemma frame_update_int_status [frame_intros]: "gem_frame s t \<Longrightarrow> gem_frame s (gem_update_int_status t)"
  by (simp add: gem_update_int_status_def frame_intros)

lemma frame_can_receive [frame_intros]: "gem_frame s t \<Longrightarrow> gem_frame s (snd (gem_can_receive t))"
  by (auto simp: gem_can_receive_def intro!: frame_intros)

lemma frame_get_rx_desc [frame_intros]: "gem_frame s t \<Longrightarrow> gem_frame s (gem_get_rx_desc e q t)"
  by (auto simp: gem_get_rx_desc_def Let_def intro!: frame_intros)

lemma frame_add_octets [frame_intros]:
  "gem_frame s t \<Longrightarrow> lo \<notin> {R_MODID, R_NWSTATUS} \<Longrightarrow> hi \<notin> {R_MODID, R_NWSTATUS} \<Longrightarrow>
     gem_frame s (add_octets lo hi n t)"
  by (auto simp: add_octets_def Let_def intro!: frame_intros)

lemma frame_receive_updatestats [frame_intros]:
  "gem_frame s t \<Longrightarrow> gem_frame s (gem_receive_updatestats p n t)"
  unfolding gem_receive_updatestats_def Let_def by (auto intro!: frame_intros)

lemma frame_transmit_updatestats [frame_intros]:
  "gem_frame s t \<Longrightarrow> gem_frame s (gem_transmit_updatestats p n t)"
  unfolding gem_transmit_updatestats_def Let_def by (auto intro!: frame_intros)

lemma frame_rx_step:
  "gem_rx_step e maf q off n f l chunk s = Some t \<Longrightarrow> gem_frame s t"
  by (auto simp: gem_rx_step_def Let_def split: if_splits option.splits intro!: frame_intros)

lemma frame_rx_loop:
  "gem_rx_loop e maf q b off n f data s = Rx_done t \<or> gem_rx_loop e maf q b off n f data s = Rx_stop t
     \<Longrightarrow> gem_frame s t"
proof (induction e maf q b off n f data s rule: gem_rx_loop.induct)
  case (1 e maf q b off n f data s)
  obtain ok s1 where can: "gem_can_receive s = (ok, s1)" by fastforce
  then have s1: "gem_frame s s1" using frame_can_receive [of s s] by simp
  show ?case
  proof (cases "data = [] \<or> \<not> ok \<or> MAX_PRIORITY_QUEUES \<le> q \<or> b = 0")
    case True
    with 1(2) can s1 show ?thesis
      by (subst (asm) (1 2) gem_rx_loop.simps) (auto split: if_splits)
  next
    case False
    then obtain s2 where st: "gem_rx_step e maf q off n f (drop b data = []) (take b data) s1 = Some s2"
      using 1(2) can by (subst (asm) (1 2) gem_rx_loop.simps) (auto split: option.splits if_splits)
    have "gem_frame s2 t"
      using 1 False can st by (subst (asm) (3 4) gem_rx_loop.simps) (auto split: if_splits)
    with frame_rx_step [OF st] s1 show ?thesis by (blast intro: gem_frame_trans)
  qed
qed



lemma frame_rx_finish [frame_intros]: "gem_frame s t \<Longrightarrow> gem_frame s (rx_finish q p n t)"
  by (auto simp: rx_finish_def intro!: frame_intros)

lemma gem_receive_elim:
  assumes "gem_receive e buf s = Rx_ret r t"
  shows "t = s \<or> (\<exists>q f. t = gem_set_isr q f s) \<or>
    (\<exists>q b off n data u. (gem_rx_loop e (gem_mac_address_filter e s (buf_ptr e buf)) q b off n True data s = Rx_stop u
        \<and> t = u \<or>
       gem_rx_loop e (gem_mac_address_filter e s (buf_ptr e buf)) q b off n True data s = Rx_done u
        \<and> t = rx_finish q (buf_ptr e buf) n u))"
proof -
  obtain data rxbuf n where fr: "rx_frame e s buf = (data, rxbuf, n)" by (metis prod_cases3)
  let ?loop = "gem_rx_loop e (gem_mac_address_filter e s (buf_ptr e buf)) (get_queue_from_screen s rxbuf)
     (rx_bufsize s) (unat (FIELD_EX32 (regs s R_NWCFG) NWCFG_RECV_BUF_OFFSET)) n True data s"
  show ?thesis
    using assms fr unfolding gem_receive_def Let_def
    by (cases ?loop) (simp_all del: R_NWCFG_def split: if_split_asm, blast+)
qed

lemma frame_receive: "gem_receive e buf s = Rx_ret r t \<Longrightarrow> gem_frame s t"
  by (drule gem_receive_elim)
    (auto intro!: frame_intros dest: frame_rx_loop [OF disjI1] frame_rx_loop [OF disjI2])

section \<open>The network layer\<close>

inductive gem_deliver :: "'m gem_env \<Rightarrow> 'm gem \<Rightarrow> 'm gem \<Rightarrow> bool" for e where
  can_receive: "gem_deliver e s (snd (gem_can_receive s))"
| receive: "gem_receive e buf s = Rx_ret r t \<Longrightarrow> gem_deliver e s t"

lemma frame_deliver: "gem_deliver e s t \<Longrightarrow> gem_frame s t"
  by (auto elim!: gem_deliver.cases intro: frame_can_receive frame_receive)

lemma frame_delivers: "(gem_deliver e)\<^sup>*\<^sup>* s t \<Longrightarrow> gem_frame s t"
  by (induction rule: rtranclp_induct) (auto intro: frame_deliver gem_frame_trans)

definition ctl_frame :: "'m gem \<Rightarrow> 'm tx_ctl \<Rightarrow> bool" where
  "ctl_frame s c = (case c of Tx_return t \<Rightarrow> gem_frame s t | Tx_break t _ _ \<Rightarrow> gem_frame s t
     | Tx_next t _ _ _ \<Rightarrow> gem_frame s t | Tx_fault \<Rightarrow> True)"

locale net_layer =
  fixes e :: "'m gem_env"
  assumes receive_packet: "(gem_deliver e)\<^sup>*\<^sup>* s (qemu_receive_packet e s pkt)"
    and flush_packets: "(gem_deliver e)\<^sup>*\<^sup>* s (qemu_flush_queued_packets e s)"
begin

lemma frame_receive_packet: "gem_frame s t \<Longrightarrow> gem_frame s (qemu_receive_packet e t pkt)"
  using frame_delivers [OF receive_packet] by (rule gem_frame_trans [rotated])

lemma frame_flush: "gem_frame s t \<Longrightarrow> gem_frame s (qemu_flush_queued_packets e t)"
  using frame_delivers [OF flush_packets] by (rule gem_frame_trans [rotated])

lemma frame_tx_handoff: "gem_frame s t \<Longrightarrow> gem_frame s (tx_handoff e q pkt t)"
  unfolding tx_handoff_def Let_def by (auto intro!: frame_intros frame_receive_packet)

lemma frame_tx_complete: "tx_complete_desc e q a d s = Some t \<Longrightarrow> gem_frame s t"
  by (auto simp: tx_complete_desc_def Let_def split: if_splits intro!: frame_intros)

lemma frame_tx_step: "ctl_frame s (gem_tx_step e q a d acc s)"
  by (auto simp: gem_tx_step_def ctl_frame_def Let_def split: option.splits
      intro!: frame_intros frame_tx_handoff dest!: frame_tx_complete)

lemma frame_tx_loop:
  assumes "gem_tx_loop e q a d acc s = Some c"
  shows "ctl_frame s c"
  using assms
proof (induction rule: gem_tx_loop_induct)
  case (stop a d acc s)
  show ?case by (rule frame_tx_step)
next
  case (more a d acc s s' a' d' acc' c)
  then show ?case
    using frame_tx_step [of s q a d acc]
    by (auto simp: ctl_frame_def split: tx_ctl.splits intro: gem_frame_trans)
qed (simp add: ctl_frame_def)

lemma frame_tx_ring_used: "gem_frame s t \<Longrightarrow> gem_frame s (tx_ring_used q t)"
  by (auto simp: tx_ring_used_def Let_def intro!: frame_intros)

lemma frame_tx_queues: "gem_tx_queues e n acc s = Some (Gem_ok t) \<Longrightarrow> gem_frame s t"
proof (induction n arbitrary: acc s)
  case (Suc q)
  then obtain c where c: "gem_tx_loop e q (gem_get_tx_desc_addr s q)
      (desc_load (\<lambda>_. 0) (gem_get_desc_len s False)
        (as_read e (dma_as s) (gem_get_tx_desc_addr s q) (4 * gem_get_desc_len s False))) acc s = Some c"
    by (auto simp: Let_def split: option.splits)
  with frame_tx_loop [OF c] Suc show ?case
    by (auto simp: Let_def ctl_frame_def split: tx_ctl.splits if_splits
        intro: gem_frame_trans [OF frame_tx_ring_used] gem_frame_trans)
qed simp

lemma frame_transmit: "gem_transmit e s = Some (Gem_ok t) \<Longrightarrow> gem_frame s t"
  by (auto simp: gem_transmit_def split: if_splits intro: frame_tx_queues)

end

lemma frame_tx_rewind: "tx_desc_rewind n s = Some t \<Longrightarrow> gem_frame s t"
proof (induction n arbitrary: t)
  case (Suc n)
  from Suc.prems obtain u where u: "tx_desc_rewind n s = Some u"
    by (auto simp: tx_desc_rewind_def split: option.splits)
  with Suc show ?case
    by (auto simp: tx_desc_rewind_def intro!: frame_intros)
qed (simp add: tx_desc_rewind_def)

lemma frame_fold_rx_desc: "gem_frame s t \<Longrightarrow> gem_frame s (fold (gem_get_rx_desc e) xs t)"
  by (induction xs arbitrary: t) (auto intro: frame_intros)

section \<open>Well-formed devices\<close>

definition gem_wf :: "'m gem \<Rightarrow> bool" where
  "gem_wf s \<longleftrightarrow> 0 < num_priority_queues s \<and> num_priority_queues s \<le> MAX_PRIORITY_QUEUES \<and>
     num_type1_screeners s \<le> MAX_TYPE1_SCREENERS \<and> num_type2_screeners s \<le> MAX_TYPE2_SCREENERS \<and>
     unat (jumbo_max_len s) \<le> MAX_FRAME_SIZE \<and> gem_init_register_masks s = s"

lemma gem_wf_cong: "gem_cfg t = gem_cfg s \<Longrightarrow> gem_wf t = gem_wf s"
  by (auto simp: gem_wf_def gem_cfg_def gem_init_register_masks_def Let_def intro: gem.equality
      dest!: arg_cong [where f = gem_cfg])

lemma realize_wf: "gem_realize f s = Inr t \<Longrightarrow> gem_wf t"
  by (auto simp: gem_realize_def gem_wf_def gem_init_register_masks_def Let_def split: if_splits)

lemma fold_fun_other: "(\<And>i g. i \<in> set xs \<Longrightarrow> f i g r = g r) \<Longrightarrow> fold f xs g r = g r"
  by (induction xs arbitrary: g) auto

lemma wf_masks:
  assumes "gem_wf s"
  shows "regs_ro s R_MODID = 0xFFFFFFFF" "regs_ro s R_NWSTATUS = 0xFFFFFFFF"
    "regs_ro s R_ISR = 0xFFFFFFFF" "regs_rtc s R_ISR = 0xFFFFFFFF" "regs_wo s R_ISR = 0"
    "regs_ro s R_IER = 0" "regs_ro s R_IDR = 0"
    "regs_w1c s = (\<lambda>_. 0)(R_TXSTATUS := 0x000001F7, R_RXSTATUS := 0x0000000F)"
    "regs_rtc s R_MODID = 0" "regs_rtc s R_NWSTATUS = 0" "regs_wo s R_MODID = 0" "regs_wo s R_NWSTATUS = 0"
proof -
  have n: "num_priority_queues s \<le> 8" and m: "s = gem_init_register_masks s"
    using assms by (simp_all add: gem_wf_def)
  show "regs_ro s R_MODID = 0xFFFFFFFF" "regs_ro s R_NWSTATUS = 0xFFFFFFFF"
    "regs_ro s R_ISR = 0xFFFFFFFF" "regs_ro s R_IER = 0" "regs_ro s R_IDR = 0"
    by (subst m, simp add: gem_init_register_masks_def Let_def, subst fold_fun_other, use n in auto)+
  show "regs_rtc s R_ISR = 0xFFFFFFFF" "regs_rtc s R_MODID = 0" "regs_rtc s R_NWSTATUS = 0"
    by (subst m, simp add: gem_init_register_masks_def Let_def, subst fold_fun_other, use n in auto)+
  show "regs_wo s R_ISR = 0" "regs_wo s R_MODID = 0" "regs_wo s R_NWSTATUS = 0"
    by (subst m, simp add: gem_init_register_masks_def Let_def, subst fold_fun_other, use n in auto)+
  show "regs_w1c s = (\<lambda>_. 0)(R_TXSTATUS := 0x000001F7, R_RXSTATUS := 0x0000000F)"
    by (subst m) (simp add: gem_init_register_masks_def Let_def)
qed

lemma store_readonly:
  assumes "regs_ro s off = 0xFFFFFFFF"
  shows "regs (gem_store off val s) off = regs s off"
proof (rule bit_word_eqI)
  fix n assume "n < LENGTH(32)"
  moreover have "bit (0xFFFFFFFF :: u32) n" if "n < 32"
  proof -
    have "(0xFFFFFFFF :: u32) = - 1" by simp
    then show ?thesis using that by (simp only: bit_minus_1_iff) simp
  qed
  ultimately show "bit (regs (gem_store off val s) off) n = bit (regs s off) n"
    by (simp add: gem_store_bit assms)
qed

lemma gem_cfg_store: "gem_cfg (gem_store off val s) = gem_cfg s"
  by (simp add: gem_cfg_def gem_store_def Let_def reg_ops)

lemma frame_store: "gem_wf s \<Longrightarrow> gem_frame s (gem_store off val s)"
  by (cases "off = R_MODID"; cases "off = R_NWSTATUS")
    (simp_all add: gem_frame_def gem_cfg_store store_readonly wf_masks gem_store_other
      del: R_MODID_def R_NWSTATUS_def)

lemma frame_handle_phy_access: "gem_frame s t \<Longrightarrow> gem_frame s (gem_handle_phy_access t)"
  by (auto simp: gem_handle_phy_access_def Let_def split: option.splits intro!: frame_intros)

lemma frame_read:
  assumes "gem_wf s"
  shows "gem_frame s (snd (gem_read off s))"
proof -
  have "gem_frame s (set_reg off (regs s off AND NOT (regs_rtc s off)) s)"
    using wf_masks [OF assms]
    by (cases "off = R_MODID"; cases "off = R_NWSTATUS") (simp_all add: gem_frame_def gem_cfg_def reg_ops)
  then show ?thesis
    by (simp add: gem_read_def Let_def frame_intros)
qed

context net_layer
begin

lemma frame_write_nwctrl: "gem_write_nwctrl e val s = Some (Gem_ok t) \<Longrightarrow> gem_frame s t"
proof -
  assume w: "gem_write_nwctrl e val s = Some (Gem_ok t)"
  define u where "u = (if FIELD_EX32 val NWCTRL_ENABLE_RECEIVE \<noteq> 0
     then fold (gem_get_rx_desc e) [0..<num_priority_queues s] s else s)"
  define r where "r = (if FIELD_EX32 val NWCTRL_TRANSMIT_START \<noteq> 0 then gem_transmit e u else Some (Gem_ok u))"
  have u: "gem_frame s u" by (simp add: u_def frame_fold_rx_desc)
  obtain v where v: "r = Some (Gem_ok v)"
    using w unfolding gem_write_nwctrl_def Let_def u_def [symmetric] r_def [symmetric]
    by (auto split: option.splits gem_out.splits)
  have sv: "gem_frame s v"
    using u v by (auto simp: r_def split: if_splits intro: gem_frame_trans frame_transmit)
  obtain x where x: "(if FIELD_EX32 val NWCTRL_ENABLE_TRANSMIT = 0
      then tx_desc_rewind (num_priority_queues v) v else Some v) = Some x"
    and t: "t = (if fst (gem_can_receive x) then qemu_flush_queued_packets e (snd (gem_can_receive x))
                 else snd (gem_can_receive x))"
    using w v unfolding gem_write_nwctrl_def Let_def u_def [symmetric] r_def [symmetric]
    by (auto split: option.splits prod.splits if_splits)
  have "gem_frame s x"
    using sv x by (auto split: if_splits intro: gem_frame_trans frame_tx_rewind)
  then show ?thesis by (auto simp: t intro!: frame_flush frame_intros)
qed

lemma frame_write:
  assumes "gem_wf s" "gem_write e off val s = Some (Gem_ok t)"
  shows "gem_frame s t"
proof (cases "off = R_NWCTRL")
  case True
  then show ?thesis
    using assms frame_store gem_frame_trans frame_write_nwctrl by (fastforce simp: gem_write_def Let_def)
next
  case False
  note s = frame_store [OF assms(1)]
  show ?thesis
    using assms(2) False
    by (simp only: gem_write_def Let_def if_False option.inject gem_out.inject)
      (auto split: if_split_asm intro!: frame_intros frame_handle_phy_access s)
qed

end

section \<open>Environments whose network layer delivers\<close>

text \<open>The receive path does not call the network layer.\<close>

lemma gem_rx_loop_env:
  "gem_rx_loop (e\<lparr>qemu_receive_packet := f\<rparr>) maf q b off n first data s = gem_rx_loop e maf q b off n first data s"
proof (induction e maf q b off n first data s rule: gem_rx_loop.induct)
  case (1 e maf q b off n first data s)
  have "gem_get_rx_desc (e\<lparr>qemu_receive_packet := f\<rparr>) = gem_get_rx_desc e"
    by (intro ext) (simp add: gem_get_rx_desc_def)
  moreover have "as_write (e\<lparr>qemu_receive_packet := f\<rparr>) = as_write e"
    by simp
  ultimately have step: "gem_rx_step (e\<lparr>qemu_receive_packet := f\<rparr>) = gem_rx_step e"
    by (intro ext) (simp only: gem_rx_step_def)
  show ?case
    by (subst (1 2) gem_rx_loop.simps)
      (simp add: step Let_def 1 split: prod.split option.split)
qed

lemma gem_receive_env: "gem_receive (e\<lparr>qemu_receive_packet := f\<rparr>) = gem_receive e"
proof (intro ext)
  fix buf s
  have "gem_mac_address_filter (e\<lparr>qemu_receive_packet := f\<rparr>) s p = gem_mac_address_filter e s p" for p
    by (simp add: gem_mac_address_filter_def)
  moreover have "buf_ptr (e\<lparr>qemu_receive_packet := f\<rparr>) buf = buf_ptr e buf"
    by (simp add: buf_ptr_def fun_eq_iff)
  moreover from this have "rx_frame (e\<lparr>qemu_receive_packet := f\<rparr>) s buf = rx_frame e s buf"
    by (simp add: rx_frame_def)
  ultimately show "gem_receive (e\<lparr>qemu_receive_packet := f\<rparr>) buf s = gem_receive e buf s"
    unfolding gem_receive_def gem_rx_loop_env by (simp only:)
qed

text \<open>The loopback path of a network layer that delivers at once when the device can receive.\<close>

definition loopback :: "'m gem_env \<Rightarrow> 'm gem \<Rightarrow> u8 list \<Rightarrow> 'm gem" where
  "loopback e s pkt =
     (let (ok, t) = gem_can_receive s
      in if ok then (case gem_receive e pkt t of Rx_ret _ u \<Rightarrow> u | Rx_ret_fault \<Rightarrow> t) else t)"

definition loop_env :: "ram gem_env" where
  "loop_env = ram_env\<lparr>qemu_receive_packet := loopback ram_env\<rparr>"

lemma loopback_delivers:
  "(gem_deliver (e\<lparr>qemu_receive_packet := f\<rparr>))\<^sup>*\<^sup>* s (loopback e s pkt)"
proof -
  let ?e = "e\<lparr>qemu_receive_packet := f\<rparr>"
  have can: "(gem_deliver ?e)\<^sup>*\<^sup>* s (snd (gem_can_receive s))"
    by (intro r_into_rtranclp gem_deliver.can_receive)
  moreover have "gem_deliver ?e t u" if "gem_receive e pkt t = Rx_ret r u" for r t u
    using that by (auto simp: gem_receive_env intro: gem_deliver.receive)
  ultimately show ?thesis
    by (auto simp: loopback_def split: prod.split rx_ret.split intro: rtranclp.rtrancl_into_rtrancl)
qed

interpretation ram_net: net_layer ram_env
  by unfold_locales (simp_all add: ram_env_def)

interpretation loop_net: net_layer loop_env
proof
  fix s pkt
  show "(gem_deliver loop_env)\<^sup>*\<^sup>* s (qemu_receive_packet loop_env s pkt)"
    using loopback_delivers [of "loopback ram_env" ram_env s pkt] by (simp add: loop_env_def)
  show "(gem_deliver loop_env)\<^sup>*\<^sup>* s (qemu_flush_queued_packets loop_env s)"
    by (simp add: loop_env_def ram_env_def)
qed

section \<open>Reachable states\<close>

text \<open>
  Everything that can happen to a realized device: register accesses of the guest, packets and
  readiness queries of the network layer, link changes, system reset, and changes of guest memory.
\<close>

inductive gem_reach :: "'m gem_env \<Rightarrow> 'm gem \<Rightarrow> bool" for e where
  realize: "gem_realize mac_default s0 = Inr s \<Longrightarrow> gem_reach e (gem_reset s)"
| reset: "gem_reach e s \<Longrightarrow> gem_reach e (gem_reset s)"
| mmio_read: "gem_reach e s \<Longrightarrow> off < CADENCE_GEM_MAXREG \<Longrightarrow> gem_reach e (snd (gem_read off s))"
| mmio_write: "gem_reach e s \<Longrightarrow> off < CADENCE_GEM_MAXREG \<Longrightarrow>
    gem_write e off val s = Some (Gem_ok t) \<Longrightarrow> gem_reach e t"
| deliver: "gem_reach e s \<Longrightarrow> gem_deliver e s t \<Longrightarrow> gem_reach e t"
| set_link: "gem_reach e s \<Longrightarrow> gem_reach e (gem_set_link (s\<lparr>phy := (phy s)\<lparr>link_down := b\<rparr>\<rparr>))"
| memory: "gem_reach e s \<Longrightarrow> gem_reach e (s\<lparr>dma_as := m\<rparr>)"

definition gem_inv :: "'m gem \<Rightarrow> bool" where
  "gem_inv s \<longleftrightarrow> gem_wf s \<and> regs s R_MODID = revision s \<and> regs s R_NWSTATUS = 6"

lemma gem_inv_frame: "gem_inv s \<Longrightarrow> gem_frame s t \<Longrightarrow> gem_inv t"
  using gem_wf_cong [of t s] by (auto simp: gem_inv_def gem_frame_def gem_cfg_def)

lemma gem_inv_reset:
  assumes "gem_wf s"
  shows "gem_inv (gem_reset s)"
proof -
  have "gem_cfg (gem_reset s) = gem_cfg s"
    by (simp add: gem_reset_def gem_cfg_def gem_update_int_status_def Let_def)
  moreover have "revision (gem_reset s) = revision s"
    by (simp add: gem_reset_def gem_update_int_status_def Let_def)
  moreover have "regs (gem_reset s) R_MODID = revision s" "regs (gem_reset s) R_NWSTATUS = 6"
    by (simp_all add: gem_reset_def gem_update_int_status_def Let_def)
  ultimately show ?thesis
    using assms gem_wf_cong by (auto simp: gem_inv_def)
qed

lemma gem_inv_wf: "gem_inv s \<Longrightarrow> gem_wf s"
  by (simp add: gem_inv_def)

context net_layer
begin

lemma gem_reach_inv: "gem_reach e s \<Longrightarrow> gem_inv s"
proof (induction rule: gem_reach.induct)
  case (realize mac_default s0 s)
  then show ?case by (intro gem_inv_reset realize_wf)
next
  case (reset s)
  then show ?case by (intro gem_inv_reset gem_inv_wf)
next
  case (mmio_read s off)
  then show ?case by (blast intro: gem_inv_frame frame_read gem_inv_wf)
next
  case (mmio_write s off val t)
  then show ?case by (blast intro: gem_inv_frame frame_write gem_inv_wf)
next
  case (deliver s t)
  then show ?case by (blast intro: gem_inv_frame frame_deliver)
next
  case (set_link s b)
  have "gem_frame s (gem_set_link (s\<lparr>phy := (phy s)\<lparr>link_down := b\<rparr>\<rparr>))"
    by (simp add: gem_set_link_def frame_intros)
  with set_link show ?case by (blast intro: gem_inv_frame)
next
  case (memory s m)
  then show ?case by (blast intro: gem_inv_frame frame_intros gem_frame_refl)
qed

end

section \<open>No access outside the arrays\<close>

lemma queue_base_addr_None:
  "gem_get_tx_queue_base_addr s q = None \<longleftrightarrow> MAX_PRIORITY_QUEUES \<le> q"
  "gem_get_rx_queue_base_addr s q = None \<longleftrightarrow> MAX_PRIORITY_QUEUES \<le> q"
  by (auto simp: gem_get_tx_queue_base_addr_def gem_get_rx_queue_base_addr_def gem_get_queue_base_addr_def)

lemma tx_addr_some:
  assumes "q < MAX_PRIORITY_QUEUES"
  shows "tx_next_addr s q a d \<noteq> None" "tx_complete_desc e q a d s \<noteq> None"
  using assms by (simp_all add: tx_next_addr_def tx_complete_desc_def queue_base_addr_None Let_def
      del: not_None_eq)

lemma tx_step_no_fault:
  assumes "q < MAX_PRIORITY_QUEUES"
  shows "gem_tx_step e q a d acc s \<noteq> Tx_fault"
  by (auto simp: gem_tx_step_def Let_def tx_addr_some [OF assms] split: option.split simp del: not_None_eq)

lemma tx_loop_no_fault:
  assumes "gem_tx_loop e q a d acc s = Some c" "q < MAX_PRIORITY_QUEUES"
  shows "c \<noteq> Tx_fault"
  using assms by (induction rule: gem_tx_loop_induct) (simp_all add: tx_step_no_fault del: MAX_PRIORITY_QUEUES_def)

lemma tx_loop_no_next:
  assumes "gem_tx_loop e q a d acc s = Some c"
  shows "c \<noteq> Tx_next s' a' d' acc'"
  using assms by (induction rule: gem_tx_loop_induct) simp_all

lemma tx_queues_no_abort: "n \<le> MAX_PRIORITY_QUEUES \<Longrightarrow> gem_tx_queues e n acc s \<noteq> Some Gem_abort"
proof (induction n arbitrary: acc s)
  case (Suc q)
  then show ?case
    by (auto simp: Let_def split: option.splits tx_ctl.splits dest: tx_loop_no_fault tx_loop_no_next)
qed simp

lemma tx_rewind_some: "n \<le> MAX_PRIORITY_QUEUES \<Longrightarrow> tx_desc_rewind n s \<noteq> None"
proof (induction n)
  case (Suc n)
  then show ?case
    by (auto simp: tx_desc_rewind_def queue_base_addr_None simp flip: not_None_eq)
qed (simp add: tx_desc_rewind_def)

context net_layer
begin

lemma write_no_abort:
  assumes "gem_wf s"
  shows "gem_write e off val s \<noteq> Some Gem_abort"
proof (cases "off = R_NWCTRL")
  case True
  define s0 where "s0 = gem_store off val s"
  define u where "u = (if FIELD_EX32 (val AND NOT (regs_ro s off)) NWCTRL_ENABLE_RECEIVE \<noteq> 0
     then fold (gem_get_rx_desc e) [0..<num_priority_queues s0] s0 else s0)"
  have "gem_frame s0 u" by (simp add: u_def frame_fold_rx_desc)
  then have "gem_frame s u" using frame_store [OF assms] unfolding s0_def by (rule gem_frame_trans [rotated])
  then have n: "num_priority_queues t \<le> MAX_PRIORITY_QUEUES" if "gem_frame u t" for t
    using assms that by (simp add: gem_wf_def gem_frame_def gem_cfg_def)
  then have "gem_transmit e u \<noteq> Some Gem_abort"
    using tx_queues_no_abort [OF n [OF gem_frame_refl], of e "[]" u] by (simp add: gem_transmit_def)
  moreover have "tx_desc_rewind (num_priority_queues t) t = None \<longleftrightarrow> False" if "gem_frame u t" for t
    using tx_rewind_some [OF n [OF that]] by simp
  ultimately show ?thesis
    unfolding gem_write_def gem_write_nwctrl_def Let_def s0_def [symmetric] u_def [symmetric]
    using True frame_transmit [of u] gem_frame_refl [of u]
    by (auto simp del: not_None_eq split: option.splits gem_out.splits prod.splits if_splits)
next
  case False
  then show ?thesis by (simp add: gem_write_def Let_def del: R_NWCTRL_def)
qed

end

section \<open>The packet buffer\<close>

lemma max_buf_len_le: "gem_wf s \<Longrightarrow> gem_get_max_buf_len s b \<le> MAX_FRAME_SIZE"
  by (auto simp: gem_get_max_buf_len_def gem_wf_def Let_def)

text \<open>
  Passes of the ring loop: the gathered packet never outgrows the transmit buffer, and the copy a
  pass makes ends inside it.
\<close>

inductive gem_tx_pass :: "'m gem_env \<Rightarrow> nat \<Rightarrow> u8 list \<times> 'm gem \<Rightarrow> u8 list \<times> 'm gem \<Rightarrow> bool" for e q where
  "gem_tx_step e q a d acc s = Tx_next s' a' d' acc' \<Longrightarrow> gem_tx_pass e q (acc, s) (acc', s')"

lemma tx_step_next_bound:
  assumes "gem_tx_step e q a d acc s = Tx_next s' a' d' acc'"
  shows "length acc + tx_desc_get_length d \<le> gem_get_max_buf_len s True"
    and "acc' = [] \<or> acc' = acc @ as_read e (dma_as s) (tx_desc_get_buffer s d) (tx_desc_get_length d)"
  using assms by (auto simp: gem_tx_step_def Let_def split: if_splits option.splits)

lemma rx_step_some: "q < MAX_PRIORITY_QUEUES \<Longrightarrow> \<exists>t. gem_rx_step e maf q off n f l chunk s = Some t"
  by (auto simp: gem_rx_step_def Let_def queue_base_addr_None split: option.split simp del: not_None_eq)

lemma rx_loop_fault:
  "b \<noteq> 0 \<Longrightarrow> gem_rx_loop e maf q b off n f data s = Rx_fault \<longleftrightarrow>
     data \<noteq> [] \<and> fst (gem_can_receive s) \<and> MAX_PRIORITY_QUEUES \<le> q"
proof (induction e maf q b off n f data s rule: gem_rx_loop.induct)
  case (1 e maf q b off n f data s)
  show ?case
  proof (cases "data \<noteq> [] \<and> fst (gem_can_receive s) \<and> q < MAX_PRIORITY_QUEUES")
    case True
    obtain t where "gem_rx_step e maf q off n f (drop b data = []) (take b data) (snd (gem_can_receive s)) = Some t"
      using rx_step_some True by blast
    with 1 True show ?thesis
      by (subst gem_rx_loop.simps) (auto split: prod.splits)
  next
    case False
    with 1(2) show ?thesis
      by (subst gem_rx_loop.simps) (auto split: prod.splits option.splits)
  qed
qed

lemma rx_bufsize_pos: "0 < rx_bufsize s"
  by (simp add: rx_bufsize_def Let_def)

end
