(* ===== verification/Gem_Rx_Props.thy ===== *)
theory Gem_Rx_Props
  imports Gem_Tx_Props Gem_Frame
begin

text \<open>
  Reception of one packet: a packet that spans several buffers is cut into chunks, every chunk
  lands in the buffer of its descriptor, every descriptor is completed, and nothing else in guest
  memory changes.  The statements are for the basic two-word descriptors.
\<close>

section \<open>One pass of the copy loop\<close>

definition rx_basic :: "'m gem \<Rightarrow> bool" where
  "rx_basic s \<longleftrightarrow> gem_get_desc_len s True = 2"

definition rx_buf :: "desc \<Rightarrow> nat \<Rightarrow> u64" where
  "rx_buf d off = (ucast (d 0) AND NOT 3) + of_nat off"

text \<open>What the copy loop leaves alone besides memory, the descriptor cache and the status registers.\<close>

definition rx_ctrl_same :: "'m gem \<Rightarrow> 'm gem \<Rightarrow> bool" where
  "rx_ctrl_same s t \<longleftrightarrow>
     (\<forall>r. r \<noteq> R_RXSTATUS \<and> r \<noteq> R_ISR \<and> \<not> (R_INT_Q1_STATUS \<le> r \<and> r \<le> R_INT_Q1_STATUS + 6) \<longrightarrow>
          regs t r = regs s r) \<and>
     num_priority_queues t = num_priority_queues s"

lemma rx_basic_32: "rx_basic s \<Longrightarrow> \<not> dma_64b s"
  by (auto simp: rx_basic_def gem_get_desc_len_def)

lemma rx_ctrl_same_len: "rx_ctrl_same s t \<Longrightarrow> gem_get_desc_len t b = gem_get_desc_len s b \<and> dma_64b t = dma_64b s"
  by (simp add: rx_ctrl_same_def gem_get_desc_len_def dma_64b_def)

lemma rx_desc_fill_words:
  "rx_desc_fill maf f l n d 0 = d 0 OR 1"
  "d 0 = d' 0 \<Longrightarrow> rx_desc_fill maf f l n d 1 = rx_desc_fill maf f l n d' 1"
  by (simp_all add: rx_desc_fill_def rx_desc_set_maf_def Let_def rx_desc_set_sof_def rx_desc_set_eof_def rx_desc_set_length_def
      rx_desc_clear_control_def rx_desc_set_ownership_def rx_desc_set_broadcast_def rx_desc_set_unicast_hash_def
      rx_desc_set_multicast_hash_def rx_desc_set_sar_def)

lemma rx_desc_fill_wrap: "rx_desc_get_wrap (rx_desc_fill maf f l n d) = rx_desc_get_wrap d"
proof -
  have "(w OR 1) AND 2 = w AND 2" for w :: u32
    by (rule bit_word_eqI) (auto simp: bit_simps)
  then show ?thesis by (simp add: rx_desc_get_wrap_def rx_desc_fill_words)
qed

lemma get_rx_desc_effect:
  fixes e :: "'m gem_env" and s :: "'m gem"
  assumes "rx_basic s" and q: "q < MAX_PRIORITY_QUEUES" and t_def: "t = gem_get_rx_desc e q s"
  shows "dma_as t = dma_as s" "rx_desc_addr t = rx_desc_addr s" "rx_ctrl_same s t"
    "w < 2 \<Longrightarrow> rx_desc t q w = desc_at e (dma_as s) (ucast (rx_desc_addr s q)) w"
    "p \<noteq> q \<Longrightarrow> rx_desc t p = rx_desc s p"
proof -
  have a: "gem_get_rx_desc_addr s q = ucast (rx_desc_addr s q)"
    using rx_basic_32 [OF assms(1)] by (simp add: gem_get_rx_desc_addr_def gem_get_desc_addr_def)
  note [simp] = a assms(1) [unfolded rx_basic_def]
  show "dma_as t = dma_as s" "rx_desc_addr t = rx_desc_addr s" "rx_ctrl_same s t"
    "w < 2 \<Longrightarrow> rx_desc t q w = desc_at e (dma_as s) (ucast (rx_desc_addr s q)) w"
    "p \<noteq> q \<Longrightarrow> rx_desc t p = rx_desc s p"
    using q
    by (simp_all add: t_def gem_get_rx_desc_def Let_def gem_update_int_status_def gem_set_isr_def reg_ops rx_ctrl_same_def
        desc_at_def desc_load_def)
qed

lemma rx_step_eq:
  assumes "rx_basic s" "rx_desc_get_wrap (rx_desc s q) = 0"
  shows "gem_rx_step e maf q off n f l chunk s =
    Some (gem_get_rx_desc e q (s\<lparr>rx_desc := (rx_desc s)(q := rx_desc_fill maf f l n (rx_desc s q)),
       dma_as := as_write e (as_write e (dma_as s) (rx_buf (rx_desc s q) off) chunk) (ucast (rx_desc_addr s q))
                   (desc_bytes 2 (rx_desc_fill maf f l n (rx_desc s q))),
       rx_desc_addr := (rx_desc_addr s)(q := rx_desc_addr s q + 8)\<rparr>))"
proof -
  have "dma_64b (s\<lparr>dma_as := x, rx_desc := y\<rparr>) = dma_64b s" for x y by (simp add: dma_64b_def)
  moreover have "gem_get_desc_len (s\<lparr>dma_as := x, rx_desc := y\<rparr>) b = gem_get_desc_len s b"
    "gem_get_desc_len (s\<lparr>rx_desc := y, dma_as := x\<rparr>) b = gem_get_desc_len s b" for x y b
    by (simp_all add: gem_get_desc_len_def dma_64b_def)
  ultimately show ?thesis
    using assms rx_basic_32 [OF assms(1)]
    by (simp add: gem_rx_step_def Let_def rx_desc_fill_wrap rx_desc_get_buffer_def rx_buf_def rx_basic_def
        gem_get_rx_desc_addr_def gem_get_desc_addr_def)
qed

definition rx_chunk :: "nat \<Rightarrow> u8 list \<Rightarrow> nat \<Rightarrow> u8 list" where
  "rx_chunk b data i = take b (drop (i * b) data)"

definition rx_slot :: "'m gem_env \<Rightarrow> 'm \<Rightarrow> u64 \<Rightarrow> nat \<Rightarrow> desc" where
  "rx_slot e m a i = desc_at e m (a + 8 * of_nat i)"

definition rx_target :: "'m gem_env \<Rightarrow> 'm \<Rightarrow> nat \<Rightarrow> nat \<Rightarrow> u64 \<Rightarrow> u8 list \<Rightarrow> nat \<Rightarrow> u64 set" where
  "rx_target e m b off a data i = mem_range (rx_buf (rx_slot e m a i) off) (length (rx_chunk b data i))"

definition rx_layout :: "'m gem_env \<Rightarrow> 'm \<Rightarrow> nat \<Rightarrow> nat \<Rightarrow> u64 \<Rightarrow> nat \<Rightarrow> u8 list \<Rightarrow> bool" where
  "rx_layout e m b off a n data \<longleftrightarrow>
     (\<forall>i<n. rx_desc_get_ownership (rx_slot e m a i) = 0 \<and> rx_desc_get_wrap (rx_slot e m a i) = 0) \<and>
     (\<forall>i<n. \<forall>j\<le>n. rx_target e m b off a data i \<inter> mem_range (a + 8 * of_nat j) 8 = {}) \<and>
     (\<forall>i<n. \<forall>j<n. i \<noteq> j \<longrightarrow> rx_target e m b off a data i \<inter> rx_target e m b off a data j = {})"

text \<open>The packet is in the buffers, each descriptor is filled, and nothing else has changed.\<close>

definition rx_placed ::
  "'m gem_env \<Rightarrow> 'm \<Rightarrow> 'm \<Rightarrow> int \<Rightarrow> bool \<Rightarrow> nat \<Rightarrow> nat \<Rightarrow> nat \<Rightarrow> u64 \<Rightarrow> nat \<Rightarrow> u8 list \<Rightarrow> bool" where
  "rx_placed e m m' maf f psize b off a n data \<longleftrightarrow>
     (\<forall>i<n. as_read e m' (rx_buf (rx_slot e m a i) off) (length (rx_chunk b data i)) = rx_chunk b data i) \<and>
     (\<forall>i<n. \<forall>w<2. rx_slot e m' a i w = rx_desc_fill maf (f \<and> i = 0) (Suc i = n) psize (rx_slot e m a i) w) \<and>
     (\<forall>x k. (\<forall>i<n. rx_target e m b off a data i \<inter> mem_range x k = {} \<and> mem_range (a + 8 * of_nat i) 8 \<inter> mem_range x k = {}) \<longrightarrow>
        as_read e m' x k = as_read e m x k)"

lemma rx_chunk_Suc: "rx_chunk b (drop b data) i = rx_chunk b data (Suc i)"
  by (simp add: rx_chunk_def add.commute)

lemma rx_slot_Suc: "rx_slot e m (a + 8) i = rx_slot e m a (Suc i)"
  by (simp add: rx_slot_def algebra_simps)

lemma rx_target_Suc: "rx_target e m b off (a + 8) (drop b data) i = rx_target e m b off a data (Suc i)"
  by (simp add: rx_target_def rx_chunk_Suc rx_slot_Suc)

lemma desc_step: "(a + 8) + 8 * of_nat i = a + 8 * of_nat (Suc i)" for a :: u64
  by (simp add: algebra_simps)

lemma rx_layout_Suc:
  assumes "rx_layout e m b off a (Suc n) data"
    and eq: "\<And>i. i < n \<Longrightarrow> rx_slot e m' a (Suc i) = rx_slot e m a (Suc i)"
  shows "rx_layout e m' b off (a + 8) n (drop b data)"
proof -
  have "rx_target e m' b off a data (Suc i) = rx_target e m b off a data (Suc i)" if "i < n" for i
    using eq [OF that] by (simp add: rx_target_def)
  with assms show ?thesis
    unfolding rx_layout_def rx_target_Suc rx_slot_Suc desc_step
    by (simp del: of_nat_Suc)
qed

lemma can_receive_ready:
  assumes "FIELD_EX32 (regs s R_NWCTRL) NWCTRL_ENABLE_RECEIVE \<noteq> 0" "q < num_priority_queues s"
    "rx_desc_get_ownership (rx_desc s q) = 0"
  shows "gem_can_receive s = (True, s\<lparr>can_rx_state := 0\<rparr>)"
proof -
  have "\<not> list_all (\<lambda>i. rx_desc_get_ownership (rx_desc s i) = 1) [0..<num_priority_queues s]"
    using assms(2,3) by (force simp: list_all_iff)
  with assms(1) show ?thesis by (auto simp: gem_can_receive_def)
qed

text \<open>The device stands at the descriptor \<open>a\<close> of queue \<open>q\<close>, ready to receive.\<close>

definition rx_at :: "'m gem_env \<Rightarrow> nat \<Rightarrow> u64 \<Rightarrow> 'm gem \<Rightarrow> bool" where
  "rx_at e q a s \<longleftrightarrow> rx_basic s \<and> FIELD_EX32 (regs s R_NWCTRL) NWCTRL_ENABLE_RECEIVE \<noteq> 0 \<and>
     q < num_priority_queues s \<and> q < MAX_PRIORITY_QUEUES \<and> a = ucast (rx_desc_addr s q) \<and>
     (\<forall>w<2. rx_desc s q w = desc_at e (dma_as s) a w)"

lemma rx_at_slot:
  assumes "rx_at e q a s"
  shows "rx_desc_get_ownership (rx_desc s q) = rx_desc_get_ownership (rx_slot e (dma_as s) a 0)"
    "rx_desc_get_wrap (rx_desc s q) = rx_desc_get_wrap (rx_slot e (dma_as s) a 0)"
    "rx_buf (rx_desc s q) off = rx_buf (rx_slot e (dma_as s) a 0) off"
    "w < 2 \<Longrightarrow> rx_desc_fill maf f l n (rx_desc s q) w = rx_desc_fill maf f l n (rx_slot e (dma_as s) a 0) w"
proof -
  have w0: "rx_desc s q 0 = rx_slot e (dma_as s) a 0 0"
    using assms by (simp add: rx_at_def rx_slot_def)
  then show "rx_desc_get_ownership (rx_desc s q) = rx_desc_get_ownership (rx_slot e (dma_as s) a 0)"
    "rx_desc_get_wrap (rx_desc s q) = rx_desc_get_wrap (rx_slot e (dma_as s) a 0)"
    "rx_buf (rx_desc s q) off = rx_buf (rx_slot e (dma_as s) a 0) off"
    by (simp_all add: rx_desc_get_ownership_def rx_desc_get_wrap_def rx_buf_def)
  show "w < 2 \<Longrightarrow> rx_desc_fill maf f l n (rx_desc s q) w = rx_desc_fill maf f l n (rx_slot e (dma_as s) a 0) w"
    using w0 rx_desc_fill_words(1) rx_desc_fill_words(2) [of "rx_desc s q" "rx_slot e (dma_as s) a 0", OF w0]
    by (auto simp: less_Suc_eq numeral_2_eq_2)
qed

context gem_bus
begin

lemma rx_write_reads:
  assumes m1: "m1 = as_write e (as_write e m x c) a (desc_bytes 2 d)"
    and disj: "mem_range x (length c) \<inter> mem_range a 8 = {}" and len: "length c < 2 ^ 64"
  shows "as_read e m1 x (length c) = c"
    and "w < 2 \<Longrightarrow> desc_at e m1 a w = d w"
    and "mem_range x (length c) \<inter> mem_range y k = {} \<Longrightarrow> mem_range a 8 \<inter> mem_range y k = {} \<Longrightarrow>
           as_read e m1 y k = as_read e m y k"
proof -
  have "as_read e m1 x (length c) = as_read e (as_write e m x c) x (length c)"
    unfolding m1 using disj by (intro rd_wr_other) (simp add: Int_commute)
  then show "as_read e m1 x (length c) = c" using len by (simp add: rd_wr_same)
  have "as_read e m1 a 8 = desc_bytes 2 d"
    unfolding m1 using rd_wr_same [of "desc_bytes 2 d"] by simp
  then show "w < 2 \<Longrightarrow> desc_at e m1 a w = d w"
    by (simp add: desc_at_def desc_load_bytes)
  show "mem_range x (length c) \<inter> mem_range y k = {} \<Longrightarrow> mem_range a 8 \<inter> mem_range y k = {} \<Longrightarrow>
           as_read e m1 y k = as_read e m y k"
    unfolding m1 by (simp add: rd_wr_other)
qed

lemma rx_step_effect:
  assumes at: "rx_at e q a s" and wrap: "rx_desc_get_wrap (rx_desc s q) = 0"
    and room: "unat (rx_desc_addr s q) + 8 < 2 ^ 32"
    and m1: "m1 = as_write e (as_write e (dma_as s) (rx_buf (rx_desc s q) off) chunk) a
                   (desc_bytes 2 (rx_desc_fill maf f l n (rx_desc s q)))"
  obtains t where "gem_rx_step e maf q off n f l chunk (s\<lparr>can_rx_state := c\<rparr>) = Some t"
    "dma_as t = m1" "rx_desc_addr t = (rx_desc_addr s)(q := rx_desc_addr s q + 8)" "rx_ctrl_same s t"
    "rx_at e q (a + 8) t" "\<And>p. p \<noteq> q \<Longrightarrow> rx_desc t p = rx_desc s p"
proof -
  let ?u = "s\<lparr>can_rx_state := c, rx_desc := (rx_desc s)(q := rx_desc_fill maf f l n (rx_desc s q)), dma_as := m1,
      rx_desc_addr := (rx_desc_addr s)(q := rx_desc_addr s q + 8)\<rparr>"
  let ?t = "gem_get_rx_desc e q ?u"
  have basic: "rx_basic s" and a: "a = ucast (rx_desc_addr s q)" and q: "q < MAX_PRIORITY_QUEUES"
    using at by (simp_all add: rx_at_def)
  then have bu: "rx_basic ?u" "rx_basic (s\<lparr>can_rx_state := c\<rparr>)"
    by (simp_all add: rx_basic_def gem_get_desc_len_def dma_64b_def)
  have "gem_rx_step e maf q off n f l chunk (s\<lparr>can_rx_state := c\<rparr>) = Some ?t"
    using wrap by (subst rx_step_eq [OF bu(2)]) (simp_all add: m1 a)
  moreover note eff = get_rx_desc_effect [OF bu(1) q refl, where e = e]
  have "a + 8 = ucast (rx_desc_addr s q + 8)"
    using room unfolding a by (simp add: ucast_inc_64)
  with at eff have "rx_at e q (a + 8) ?t"
    by (auto simp: rx_at_def rx_ctrl_same_def rx_basic_def gem_get_desc_len_def dma_64b_def)
  ultimately show ?thesis
    using eff by (intro that [of ?t]) (simp_all add: rx_ctrl_same_def)
qed

end

lemma rx_layout_targets:
  assumes "rx_layout e m b off a n data"
  shows "i < n \<Longrightarrow> j \<le> n \<Longrightarrow> rx_target e m b off a data i \<inter> mem_range (a + 8 * of_nat j) 8 = {}"
    and "i < n \<Longrightarrow> j < n \<Longrightarrow> i \<noteq> j \<Longrightarrow> rx_target e m b off a data i \<inter> rx_target e m b off a data j = {}"
  using assms by (simp_all add: rx_layout_def)

lemma slots_disjoint:
  assumes "8 * n < 2 ^ 32" "i < j" "j \<le> n"
  shows "mem_range (a + 8 * of_nat i) 8 \<inter> mem_range (a + 8 * of_nat j) 8 = {}"
  using mem_range_disjoint [of "8 * i" 8 "8 * j" 8 a] assms by simp

context gem_bus
begin

text \<open>Placing the first chunk and then the others places them all.\<close>

lemma rx_placed_Suc:
  assumes lay: "rx_layout e m b off a (Suc n) data" and n: "8 * Suc n < 2 ^ 32"
    and first: "as_read e m1 (rx_buf (rx_slot e m a 0) off) (length (rx_chunk b data 0)) = rx_chunk b data 0"
      "\<And>w. w < 2 \<Longrightarrow> desc_at e m1 a w = rx_desc_fill maf f (n = 0) psize (rx_slot e m a 0) w"
      "\<And>x k. rx_target e m b off a data 0 \<inter> mem_range x k = {} \<Longrightarrow> mem_range a 8 \<inter> mem_range x k = {} \<Longrightarrow>
         as_read e m1 x k = as_read e m x k"
    and eq: "\<And>i. i < n \<Longrightarrow> rx_slot e m1 a (Suc i) = rx_slot e m a (Suc i)"
    and rest: "rx_placed e m1 m2 maf False psize b off (a + 8) n (drop b data)"
  shows "rx_placed e m m2 maf f psize b off a (Suc n) data"
proof -
  have tgt: "rx_target e m1 b off a data (Suc i) = rx_target e m b off a data (Suc i)" if "i < n" for i
    using eq [OF that] by (simp add: rx_target_def)
  have keep: "as_read e m2 x k = as_read e m1 x k"
    if "\<And>i. i < n \<Longrightarrow> rx_target e m b off a data (Suc i) \<inter> mem_range x k = {} \<and>
          mem_range (a + 8 * of_nat (Suc i)) 8 \<inter> mem_range x k = {}" for x k
    using rest that unfolding rx_placed_def rx_target_Suc desc_step by (simp add: tgt del: of_nat_Suc)
  have late: "as_read e m2 (rx_buf (rx_slot e m a (Suc i)) off) (length (rx_chunk b data (Suc i))) = rx_chunk b data (Suc i)"
    "w < 2 \<Longrightarrow> rx_slot e m2 a (Suc i) w = rx_desc_fill maf False (Suc i = n) psize (rx_slot e m a (Suc i)) w"
    if "i < n" for i w
    using rest that eq [OF that] unfolding rx_placed_def rx_chunk_Suc rx_slot_Suc by auto
  have "as_read e m2 (rx_buf (rx_slot e m a 0) off) (length (rx_chunk b data 0)) = rx_chunk b data 0"
    using rx_layout_targets(1) [OF lay, of 0 "Suc _"] rx_layout_targets(2) [OF lay, of "Suc _" 0]
    by (subst keep) (auto simp: first(1) rx_target_def [symmetric] Int_commute simp del: of_nat_Suc)
  moreover have "rx_slot e m2 a 0 w = rx_desc_fill maf f (n = 0) psize (rx_slot e m a 0) w" if "w < 2" for w
  proof -
    have "as_read e m2 a 8 = as_read e m1 a 8"
      using rx_layout_targets(1) [OF lay, of _ 0] slots_disjoint [OF n, of 0 "Suc _" a]
      by (intro keep) (auto simp: Int_commute simp del: of_nat_Suc)
    then show ?thesis using first(2) [OF that] by (simp add: rx_slot_def desc_at_def)
  qed
  moreover have "as_read e m2 x k = as_read e m x k"
    if "\<forall>i<Suc n. rx_target e m b off a data i \<inter> mem_range x k = {} \<and> mem_range (a + 8 * of_nat i) 8 \<inter> mem_range x k = {}" for x k
    using that first(3) [of x k] by (subst keep) (auto simp del: of_nat_Suc)
  ultimately show ?thesis
    unfolding rx_placed_def using late by (auto simp: less_Suc_eq_0_disj)
qed

lemma rx_scatter:
  assumes "0 < b" "b < 2 ^ 64"
    and "rx_at e q a s" "rx_layout e (dma_as s) b off a n data"
    and "unat (rx_desc_addr s q) + 8 * n < 2 ^ 32"
    and "0 < n" "(n - 1) * b < length data" "length data \<le> n * b"
  shows "\<exists>t. gem_rx_loop e maf q b off psize f data s = Rx_done t \<and>
     rx_placed e (dma_as s) (dma_as t) maf f psize b off a n data \<and>
     rx_desc_addr t = (rx_desc_addr s)(q := rx_desc_addr s q + 8 * of_nat n) \<and> rx_ctrl_same s t"
  using assms(3-)
proof (induction n arbitrary: a s data f)
  case (Suc n)
  let ?m = "dma_as s" and ?c = "rx_chunk b data 0"
  let ?d = "rx_slot e ?m a 0" and ?last = "drop b data = []"
  let ?x = "rx_buf ?d off"
  define m1 where "m1 = as_write e (as_write e ?m (rx_buf (rx_desc s q) off) ?c) a
     (desc_bytes 2 (rx_desc_fill maf f ?last psize (rx_desc s q)))"
  note at = rx_at_slot [OF Suc.prems(1)]
  have own: "rx_desc_get_ownership (rx_desc s q) = 0" and wrap: "rx_desc_get_wrap (rx_desc s q) = 0"
    using Suc.prems(2) by (simp_all add: at rx_layout_def)
  have disj: "mem_range ?x (length ?c) \<inter> mem_range a 8 = {}"
    using rx_layout_targets(1) [OF Suc.prems(2), of 0 0] by (simp add: rx_target_def)
  have clen: "length ?c < 2 ^ 64" using assms(2) by (simp add: rx_chunk_def)
  note wr = rx_write_reads [OF m1_def [unfolded at(3)] disj clen]
  have can: "gem_can_receive s = (True, s\<lparr>can_rx_state := 0\<rparr>)"
    using Suc.prems(1) own by (intro can_receive_ready) (auto simp: rx_at_def)
  obtain t1 where t1: "gem_rx_step e maf q off psize f ?last ?c (s\<lparr>can_rx_state := 0\<rparr>) = Some t1"
    "dma_as t1 = m1" "rx_desc_addr t1 = (rx_desc_addr s)(q := rx_desc_addr s q + 8)" "rx_ctrl_same s t1"
    "rx_at e q (a + 8) t1"
    using rx_step_effect [OF Suc.prems(1) wrap _ m1_def] Suc.prems(3) by auto
  have loop: "gem_rx_loop e maf q b off psize f data s = gem_rx_loop e maf q b off psize False (drop b data) t1"
    using Suc.prems(1,5) t1(1) can assms(1)
    by (subst gem_rx_loop.simps) (auto simp: rx_at_def rx_chunk_def)
  have n32: "8 * Suc n < 2 ^ 32" using Suc.prems(3) by simp
  have last: "?last \<longleftrightarrow> n = 0"
    using Suc.prems(5,6) assms(1) by (cases n) auto
  have eq: "rx_slot e m1 a (Suc i) = rx_slot e ?m a (Suc i)" if "i \<le> n" for i
    using wr(3) rx_layout_targets(1) [OF Suc.prems(2), of 0 "Suc i"] slots_disjoint [OF n32, of 0 "Suc i" a] that
    by (simp add: rx_slot_def desc_at_def rx_target_def del: of_nat_Suc)
  have placed: "rx_placed e ?m m2 maf f psize b off a (Suc n) data"
    if "rx_placed e m1 m2 maf False psize b off (a + 8) n (drop b data)" for m2
    using rx_placed_Suc [OF Suc.prems(2) n32 wr(1) _ _ eq that] wr(2,3) last
    by (simp add: at(4) rx_target_def)
  show ?case
  proof (cases "n = 0")
    case True
    then show ?thesis
      using loop last t1 placed [of m1] by (subst (asm) (2) gem_rx_loop.simps) (auto simp: rx_placed_def)
  next
    case False
    have lay1: "rx_layout e (dma_as t1) b off (a + 8) n (drop b data)"
      unfolding t1(2) using eq by (intro rx_layout_Suc [OF Suc.prems(2)]) simp
    have "unat (rx_desc_addr t1 q) = unat (rx_desc_addr s q) + 8"
      using Suc.prems(3) t1(3) by (simp add: unat_word_ariths)
    then have room: "unat (rx_desc_addr t1 q) + 8 * n < 2 ^ 32" using Suc.prems(3) by simp
    have size: "(n - 1) * b < length (drop b data)" "length (drop b data) \<le> n * b"
      using Suc.prems(5,6) False by (cases n; simp)+
    obtain t where "gem_rx_loop e maf q b off psize False (drop b data) t1 = Rx_done t"
      "rx_placed e m1 (dma_as t) maf False psize b off (a + 8) n (drop b data)"
      "rx_desc_addr t = (rx_desc_addr t1)(q := rx_desc_addr t1 q + 8 * of_nat n)" "rx_ctrl_same t1 t"
      using Suc.IH [OF t1(5) lay1 room _ size, of False] False unfolding t1(2) by blast
    then show ?thesis
      using loop placed t1(3,4) by (auto simp: rx_ctrl_same_def algebra_simps)
  qed
qed simp

end

section \<open>A whole reception\<close>

text \<open>The number of buffers a frame takes.\<close>

definition rx_buffers :: "nat \<Rightarrow> u8 list \<Rightarrow> nat" where
  "rx_buffers b data = (length data + b - 1) div b"

lemma rx_buffers_bounds:
  assumes "0 < b" "data \<noteq> []"
  shows "0 < rx_buffers b data" "(rx_buffers b data - 1) * b < length data" "length data \<le> rx_buffers b data * b"
proof -
  obtain k where k: "length data = Suc k" using assms(2) by (cases data) auto
  have n: "rx_buffers b data = Suc (k div b)"
    using assms(1) by (simp add: rx_buffers_def k div_add_self2)
  have "k div b * b \<le> k" by simp
  moreover have "k < Suc (k div b) * b"
    using assms(1) by (metis dividend_less_div_times add.commute mult_Suc)
  ultimately show "0 < rx_buffers b data" "(rx_buffers b data - 1) * b < length data"
    "length data \<le> rx_buffers b data * b"
    by (simp_all add: n k less_Suc_eq_le)
qed

lemma rx_finish_effect:
  fixes s :: "'m gem"
  assumes t: "t = rx_finish q p n s" and q: "q < MAX_PRIORITY_QUEUES"
  shows "dma_as t = dma_as s" "rx_desc_addr t = rx_desc_addr s"
    "regs t R_RXSTATUS = regs s R_RXSTATUS OR field_mask RXSTATUS_FRAME_RECEIVED"
    "regs t R_RXCNT = regs s R_RXCNT + 1"
    "octets R_OCTRXLO R_OCTRXHI t = octets R_OCTRXLO R_OCTRXHI s + of_nat n"
    "irq_ok t"
proof -
  let ?u = "gem_receive_updatestats p n s"
  have keep: "dma_as ?u = dma_as s" "rx_desc_addr ?u = rx_desc_addr s"
    by (simp_all add: gem_receive_updatestats_def add_octets_def reg_ops Let_def)
  then show "dma_as t = dma_as s" "rx_desc_addr t = rx_desc_addr s"
    by (simp_all add: t rx_finish_def gem_update_int_status_def gem_set_isr_def reg_ops)
  have stat: "regs ?u R_RXSTATUS = regs s R_RXSTATUS" "regs ?u R_RXCNT = regs s R_RXCNT + 1"
    by (simp_all add: update_stats_regs)
  have same: "regs t r = regs ?u r"
    if "r \<noteq> R_RXSTATUS" "r \<noteq> R_ISR" "r < R_INT_Q1_STATUS" for r
    using that by (auto simp: t rx_finish_def gem_update_int_status_def gem_set_isr_def reg_ops)
  show "regs t R_RXSTATUS = regs s R_RXSTATUS OR field_mask RXSTATUS_FRAME_RECEIVED"
    using stat by (simp add: t rx_finish_def gem_update_int_status_def gem_set_isr_def reg_ops)
  show "regs t R_RXCNT = regs s R_RXCNT + 1"
    using stat same [of R_RXCNT] by simp
  show "octets R_OCTRXLO R_OCTRXHI t = octets R_OCTRXLO R_OCTRXHI s + of_nat n"
    using octets_updatestats [of p n s] same [of R_OCTRXLO] same [of R_OCTRXHI] by (simp add: octets_def)
  show "irq_ok t" by (simp add: t rx_finish_def)
qed

text \<open>The frame is neither filtered out nor discarded for its length field, and is not oversized.\<close>

definition rx_accepts :: "'m gem_env \<Rightarrow> u8 list \<Rightarrow> 'm gem \<Rightarrow> bool" where
  "rx_accepts e buf s \<longleftrightarrow>
     gem_mac_address_filter e s (buf_ptr e buf) \<noteq> GEM_RX_REJECT \<and>
     \<not> (FIELD_EX32 (regs s R_NWCFG) NWCFG_LEN_ERR_DISCARD \<noteq> 0 \<and>
        unat (buf_ptr e buf 12) * 256 + unat (buf_ptr e buf 13) < 0x600 \<and>
        length buf < unat (buf_ptr e buf 12) * 256 + unat (buf_ptr e buf 13)) \<and>
     snd (snd (rx_frame e s buf)) \<le> gem_get_max_buf_len s False"

definition rx_offset :: "'m gem \<Rightarrow> nat" where
  "rx_offset s = unat (FIELD_EX32 (regs s R_NWCFG) NWCFG_RECV_BUF_OFFSET)"

lemma unat_ucast_8_32: "unat (ucast (x :: u8) :: u32) = unat x"
proof -
  have "unat x < 2 ^ 8" using unsigned_less [of x] by simp
  then show ?thesis by (simp add: unsigned_ucast_eq take_bit_nat_eq_self)
qed

lemma gem_receive_accepted:
  assumes "rx_accepts e buf s" "rx_frame e s buf = (data, rxbuf, psize)"
  shows "gem_receive e buf s =
     (case gem_rx_loop e (gem_mac_address_filter e s (buf_ptr e buf)) (get_queue_from_screen s rxbuf)
             (rx_bufsize s) (rx_offset s) psize True data s of
        Rx_fault \<Rightarrow> Rx_ret_fault
      | Rx_stop s \<Rightarrow> Rx_ret (-1) s
      | Rx_done t \<Rightarrow> Rx_ret (int psize) (rx_finish (get_queue_from_screen s rxbuf) (buf_ptr e buf) psize t))"
  using assms unfolding gem_receive_def rx_accepts_def rx_offset_def Let_def unat_ucast_8_32
  by (auto simp del: R_NWCFG_def)

lemma gem_receive_not_accepted:
  assumes "\<not> rx_accepts e buf s"
  shows "gem_receive e buf s \<noteq> Rx_ret_fault"
proof -
  obtain data rxbuf psize where fr: "rx_frame e s buf = (data, rxbuf, psize)" by (metis prod_cases3)
  show ?thesis
    using assms fr unfolding gem_receive_def rx_accepts_def Let_def unat_ucast_8_32
    by (auto simp del: R_NWCFG_def)
qed

lemma rx_bufsize_lt: "rx_bufsize s < 2 ^ 64"
  using FIELD_EX32_lt [of DMACFG_RX_BUF_SIZE "regs s R_DMACFG"]
  by (simp add: rx_bufsize_def Let_def field_defs)

context gem_bus
begin

lemma receive_delivers:
  assumes acc: "rx_accepts e buf s"
    and fr: "rx_frame e s buf = (data, rxbuf, psize)" and ne: "data \<noteq> []"
    and q: "q = get_queue_from_screen s rxbuf" and n: "n = rx_buffers (rx_bufsize s) data"
    and at: "rx_at e q a s" and lay: "rx_layout e (dma_as s) (rx_bufsize s) (rx_offset s) a n data"
    and room: "unat (rx_desc_addr s q) + 8 * n < 2 ^ 32"
  shows "\<exists>t. gem_receive e buf s = Rx_ret (int psize) t \<and>
     rx_placed e (dma_as s) (dma_as t) (gem_mac_address_filter e s (buf_ptr e buf)) True psize
       (rx_bufsize s) (rx_offset s) a n data \<and>
     rx_desc_addr t = (rx_desc_addr s)(q := rx_desc_addr s q + 8 * of_nat n) \<and>
     regs t R_RXCNT = regs s R_RXCNT + 1 \<and>
     octets R_OCTRXLO R_OCTRXHI t = octets R_OCTRXLO R_OCTRXHI s + of_nat psize \<and>
     FIELD_EX32 (regs t R_RXSTATUS) RXSTATUS_FRAME_RECEIVED \<noteq> 0 \<and> irq_ok t"
proof -
  let ?maf = "gem_mac_address_filter e s (buf_ptr e buf)"
  note b = rx_buffers_bounds [OF rx_bufsize_pos ne, of s, folded n]
  have q8: "q < MAX_PRIORITY_QUEUES" using at by (simp add: rx_at_def)
  obtain u where u: "gem_rx_loop e ?maf q (rx_bufsize s) (rx_offset s) psize True data s = Rx_done u"
    "rx_placed e (dma_as s) (dma_as u) ?maf True psize (rx_bufsize s) (rx_offset s) a n data"
    "rx_desc_addr u = (rx_desc_addr s)(q := rx_desc_addr s q + 8 * of_nat n)" "rx_ctrl_same s u"
    using rx_scatter [OF rx_bufsize_pos rx_bufsize_lt at lay room b, of ?maf psize True] by blast
  have same: "regs u r = regs s r" if "r \<noteq> R_RXSTATUS" "r \<noteq> R_ISR" "r < R_INT_Q1_STATUS" for r
    using u(4) that by (simp add: rx_ctrl_same_def)
  note f = rx_finish_effect [OF refl q8, of "buf_ptr e buf" psize u]
  have "FIELD_EX32 (w OR field_mask RXSTATUS_FRAME_RECEIVED) RXSTATUS_FRAME_RECEIVED \<noteq> 0" for w
    by (simp add: field_defs FIELD_EX32_flag_Suc field_mask_def bit_simps)
  then show ?thesis
    using gem_receive_accepted [OF acc fr, folded q] u f same [of R_RXCNT] same [of R_OCTRXLO] same [of R_OCTRXHI]
    by (simp add: octets_def)
qed

end

end
