(* ===== verification/Gem_Demo.thy ===== *)
theory Gem_Demo
  imports Gem_Rx_Props
begin

text \<open>
  Two concrete devices on flat RAM: one that stands ready to receive into a ring of two buffers,
  one with a packet of two fragments queued for transmission.
\<close>

section \<open>A device ready to receive\<close>

definition demo_mac :: "u8 list" where
  "demo_mac = [0x52, 0x54, 0x00, 0x12, 0x34, 0x56]"

definition rx_demo_ram :: ram where
  "rx_demo_ram = ram_write (\<lambda>_. 0) 0x100 (le32 0x1000 @ le32 0 @ le32 0x2000 @ le32 0)"

definition rx_demo :: "ram gem" where
  "rx_demo = (gem_defaults rx_demo_ram demo_mac)
     \<lparr>regs := (\<lambda>_. 0)(R_NWCTRL := 0x4, R_NWCFG := 0x10, R_DMACFG := 0x10000),
      rx_desc_addr := (\<lambda>_. 0x100), rx_desc := (\<lambda>_. (\<lambda>_. 0)(0 := 0x1000))\<rparr>"

lemma rx_demo_sel:
  "regs rx_demo = (\<lambda>_. 0)(R_NWCTRL := 0x4, R_NWCFG := 0x10, R_DMACFG := 0x10000)"
  "dma_as rx_demo = rx_demo_ram" "rx_desc_addr rx_demo = (\<lambda>_. 0x100)" 
  "rx_desc rx_demo = (\<lambda>_. (\<lambda>_. 0)(0 := 0x1000))" "num_priority_queues rx_demo = 1"
  "num_type1_screeners rx_demo = 4" "num_type2_screeners rx_demo = 4"
  by (simp_all add: rx_demo_def gem_defaults_def)

lemma rx_demo_at1:
   "rx_basic rx_demo" 
  by (simp add: rx_demo_sel rx_basic_def gem_get_desc_len_def dma_64b_def field_defs FIELD_EX32_def extract32_def field_mask_def)
lemma rx_demo_at2:
 "FIELD_EX32 (regs rx_demo R_NWCTRL) NWCTRL_ENABLE_RECEIVE \<noteq> 0"
  by (simp add: rx_demo_sel field_defs FIELD_EX32_def extract32_def field_mask_def)

lemma rx_demo_slots:
 "desc_at ram_env rx_demo_ram 0x100 0 = 0x1000"
  "desc_at ram_env rx_demo_ram 0x100 (Suc 0) = 0"
  "desc_at ram_env rx_demo_ram 0x108 0 = 0x2000"
  by (simp_all add: desc_at_def desc_load_def ram_env_def ram_read_def rx_demo_ram_def ram_write_def upt_rec le32_def)

lemma rx_demo_at: "rx_at ram_env 0 0x100 rx_demo"
  using rx_demo_at1 rx_demo_at2 rx_demo_slots(1,2)
  by (auto simp: rx_at_def rx_demo_sel dest!: less_2_cases)

definition rx_demo_data :: "u8 list" where
  "rx_demo_data = replicate 100 7 @ [0, 0, 0, 0]"

lemma rx_demo_frame:
  "\<exists>p. rx_frame ram_env rx_demo (replicate 100 7) = (rx_demo_data, p, 104)"
  by (simp add: rx_frame_def rx_demo_sel Let_def field_defs FIELD_EX32_def extract32_def map_buf_ptr rx_demo_data_def)
    (simp add: ram_env_def le32_def)

lemma rx_demo_misc:
  "rx_bufsize rx_demo = 64" "rx_offset rx_demo = 0"
  "get_queue_from_screen rx_demo p = 0"
  "rx_buffers 64 rx_demo_data = 2"
  by (simp_all add: rx_bufsize_def rx_offset_def get_queue_from_screen_def rx_demo_sel Let_def rx_buffers_def type1_screen_def type2_screen_def type2_compare_def 
    screen_verdict_def type2_ethertype_def field_defs FIELD_EX32_def extract32_def field_mask_def upt_rec rx_demo_data_def)

lemma rx_demo_accepts: "rx_accepts ram_env (replicate 100 7) rx_demo"
  using rx_demo_frame
  by (auto simp: rx_accepts_def gem_filter_cases rx_demo_sel field_defs FIELD_EX32_def extract32_def gem_get_max_buf_len_def)
lemma rx_demo_layout: "rx_layout ram_env (dma_as rx_demo) 64 0 0x100 2 rx_demo_data"
proof -
  have tgt: "rx_target ram_env rx_demo_ram 64 0 0x100 rx_demo_data 0 = mem_range 0x1000 64"
    "rx_target ram_env rx_demo_ram 64 0 0x100 rx_demo_data (Suc 0) = mem_range 0x2000 40"
    by (simp_all add: rx_target_def rx_buf_def rx_slot_def rx_chunk_def rx_demo_slots rx_demo_data_def)
  have apart: "mem_range 0x1000 64 \<inter> mem_range 0x2000 40 = {}"
    "mem_range 0x1000 64 \<inter> mem_range 0x100 8 = {}" "mem_range 0x1000 64 \<inter> mem_range 0x108 8 = {}"
    "mem_range 0x1000 64 \<inter> mem_range 0x110 8 = {}" "mem_range 0x2000 40 \<inter> mem_range 0x100 8 = {}"
    "mem_range 0x2000 40 \<inter> mem_range 0x108 8 = {}" "mem_range 0x2000 40 \<inter> mem_range 0x110 8 = {}"
    by (rule mem_range_apart; simp)+
  show ?thesis
    by (simp add: apart trans [OF Int_commute apart(1)] rx_layout_def rx_demo_sel tgt rx_slot_def rx_demo_slots rx_desc_get_ownership_def
        rx_desc_get_wrap_def less_Suc_eq le_Suc_eq numeral_2_eq_2 all_less_Suc)
qed
section \<open>A device with a packet to send\<close>

definition tx_demo_ram :: ram where
  "tx_demo_ram = ram_write (ram_write (ram_write (\<lambda>_. 0) 0x1000 [1, 2, 3]) 0x2000 [4, 5, 6, 7]) 0x100
     (le32 0x1000 @ le32 3 @ le32 0x2000 @ le32 0x8004 @ le32 0 @ le32 0x80000000)"

definition tx_demo :: "ram gem" where
  "tx_demo = (gem_defaults tx_demo_ram demo_mac)
     \<lparr>regs := (\<lambda>_. 0)(R_NWCTRL := 0x8), tx_desc_addr := (\<lambda>_. 0x100)\<rparr>"

lemma tx_demo_sel:
  "regs tx_demo = (\<lambda>_. 0)(R_NWCTRL := 0x8)"
  "dma_as tx_demo = tx_demo_ram" "tx_desc_addr tx_demo = (\<lambda>_. 0x100)" 
  "num_priority_queues tx_demo = 1" "phy_loop (phy tx_demo) = False" "nic_sent tx_demo = []"
  by (simp_all add: tx_demo_def gem_defaults_def)

lemma tx_demo_slots:
  "desc_at ram_env tx_demo_ram 0x100 0 = 0x1000" "desc_at ram_env tx_demo_ram 0x100 (Suc 0) = 3"
  "desc_at ram_env tx_demo_ram 0x108 0 = 0x2000" "desc_at ram_env tx_demo_ram 0x108 (Suc 0) = 0x8004"
  "desc_at ram_env tx_demo_ram 0x110 (Suc 0) = 0x80000000"
  by (simp_all add: desc_at_def desc_load_def ram_env_def ram_read_def tx_demo_ram_def ram_write_def upt_rec le32_def)

lemma tx_demo_bytes:
  "as_read ram_env tx_demo_ram 0x1000 3 = [1, 2, 3]" "as_read ram_env tx_demo_ram 0x2000 4 = [4, 5, 6, 7]"
  by (simp_all add: ram_env_def ram_read_def tx_demo_ram_def ram_write_def upt_rec)

lemma tx_demo_dma: "tx_basic tx_demo" "\<not> dma_64b tx_demo" "gem_get_max_buf_len tx_demo True = 1518"
  by (simp_all add: tx_demo_sel tx_basic_def gem_get_desc_len_def dma_64b_def field_defs FIELD_EX32_def
      extract32_def field_mask_def gem_get_max_buf_len_def)

lemma tx_demo_ctrl: "FIELD_EX32 (regs tx_demo R_NWCTRL) NWCTRL_ENABLE_TRANSMIT \<noteq> 0"
  "FIELD_EX32 (regs tx_demo R_NWCTRL) NWCTRL_LOOPBACK_LOCAL = 0"
  by (simp_all add: tx_demo_sel field_defs FIELD_EX32_def extract32_def)

lemma tx_demo_chain: "tx_chain ram_env tx_demo 1518 (Suc 1) 0x100"
  "tx_fragments ram_env tx_demo (Suc 1) 0x100 = [1, 2, 3, 4, 5, 6, 7]"
  "tx_desc_get_used (desc_at ram_env (dma_as tx_demo) (0x100 + 8 * of_nat (Suc 1))) \<noteq> 0"
  by (simp_all add: tx_demo_sel tx_demo_slots tx_demo_bytes tx_demo_dma tx_desc_fits_def tx_desc_get_used_def
     tx_desc_get_wrap_def tx_desc_get_last_def tx_desc_get_length_def tx_desc_get_buffer_def)

text \<open>The same device with its register masks installed, and its first pass over the ring.\<close>

definition tx_demo_wf :: "ram gem" where
  "tx_demo_wf = gem_init_register_masks tx_demo"

lemma tx_demo_wf: "gem_wf tx_demo_wf"
  by (simp add: gem_wf_def tx_demo_wf_def gem_init_register_masks_def Let_def tx_demo_def gem_defaults_def)

lemma tx_demo_pass: "(gem_tx_pass ram_env 0)\<^sup>*\<^sup>* ([], tx_demo_wf) ([1, 2, 3], tx_demo_wf)"
proof -
  have sel: "regs tx_demo_wf = regs tx_demo" "dma_as tx_demo_wf = tx_demo_ram"
    by (simp_all add: tx_demo_wf_def gem_init_register_masks_def Let_def tx_demo_sel)
  have "gem_tx_step ram_env 0 0x100 (desc_at ram_env tx_demo_ram 0x100) [] tx_demo_wf =
        Tx_next tx_demo_wf 0x108 (desc_at ram_env tx_demo_ram 0x108) [1, 2, 3]"
    by (simp add: gem_tx_step_def sel tx_demo_sel tx_demo_slots tx_demo_bytes tx_next_addr_def gem_get_desc_len_def dma_64b_def
        field_defs FIELD_EX32_def extract32_def field_mask_def gem_get_max_buf_len_def tx_desc_get_length_def
        tx_desc_get_last_def tx_desc_get_buffer_def tx_desc_get_wrap_def Let_def
        desc_load_desc_at [unfolded numeral_2_eq_2])
  then show ?thesis by (blast intro: gem_tx_pass.intros r_into_rtranclp)
qed

section \<open>A device after power-up\<close>

definition demo_boot :: "ram gem" where
  "demo_boot = gem_reset ((gem_init_register_masks (gem_defaults (\<lambda>_. 0) []))\<lparr>macaddr := demo_mac\<rparr>)"

lemma demo_boot_reach: "gem_reach e demo_boot"
proof -
  have "gem_realize (\<lambda>_. demo_mac) (gem_defaults (\<lambda>_. 0) []) =
        Inr ((gem_init_register_masks (gem_defaults (\<lambda>_. 0) [] :: ram gem))\<lparr>macaddr := demo_mac\<rparr>)"
    by (simp add: gem_realize_def gem_defaults_def gem_init_register_masks_def Let_def)
  then show ?thesis unfolding demo_boot_def by (rule gem_reach.realize)
qed

end
