(* ===== verification/Gem_Props.thy ===== *)
theory Gem_Props
  imports Gem_Demo
begin

text \<open>
  The properties of the Cadence GEM model: reception and transmission of a packet, classification,
  register semantics, interrupts, statistics, reset, the management interface of the PHY, and what
  holds in every state a guest can reach.
\<close>

section \<open>Auxiliary facts\<close>

lemma wf_ro_zero:
  assumes "gem_wf s" "r < R_INT_Q1_STATUS"
    "r \<notin> {R_NWCTRL, R_NWSTATUS, R_DMACFG, R_TXSTATUS, R_RXQBASE, R_TXQBASE, R_RXSTATUS, R_ISR, R_IMR, R_MODID}"
  shows "regs_ro s r = 0"
proof -
  have n: "num_priority_queues s \<le> 8" and m: "s = gem_init_register_masks s"
    using assms(1) by (simp_all add: gem_wf_def)
  show ?thesis
    using assms(2,3)
    by (subst m, simp add: gem_init_register_masks_def Let_def, subst fold_fun_other) auto
qed

lemma wf_store_plain:
  assumes "gem_wf s" "r < R_INT_Q1_STATUS"
    "r \<notin> {R_NWCTRL, R_NWSTATUS, R_DMACFG, R_TXSTATUS, R_RXQBASE, R_TXQBASE, R_RXSTATUS, R_ISR, R_IMR, R_MODID}"
  shows "gem_store r v s = set_reg r v s"
  using wf_ro_zero [OF assms] wf_masks(8) [OF assms(1)] assms(3)
  by (simp add: gem_store_def Let_def reg_ops)

lemma bit_set_isr0:
  "bit (regs (gem_set_isr 0 flag s) R_ISR) n \<longleftrightarrow> bit (regs s R_ISR) n \<or> bit flag n \<and> \<not> bit (regs s R_IMR) n"
  by (auto simp: gem_set_isr_def reg_ops bit_simps dest: bit_imp_le_length)

lemma reset_spaddr:
  assumes "length (macaddr s) = 6"
  shows "spaddr_bytes (gem_reset s) 0 = macaddr s"
proof -
  let ?m = "macaddr s"
  have hi: "?m ! 4 # ?m ! 5 # [] = drop 4 ?m" and lo: "take 4 ?m = [?m ! 0, ?m ! 1, ?m ! 2, ?m ! 3]"
    using assms by (simp_all add: list_eq_iff_nth_eq less_Suc_eq numeral_eq_Suc)
  have "regs (gem_reset s) R_SPADDR1LO = of_le32 (take 4 ?m)"
    unfolding lo by (simp add: gem_reset_def gem_update_int_status_def Let_def)
  moreover have "regs (gem_reset s) R_SPADDR1HI = of_le32 (drop 4 ?m @ [0, 0])"
    unfolding hi [symmetric] by (simp add: gem_reset_def gem_update_int_status_def Let_def)
  ultimately show ?thesis
    using assms le32_of_le32_take [of ?m] le32_of_le32 [of "drop 4 ?m @ [0, 0]"]
    by (simp add: spaddr_bytes_def)
qed

lemma write_spaddr:
  assumes "i < 4"
  shows "gem_write e (R_SPADDR1LO + 2 * i) v s =
      Some (Gem_ok ((gem_store (R_SPADDR1LO + 2 * i) v s)
        \<lparr>sar_active := (sar_active (gem_store (R_SPADDR1LO + 2 * i) v s))(i := False)\<rparr>))"
    and "gem_write e (R_SPADDR1LO + 2 * i + 1) v s =
      Some (Gem_ok ((gem_store (R_SPADDR1LO + 2 * i + 1) v s)
        \<lparr>sar_active := (sar_active (gem_store (R_SPADDR1LO + 2 * i + 1) v s))(i := True)\<rparr>))"
proof -
  from assms consider "i = 0" | "i = 1" | "i = 2" | "i = 3" unfolding less_4_cases by blast
  then show "gem_write e (R_SPADDR1LO + 2 * i) v s =
      Some (Gem_ok ((gem_store (R_SPADDR1LO + 2 * i) v s)
        \<lparr>sar_active := (sar_active (gem_store (R_SPADDR1LO + 2 * i) v s))(i := False)\<rparr>))"
    by cases (simp_all add: gem_write_def Let_def)
  from assms consider "i = 0" | "i = 1" | "i = 2" | "i = 3" unfolding less_4_cases by blast
  then show "gem_write e (R_SPADDR1LO + 2 * i + 1) v s =
      Some (Gem_ok ((gem_store (R_SPADDR1LO + 2 * i + 1) v s)
        \<lparr>sar_active := (sar_active (gem_store (R_SPADDR1LO + 2 * i + 1) v s))(i := True)\<rparr>))"
    by cases (simp_all add: gem_write_def Let_def)
qed

lemma tx_pass_inv:
  assumes bus: "gem_bus e" and net: "net_layer e" and "gem_wf s" and "length acc \<le> MAX_FRAME_SIZE"
    and "(gem_tx_pass e q)\<^sup>*\<^sup>* (acc, s) (acc', s')"
  shows "gem_wf s' \<and> length acc' \<le> MAX_FRAME_SIZE"
  using assms(5)
proof (induction rule: rtranclp_induct2)
  case (step acc1 s1 acc2 s2)
  from step.hyps(2) obtain a d a' d' where st: "gem_tx_step e q a d acc1 s1 = Tx_next s2 a' d' acc2"
    by (auto elim: gem_tx_pass.cases)
  have "gem_frame s1 s2"
    using net_layer.frame_tx_step [OF net, of s1 q a d acc1] by (simp add: st ctl_frame_def)
  then have "gem_wf s2"
    using step.IH gem_wf_cong by (auto simp: gem_frame_def)
  moreover have "length (as_read e m x n) = n" for m x n
    using bus by (simp add: gem_bus_def dma_bus.length_rd)
  then have "length acc2 \<le> MAX_FRAME_SIZE"
    using tx_step_next_bound [OF st] max_buf_len_le [of s1 True] step.IH by auto
  ultimately show ?case by blast
qed (use assms in simp)

section \<open>Data path\<close>



text \<open>
  C7: With one queue and no loopback, starting a transmission on a chain of descriptors that
  describes one packet sends exactly the concatenation of the fragments (after the checksum
  offload when it is on), returns, marks the first descriptor used, moves the queue pointer
  behind the chain, and reports completion and the used descriptor that stopped the walk.
\<close>

theorem gem_transmit_correct:
  assumes "gem_bus e" and "tx_basic s" and "FIELD_EX32 (regs s R_NWCTRL) NWCTRL_ENABLE_TRANSMIT \<noteq> 0"
    and "\<not> phy_loop (phy s)" "FIELD_EX32 (regs s R_NWCTRL) NWCTRL_LOOPBACK_LOCAL = 0"
    and "num_priority_queues s = 1" and "A = ucast (tx_desc_addr s 0)"
    and "tx_chain e s (gem_get_max_buf_len s True) (Suc k) A"
    and "tx_desc_get_used (desc_at e (dma_as s) (A + 8 * of_nat (Suc k))) \<noteq> 0" and "k < 2 ^ 32"
  shows "\<exists>t. gem_transmit e s = Some (Gem_ok t) \<and>
     nic_sent t = nic_sent s @ [tx_checksummed e s (tx_fragments e s (Suc k) A)] \<and>
     tx_desc_addr t 0 = tx_desc_addr s 0 + 8 * of_nat (Suc k) \<and>
     tx_desc_get_used (desc_at e (dma_as t) A) \<noteq> 0 \<and>
     regs t R_TXSTATUS = regs s R_TXSTATUS OR field_mask TXSTATUS_TRANSMIT_COMPLETE OR
       field_mask TXSTATUS_USED_BIT_READ \<and>
     irq_ok t"
  using assms(2-) by (rule gem_bus.gem_transmit_packet [OF assms(1)])

theorem gem_transmit_correct_witness:
  "\<exists>t. gem_transmit ram_env tx_demo = Some (Gem_ok t) \<and> nic_sent t = [[1, 2, 3, 4, 5, 6, 7]]"
proof -
  have "tx_checksummed ram_env tx_demo [1, 2, 3, 4, 5, 6, 7] = [1, 2, 3, 4, 5, 6, 7]"
    by (simp add: tx_checksummed_def tx_demo_sel field_defs FIELD_EX32_def extract32_def)
  then show ?thesis
    using gem_transmit_correct [OF ram_gem.gem_bus_axioms tx_demo_dma(1) tx_demo_ctrl(1) _ tx_demo_ctrl(2),
        where A = "0x100" and k = 1] tx_demo_chain
    by (auto simp: tx_demo_sel tx_demo_dma)
qed

text \<open>
  C22: The receive path accesses an element outside \<open>rx_desc[MAX_PRIORITY_QUEUES]\<close> exactly when an
  accepted, non-empty frame meets a device that can receive and the screeners choose a queue
  number of eight or more; screener registers can hold queue numbers up to fifteen.
\<close>

theorem gem_receive_fault_iff:
  "gem_receive e buf s = Rx_ret_fault \<longleftrightarrow>
     rx_accepts e buf s \<and> fst (rx_frame e s buf) \<noteq> [] \<and> fst (gem_can_receive s) \<and>
     MAX_PRIORITY_QUEUES \<le> get_queue_from_screen s (fst (snd (rx_frame e s buf)))"
proof (cases "rx_accepts e buf s")
  case True
  obtain data rxbuf psize where fr: "rx_frame e s buf = (data, rxbuf, psize)" by (metis prod_cases3)
  show ?thesis
    using True rx_bufsize_pos [of s]
      rx_loop_fault [of "rx_bufsize s" e "gem_mac_address_filter e s (buf_ptr e buf)"
        "get_queue_from_screen s rxbuf" "rx_offset s" psize True data s]
    unfolding gem_receive_accepted [OF True fr] fr
    by (auto split: rx_out.split)
qed (simp add: gem_receive_not_accepted)

text \<open>
  C23: While a ring is walked, the packet gathered in \<open>tx_packet\<close> never exceeds
  \<open>MAX_FRAME_SIZE\<close> bytes, whatever the guest puts into the descriptors, and no pass copies beyond
  the end of the buffer.
\<close>

theorem gem_tx_buffer_bound:
  assumes "gem_bus e" and "net_layer e" and "gem_wf s" and "length acc \<le> MAX_FRAME_SIZE"
    and "(gem_tx_pass e q)\<^sup>*\<^sup>* (acc, s) (acc', s')"
  shows "length acc' \<le> MAX_FRAME_SIZE \<and>
    (\<forall>a d t b d' acc''. gem_tx_step e q a d acc' s' = Tx_next t b d' acc'' \<longrightarrow>
       length acc' + tx_desc_get_length d \<le> MAX_FRAME_SIZE)"
proof -
  have inv: "gem_wf s' \<and> length acc' \<le> MAX_FRAME_SIZE"
    using assms(5) by (rule tx_pass_inv [OF assms(1-4)])
  then show ?thesis
    using max_buf_len_le [of s' True] by (auto dest!: tx_step_next_bound(1))
qed

theorem gem_tx_buffer_bound_witness:
  "(gem_tx_pass ram_env 0)\<^sup>*\<^sup>* ([], tx_demo_wf) ([1, 2, 3], tx_demo_wf) \<and> length [1, 2, 3 :: u8] \<le> MAX_FRAME_SIZE"
  using gem_tx_buffer_bound [OF ram_gem.gem_bus_axioms ram_net.net_layer_axioms tx_demo_wf, of "[]", OF _ tx_demo_pass]
    tx_demo_pass by simp

section \<open>Classification\<close>

text \<open>
  C28: The hash index computed bit by bit from the destination address is the exclusive or of the
  eight six-bit groups of the 48-bit address, so it is below 64 and selects one bit of the hash
  registers.
\<close>

theorem calc_mac_hash_correct:
  "calc_mac_hash mac = xor_groups mac \<and> unat (calc_mac_hash mac) < 64"
  using calc_mac_hash_eq calc_mac_hash_lt by blast

text \<open>
  C20: The address filter rejects a frame exactly when the device is not promiscuous and either the
  frame is a broadcast and broadcasts are disabled, or it is none, its hash bit is not set or not
  enabled for its kind of address, and no active specific address equals its destination.
\<close>

theorem filter_rejects:
  "gem_mac_address_filter e s p = GEM_RX_REJECT \<longleftrightarrow>
     \<not> bit (regs s R_NWCFG) 4 \<and>
     (if is_broadcast p then bit (regs s R_NWCFG) 5
      else \<not> hash_hit e s p \<and> (\<forall>i<4. \<not> sar_match s p i))"
  by (rule gem_filter_reject_iff)

theorem filter_rejects_witness:
  "gem_mac_address_filter ram_env (gem_defaults (\<lambda>_. 0) demo_mac) (\<lambda>i. demo_mac ! i) = GEM_RX_REJECT"
  by (subst filter_rejects) (simp add: gem_defaults_def is_broadcast_def demo_mac_def broadcast_addr_def hash_hit_def
      hash_buckets_def sar_match_def upt_rec)

text \<open>
  C27: The filter reports specific address \<open>i\<close> exactly when neither promiscuous mode, broadcast nor
  hash accepted the frame, address \<open>i\<close> is active and equal to the destination, and no register
  above it is; the highest matching register wins.
\<close>

theorem filter_specific_address:
  "gem_mac_address_filter e s p = int i \<longleftrightarrow>
     \<not> bit (regs s R_NWCFG) 4 \<and> \<not> is_broadcast p \<and> \<not> hash_hit e s p \<and>
     i < 4 \<and> sar_match s p i \<and> (\<forall>j. i < j \<and> j < 4 \<longrightarrow> \<not> sar_match s p j)"
  by (rule gem_filter_sar)

definition sar_demo :: "ram gem" where
  "sar_demo = (gem_defaults (\<lambda>_. 0) demo_mac)
     \<lparr>regs := (\<lambda>_. 0)(R_SPADDR2LO := 0x12005452, R_SPADDR2HI := 0x5634), sar_active := (\<lambda>i. i = 1)\<rparr>"

theorem filter_specific_address_witness:
  "gem_mac_address_filter ram_env sar_demo (\<lambda>i. demo_mac ! i) = int 1"
  by (subst filter_specific_address)
    (simp add: sar_demo_def gem_defaults_def is_broadcast_def demo_mac_def broadcast_addr_def hash_hit_def
      sar_match_def spaddr_bytes_def le32_def upt_rec)

text \<open>
  C29: The queue the screeners choose depends only on the first 173 bytes at the packet pointer and
  is below 16; when every screener register holds a queue number below \<open>n\<close> it is below \<open>n\<close>.
\<close>

theorem screening_bounds:
  assumes "\<And>i. i < 173 \<Longrightarrow> p i = p' i" and "0 < n"
    and "\<forall>i<num_type1_screeners s. unat (extract32 (regs s (R_SCREENING_TYPE1_REG0 + i)) 0 4) < n"
    and "\<forall>i<num_type2_screeners s. unat (extract32 (regs s (R_SCREENING_TYPE2_REG0 + i)) 0 4) < n"
  shows "get_queue_from_screen s p = get_queue_from_screen s p' \<and> get_queue_from_screen s p < 16 \<and>
    get_queue_from_screen s p < n"
  using get_queue_from_screen_reads_173 [of p p' s, OF assms(1)] get_queue_from_screen_lt [of s p]
    get_queue_from_screen_configured [OF assms(2-4), of p] by simp

theorem screening_bounds_witness:
  "get_queue_from_screen (gem_defaults (\<lambda>_. 0) demo_mac :: ram gem) (\<lambda>_. 0) < 1"
  using screening_bounds [of "\<lambda>_. 0" "\<lambda>_. 0" 1 "gem_defaults (\<lambda>_. 0) demo_mac :: ram gem"]
  by (simp add: gem_defaults_def extract32_def)

section \<open>Register interface\<close>

text \<open>
  C31: Storing to a register and reading it back: a write-only bit reads as zero, a read-only bit
  keeps its value, a write-one-to-clear bit is cleared by a one, every other bit has the value
  written; the read then clears the read-to-clear bits and refreshes the interrupt lines.
\<close>

theorem register_semantics:
  "(bit (fst (gem_read off (gem_store off val s))) n \<longleftrightarrow>
     \<not> bit (regs_wo s off) n \<and>
     (if bit (regs_w1c s off) n then bit (regs s off) n \<and> (bit (regs_ro s off) n \<or> \<not> bit val n)
      else if bit (regs_ro s off) n then bit (regs s off) n else bit val n)) \<and>
   (bit (regs (snd (gem_read off s)) off) n \<longleftrightarrow> bit (regs s off) n \<and> \<not> bit (regs_rtc s off) n) \<and>
   irq_ok (snd (gem_read off s))"
proof -
  have "regs_wo (gem_store off val s) = regs_wo s"
    by (simp add: gem_store_def Let_def reg_ops)
  then have "bit (fst (gem_read off (gem_store off val s))) n \<longleftrightarrow>
      bit (regs (gem_store off val s) off) n \<and> \<not> bit (regs_wo s off) n"
    by (auto simp: gem_read_def Let_def reg_ops bit_simps dest: bit_imp_le_length)
  moreover have "bit (regs (snd (gem_read off s)) off) n \<longleftrightarrow> bit (regs s off) n \<and> \<not> bit (regs_rtc s off) n"
    by (auto simp: gem_read_def gem_update_int_status_def Let_def reg_ops bit_simps dest: bit_imp_le_length)
  ultimately show ?thesis by (auto simp: gem_store_bit gem_read_def Let_def)
qed

theorem register_semantics_witness:
  "bit (fst (gem_read R_HASHLO (gem_store R_HASHLO 5 (gem_defaults (\<lambda>_. 0) demo_mac :: ram gem)))) 2"
  using register_semantics [of R_HASHLO 5 "gem_defaults (\<lambda>_. 0) demo_mac :: ram gem" 2]
  by (simp add: gem_defaults_def)

text \<open>
  C24: In every state a realized device can reach, its configuration is within the array bounds, the
  register masks are the ones installed at realization, and the identification and status
  registers read as the revision and the constant idle status.
\<close>

theorem reachable_identity:
  assumes "net_layer e" and "gem_reach e s"
  shows "gem_wf s \<and> fst (gem_read R_MODID s) = revision s \<and> fst (gem_read R_NWSTATUS s) = 6"
  using net_layer.gem_reach_inv [OF assms] wf_masks(11,12) [of s]
  by (simp add: gem_inv_def gem_read_def Let_def reg_ops)

theorem reachable_identity_witness:
  "fst (gem_read R_MODID demo_boot) = revision demo_boot"
  using reachable_identity [OF loop_net.net_layer_axioms demo_boot_reach] by blast



text \<open>
  Reading the interrupt status register of a well-formed device returns the pending
  interrupts, clears all of them, and lowers the interrupt line of queue zero.
\<close>

theorem isr_read_clears:
  assumes "gem_wf s"
  shows "fst (gem_read R_ISR s) = regs s R_ISR \<and> regs (snd (gem_read R_ISR s)) R_ISR = 0 \<and>
    \<not> irq (snd (gem_read R_ISR s)) 0 \<and>
    (\<forall>r. r \<noteq> R_ISR \<longrightarrow> regs (snd (gem_read R_ISR s)) r = regs s r)"
proof -
  have "(0xFFFFFFFF :: u32) = - 1" by simp
  then have "(w :: u32) AND NOT 0xFFFFFFFF = 0" for w
    by (simp only:) simp
  then have "regs (snd (gem_read R_ISR s)) R_ISR = 0"
    using wf_masks(4) [OF assms] by (simp add: gem_read_def Let_def reg_ops gem_update_int_status_def)
  moreover have "irq_ok (snd (gem_read R_ISR s))" by (simp add: gem_read_def Let_def)
  ultimately show ?thesis
    using wf_masks(5) [OF assms] by (simp add: irq_ok_def gem_read_def Let_def reg_ops gem_update_int_status_def)
qed

theorem isr_read_clears_witness:
  "regs (snd (gem_read R_ISR (set_reg R_ISR 0x82 tx_demo_wf))) R_ISR = 0"
proof -
  have "gem_wf (set_reg R_ISR 0x82 tx_demo_wf)"
    using tx_demo_wf gem_wf_cong [of "set_reg R_ISR 0x82 tx_demo_wf" tx_demo_wf]
    by (simp add: gem_cfg_def reg_ops)
  then show ?thesis using isr_read_clears by blast
qed

section \<open>Interrupts, statistics and reset\<close>

text \<open>
  Writing the interrupt enable and disable registers clears and sets exactly the written bits of
  the mask; an interrupt raised afterwards becomes pending exactly when its mask bit is clear.
\<close>

theorem interrupt_masking:
  assumes "gem_wf s"
  shows "\<exists>t u. gem_write e R_IER v s = Some (Gem_ok t) \<and> regs t R_IMR = regs s R_IMR AND NOT v \<and>
    gem_write e R_IDR v s = Some (Gem_ok u) \<and> regs u R_IMR = regs s R_IMR OR v \<and>
    (\<forall>n. bit (regs (gem_set_isr 0 flag t) R_ISR) n \<longleftrightarrow>
       bit (regs s R_ISR) n \<or> bit flag n \<and> \<not> (bit (regs s R_IMR) n \<and> \<not> bit v n)) \<and>
    (\<forall>n. bit (regs (gem_set_isr 0 flag u) R_ISR) n \<longleftrightarrow>
       bit (regs s R_ISR) n \<or> bit flag n \<and> \<not> (bit (regs s R_IMR) n \<or> bit v n))"
proof -
  define t where "t = gem_update_int_status (set_reg R_IMR (regs s R_IMR AND NOT v) (set_reg R_IER v s))"
  define u where "u = gem_update_int_status (set_reg R_IMR (regs s R_IMR OR v) (set_reg R_IDR v s))"
  have "gem_write e R_IER v s = Some (Gem_ok t)" "gem_write e R_IDR v s = Some (Gem_ok u)"
    using wf_store_plain [OF assms, of R_IER v] wf_store_plain [OF assms, of R_IDR v] wf_masks(6,7) [OF assms]
    by (simp_all add: gem_write_def Let_def t_def u_def) (simp_all add: reg_ops)
  moreover have "regs t R_IMR = regs s R_IMR AND NOT v" "regs u R_IMR = regs s R_IMR OR v"
    "regs t R_ISR = regs s R_ISR" "regs u R_ISR = regs s R_ISR"
    by (simp_all add: t_def u_def gem_update_int_status_def reg_ops)
  moreover have "bit (w AND NOT v) n \<longleftrightarrow> bit w n \<and> \<not> bit v n" "bit (w OR v) n \<longleftrightarrow> bit w n \<or> bit v n" for w n
    by (auto simp: bit_simps dest: bit_imp_le_length)
  ultimately show ?thesis by (auto simp: bit_set_isr0 simp del: R_ISR_def R_IMR_def R_IER_def R_IDR_def)
qed

theorem interrupt_masking_witness:
  "\<exists>t u. gem_write ram_env R_IER 2 tx_demo_wf = Some (Gem_ok t) \<and> gem_write ram_env R_IDR 2 tx_demo_wf = Some (Gem_ok u) \<and>
     regs u R_IMR = 2"
  using interrupt_masking [OF tx_demo_wf, of ram_env 2 0]
  by (auto simp: tx_demo_wf_def gem_init_register_masks_def Let_def tx_demo_sel)



text \<open>
  After reset all interrupts are masked and no line is raised, receive and transmit are
  disabled, the first specific address is the configured address of the interface but no specific address is active,
  so a frame sent to it is still rejected.
\<close>

theorem reset_state:
  assumes "length (macaddr s) = 6" and "num_priority_queues s \<le> MAX_PRIORITY_QUEUES"
  shows "irq_ok (gem_reset s) \<and> (\<forall>i<num_priority_queues s. \<not> irq (gem_reset s) i) \<and>
    regs (gem_reset s) R_IMR = 0x07FFFFFF \<and> regs (gem_reset s) R_NWCTRL = 0 \<and>
    \<not> fst (gem_can_receive (gem_reset s)) \<and>
    spaddr_bytes (gem_reset s) 0 = macaddr s \<and> (\<forall>i<4. \<not> sar_active (gem_reset s) i) \<and>
    (\<not> is_broadcast p \<longrightarrow> gem_mac_address_filter e (gem_reset s) p = GEM_RX_REJECT)"
proof -
  let ?t = "gem_reset s"
  have nq: "num_priority_queues ?t = num_priority_queues s"
    by (simp add: gem_reset_def gem_update_int_status_def Let_def)
  have r: "regs ?t R_ISR = 0" "regs ?t R_IMR = 0x07FFFFFF" "regs ?t R_NWCTRL = 0" "regs ?t R_NWCFG = 0x00080000"
    by (simp_all add: gem_reset_def gem_update_int_status_def Let_def)
  have st: "regs ?t (R_INT_Q1_STATUS + i - 1) = 0" if "0 < i" "i < 8" for i
    using that by (simp add: gem_reset_def gem_update_int_status_def Let_def)
  have ok: "irq_ok ?t" by (simp add: gem_reset_def Let_def)
  have "\<not> irq ?t i" if "i < num_priority_queues s" for i
    using ok that assms(2) r st [of i] by (cases "i = 0") (auto simp: irq_ok_def nq)
  moreover have sar: "\<not> sar_active ?t i" if "i < 4" for i
    using that by (auto simp: gem_reset_def gem_update_int_status_def Let_def less_4_cases)
  moreover have "gem_mac_address_filter e ?t p = GEM_RX_REJECT" if "\<not> is_broadcast p"
    using that sar r by (subst gem_filter_reject_iff) (simp add: hash_hit_def sar_match_def)
  moreover have "\<not> fst (gem_can_receive ?t)"
    using r by (simp add: gem_can_receive_def FIELD_EX32_def extract32_def)
  moreover have "spaddr_bytes ?t 0 = macaddr s"
    using assms(1) by (rule reset_spaddr)
  ultimately show ?thesis using ok r by blast
qed

theorem reset_state_witness:
  "spaddr_bytes (gem_reset (gem_defaults (\<lambda>_. 0) demo_mac :: ram gem)) 0 = demo_mac"
  using reset_state [of "gem_defaults (\<lambda>_. 0) demo_mac :: ram gem" "\<lambda>_. 0" ram_env]
  by (simp add: gem_defaults_def demo_mac_def)

text \<open>
  C30: Programming specific address \<open>i\<close> takes two writes: after the write of its low half the address
  matches nothing, after the write of its high half it matches exactly the frames whose destination
  is the six bytes programmed.
\<close>

theorem specific_address_programming:
  assumes "gem_wf s" and "i < 4" and "length mac = 6"
  shows "\<exists>t u. gem_write e (R_SPADDR1LO + 2 * i) (of_le32 mac) s = Some (Gem_ok t) \<and>
    gem_write e (R_SPADDR1LO + 2 * i + 1) (of_le32 (drop 4 mac @ [0, 0])) t = Some (Gem_ok u) \<and>
    \<not> sar_match t p i \<and> (sar_match u p i \<longleftrightarrow> map p [0..<6] = mac)"
proof -
  let ?lo = "R_SPADDR1LO + 2 * i" and ?hi = "R_SPADDR1LO + 2 * i + 1"
  let ?vlo = "of_le32 mac" and ?vhi = "of_le32 (drop 4 mac @ [0, 0])"
  define t where "t = (set_reg ?lo ?vlo s)\<lparr>sar_active := (sar_active s)(i := False)\<rparr>"
  define u where "u = (set_reg ?hi ?vhi t)\<lparr>sar_active := (sar_active t)(i := True)\<rparr>"
  have "gem_cfg t = gem_cfg s" by (simp add: t_def gem_cfg_def reg_ops)
  then have wft: "gem_wf t" using assms(1) gem_wf_cong by blast
  have "gem_write e ?lo ?vlo s = Some (Gem_ok t)"
    using assms(2) wf_store_plain [OF assms(1), of ?lo ?vlo]
    unfolding write_spaddr [OF assms(2)] t_def by (simp add: reg_ops)
  moreover have "gem_write e ?hi ?vhi t = Some (Gem_ok u)"
    using assms(2) wf_store_plain [OF wft, of ?hi ?vhi]
    unfolding write_spaddr [OF assms(2)] u_def by (simp add: reg_ops)
  moreover have "\<not> sar_match t p i" by (simp add: sar_match_def t_def)
  moreover have "spaddr_bytes u i = mac"
    using assms(3) le32_of_le32_take [of mac] le32_of_le32 [of "drop 4 mac @ [0, 0]"]
    by (simp add: spaddr_bytes_def u_def t_def reg_ops)
  then have "sar_match u p i \<longleftrightarrow> map p [0..<6] = mac"
    by (simp add: sar_match_def u_def)
  ultimately show ?thesis by blast
qed

theorem specific_address_programming_witness:
  "\<exists>t u. gem_write ram_env (R_SPADDR1LO + 2 * 1) (of_le32 demo_mac) tx_demo_wf = Some (Gem_ok t) \<and>
     gem_write ram_env (R_SPADDR1LO + 2 * 1 + 1) (of_le32 (drop 4 demo_mac @ [0, 0])) t = Some (Gem_ok u) \<and>
     sar_match u (\<lambda>i. demo_mac ! i) 1"
proof -
  have "map (\<lambda>i. demo_mac ! i) [0..<6] = demo_mac" "length demo_mac = 6"
    by (simp_all add: demo_mac_def upt_rec)
  then show ?thesis
    using specific_address_programming [OF tx_demo_wf, of 1 demo_mac ram_env "\<lambda>i. demo_mac ! i"] by auto
qed

text \<open>
  C33: Realization succeeds exactly when the number of queues, screeners and the jumbo frame length
  are within the sizes of the arrays they index, and then yields a well-formed device.
\<close>

theorem realize_checks:
  "((\<exists>t. gem_realize f s = Inr t) \<longleftrightarrow>
     0 < num_priority_queues s \<and> num_priority_queues s \<le> MAX_PRIORITY_QUEUES \<and>
     num_type1_screeners s \<le> MAX_TYPE1_SCREENERS \<and> num_type2_screeners s \<le> MAX_TYPE2_SCREENERS \<and>
     unat (jumbo_max_len s) \<le> MAX_FRAME_SIZE) \<and>
   (\<forall>t. gem_realize f s = Inr t \<longrightarrow> gem_wf t \<and> regs t = regs s)"
  using realize_wf [of f s]
  by (auto simp: gem_realize_def gem_init_register_masks_def Let_def)

theorem realize_checks_witness:
  "\<exists>t. gem_realize (\<lambda>m. m) (gem_defaults (\<lambda>_. 0) demo_mac :: ram gem) = Inr t"
  using realize_checks [of "\<lambda>m. m" "gem_defaults (\<lambda>_. 0) demo_mac :: ram gem"]
  by (simp add: gem_defaults_def)

section \<open>PHY\<close>

text \<open>
  C34: A management write frame followed by a read frame for the same register of the device's own
  PHY leaves the data written in the data field, for every register but the control register; a
  read frame for a PHY address nobody answers leaves all ones.
\<close>

theorem mdio_round_trip:
  assumes "gem_wf s" and "phy_connected s" and "phy_consumer s = None"
    and "FIELD_EX32 w PHYMNTNC_OP = MDIO_OP_WRITE" and "FIELD_EX32 r PHYMNTNC_OP = MDIO_OP_READ"
    and "FIELD_EX32 w PHYMNTNC_PHY_ADDR = ucast (phy_addr (phy s))"
    and "FIELD_EX32 r PHYMNTNC_PHY_ADDR = ucast (phy_addr (phy s))"
    and "FIELD_EX32 w PHYMNTNC_REG_ADDR = FIELD_EX32 r PHYMNTNC_REG_ADDR"
    and "FIELD_EX32 r PHYMNTNC_REG_ADDR \<noteq> 0"
    and "FIELD_EX32 x PHYMNTNC_OP = MDIO_OP_READ"
    and "FIELD_EX32 x PHYMNTNC_PHY_ADDR \<noteq> ucast (phy_addr (phy s))"
  shows "\<exists>t u v. gem_write e R_PHYMNTNC w s = Some (Gem_ok t) \<and>
    gem_write e R_PHYMNTNC r t = Some (Gem_ok u) \<and>
    FIELD_EX32 (regs u R_PHYMNTNC) PHYMNTNC_DATA = FIELD_EX32 w PHYMNTNC_DATA \<and>
    gem_write e R_PHYMNTNC x s = Some (Gem_ok v) \<and>
    FIELD_EX32 (regs v R_PHYMNTNC) PHYMNTNC_DATA = 0xFFFF"
proof -
  define p where "p = gem_phy_write (phy s) (unat (FIELD_EX32 w PHYMNTNC_REG_ADDR)) (ucast w)"
  define t where "t = (set_reg R_PHYMNTNC w s)\<lparr>phy := p\<rparr>"
  define u where "u = set_reg R_PHYMNTNC (FIELD_DP32 r PHYMNTNC_DATA (ucast (ucast w :: u16))) t"
  define v where "v = set_reg R_PHYMNTNC (FIELD_DP32 x PHYMNTNC_DATA 0xffff) s"
  have reg: "unat (FIELD_EX32 r PHYMNTNC_REG_ADDR) \<noteq> PHY_REG_CONTROL"
    using assms(9) by (simp add: unat_eq_0)
  have p: "phy_regs p (unat (FIELD_EX32 r PHYMNTNC_REG_ADDR)) = ucast w" "phy_addr p = phy_addr (phy s)"
    using reg by (simp_all add: p_def gem_phy_write_def assms(8))
  have "gem_cfg t = gem_cfg s" by (simp add: t_def gem_cfg_def reg_ops)
  then have wft: "gem_wf t" using assms(1) gem_wf_cong by blast
  have plain: "gem_store R_PHYMNTNC y z = set_reg R_PHYMNTNC y z" "regs_ro z R_PHYMNTNC = 0" if "gem_wf z" for y and z :: "'a gem"
    using wf_store_plain [OF that, of R_PHYMNTNC y] wf_ro_zero [OF that, of R_PHYMNTNC] by simp_all
  have "gem_write e R_PHYMNTNC w s = Some (Gem_ok t)"
    using assms plain [OF assms(1)]
    by (simp add: gem_write_def gem_handle_phy_access_def Let_def t_def p_def reg_ops)
  moreover have "gem_write e R_PHYMNTNC r t = Some (Gem_ok u)"
    using assms plain [OF wft] p
    by (simp add: gem_write_def gem_handle_phy_access_def Let_def t_def u_def gem_phy_read_def reg_ops)
  moreover have "gem_write e R_PHYMNTNC x s = Some (Gem_ok v)"
    using assms plain [OF assms(1)]
    by (simp add: gem_write_def gem_handle_phy_access_def Let_def v_def reg_ops)
  moreover have "FIELD_EX32 (regs u R_PHYMNTNC) PHYMNTNC_DATA = FIELD_EX32 w PHYMNTNC_DATA"
    by (rule bit_word_eqI)
      (auto simp: u_def reg_ops FIELD_EX32_def FIELD_DP32_def field_defs bits_simps bit_simps)
  moreover have "FIELD_EX32 (regs v R_PHYMNTNC) PHYMNTNC_DATA = 0xFFFF"
    by (simp add: v_def reg_ops FIELD_EX32_def FIELD_DP32_def field_defs extract32_deposit32)
  ultimately show ?thesis by blast
qed

theorem mdio_round_trip_witness:
  "\<exists>t u. gem_write ram_env R_PHYMNTNC 0x50101234 tx_demo_wf = Some (Gem_ok t) \<and>
     gem_write ram_env R_PHYMNTNC 0x60100000 t = Some (Gem_ok u) \<and>
     FIELD_EX32 (regs u R_PHYMNTNC) PHYMNTNC_DATA = 0x1234"
proof -
  have d: "phy_connected tx_demo_wf" "phy_consumer tx_demo_wf = None" "phy_addr (phy tx_demo_wf) = 0"
    by (simp_all add: tx_demo_wf_def gem_init_register_masks_def Let_def tx_demo_def gem_defaults_def)
  show ?thesis
    using mdio_round_trip [OF tx_demo_wf d(1,2), where w = "0x50101234" and r = "0x60100000" and x = "0x60900000" and e = ram_env]
    by (auto simp: d(3) field_defs FIELD_EX32_def extract32_def)
qed

text \<open>
  A link change reported by the network layer makes the PHY report link and completed
  auto-negotiation exactly while the link is up, and always sets the link-change interrupt status.
\<close>

theorem link_status:
  "(bit (phy_regs (phy (gem_set_link s)) PHY_REG_STATUS) 2 \<longleftrightarrow> \<not> link_down (phy s)) \<and>
   (bit (phy_regs (phy (gem_set_link s)) PHY_REG_STATUS) 5 \<longleftrightarrow> \<not> link_down (phy s)) \<and>
   bit (phy_regs (phy (gem_set_link s)) PHY_REG_INT_ST) 10 \<and> irq_ok (gem_set_link s)"
proof -
  have "bit (4 :: u16) n \<longleftrightarrow> n = 2" "bit (0x20 :: u16) n \<longleftrightarrow> n = 5" "bit (0x400 :: u16) n \<longleftrightarrow> n = 10" for n
    using bit_exp_iff [where 'a = u16, of 2 n] bit_exp_iff [where 'a = u16, of 5 n] bit_exp_iff [where 'a = u16, of 10 n]
    by auto
  then have "(bit (phy_regs (phy_update_link p) PHY_REG_STATUS) 2 \<longleftrightarrow> \<not> link_down p) \<and>
   (bit (phy_regs (phy_update_link p) PHY_REG_STATUS) 5 \<longleftrightarrow> \<not> link_down p) \<and>
   bit (phy_regs (phy_update_link p) PHY_REG_INT_ST) 10" for p
    by (simp add: phy_update_link_def bit_or_iff bit_and_iff bit_not_iff)
  moreover have "phy (gem_set_link s) = phy_update_link (phy s)"
    by (simp add: gem_set_link_def gem_update_int_status_def)
  ultimately show ?thesis by (simp only:) (simp add: gem_set_link_def)
qed

end
