(* ===== verification/Raspi_Platform.thy ===== *)
theory Raspi_Platform
  imports Prelude
begin

text \<open>
  Platform constants of the Raspberry Pi machines (\<^verbatim>\<open>qemu-raspi-platform.h\<close>): the offsets of the peripheral
  blocks in the peripheral window, the numbers of the GPU and ARM interrupts and the clock rates
  the firmware interface reports.
\<close>

section \<open>Tables\<close>

definition peripheral_offsets :: "(string \<times> nat) list" where
  "peripheral_offsets =
     [(''MSYNC_OFFSET'', 0x0000), (''CCPT_OFFSET'', 0x1000), (''INTE_OFFSET'', 0x2000),
      (''ST_OFFSET'', 0x3000), (''TXP_OFFSET'', 0x4000), (''JPEG_OFFSET'', 0x5000),
      (''MPHI_OFFSET'', 0x6000), (''DMA_OFFSET'', 0x7000), (''ARBA_OFFSET'', 0x9000),
      (''BRDG_OFFSET'', 0xa000), (''ARM_OFFSET'', 0xb000),
      (''ARMCTRL_OFFSET'', 0xB000 + 0x000), (''ARMCTRL_IC_OFFSET'', 0xB000 + 0x200),
      (''ARMCTRL_TIMER0_1_OFFSET'', 0xB000 + 0x400),
      (''ARMCTRL_0_SBM_OFFSET'', 0xB000 + 0x800), (''PM_OFFSET'', 0x100000),
      (''CPRMAN_OFFSET'', 0x101000), (''AVS_OFFSET'', 0x103000), (''RNG_OFFSET'', 0x104000),
      (''GPIO_OFFSET'', 0x200000), (''UART0_OFFSET'', 0x201000), (''MMCI0_OFFSET'', 0x202000),
      (''I2S_OFFSET'', 0x203000), (''SPI0_OFFSET'', 0x204000), (''BSC0_OFFSET'', 0x205000),
      (''PIXV0_OFFSET'', 0x206000), (''PIXV1_OFFSET'', 0x207000), (''DPI_OFFSET'', 0x208000),
      (''DSI0_OFFSET'', 0x209000), (''PWM_OFFSET'', 0x20c000), (''PERM_OFFSET'', 0x20d000),
      (''TEC_OFFSET'', 0x20e000), (''OTP_OFFSET'', 0x20f000), (''SLIM_OFFSET'', 0x210000),
      (''CPG_OFFSET'', 0x211000), (''THERMAL_OFFSET'', 0x212000), (''AVSP_OFFSET'', 0x213000),
      (''BSC_SL_OFFSET'', 0x214000), (''AUX_OFFSET'', 0x215000), (''EMMC1_OFFSET'', 0x300000),
      (''EMMC2_OFFSET'', 0x340000), (''HVS_OFFSET'', 0x400000), (''SMI_OFFSET'', 0x600000),
      (''DSI1_OFFSET'', 0x700000), (''UCAM_OFFSET'', 0x800000), (''CMI_OFFSET'', 0x802000),
      (''BSC1_OFFSET'', 0x804000), (''BSC2_OFFSET'', 0x805000), (''VECA_OFFSET'', 0x806000),
      (''PIXV2_OFFSET'', 0x807000), (''HDMI_OFFSET'', 0x808000), (''HDCP_OFFSET'', 0x809000),
      (''ARBR0_OFFSET'', 0x80a000), (''DBUS_OFFSET'', 0x900000), (''AVE0_OFFSET'', 0x910000),
      (''USB_OTG_OFFSET'', 0x980000), (''V3D_OFFSET'', 0xc00000),
      (''SDRAMC_OFFSET'', 0xe00000), (''L2CC_OFFSET'', 0xe01000), (''L1CC_OFFSET'', 0xe02000),
      (''ARBR1_OFFSET'', 0xe04000), (''DMA15_OFFSET'', 0xe05000), (''DCRC_OFFSET'', 0xe07000),
      (''AXIP_OFFSET'', 0xe08000)]"

definition gpu_interrupts :: "(string \<times> nat) list" where
  "gpu_interrupts =
     [(''INTERRUPT_TIMER0'', 0), (''INTERRUPT_TIMER1'', 1), (''INTERRUPT_TIMER2'', 2),
      (''INTERRUPT_TIMER3'', 3), (''INTERRUPT_CODEC0'', 4), (''INTERRUPT_CODEC1'', 5),
      (''INTERRUPT_CODEC2'', 6), (''INTERRUPT_JPEG'', 7), (''INTERRUPT_ISP'', 8),
      (''INTERRUPT_USB'', 9), (''INTERRUPT_3D'', 10), (''INTERRUPT_TRANSPOSER'', 11),
      (''INTERRUPT_MULTICORESYNC0'', 12), (''INTERRUPT_MULTICORESYNC1'', 13),
      (''INTERRUPT_MULTICORESYNC2'', 14), (''INTERRUPT_MULTICORESYNC3'', 15),
      (''INTERRUPT_DMA0'', 16), (''INTERRUPT_DMA1'', 17), (''INTERRUPT_DMA2'', 18),
      (''INTERRUPT_DMA3'', 19), (''INTERRUPT_DMA4'', 20), (''INTERRUPT_DMA5'', 21),
      (''INTERRUPT_DMA6'', 22), (''INTERRUPT_DMA7'', 23), (''INTERRUPT_DMA8'', 24),
      (''INTERRUPT_DMA9'', 25), (''INTERRUPT_DMA10'', 26), (''INTERRUPT_DMA11'', 27),
      (''INTERRUPT_DMA12'', 28), (''INTERRUPT_AUX'', 29), (''INTERRUPT_ARM'', 30),
      (''INTERRUPT_VPUDMA'', 31), (''INTERRUPT_HOSTPORT'', 32),
      (''INTERRUPT_VIDEOSCALER'', 33), (''INTERRUPT_CCP2TX'', 34), (''INTERRUPT_SDC'', 35),
      (''INTERRUPT_DSI0'', 36), (''INTERRUPT_AVE'', 37), (''INTERRUPT_CAM0'', 38),
      (''INTERRUPT_CAM1'', 39), (''INTERRUPT_HDMI0'', 40), (''INTERRUPT_HDMI1'', 41),
      (''INTERRUPT_PIXELVALVE1'', 42), (''INTERRUPT_I2CSPISLV'', 43), (''INTERRUPT_DSI1'', 44),
      (''INTERRUPT_PWA0'', 45), (''INTERRUPT_PWA1'', 46), (''INTERRUPT_CPR'', 47),
      (''INTERRUPT_SMI'', 48), (''INTERRUPT_GPIO0'', 49), (''INTERRUPT_GPIO1'', 50),
      (''INTERRUPT_GPIO2'', 51), (''INTERRUPT_GPIO3'', 52), (''INTERRUPT_I2C'', 53),
      (''INTERRUPT_SPI'', 54), (''INTERRUPT_I2SPCM'', 55), (''INTERRUPT_SDIO'', 56),
      (''INTERRUPT_UART0'', 57), (''INTERRUPT_SLIMBUS'', 58), (''INTERRUPT_VEC'', 59),
      (''INTERRUPT_CPG'', 60), (''INTERRUPT_RNG'', 61), (''INTERRUPT_ARASANSDIO'', 62),
      (''INTERRUPT_AVSPMON'', 63)]"

definition arm_interrupts :: "(string \<times> nat) list" where
  "arm_interrupts =
     [(''INTERRUPT_ARM_TIMER'', 0), (''INTERRUPT_ARM_MAILBOX'', 1),
      (''INTERRUPT_ARM_DOORBELL_0'', 2), (''INTERRUPT_ARM_DOORBELL_1'', 3),
      (''INTERRUPT_VPU0_HALTED'', 4), (''INTERRUPT_VPU1_HALTED'', 5),
      (''INTERRUPT_ILLEGAL_TYPE0'', 6), (''INTERRUPT_ILLEGAL_TYPE1'', 7)]"

definition GPIO_OFFSET :: nat where [simp]: "GPIO_OFFSET = 0x200000"
definition EMMC2_OFFSET :: nat where [simp]: "EMMC2_OFFSET = 0x340000"
definition BRDG_OFFSET :: nat where [simp]: "BRDG_OFFSET = 0xa000"
definition MPHI_OFFSET :: nat where [simp]: "MPHI_OFFSET = 0x6000"
definition INTERRUPT_ARASANSDIO :: nat where [simp]: "INTERRUPT_ARASANSDIO = 62"

definition RPI_FIRMWARE_EMMC_CLK_RATE :: u32 where [simp]: "RPI_FIRMWARE_EMMC_CLK_RATE = 50000000"
definition RPI_FIRMWARE_UART_CLK_RATE :: u32 where [simp]: "RPI_FIRMWARE_UART_CLK_RATE = 3000000"
definition RPI_FIRMWARE_CORE_CLK_RATE :: u32 where [simp]: "RPI_FIRMWARE_CORE_CLK_RATE = 350000000"
definition RPI_FIRMWARE_DEFAULT_CLK_RATE :: u32 where [simp]: "RPI_FIRMWARE_DEFAULT_CLK_RATE = 700000000"

section \<open>The tables are consistent\<close>

text \<open>
  The offsets are listed in ascending order; only the ARM control block and its own first register
  share an offset.  The GPU interrupts are numbered consecutively.
\<close>

lemma peripheral_offsets_sorted: "sorted (map snd peripheral_offsets)"
  by (simp add: peripheral_offsets_def)

lemma peripheral_offsets_names: "distinct (map fst peripheral_offsets)"
  by (simp add: peripheral_offsets_def)

lemma peripheral_offsets_unique:
  "distinct (map snd (filter (\<lambda>p. fst p \<noteq> ''ARMCTRL_OFFSET'') peripheral_offsets))"
  by (simp add: peripheral_offsets_def)

lemma gpu_interrupts_numbered: "map snd gpu_interrupts = [0..<64]" "map snd arm_interrupts = [0..<8]"
  by (simp_all add: gpu_interrupts_def arm_interrupts_def upt_rec)

lemma named_offsets:
  "map_of peripheral_offsets ''GPIO_OFFSET'' = Some GPIO_OFFSET"
  "map_of peripheral_offsets ''EMMC2_OFFSET'' = Some EMMC2_OFFSET"
  "map_of peripheral_offsets ''BRDG_OFFSET'' = Some BRDG_OFFSET"
  "map_of peripheral_offsets ''MPHI_OFFSET'' = Some MPHI_OFFSET"
  "map_of gpu_interrupts ''INTERRUPT_ARASANSDIO'' = Some INTERRUPT_ARASANSDIO"
  by (simp_all add: peripheral_offsets_def gpu_interrupts_def)

end
