(* ===== verification/Property_Mbox.thy ===== *)
theory Property_Mbox
  imports Raspi_Platform
begin

text \<open>
  The VideoCore property mailbox (\<^verbatim>\<open>qemu-bcm2835-property.c\<close>): the guest passes the address of a request
  buffer, the device walks the tags in it, answers each in place, and raises its interrupt.

  Tag numbers, clock and OTP identifiers, mailbox register offsets, the one-time-programmable
  memory and the framebuffer device are defined in files that are not part of the repository; they
  are fields of \<open>prop_env\<close>, and the switch over the tag is a case distinction over the
  constructors of \<open>fwreq\<close>, one for each case label.  All address arithmetic is on 32 bits, as in
  the source.
\<close>

section \<open>State\<close>

record fb_config =
  fb_base :: u32
  fb_xres :: u32
  fb_yres :: u32
  fb_xres_virtual :: u32
  fb_yres_virtual :: u32
  fb_xoffset :: u32
  fb_yoffset :: u32
  fb_bpp :: u32
  fb_pixo :: u32
  fb_alpha :: u32

record fb_dev =
  fb_cfg :: fb_config
  vcram_base :: u32
  vcram_size :: u32

record ('m, 'o) prop_dev =
  p_mem :: 'm
  p_otp :: 'o
  p_fb :: fb_dev
  p_addr :: u32
  p_pending :: bool
  mbox_irq :: bool
  p_macaddr :: "u8 list"
  board_rev :: u32
  command_line :: "u8 list"

datatype board_req =
    GET_FIRMWARE_REVISION | GET_BOARD_MODEL | GET_BOARD_REVISION | GET_BOARD_MAC_ADDRESS
  | GET_BOARD_SERIAL | GET_ARM_MEMORY | GET_VC_MEMORY | SET_POWER_STATE

datatype clock_req =
    GET_CLOCK_STATE | SET_CLOCK_STATE | GET_CLOCK_RATE | GET_MAX_CLOCK_RATE | GET_MIN_CLOCK_RATE
  | GET_CLOCKS | SET_CLOCK_RATE | SET_MAX_CLOCK_RATE | SET_MIN_CLOCK_RATE
  | GET_TEMPERATURE | GET_MAX_TEMPERATURE

datatype fb_req =
    FRAMEBUFFER_ALLOCATE | FRAMEBUFFER_RELEASE | FRAMEBUFFER_BLANK
  | TEST_PHYSICAL_WIDTH_HEIGHT | TEST_VIRTUAL_WIDTH_HEIGHT
  | SET_PHYSICAL_WIDTH_HEIGHT | GET_PHYSICAL_WIDTH_HEIGHT
  | SET_VIRTUAL_WIDTH_HEIGHT | GET_VIRTUAL_WIDTH_HEIGHT
  | TEST_DEPTH | SET_DEPTH | GET_DEPTH | TEST_PIXEL_ORDER | SET_PIXEL_ORDER | GET_PIXEL_ORDER
  | TEST_ALPHA_MODE | SET_ALPHA_MODE | GET_ALPHA_MODE | GET_PITCH
  | TEST_VIRTUAL_OFFSET | SET_VIRTUAL_OFFSET | GET_VIRTUAL_OFFSET
  | GET_OVERSCAN | TEST_OVERSCAN | SET_OVERSCAN | SET_PALETTE | GET_NUM_DISPLAYS

datatype misc_req = GET_DMA_CHANNELS | GET_COMMAND_LINE | GET_THROTTLED | VCHIQ_INIT

datatype otp_req = GET_CUSTOMER_OTP | SET_CUSTOMER_OTP | GET_PRIVATE_KEY | SET_PRIVATE_KEY

datatype fwreq =
    PROPERTY_END | Board board_req | Clock clock_req | Framebuffer fb_req | Misc misc_req
  | Otp otp_req | Unhandled

record ('m, 'o) prop_env =
  pm_read :: "'m \<Rightarrow> u64 \<Rightarrow> nat \<Rightarrow> u8 list"
  pm_write :: "'m \<Rightarrow> u64 \<Rightarrow> u8 list \<Rightarrow> 'm"
  fwreq_of :: "u32 \<Rightarrow> fwreq"
  RPI_FIRMWARE_EMMC_CLK_ID :: u32
  RPI_FIRMWARE_UART_CLK_ID :: u32
  RPI_FIRMWARE_CORE_CLK_ID :: u32
  RPI_FIRMWARE_ARM_CLK_ID :: u32
  fb_validate_config :: "fb_config \<Rightarrow> fb_config"
  fb_get_size :: "fb_config \<Rightarrow> u32"
  fb_get_pitch :: "fb_config \<Rightarrow> u32"
  fb_reconfigure :: "fb_dev \<Rightarrow> fb_config \<Rightarrow> fb_dev"
  otp_get_row :: "'o \<Rightarrow> u32 \<Rightarrow> u32"
  otp_set_row :: "'o \<Rightarrow> u32 \<Rightarrow> u32 \<Rightarrow> 'o"
  OTP_CUSTOMER_OTP :: u32
  OTP_CUSTOMER_OTP_LEN :: u32
  OTP_PRIVATE_KEY :: u32
  OTP_PRIVATE_KEY_LEN :: u32
  OTP_LOCK_NUM1 :: u32
  OTP_LOCK_NUM2 :: u32
  OTP_ROW_32 :: u32
  OTP_ROW_32_LOCK :: u32
  vchiq_payload_offset :: u64
  MBOX_AS_DATA :: u64
  MBOX_AS_PENDING :: u64
  MBOX_CHAN_PROPERTY :: u32

text \<open>What the walk over the tags changes: memory, OTP, and its copy of the framebuffer configuration.\<close>

record ('m, 'o) prop_ctx =
  c_mem :: 'm
  c_otp :: 'o
  c_fb :: fb_config
  c_fb_updated :: bool

definition ldl :: "('m, 'o) prop_env \<Rightarrow> 'm \<Rightarrow> u32 \<Rightarrow> u32" where
  "ldl e m a = of_le32 (pm_read e m (ucast a) 4)"

definition stl :: "('m, 'o) prop_env \<Rightarrow> u32 \<Rightarrow> u32 \<Rightarrow> ('m, 'o) prop_ctx \<Rightarrow> ('m, 'o) prop_ctx" where
  "stl e a v c = c\<lparr>c_mem := pm_write e (c_mem c) (ucast a) (le32 v)\<rparr>"

definition put_bytes :: "('m, 'o) prop_env \<Rightarrow> u32 \<Rightarrow> u8 list \<Rightarrow> ('m, 'o) prop_ctx \<Rightarrow> ('m, 'o) prop_ctx" where
  "put_bytes e a bs c = c\<lparr>c_mem := pm_write e (c_mem c) (ucast a) bs\<rparr>"

section \<open>Answering one tag\<close>

text \<open>Every handler returns the changed context and \<open>resplen\<close>.\<close>

fun board_tag ::
  "('m, 'o) prop_env \<Rightarrow> ('m, 'o) prop_dev \<Rightarrow> u32 \<Rightarrow> board_req \<Rightarrow> ('m, 'o) prop_ctx \<Rightarrow> ('m, 'o) prop_ctx \<times> u64" where
  "board_tag e s value GET_FIRMWARE_REVISION c = (stl e (value + 12) 346337 c, 4)"
| "board_tag e s value GET_BOARD_MODEL c = (c, 4)"
| "board_tag e s value GET_BOARD_REVISION c = (stl e (value + 12) (board_rev s) c, 4)"
| "board_tag e s value GET_BOARD_MAC_ADDRESS c = (put_bytes e (value + 12) (p_macaddr s) c, 6)"
| "board_tag e s value GET_BOARD_SERIAL c = (c, 8)"
| "board_tag e s value GET_ARM_MEMORY c =
     (stl e (value + 16) (vcram_base (p_fb s)) (stl e (value + 12) 0 c), 8)"
| "board_tag e s value GET_VC_MEMORY c =
     (stl e (value + 16) (vcram_size (p_fb s)) (stl e (value + 12) (vcram_base (p_fb s)) c), 8)"
| "board_tag e s value SET_POWER_STATE c =
     (let state = ldl e (c_mem c) (value + 16) in (stl e (value + 16) (state AND 1) c, 8))"

definition clock_rate :: "('m, 'o) prop_env \<Rightarrow> u32 \<Rightarrow> u32" where
  "clock_rate e clk =
     (if clk = RPI_FIRMWARE_EMMC_CLK_ID e then RPI_FIRMWARE_EMMC_CLK_RATE
      else if clk = RPI_FIRMWARE_UART_CLK_ID e then RPI_FIRMWARE_UART_CLK_RATE
      else if clk = RPI_FIRMWARE_CORE_CLK_ID e then RPI_FIRMWARE_CORE_CLK_RATE
      else RPI_FIRMWARE_DEFAULT_CLK_RATE)"

fun clock_tag ::
  "('m, 'o) prop_env \<Rightarrow> u32 \<Rightarrow> clock_req \<Rightarrow> ('m, 'o) prop_ctx \<Rightarrow> ('m, 'o) prop_ctx \<times> u64" where
  "clock_tag e value GET_CLOCK_STATE c = (stl e (value + 16) 1 c, 8)"
| "clock_tag e value SET_CLOCK_STATE c = (c, 8)"
| "clock_tag e value GET_CLOCK_RATE c =
     (stl e (value + 16) (clock_rate e (ldl e (c_mem c) (value + 12))) c, 8)"
| "clock_tag e value GET_MAX_CLOCK_RATE c =
     (stl e (value + 16) (clock_rate e (ldl e (c_mem c) (value + 12))) c, 8)"
| "clock_tag e value GET_MIN_CLOCK_RATE c =
     (stl e (value + 16) (clock_rate e (ldl e (c_mem c) (value + 12))) c, 8)"
| "clock_tag e value GET_CLOCKS c =
     (stl e (value + 16) (RPI_FIRMWARE_ARM_CLK_ID e) (stl e (value + 12) 0 c), 8)"
| "clock_tag e value SET_CLOCK_RATE c = (c, 8)"
| "clock_tag e value SET_MAX_CLOCK_RATE c = (c, 8)"
| "clock_tag e value SET_MIN_CLOCK_RATE c = (c, 8)"
| "clock_tag e value GET_TEMPERATURE c = (stl e (value + 16) 25000 c, 8)"
| "clock_tag e value GET_MAX_TEMPERATURE c = (stl e (value + 16) 99000 c, 8)"

text \<open>A setter stores into the copy of the configuration, validates it and marks it updated.\<close>

definition fb_set ::
  "('m, 'o) prop_env \<Rightarrow> (fb_config \<Rightarrow> fb_config) \<Rightarrow> ('m, 'o) prop_ctx \<Rightarrow> ('m, 'o) prop_ctx" where
  "fb_set e upd c = c\<lparr>c_fb := fb_validate_config e (upd (c_fb c)), c_fb_updated := True\<rparr>"

definition palette_tag :: "('m, 'o) prop_env \<Rightarrow> ('m, 'o) prop_dev \<Rightarrow> u32 \<Rightarrow> ('m, 'o) prop_ctx \<Rightarrow> ('m, 'o) prop_ctx" where
  "palette_tag e s value c =
     (let offset = ldl e (c_mem c) (value + 12);
          len = ldl e (c_mem c) (value + 16)
      in if offset > 255 \<or> len < 1 \<or> len > 256 then stl e (value + 12) 1 c
         else
           stl e (value + 12) 0
             (fold (\<lambda>i c.
                let color = ldl e (c_mem c) (value + 20 + push_bit 2 (of_nat i))
                in stl e (vcram_base (p_fb s) + push_bit 2 (offset + of_nat i)) color c)
              [0..<unat len] c))"

fun fb_tag ::
  "('m, 'o) prop_env \<Rightarrow> ('m, 'o) prop_dev \<Rightarrow> u32 \<Rightarrow> fb_req \<Rightarrow> ('m, 'o) prop_ctx \<Rightarrow> ('m, 'o) prop_ctx \<times> u64" where
  "fb_tag e s value FRAMEBUFFER_ALLOCATE c =
     (stl e (value + 16) (fb_get_size e (c_fb c)) (stl e (value + 12) (fb_base (c_fb c)) c), 8)"
| "fb_tag e s value FRAMEBUFFER_RELEASE c = (c, 0)"
| "fb_tag e s value FRAMEBUFFER_BLANK c = (c, 4)"
| "fb_tag e s value TEST_PHYSICAL_WIDTH_HEIGHT c = (c, 8)"
| "fb_tag e s value TEST_VIRTUAL_WIDTH_HEIGHT c = (c, 8)"
| "fb_tag e s value GET_PHYSICAL_WIDTH_HEIGHT c =
     (stl e (value + 16) (fb_yres (c_fb c)) (stl e (value + 12) (fb_xres (c_fb c)) c), 8)"
| "fb_tag e s value SET_PHYSICAL_WIDTH_HEIGHT c =
     (let x = ldl e (c_mem c) (value + 12); y = ldl e (c_mem c) (value + 16);
          c = fb_set e (\<lambda>f. f\<lparr>fb_xres := x, fb_yres := y\<rparr>) c
      in (stl e (value + 16) (fb_yres (c_fb c)) (stl e (value + 12) (fb_xres (c_fb c)) c), 8))"
| "fb_tag e s value GET_VIRTUAL_WIDTH_HEIGHT c =
     (stl e (value + 16) (fb_yres_virtual (c_fb c)) (stl e (value + 12) (fb_xres_virtual (c_fb c)) c), 8)"
| "fb_tag e s value SET_VIRTUAL_WIDTH_HEIGHT c =
     (let x = ldl e (c_mem c) (value + 12); y = ldl e (c_mem c) (value + 16);
          c = fb_set e (\<lambda>f. f\<lparr>fb_xres_virtual := x, fb_yres_virtual := y\<rparr>) c
      in (stl e (value + 16) (fb_yres_virtual (c_fb c))
            (stl e (value + 12) (fb_xres_virtual (c_fb c)) c), 8))"
| "fb_tag e s value TEST_DEPTH c = (c, 4)"
| "fb_tag e s value GET_DEPTH c = (stl e (value + 12) (fb_bpp (c_fb c)) c, 4)"
| "fb_tag e s value SET_DEPTH c =
     (let x = ldl e (c_mem c) (value + 12); c = fb_set e (\<lambda>f. f\<lparr>fb_bpp := x\<rparr>) c
      in (stl e (value + 12) (fb_bpp (c_fb c)) c, 4))"
| "fb_tag e s value TEST_PIXEL_ORDER c = (c, 4)"
| "fb_tag e s value GET_PIXEL_ORDER c = (stl e (value + 12) (fb_pixo (c_fb c)) c, 4)"
| "fb_tag e s value SET_PIXEL_ORDER c =
     (let x = ldl e (c_mem c) (value + 12); c = fb_set e (\<lambda>f. f\<lparr>fb_pixo := x\<rparr>) c
      in (stl e (value + 12) (fb_pixo (c_fb c)) c, 4))"
| "fb_tag e s value TEST_ALPHA_MODE c = (c, 4)"
| "fb_tag e s value GET_ALPHA_MODE c = (stl e (value + 12) (fb_alpha (c_fb c)) c, 4)"
| "fb_tag e s value SET_ALPHA_MODE c =
     (let x = ldl e (c_mem c) (value + 12); c = fb_set e (\<lambda>f. f\<lparr>fb_alpha := x\<rparr>) c
      in (stl e (value + 12) (fb_alpha (c_fb c)) c, 4))"
| "fb_tag e s value GET_PITCH c = (stl e (value + 12) (fb_get_pitch e (c_fb c)) c, 4)"
| "fb_tag e s value TEST_VIRTUAL_OFFSET c = (c, 8)"
| "fb_tag e s value GET_VIRTUAL_OFFSET c =
     (stl e (value + 16) (fb_yoffset (c_fb c)) (stl e (value + 12) (fb_xoffset (c_fb c)) c), 8)"
| "fb_tag e s value SET_VIRTUAL_OFFSET c =
     (let x = ldl e (c_mem c) (value + 12); y = ldl e (c_mem c) (value + 16);
          c = fb_set e (\<lambda>f. f\<lparr>fb_xoffset := x, fb_yoffset := y\<rparr>) c
      in (stl e (value + 16) (fb_yoffset (c_fb c)) (stl e (value + 12) (fb_xoffset (c_fb c)) c), 8))"
| "fb_tag e s value GET_OVERSCAN c =
     (stl e (value + 24) 0 (stl e (value + 20) 0 (stl e (value + 16) 0 (stl e (value + 12) 0 c))), 16)"
| "fb_tag e s value TEST_OVERSCAN c =
     (stl e (value + 24) 0 (stl e (value + 20) 0 (stl e (value + 16) 0 (stl e (value + 12) 0 c))), 16)"
| "fb_tag e s value SET_OVERSCAN c =
     (stl e (value + 24) 0 (stl e (value + 20) 0 (stl e (value + 16) 0 (stl e (value + 12) 0 c))), 16)"
| "fb_tag e s value SET_PALETTE c = (palette_tag e s value c, 4)"
| "fb_tag e s value GET_NUM_DISPLAYS c = (stl e (value + 12) 1 c, 4)"

fun misc_tag ::
  "('m, 'o) prop_env \<Rightarrow> ('m, 'o) prop_dev \<Rightarrow> u32 \<Rightarrow> u32 \<Rightarrow> misc_req \<Rightarrow> ('m, 'o) prop_ctx \<Rightarrow> ('m, 'o) prop_ctx \<times> u64" where
  "misc_tag e s value bufsize GET_DMA_CHANNELS c = (stl e (value + 12) 0x003C c, 4)"
| "misc_tag e s value bufsize GET_COMMAND_LINE c =
     (let resplen = of_nat (length (command_line s)) :: u64
      in (if ucast bufsize \<ge> resplen then put_bytes e (value + 12) (command_line s) c else c, resplen))"
| "misc_tag e s value bufsize GET_THROTTLED c = (stl e (value + 12) 0 c, 4)"
| "misc_tag e s value bufsize VCHIQ_INIT c =
     (c\<lparr>c_mem := pm_write e (c_mem c) (ucast value + vchiq_payload_offset e) (le32 0)\<rparr>, 4)"

text \<open>
  The indices a loop \<open>for (n = start; n < start + number && n < len; n++)\<close> runs through, with the
  32-bit sum of its bound.
\<close>

definition otp_indices :: "u32 \<Rightarrow> u32 \<Rightarrow> u32 \<Rightarrow> u32 list" where
  "otp_indices start number len = map of_nat [unat start..<min (unat (start + number)) (unat len)]"

definition otp_copy_out ::
  "('m, 'o) prop_env \<Rightarrow> u32 \<Rightarrow> u32 \<Rightarrow> u32 \<Rightarrow> u32 \<Rightarrow> u32 \<Rightarrow> ('m, 'o) prop_ctx \<Rightarrow> ('m, 'o) prop_ctx" where
  "otp_copy_out e value row0 len start number c =
     fold (\<lambda>n c. stl e (value + 20 + push_bit 2 (n - start)) (otp_get_row e (c_otp c) (row0 + n)) c)
       (otp_indices start number len) c"

definition otp_copy_in ::
  "('m, 'o) prop_env \<Rightarrow> u32 \<Rightarrow> u32 \<Rightarrow> u32 \<Rightarrow> u32 \<Rightarrow> u32 \<Rightarrow> ('m, 'o) prop_ctx \<Rightarrow> ('m, 'o) prop_ctx" where
  "otp_copy_in e value row0 len start number c =
     fold (\<lambda>n c. c\<lparr>c_otp := otp_set_row e (c_otp c) (row0 + n)
                      (ldl e (c_mem c) (value + 20 + push_bit 2 (n - start)))\<rparr>)
       (otp_indices start number len) c"

definition otp_locked :: "('m, 'o) prop_env \<Rightarrow> 'o \<Rightarrow> bool" where
  "otp_locked e ot \<longleftrightarrow> otp_get_row e ot (OTP_ROW_32 e) AND OTP_ROW_32_LOCK e \<noteq> 0"

fun otp_tag ::
  "('m, 'o) prop_env \<Rightarrow> u32 \<Rightarrow> otp_req \<Rightarrow> ('m, 'o) prop_ctx \<Rightarrow> ('m, 'o) prop_ctx \<times> u64" where
  "otp_tag e value GET_CUSTOMER_OTP c =
     (let start = ldl e (c_mem c) (value + 12); number = ldl e (c_mem c) (value + 16)
      in (otp_copy_out e value (OTP_CUSTOMER_OTP e) (OTP_CUSTOMER_OTP_LEN e) start number c,
          ucast (8 + 4 * number)))"
| "otp_tag e value SET_CUSTOMER_OTP c =
     (let start = ldl e (c_mem c) (value + 12); number = ldl e (c_mem c) (value + 16)
      in (if start = OTP_LOCK_NUM1 e \<and> number = OTP_LOCK_NUM2 e then
            c\<lparr>c_otp := otp_set_row e (c_otp c) (OTP_ROW_32 e) (OTP_ROW_32_LOCK e)\<rparr>
          else if otp_locked e (c_otp c) then c
          else otp_copy_in e value (OTP_CUSTOMER_OTP e) (OTP_CUSTOMER_OTP_LEN e) start number c, 4))"
| "otp_tag e value GET_PRIVATE_KEY c =
     (let start = ldl e (c_mem c) (value + 12); number = ldl e (c_mem c) (value + 16)
      in (otp_copy_out e value (OTP_PRIVATE_KEY e) (OTP_PRIVATE_KEY_LEN e) start number c,
          ucast (8 + 4 * number)))"
| "otp_tag e value SET_PRIVATE_KEY c =
     (let start = ldl e (c_mem c) (value + 12); number = ldl e (c_mem c) (value + 16)
      in (if otp_locked e (c_otp c) then c
          else otp_copy_in e value (OTP_PRIVATE_KEY e) (OTP_PRIVATE_KEY_LEN e) start number c, 4))"

definition prop_tag ::
  "('m, 'o) prop_env \<Rightarrow> ('m, 'o) prop_dev \<Rightarrow> u32 \<Rightarrow> u32 \<Rightarrow> u32 \<Rightarrow> ('m, 'o) prop_ctx \<Rightarrow> ('m, 'o) prop_ctx \<times> u64" where
  "prop_tag e s value tag bufsize c =
     (case fwreq_of e tag of
        PROPERTY_END \<Rightarrow> (c, 0)
      | Board r \<Rightarrow> board_tag e s value r c
      | Clock r \<Rightarrow> clock_tag e value r c
      | Framebuffer r \<Rightarrow> fb_tag e s value r c
      | Misc r \<Rightarrow> misc_tag e s value bufsize r c
      | Otp r \<Rightarrow> otp_tag e value r c
      | Unhandled \<Rightarrow> (c, 0))"

section \<open>Walking the request buffer\<close>

text \<open>
  The tag loop, from \<open>value\<close>; \<open>limit\<close> is the 32-bit sum \<open>s->addr + tot_len\<close>.  The next address is a
  32-bit sum too, so a guest can make it stand still: the loop may not return.
\<close>

partial_function (option) prop_walk ::
  "('m, 'o) prop_env \<Rightarrow> ('m, 'o) prop_dev \<Rightarrow> u32 \<Rightarrow> u32 \<Rightarrow> ('m, 'o) prop_ctx \<Rightarrow> ('m, 'o) prop_ctx option" where
  "prop_walk e s limit value c =
     (if value + 8 \<le> limit then
        (let tag = ldl e (c_mem c) value;
             bufsize = ldl e (c_mem c) (value + 4);
             (c, resplen) = prop_tag e s value tag bufsize c
         in if tag = 0 then Some c
            else prop_walk e s limit (value + (bufsize + 12))
                   (stl e (value + 8) (0x80000000 OR ucast resplen) c))
      else Some c)"

definition bcm2835_property_mbox_push ::
  "('m, 'o) prop_env \<Rightarrow> u32 \<Rightarrow> ('m, 'o) prop_dev \<Rightarrow> ('m, 'o) prop_dev option" where
  "bcm2835_property_mbox_push e value s =
     (let addr = value AND NOT 0xf;
          tot_len = ldl e (p_mem s) addr;
          c0 = \<lparr>c_mem = p_mem s, c_otp = p_otp s, c_fb = fb_cfg (p_fb s), c_fb_updated = False\<rparr>
      in map_option (\<lambda>c.
           let c' = stl e (addr + 4) 0x80000000 c
           in s\<lparr>p_addr := addr, p_mem := c_mem c', p_otp := c_otp c',
                p_fb := (if c_fb_updated c then fb_reconfigure e (p_fb s) (c_fb c) else p_fb s)\<rparr>)
           (prop_walk e s (addr + tot_len) (addr + 8) c0))"

section \<open>Register interface\<close>

definition bcm2835_property_read :: "('m, 'o) prop_env \<Rightarrow> u64 \<Rightarrow> ('m, 'o) prop_dev \<Rightarrow> u32 \<times> ('m, 'o) prop_dev" where
  "bcm2835_property_read e offset s =
     (if offset = MBOX_AS_DATA e then
        (MBOX_CHAN_PROPERTY e OR p_addr s, s\<lparr>p_pending := False, mbox_irq := False\<rparr>)
      else if offset = MBOX_AS_PENDING e then (of_bool (p_pending s), s)
      else (0, s))"

datatype ('m, 'o) prop_out = Prop_ok "('m, 'o) prop_dev" | Prop_assert_failed

definition bcm2835_property_write ::
  "('m, 'o) prop_env \<Rightarrow> u64 \<Rightarrow> u64 \<Rightarrow> ('m, 'o) prop_dev \<Rightarrow> ('m, 'o) prop_out option" where
  "bcm2835_property_write e offset value s =
     (if offset = MBOX_AS_DATA e then
        (if p_pending s then Some Prop_assert_failed
         else map_option (\<lambda>s. Prop_ok (s\<lparr>mbox_irq := True\<rparr>))
                (bcm2835_property_mbox_push e (ucast value) (s\<lparr>p_pending := True\<rparr>)))
      else Some (Prop_ok s))"

definition bcm2835_property_reset :: "('m, 'o) prop_dev \<Rightarrow> ('m, 'o) prop_dev" where
  "bcm2835_property_reset s = s\<lparr>p_pending := False\<rparr>"

text \<open>\<open>qemu_macaddr_default_if_unset\<close> is the argument; the linked objects are part of the state.\<close>

definition bcm2835_property_realize :: "(u8 list \<Rightarrow> u8 list) \<Rightarrow> ('m, 'o) prop_dev \<Rightarrow> ('m, 'o) prop_dev" where
  "bcm2835_property_realize mac_default s =
     bcm2835_property_reset (s\<lparr>p_macaddr := mac_default (p_macaddr s)\<rparr>)"

end
