(* ===== verification/Property_Props.thy ===== *)
theory Property_Props
  imports Property_Mbox
begin

text \<open>
  Properties of the property mailbox: what each handler may write, that a well-formed request is
  answered completely and the call returns, the register handshake, the permanence of the OTP
  lock, and a request on which the tag loop does not return.
\<close>

section \<open>Memory accesses of the handlers\<close>

text \<open>The memory differs at most in the \<open>n\<close> bytes from \<open>a\<close>.\<close>

definition only_changes :: "('m, 'o) prop_env \<Rightarrow> u64 \<Rightarrow> nat \<Rightarrow> 'm \<Rightarrow> 'm \<Rightarrow> bool" where
  "only_changes e a n m m' \<longleftrightarrow>
     (\<forall>x k. mem_range a n \<inter> mem_range x k = {} \<longrightarrow> pm_read e m' x k = pm_read e m x k)"

lemma only_changes_refl [simp]: "only_changes e a n m m"
  by (simp add: only_changes_def)

lemma only_changes_trans: "only_changes e a n m m' \<Longrightarrow> only_changes e a n m' m'' \<Longrightarrow> only_changes e a n m m''"
  by (simp add: only_changes_def)

lemma only_changes_sub:
  assumes "only_changes e (a + of_nat k) n m m'" "k + n \<le> len"
  shows "only_changes e a len m m'"
  using assms mem_range_sub [OF assms(2), of a] unfolding only_changes_def by blast

locale prop_bus =
  fixes e :: "('m, 'o) prop_env"
  assumes prop_dma: "dma_bus (pm_read e) (pm_write e)"

sublocale prop_bus \<subseteq> dma_bus "pm_read e" "pm_write e"
  by (rule prop_dma)

context prop_bus
begin

text \<open>
  The window of a tag at \<open>value\<close> with \<open>n\<close> bytes of payload: its response word and its payload.
\<close>

lemma put_bytes_within:
  assumes "only_changes e (ucast value + 8) (4 + n) m (c_mem c)" "unat value + 12 + n \<le> 2 ^ 32"
    "8 \<le> k" "k + length bs \<le> 12 + n"
  shows "only_changes e (ucast value + 8) (4 + n) m (c_mem (put_bytes e (value + of_nat k) bs c))"
proof (cases "bs = []")
  case True
  have "pm_read e (pm_write e m a []) x k = pm_read e m x k" for m a x k
    by (simp add: rd_wr_other mem_range_def)
  with assms(1) True show ?thesis by (simp add: only_changes_def put_bytes_def)
next
  case False
  then have "0 < length bs" by simp
  then have a: "ucast (value + of_nat k) = (ucast value + of_nat k :: u64)"
    using assms(2,4) by (intro ucast_add_no_wrap) linarith
  have k: "(of_nat k :: u64) = 8 + of_nat (k - 8)"
    using assms(3) of_nat_add [of 8 "k - 8", where 'a = u64] by simp
  have "only_changes e (ucast value + 8 + of_nat (k - 8)) (length bs) (c_mem c) (c_mem (put_bytes e (value + of_nat k) bs c))"
    by (simp add: only_changes_def put_bytes_def a rd_wr_other k add.assoc)
  then have "only_changes e (ucast value + 8) (4 + n) (c_mem c) (c_mem (put_bytes e (value + of_nat k) bs c))"
    by (rule only_changes_sub) (use assms(3,4) in linarith)
  with assms(1) show ?thesis by (rule only_changes_trans)
qed

lemma stl_within:
  assumes "only_changes e (ucast value + 8) (4 + n) m (c_mem c)" "unat value + 12 + n \<le> 2 ^ 32"
    "8 \<le> k" "k + 4 \<le> 12 + n"
  shows "only_changes e (ucast value + 8) (4 + n) m (c_mem (stl e (value + of_nat k) v c))"
  using put_bytes_within [of "value" n m c k "le32 v"] assms by (simp add: put_bytes_def stl_def)

lemmas stl_windows = stl_within [where k = 8, simplified] stl_within [where k = 12, simplified]
  stl_within [where k = 16, simplified] stl_within [where k = 20, simplified] stl_within [where k = 24, simplified]

end

section \<open>The payload a handler may write\<close>

fun board_span :: "('m, 'o) prop_dev \<Rightarrow> board_req \<Rightarrow> nat" where
  "board_span s GET_FIRMWARE_REVISION = 4"
| "board_span s GET_BOARD_REVISION = 4"
| "board_span s GET_BOARD_MAC_ADDRESS = length (p_macaddr s)"
| "board_span s GET_BOARD_MODEL = 0"
| "board_span s GET_BOARD_SERIAL = 0"
| "board_span s _ = 8"

fun clock_span :: "clock_req \<Rightarrow> nat" where
  "clock_span SET_CLOCK_STATE = 0"
| "clock_span SET_CLOCK_RATE = 0"
| "clock_span SET_MAX_CLOCK_RATE = 0"
| "clock_span SET_MIN_CLOCK_RATE = 0"
| "clock_span _ = 8"

definition fb_span :: "fb_req \<Rightarrow> nat" where
  "fb_span r =
     (if r \<in> {FRAMEBUFFER_RELEASE, FRAMEBUFFER_BLANK, TEST_PHYSICAL_WIDTH_HEIGHT, TEST_VIRTUAL_WIDTH_HEIGHT,
              TEST_DEPTH, TEST_PIXEL_ORDER, TEST_ALPHA_MODE, TEST_VIRTUAL_OFFSET} then 0
      else if r \<in> {GET_DEPTH, SET_DEPTH, GET_PIXEL_ORDER, SET_PIXEL_ORDER, GET_ALPHA_MODE, SET_ALPHA_MODE,
                   GET_PITCH, GET_NUM_DISPLAYS} then 4
      else if r \<in> {GET_OVERSCAN, TEST_OVERSCAN, SET_OVERSCAN} then 16 else 8)"

definition misc_span :: "('m, 'o) prop_dev \<Rightarrow> u32 \<Rightarrow> misc_req \<Rightarrow> nat" where
  "misc_span s bufsize r =
     (if r = GET_COMMAND_LINE then
        (if ucast bufsize \<ge> (of_nat (length (command_line s)) :: u64) then length (command_line s) else 0)
      else 4)"

definition otp_span :: "('m, 'o) prop_env \<Rightarrow> 'm \<Rightarrow> u32 \<Rightarrow> otp_req \<Rightarrow> nat" where
  "otp_span e m value r =
     (let rows = (\<lambda>len. length (otp_indices (ldl e m (value + 12)) (ldl e m (value + 16)) len))
      in if r = GET_CUSTOMER_OTP then 8 + 4 * rows (OTP_CUSTOMER_OTP_LEN e)
         else if r = GET_PRIVATE_KEY then 8 + 4 * rows (OTP_PRIVATE_KEY_LEN e) else 0)"

definition tag_span :: "('m, 'o) prop_env \<Rightarrow> ('m, 'o) prop_dev \<Rightarrow> 'm \<Rightarrow> u32 \<Rightarrow> u32 \<Rightarrow> u32 \<Rightarrow> nat" where
  "tag_span e s m value tag bufsize =
     (case fwreq_of e tag of
        Board r \<Rightarrow> board_span s r | Clock r \<Rightarrow> clock_span r | Framebuffer r \<Rightarrow> fb_span r
      | Misc r \<Rightarrow> misc_span s bufsize r | Otp r \<Rightarrow> otp_span e m value r | _ \<Rightarrow> 0)"

context prop_bus
begin

lemma board_tag_within:
  assumes "unat value + 12 + n \<le> 2 ^ 32" "board_span s r \<le> n"
  shows "only_changes e (ucast value + 8) (4 + n) (c_mem c) (c_mem (fst (board_tag e s value r c)))"
  using assms
  by (cases r) (simp_all add: Let_def stl_windows put_bytes_within [where k = 12, simplified])

lemma clock_tag_within:
  assumes "unat value + 12 + n \<le> 2 ^ 32" "clock_span r \<le> n"
  shows "only_changes e (ucast value + 8) (4 + n) (c_mem c) (c_mem (fst (clock_tag e value r c)))"
  using assms by (cases r) (simp_all add: stl_windows)

lemma fb_set_mem [simp]: "c_mem (fb_set e f c) = c_mem c"
  by (simp add: fb_set_def)

lemma fb_tag_within:
  assumes "unat value + 12 + n \<le> 2 ^ 32" "fb_span r \<le> n" "r \<noteq> SET_PALETTE"
  shows "only_changes e (ucast value + 8) (4 + n) (c_mem c) (c_mem (fst (fb_tag e s value r c)))"
  using assms by (cases r) (simp_all add: fb_span_def Let_def stl_windows)

lemma misc_tag_within:
  assumes "unat value + 12 + n \<le> 2 ^ 32" "misc_span s bufsize r \<le> n" "vchiq_payload_offset e = 12"
  shows "only_changes e (ucast value + 8) (4 + n) (c_mem c) (c_mem (fst (misc_tag e s value bufsize r c)))"
proof (cases r)
  case VCHIQ_INIT
  have "ucast (value + 12) = (ucast value + 12 :: u64)"
    using ucast_add_no_wrap [of "value" 12] assms VCHIQ_INIT by (simp add: misc_span_def)
  then have "fst (misc_tag e s value bufsize r c) = stl e (value + 12) 0 c"
    using VCHIQ_INIT assms(3) by (simp add: stl_def)
  then show ?thesis using assms VCHIQ_INIT by (simp add: misc_span_def stl_windows)
qed (use assms in \<open>simp_all add: misc_span_def Let_def stl_windows put_bytes_within [where k = 12, simplified] split: if_splits\<close>)

lemma otp_copy_out_within:
  assumes "unat value + 12 + n \<le> 2 ^ 32" "8 + 4 * length (otp_indices start number len) \<le> n"
  shows "only_changes e (ucast value + 8) (4 + n) (c_mem c) (c_mem (otp_copy_out e value row0 len start number c))"
proof -
  have "only_changes e (ucast value + 8) (4 + n) m (c_mem (fold (\<lambda>i c. stl e (value + 20 + push_bit 2 (i - start)) (g i c) c) xs c))"
    if "set xs \<subseteq> set (otp_indices start number len)" "only_changes e (ucast value + 8) (4 + n) m (c_mem c)" for m g xs c
    using that
  proof (induction xs arbitrary: c)
    case (Cons i xs)
    from Cons.prems obtain j where j: "unat start \<le> j" "j < unat start + length (otp_indices start number len)" "i = of_nat j"
      by (auto simp: otp_indices_def)
    then have "push_bit 2 (i - start) = (of_nat (4 * (j - unat start)) :: u32)"
      by (simp add: push_bit_eq_mult of_nat_diff)
    then have a: "value + 20 + push_bit 2 (i - start) = value + of_nat (20 + 4 * (j - unat start))"
      by simp
    have "only_changes e (ucast value + 8) (4 + n) m (c_mem (stl e (value + 20 + push_bit 2 (i - start)) (g i c) c))"
      unfolding a using Cons.prems(2) assms j by (intro stl_within) simp_all
    with Cons show ?case by simp
  qed simp
  then show ?thesis unfolding otp_copy_out_def by simp
qed

lemma otp_copy_in_mem: "c_mem (otp_copy_in e value row0 len start number c) = c_mem c"
proof -
  have "c_mem (fold (\<lambda>n c. c\<lparr>c_otp := g n c\<rparr>) xs c) = c_mem c" for g xs c
    by (induction xs arbitrary: c) simp_all
  then show ?thesis by (simp add: otp_copy_in_def)
qed

lemma otp_tag_within:
  assumes "unat value + 12 + n \<le> 2 ^ 32" "otp_span e (c_mem c) value r \<le> n"
  shows "only_changes e (ucast value + 8) (4 + n) (c_mem c) (c_mem (fst (otp_tag e value r c)))"
  using assms by (cases r) (simp_all add: otp_span_def Let_def otp_copy_out_within otp_copy_in_mem)

lemma prop_tag_within:
  assumes "unat value + 12 + n \<le> 2 ^ 32" "tag_span e s (c_mem c) value tag bufsize \<le> n"
    "fwreq_of e tag \<noteq> Framebuffer SET_PALETTE" "vchiq_payload_offset e = 12"
  shows "only_changes e (ucast value + 8) (4 + n) (c_mem c) (c_mem (fst (prop_tag e s value tag bufsize c)))"
  using assms
  by (auto simp: prop_tag_def tag_span_def split: fwreq.splits
      intro: board_tag_within clock_tag_within fb_tag_within misc_tag_within otp_tag_within)

end

section \<open>A whole request\<close>

text \<open>One pass of the tag loop.\<close>

definition prop_step ::
  "('m, 'o) prop_env \<Rightarrow> ('m, 'o) prop_dev \<Rightarrow> u32 \<times> ('m, 'o) prop_ctx \<Rightarrow> u32 \<times> ('m, 'o) prop_ctx" where
  "prop_step e s vc =
     (let v = fst vc; c = snd vc; tag = ldl e (c_mem c) v; bufsize = ldl e (c_mem c) (v + 4);
          r = prop_tag e s v tag bufsize c
      in (v + (bufsize + 12), stl e (v + 8) (0x80000000 OR ucast (snd r)) (fst r)))"

text \<open>
  A request as the guest lays it out: \<open>n\<close> tags one after the other below 4 GiB, each with room for its
  answer, then the end tag or the end of the buffer.
\<close>

fun prop_chain :: "('m, 'o) prop_env \<Rightarrow> ('m, 'o) prop_dev \<Rightarrow> u32 \<Rightarrow> 'm \<Rightarrow> u32 \<Rightarrow> nat \<Rightarrow> bool" where
  "prop_chain e s limit m v 0 = (\<not> v + 8 \<le> limit \<or> ldl e m v = 0 \<and> unat v + 4 \<le> 2 ^ 32)"
| "prop_chain e s limit m v (Suc n) =
     (let tag = ldl e m v; bufsize = ldl e m (v + 4)
      in v + 8 \<le> limit \<and> tag \<noteq> 0 \<and> fwreq_of e tag \<noteq> Framebuffer SET_PALETTE \<and>
         tag_span e s m v tag bufsize \<le> unat bufsize \<and> unat v + 12 + unat bufsize < 2 ^ 32 \<and>
         prop_chain e s limit m (v + (bufsize + 12)) n)"

definition same_from :: "('m, 'o) prop_env \<Rightarrow> nat \<Rightarrow> 'm \<Rightarrow> 'm \<Rightarrow> bool" where
  "same_from e b m m' \<longleftrightarrow> (\<forall>a k. b \<le> unat a \<and> unat a + k \<le> 2 ^ 32 \<longrightarrow> pm_read e m' a k = pm_read e m a k)"

definition same_below :: "('m, 'o) prop_env \<Rightarrow> nat \<Rightarrow> 'm \<Rightarrow> 'm \<Rightarrow> bool" where
  "same_below e b m m' \<longleftrightarrow> (\<forall>a k. unat a + k \<le> b \<longrightarrow> pm_read e m' a k = pm_read e m a k)"

lemma only_changes_sides:
  fixes v :: u32
  assumes "only_changes e (ucast v + 8) (4 + n) m m'" "unat v + 12 + n \<le> 2 ^ 32"
  shows "same_from e (unat v + 12 + n) m m'" "same_below e (unat v + 8) m m'"
proof -
  have "mem_range (ucast v + 8) (4 + n) \<inter> mem_range a k = {}"
    if "unat v + 12 + n \<le> unat a \<and> unat a + k \<le> 2 ^ 32 \<or> unat a + k \<le> unat v + 8" for a k
    using that assms(2) by (intro mem_range_apart) (auto simp: unat_window)
  with assms(1) show "same_from e (unat v + 12 + n) m m'" "same_below e (unat v + 8) m m'"
    unfolding only_changes_def same_from_def same_below_def by blast+
qed

lemma same_from_ldl:
  "same_from e b m m' \<Longrightarrow> b \<le> unat a \<Longrightarrow> unat a + 4 \<le> 2 ^ 32 \<Longrightarrow> ldl e m' a = ldl e m a"
  by (simp add: same_from_def ldl_def unat_ucast_32_64)

lemma same_from_mono: "same_from e b m m' \<Longrightarrow> b \<le> b' \<Longrightarrow> same_from e b' m m'"
  by (simp add: same_from_def)

lemma same_below_mono: "same_below e b m m' \<Longrightarrow> b' \<le> b \<Longrightarrow> same_below e b' m m'"
  by (simp add: same_below_def)

lemma same_below_trans: "same_below e b m m' \<Longrightarrow> same_below e b m' m'' \<Longrightarrow> same_below e b m m''"
  by (simp add: same_below_def)

lemma unat_next:
  assumes "unat v + 12 + unat b < 2 ^ 32"
  shows "unat (v + (b + 12) :: u32) = unat v + 12 + unat b"
proof -
  have "v + (b + 12) = v + of_nat (12 + unat b)" by (simp add: add_ac)
  then show ?thesis using unat_u32_add [of v "12 + unat b"] assms by (simp only:)
qed

lemma tag_span_cong:
  assumes "same_from e (unat v) m m'" "tag_span e s m v tag bufsize \<le> unat bufsize" "unat v + 12 + unat bufsize < 2 ^ 32"
  shows "tag_span e s m' v tag bufsize = tag_span e s m v tag bufsize"
proof (cases "8 \<le> unat bufsize")
  case True
  then have "ldl e m' (v + 12) = ldl e m (v + 12)" "ldl e m' (v + 16) = ldl e m (v + 16)"
    using assms(1,3) unat_u32_add [of v 12] unat_u32_add [of v 16] by (auto intro!: same_from_ldl)
  then show ?thesis by (simp add: tag_span_def otp_span_def Let_def split: fwreq.split)
next
  case False
  then have "fwreq_of e tag \<noteq> Otp GET_CUSTOMER_OTP" "fwreq_of e tag \<noteq> Otp GET_PRIVATE_KEY"
    using assms(2) by (auto simp: tag_span_def otp_span_def Let_def)
  then show ?thesis by (auto simp: tag_span_def otp_span_def Let_def split: fwreq.split)
qed

lemma prop_chain_cong:
  "same_from e (unat v) m m' \<Longrightarrow> prop_chain e s limit m v n \<Longrightarrow> prop_chain e s limit m' v n"
proof (induction n arbitrary: v)
  case 0
  then show ?case using same_from_ldl [OF 0(1), of v] by auto
next
  case (Suc n)
  let ?b = "ldl e m (v + 4)"
  have room: "unat v + 12 + unat ?b < 2 ^ 32" using Suc.prems(2) by (simp add: Let_def)
  have "ldl e m' v = ldl e m v" "ldl e m' (v + 4) = ?b"
    using room unat_u32_add [of v 4] by (auto intro!: same_from_ldl [OF Suc.prems(1)])
  moreover have "prop_chain e s limit m' (v + (?b + 12)) n"
    using Suc.prems unat_next [OF room] by (intro Suc.IH) (auto simp: Let_def intro: same_from_mono)
  ultimately show ?case
    using Suc.prems(2) tag_span_cong [OF Suc.prems(1) _ room, of s "ldl e m v"] by (simp add: Let_def)
qed

context prop_bus
begin

lemma prop_step_within:
  assumes "prop_chain e s limit (c_mem c) v (Suc n)" "vchiq_payload_offset e = 12"
  shows "only_changes e (ucast v + 8) (4 + unat (ldl e (c_mem c) (v + 4))) (c_mem c) (c_mem (snd (prop_step e s (v, c))))"
    and "unat v + 12 + unat (ldl e (c_mem c) (v + 4)) < 2 ^ 32"
    and "prop_chain e s limit (c_mem (snd (prop_step e s (v, c)))) (fst (prop_step e s (v, c))) n"
    and "unat (fst (prop_step e s (v, c))) = unat v + 12 + unat (ldl e (c_mem c) (v + 4))"
proof -
  let ?b = "ldl e (c_mem c) (v + 4)" and ?t = "ldl e (c_mem c) v"
  show room: "unat v + 12 + unat ?b < 2 ^ 32" using assms(1) by (simp add: Let_def)
  have "only_changes e (ucast v + 8) (4 + unat ?b) (c_mem c) (c_mem (fst (prop_tag e s v ?t ?b c)))"
    using assms room by (intro prop_tag_within) (auto simp: Let_def)
  then show ch: "only_changes e (ucast v + 8) (4 + unat ?b) (c_mem c) (c_mem (snd (prop_step e s (v, c))))"
    using room by (auto simp: prop_step_def Let_def intro!: stl_windows(1))
  show nx: "unat (fst (prop_step e s (v, c))) = unat v + 12 + unat ?b"
    using unat_next [OF room] by (simp add: prop_step_def Let_def)
  show "prop_chain e s limit (c_mem (snd (prop_step e s (v, c)))) (fst (prop_step e s (v, c))) n"
  proof (rule prop_chain_cong)
    show "same_from e (unat (fst (prop_step e s (v, c)))) (c_mem c) (c_mem (snd (prop_step e s (v, c))))"
      using only_changes_sides(1) [OF ch] room unfolding nx by simp
    show "prop_chain e s limit (c_mem c) (fst (prop_step e s (v, c))) n"
      using assms(1) by (simp add: prop_step_def Let_def)
  qed
qed

lemma prop_walk_step:
  assumes "v + 8 \<le> limit" "ldl e (c_mem c) v \<noteq> 0"
  shows "prop_walk e s limit v c = prop_walk e s limit (fst (prop_step e s (v, c))) (snd (prop_step e s (v, c)))"
  using assms by (subst prop_walk.simps) (simp add: prop_step_def Let_def split: prod.split)

text \<open>The loop returns after exactly the tags of the request.\<close>

lemma prop_walk_chain:
  assumes "fwreq_of e 0 = PROPERTY_END" "vchiq_payload_offset e = 12" "prop_chain e s limit (c_mem c) v n"
  shows "prop_walk e s limit v c = Some (snd ((prop_step e s ^^ n) (v, c)))"
  using assms(3)
proof (induction n arbitrary: v c)
  case 0
  then show ?case
    using assms(1) by (subst prop_walk.simps) (auto simp: Let_def prop_tag_def)
next
  case (Suc n)
  have "prop_walk e s limit v c = prop_walk e s limit (fst (prop_step e s (v, c))) (snd (prop_step e s (v, c)))"
    using Suc.prems by (intro prop_walk_step) (auto simp: Let_def)
  with Suc.IH [OF prop_step_within(3) [OF Suc.prems assms(2)]] show ?case
    by (simp only: funpow_Suc_right o_def prod.collapse)
qed

text \<open>Later tags leave everything before their own window alone.\<close>

lemma prop_run_below:
  assumes "vchiq_payload_offset e = 12" "prop_chain e s limit (c_mem c) v n"
  shows "same_below e (unat v + 8) (c_mem c) (c_mem (snd ((prop_step e s ^^ n) (v, c))))"
  using assms(2)
proof (induction n arbitrary: v c)
  case (Suc n)
  let ?p = "prop_step e s (v, c)"
  note st = prop_step_within [OF Suc.prems assms(1)]
  have "same_below e (unat (fst ?p) + 8) (c_mem (snd ?p)) (c_mem (snd ((prop_step e s ^^ n) (fst ?p, snd ?p))))"
    by (rule Suc.IH [OF st(3)])
  moreover have "same_below e (unat v + 8) (c_mem c) (c_mem (snd ?p))"
    using only_changes_sides(2) [OF st(1)] st(2) by simp
  moreover have "unat v + 8 \<le> unat (fst ?p) + 8" using st(4) by simp
  ultimately show ?case
    unfolding funpow_Suc_right o_def prod.collapse by (blast intro: same_below_trans same_below_mono)
qed (simp add: same_below_def)

lemma prop_run_from:
  assumes "vchiq_payload_offset e = 12" "prop_chain e s limit (c_mem c) v n" "i \<le> n"
    "(prop_step e s ^^ i) (v, c) = (vi, ci)"
  shows "same_from e (unat vi) (c_mem c) (c_mem ci) \<and> unat v \<le> unat vi \<and> prop_chain e s limit (c_mem ci) vi (n - i)"
  using assms(3,4)
proof (induction i arbitrary: vi ci)
  case 0
  with assms(2) show ?case by (simp add: same_from_def)
next
  case (Suc i)
  obtain vj cj where j: "(prop_step e s ^^ i) (v, c) = (vj, cj)" by fastforce
  with Suc have IH: "same_from e (unat vj) (c_mem c) (c_mem cj)" "unat v \<le> unat vj"
    "prop_chain e s limit (c_mem cj) vj (Suc (n - Suc i))"
    by (auto simp: Suc_diff_Suc)
  have st: "prop_step e s (vj, cj) = (vi, ci)" using Suc.prems(2) j by simp
  note w = prop_step_within [OF IH(3) assms(1), unfolded st fst_conv snd_conv]
  have "same_from e (unat vi) (c_mem cj) (c_mem ci)"
    using only_changes_sides(1) [OF w(1)] w(2,4) by simp
  then show ?case
    using IH(1,2) w(3,4) unfolding same_from_def by auto
qed

lemma prop_answer_kept:
  assumes "vchiq_payload_offset e = 12" "prop_chain e s limit (c_mem c) v n" "i < n"
    "(prop_step e s ^^ i) (v, c) = (vi, ci)"
  shows "ldl e (c_mem ci) vi = ldl e (c_mem c) vi" "ldl e (c_mem ci) (vi + 4) = ldl e (c_mem c) (vi + 4)"
    and "k \<le> 4 + unat (ldl e (c_mem c) (vi + 4)) \<Longrightarrow>
      pm_read e (c_mem (snd ((prop_step e s ^^ n) (v, c)))) (ucast vi + 8) k =
      pm_read e (c_mem (snd (prop_step e s (vi, ci)))) (ucast vi + 8) k"
proof -
  have r: "same_from e (unat vi) (c_mem c) (c_mem ci)" "prop_chain e s limit (c_mem ci) vi (Suc (n - Suc i))"
    using prop_run_from [OF assms(1,2) _ assms(4)] assms(3) by (auto simp: Suc_diff_Suc)
  note w = prop_step_within [OF r(2) assms(1)]
  show tag: "ldl e (c_mem ci) vi = ldl e (c_mem c) vi" "ldl e (c_mem ci) (vi + 4) = ldl e (c_mem c) (vi + 4)"
    using w(2) unat_u32_add [of vi 4] by (auto intro!: same_from_ldl [OF r(1)])
  let ?p = "prop_step e s (vi, ci)"
  have "same_below e (unat (fst ?p) + 8) (c_mem (snd ?p)) (c_mem (snd ((prop_step e s ^^ (n - Suc i)) ?p)))"
    using prop_run_below [OF assms(1) w(3)] by simp
  moreover have "(prop_step e s ^^ n) (v, c) = (prop_step e s ^^ (n - Suc i)) ?p"
  proof -
    have "n = (n - Suc i) + Suc i" using assms(3) by simp
    then have "(prop_step e s ^^ n) (v, c) = (prop_step e s ^^ (n - Suc i)) ((prop_step e s ^^ Suc i) (v, c))"
      by (metis funpow_add o_apply)
    then show ?thesis using assms(4) by simp
  qed
  ultimately show "k \<le> 4 + unat (ldl e (c_mem c) (vi + 4)) \<Longrightarrow>
      pm_read e (c_mem (snd ((prop_step e s ^^ n) (v, c)))) (ucast vi + 8) k =
      pm_read e (c_mem (snd ?p)) (ucast vi + 8) k"
    using w(4) by (simp add: same_below_def unat_window tag)
qed

lemma ldl_stl: "ldl e (c_mem (stl e a v c)) a = v"
  by (simp add: ldl_def stl_def ld32_st32)

lemma push_response_code:
  assumes "bcm2835_property_mbox_push e v s = Some t"
  shows "p_addr t = v AND NOT 0xf \<and> ldl e (p_mem t) (p_addr t + 4) = 0x80000000"
  using assms by (auto simp: bcm2835_property_mbox_push_def Let_def ldl_stl)

end

definition prop_ctx0 :: "('m, 'o) prop_dev \<Rightarrow> ('m, 'o) prop_ctx" where
  "prop_ctx0 s = \<lparr>c_mem = p_mem s, c_otp = p_otp s, c_fb = fb_cfg (p_fb s), c_fb_updated = False\<rparr>"

section \<open>A concrete mailbox\<close>

definition demo_fwreq :: "u32 \<Rightarrow> fwreq" where
  "demo_fwreq t =
     (if t = 0 then PROPERTY_END else if t = 0x10002 then Board GET_BOARD_REVISION
      else if t = 0x38021 then Otp SET_CUSTOMER_OTP else if t = 0x48003 then Framebuffer SET_PHYSICAL_WIDTH_HEIGHT
      else Unhandled)"

definition demo_prop_env :: "(ram, u32 \<Rightarrow> u32) prop_env" where
  "demo_prop_env =
     \<lparr>pm_read = ram_read, pm_write = ram_write, fwreq_of = demo_fwreq,
      RPI_FIRMWARE_EMMC_CLK_ID = 1, RPI_FIRMWARE_UART_CLK_ID = 2, RPI_FIRMWARE_CORE_CLK_ID = 4,
      RPI_FIRMWARE_ARM_CLK_ID = 3,
      fb_validate_config = (\<lambda>f. f), fb_get_size = (\<lambda>f. fb_xres f * fb_yres f),
      fb_get_pitch = fb_xres, fb_reconfigure = (\<lambda>d f. d\<lparr>fb_cfg := f\<rparr>),
      otp_get_row = (\<lambda>t r. t r), otp_set_row = (\<lambda>t r v. t(r := t r OR v)),
      OTP_CUSTOMER_OTP = 36, OTP_CUSTOMER_OTP_LEN = 8, OTP_PRIVATE_KEY = 56, OTP_PRIVATE_KEY_LEN = 8,
      OTP_LOCK_NUM1 = 0xffffffff, OTP_LOCK_NUM2 = 0xaffe0000, OTP_ROW_32 = 32, OTP_ROW_32_LOCK = 0x40,
      vchiq_payload_offset = 12, MBOX_AS_DATA = 0, MBOX_AS_PENDING = 4, MBOX_CHAN_PROPERTY = 8\<rparr>"

definition demo_fb :: fb_config where
  "demo_fb = \<lparr>fb_base = 0, fb_xres = 640, fb_yres = 480, fb_xres_virtual = 640, fb_yres_virtual = 480,
     fb_xoffset = 0, fb_yoffset = 0, fb_bpp = 16, fb_pixo = 1, fb_alpha = 0\<rparr>"

definition demo_prop :: "u8 list \<Rightarrow> (ram, u32 \<Rightarrow> u32) prop_dev" where
  "demo_prop bs =
     \<lparr>p_mem = ram_write (\<lambda>_. 0) 0x1000 bs, p_otp = (\<lambda>_. 0),
      p_fb = \<lparr>fb_cfg = demo_fb, vcram_base = 0x3c000000, vcram_size = 0x4000000\<rparr>,
      p_addr = 0, p_pending = False, mbox_irq = False, p_macaddr = [0xb8, 0x27, 0xeb, 1, 2, 3],
      board_rev = 0xb03115, command_line = []\<rparr>"

interpretation demo_bus: prop_bus demo_prop_env
  by unfold_locales (simp_all add: demo_prop_env_def ram.length_rd ram.rd_wr_same ram.rd_wr_other ram.rd_split)

text \<open>One tag, asking for the board revision.\<close>

definition demo_request :: "u8 list" where
  "demo_request = le32 28 @ le32 0 @ le32 0x10002 @ le32 4 @ le32 0 @ le32 0 @ le32 0"

lemma demo_request_words:
  "ldl demo_prop_env (p_mem (demo_prop demo_request)) 0x1000 = 28"
  "ldl demo_prop_env (p_mem (demo_prop demo_request)) 0x1008 = 0x10002"
  "ldl demo_prop_env (p_mem (demo_prop demo_request)) 0x100c = 4"
  "ldl demo_prop_env (p_mem (demo_prop demo_request)) 0x1018 = 0"
  by (simp_all add: ldl_def demo_prop_env_def demo_prop_def demo_request_def ram_read_def ram_write_def upt_rec le32_def)

lemma demo_request_chain:
  "prop_chain demo_prop_env (demo_prop demo_request) (0x1000 + ldl demo_prop_env (p_mem (demo_prop demo_request)) 0x1000)
     (p_mem (demo_prop demo_request)) (0x1000 + 8) 1"
  by (simp add: Let_def demo_request_words tag_span_def) (simp add: demo_prop_env_def demo_fwreq_def)

section \<open>Properties\<close>

text \<open>
  C9: A request whose tags are laid out one after the other, each with room for its answer and none
  the palette tag, is processed completely: the call returns, tag \<open>i\<close> is read as the guest wrote it,
  its response word and payload in the final memory are those its handler wrote, and the buffer
  response code reports success.
\<close>

theorem property_request_answered:
  assumes "prop_bus e" and "fwreq_of e 0 = PROPERTY_END" and "vchiq_payload_offset e = 12"
    and a: "a = v AND NOT 0xf" and "prop_chain e s (a + ldl e (p_mem s) a) (p_mem s) (a + 8) n"
  shows "\<exists>t. bcm2835_property_mbox_push e v s = Some t \<and> p_addr t = a \<and>
    ldl e (p_mem t) (a + 4) = 0x80000000 \<and>
    (\<forall>i<n. \<exists>w c. (prop_step e s ^^ i) (a + 8, prop_ctx0 s) = (w, c) \<and>
       ldl e (c_mem c) w = ldl e (p_mem s) w \<and> ldl e (c_mem c) (w + 4) = ldl e (p_mem s) (w + 4) \<and>
       pm_read e (p_mem t) (ucast w + 8) (4 + unat (ldl e (p_mem s) (w + 4))) =
       pm_read e (c_mem (snd (prop_step e s (w, c)))) (ucast w + 8) (4 + unat (ldl e (p_mem s) (w + 4))))"
proof -
  let ?c = "prop_ctx0 s"
  have m: "c_mem ?c = p_mem s" by (simp add: prop_ctx0_def)
  note ch = assms(5) [folded m]
  define c' where "c' = snd ((prop_step e s ^^ n) (a + 8, ?c))"
  have walk: "prop_walk e s (a + ldl e (p_mem s) a) (a + 8) ?c = Some c'"
    unfolding c'_def using prop_bus.prop_walk_chain [OF assms(1-3) ch] by (simp add: m)
  obtain t where t: "bcm2835_property_mbox_push e v s = Some t" "p_mem t = c_mem (stl e (a + 4) 0x80000000 c')"
    using walk by (simp add: bcm2835_property_mbox_push_def Let_def a prop_ctx0_def)
  have a8: "unat (a + 8) = unat a + 8" "unat (a + 4) = unat a + 4"
    using aligned_room [of v] unat_u32_add [of a 8] unat_u32_add [of a 4] unfolding a by auto
  have keep: "pm_read e (p_mem t) (ucast w + 8) k = pm_read e (c_mem c') (ucast w + 8) k"
    if "unat (a + 8) \<le> unat w" "unat w + 8 + k \<le> 2 ^ 64" for w :: u32 and k
    unfolding t(2) stl_def using that a8
    by (simp, intro dma_bus.rd_wr_other [OF prop_bus.prop_dma [OF assms(1)]] mem_range_apart)
      (auto simp: unat_window unat_ucast_32_64)
  have "\<exists>w c. (prop_step e s ^^ i) (a + 8, ?c) = (w, c) \<and>
       ldl e (c_mem c) w = ldl e (p_mem s) w \<and> ldl e (c_mem c) (w + 4) = ldl e (p_mem s) (w + 4) \<and>
       pm_read e (p_mem t) (ucast w + 8) (4 + unat (ldl e (p_mem s) (w + 4))) =
       pm_read e (c_mem (snd (prop_step e s (w, c)))) (ucast w + 8) (4 + unat (ldl e (p_mem s) (w + 4)))"
    if i: "i < n" for i
  proof -
    obtain w c where wc: "(prop_step e s ^^ i) (a + 8, ?c) = (w, c)" by fastforce
    have "unat (a + 8) \<le> unat w"
      using prop_bus.prop_run_from [OF assms(1,3) ch _ wc] i by simp
    moreover have "unat w < 2 ^ 32" "unat (ldl e (p_mem s) (w + 4)) < 2 ^ 32"
      using unsigned_less [of w] unsigned_less [of "ldl e (p_mem s) (w + 4)"] by simp_all
    ultimately show ?thesis
      using prop_bus.prop_answer_kept [OF assms(1,3) ch i wc] wc keep [of w] unfolding c'_def m by auto
  qed
  with t prop_bus.push_response_code [OF assms(1) t(1)] a show ?thesis by auto
qed

theorem property_request_answered_witness:
  "\<exists>t. bcm2835_property_mbox_push demo_prop_env 0x1008 (demo_prop demo_request) = Some t \<and>
     ldl demo_prop_env (p_mem t) 0x1004 = 0x80000000 \<and>
     pm_read demo_prop_env (p_mem t) 0x1010 8 = le32 0x80000004 @ le32 0xb03115"
proof -
  let ?e = demo_prop_env and ?s = "demo_prop demo_request"
  have st: "pm_read ?e (c_mem (snd (prop_step ?e ?s (0x1008, prop_ctx0 ?s)))) 0x1010 8 = le32 0x80000004 @ le32 0xb03115"
    by (simp add: prop_step_def Let_def prop_ctx0_def demo_request_words prop_tag_def)
      (simp add: demo_prop_env_def demo_fwreq_def stl_def demo_prop_def ram_read_def ram_write_def upt_rec le32_def)
  have e: "fwreq_of ?e 0 = PROPERTY_END" "vchiq_payload_offset ?e = 12"
    by (simp_all add: demo_prop_env_def demo_fwreq_def)
  show ?thesis
    using property_request_answered [OF demo_bus.prop_bus_axioms e _ demo_request_chain, where v = "0x1008"] st
    by (auto simp: demo_request_words)
qed

section \<open>Handshake\<close>

text \<open>
  C37: The register handshake: a write of a request that returns leaves the device pending with its
  interrupt raised and the aligned address in the data register; the pending register shows it;
  reading the data register returns the address with the channel number, clears pending and lowers
  the interrupt; a second write before that fails the assertion; other offsets change nothing.
\<close>

theorem property_handshake:
  assumes "\<not> p_pending s" and "MBOX_AS_PENDING e \<noteq> MBOX_AS_DATA e"
    and "bcm2835_property_write e (MBOX_AS_DATA e) v s = Some (Prop_ok t)"
  shows "p_pending t \<and> mbox_irq t \<and> p_addr t = ucast v AND NOT 0xf \<and>
    bcm2835_property_read e (MBOX_AS_PENDING e) t = (1, t) \<and>
    bcm2835_property_write e (MBOX_AS_DATA e) v' t = Some Prop_assert_failed \<and>
    bcm2835_property_read e (MBOX_AS_DATA e) t =
      (MBOX_CHAN_PROPERTY e OR (ucast v AND NOT 0xf), t\<lparr>p_pending := False, mbox_irq := False\<rparr>) \<and>
    (x \<notin> {MBOX_AS_DATA e, MBOX_AS_PENDING e} \<longrightarrow>
       bcm2835_property_read e x t = (0, t) \<and> bcm2835_property_write e x v' t = Some (Prop_ok t))"
  using assms
  by (auto simp: bcm2835_property_write_def bcm2835_property_read_def bcm2835_property_mbox_push_def Let_def)

lemma demo_write_returns:
  "\<exists>t. bcm2835_property_write demo_prop_env 0 0x1008 (demo_prop demo_request) = Some (Prop_ok t)"
proof -
  let ?s = "(demo_prop demo_request)\<lparr>p_pending := True\<rparr>"
  have ch: "prop_chain demo_prop_env ?s (0x1000 + ldl demo_prop_env (p_mem ?s) 0x1000) (p_mem ?s) (0x1000 + 8) 1"
    using demo_request_chain by (simp add: Let_def demo_request_words tag_span_def) (simp add: demo_prop_env_def demo_fwreq_def)
  have e: "fwreq_of demo_prop_env 0 = PROPERTY_END" "vchiq_payload_offset demo_prop_env = 12" "MBOX_AS_DATA demo_prop_env = 0"
    by (simp_all add: demo_prop_env_def demo_fwreq_def)
  have "prop_walk demo_prop_env ?s (0x1000 + ldl demo_prop_env (p_mem ?s) 0x1000) (0x1000 + 8) (prop_ctx0 ?s) \<noteq> None"
    using demo_bus.prop_walk_chain [OF e(1,2), of ?s _ "prop_ctx0 ?s" "0x1000 + 8" 1] ch by (simp add: prop_ctx0_def)
  then show ?thesis
    using e(3) by (auto simp: bcm2835_property_write_def bcm2835_property_mbox_push_def Let_def prop_ctx0_def demo_prop_def)
qed

theorem property_handshake_witness:
  "\<exists>t. bcm2835_property_write demo_prop_env 0 0x1008 (demo_prop demo_request) = Some (Prop_ok t) \<and>
     bcm2835_property_read demo_prop_env 0 t = (0x1008, t\<lparr>p_pending := False, mbox_irq := False\<rparr>)"
proof -
  have e: "MBOX_AS_DATA demo_prop_env = 0" "MBOX_AS_PENDING demo_prop_env = 4" "MBOX_CHAN_PROPERTY demo_prop_env = 8"
    by (simp_all add: demo_prop_env_def)
  obtain t where t: "bcm2835_property_write demo_prop_env 0 0x1008 (demo_prop demo_request) = Some (Prop_ok t)"
    using demo_write_returns by blast
  then show ?thesis
    using property_handshake [where s = "demo_prop demo_request" and e = demo_prop_env and v = "0x1008" and t = t]
    by (simp add: e demo_prop_def)
qed

section \<open>The OTP lock\<close>

text \<open>What the mailbox relies on of the one-time-programmable memory.\<close>

locale otp_store =
  fixes e :: "('m, 'o) prop_env"
  assumes get_set_other: "r \<noteq> r' \<Longrightarrow> otp_get_row e (otp_set_row e ot r v) r' = otp_get_row e ot r'"
    and get_set_bits: "otp_get_row e (otp_set_row e ot r v) r AND v = v"
begin

definition lock_kept :: "'o \<Rightarrow> 'o \<Rightarrow> bool" where
  "lock_kept ot ot' \<longleftrightarrow> otp_locked e ot' \<and> (\<forall>r. r \<noteq> OTP_ROW_32 e \<longrightarrow> otp_get_row e ot' r = otp_get_row e ot r)"

lemma lock_again: "otp_locked e ot \<Longrightarrow> lock_kept ot (otp_set_row e ot (OTP_ROW_32 e) (OTP_ROW_32_LOCK e))"
  using get_set_bits [of ot "OTP_ROW_32 e" "OTP_ROW_32_LOCK e"] get_set_other
  by (auto simp: lock_kept_def otp_locked_def)

lemma lock_kept_refl: "otp_locked e ot \<Longrightarrow> lock_kept ot ot"
  by (simp add: lock_kept_def)

lemma lock_kept_trans: "lock_kept a b \<Longrightarrow> lock_kept b c \<Longrightarrow> lock_kept a c"
  by (simp add: lock_kept_def)

lemma stl_otp [simp]: "c_otp (stl e a v c) = c_otp c" "c_otp (put_bytes e a bs c) = c_otp c"
  "c_otp (fb_set e f c) = c_otp c"
  by (simp_all add: stl_def put_bytes_def fb_set_def)

lemma fold_otp: "(\<And>x c. c_otp (f x c) = c_otp c) \<Longrightarrow> c_otp (fold f xs c) = c_otp c"
  by (induction xs arbitrary: c) simp_all

lemma palette_otp: "c_otp (palette_tag e s w c) = c_otp c"
  by (simp add: palette_tag_def Let_def fold_otp)

lemma copy_out_otp: "c_otp (otp_copy_out e w r len a b c) = c_otp c"
  by (simp add: otp_copy_out_def fold_otp)

lemma board_otp: "c_otp (fst (board_tag e s w r c)) = c_otp c"
  by (cases r) (simp_all add: Let_def)

lemma clock_otp: "c_otp (fst (clock_tag e w r c)) = c_otp c"
  by (cases r) simp_all

lemma fb_otp: "c_otp (fst (fb_tag e s w r c)) = c_otp c"
  by (cases r) (simp_all add: Let_def palette_otp)

lemma misc_otp: "c_otp (fst (misc_tag e s w b r c)) = c_otp c"
  by (cases r) (simp_all add: Let_def)

lemma tag_keeps_lock:
  assumes "otp_locked e (c_otp c)"
  shows "lock_kept (c_otp c) (c_otp (fst (prop_tag e s w tag b c)))"
proof -
  have "lock_kept (c_otp c) (c_otp (fst (otp_tag e w r c)))" for r
    using assms by (cases r) (simp_all add: Let_def copy_out_otp lock_again lock_kept_refl)
  with assms show ?thesis
    by (simp add: prop_tag_def board_otp clock_otp fb_otp misc_otp lock_kept_refl split: fwreq.split)
qed

lemma walk_keeps_lock:
  assumes "prop_walk e s limit w c = Some c'" "otp_locked e (c_otp c)"
  shows "lock_kept (c_otp c) (c_otp c')"
proof -
  have "e = e \<longrightarrow> otp_locked e (c_otp c) \<longrightarrow> lock_kept (c_otp c) (c_otp c')"
  proof (rule prop_walk.raw_induct [of "\<lambda>e' s limit w c c'. e' = e \<longrightarrow> otp_locked e (c_otp c) \<longrightarrow> lock_kept (c_otp c) (c_otp c')",
        OF _ assms(1)], intro impI)
    fix walk e' s limit w c c'
    assume IH: "\<And>e' s limit w c c'. walk e' s limit w c = Some c' \<Longrightarrow>
        e' = e \<longrightarrow> otp_locked e (c_otp c) \<longrightarrow> lock_kept (c_otp c) (c_otp c')"
      and body: "(if w + 8 \<le> limit
         then let tag = ldl e' (c_mem c) w; bufsize = ldl e' (c_mem c) (w + 4);
                  (c, resplen) = prop_tag e' s w tag bufsize c
              in if tag = 0 then Some c
                 else walk e' s limit (w + (bufsize + 12)) (stl e' (w + 8) (0x80000000 OR ucast resplen) c)
         else Some c) = Some c'"
      and eq: "e' = e" and locked: "otp_locked e (c_otp c)"
    obtain d n where d: "prop_tag e s w (ldl e (c_mem c) w) (ldl e (c_mem c) (w + 4)) c = (d, n)" by fastforce
    have k: "lock_kept (c_otp c) (c_otp d)"
      using tag_keeps_lock [OF locked, of s w "ldl e (c_mem c) w" "ldl e (c_mem c) (w + 4)"] d by simp
    then have "otp_locked e (c_otp d)" by (simp add: lock_kept_def)
    with body k d locked show "lock_kept (c_otp c) (c_otp c')"
      unfolding eq by (auto simp: Let_def lock_kept_refl dest!: IH split: if_splits intro: lock_kept_trans)
  qed
  with assms(2) show ?thesis by simp
qed

lemma push_keeps_lock:
  assumes "bcm2835_property_mbox_push e v s = Some t" "otp_locked e (p_otp s)"
  shows "lock_kept (p_otp s) (p_otp t)"
  using assms by (auto simp: bcm2835_property_mbox_push_def Let_def dest!: walk_keeps_lock)

end

interpretation demo_otp: otp_store demo_prop_env
proof
  fix ot :: "u32 \<Rightarrow> u32" and r r' v :: u32
  show "r \<noteq> r' \<Longrightarrow> otp_get_row demo_prop_env (otp_set_row demo_prop_env ot r v) r' = otp_get_row demo_prop_env ot r'"
    by (simp add: demo_prop_env_def)
  show "otp_get_row demo_prop_env (otp_set_row demo_prop_env ot r v) r AND v = v"
    by (simp add: demo_prop_env_def or_and_absorb)
qed

text \<open>
  C19: Once the lock bit of row 32 is set, no request whatsoever clears it or changes any other row
  of the one-time-programmable memory.
\<close>

theorem otp_lock_permanent:
  assumes "otp_store e" and "otp_locked e (p_otp s)" and "bcm2835_property_mbox_push e v s = Some t"
  shows "otp_locked e (p_otp t) \<and>
    (r \<noteq> OTP_ROW_32 e \<longrightarrow> otp_get_row e (p_otp t) r = otp_get_row e (p_otp s) r)"
  using otp_store.push_keeps_lock [OF assms(1,3,2)] otp_store.lock_kept_def [OF assms(1)] by blast

text \<open>A locked mailbox asked to write a customer row.\<close>

definition demo_otp_request :: "u8 list" where
  "demo_otp_request = le32 36 @ le32 0 @ le32 0x38021 @ le32 12 @ le32 0 @ le32 0 @ le32 1 @ le32 0xAA @ le32 0"

definition demo_locked :: "(ram, u32 \<Rightarrow> u32) prop_dev" where
  "demo_locked = (demo_prop demo_otp_request)\<lparr>p_otp := (\<lambda>_. 0)(32 := 0x40)\<rparr>"

lemma demo_locked_words:
  "ldl demo_prop_env (p_mem demo_locked) 0x1000 = 36" "ldl demo_prop_env (p_mem demo_locked) 0x1008 = 0x38021"
  "ldl demo_prop_env (p_mem demo_locked) 0x100c = 12" "ldl demo_prop_env (p_mem demo_locked) 0x1020 = 0"
  by (simp_all add: demo_locked_def ldl_def demo_prop_env_def demo_prop_def demo_otp_request_def ram_read_def
      ram_write_def upt_rec le32_def)

lemma demo_locked_returns: "\<exists>t. bcm2835_property_mbox_push demo_prop_env 0x1000 demo_locked = Some t"
proof -
  have ch: "prop_chain demo_prop_env demo_locked (0x1000 + ldl demo_prop_env (p_mem demo_locked) 0x1000)
      (c_mem (prop_ctx0 demo_locked)) (0x1000 + 8) 1"
    by (simp add: Let_def demo_locked_words tag_span_def prop_ctx0_def) (simp add: demo_prop_env_def demo_fwreq_def otp_span_def)
  have e: "fwreq_of demo_prop_env 0 = PROPERTY_END" "vchiq_payload_offset demo_prop_env = 12"
    by (simp_all add: demo_prop_env_def demo_fwreq_def)
  show ?thesis
    using demo_bus.prop_walk_chain [OF e ch] by (simp add: bcm2835_property_mbox_push_def Let_def prop_ctx0_def)
qed

theorem otp_lock_permanent_witness:
  "\<exists>t. bcm2835_property_mbox_push demo_prop_env 0x1000 demo_locked = Some t \<and> otp_locked demo_prop_env (p_otp t) \<and>
     otp_get_row demo_prop_env (p_otp t) 36 = 0"
proof -
  have l: "otp_locked demo_prop_env (p_otp demo_locked)" "otp_get_row demo_prop_env (p_otp demo_locked) 36 = 0"
    "OTP_ROW_32 demo_prop_env = 32"
    by (simp_all add: otp_locked_def demo_prop_env_def demo_locked_def)
  obtain t where t: "bcm2835_property_mbox_push demo_prop_env 0x1000 demo_locked = Some t"
    using demo_locked_returns by blast
  show ?thesis
    using otp_lock_permanent [OF demo_otp.otp_store_axioms l(1) t, of 36] t l(2,3) by auto
qed

section \<open>A request that is never answered\<close>

context prop_bus
begin

lemma walk_stuck:
  assumes "prop_walk e s limit w c = Some c'" "w + 8 \<le> limit" "unat w + 12 \<le> 2 ^ 32"
    "fwreq_of e (ldl e (c_mem c) w) = Unhandled" "ldl e (c_mem c) w \<noteq> 0" "ldl e (c_mem c) (w + 4) = 0xFFFFFFF4"
  shows False
proof -
  let ?stuck = "\<lambda>c. fwreq_of e (ldl e (c_mem c) w) = Unhandled \<and> ldl e (c_mem c) w \<noteq> 0 \<and>
     ldl e (c_mem c) (w + 4) = 0xFFFFFFF4"
  have "e = e \<longrightarrow> limit = limit \<longrightarrow> w = w \<longrightarrow> \<not> ?stuck c"
  proof (rule prop_walk.raw_induct [of "\<lambda>e' s limit' w' c c'. e' = e \<longrightarrow> limit' = limit \<longrightarrow> w' = w \<longrightarrow> \<not> ?stuck c",
        OF _ assms(1)], intro impI notI)
    fix walk e' s limit' w' c c'
    assume IH: "\<And>e' s limit' w' c c'. walk e' s limit' w' c = Some c' \<Longrightarrow>
        e' = e \<longrightarrow> limit' = limit \<longrightarrow> w' = w \<longrightarrow> \<not> ?stuck c"
      and body: "(if w' + 8 \<le> limit'
         then let tag = ldl e' (c_mem c) w'; bufsize = ldl e' (c_mem c) (w' + 4);
                  (c, resplen) = prop_tag e' s w' tag bufsize c
              in if tag = 0 then Some c
                 else walk e' s limit' (w' + (bufsize + 12)) (stl e' (w' + 8) (0x80000000 OR ucast resplen) c)
         else Some c) = Some c'"
      and eq: "e' = e" "limit' = limit" "w' = w" and st: "?stuck c"
    let ?d = "stl e (w + 8) 0x80000000 c"
    have "(4294967296 :: u32) = 0" by simp
    then have same: "w + 4294967296 = w" by (simp only: add_0_right)
    have r: "walk e s limit w ?d = Some c'"
      using body st assms(2) unfolding eq by (simp add: Let_def prop_tag_def same)
    have addr: "ucast (w + 8) = (ucast w + 8 :: u64)" "ucast (w + 4) = (ucast w + 4 :: u64)"
      using assms(3) ucast_add_no_wrap [of w 8] ucast_add_no_wrap [of w 4] by auto
    have "ldl e (c_mem ?d) w = ldl e (c_mem c) w" "ldl e (c_mem ?d) (w + 4) = ldl e (c_mem c) (w + 4)"
      unfolding ldl_def stl_def addr using mem_range_disjoint [of 0 4 8 4 "ucast w"] mem_range_disjoint [of 4 4 8 4 "ucast w"]
      by (simp_all add: rd_wr_other Int_commute)
    then show False using IH [OF r] st by simp
  qed
  with assms show False by simp
qed

end

text \<open>
  C38: A buffer whose first tag is unknown and declares a value buffer of \<open>0xFFFFFFF4\<close> bytes makes the
  32-bit position stand still, so the call never returns.
\<close>

theorem property_request_diverges:
  assumes "prop_bus e" and a: "a = v AND NOT 0xf"
    and "fwreq_of e (ldl e (p_mem s) (a + 8)) = Unhandled" and "ldl e (p_mem s) (a + 8) \<noteq> 0"
    and "ldl e (p_mem s) (a + 12) = 0xFFFFFFF4" and "a + 16 \<le> a + ldl e (p_mem s) a"
    and "unat a + 20 \<le> 2 ^ 32"
  shows "bcm2835_property_mbox_push e v s = None"
proof (rule ccontr)
  assume "bcm2835_property_mbox_push e v s \<noteq> None"
  then obtain c' where c': "prop_walk e s (a + ldl e (p_mem s) a) (a + 8) (prop_ctx0 s) = Some c'"
    by (auto simp: bcm2835_property_mbox_push_def Let_def a prop_ctx0_def)
  have "unat (a + 8) = unat a + 8" using assms(7) unat_u32_add [of a 8] by simp
  with assms show False
    using prop_bus.walk_stuck [OF assms(1) c'] by (simp add: prop_ctx0_def add.assoc)
qed

definition demo_stuck_request :: "u8 list" where
  "demo_stuck_request = le32 28 @ le32 0 @ le32 0x7777 @ le32 0xFFFFFFF4 @ le32 0 @ le32 0 @ le32 0"

theorem property_request_diverges_witness:
  "bcm2835_property_mbox_push demo_prop_env 0x1000 (demo_prop demo_stuck_request) = None"
proof -
  let ?m = "p_mem (demo_prop demo_stuck_request)"
  have w: "ldl demo_prop_env ?m 0x1000 = 28" "ldl demo_prop_env ?m 0x1008 = 0x7777" "ldl demo_prop_env ?m 0x100c = 0xFFFFFFF4"
    by (simp_all add: ldl_def demo_prop_env_def demo_prop_def demo_stuck_request_def ram_read_def ram_write_def upt_rec le32_def)
  have u: "fwreq_of demo_prop_env 0x7777 = Unhandled"
    by (simp add: demo_prop_env_def demo_fwreq_def)
  show ?thesis
    by (rule property_request_diverges [OF demo_bus.prop_bus_axioms, where a = "0x1000"]) (simp_all add: w u)
qed

section \<open>Framebuffer tags\<close>

text \<open>
  A framebuffer setter stores the requested values, lets the framebuffer device validate the
  result, marks the configuration changed, and reports in the payload exactly the values of the
  validated configuration, which is the one the framebuffer is reconfigured to.
\<close>

theorem framebuffer_setters_report:
  assumes "prop_bus e" and "unat w + 20 \<le> 2 ^ 32"
  shows "let x = ldl e (c_mem c) (w + 12); y = ldl e (c_mem c) (w + 16);
      p = fst (fb_tag e s w SET_PHYSICAL_WIDTH_HEIGHT c); v = fst (fb_tag e s w SET_VIRTUAL_WIDTH_HEIGHT c);
      f = fst (fb_tag e s w SET_VIRTUAL_OFFSET c); b = fst (fb_tag e s w SET_DEPTH c)
    in c_fb p = fb_validate_config e ((c_fb c)\<lparr>fb_xres := x, fb_yres := y\<rparr>) \<and> c_fb_updated p \<and>
       ldl e (c_mem p) (w + 12) = fb_xres (c_fb p) \<and> ldl e (c_mem p) (w + 16) = fb_yres (c_fb p) \<and>
       c_fb v = fb_validate_config e ((c_fb c)\<lparr>fb_xres_virtual := x, fb_yres_virtual := y\<rparr>) \<and> c_fb_updated v \<and>
       ldl e (c_mem v) (w + 12) = fb_xres_virtual (c_fb v) \<and> ldl e (c_mem v) (w + 16) = fb_yres_virtual (c_fb v) \<and>
       c_fb f = fb_validate_config e ((c_fb c)\<lparr>fb_xoffset := x, fb_yoffset := y\<rparr>) \<and> c_fb_updated f \<and>
       ldl e (c_mem f) (w + 12) = fb_xoffset (c_fb f) \<and> ldl e (c_mem f) (w + 16) = fb_yoffset (c_fb f) \<and>
       c_fb b = fb_validate_config e ((c_fb c)\<lparr>fb_bpp := x\<rparr>) \<and> c_fb_updated b \<and>
       ldl e (c_mem b) (w + 12) = fb_bpp (c_fb b)"
proof -
  have addr: "ucast (w + 12) = (ucast w + 12 :: u64)" "ucast (w + 16) = (ucast w + 16 :: u64)"
    using assms(2) ucast_add_no_wrap [of w 12] ucast_add_no_wrap [of w 16] by auto
  have "mem_range (ucast w + 16 :: u64) 4 \<inter> mem_range (ucast w + 12) 4 = {}"
    using mem_range_disjoint [of 12 4 16 4 "ucast w"] by (simp add: Int_commute)
  then have other: "ldl e (c_mem (stl e (w + 16) y d)) (w + 12) = ldl e (c_mem d) (w + 12)" for y and d
    using dma_bus.rd_wr_other [OF prop_bus.prop_dma [OF assms(1)]] by (simp add: ldl_def stl_def addr)
  have fb: "c_fb (stl e a v d) = c_fb d" "c_fb_updated (stl e a v d) = c_fb_updated d" for a v d
    by (simp_all add: stl_def)
  show ?thesis
    by (simp add: Let_def other fb prop_bus.ldl_stl [OF assms(1)] fb_set_def)
qed

theorem framebuffer_setters_report_witness:
  "fb_xres (c_fb (fst (fb_tag demo_prop_env (demo_prop []) 0x1000 SET_PHYSICAL_WIDTH_HEIGHT (prop_ctx0 (demo_prop []))))) = 0"
proof -
  have "ldl demo_prop_env (c_mem (prop_ctx0 (demo_prop []))) a = 0" for a
    by (simp add: ldl_def demo_prop_env_def prop_ctx0_def demo_prop_def ram_read_def ram_write_def upt_rec)
  moreover have "fb_validate_config demo_prop_env f = f" for f by (simp add: demo_prop_env_def)
  ultimately show ?thesis
    using framebuffer_setters_report [OF demo_bus.prop_bus_axioms, where w = "0x1000" and c = "prop_ctx0 (demo_prop [])" and s = "demo_prop []"]
    by (simp add: Let_def)
qed

end
