(* ===== verification/Uboot_Genet.thy ===== *)
theory Uboot_Genet
  imports Prelude "HOL-Library.State_Monad"
begin

text \<open>
  The U-Boot driver of the GENET Ethernet controller
  (\<open>src/resources/uboot-genet-driver/bcmgenet.c\<close>): register and descriptor layout, private state,
  and every function of the driver, in the order of the source.  A driver function is a computation
  of the state monad over the record \<open>genet\<close>: the fields of \<open>struct bcmgenet_eth_priv\<close> and of the
  platform data, and the world outside the driver (\<open>'h\<close>: registers, caches, the PHY library's data).

  Accessors of that world (\<open>readl\<close>, \<open>writel\<close>, cache maintenance, the PHY, MDIO and device-tree
  libraries of U-Boot) are not in the repository: they are the fields of \<open>uboot_env\<close>.  An \<open>int\<close> is a
  32-bit word read as two's complement; \<open>printf\<close> and \<open>debug\<close> output is left out.
\<close>

section \<open>Register layout\<close>

definition SYS_REV_CTRL :: u64 where "SYS_REV_CTRL = 0x00"
definition SYS_PORT_CTRL :: u64 where "SYS_PORT_CTRL = 0x04"
definition PORT_MODE_EXT_GPHY :: u32 where "PORT_MODE_EXT_GPHY = 3"
definition GENET_SYS_OFF :: u64 where "GENET_SYS_OFF = 0x0000"
definition SYS_RBUF_FLUSH_CTRL :: u64 where "SYS_RBUF_FLUSH_CTRL = GENET_SYS_OFF + 0x08"
definition GENET_EXT_OFF :: u64 where "GENET_EXT_OFF = 0x0080"
definition EXT_RGMII_OOB_CTRL :: u64 where "EXT_RGMII_OOB_CTRL = GENET_EXT_OFF + 0x0c"
definition RGMII_LINK :: u32 where "RGMII_LINK = push_bit 4 1"
definition OOB_DISABLE :: u32 where "OOB_DISABLE = push_bit 5 1"
definition RGMII_MODE_EN :: u32 where "RGMII_MODE_EN = push_bit 6 1"
definition ID_MODE_DIS :: u32 where "ID_MODE_DIS = push_bit 16 1"
definition GENET_RBUF_OFF :: u64 where "GENET_RBUF_OFF = 0x0300"
definition RBUF_TBUF_SIZE_CTRL :: u64 where "RBUF_TBUF_SIZE_CTRL = GENET_RBUF_OFF + 0xb4"
definition RBUF_CTRL :: u64 where "RBUF_CTRL = GENET_RBUF_OFF + 0x00"
definition RBUF_ALIGN_2B :: u32 where "RBUF_ALIGN_2B = push_bit 1 1"
definition GENET_UMAC_OFF :: u64 where "GENET_UMAC_OFF = 0x0800"
definition UMAC_MIB_CTRL :: u64 where "UMAC_MIB_CTRL = GENET_UMAC_OFF + 0x580"
definition UMAC_MAX_FRAME_LEN :: u64 where "UMAC_MAX_FRAME_LEN = GENET_UMAC_OFF + 0x014"
definition UMAC_MAC0 :: u64 where "UMAC_MAC0 = GENET_UMAC_OFF + 0x00c"
definition UMAC_MAC1 :: u64 where "UMAC_MAC1 = GENET_UMAC_OFF + 0x010"
definition UMAC_CMD :: u64 where "UMAC_CMD = GENET_UMAC_OFF + 0x008"
definition MDIO_CMD :: u64 where "MDIO_CMD = GENET_UMAC_OFF + 0x614"
definition UMAC_TX_FLUSH :: u64 where "UMAC_TX_FLUSH = GENET_UMAC_OFF + 0x334"
definition MDIO_START_BUSY :: u32 where "MDIO_START_BUSY = push_bit 29 1"
definition MDIO_RD :: u32 where "MDIO_RD = push_bit 26 2"
definition MDIO_WR :: u32 where "MDIO_WR = push_bit 26 1"
definition MDIO_PMD_SHIFT :: nat where "MDIO_PMD_SHIFT = 21"
definition MDIO_REG_SHIFT :: nat where "MDIO_REG_SHIFT = 16"
definition CMD_TX_EN :: u32 where "CMD_TX_EN = push_bit 0 1"
definition CMD_RX_EN :: u32 where "CMD_RX_EN = push_bit 1 1"
definition UMAC_SPEED_10 :: u32 where "UMAC_SPEED_10 = 0"
definition UMAC_SPEED_100 :: u32 where "UMAC_SPEED_100 = 1"
definition UMAC_SPEED_1000 :: u32 where "UMAC_SPEED_1000 = 2"
definition CMD_SPEED_SHIFT :: nat where "CMD_SPEED_SHIFT = 2"
definition CMD_SW_RESET :: u32 where "CMD_SW_RESET = push_bit 13 1"
definition CMD_LCL_LOOP_EN :: u32 where "CMD_LCL_LOOP_EN = push_bit 15 1"
definition MIB_RESET_RX :: u32 where "MIB_RESET_RX = push_bit 0 1"
definition MIB_RESET_RUNT :: u32 where "MIB_RESET_RUNT = push_bit 1 1"
definition MIB_RESET_TX :: u32 where "MIB_RESET_TX = push_bit 2 1"
definition TOTAL_DESCS :: u32 where "TOTAL_DESCS = 256"
definition RX_DESCS :: u32 where "RX_DESCS = TOTAL_DESCS"
definition TX_DESCS :: u32 where "TX_DESCS = TOTAL_DESCS"
definition DEFAULT_Q :: nat where "DEFAULT_Q = 0x10"
definition ENET_BRCM_TAG_LEN :: u32 where "ENET_BRCM_TAG_LEN = 6"
definition ENET_PAD :: u32 where "ENET_PAD = 8"
definition ENET_MAX_MTU_SIZE :: u32 where "ENET_MAX_MTU_SIZE = 1500 + 14 + 4 + ENET_BRCM_TAG_LEN + 4 + ENET_PAD"
definition DMA_EN :: u32 where "DMA_EN = push_bit 0 1"
definition DMA_RING_BUF_EN_SHIFT :: nat where "DMA_RING_BUF_EN_SHIFT = 0x01"
definition DMA_BUFLENGTH_MASK :: u32 where "DMA_BUFLENGTH_MASK = 0x0fff"
definition DMA_BUFLENGTH_SHIFT :: nat where "DMA_BUFLENGTH_SHIFT = 16"
definition DMA_RING_SIZE_SHIFT :: nat where "DMA_RING_SIZE_SHIFT = 16"
definition DMA_OWN :: u32 where "DMA_OWN = 0x8000"
definition DMA_EOP :: u32 where "DMA_EOP = 0x4000"
definition DMA_SOP :: u32 where "DMA_SOP = 0x2000"
definition DMA_MAX_BURST_LENGTH :: u32 where "DMA_MAX_BURST_LENGTH = 0x8"
definition DMA_TX_APPEND_CRC :: u32 where "DMA_TX_APPEND_CRC = 0x0040"
definition DMA_TX_QTAG_SHIFT :: nat where "DMA_TX_QTAG_SHIFT = 7"
definition DMA_RING_SIZE :: u64 where "DMA_RING_SIZE = 0x40"
definition DMA_RINGS_SIZE :: u64 where "DMA_RINGS_SIZE = DMA_RING_SIZE * (of_nat DEFAULT_Q + 1)"
definition DMA_DESC_LENGTH_STATUS :: u64 where "DMA_DESC_LENGTH_STATUS = 0x00"
definition DMA_DESC_ADDRESS_LO :: u64 where "DMA_DESC_ADDRESS_LO = 0x04"
definition DMA_DESC_ADDRESS_HI :: u64 where "DMA_DESC_ADDRESS_HI = 0x08"
definition DMA_DESC_SIZE :: u32 where "DMA_DESC_SIZE = 12"
definition GENET_RX_OFF :: u64 where "GENET_RX_OFF = 0x2000"
definition GENET_RDMA_REG_OFF :: u64 where "GENET_RDMA_REG_OFF = GENET_RX_OFF + ucast TOTAL_DESCS * ucast DMA_DESC_SIZE"
definition GENET_TX_OFF :: u64 where "GENET_TX_OFF = 0x4000"
definition GENET_TDMA_REG_OFF :: u64 where "GENET_TDMA_REG_OFF = GENET_TX_OFF + ucast TOTAL_DESCS * ucast DMA_DESC_SIZE"
definition DMA_FC_THRESH_HI :: u32 where "DMA_FC_THRESH_HI = drop_bit 4 RX_DESCS"
definition DMA_FC_THRESH_LO :: u32 where "DMA_FC_THRESH_LO = 5"
definition DMA_FC_THRESH_VALUE :: u32 where "DMA_FC_THRESH_VALUE = push_bit 16 DMA_FC_THRESH_LO OR DMA_FC_THRESH_HI"
definition TDMA_RING_REG_BASE :: u64 where "TDMA_RING_REG_BASE = GENET_TDMA_REG_OFF + of_nat DEFAULT_Q * DMA_RING_SIZE"
definition TDMA_READ_PTR :: u64 where "TDMA_READ_PTR = TDMA_RING_REG_BASE + 0x00"
definition TDMA_CONS_INDEX :: u64 where "TDMA_CONS_INDEX = TDMA_RING_REG_BASE + 0x08"
definition TDMA_PROD_INDEX :: u64 where "TDMA_PROD_INDEX = TDMA_RING_REG_BASE + 0x0c"
definition DMA_RING_BUF_SIZE :: u64 where "DMA_RING_BUF_SIZE = 0x10"
definition DMA_START_ADDR :: u64 where "DMA_START_ADDR = 0x14"
definition DMA_END_ADDR :: u64 where "DMA_END_ADDR = 0x1c"
definition DMA_MBUF_DONE_THRESH :: u64 where "DMA_MBUF_DONE_THRESH = 0x24"
definition TDMA_FLOW_PERIOD :: u64 where "TDMA_FLOW_PERIOD = TDMA_RING_REG_BASE + 0x28"
definition TDMA_WRITE_PTR :: u64 where "TDMA_WRITE_PTR = TDMA_RING_REG_BASE + 0x2c"
definition RDMA_RING_REG_BASE :: u64 where "RDMA_RING_REG_BASE = GENET_RDMA_REG_OFF + of_nat DEFAULT_Q * DMA_RING_SIZE"
definition RDMA_WRITE_PTR :: u64 where "RDMA_WRITE_PTR = RDMA_RING_REG_BASE + 0x00"
definition RDMA_PROD_INDEX :: u64 where "RDMA_PROD_INDEX = RDMA_RING_REG_BASE + 0x08"
definition RDMA_CONS_INDEX :: u64 where "RDMA_CONS_INDEX = RDMA_RING_REG_BASE + 0x0c"
definition RDMA_XON_XOFF_THRESH :: u64 where "RDMA_XON_XOFF_THRESH = RDMA_RING_REG_BASE + 0x28"
definition RDMA_READ_PTR :: u64 where "RDMA_READ_PTR = RDMA_RING_REG_BASE + 0x2c"
definition TDMA_REG_BASE :: u64 where "TDMA_REG_BASE = GENET_TDMA_REG_OFF + DMA_RINGS_SIZE"
definition RDMA_REG_BASE :: u64 where "RDMA_REG_BASE = GENET_RDMA_REG_OFF + DMA_RINGS_SIZE"
definition DMA_RING_CFG :: u64 where "DMA_RING_CFG = 0x00"
definition DMA_CTRL :: u64 where "DMA_CTRL = 0x04"
definition DMA_SCB_BURST_SIZE :: u64 where "DMA_SCB_BURST_SIZE = 0x0c"
definition RX_BUF_LENGTH :: u32 where "RX_BUF_LENGTH = 2048"
definition RX_BUF_OFFSET :: u32 where "RX_BUF_OFFSET = 2"

lemmas genet_reg_defs =
  SYS_REV_CTRL_def SYS_PORT_CTRL_def GENET_SYS_OFF_def SYS_RBUF_FLUSH_CTRL_def GENET_EXT_OFF_def 
  EXT_RGMII_OOB_CTRL_def GENET_RBUF_OFF_def RBUF_TBUF_SIZE_CTRL_def RBUF_CTRL_def GENET_UMAC_OFF_def 
  UMAC_MIB_CTRL_def UMAC_MAX_FRAME_LEN_def UMAC_MAC0_def UMAC_MAC1_def UMAC_CMD_def MDIO_CMD_def 
  UMAC_TX_FLUSH_def DMA_RING_SIZE_def DMA_RINGS_SIZE_def DMA_DESC_LENGTH_STATUS_def 
  DMA_DESC_ADDRESS_LO_def DMA_DESC_ADDRESS_HI_def GENET_RX_OFF_def GENET_RDMA_REG_OFF_def 
  GENET_TX_OFF_def GENET_TDMA_REG_OFF_def TDMA_RING_REG_BASE_def TDMA_READ_PTR_def 
  TDMA_CONS_INDEX_def TDMA_PROD_INDEX_def DMA_RING_BUF_SIZE_def DMA_START_ADDR_def DMA_END_ADDR_def 
  DMA_MBUF_DONE_THRESH_def TDMA_FLOW_PERIOD_def TDMA_WRITE_PTR_def RDMA_RING_REG_BASE_def 
  RDMA_WRITE_PTR_def RDMA_PROD_INDEX_def RDMA_CONS_INDEX_def RDMA_XON_XOFF_THRESH_def 
  RDMA_READ_PTR_def TDMA_REG_BASE_def RDMA_REG_BASE_def DMA_RING_CFG_def DMA_CTRL_def 
  DMA_SCB_BURST_SIZE_def

lemmas genet_val_defs =
  PORT_MODE_EXT_GPHY_def RGMII_LINK_def OOB_DISABLE_def RGMII_MODE_EN_def ID_MODE_DIS_def 
  RBUF_ALIGN_2B_def MDIO_START_BUSY_def MDIO_RD_def MDIO_WR_def CMD_TX_EN_def CMD_RX_EN_def 
  UMAC_SPEED_10_def UMAC_SPEED_100_def UMAC_SPEED_1000_def CMD_SW_RESET_def CMD_LCL_LOOP_EN_def 
  MIB_RESET_RX_def MIB_RESET_RUNT_def MIB_RESET_TX_def TOTAL_DESCS_def RX_DESCS_def TX_DESCS_def 
  ENET_BRCM_TAG_LEN_def ENET_PAD_def ENET_MAX_MTU_SIZE_def DMA_EN_def DMA_BUFLENGTH_MASK_def 
  DMA_OWN_def DMA_EOP_def DMA_SOP_def DMA_MAX_BURST_LENGTH_def DMA_TX_APPEND_CRC_def 
  DMA_DESC_SIZE_def DMA_FC_THRESH_HI_def DMA_FC_THRESH_LO_def DMA_FC_THRESH_VALUE_def 
  RX_BUF_LENGTH_def RX_BUF_OFFSET_def

lemmas genet_shift_defs =
  MDIO_PMD_SHIFT_def MDIO_REG_SHIFT_def CMD_SPEED_SHIFT_def DEFAULT_Q_def DMA_RING_BUF_EN_SHIFT_def 
  DMA_BUFLENGTH_SHIFT_def DMA_RING_SIZE_SHIFT_def DMA_TX_QTAG_SHIFT_def


text \<open>Error numbers of \<open>errno.h\<close>; a failing function returns the negated number.\<close>

definition EAGAIN :: u32 where "EAGAIN = 11"
definition ENOMEM :: u32 where "ENOMEM = 12"
definition ENODEV :: u32 where "ENODEV = 19"
definition EINVAL :: u32 where "EINVAL = 22"
definition ETIMEDOUT :: u32 where "ETIMEDOUT = 110"

lemmas errno_defs = EAGAIN_def ENOMEM_def ENODEV_def EINVAL_def ETIMEDOUT_def

section \<open>State\<close>

record phy_device =
  phy_speed :: u32
  phy_interface :: u32
  phy_supported :: u32
  phy_advertising :: u32

text \<open>The functions a bus descriptor can point to.\<close>

datatype mii_fn = Mii_unset | Fn_bcmgenet_mdio_read | Fn_bcmgenet_mdio_write

record mii_dev =
  bus_read :: mii_fn
  bus_write :: mii_fn
  bus_name :: string
  bus_priv :: u64

record eth_pdata =
  iobase :: u64
  enetaddr :: "nat \<Rightarrow> u8"
  plat_phy_interface :: u32
  max_speed :: u32

record 'h genet =
  rxbuffer :: u64
  mac_reg :: u64
  tx_desc_base :: u64
  rx_desc_base :: u64
  tx_index :: u32
  rx_index :: u32
  c_index :: u32
  phyaddr :: u32
  interface :: u32
  speed :: u32
  phydev :: u64
  bus :: u64
  plat :: eth_pdata
  phys :: "u64 \<Rightarrow> phy_device"
  buses :: "u64 \<Rightarrow> mii_dev"
  hw :: 'h

record 'h uboot_env =
  io_readl :: "u64 \<Rightarrow> 'h \<Rightarrow> u32 \<times> 'h"
  io_writel :: "u32 \<Rightarrow> u64 \<Rightarrow> 'h \<Rightarrow> 'h"
  io_readl_relaxed :: "u64 \<Rightarrow> 'h \<Rightarrow> u32 \<times> 'h"
  io_writel_relaxed :: "u32 \<Rightarrow> u64 \<Rightarrow> 'h \<Rightarrow> 'h"
  io_clrbits_32 :: "u64 \<Rightarrow> u32 \<Rightarrow> 'h \<Rightarrow> 'h"
  io_setbits_32 :: "u64 \<Rightarrow> u32 \<Rightarrow> 'h \<Rightarrow> 'h"
  io_clrsetbits_32 :: "u64 \<Rightarrow> u32 \<Rightarrow> u32 \<Rightarrow> 'h \<Rightarrow> 'h"
  io_udelay :: "u32 \<Rightarrow> 'h \<Rightarrow> 'h"
  io_flush_dcache_range :: "u64 \<Rightarrow> u64 \<Rightarrow> 'h \<Rightarrow> 'h"
  io_invalidate_dcache_range :: "u64 \<Rightarrow> u64 \<Rightarrow> 'h \<Rightarrow> 'h"
  io_wait_for_bit_32 :: "u64 \<Rightarrow> u32 \<Rightarrow> bool \<Rightarrow> u32 \<Rightarrow> bool \<Rightarrow> 'h \<Rightarrow> u32 \<times> 'h"
  io_phy_startup :: "u64 \<Rightarrow> (u64 \<Rightarrow> phy_device) \<Rightarrow> 'h \<Rightarrow> u32 \<times> (u64 \<Rightarrow> phy_device) \<times> 'h"
  io_phy_connect :: "u64 \<Rightarrow> u32 \<Rightarrow> u64 \<Rightarrow> u32 \<Rightarrow> (u64 \<Rightarrow> phy_device) \<Rightarrow> 'h \<Rightarrow>
                       u64 \<times> (u64 \<Rightarrow> phy_device) \<times> 'h"
  io_phy_set_supported :: "u64 \<Rightarrow> u32 \<Rightarrow> (u64 \<Rightarrow> phy_device) \<Rightarrow> u32 \<times> (u64 \<Rightarrow> phy_device)"
  io_phy_config :: "u64 \<Rightarrow> (u64 \<Rightarrow> phy_device) \<Rightarrow> 'h \<Rightarrow> (u64 \<Rightarrow> phy_device) \<times> 'h"
  io_mdio_alloc :: "'h \<Rightarrow> u64 \<times> 'h"
  io_mdio_register :: "u64 \<Rightarrow> mii_dev \<Rightarrow> 'h \<Rightarrow> u32 \<times> 'h"
  io_miiphy_get_dev_by_name :: "string \<Rightarrow> 'h \<Rightarrow> u64"
  io_map_physmem :: "u64 \<Rightarrow> u64 \<Rightarrow> u64"
  snprintf_name :: "string \<Rightarrow> string"
  mdio_node_name :: string
  dev_read_addr :: u64
  dev_read_phy_mode :: u32
  dev_read_phandle :: "string \<Rightarrow> u32 \<times> (string \<Rightarrow> u32 option)"
  dev_ptr :: u64
  roundup :: "u64 \<Rightarrow> u64 \<Rightarrow> u64"
  rounddown :: "u64 \<Rightarrow> u64 \<Rightarrow> u64"
  ARCH_DMA_MINALIGN :: u64
  SPEED_1000 :: u32
  SPEED_100 :: u32
  SPEED_10 :: u32
  PHY_INTERFACE_MODE_NA :: u32
  PHY_INTERFACE_MODE_RGMII :: u32
  PHY_INTERFACE_MODE_RGMII_RXID :: u32
  PHY_GBIT_FEATURES :: u32

type_synonym ('h, 'a) drv = "('h genet, 'a) state"

section \<open>Access to the world\<close>

definition hw_run :: "('h \<Rightarrow> 'a \<times> 'h) \<Rightarrow> ('h, 'a) drv" where
  "hw_run f = State (\<lambda>s. case f (hw s) of (x, h) \<Rightarrow> (x, s\<lparr>hw := h\<rparr>))"

definition hw_do :: "('h \<Rightarrow> 'h) \<Rightarrow> ('h, unit) drv" where
  "hw_do f = State (\<lambda>s. ((), s\<lparr>hw := f (hw s)\<rparr>))"

definition asks :: "('h genet \<Rightarrow> 'a) \<Rightarrow> ('h, 'a) drv" where
  "asks f = State (\<lambda>s. (f s, s))"

definition modify :: "('h genet \<Rightarrow> 'h genet) \<Rightarrow> ('h, unit) drv" where
  "modify f = State (\<lambda>s. ((), f s))"

lemma run_hw_run [simp]: "run_state (hw_run f) s = (case f (hw s) of (x, h) \<Rightarrow> (x, s\<lparr>hw := h\<rparr>))"
  by (simp add: hw_run_def)

lemma run_hw_do [simp]: "run_state (hw_do f) s = ((), s\<lparr>hw := f (hw s)\<rparr>)"
  by (simp add: hw_do_def)

lemma run_asks [simp]: "run_state (asks f) s = (f s, s)"
  by (simp add: asks_def)

lemma run_modify [simp]: "run_state (modify f) s = ((), f s)"
  by (simp add: modify_def)

abbreviation readl :: "'h uboot_env \<Rightarrow> u64 \<Rightarrow> ('h, u32) drv" where
  "readl e a \<equiv> hw_run (io_readl e a)"

abbreviation writel :: "'h uboot_env \<Rightarrow> u32 \<Rightarrow> u64 \<Rightarrow> ('h, unit) drv" where
  "writel e v a \<equiv> hw_do (io_writel e v a)"

abbreviation udelay :: "'h uboot_env \<Rightarrow> u32 \<Rightarrow> ('h, unit) drv" where
  "udelay e n \<equiv> hw_do (io_udelay e n)"

abbreviation clrbits_32 :: "'h uboot_env \<Rightarrow> u64 \<Rightarrow> u32 \<Rightarrow> ('h, unit) drv" where
  "clrbits_32 e a m \<equiv> hw_do (io_clrbits_32 e a m)"

abbreviation setbits_32 :: "'h uboot_env \<Rightarrow> u64 \<Rightarrow> u32 \<Rightarrow> ('h, unit) drv" where
  "setbits_32 e a m \<equiv> hw_do (io_setbits_32 e a m)"

abbreviation ret :: "'a \<Rightarrow> ('h, 'a) drv" where
  "ret \<equiv> State_Monad.return"

section \<open>Resetting the MAC, its address and its DMA engines\<close>

definition bcmgenet_umac_reset :: "'h uboot_env \<Rightarrow> ('h, unit) drv" where
  "bcmgenet_umac_reset e = do {
     m \<leftarrow> asks mac_reg;
     reg \<leftarrow> readl e (m + SYS_RBUF_FLUSH_CTRL);
     let reg = reg OR push_bit 1 1;
     writel e reg (m + SYS_RBUF_FLUSH_CTRL);
     udelay e 10;
     let reg = reg AND NOT (push_bit 1 1);
     writel e reg (m + SYS_RBUF_FLUSH_CTRL);
     udelay e 10;
     writel e 0 (m + SYS_RBUF_FLUSH_CTRL);
     udelay e 10;
     writel e 0 (m + UMAC_CMD);
     writel e (CMD_SW_RESET OR CMD_LCL_LOOP_EN) (m + UMAC_CMD);
     udelay e 2;
     writel e 0 (m + UMAC_CMD);
     writel e (MIB_RESET_RX OR MIB_RESET_TX OR MIB_RESET_RUNT) (m + UMAC_MIB_CTRL);
     writel e 0 (m + UMAC_MIB_CTRL);
     writel e ENET_MAX_MTU_SIZE (m + UMAC_MAX_FRAME_LEN);
     reg \<leftarrow> readl e (m + RBUF_CTRL);
     writel e (reg OR RBUF_ALIGN_2B) (m + RBUF_CTRL);
     writel e 1 (m + RBUF_TBUF_SIZE_CTRL)
   }"

definition bcmgenet_gmac_write_hwaddr :: "'h uboot_env \<Rightarrow> ('h, u32) drv" where
  "bcmgenet_gmac_write_hwaddr e = do {
     m \<leftarrow> asks mac_reg;
     addr \<leftarrow> asks (\<lambda>s. enetaddr (plat s));
     hw_do (io_writel_relaxed e
       (push_bit 24 (ucast (addr 0)) OR push_bit 16 (ucast (addr 1)) OR push_bit 8 (ucast (addr 2)) OR ucast (addr 3))
       (m + UMAC_MAC0));
     hw_do (io_writel_relaxed e (push_bit 8 (ucast (addr 4)) OR ucast (addr 5)) (m + UMAC_MAC1));
     ret 0
   }"

definition bcmgenet_disable_dma :: "'h uboot_env \<Rightarrow> ('h, unit) drv" where
  "bcmgenet_disable_dma e = do {
     m \<leftarrow> asks mac_reg;
     clrbits_32 e (m + TDMA_REG_BASE + DMA_CTRL) DMA_EN;
     clrbits_32 e (m + RDMA_REG_BASE + DMA_CTRL) DMA_EN;
     writel e 1 (m + UMAC_TX_FLUSH);
     udelay e 10;
     writel e 0 (m + UMAC_TX_FLUSH)
   }"

definition bcmgenet_enable_dma :: "'h uboot_env \<Rightarrow> ('h, unit) drv" where
  "bcmgenet_enable_dma e = do {
     m \<leftarrow> asks mac_reg;
     let dma_ctrl = push_bit (DEFAULT_Q + DMA_RING_BUF_EN_SHIFT) 1 OR DMA_EN;
     writel e dma_ctrl (m + TDMA_REG_BASE + DMA_CTRL);
     setbits_32 e (m + RDMA_REG_BASE + DMA_CTRL) dma_ctrl
   }"

section \<open>Sending and receiving\<close>

text \<open>\<open>++index >= DESCS ? 0 : index\<close> on a signed index.\<close>

definition next_index :: "u32 \<Rightarrow> u32 \<Rightarrow> u32" where
  "next_index descs i = (if sint (i + 1) \<ge> sint descs then 0 else i + 1)"

definition desc_addr :: "u64 \<Rightarrow> u32 \<Rightarrow> u64" where
  "desc_addr base i = base + scast (i * DMA_DESC_SIZE)"

text \<open>
  \<open>do cons = readl(CONS) while ((cons & 0xffff) < prod_index && --tries)\<close>; the result is \<open>tries\<close> at
  the exit of the loop.
\<close>

primrec tx_poll :: "'h uboot_env \<Rightarrow> u64 \<Rightarrow> u32 \<Rightarrow> nat \<Rightarrow> ('h, nat) drv" where
  "tx_poll e a prod_index 0 = ret 0"
| "tx_poll e a prod_index (Suc tries) = do {
     cons \<leftarrow> readl e a;
     if (cons AND 0xffff) < prod_index then tx_poll e a prod_index tries else ret (Suc tries)
   }"

definition bcmgenet_gmac_eth_send :: "'h uboot_env \<Rightarrow> u64 \<Rightarrow> u32 \<Rightarrow> ('h, u32) drv" where
  "bcmgenet_gmac_eth_send e packet len = do {
     m \<leftarrow> asks mac_reg;
     desc_base \<leftarrow> asks (\<lambda>s. desc_addr (tx_desc_base s) (tx_index s));
     let len_stat = push_bit DMA_BUFLENGTH_SHIFT len;
     let packet_aligned = rounddown e packet (ARCH_DMA_MINALIGN e);
     prod_index \<leftarrow> readl e (m + TDMA_PROD_INDEX);
     hw_do (io_flush_dcache_range e packet_aligned
       (packet_aligned + roundup e (scast len) (ARCH_DMA_MINALIGN e)));
     let len_stat = len_stat OR push_bit DMA_TX_QTAG_SHIFT 0x3F;
     let len_stat = len_stat OR (DMA_TX_APPEND_CRC OR DMA_SOP OR DMA_EOP);
     writel e (ucast packet) (desc_base + DMA_DESC_ADDRESS_LO);
     writel e (ucast (drop_bit 32 packet)) (desc_base + DMA_DESC_ADDRESS_HI);
     writel e len_stat (desc_base + DMA_DESC_LENGTH_STATUS);
     modify (\<lambda>s. s\<lparr>tx_index := next_index TX_DESCS (tx_index s)\<rparr>);
     let prod_index = prod_index + 1;
     writel e prod_index (m + TDMA_PROD_INDEX);
     tries \<leftarrow> tx_poll e (m + TDMA_CONS_INDEX) prod_index 100;
     ret (if tries = 0 then - ETIMEDOUT else 0)
   }"

text \<open>The warning is output only: the invalidation happens in any case.\<close>

definition invalidate_dcache_check :: "'h uboot_env \<Rightarrow> u64 \<Rightarrow> u64 \<Rightarrow> u64 \<Rightarrow> ('h, unit) drv" where
  "invalidate_dcache_check e addr sz buffer_size = do {
     let inval_size = roundup e sz (ARCH_DMA_MINALIGN e);
     hw_do (io_invalidate_dcache_range e addr (addr + inval_size))
   }"

text \<open>The second component of the result is the store to \<open>*packetp\<close>, if there is one.\<close>

definition bcmgenet_gmac_eth_recv :: "'h uboot_env \<Rightarrow> ('h, u32 \<times> u64 option) drv" where
  "bcmgenet_gmac_eth_recv e = do {
     m \<leftarrow> asks mac_reg;
     desc_base \<leftarrow> asks (\<lambda>s. desc_addr (rx_desc_base s) (rx_index s));
     prod_index \<leftarrow> readl e (m + RDMA_PROD_INDEX);
     c \<leftarrow> asks c_index;
     if prod_index = c then ret (- EAGAIN, None)
     else do {
       len \<leftarrow> readl e (desc_base + DMA_DESC_LENGTH_STATUS);
       let len = drop_bit DMA_BUFLENGTH_SHIFT len AND DMA_BUFLENGTH_MASK;
       addr \<leftarrow> readl e (desc_base + DMA_DESC_ADDRESS_LO);
       invalidate_dcache_check e (ucast addr) (ucast len) (ucast RX_BUF_LENGTH);
       ret (len - RX_BUF_OFFSET, Some (ucast addr + ucast RX_BUF_OFFSET))
     }
   }"

definition bcmgenet_gmac_free_pkt :: "'h uboot_env \<Rightarrow> ('h, u32) drv" where
  "bcmgenet_gmac_free_pkt e = do {
     m \<leftarrow> asks mac_reg;
     desc_base \<leftarrow> asks (\<lambda>s. desc_addr (rx_desc_base s) (rx_index s));
     addr \<leftarrow> readl e (desc_base + DMA_DESC_ADDRESS_LO);
     hw_do (io_flush_dcache_range e (ucast addr) (ucast (addr + RX_BUF_LENGTH)));
     modify (\<lambda>s. s\<lparr>c_index := (c_index s + 1) AND 0xFFFF\<rparr>);
     c \<leftarrow> asks c_index;
     writel e c (m + RDMA_CONS_INDEX);
     modify (\<lambda>s. s\<lparr>rx_index := next_index RX_DESCS (rx_index s)\<rparr>);
     ret 0
   }"

section \<open>Setting up the rings\<close>

primrec for_each :: "('i \<Rightarrow> ('h, unit) drv) \<Rightarrow> 'i list \<Rightarrow> ('h, unit) drv" where
  "for_each f [] = ret ()"
| "for_each f (i # is) = do { f i; for_each f is }"

definition rx_desc_init :: "'h uboot_env \<Rightarrow> u64 \<Rightarrow> u64 \<Rightarrow> u32 \<Rightarrow> u32 \<Rightarrow> ('h, unit) drv" where
  "rx_desc_init e rxbuffs desc_base len_stat i = do {
     writel e (ucast (rxbuffs + ucast (i * RX_BUF_LENGTH)))
       (desc_base + ucast (i * DMA_DESC_SIZE) + DMA_DESC_ADDRESS_LO);
     writel e (ucast (drop_bit 32 (rxbuffs + ucast (i * RX_BUF_LENGTH))))
       (desc_base + ucast (i * DMA_DESC_SIZE) + DMA_DESC_ADDRESS_HI);
     writel e len_stat (desc_base + ucast (i * DMA_DESC_SIZE) + DMA_DESC_LENGTH_STATUS)
   }"

definition rx_descs_init :: "'h uboot_env \<Rightarrow> ('h, unit) drv" where
  "rx_descs_init e = do {
     rxbuffs \<leftarrow> asks rxbuffer;
     desc_base \<leftarrow> asks rx_desc_base;
     let len_stat = push_bit DMA_BUFLENGTH_SHIFT RX_BUF_LENGTH OR DMA_OWN;
     for_each (\<lambda>i. rx_desc_init e rxbuffs desc_base len_stat (of_nat i)) [0..<unat RX_DESCS]
   }"

definition rx_ring_init :: "'h uboot_env \<Rightarrow> ('h, unit) drv" where
  "rx_ring_init e = do {
     m \<leftarrow> asks mac_reg;
     writel e DMA_MAX_BURST_LENGTH (m + RDMA_REG_BASE + DMA_SCB_BURST_SIZE);
     writel e 0x0 (m + RDMA_RING_REG_BASE + DMA_START_ADDR);
     writel e 0x0 (m + RDMA_READ_PTR);
     writel e 0x0 (m + RDMA_WRITE_PTR);
     writel e (RX_DESCS * DMA_DESC_SIZE div 4 - 1) (m + RDMA_RING_REG_BASE + DMA_END_ADDR);
     p \<leftarrow> readl e (m + RDMA_PROD_INDEX);
     modify (\<lambda>s. s\<lparr>c_index := p\<rparr>);
     writel e p (m + RDMA_CONS_INDEX);
     modify (\<lambda>s. s\<lparr>rx_index := p\<rparr>);
     modify (\<lambda>s. s\<lparr>rx_index := rx_index s AND 0xFF\<rparr>);
     writel e (push_bit DMA_RING_SIZE_SHIFT RX_DESCS OR RX_BUF_LENGTH) (m + RDMA_RING_REG_BASE + DMA_RING_BUF_SIZE);
     writel e DMA_FC_THRESH_VALUE (m + RDMA_XON_XOFF_THRESH);
     writel e (push_bit DEFAULT_Q 1) (m + RDMA_REG_BASE + DMA_RING_CFG)
   }"

definition tx_ring_init :: "'h uboot_env \<Rightarrow> ('h, unit) drv" where
  "tx_ring_init e = do {
     m \<leftarrow> asks mac_reg;
     writel e DMA_MAX_BURST_LENGTH (m + TDMA_REG_BASE + DMA_SCB_BURST_SIZE);
     writel e 0x0 (m + TDMA_RING_REG_BASE + DMA_START_ADDR);
     writel e 0x0 (m + TDMA_READ_PTR);
     writel e 0x0 (m + TDMA_WRITE_PTR);
     writel e (TX_DESCS * DMA_DESC_SIZE div 4 - 1) (m + TDMA_RING_REG_BASE + DMA_END_ADDR);
     p \<leftarrow> readl e (m + TDMA_CONS_INDEX);
     modify (\<lambda>s. s\<lparr>tx_index := p\<rparr>);
     writel e p (m + TDMA_PROD_INDEX);
     modify (\<lambda>s. s\<lparr>tx_index := tx_index s AND 0xFF\<rparr>);
     writel e 0x1 (m + TDMA_RING_REG_BASE + DMA_MBUF_DONE_THRESH);
     writel e 0x0 (m + TDMA_FLOW_PERIOD);
     writel e (push_bit DMA_RING_SIZE_SHIFT TX_DESCS OR RX_BUF_LENGTH) (m + TDMA_RING_REG_BASE + DMA_RING_BUF_SIZE);
     writel e (push_bit DEFAULT_Q 1) (m + TDMA_REG_BASE + DMA_RING_CFG)
   }"

section \<open>Starting and stopping the interface\<close>

definition umac_speed :: "'h uboot_env \<Rightarrow> u32 \<Rightarrow> u32 option" where
  "umac_speed e sp =
     (if sp = SPEED_1000 e then Some UMAC_SPEED_1000
      else if sp = SPEED_100 e then Some UMAC_SPEED_100
      else if sp = SPEED_10 e then Some UMAC_SPEED_10
      else None)"

definition bcmgenet_adjust_link :: "'h uboot_env \<Rightarrow> ('h, u32) drv" where
  "bcmgenet_adjust_link e = do {
     m \<leftarrow> asks mac_reg;
     phy_dev \<leftarrow> asks (\<lambda>s. phys s (phydev s));
     case umac_speed e (phy_speed phy_dev) of
       None \<Rightarrow> ret (- EINVAL)
     | Some sp \<Rightarrow> do {
         hw_do (io_clrsetbits_32 e (m + EXT_RGMII_OOB_CTRL) OOB_DISABLE (RGMII_LINK OR RGMII_MODE_EN));
         (if phy_interface phy_dev = PHY_INTERFACE_MODE_RGMII e \<or>
             phy_interface phy_dev = PHY_INTERFACE_MODE_RGMII_RXID e
          then setbits_32 e (m + EXT_RGMII_OOB_CTRL) ID_MODE_DIS
          else ret ());
         writel e (push_bit CMD_SPEED_SHIFT sp) (m + UMAC_CMD);
         ret 0
       }
   }"

definition phy_startup :: "'h uboot_env \<Rightarrow> u64 \<Rightarrow> ('h, u32) drv" where
  "phy_startup e p = State (\<lambda>s.
     case io_phy_startup e p (phys s) (hw s) of (r, ps, h) \<Rightarrow> (r, s\<lparr>phys := ps, hw := h\<rparr>))"

lemma run_phy_startup [simp]:
  "run_state (phy_startup e p) s =
     (case io_phy_startup e p (phys s) (hw s) of (r, ps, h) \<Rightarrow> (r, s\<lparr>phys := ps, hw := h\<rparr>))"
  by (simp add: phy_startup_def)

definition bcmgenet_gmac_eth_start :: "'h uboot_env \<Rightarrow> ('h, u32) drv" where
  "bcmgenet_gmac_eth_start e = do {
     m \<leftarrow> asks mac_reg;
     modify (\<lambda>s. s\<lparr>tx_desc_base := m + GENET_TX_OFF\<rparr>);
     modify (\<lambda>s. s\<lparr>rx_desc_base := m + GENET_RX_OFF\<rparr>);
     bcmgenet_umac_reset e;
     bcmgenet_gmac_write_hwaddr e;
     bcmgenet_disable_dma e;
     rx_ring_init e;
     rx_descs_init e;
     tx_ring_init e;
     bcmgenet_enable_dma e;
     p \<leftarrow> asks phydev;
     r \<leftarrow> phy_startup e p;
     if r \<noteq> 0 then ret r
     else do {
       r \<leftarrow> bcmgenet_adjust_link e;
       if r \<noteq> 0 then ret r
       else do {
         setbits_32 e (m + UMAC_CMD) (CMD_TX_EN OR CMD_RX_EN);
         ret 0
       }
     }
   }"

definition bcmgenet_gmac_eth_stop :: "'h uboot_env \<Rightarrow> ('h, unit) drv" where
  "bcmgenet_gmac_eth_stop e = do {
     m \<leftarrow> asks mac_reg;
     clrbits_32 e (m + UMAC_CMD) (CMD_TX_EN OR CMD_RX_EN);
     bcmgenet_disable_dma e
   }"

section \<open>PHY and MDIO\<close>

text \<open>
  \<open>phy_set_supported\<close> gets \<open>priv->phydev\<close>, which at that point is not yet the PHY just connected.
\<close>

definition bcmgenet_phy_init :: "'h uboot_env \<Rightarrow> ('h, u32) drv" where
  "bcmgenet_phy_init e = State (\<lambda>s.
     case io_phy_connect e (bus s) (phyaddr s) (dev_ptr e) (interface s) (phys s) (hw s) of
       (p, ps, h) \<Rightarrow>
         (if p = 0 then (- ENODEV, s\<lparr>phys := ps, hw := h\<rparr>)
          else
            let ps = ps(p := (ps p)\<lparr>phy_supported := phy_supported (ps p) AND PHY_GBIT_FEATURES e\<rparr>);
                (r, ps) = (if speed s \<noteq> 0 then io_phy_set_supported e (phydev s) (speed s) ps else (0, ps))
            in if r \<noteq> 0 then (r, s\<lparr>phys := ps, hw := h\<rparr>)
               else
                 let ps = ps(p := (ps p)\<lparr>phy_advertising := phy_supported (ps p)\<rparr>);
                     (ps, h) = io_phy_config e p ps h
                 in (0, s\<lparr>phydev := p, phys := ps, hw := h\<rparr>)))"

definition bcmgenet_mdio_start :: "'h uboot_env \<Rightarrow> ('h, unit) drv" where
  "bcmgenet_mdio_start e = do {
     m \<leftarrow> asks mac_reg;
     setbits_32 e (m + MDIO_CMD) MDIO_START_BUSY
   }"

definition bcmgenet_mdio_write :: "'h uboot_env \<Rightarrow> u32 \<Rightarrow> u32 \<Rightarrow> u16 \<Rightarrow> ('h, u32) drv" where
  "bcmgenet_mdio_write e addr reg value = do {
     m \<leftarrow> asks mac_reg;
     let val = MDIO_WR OR push_bit MDIO_PMD_SHIFT addr OR push_bit MDIO_REG_SHIFT reg OR (0xffff AND ucast value);
     hw_do (io_writel_relaxed e val (m + MDIO_CMD));
     bcmgenet_mdio_start e;
     hw_run (io_wait_for_bit_32 e (m + MDIO_CMD) MDIO_START_BUSY False 20 True)
   }"

definition bcmgenet_mdio_read :: "'h uboot_env \<Rightarrow> u32 \<Rightarrow> u32 \<Rightarrow> ('h, u32) drv" where
  "bcmgenet_mdio_read e addr reg = do {
     m \<leftarrow> asks mac_reg;
     let val = MDIO_RD OR push_bit MDIO_PMD_SHIFT addr OR push_bit MDIO_REG_SHIFT reg;
     hw_do (io_writel_relaxed e val (m + MDIO_CMD));
     bcmgenet_mdio_start e;
     r \<leftarrow> hw_run (io_wait_for_bit_32 e (m + MDIO_CMD) MDIO_START_BUSY False 20 True);
     if r \<noteq> 0 then ret r
     else do {
       val \<leftarrow> hw_run (io_readl_relaxed e (m + MDIO_CMD));
       ret (val AND 0xffff)
     }
   }"

definition bcmgenet_mdio_init :: "'h uboot_env \<Rightarrow> string \<Rightarrow> u64 \<Rightarrow> ('h, u32) drv" where
  "bcmgenet_mdio_init e name priv = do {
     b \<leftarrow> hw_run (io_mdio_alloc e);
     if b = 0 then ret (- ENOMEM)
     else do {
       let desc = \<lparr>bus_read = Fn_bcmgenet_mdio_read, bus_write = Fn_bcmgenet_mdio_write,
                   bus_name = snprintf_name e name, bus_priv = priv\<rparr>;
       modify (\<lambda>s. s\<lparr>buses := (buses s)(b := desc)\<rparr>);
       hw_run (io_mdio_register e b desc)
     }
   }"

section \<open>Probing\<close>

definition bcmgenet_interface_set :: "'h uboot_env \<Rightarrow> ('h, u32) drv" where
  "bcmgenet_interface_set e = do {
     m \<leftarrow> asks mac_reg;
     phy_mode \<leftarrow> asks interface;
     if phy_mode = PHY_INTERFACE_MODE_RGMII e \<or> phy_mode = PHY_INTERFACE_MODE_RGMII_RXID e then do {
       writel e PORT_MODE_EXT_GPHY (m + SYS_PORT_CTRL);
       ret 0
     }
     else ret (- EINVAL)
   }"

definition bcmgenet_eth_probe :: "'h uboot_env \<Rightarrow> ('h, u32) drv" where
  "bcmgenet_eth_probe e = do {
     modify (\<lambda>s. s\<lparr>mac_reg := io_map_physmem e (iobase (plat s)) 0x10000\<rparr>);
     modify (\<lambda>s. s\<lparr>interface := plat_phy_interface (plat s)\<rparr>);
     modify (\<lambda>s. s\<lparr>speed := max_speed (plat s)\<rparr>);
     m \<leftarrow> asks mac_reg;
     reg \<leftarrow> hw_run (io_readl_relaxed e (m + SYS_REV_CTRL));
     let major = drop_bit 24 reg AND 0x0f;
     if major \<noteq> 6 then ret (- ENODEV)
     else do {
       r \<leftarrow> bcmgenet_interface_set e;
       if r \<noteq> 0 then ret r
       else do {
         writel e 0 (m + SYS_RBUF_FLUSH_CTRL);
         udelay e 10;
         writel e 0 (m + UMAC_CMD);
         writel e (CMD_SW_RESET OR CMD_LCL_LOOP_EN) (m + UMAC_CMD);
         r \<leftarrow> bcmgenet_mdio_init e (mdio_node_name e) (dev_ptr e);
         if r \<noteq> 0 then ret r
         else do {
           modify (\<lambda>s. s\<lparr>bus := io_miiphy_get_dev_by_name e (mdio_node_name e) (hw s)\<rparr>);
           bcmgenet_phy_init e
         }
       }
     }
   }"

definition bcmgenet_eth_of_to_plat :: "'h uboot_env \<Rightarrow> ('h, u32) drv" where
  "bcmgenet_eth_of_to_plat e = do {
     modify (\<lambda>s. s\<lparr>plat := (plat s)\<lparr>iobase := dev_read_addr e\<rparr>\<rparr>);
     modify (\<lambda>s. s\<lparr>plat := (plat s)\<lparr>plat_phy_interface := dev_read_phy_mode e\<rparr>\<rparr>);
     p \<leftarrow> asks plat;
     if plat_phy_interface p = PHY_INTERFACE_MODE_NA e then ret (- EINVAL)
     else do {
       let (r, node) = dev_read_phandle e ''phy-handle'';
       (if r = 0 then do {
          (case node ''reg'' of None \<Rightarrow> ret () | Some v \<Rightarrow> modify (\<lambda>s. s\<lparr>phyaddr := v\<rparr>));
          (case node ''max-speed'' of None \<Rightarrow> ret ()
           | Some v \<Rightarrow> modify (\<lambda>s. s\<lparr>plat := (plat s)\<lparr>max_speed := v\<rparr>\<rparr>))
        } else ret ());
       ret 0
     }
   }"

end
