(* ===== verification/Uboot_Rings.thy ===== *)
theory Uboot_Rings
  imports Uboot_Genet
begin

text \<open>
  Lemmas about the U-Boot driver that hold for any hardware: what each operation changes of the
  driver's own state, the bounded poll of the transmit path, the arithmetic of the ring indices, and
  the invariant of the rings over every sequence of operations after a start.
\<close>

section \<open>Polling the consumer index\<close>

definition read_step :: "'h uboot_env \<Rightarrow> u64 \<Rightarrow> 'h \<Rightarrow> 'h" where
  "read_step e a h = snd (io_readl e a h)"

definition nth_read :: "'h uboot_env \<Rightarrow> u64 \<Rightarrow> 'h \<Rightarrow> nat \<Rightarrow> u32" where
  "nth_read e a h k = fst (io_readl e a ((read_step e a ^^ k) h))"

lemma nth_read_Suc: "nth_read e a h (Suc k) = nth_read e a (read_step e a h) k"
  by (simp add: nth_read_def funpow_swap1)

lemma tx_poll_cases:
  "\<exists>j\<le>n. \<exists>t. run_state (tx_poll e a p n) s = (t, s\<lparr>hw := (read_step e a ^^ j) (hw s)\<rparr>) \<and>
     (t = 0 \<longleftrightarrow> (\<forall>k<n. nth_read e a (hw s) k AND 0xffff < p))"
proof (induction n arbitrary: s)
  case 0
  show ?case by (intro exI [of _ 0]) simp
next
  case (Suc n)
  obtain v h where rd: "io_readl e a (hw s) = (v, h)" by (cases "io_readl e a (hw s)")
  then have h: "h = read_step e a (hw s)" and v: "nth_read e a (hw s) 0 = v"
    by (simp_all add: read_step_def nth_read_def)
  have all: "(\<forall>k<Suc n. P k) \<longleftrightarrow> P 0 \<and> (\<forall>k<n. P (Suc k))" for P :: "nat \<Rightarrow> bool"
    by (auto simp: less_Suc_eq_0_disj)
  show ?case
  proof (cases "v AND 0xffff < p")
    case True
    from Suc.IH [of "s\<lparr>hw := h\<rparr>"] obtain j t where j: "j \<le> n"
      and run: "run_state (tx_poll e a p n) (s\<lparr>hw := h\<rparr>) = (t, s\<lparr>hw := (read_step e a ^^ j) h\<rparr>)"
      and t: "t = 0 \<longleftrightarrow> (\<forall>k<n. nth_read e a h k AND 0xffff < p)"
      by auto
    have "run_state (tx_poll e a p (Suc n)) s = (t, s\<lparr>hw := (read_step e a ^^ Suc j) (hw s)\<rparr>)"
      using True run by (simp add: rd h funpow_swap1)
    moreover have "t = 0 \<longleftrightarrow> (\<forall>k<Suc n. nth_read e a (hw s) k AND 0xffff < p)"
      unfolding all t using True by (simp add: v nth_read_Suc h)
    ultimately show ?thesis using j by (intro exI [of _ "Suc j"]) auto
  next
    case False
    then have "run_state (tx_poll e a p (Suc n)) s = (Suc n, s\<lparr>hw := (read_step e a ^^ 1) (hw s)\<rparr>)"
      by (simp add: rd h)
    with False show ?thesis unfolding all by (intro exI [of _ 1]) (auto simp: v)
  qed
qed

section \<open>Sending\<close>

text \<open>The three words of a transmit descriptor.\<close>

definition tx_len_stat :: "u32 \<Rightarrow> u32" where
  "tx_len_stat len =
     push_bit DMA_BUFLENGTH_SHIFT len OR push_bit DMA_TX_QTAG_SHIFT 0x3F OR (DMA_TX_APPEND_CRC OR DMA_SOP OR DMA_EOP)"

text \<open>The world when the doorbell is rung: the descriptor is written, the producer index not yet.\<close>

definition tx_prepared :: "'h uboot_env \<Rightarrow> u64 \<Rightarrow> u32 \<Rightarrow> 'h genet \<Rightarrow> 'h" where
  "tx_prepared e packet len s =
     (let d = desc_addr (tx_desc_base s) (tx_index s);
          a = rounddown e packet (ARCH_DMA_MINALIGN e);
          h = io_flush_dcache_range e a (a + roundup e (scast len) (ARCH_DMA_MINALIGN e))
                (snd (io_readl e (mac_reg s + TDMA_PROD_INDEX) (hw s)))
      in io_writel e (tx_len_stat len) (d + DMA_DESC_LENGTH_STATUS)
           (io_writel e (ucast (drop_bit 32 packet)) (d + DMA_DESC_ADDRESS_HI)
             (io_writel e (ucast packet) (d + DMA_DESC_ADDRESS_LO) h)))"

definition tx_rung :: "'h uboot_env \<Rightarrow> u64 \<Rightarrow> u32 \<Rightarrow> 'h genet \<Rightarrow> 'h" where
  "tx_rung e packet len s =
     io_writel e (fst (io_readl e (mac_reg s + TDMA_PROD_INDEX) (hw s)) + 1) (mac_reg s + TDMA_PROD_INDEX)
       (tx_prepared e packet len s)"

lemma send_run:
  obtains j r where "j \<le> 100"
    "run_state (bcmgenet_gmac_eth_send e packet len) s =
       (r, s\<lparr>tx_index := next_index TX_DESCS (tx_index s),
             hw := (read_step e (mac_reg s + TDMA_CONS_INDEX) ^^ j) (tx_rung e packet len s)\<rparr>)"
    "r = (if \<forall>k<100. nth_read e (mac_reg s + TDMA_CONS_INDEX) (tx_rung e packet len s) k AND 0xffff
                < fst (io_readl e (mac_reg s + TDMA_PROD_INDEX) (hw s)) + 1
          then - ETIMEDOUT else 0)"
proof -
  obtain p h where rd: "io_readl e (mac_reg s + TDMA_PROD_INDEX) (hw s) = (p, h)"
    by (cases "io_readl e (mac_reg s + TDMA_PROD_INDEX) (hw s)")
  define s' where "s' = s\<lparr>tx_index := next_index TX_DESCS (tx_index s), hw := tx_rung e packet len s\<rparr>"
  obtain j t where j: "j \<le> 100"
    and run: "run_state (tx_poll e (mac_reg s + TDMA_CONS_INDEX) (p + 1) 100) s' =
        (t, s'\<lparr>hw := (read_step e (mac_reg s + TDMA_CONS_INDEX) ^^ j) (hw s')\<rparr>)"
    and t: "t = 0 \<longleftrightarrow> (\<forall>k<100. nth_read e (mac_reg s + TDMA_CONS_INDEX) (hw s') k AND 0xffff < p + 1)"
    using tx_poll_cases [of 100 e "mac_reg s + TDMA_CONS_INDEX" "p + 1" s'] by blast
  have "run_state (bcmgenet_gmac_eth_send e packet len) s =
      run_state (State_Monad.bind (tx_poll e (mac_reg s + TDMA_CONS_INDEX) (p + 1) 100)
        (\<lambda>tries. ret (if tries = 0 then - ETIMEDOUT else 0))) s'"
    by (simp add: bcmgenet_gmac_eth_send_def Let_def rd s'_def tx_rung_def tx_prepared_def tx_len_stat_def or.assoc
        del: tx_poll.simps)
  also have "\<dots> = (if t = 0 then - ETIMEDOUT else 0, s'\<lparr>hw := (read_step e (mac_reg s + TDMA_CONS_INDEX) ^^ j) (hw s')\<rparr>)"
    by (simp add: run)
  finally show thesis
    by (intro that [OF j]) (simp_all add: s'_def t rd)
qed

lemma and_ffff_lt: "(v :: u32) AND 0xffff < 0x10000"
proof -
  have "v AND 0xffff \<le> 0xffff" by (rule word_and_le1)
  then show ?thesis by (simp add: word_le_nat_alt word_less_nat_alt)
qed


section \<open>Ring indices\<close>

lemma sint_small: "unat (w :: u32) < 2 ^ 31 \<Longrightarrow> sint w = int (unat w)"
proof -
  assume "unat w < 2 ^ 31"
  then have "int (unat w) < int (2 ^ 31)" by (simp only: of_nat_less_iff)
  then have "uint w < 2 ^ 31" by simp
  moreover have "- (2 ^ 31) \<le> uint w" by (rule order_trans [OF _ uint_ge_0]) simp
  ultimately have "signed_take_bit 31 (uint w) = uint w" by (intro signed_take_bit_int_eq_self) simp_all
  then show ?thesis by (simp add: sint_uint)
qed

lemma and_ff: "unat (w AND 0xff :: u32) = unat w mod 256"
proof -
  have "w AND 0xff = take_bit 8 w" by (simp add: take_bit_eq_mask mask_eq_exp_minus_1)
  then show ?thesis by (simp add: unsigned_take_bit_eq take_bit_nat_def)
qed

lemma and_ffff: "unat (w AND 0xffff :: u32) = unat w mod 65536"
proof -
  have "w AND 0xffff = take_bit 16 w" by (simp add: take_bit_eq_mask mask_eq_exp_minus_1)
  then show ?thesis by (simp add: unsigned_take_bit_eq take_bit_nat_def)
qed

text \<open>The index of the next descriptor is the successor modulo the ring size.\<close>

lemma unat_next_index:
  assumes "unat i < 256"
  shows "unat (next_index RX_DESCS i) = (unat i + 1) mod 256" "unat (next_index TX_DESCS i) = (unat i + 1) mod 256"
proof -
  have one: "unat (i + 1) = unat i + 1"
    using assms by (simp add: unat_word_ariths)
  then have "sint (i + 1) = int (unat i + 1)"
    using assms by (simp add: sint_small)
  then have ge: "sint (i + 1) \<ge> 256 \<longleftrightarrow> unat i = 255"
    using assms by linarith
  show "unat (next_index RX_DESCS i) = (unat i + 1) mod 256" "unat (next_index TX_DESCS i) = (unat i + 1) mod 256"
    using assms by (auto simp: next_index_def RX_DESCS_def TX_DESCS_def TOTAL_DESCS_def one ge)
qed

lemma scast_small: "unat (w :: u32) < 2 ^ 31 \<Longrightarrow> (scast w :: u64) = of_nat (unat w)"
  by (simp add: scast_eq sint_small)

lemma desc_addr_index:
  assumes "unat i < 256"
  shows "desc_addr base i = base + of_nat (12 * unat i)"
proof -
  have "unat (i * DMA_DESC_SIZE) = 12 * unat i"
    using assms by (simp add: unat_word_ariths DMA_DESC_SIZE_def)
  with assms show ?thesis by (simp add: desc_addr_def scast_small)
qed

section \<open>The driver between start and the next start\<close>

text \<open>Every sequence of calls of the operations table after a start, whatever the hardware does.\<close>

inductive drv_running :: "'h uboot_env \<Rightarrow> 'h genet \<Rightarrow> bool" for e where
  running_start: "drv_running e (snd (run_state (bcmgenet_gmac_eth_start e) s))"
| running_write_hwaddr: "drv_running e s \<Longrightarrow> drv_running e (snd (run_state (bcmgenet_gmac_write_hwaddr e) s))"
| running_send: "drv_running e s \<Longrightarrow> drv_running e (snd (run_state (bcmgenet_gmac_eth_send e packet len) s))"
| running_recv: "drv_running e s \<Longrightarrow> drv_running e (snd (run_state (bcmgenet_gmac_eth_recv e) s))"
| running_free_pkt: "drv_running e s \<Longrightarrow> drv_running e (snd (run_state (bcmgenet_gmac_free_pkt e) s))"
| running_stop: "drv_running e s \<Longrightarrow> drv_running e (snd (run_state (bcmgenet_gmac_eth_stop e) s))"

definition ring_inv :: "'h genet \<Rightarrow> bool" where
  "ring_inv s \<longleftrightarrow>
     unat (tx_index s) < 256 \<and> unat (rx_index s) = unat (c_index s) mod 256 \<and>
     tx_desc_base s = mac_reg s + GENET_TX_OFF \<and> rx_desc_base s = mac_reg s + GENET_RX_OFF"

text \<open>What each operation changes of the driver's own state.\<close>

lemma send_own: "\<exists>h. snd (run_state (bcmgenet_gmac_eth_send e packet len) s) =
    s\<lparr>tx_index := next_index TX_DESCS (tx_index s), hw := h\<rparr>"
  by (rule send_run [where e = e and s = s and packet = packet and len = len]) auto

lemma recv_own: "\<exists>h. snd (run_state (bcmgenet_gmac_eth_recv e) s) = s\<lparr>hw := h\<rparr>"
  by (auto simp: bcmgenet_gmac_eth_recv_def invalidate_dcache_check_def Let_def split: prod.split intro: exI [of _ "hw s"])

lemma free_pkt_own: "\<exists>h. snd (run_state (bcmgenet_gmac_free_pkt e) s) =
    s\<lparr>c_index := (c_index s + 1) AND 0xFFFF, hw := h, rx_index := next_index RX_DESCS (rx_index s)\<rparr>"
  by (auto simp: bcmgenet_gmac_free_pkt_def split: prod.split)

lemma write_hwaddr_own: "\<exists>h. snd (run_state (bcmgenet_gmac_write_hwaddr e) s) = s\<lparr>hw := h\<rparr>"
  by (auto simp: bcmgenet_gmac_write_hwaddr_def)

lemma stop_own: "\<exists>h. snd (run_state (bcmgenet_gmac_eth_stop e) s) = s\<lparr>hw := h\<rparr>"
  by (auto simp: bcmgenet_gmac_eth_stop_def bcmgenet_disable_dma_def)

lemma umac_reset_own: "\<exists>h. run_state (bcmgenet_umac_reset e) s = ((), s\<lparr>hw := h\<rparr>)"
  by (auto simp: bcmgenet_umac_reset_def Let_def split: prod.split)

lemma for_each_own:
  assumes "\<And>i s. \<exists>h. run_state (f i) s = ((), s\<lparr>hw := h\<rparr>)"
  shows "\<exists>h. run_state (for_each f is) s = ((), s\<lparr>hw := h\<rparr>)"
proof (induction "is" arbitrary: s)
  case Nil
  show ?case by (auto intro: exI [of _ "hw s"])
next
  case (Cons i "is")
  from assms [of i s] obtain h where "run_state (f i) s = ((), s\<lparr>hw := h\<rparr>)" by blast
  moreover from Cons.IH [of "s\<lparr>hw := h\<rparr>"] obtain h' where
    "run_state (for_each f is) (s\<lparr>hw := h\<rparr>) = ((), s\<lparr>hw := h'\<rparr>)" by auto
  ultimately show ?case by auto
qed

lemma rx_descs_init_own: "\<exists>h. run_state (rx_descs_init e) s = ((), s\<lparr>hw := h\<rparr>)"
proof -
  have "\<exists>h. run_state (rx_desc_init e b d l (of_nat i)) s = ((), s\<lparr>hw := h\<rparr>)" for b d l and i :: nat and s
    by (auto simp: rx_desc_init_def)
  then show ?thesis
    by (simp add: rx_descs_init_def Let_def for_each_own)
qed


lemma rx_ring_init_own: "\<exists>h p. run_state (rx_ring_init e) s = ((), s\<lparr>c_index := p, rx_index := p AND 0xFF, hw := h\<rparr>)"
  by (cases s) (auto simp: rx_ring_init_def split: prod.split)

lemma tx_ring_init_own: "\<exists>h p. run_state (tx_ring_init e) s = ((), s\<lparr>tx_index := p AND 0xFF, hw := h\<rparr>)"
  by (cases s) (auto simp: tx_ring_init_def split: prod.split)

lemma write_hwaddr_run: "\<exists>h. run_state (bcmgenet_gmac_write_hwaddr e) s = (0, s\<lparr>hw := h\<rparr>)"
  by (auto simp: bcmgenet_gmac_write_hwaddr_def)

lemma disable_dma_own: "\<exists>h. run_state (bcmgenet_disable_dma e) s = ((), s\<lparr>hw := h\<rparr>)"
  by (auto simp: bcmgenet_disable_dma_def)

lemma enable_dma_own: "\<exists>h. run_state (bcmgenet_enable_dma e) s = ((), s\<lparr>hw := h\<rparr>)"
  by (auto simp: bcmgenet_enable_dma_def Let_def)

lemma adjust_link_own: "\<exists>h r. run_state (bcmgenet_adjust_link e) s = (r, s\<lparr>hw := h\<rparr>)"
  by (auto simp: bcmgenet_adjust_link_def split: option.split intro: exI [of _ "hw s"])

text \<open>The state of the driver in which start calls the PHY library.\<close>

definition start_setup :: "'h uboot_env \<Rightarrow> ('h, unit) drv" where
  "start_setup e = do {
     m \<leftarrow> asks mac_reg;
     modify (\<lambda>s. s\<lparr>tx_desc_base := m + GENET_TX_OFF\<rparr>);
     modify (\<lambda>s. s\<lparr>rx_desc_base := m + GENET_RX_OFF\<rparr>);
     bcmgenet_umac_reset e;
     bcmgenet_gmac_write_hwaddr e;
     bcmgenet_disable_dma e;
     rx_ring_init e;
     rx_descs_init e;
     tx_ring_init e;
     bcmgenet_enable_dma e
   }"

definition start_link :: "'h uboot_env \<Rightarrow> ('h, u32) drv" where
  "start_link e = do {
     m \<leftarrow> asks mac_reg;
     p \<leftarrow> asks phydev;
     r \<leftarrow> phy_startup e p;
     if r \<noteq> 0 then ret r
     else do {
       r \<leftarrow> bcmgenet_adjust_link e;
       if r \<noteq> 0 then ret r
       else do {
         setbits_32 e (m + UMAC_CMD) (CMD_TX_EN OR CMD_RX_EN);
         ret 0
       }
     }
   }"

lemma start_setup_own:
  "\<exists>h p q. run_state (start_setup e) s =
     ((), s\<lparr>tx_desc_base := mac_reg s + GENET_TX_OFF, rx_desc_base := mac_reg s + GENET_RX_OFF,
            c_index := p, rx_index := p AND 0xFF, tx_index := q AND 0xFF, hw := h\<rparr>)"
proof -
  let ?s0 = "s\<lparr>tx_desc_base := mac_reg s + GENET_TX_OFF, rx_desc_base := mac_reg s + GENET_RX_OFF\<rparr>"
  obtain h1 where 1: "run_state (bcmgenet_umac_reset e) ?s0 = ((), ?s0\<lparr>hw := h1\<rparr>)"
    using umac_reset_own [of e ?s0] by auto
  obtain h2 where 2: "run_state (bcmgenet_gmac_write_hwaddr e) (?s0\<lparr>hw := h1\<rparr>) = (0, ?s0\<lparr>hw := h2\<rparr>)"
    using write_hwaddr_run [of e "?s0\<lparr>hw := h1\<rparr>"] by auto
  obtain h3 where 3: "run_state (bcmgenet_disable_dma e) (?s0\<lparr>hw := h2\<rparr>) = ((), ?s0\<lparr>hw := h3\<rparr>)"
    using disable_dma_own [of e "?s0\<lparr>hw := h2\<rparr>"] by auto
  obtain h4 p where 4: "run_state (rx_ring_init e) (?s0\<lparr>hw := h3\<rparr>) =
      ((), ?s0\<lparr>c_index := p, rx_index := p AND 0xFF, hw := h4\<rparr>)"
    using rx_ring_init_own [of e "?s0\<lparr>hw := h3\<rparr>"] by auto
  let ?s1 = "?s0\<lparr>c_index := p, rx_index := p AND 0xFF\<rparr>"
  obtain h5 where 5: "run_state (rx_descs_init e) (?s1\<lparr>hw := h4\<rparr>) = ((), ?s1\<lparr>hw := h5\<rparr>)"
    using rx_descs_init_own [of e "?s1\<lparr>hw := h4\<rparr>"] by auto
  obtain h6 q where 6: "run_state (tx_ring_init e) (?s1\<lparr>hw := h5\<rparr>) = ((), ?s1\<lparr>tx_index := q AND 0xFF, hw := h6\<rparr>)"
    using tx_ring_init_own [of e "?s1\<lparr>hw := h5\<rparr>"] by auto
  obtain h7 where 7: "run_state (bcmgenet_enable_dma e) (?s1\<lparr>tx_index := q AND 0xFF, hw := h6\<rparr>) =
      ((), ?s1\<lparr>tx_index := q AND 0xFF, hw := h7\<rparr>)"
    using enable_dma_own [of e "?s1\<lparr>tx_index := q AND 0xFF, hw := h6\<rparr>"] by auto
  show ?thesis
    by (intro exI [of _ h7] exI [of _ p] exI [of _ q]) (simp add: start_setup_def 1 2 3 4 5 6 7)
qed

lemma start_split:
  "bcmgenet_gmac_eth_start e = State_Monad.bind (start_setup e) (\<lambda>_. start_link e)"
proof (rule state_ext)
  fix s
  obtain h p q where su: "run_state (start_setup e) s =
      ((), s\<lparr>tx_desc_base := mac_reg s + GENET_TX_OFF, rx_desc_base := mac_reg s + GENET_RX_OFF,
            c_index := p, rx_index := p AND 0xFF, tx_index := q AND 0xFF, hw := h\<rparr>)"
    using start_setup_own [of e s] by auto
  have "run_state (bcmgenet_gmac_eth_start e) s =
      run_state (State_Monad.bind (start_setup e) (\<lambda>_. do {
         p \<leftarrow> asks phydev;
         r \<leftarrow> phy_startup e p;
         if r \<noteq> 0 then ret r
         else do {
           r \<leftarrow> bcmgenet_adjust_link e;
           if r \<noteq> 0 then ret r
           else do {
             setbits_32 e (mac_reg s + UMAC_CMD) (CMD_TX_EN OR CMD_RX_EN);
             ret 0
           }
         }
       })) s"
    by (simp add: bcmgenet_gmac_eth_start_def start_setup_def cong: if_cong)
  then show "run_state (bcmgenet_gmac_eth_start e) s = run_state (State_Monad.bind (start_setup e) (\<lambda>_. start_link e)) s"
    by (simp add: su start_link_def cong: if_cong)
qed

lemma start_link_own: "\<exists>h ps r. run_state (start_link e) s = (r, s\<lparr>phys := ps, hw := h\<rparr>)"
proof -
  obtain r ps h where st: "io_phy_startup e (phydev s) (phys s) (hw s) = (r, ps, h)" by (metis prod_cases3)
  obtain h' r' where "run_state (bcmgenet_adjust_link e) (s\<lparr>phys := ps, hw := h\<rparr>) = (r', s\<lparr>phys := ps, hw := h'\<rparr>)"
    using adjust_link_own [of e "s\<lparr>phys := ps, hw := h\<rparr>"] by auto
  with st show ?thesis by (auto simp: start_link_def)
qed

lemma start_ring_inv: "ring_inv (snd (run_state (bcmgenet_gmac_eth_start e) s))"
proof -
  obtain h p q where su: "run_state (start_setup e) s =
      ((), s\<lparr>tx_desc_base := mac_reg s + GENET_TX_OFF, rx_desc_base := mac_reg s + GENET_RX_OFF,
            c_index := p, rx_index := p AND 0xFF, tx_index := q AND 0xFF, hw := h\<rparr>)" (is "_ = ((), ?s)")
    using start_setup_own [of e s] by auto
  obtain r ps h' where "run_state (start_link e) ?s = (r, ?s\<lparr>phys := ps, hw := h'\<rparr>)"
    using start_link_own [of e ?s] by auto
  with su show ?thesis by (simp add: start_split ring_inv_def and_ff)
qed

lemma ring_inv_free_pkt:
  assumes "ring_inv s"
  shows "ring_inv (snd (run_state (bcmgenet_gmac_free_pkt e) s))"
proof -
  have "unat (c_index s + 1) mod 65536 mod 256 = (unat (c_index s) mod 256 + 1) mod 256"
  proof -
    have "unat (c_index s + 1) = (unat (c_index s) + 1) mod 4294967296"
      by (simp add: unat_word_ariths)
    moreover have "x mod 4294967296 mod 65536 mod 256 = x mod 256" for x :: nat
      by (simp add: mod_mod_cancel)
    ultimately show ?thesis by (simp add: mod_Suc_eq)
  qed
  moreover obtain h where "snd (run_state (bcmgenet_gmac_free_pkt e) s) =
      s\<lparr>c_index := (c_index s + 1) AND 0xFFFF, hw := h, rx_index := next_index RX_DESCS (rx_index s)\<rparr>"
    using free_pkt_own [of e s] by auto
  ultimately show ?thesis using assms by (simp add: ring_inv_def unat_next_index and_ffff)
qed

lemma running_ring_inv: "drv_running e s \<Longrightarrow> ring_inv s"
proof (induction rule: drv_running.induct)
  case (running_start s)
  show ?case by (rule start_ring_inv)
next
  case (running_write_hwaddr s)
  obtain h where "snd (run_state (bcmgenet_gmac_write_hwaddr e) s) = s\<lparr>hw := h\<rparr>"
    using write_hwaddr_own [of e s] by auto
  with running_write_hwaddr.IH show ?case by (simp add: ring_inv_def)
next
  case (running_send s packet len)
  obtain h where "snd (run_state (bcmgenet_gmac_eth_send e packet len) s) =
      s\<lparr>tx_index := next_index TX_DESCS (tx_index s), hw := h\<rparr>"
    using send_own [of e packet len s] by auto
  with running_send.IH show ?case by (simp add: ring_inv_def unat_next_index)
next
  case (running_recv s)
  obtain h where "snd (run_state (bcmgenet_gmac_eth_recv e) s) = s\<lparr>hw := h\<rparr>"
    using recv_own [of e s] by auto
  with running_recv.IH show ?case by (simp add: ring_inv_def)
next
  case (running_free_pkt s)
  then show ?case by (intro ring_inv_free_pkt)
next
  case (running_stop s)
  obtain h where "snd (run_state (bcmgenet_gmac_eth_stop e) s) = s\<lparr>hw := h\<rparr>"
    using stop_own [of e s] by auto
  with running_stop.IH show ?case by (simp add: ring_inv_def)
qed

end
