(* ===== verification/Uboot_Regs.thy ===== *)
theory Uboot_Regs
  imports Uboot_Rings
begin

text \<open>
  The interface between the U-Boot driver and the registers it programs: the locale \<open>genet_regs\<close>
  says which registers keep what is written to them, and its lemmas compute what the set-up functions
  leave in those registers (MAC address, rings, descriptors, DMA control).
\<close>

section \<open>Offsets as numbers\<close>

lemma reg_vals:
  "SYS_REV_CTRL = 0x0"
  "SYS_PORT_CTRL = 0x4"
  "GENET_SYS_OFF = 0x0"
  "SYS_RBUF_FLUSH_CTRL = 0x8"
  "GENET_EXT_OFF = 0x80"
  "EXT_RGMII_OOB_CTRL = 0x8c"
  "GENET_RBUF_OFF = 0x300"
  "RBUF_TBUF_SIZE_CTRL = 0x3b4"
  "RBUF_CTRL = 0x300"
  "GENET_UMAC_OFF = 0x800"
  "UMAC_MIB_CTRL = 0xd80"
  "UMAC_MAX_FRAME_LEN = 0x814"
  "UMAC_MAC0 = 0x80c"
  "UMAC_MAC1 = 0x810"
  "UMAC_CMD = 0x808"
  "MDIO_CMD = 0xe14"
  "UMAC_TX_FLUSH = 0xb34"
  "DMA_RING_SIZE = 0x40"
  "DMA_RINGS_SIZE = 0x440"
  "DMA_DESC_LENGTH_STATUS = 0x0"
  "DMA_DESC_ADDRESS_LO = 0x4"
  "DMA_DESC_ADDRESS_HI = 0x8"
  "GENET_RX_OFF = 0x2000"
  "GENET_RDMA_REG_OFF = 0x2c00"
  "GENET_TX_OFF = 0x4000"
  "GENET_TDMA_REG_OFF = 0x4c00"
  "TDMA_RING_REG_BASE = 0x5000"
  "TDMA_READ_PTR = 0x5000"
  "TDMA_CONS_INDEX = 0x5008"
  "TDMA_PROD_INDEX = 0x500c"
  "DMA_RING_BUF_SIZE = 0x10"
  "DMA_START_ADDR = 0x14"
  "DMA_END_ADDR = 0x1c"
  "DMA_MBUF_DONE_THRESH = 0x24"
  "TDMA_FLOW_PERIOD = 0x5028"
  "TDMA_WRITE_PTR = 0x502c"
  "RDMA_RING_REG_BASE = 0x3000"
  "RDMA_WRITE_PTR = 0x3000"
  "RDMA_PROD_INDEX = 0x3008"
  "RDMA_CONS_INDEX = 0x300c"
  "RDMA_XON_XOFF_THRESH = 0x3028"
  "RDMA_READ_PTR = 0x302c"
  "TDMA_REG_BASE = 0x5040"
  "RDMA_REG_BASE = 0x3040"
  "DMA_RING_CFG = 0x0"
  "DMA_CTRL = 0x4"
  "DMA_SCB_BURST_SIZE = 0xc"
  by (simp_all add: genet_reg_defs TOTAL_DESCS_def DMA_DESC_SIZE_def DEFAULT_Q_def)

section \<open>Registers that keep what is written to them\<close>

text \<open>A write that resets the block: \<open>CMD_SW_RESET\<close> in \<open>UMAC_CMD\<close>.\<close>

definition resets :: "u64 \<Rightarrow> u64 \<Rightarrow> u32 \<Rightarrow> bool" where
  "resets m a v \<longleftrightarrow> a = m + UMAC_CMD \<and> bit v 13"

text \<open>
  The transmit read pointer and the consumer index may also move when the producer index is written while
  transmit DMA is on.
\<close>

definition doorbell :: "u64 \<Rightarrow> (u64 \<Rightarrow> u32) \<Rightarrow> u64 \<Rightarrow> u64 \<Rightarrow> bool" where
  "doorbell m P a b \<longleftrightarrow> a = m + TDMA_PROD_INDEX \<and> b \<in> {m + TDMA_READ_PTR, m + (TDMA_READ_PTR + 4), m + TDMA_CONS_INDEX} \<and>
     bit (P (m + (TDMA_REG_BASE + DMA_CTRL))) 0"

locale genet_regs =
  fixes e :: "'h uboot_env" and peek :: "'h \<Rightarrow> u64 \<Rightarrow> u32" and R :: "u64 set" and m :: u64
  assumes readl_value: "a \<in> R \<Longrightarrow> fst (io_readl e a h) = peek h a"
    and readl_keep: "b \<in> R \<Longrightarrow> peek (snd (io_readl e a h)) b = peek h b"
    and writel_peek: "b \<in> R \<Longrightarrow> \<not> resets m a v \<Longrightarrow> \<not> doorbell m (peek h) a b \<Longrightarrow>
          peek (io_writel e v a h) b = (if a = b then v else peek h b)"
    and readl_relaxed: "io_readl_relaxed e = io_readl e"
    and writel_relaxed: "io_writel_relaxed e = io_writel e"
    and clrbits: "io_clrbits_32 e a c h = (case io_readl e a h of (v, h') \<Rightarrow> io_writel e (v AND NOT c) a h')"
    and setbits: "io_setbits_32 e a c h = (case io_readl e a h of (v, h') \<Rightarrow> io_writel e (v OR c) a h')"
    and clrsetbits: "io_clrsetbits_32 e a c d h =
          (case io_readl e a h of (v, h') \<Rightarrow> io_writel e (v AND NOT c OR d) a h')"
    and udelay_keep: "b \<in> R \<Longrightarrow> peek (io_udelay e n h) b = peek h b"
    and flush_keep: "b \<in> R \<Longrightarrow> peek (io_flush_dcache_range e x y h) b = peek h b"
    and invalidate_keep: "b \<in> R \<Longrightarrow> peek (io_invalidate_dcache_range e x y h) b = peek h b"
begin

lemmas keep = readl_keep udelay_keep flush_keep invalidate_keep

lemma rmw_peek:
  assumes "b \<in> R" "a \<noteq> m + UMAC_CMD" "a \<noteq> m + TDMA_PROD_INDEX"
  shows "peek (io_clrbits_32 e a c h) b = (if a = b then peek h b AND NOT c else peek h b)"
    "peek (io_setbits_32 e a c h) b = (if a = b then peek h b OR c else peek h b)"
    "peek (io_clrsetbits_32 e a c d h) b = (if a = b then peek h b AND NOT c OR d else peek h b)"
  using assms
  by (auto simp: clrbits setbits clrsetbits case_prod_beta writel_peek resets_def doorbell_def readl_keep readl_value)

end

text \<open>A plain register file: the simplest hardware with this behaviour.\<close>

definition regfile_env :: "(u64 \<Rightarrow> u32) uboot_env \<Rightarrow> (u64 \<Rightarrow> u32) uboot_env" where
  "regfile_env e = e\<lparr>io_readl := \<lambda>a h. (h a, h), io_writel := \<lambda>v a h. h(a := v),
     io_readl_relaxed := \<lambda>a h. (h a, h), io_writel_relaxed := \<lambda>v a h. h(a := v),
     io_clrbits_32 := \<lambda>a c h. h(a := h a AND NOT c), io_setbits_32 := \<lambda>a c h. h(a := h a OR c),
     io_clrsetbits_32 := \<lambda>a c d h. h(a := h a AND NOT c OR d), io_udelay := \<lambda>_ h. h,
     io_flush_dcache_range := \<lambda>_ _ h. h, io_invalidate_dcache_range := \<lambda>_ _ h. h\<rparr>"

lemma regfile_genet_regs: "genet_regs (regfile_env e) (\<lambda>h a. h a) R m"
  by unfold_locales (auto simp: regfile_env_def)

interpretation regfile: genet_regs "regfile_env e" "\<lambda>h a. h a" R m for e R m
  by (rule regfile_genet_regs)

section \<open>Fields the operations leave alone\<close>

lemma hw_only_fields:
  assumes "\<exists>h. run_state c s = (x, s\<lparr>hw := h\<rparr>)"
  shows "mac_reg (snd (run_state c s)) = mac_reg s" "rx_desc_base (snd (run_state c s)) = rx_desc_base s"
    "rxbuffer (snd (run_state c s)) = rxbuffer s" "plat (snd (run_state c s)) = plat s"
    "c_index (snd (run_state c s)) = c_index s" "rx_index (snd (run_state c s)) = rx_index s"
    "tx_index (snd (run_state c s)) = tx_index s" "phys (snd (run_state c s)) = phys s"
    "phydev (snd (run_state c s)) = phydev s"
  using assms by auto

lemmas setup_fields =
  hw_only_fields [OF umac_reset_own] hw_only_fields [OF write_hwaddr_run] hw_only_fields [OF disable_dma_own]
  hw_only_fields [OF rx_descs_init_own] hw_only_fields [OF enable_dma_own]

lemma ring_init_fields:
  "mac_reg (snd (run_state (rx_ring_init e) s)) = mac_reg s" "mac_reg (snd (run_state (tx_ring_init e) s)) = mac_reg s"
  "rx_desc_base (snd (run_state (rx_ring_init e) s)) = rx_desc_base s"
  "rxbuffer (snd (run_state (rx_ring_init e) s)) = rxbuffer s" "plat (snd (run_state (rx_ring_init e) s)) = plat s"
  "c_index (snd (run_state (tx_ring_init e) s)) = c_index s" "rx_index (snd (run_state (tx_ring_init e) s)) = rx_index s"
  using rx_ring_init_own [of e s] tx_ring_init_own [of e s] by auto

section \<open>The receive descriptors\<close>

definition rx_desc_regs :: "u64 \<Rightarrow> u64 set" where
  "rx_desc_regs m = {m + GENET_RX_OFF + of_nat (12 * i + k) | i k. i < 256 \<and> k \<in> {0, 4, 8}}"

lemma rx_desc_regs_mem [simp]:
  assumes "i < 256"
  shows "m + GENET_RX_OFF + of_nat (12 * i) \<in> rx_desc_regs m"
    "m + GENET_RX_OFF + of_nat (12 * i) + 4 \<in> rx_desc_regs m"
    "m + GENET_RX_OFF + of_nat (12 * i) + 8 \<in> rx_desc_regs m"
proof -
  have "m + GENET_RX_OFF + of_nat (12 * i + k) \<in> rx_desc_regs m" if "k \<in> {0, 4, 8}" for k
    using assms that unfolding rx_desc_regs_def by blast
  from this [of 0] this [of 4] this [of 8]
  show "m + GENET_RX_OFF + of_nat (12 * i) \<in> rx_desc_regs m"
    "m + GENET_RX_OFF + of_nat (12 * i) + 4 \<in> rx_desc_regs m"
    "m + GENET_RX_OFF + of_nat (12 * i) + 8 \<in> rx_desc_regs m"
    by (simp_all add: add.assoc)
qed

lemma ucast_of_nat_64: "n < 2 ^ 32 \<Longrightarrow> ucast (of_nat n :: u32) = (of_nat n :: u64)"
  using ucast_add_no_wrap [of 0 n] by simp

lemma rx_desc_init_offsets:
  assumes "i < 256"
  shows "ucast (of_nat i * DMA_DESC_SIZE) = (of_nat (12 * i) :: u64)"
    "ucast (of_nat i * RX_BUF_LENGTH) = (of_nat (2048 * i) :: u64)"
proof -
  have "of_nat i * DMA_DESC_SIZE = of_nat (12 * i)" "of_nat i * RX_BUF_LENGTH = of_nat (2048 * i)"
    by (simp_all add: DMA_DESC_SIZE_def RX_BUF_LENGTH_def mult.commute)
  then show "ucast (of_nat i * DMA_DESC_SIZE) = (of_nat (12 * i) :: u64)"
    "ucast (of_nat i * RX_BUF_LENGTH) = (of_nat (2048 * i) :: u64)"
    using assms ucast_of_nat_64 [of "12 * i"] ucast_of_nat_64 [of "2048 * i"] by (simp_all del: of_nat_mult)
qed

lemma for_each_append: "for_each f (xs @ ys) = State_Monad.bind (for_each f xs) (\<lambda>_. for_each f ys)"
  by (induction xs) simp_all

text \<open>What the descriptor words of receive descriptor \<open>i\<close> are set to.\<close>

definition rx_desc_word :: "u64 \<Rightarrow> nat \<Rightarrow> nat \<Rightarrow> u32" where
  "rx_desc_word buf i k =
     (if k = 4 then ucast (buf + of_nat (2048 * i))
      else if k = 8 then ucast (drop_bit 32 (buf + of_nat (2048 * i)))
      else 0x8008000)"

context genet_regs
begin

lemma rx_desc_init_peek:
  assumes i: "i < 256" and d: "d = m + GENET_RX_OFF" and b: "b \<in> R"
  shows "peek (hw (snd (run_state (rx_desc_init e buf d 0x8008000 (of_nat i)) s))) b =
    (if \<exists>k\<in>{0, 4, 8}. b = d + of_nat (12 * i + k) then rx_desc_word buf i (unat (b - d) mod 12) else peek (hw s) b)"
proof -
  have n: "d + of_nat (12 * i) + k \<noteq> m + UMAC_CMD" "d + of_nat (12 * i) + k \<noteq> m + TDMA_PROD_INDEX" if "k \<le> 8" for k
  proof -
    have "unat k \<le> 8" using that by (simp add: word_le_nat_alt)
    then have v: "unat (GENET_RX_OFF + (of_nat (12 * i) + k)) = 0x2000 + 12 * i + unat k"
      using i by (simp add: unat_word_ariths unat_of_nat take_bit_nat_eq_self reg_vals)
    have "GENET_RX_OFF + (of_nat (12 * i) + k) \<noteq> o'" if "unat o' < 0x2000 \<or> 0x3000 \<le> unat o'" for o'
      using v that i \<open>unat k \<le> 8\<close> by auto
    from this [of UMAC_CMD] this [of TDMA_PROD_INDEX]
    show "d + of_nat (12 * i) + k \<noteq> m + UMAC_CMD" "d + of_nat (12 * i) + k \<noteq> m + TDMA_PROD_INDEX"
      by (simp_all add: d add.assoc reg_vals)
  qed
  show ?thesis
    using i b n [of 0] n [of 4] n [of 8]
    by (auto simp: rx_desc_init_def rx_desc_init_offsets writel_peek resets_def doorbell_def DMA_DESC_ADDRESS_LO_def DMA_DESC_ADDRESS_HI_def
        DMA_DESC_LENGTH_STATUS_def rx_desc_word_def add.assoc unat_of_nat take_bit_nat_eq_self unat_word_ariths)
qed

lemma rx_desc_loop_peek:
  assumes "n \<le> 256" and d: "d = m + GENET_RX_OFF" and b: "b \<in> R"
  shows "peek (hw (snd (run_state (for_each (\<lambda>i. rx_desc_init e buf d 0x8008000 (of_nat i)) [0..<n]) s))) b =
    (if \<exists>i<n. \<exists>k\<in>{0, 4, 8}. b = d + of_nat (12 * i + k)
     then rx_desc_word buf (unat (b - d) div 12) (unat (b - d) mod 12) else peek (hw s) b)"
  using assms(1)
proof (induction n)
  case 0
  show ?case by simp
next
  case (Suc n)
  let ?at = "\<lambda>i. \<exists>k\<in>{0, 4, 8}. b = d + of_nat (12 * i + k)"
  have run: "snd (run_state (for_each (\<lambda>i. rx_desc_init e buf d 0x8008000 (of_nat i)) [0..<Suc n]) s) =
      snd (run_state (rx_desc_init e buf d 0x8008000 (of_nat n))
        (snd (run_state (for_each (\<lambda>i. rx_desc_init e buf d 0x8008000 (of_nat i)) [0..<n]) s)))"
    by (simp add: for_each_append case_prod_beta)
  have div: "unat (b - d) div 12 = n" if "?at n"
  proof -
    from that obtain k where k: "k \<in> {0, 4, 8}" "b = d + of_nat (12 * n + k)" by blast
    from k(2) have "b - d = of_nat (12 * n + k)" by simp
    with k(1) have "unat (b - d) = 12 * n + k"
      using Suc.prems by (auto simp: unat_of_nat take_bit_nat_eq_self simp del: of_nat_add of_nat_mult)
    with k(1) show ?thesis by auto
  qed
  have "(\<exists>i<Suc n. ?at i) \<longleftrightarrow> (\<exists>i<n. ?at i) \<or> ?at n"
    using less_Suc_eq by auto
  then show ?case
    unfolding run using rx_desc_init_peek [of n d b buf] Suc d b div by (auto simp del: of_nat_add of_nat_mult)
qed

lemma rx_descs_init_peek:
  assumes "rx_desc_base s = m + GENET_RX_OFF" "b \<in> R"
  shows "peek (hw (snd (run_state (rx_descs_init e) s))) b =
    (if \<exists>i<256. \<exists>k\<in>{0, 4, 8}. b = m + GENET_RX_OFF + of_nat (12 * i + k)
     then rx_desc_word (rxbuffer s) (unat (b - (m + GENET_RX_OFF)) div 12) (unat (b - (m + GENET_RX_OFF)) mod 12)
     else peek (hw s) b)"
  using rx_desc_loop_peek [of 256 "m + GENET_RX_OFF" b "rxbuffer s" s] assms
  by (simp add: rx_descs_init_def Let_def RX_DESCS_def TOTAL_DESCS_def RX_BUF_LENGTH_def DMA_BUFLENGTH_SHIFT_def DMA_OWN_def
      del: upt.simps upt_rec)

lemma write_hwaddr_peek:
  assumes "mac_reg s = m" "b \<in> R"
  shows "peek (hw (snd (run_state (bcmgenet_gmac_write_hwaddr e) s))) b =
    (let a = enetaddr (plat s) in
     (peek (hw s))
       (m + UMAC_MAC0 := push_bit 24 (ucast (a 0)) OR push_bit 16 (ucast (a 1)) OR push_bit 8 (ucast (a 2)) OR ucast (a 3),
        m + UMAC_MAC1 := push_bit 8 (ucast (a 4)) OR ucast (a 5))) b"
  using assms by (simp add: bcmgenet_gmac_write_hwaddr_def writel_relaxed writel_peek resets_def doorbell_def reg_vals Let_def)

lemma disable_dma_peek:
  assumes "mac_reg s = m" "b \<in> R"
  shows "peek (hw (snd (run_state (bcmgenet_disable_dma e) s))) b =
    (let p = peek (hw s); t = m + TDMA_REG_BASE + DMA_CTRL; r = m + RDMA_REG_BASE + DMA_CTRL in
     p(t := p t AND NOT DMA_EN, r := p r AND NOT DMA_EN, m + UMAC_TX_FLUSH := 0)) b"
  using assms by (auto simp: bcmgenet_disable_dma_def writel_peek rmw_peek keep resets_def doorbell_def reg_vals Let_def add.assoc)

lemma enable_dma_peek:
  assumes "mac_reg s = m" "b \<in> R"
  shows "peek (hw (snd (run_state (bcmgenet_enable_dma e) s))) b =
    (let p = peek (hw s); t = m + TDMA_REG_BASE + DMA_CTRL; r = m + RDMA_REG_BASE + DMA_CTRL in
     p(t := 0x20001, r := p r OR 0x20001)) b"
  using assms by (auto simp: bcmgenet_enable_dma_def writel_peek rmw_peek keep resets_def doorbell_def reg_vals genet_shift_defs
      DMA_EN_def Let_def add.assoc)

lemma rx_ring_init_peek:
  assumes "mac_reg s = m" "b \<in> R" "m + RDMA_PROD_INDEX \<in> R"
  shows "peek (hw (snd (run_state (rx_ring_init e) s))) b =
    (let p = peek (hw s) in
     p(m + RDMA_REG_BASE + DMA_SCB_BURST_SIZE := 8, m + RDMA_RING_REG_BASE + DMA_START_ADDR := 0,
       m + RDMA_READ_PTR := 0, m + RDMA_WRITE_PTR := 0, m + RDMA_RING_REG_BASE + DMA_END_ADDR := 767,
       m + RDMA_CONS_INDEX := p (m + RDMA_PROD_INDEX), m + RDMA_RING_REG_BASE + DMA_RING_BUF_SIZE := 0x1000800,
       m + RDMA_XON_XOFF_THRESH := 0x50010, m + RDMA_REG_BASE + DMA_RING_CFG := 0x10000)) b"
    "c_index (snd (run_state (rx_ring_init e) s)) = peek (hw s) (m + RDMA_PROD_INDEX)"
  using assms by (simp_all add: rx_ring_init_def case_prod_beta writel_peek readl_value keep resets_def doorbell_def reg_vals
      genet_shift_defs genet_val_defs Let_def add.assoc)

lemma tx_ring_init_peek:
  assumes "mac_reg s = m" "b \<in> R" "m + TDMA_PROD_INDEX \<in> R"
    and "m + (TDMA_REG_BASE + DMA_CTRL) \<in> R" "\<not> doorbell m (peek (hw s)) (m + TDMA_PROD_INDEX) b"
  shows "b \<noteq> m + TDMA_PROD_INDEX \<Longrightarrow> peek (hw (snd (run_state (tx_ring_init e) s))) b =
    (let p = peek (hw s) in
     p(m + TDMA_REG_BASE + DMA_SCB_BURST_SIZE := 8, m + TDMA_RING_REG_BASE + DMA_START_ADDR := 0,
       m + TDMA_READ_PTR := 0, m + TDMA_WRITE_PTR := 0, m + TDMA_RING_REG_BASE + DMA_END_ADDR := 767,
       m + TDMA_RING_REG_BASE + DMA_MBUF_DONE_THRESH := 1, m + TDMA_FLOW_PERIOD := 0,
       m + TDMA_RING_REG_BASE + DMA_RING_BUF_SIZE := 0x1000800, m + TDMA_REG_BASE + DMA_RING_CFG := 0x10000)) b"
    "tx_index (snd (run_state (tx_ring_init e) s)) =
       peek (hw (snd (run_state (tx_ring_init e) s))) (m + TDMA_PROD_INDEX) AND 0xFF"
proof -
  assume b: "b \<noteq> m + TDMA_PROD_INDEX"
  show "peek (hw (snd (run_state (tx_ring_init e) s))) b = (let p = peek (hw s) in
     p(m + TDMA_REG_BASE + DMA_SCB_BURST_SIZE := 8, m + TDMA_RING_REG_BASE + DMA_START_ADDR := 0,
       m + TDMA_READ_PTR := 0, m + TDMA_WRITE_PTR := 0, m + TDMA_RING_REG_BASE + DMA_END_ADDR := 767,
       m + TDMA_RING_REG_BASE + DMA_MBUF_DONE_THRESH := 1, m + TDMA_FLOW_PERIOD := 0,
       m + TDMA_RING_REG_BASE + DMA_RING_BUF_SIZE := 0x1000800, m + TDMA_REG_BASE + DMA_RING_CFG := 0x10000)) b"
    using assms b by (cases "bit (peek (hw s) (m + (TDMA_REG_BASE + DMA_CTRL))) 0")
      (auto simp: tx_ring_init_def case_prod_beta writel_peek readl_value keep resets_def doorbell_def reg_vals
        genet_shift_defs genet_val_defs Let_def add.assoc)
next
  show "tx_index (snd (run_state (tx_ring_init e) s)) =
       peek (hw (snd (run_state (tx_ring_init e) s))) (m + TDMA_PROD_INDEX) AND 0xFF"
    using assms by (simp add: tx_ring_init_def case_prod_beta writel_peek readl_value keep resets_def doorbell_def reg_vals
      genet_shift_defs genet_val_defs Let_def add.assoc)
qed

end

section \<open>The registers after a start\<close>

definition rx_regs :: "u64 \<Rightarrow> u64 set" where
  "rx_regs m = insert (m + RDMA_PROD_INDEX) (insert (m + RDMA_CONS_INDEX) (rx_desc_regs m))"

definition ctl_regs :: "u64 \<Rightarrow> u64 set" where
  "ctl_regs m =
     {m + UMAC_CMD, m + UMAC_MAC0, m + UMAC_MAC1,
      m + RDMA_REG_BASE + DMA_CTRL, m + RDMA_REG_BASE + DMA_RING_CFG, m + RDMA_RING_REG_BASE + DMA_START_ADDR,
      m + RDMA_RING_REG_BASE + DMA_END_ADDR, m + RDMA_RING_REG_BASE + DMA_RING_BUF_SIZE, m + RDMA_WRITE_PTR,
      m + TDMA_REG_BASE + DMA_CTRL, m + TDMA_REG_BASE + DMA_RING_CFG, m + TDMA_RING_REG_BASE + DMA_START_ADDR,
      m + TDMA_RING_REG_BASE + DMA_END_ADDR, m + TDMA_READ_PTR, m + TDMA_PROD_INDEX}"

definition mac_set :: "u64 \<Rightarrow> (u64 \<Rightarrow> u32) \<Rightarrow> (nat \<Rightarrow> u8) \<Rightarrow> bool" where
  "mac_set m P a \<longleftrightarrow>
     (\<forall>i<4. ucast (drop_bit (24 - 8 * i) (P (m + UMAC_MAC0))) = a i) \<and>
     ucast (drop_bit 8 (P (m + UMAC_MAC1))) = a 4 \<and> ucast (P (m + UMAC_MAC1)) = a 5 \<and>
     drop_bit 16 (P (m + UMAC_MAC1)) = 0"

definition rx_ring_set :: "u64 \<Rightarrow> (u64 \<Rightarrow> u32) \<Rightarrow> u64 \<Rightarrow> bool" where
  "rx_ring_set m P buf \<longleftrightarrow>
     P (m + RDMA_RING_REG_BASE + DMA_START_ADDR) = 0 \<and> P (m + RDMA_RING_REG_BASE + DMA_END_ADDR) = 767 \<and>
     P (m + RDMA_WRITE_PTR) = 0 \<and> P (m + RDMA_RING_REG_BASE + DMA_RING_BUF_SIZE) = 0x1000800 \<and>
     (\<forall>i<256. let d = m + GENET_RX_OFF + of_nat (12 * i) in
        (push_bit 32 (ucast (P (d + DMA_DESC_ADDRESS_HI))) OR ucast (P (d + DMA_DESC_ADDRESS_LO)) = buf + of_nat (2048 * i)) \<and>
        extract32 (P (d + DMA_DESC_LENGTH_STATUS)) 16 12 = RX_BUF_LENGTH \<and>
        P (d + DMA_DESC_LENGTH_STATUS) AND DMA_OWN \<noteq> 0)"

definition tx_ring_set :: "u64 \<Rightarrow> (u64 \<Rightarrow> u32) \<Rightarrow> bool" where
  "tx_ring_set m P \<longleftrightarrow>
     P (m + TDMA_RING_REG_BASE + DMA_START_ADDR) = 0 \<and> P (m + TDMA_RING_REG_BASE + DMA_END_ADDR) = 767 \<and>
     P (m + TDMA_READ_PTR) = 0"

definition dma_on :: "u64 \<Rightarrow> (u64 \<Rightarrow> u32) \<Rightarrow> bool" where
  "dma_on m P \<longleftrightarrow>
     P (m + TDMA_REG_BASE + DMA_RING_CFG) = push_bit DEFAULT_Q 1 \<and> P (m + RDMA_REG_BASE + DMA_RING_CFG) = push_bit DEFAULT_Q 1 \<and>
     P (m + TDMA_REG_BASE + DMA_CTRL) = 0x20001 \<and> P (m + RDMA_REG_BASE + DMA_CTRL) AND 0x20001 = 0x20001"

lemma mac_set_written:
  assumes "P (m + UMAC_MAC0) = push_bit 24 (ucast (a 0)) OR push_bit 16 (ucast (a 1)) OR push_bit 8 (ucast (a 2)) OR ucast (a 3)"
    "P (m + UMAC_MAC1) = push_bit 8 (ucast (a 4)) OR ucast (a 5)"
  shows "mac_set m P a"
proof -
  have "ucast (drop_bit 24 (P (m + UMAC_MAC0))) = a 0" "ucast (drop_bit 16 (P (m + UMAC_MAC0))) = a 1"
    "ucast (drop_bit 8 (P (m + UMAC_MAC0))) = a 2" "ucast (P (m + UMAC_MAC0)) = a 3"
    "ucast (drop_bit 8 (P (m + UMAC_MAC1))) = a 4" "ucast (P (m + UMAC_MAC1)) = a 5"
    unfolding assms by (rule bit_word_eqI, auto simp: bit_simps dest: bit_imp_le_length)+
  moreover have "drop_bit 16 (P (m + UMAC_MAC1)) = 0"
    unfolding assms by (rule bit_word_eqI) (auto simp: bit_simps u8_bit_ge)
  ultimately show ?thesis by (auto simp: mac_set_def less_4_cases)
qed

lemma join_halves: "push_bit 32 (ucast (ucast (drop_bit 32 x) :: u32)) OR ucast (ucast x :: u32) = (x :: u64)"
  by (rule bit_word_eqI) (auto simp: bit_simps)

lemma rx_desc_word_at:
  assumes "i < 256" "k \<in> {0, 4, 8}"
  shows "rx_desc_word buf (unat (of_nat (12 * i + k) :: u64) div 12) (unat (of_nat (12 * i + k) :: u64) mod 12) =
    rx_desc_word buf i k"
proof -
  have "unat (of_nat (12 * i + k) :: u64) = 12 * i + k"
    using assms by (auto simp: unat_of_nat take_bit_nat_eq_self simp del: of_nat_add of_nat_mult)
  moreover have "(12 * i + k) div 12 = i" "(12 * i + k) mod 12 = k"
    using assms(2) by auto
  ultimately show ?thesis by simp
qed

lemma rx_descs_apart:
  assumes "o' < 0x2000 \<or> 0x2c00 \<le> o'" "i < 256" "k \<in> {0, 4, 8}"
  shows "m + o' \<noteq> m + GENET_RX_OFF + of_nat (12 * i + k)"
proof
  assume "m + o' = m + GENET_RX_OFF + of_nat (12 * i + k)"
  then have "o' = 0x2000 + of_nat (12 * i + k)" by (simp add: GENET_RX_OFF_def add.assoc)
  also have "\<dots> = of_nat (0x2000 + 12 * i + k)" by simp
  finally have "unat o' = 0x2000 + 12 * i + k"
    using assms(2,3) by (auto simp: unat_of_nat take_bit_nat_eq_self simp del: of_nat_add of_nat_mult)
  with assms show False by (auto simp: word_le_nat_alt word_less_nat_alt)
qed

context genet_regs
begin

abbreviation setup_mem :: "'h genet \<Rightarrow> u64 \<Rightarrow> u32" where
  "setup_mem s \<equiv> peek (hw (snd (run_state (start_setup e) s)))"

lemma setup_rx_desc:
  assumes "mac_reg s = m" "rx_regs m \<union> ctl_regs m \<subseteq> R" "i < 256" "k \<in> {0, 4, 8}"
  shows "setup_mem s (m + GENET_RX_OFF + of_nat (12 * i + k)) = rx_desc_word (rxbuffer s) i k"
proof -
  let ?b = "m + GENET_RX_OFF + of_nat (12 * i + k)"
  have "?b \<in> rx_desc_regs m" unfolding rx_desc_regs_def using assms(3,4) by blast
  then have b: "?b \<in> R" using assms(2) unfolding rx_regs_def by blast
  have p: "m + RDMA_PROD_INDEX \<in> R" "m + TDMA_PROD_INDEX \<in> R" "m + (TDMA_REG_BASE + DMA_CTRL) \<in> R"
    using assms(2) unfolding rx_regs_def ctl_regs_def add.assoc by simp_all
  have apart: "?b \<noteq> m + o'" if "o' < 0x2000 \<or> 0x2c00 \<le> o'" for o'
    by (rule not_sym [OF rx_descs_apart [OF that assms(3,4)]])
  have ex: "\<exists>i'<256. \<exists>k'\<in>{0, 4, 8}. ?b = m + GENET_RX_OFF + of_nat (12 * i' + k')"
    using assms(3,4) by blast
  show ?thesis
    using assms(1,3,4) b p ex apart
    by (simp add: start_setup_def case_prod_beta setup_fields ring_init_fields enable_dma_peek tx_ring_init_peek
        rx_descs_init_peek rx_desc_word_at Let_def doorbell_def reg_vals add.assoc del: of_nat_add of_nat_mult)
qed

lemma rx_descs_other:
  assumes "rx_desc_base s = m + GENET_RX_OFF" "m + o' \<in> R" "o' < 0x2000 \<or> 0x2c00 \<le> o'"
  shows "peek (hw (snd (run_state (rx_descs_init e) s))) (m + o') = peek (hw s) (m + o')"
proof -
  have "\<not> (\<exists>i<256. \<exists>k\<in>{0, 4, 8}. m + o' = m + GENET_RX_OFF + of_nat (12 * i + k))"
    using rx_descs_apart [OF assms(3)] by blast
  then show ?thesis by (simp only: rx_descs_init_peek [OF assms(1,2)] if_False)
qed

lemmas setup_simps =
  start_setup_def case_prod_beta setup_fields ring_init_fields enable_dma_peek tx_ring_init_peek rx_descs_other
  rx_ring_init_peek disable_dma_peek write_hwaddr_peek Let_def doorbell_def reg_vals add.assoc

lemma setup_rings:
  assumes "mac_reg s = m" "rx_regs m \<union> ctl_regs m \<subseteq> R"
  shows "rx_ring_set m (setup_mem s) (rxbuffer s)" "tx_ring_set m (setup_mem s)"
proof -
  have mem: "m + RDMA_PROD_INDEX \<in> R" "m + TDMA_PROD_INDEX \<in> R" "m + (RDMA_RING_REG_BASE + DMA_START_ADDR) \<in> R"
    "m + (RDMA_RING_REG_BASE + DMA_END_ADDR) \<in> R" "m + (RDMA_RING_REG_BASE + DMA_RING_BUF_SIZE) \<in> R" "m + RDMA_WRITE_PTR \<in> R"
    "m + (TDMA_RING_REG_BASE + DMA_START_ADDR) \<in> R" "m + (TDMA_RING_REG_BASE + DMA_END_ADDR) \<in> R" "m + TDMA_READ_PTR \<in> R"
    "m + (TDMA_REG_BASE + DMA_CTRL) \<in> R"
    using assms(2) unfolding rx_regs_def ctl_regs_def add.assoc by simp_all
  have desc: "setup_mem s (m + GENET_RX_OFF + of_nat (12 * i) + 4) = rx_desc_word (rxbuffer s) i 4"
    "setup_mem s (m + GENET_RX_OFF + of_nat (12 * i) + 8) = rx_desc_word (rxbuffer s) i 8"
    "setup_mem s (m + GENET_RX_OFF + of_nat (12 * i)) = rx_desc_word (rxbuffer s) i 0" if "i < 256" for i
    using setup_rx_desc [OF assms that, of 4] setup_rx_desc [OF assms that, of 8] setup_rx_desc [OF assms that, of 0]
    by (simp_all add: add.assoc)
  have "\<forall>i<256. let d = m + GENET_RX_OFF + of_nat (12 * i) in
      (push_bit 32 (ucast (setup_mem s (d + DMA_DESC_ADDRESS_HI))) OR ucast (setup_mem s (d + DMA_DESC_ADDRESS_LO)) =
         rxbuffer s + of_nat (2048 * i)) \<and>
      extract32 (setup_mem s (d + DMA_DESC_LENGTH_STATUS)) 16 12 = RX_BUF_LENGTH \<and>
      setup_mem s (d + DMA_DESC_LENGTH_STATUS) AND DMA_OWN \<noteq> 0"
    by (simp add: Let_def DMA_DESC_ADDRESS_LO_def DMA_DESC_ADDRESS_HI_def DMA_DESC_LENGTH_STATUS_def desc rx_desc_word_def
        join_halves extract32_def RX_BUF_LENGTH_def DMA_OWN_def del: of_nat_mult)
  with assms(1) mem show "rx_ring_set m (setup_mem s) (rxbuffer s)" "tx_ring_set m (setup_mem s)"
    unfolding rx_ring_set_def tx_ring_set_def by (simp_all add: setup_simps DMA_EN_def bit_simps)
qed

lemma setup_rest:
  assumes "mac_reg s = m" "rx_regs m \<union> ctl_regs m \<subseteq> R"
  shows "mac_set m (setup_mem s) (enetaddr (plat s))" "dma_on m (setup_mem s)"
    "c_index (snd (run_state (start_setup e) s)) = setup_mem s (m + RDMA_PROD_INDEX)"
    "setup_mem s (m + RDMA_CONS_INDEX) = setup_mem s (m + RDMA_PROD_INDEX)"
    "tx_index (snd (run_state (start_setup e) s)) = setup_mem s (m + TDMA_PROD_INDEX) AND 0xFF"
proof -
  have mem: "m + RDMA_PROD_INDEX \<in> R" "m + RDMA_CONS_INDEX \<in> R" "m + TDMA_PROD_INDEX \<in> R" "m + UMAC_MAC0 \<in> R" "m + UMAC_MAC1 \<in> R"
    "m + (RDMA_REG_BASE + DMA_CTRL) \<in> R" "m + (RDMA_REG_BASE + DMA_RING_CFG) \<in> R"
    "m + (TDMA_REG_BASE + DMA_CTRL) \<in> R" "m + (TDMA_REG_BASE + DMA_RING_CFG) \<in> R"
    using assms(2) unfolding rx_regs_def ctl_regs_def add.assoc by simp_all
  show "mac_set m (setup_mem s) (enetaddr (plat s))"
    using assms(1) mem by (intro mac_set_written) (simp_all add: setup_simps DMA_EN_def bit_simps)
  show "dma_on m (setup_mem s)"
    using assms(1) mem by (simp add: dma_on_def setup_simps DMA_EN_def bit_simps DEFAULT_Q_def or_and_absorb)
  show "c_index (snd (run_state (start_setup e) s)) = setup_mem s (m + RDMA_PROD_INDEX)"
    "setup_mem s (m + RDMA_CONS_INDEX) = setup_mem s (m + RDMA_PROD_INDEX)"
    "tx_index (snd (run_state (start_setup e) s)) = setup_mem s (m + TDMA_PROD_INDEX) AND 0xFF"
    using assms(1) mem by (simp_all add: setup_simps DMA_EN_def bit_simps)
qed

end

definition configured :: "u64 \<Rightarrow> (u64 \<Rightarrow> u32) \<Rightarrow> 'h genet \<Rightarrow> bool" where
  "configured m P s \<longleftrightarrow>
     mac_set m P (enetaddr (plat s)) \<and> rx_ring_set m P (rxbuffer s) \<and> tx_ring_set m P \<and> dma_on m P \<and>
     P (m + RDMA_PROD_INDEX) = c_index s \<and> P (m + RDMA_CONS_INDEX) = c_index s \<and>
     tx_index s = P (m + TDMA_PROD_INDEX) AND 0xFF"

lemma configured_cong:
  assumes P: "\<And>b. b \<in> rx_regs m \<union> ctl_regs m \<Longrightarrow> b \<noteq> m + UMAC_CMD \<Longrightarrow> P' b = P b"
    and conf: "configured m P s"
    and eq: "plat s' = plat s" "rxbuffer s' = rxbuffer s" "c_index s' = c_index s" "tx_index s' = tx_index s"
  shows "configured m P' s'"
proof -
  have ctl: "P' b = P b" if "b \<in> {m + UMAC_MAC0, m + UMAC_MAC1, m + RDMA_PROD_INDEX, m + RDMA_CONS_INDEX, m + TDMA_PROD_INDEX,
      m + (RDMA_REG_BASE + DMA_CTRL), m + (RDMA_REG_BASE + DMA_RING_CFG), m + (RDMA_RING_REG_BASE + DMA_START_ADDR),
      m + (RDMA_RING_REG_BASE + DMA_END_ADDR), m + (RDMA_RING_REG_BASE + DMA_RING_BUF_SIZE), m + RDMA_WRITE_PTR,
      m + (TDMA_REG_BASE + DMA_CTRL), m + (TDMA_REG_BASE + DMA_RING_CFG), m + (TDMA_RING_REG_BASE + DMA_START_ADDR),
      m + (TDMA_RING_REG_BASE + DMA_END_ADDR), m + TDMA_READ_PTR}" for b
  proof (rule P)
    show "b \<in> rx_regs m \<union> ctl_regs m" using that unfolding rx_regs_def ctl_regs_def add.assoc by blast
    show "b \<noteq> m + UMAC_CMD" using that by (auto simp: reg_vals)
  qed
  have desc: "P' b = P b" if "b \<in> rx_desc_regs m" for b
  proof (rule P)
    show "b \<in> rx_regs m \<union> ctl_regs m" using that unfolding rx_regs_def by blast
    from that obtain i k where "i < 256" "k \<in> {0, 4, 8}" "b = m + GENET_RX_OFF + of_nat (12 * i + k)"
      unfolding rx_desc_regs_def by blast
    moreover have "UMAC_CMD < 0x2000 \<or> 0x2c00 \<le> UMAC_CMD" by (simp add: reg_vals)
    ultimately show "b \<noteq> m + UMAC_CMD" using rx_descs_apart [of UMAC_CMD i k m] by metis
  qed
  show ?thesis
    using conf unfolding configured_def mac_set_def rx_ring_set_def tx_ring_set_def dma_on_def eq
    by (simp add: ctl desc Let_def add.assoc DMA_DESC_ADDRESS_LO_def DMA_DESC_ADDRESS_HI_def DMA_DESC_LENGTH_STATUS_def
        rx_desc_regs_mem [unfolded add.assoc] del: of_nat_mult)
qed

context genet_regs
begin

lemma setup_configured:
  assumes "mac_reg s = m" "rx_regs m \<union> ctl_regs m \<subseteq> R"
  shows "configured m (setup_mem s) (snd (run_state (start_setup e) s))"
proof -
  have "plat (snd (run_state (start_setup e) s)) = plat s" "rxbuffer (snd (run_state (start_setup e) s)) = rxbuffer s"
    using start_setup_own [of e s] by auto
  then show ?thesis
    using setup_rings [OF assms] setup_rest [OF assms] by (simp add: configured_def)
qed

lemma adjust_link_result:
  "fst (run_state (bcmgenet_adjust_link e) s) =
     (if umac_speed e (phy_speed (phys s (phydev s))) = None then - EINVAL else 0)"
  by (simp add: bcmgenet_adjust_link_def split: option.split)

lemma adjust_link_peek:
  assumes "mac_reg s = m" "b \<in> R" "b \<noteq> m + EXT_RGMII_OOB_CTRL"
  shows "peek (hw (snd (run_state (bcmgenet_adjust_link e) s))) b =
    (case umac_speed e (phy_speed (phys s (phydev s))) of
       None \<Rightarrow> peek (hw s) b
     | Some sp \<Rightarrow> if b = m + UMAC_CMD then push_bit 2 sp else peek (hw s) b)"
proof -
  have "\<not> resets m (m + UMAC_CMD) (push_bit 2 sp)" if "umac_speed e x = Some sp" for x sp
    using that by (auto simp: resets_def umac_speed_def UMAC_SPEED_1000_def UMAC_SPEED_100_def UMAC_SPEED_10_def
        bit_simps split: if_splits)
  moreover have "EXT_RGMII_OOB_CTRL \<noteq> UMAC_CMD" "EXT_RGMII_OOB_CTRL \<noteq> TDMA_PROD_INDEX" "UMAC_CMD \<noteq> TDMA_PROD_INDEX"
    by (simp_all add: reg_vals)
  ultimately show ?thesis
    using assms by (auto simp: bcmgenet_adjust_link_def writel_peek rmw_peek doorbell_def CMD_SPEED_SHIFT_def split: option.split)
qed

end

end
