(* ===== verification/Uboot_Drain.thy ===== *)
theory Uboot_Drain
  imports Uboot_Regs
begin

text \<open>
  Receiving in a loop: what one \<open>recv\<close>/\<open>free_pkt\<close> pair does to the ring registers, and the result of
  draining the ring over registers that keep what is written to them.
\<close>

section \<open>Draining the receive ring\<close>

text \<open>
  The loop of a client of \<open>recv\<close> and \<open>free_pkt\<close>: receive until there is nothing left, at most \<open>n\<close>
  times; lengths and addresses in the order received.
\<close>

primrec drain :: "'h uboot_env \<Rightarrow> nat \<Rightarrow> ('h, (u32 \<times> u64) list) drv" where
  "drain e 0 = ret []"
| "drain e (Suc n) = do {
     (len, p) \<leftarrow> bcmgenet_gmac_eth_recv e;
     (case p of
        None \<Rightarrow> ret []
      | Some a \<Rightarrow> do {
          bcmgenet_gmac_free_pkt e;
          ps \<leftarrow> drain e n;
          ret ((len, a) # ps)
        })
   }"

definition rx_packet :: "u64 \<Rightarrow> (u64 \<Rightarrow> u32) \<Rightarrow> nat \<Rightarrow> u32 \<times> u64" where
  "rx_packet m P i =
     (let d = m + GENET_RX_OFF + of_nat (12 * i) in
      (extract32 (P (d + DMA_DESC_LENGTH_STATUS)) 16 12 - RX_BUF_OFFSET, ucast (P (d + DMA_DESC_ADDRESS_LO)) + ucast RX_BUF_OFFSET))"

lemma extract_length: "drop_bit DMA_BUFLENGTH_SHIFT w AND DMA_BUFLENGTH_MASK = extract32 w 16 12"
  by (simp add: DMA_BUFLENGTH_SHIFT_def DMA_BUFLENGTH_MASK_def extract32_def take_bit_eq_mask mask_eq_exp_minus_1)

context genet_regs
begin

lemma recv_run:
  assumes "mac_reg s = m" "rx_regs m \<subseteq> R" "ring_inv s"
  obtains h where "\<And>b. b \<in> R \<Longrightarrow> peek h b = peek (hw s) b"
    "run_state (bcmgenet_gmac_eth_recv e) s =
       (if peek (hw s) (m + RDMA_PROD_INDEX) = c_index s then (- EAGAIN, None)
        else map_prod id Some (rx_packet m (peek (hw s)) (unat (c_index s) mod 256)), s\<lparr>hw := h\<rparr>)"
proof -
  let ?i = "unat (c_index s) mod 256"
  have d: "desc_addr (rx_desc_base s) (rx_index s) = m + GENET_RX_OFF + of_nat (12 * ?i)"
    using assms(1,3) by (simp add: desc_addr_index ring_inv_def)
  have mem: "m + RDMA_PROD_INDEX \<in> R" "m + GENET_RX_OFF + of_nat (12 * ?i) \<in> R" "m + GENET_RX_OFF + of_nat (12 * ?i) + 4 \<in> R"
    using assms(2) rx_desc_regs_mem [of ?i m] unfolding rx_regs_def by auto
  show thesis
    by (rule that [of "hw (snd (run_state (bcmgenet_gmac_eth_recv e) s))"])
      (use assms(1) mem in \<open>simp_all add: bcmgenet_gmac_eth_recv_def d case_prod_beta readl_value keep
        invalidate_dcache_check_def Let_def extract_length rx_packet_def DMA_DESC_LENGTH_STATUS_def DMA_DESC_ADDRESS_LO_def
        del: of_nat_mult\<close>)
qed

lemma free_pkt_run:
  assumes "mac_reg s = m"
  obtains h where "\<And>b. b \<in> R \<Longrightarrow> peek h b = ((peek (hw s))(m + RDMA_CONS_INDEX := (c_index s + 1) AND 0xFFFF)) b"
    "run_state (bcmgenet_gmac_free_pkt e) s =
       (0, s\<lparr>c_index := (c_index s + 1) AND 0xFFFF, hw := h, rx_index := next_index RX_DESCS (rx_index s)\<rparr>)"
  by (rule that [of "hw (snd (run_state (bcmgenet_gmac_free_pkt e) s))"])
    (use assms in \<open>simp_all add: bcmgenet_gmac_free_pkt_def case_prod_beta writel_peek resets_def doorbell_def reg_vals keep\<close>)

lemma rx_packet_cong:
  assumes "\<And>b. b \<in> rx_desc_regs m \<Longrightarrow> P' b = P b"
  shows "rx_packet m P' (i mod 256) = rx_packet m P (i mod 256)"
  using rx_desc_regs_mem [of "i mod 256" m] assms
  by (simp add: rx_packet_def Let_def DMA_DESC_LENGTH_STATUS_def DMA_DESC_ADDRESS_LO_def del: of_nat_mult)

lemma cons_not_desc: "m + RDMA_CONS_INDEX \<notin> rx_desc_regs m"
proof
  assume "m + RDMA_CONS_INDEX \<in> rx_desc_regs m"
  then obtain i k where "i < 256" "k \<in> {0, 4, 8}" "m + RDMA_CONS_INDEX = m + GENET_RX_OFF + of_nat (12 * i + k)"
    unfolding rx_desc_regs_def by blast
  moreover have "RDMA_CONS_INDEX < 0x2000 \<or> 0x2c00 \<le> RDMA_CONS_INDEX" by (simp add: reg_vals)
  ultimately show False using rx_descs_apart by blast
qed

lemma recv_free_step:
  assumes "mac_reg s = m" "rx_regs m \<subseteq> R" "ring_inv s" "unat (c_index s) < 65536"
    "peek (hw s) (m + RDMA_PROD_INDEX) \<noteq> c_index s"
  obtains s1 s' where
    "run_state (bcmgenet_gmac_eth_recv e) s = (map_prod id Some (rx_packet m (peek (hw s)) (unat (c_index s) mod 256)), s1)"
    "run_state (bcmgenet_gmac_free_pkt e) s1 = (0, s')"
    "mac_reg s' = m" "ring_inv s'" "unat (c_index s') = (unat (c_index s) + 1) mod 65536"
    "peek (hw s') (m + RDMA_PROD_INDEX) = peek (hw s) (m + RDMA_PROD_INDEX)" "peek (hw s') (m + RDMA_CONS_INDEX) = c_index s'"
    "\<And>b. b \<in> rx_desc_regs m \<Longrightarrow> peek (hw s') b = peek (hw s) b"
proof -
  have mem: "m + RDMA_PROD_INDEX \<in> R" "m + RDMA_CONS_INDEX \<in> R" "rx_desc_regs m \<subseteq> R"
    using assms(2) by (auto simp: rx_regs_def)
  obtain h where h: "\<And>b. b \<in> R \<Longrightarrow> peek h b = peek (hw s) b"
    and recv: "run_state (bcmgenet_gmac_eth_recv e) s =
        (map_prod id Some (rx_packet m (peek (hw s)) (unat (c_index s) mod 256)), s\<lparr>hw := h\<rparr>)"
    using recv_run [OF assms(1-3)] assms(5) by auto
  obtain h' where h': "\<And>b. b \<in> R \<Longrightarrow> peek h' b = ((peek h)(m + RDMA_CONS_INDEX := (c_index s + 1) AND 0xFFFF)) b"
    and free: "run_state (bcmgenet_gmac_free_pkt e) (s\<lparr>hw := h\<rparr>) =
        (0, s\<lparr>c_index := (c_index s + 1) AND 0xFFFF, hw := h', rx_index := next_index RX_DESCS (rx_index s)\<rparr>)"
    using free_pkt_run [of "s\<lparr>hw := h\<rparr>"] assms(1) by auto
  show thesis
  proof (rule that [OF recv free])
    show "ring_inv (s\<lparr>c_index := (c_index s + 1) AND 0xFFFF, hw := h', rx_index := next_index RX_DESCS (rx_index s)\<rparr>)"
      using ring_inv_free_pkt [of "s\<lparr>hw := h\<rparr>" e] assms(3) by (simp add: free ring_inv_def)
  next
    fix b assume "b \<in> rx_desc_regs m"
    then show "peek (hw (s\<lparr>c_index := (c_index s + 1) AND 0xFFFF, hw := h', rx_index := next_index RX_DESCS (rx_index s)\<rparr>)) b =
        peek (hw s) b"
      using mem(3) cons_not_desc h h' by auto
  qed (use assms(1,4) mem in \<open>simp_all add: and_ffff unat_word_ariths h h' reg_vals\<close>)
qed

lemma drain_run:
  assumes "mac_reg s = m" "rx_regs m \<subseteq> R" "ring_inv s" "unat (c_index s) < 65536" "n < 65536"
    "unat (peek (hw s) (m + RDMA_PROD_INDEX)) = (unat (c_index s) + n) mod 65536" "n < f"
  shows "fst (run_state (drain e f) s) = map (\<lambda>j. rx_packet m (peek (hw s)) ((unat (c_index s) + j) mod 256)) [0..<n] \<and>
    c_index (snd (run_state (drain e f) s)) = peek (hw s) (m + RDMA_PROD_INDEX) \<and>
    peek (hw (snd (run_state (drain e f) s))) (m + RDMA_CONS_INDEX) =
      peek (hw s) (if n = 0 then m + RDMA_CONS_INDEX else m + RDMA_PROD_INDEX)"
  using assms
proof (induction f arbitrary: s n)
  case 0
  then show ?case by simp
next
  case (Suc f)
  note prems = Suc.prems and IH = Suc.IH
  let ?p = "peek (hw s) (m + RDMA_PROD_INDEX)"
  have mem: "m + RDMA_CONS_INDEX \<in> R" using prems(2) by (simp add: rx_regs_def)
  show ?case
  proof (cases n)
    case 0
    with prems(4,6) have "?p = c_index s" by (simp add: word_unat_eq_iff)
    then show ?thesis by - (rule recv_run [OF prems(1-3)], simp add: 0 mem)
  next
    case (Suc n')
    have "?p \<noteq> c_index s"
      using prems(4-6) Suc by (auto simp: mod_if split: if_splits)
    then obtain s1 s' where
      step: "run_state (bcmgenet_gmac_eth_recv e) s = (map_prod id Some (rx_packet m (peek (hw s)) (unat (c_index s) mod 256)), s1)"
        "run_state (bcmgenet_gmac_free_pkt e) s1 = (0, s')"
      and mac: "mac_reg s' = m" and inv: "ring_inv s'" and c: "unat (c_index s') = (unat (c_index s) + 1) mod 65536"
      and prod: "peek (hw s') (m + RDMA_PROD_INDEX) = ?p" and cons: "peek (hw s') (m + RDMA_CONS_INDEX) = c_index s'"
      and desc: "\<And>b. b \<in> rx_desc_regs m \<Longrightarrow> peek (hw s') b = peek (hw s) b"
      using recv_free_step [OF prems(1-4)] by metis
    have up: "unat (peek (hw s') (m + RDMA_PROD_INDEX)) = (unat (c_index s') + n') mod 65536"
      using prems(6) Suc by (simp add: prod c mod_simps)
    have last: "c_index s' = ?p" if "n' = 0"
      using up that by (simp add: word_unat_eq_iff prod c)
    have "unat (c_index s') < 65536" "n' < 65536" "n' < f"
      using prems Suc by (simp_all add: c)
    note ih = IH [OF mac prems(2) inv this(1,2) up this(3)]
    have shift: "rx_packet m (peek (hw s')) ((unat (c_index s') + j) mod 256) =
        rx_packet m (peek (hw s)) ((unat (c_index s) + Suc j) mod 256)" for j
    proof -
      have "(unat (c_index s) + 1) mod 65536 mod 256 = (unat (c_index s) + 1) mod 256"
        by (simp add: mod_mod_cancel)
      then have "(unat (c_index s') + j) mod 256 = (unat (c_index s) + Suc j) mod 256"
        unfolding c by (metis add_Suc_right add_Suc_shift mod_add_left_eq Suc_eq_plus1)
      then show ?thesis using rx_packet_cong [of "peek (hw s')" "peek (hw s)"] desc by simp
    qed
    have "run_state (drain e (Suc f)) s =
        (rx_packet m (peek (hw s)) (unat (c_index s) mod 256) # fst (run_state (drain e f) s'), snd (run_state (drain e f) s'))"
      by (simp add: step case_prod_beta map_prod_def)
    then show ?thesis
      using ih Suc last cons by (auto simp: shift map_upt_Suc prod simp del: upt_Suc drain.simps)
  qed
qed

end

end
