(* ===== verification/Uboot_Props.thy ===== *)
theory Uboot_Props
  imports Uboot_Drain
begin

text \<open>
  The properties of the U-Boot driver: the transmit path on arbitrary hardware, the descriptor it
  posts, the failure after the producer index has wrapped, the ring invariant, the state after a
  start, in-order reception, and the outcomes of probing.
\<close>

section \<open>A concrete driver instance\<close>

text \<open>
  A driver on a plain register file with its registers at address 0, a PHY that negotiated
  1000 Mbit/s, two received frames waiting and the transmit consumer index at 8.
\<close>

definition demo_env :: "(u64 \<Rightarrow> u32) uboot_env" where
  "demo_env = regfile_env \<lparr>
     io_readl = (\<lambda>a h. (h a, h)), io_writel = (\<lambda>v a h. h(a := v)),
     io_readl_relaxed = (\<lambda>a h. (h a, h)), io_writel_relaxed = (\<lambda>v a h. h(a := v)),
     io_clrbits_32 = (\<lambda>a c h. h), io_setbits_32 = (\<lambda>a c h. h), io_clrsetbits_32 = (\<lambda>a c d h. h),
     io_udelay = (\<lambda>_ h. h), io_flush_dcache_range = (\<lambda>_ _ h. h), io_invalidate_dcache_range = (\<lambda>_ _ h. h),
     io_wait_for_bit_32 = (\<lambda>a mask set t b h. (0, h)),
     io_phy_startup = (\<lambda>p ps h. (0, ps, h)),
     io_phy_connect = (\<lambda>b a d i ps h. (0x77, ps, h)),
     io_phy_set_supported = (\<lambda>p sp ps. (0, ps)), io_phy_config = (\<lambda>p ps h. (ps, h)),
     io_mdio_alloc = (\<lambda>h. (0x55, h)), io_mdio_register = (\<lambda>b d h. (0, h)),
     io_miiphy_get_dev_by_name = (\<lambda>n h. 0x55), io_map_physmem = (\<lambda>a n. a), snprintf_name = id,
     mdio_node_name = ''mdio'', dev_read_addr = 0, dev_read_phy_mode = 8,
     dev_read_phandle = (\<lambda>_. (0, \<lambda>_. None)), dev_ptr = 1,
     roundup = (\<lambda>x y. x), rounddown = (\<lambda>x y. x), ARCH_DMA_MINALIGN = 64,
     SPEED_1000 = 1000, SPEED_100 = 100, SPEED_10 = 10,
     PHY_INTERFACE_MODE_NA = 0, PHY_INTERFACE_MODE_RGMII = 8, PHY_INTERFACE_MODE_RGMII_RXID = 10,
     PHY_GBIT_FEATURES = 0x2ff\<rparr>"

definition demo_hw :: "u64 \<Rightarrow> u32" where
  "demo_hw = (\<lambda>_. 0)
     (SYS_REV_CTRL := 0x06000000, RDMA_PROD_INDEX := 2,
      GENET_RX_OFF := 0x003c6000, GENET_RX_OFF + 4 := 0x1000,
      GENET_RX_OFF + 12 := 0x00646000, GENET_RX_OFF + 16 := 0x1800,
      TDMA_PROD_INDEX := 7, TDMA_CONS_INDEX := 8)"

definition demo_genet :: "(u64 \<Rightarrow> u32) genet" where
  "demo_genet = \<lparr>rxbuffer = 0x100001000, mac_reg = 0, tx_desc_base = GENET_TX_OFF, rx_desc_base = GENET_RX_OFF,
     tx_index = 7, rx_index = 0, c_index = 0, phyaddr = 1, interface = 8, speed = 0, phydev = 0x77, bus = 0,
     plat = \<lparr>iobase = 0, enetaddr = of_nat, plat_phy_interface = 8, max_speed = 0\<rparr>,
     phys = (\<lambda>_. \<lparr>phy_speed = 1000, phy_interface = 8, phy_supported = 0x3ff, phy_advertising = 0\<rparr>),
     buses = (\<lambda>_. \<lparr>bus_read = Mii_unset, bus_write = Mii_unset, bus_name = [], bus_priv = 0\<rparr>),
     hw = demo_hw\<rparr>"

lemma demo_genet_regs: "genet_regs demo_env (\<lambda>h a. h a) R m"
  unfolding demo_env_def by (rule regfile_genet_regs)

lemma demo_genet_simps [simp]:
  "mac_reg demo_genet = 0" "hw demo_genet = demo_hw" "c_index demo_genet = 0" "tx_index demo_genet = 7"
  "tx_desc_base demo_genet = GENET_TX_OFF" "phydev demo_genet = 0x77" "speed demo_genet = 0" "interface demo_genet = 8"
  by (simp_all add: demo_genet_def)

lemma demo_ring_inv: "ring_inv demo_genet"
  by (simp add: ring_inv_def demo_genet_def)

lemma demo_io_readl [simp]: "io_readl demo_env a h = (h a, h)" "io_readl_relaxed demo_env a h = (h a, h)"
  by (simp_all add: demo_env_def regfile_env_def)

lemma demo_phy_startup [simp]: "io_phy_startup demo_env p ps h = (0, ps, h)"
  by (simp add: demo_env_def regfile_env_def)

lemma demo_umac_speed: "umac_speed demo_env (phy_speed (phys demo_genet p)) = Some 2"
  by (simp add: demo_env_def regfile_env_def umac_speed_def demo_genet_def UMAC_SPEED_1000_def)

lemma demo_prod_index: "demo_hw TDMA_PROD_INDEX = 7"
  by (simp add: demo_hw_def reg_vals)

section \<open>The descriptor of a frame\<close>

lemma tx_desc_apart:
  assumes "i < 256" "k \<le> 8" "unat o' < 0x4000 \<or> 0x4c00 \<le> unat o'"
  shows "m + GENET_TX_OFF + of_nat (12 * i) + k \<noteq> m + o'"
proof
  assume "m + GENET_TX_OFF + of_nat (12 * i) + k = m + o'"
  then have "unat o' = unat (GENET_TX_OFF + (of_nat (12 * i) + k))" by (simp add: add.assoc)
  moreover have "unat k \<le> 8" using assms(2) by (simp add: word_le_nat_alt)
  then have "unat (GENET_TX_OFF + (of_nat (12 * i) + k)) = 0x4000 + 12 * i + unat k"
    using assms(1) by (simp add: unat_word_ariths unat_of_nat take_bit_nat_eq_self reg_vals)
  ultimately show False using assms(1,3) \<open>unat k \<le> 8\<close> by auto
qed

context genet_regs
begin

lemma tx_prepared_peek:
  assumes "mac_reg s = m" "ring_inv s"
    and d: "d = m + GENET_TX_OFF + of_nat (12 * unat (tx_index s))" and b: "b \<in> R"
  shows "peek (tx_prepared e packet len s) b =
    ((peek (hw s))(d + DMA_DESC_ADDRESS_LO := ucast packet, d + DMA_DESC_ADDRESS_HI := ucast (drop_bit 32 packet),
       d + DMA_DESC_LENGTH_STATUS := tx_len_stat len)) b"
proof -
  have i: "unat (tx_index s) < 256" using assms(2) by (simp add: ring_inv_def)
  have da: "desc_addr (tx_desc_base s) (tx_index s) = d"
    using assms by (simp add: desc_addr_index ring_inv_def)
  have "\<not> resets m (d + k) v" "\<not> doorbell m P (d + k) b" if "k \<le> 8" for k v P
    using tx_desc_apart [OF i that, of UMAC_CMD] tx_desc_apart [OF i that, of TDMA_PROD_INDEX]
    by (simp_all add: resets_def doorbell_def d reg_vals)
  from this [of 0] this [of 4] this [of 8] b show ?thesis
    by (simp add: tx_prepared_def Let_def da writel_peek keep DMA_DESC_ADDRESS_LO_def DMA_DESC_ADDRESS_HI_def
        DMA_DESC_LENGTH_STATUS_def)
qed

end

lemma tx_len_stat_fields:
  "extract32 (tx_len_stat len) 16 12 = take_bit 12 len"
  "tx_len_stat len AND (DMA_SOP OR DMA_EOP OR DMA_TX_APPEND_CRC) = DMA_SOP OR DMA_EOP OR DMA_TX_APPEND_CRC"
proof -
  have "\<not> bit (take_bit 15 (0x7fc0 :: u32)) (16 + n)" for n
    by (simp only: bit_take_bit_iff) simp
  then have "\<not> bit (0x7fc0 :: u32) (16 + n)" for n
    by simp
  then show "extract32 (tx_len_stat len) 16 12 = take_bit 12 len"
    by (intro bit_word_eqI) (auto simp: tx_len_stat_def bits_simps bit_simps genet_shift_defs genet_val_defs)
  show "tx_len_stat len AND (DMA_SOP OR DMA_EOP OR DMA_TX_APPEND_CRC) = DMA_SOP OR DMA_EOP OR DMA_TX_APPEND_CRC"
    unfolding tx_len_stat_def by (rule bit_word_eqI) (auto simp: bit_simps)
qed

section \<open>Sending past the last producer index\<close>

primrec send_all :: "'h uboot_env \<Rightarrow> (u64 \<times> u32) list \<Rightarrow> ('h, u32 list) drv" where
  "send_all e [] = ret []"
| "send_all e (f # fs) = do { r \<leftarrow> bcmgenet_gmac_eth_send e (fst f) (snd f); rs \<leftarrow> send_all e fs; ret (r # rs) }"

lemma send_past_wrap:
  assumes "fst (io_readl e (mac_reg s + TDMA_PROD_INDEX) (hw s)) = p" "0xffff \<le> unat p" "unat p + 1 < 2 ^ 32"
  shows "fst (run_state (bcmgenet_gmac_eth_send e packet len) s) = - ETIMEDOUT"
proof -
  have "0x10000 \<le> p + 1"
    using assms(2) unat_u32_add [of p 1] assms(3) by (simp add: word_le_nat_alt)
  then have "v AND 0xffff < p + 1" for v
    using and_ffff_lt [of v] by simp
  with assms(1) show ?thesis
    by - (rule send_run [where e = e and s = s and packet = packet and len = len], simp)
qed

context genet_regs
begin

lemma read_steps_keep: "b \<in> R \<Longrightarrow> peek ((read_step e a ^^ j) h) b = peek h b"
  by (induction j) (simp_all add: read_step_def readl_keep)

lemma send_prod_index:
  assumes "mac_reg s = m" "m + TDMA_PROD_INDEX \<in> R"
  shows "peek (hw (snd (run_state (bcmgenet_gmac_eth_send e packet len) s))) (m + TDMA_PROD_INDEX) =
    peek (hw s) (m + TDMA_PROD_INDEX) + 1"
  using assms
  by - (rule send_run [where e = e and s = s and packet = packet and len = len],
    simp add: read_steps_keep tx_rung_def writel_peek resets_def doorbell_def reg_vals readl_value)

lemma send_all_past_wrap:
  assumes "mac_reg s = m" "m + TDMA_PROD_INDEX \<in> R" "0xffff \<le> unat (peek (hw s) (m + TDMA_PROD_INDEX))"
    "unat (peek (hw s) (m + TDMA_PROD_INDEX)) + length fs < 2 ^ 32"
  shows "fst (run_state (send_all e fs) s) = replicate (length fs) (- ETIMEDOUT)"
  using assms
proof (induction fs arbitrary: s)
  case Nil
  show ?case by simp
next
  case (Cons f fs)
  let ?p = "peek (hw s) (m + TDMA_PROD_INDEX)"
  let ?s = "snd (run_state (bcmgenet_gmac_eth_send e (fst f) (snd f)) s)"
  have r: "fst (run_state (bcmgenet_gmac_eth_send e (fst f) (snd f)) s) = - ETIMEDOUT"
    using Cons.prems by (intro send_past_wrap [of e s ?p]) (simp_all add: readl_value)
  have "unat (?p + 1) = unat ?p + 1"
    using Cons.prems(4) unat_u32_add [of ?p 1] by simp
  moreover have "mac_reg ?s = m"
    using send_own [of e "fst f" "snd f" s] Cons.prems(1) by auto
  ultimately have "fst (run_state (send_all e fs) ?s) = replicate (length fs) (- ETIMEDOUT)"
    using Cons.prems send_prod_index [of s "fst f" "snd f"] by (intro Cons.IH) simp_all
  with r show ?case by (simp add: case_prod_beta)
qed

end

section \<open>Bringing up the link\<close>

lemma oob_apart: "m + EXT_RGMII_OOB_CTRL \<notin> rx_regs m \<union> ctl_regs m"
proof -
  have "m + EXT_RGMII_OOB_CTRL \<notin> rx_desc_regs m"
  proof
    assume "m + EXT_RGMII_OOB_CTRL \<in> rx_desc_regs m"
    then obtain i k where "i < 256" "k \<in> {0, 4, 8}" "m + EXT_RGMII_OOB_CTRL = m + GENET_RX_OFF + of_nat (12 * i + k)"
      unfolding rx_desc_regs_def by blast
    moreover have "EXT_RGMII_OOB_CTRL < 0x2000 \<or> 0x2c00 \<le> EXT_RGMII_OOB_CTRL" by (simp add: reg_vals)
    ultimately show False using rx_descs_apart by blast
  qed
  then show ?thesis by (simp add: rx_regs_def ctl_regs_def reg_vals add.assoc)
qed

lemma umac_speed_bits: "umac_speed e x = Some sp \<Longrightarrow> \<not> bit (push_bit 2 sp OR 3) 13"
  by (auto simp: umac_speed_def UMAC_SPEED_1000_def UMAC_SPEED_100_def UMAC_SPEED_10_def split: if_splits)

context genet_regs
begin

lemma setbits_cmd:
  assumes "m + UMAC_CMD \<in> R" "b \<in> R" "\<not> bit (peek h (m + UMAC_CMD) OR c) 13"
  shows "peek (io_setbits_32 e (m + UMAC_CMD) c h) b = (if b = m + UMAC_CMD then peek h b OR c else peek h b)"
  using assms by (auto simp: setbits case_prod_beta readl_value writel_peek resets_def doorbell_def readl_keep reg_vals)

lemma start_link_regs:
  assumes mac: "mac_reg s = m" and R: "rx_regs m \<union> ctl_regs m \<subseteq> R" and conf: "configured m (peek (hw s)) s"
    and keeps: "\<And>b. b \<in> R \<Longrightarrow> peek h b = peek (hw s) b"
    and phy: "io_phy_startup e (phydev s) (phys s) (hw s) = (pr, ps, h)"
    and sp: "sp = umac_speed e (phy_speed (ps (phydev s)))"
    and run: "run_state (start_link e) s = (r, s')"
  shows "r = (if pr \<noteq> 0 then pr else if sp = None then - EINVAL else 0)" "configured m (peek (hw s')) s'"
    "r = 0 \<Longrightarrow> peek (hw s') (m + UMAC_CMD) = push_bit 2 (the sp) OR 3"
proof -
  define s1 where "s1 = s\<lparr>phys := ps, hw := h\<rparr>"
  obtain r2 h2 where adj: "run_state (bcmgenet_adjust_link e) s1 = (r2, s1\<lparr>hw := h2\<rparr>)"
    using adjust_link_own [of e s1] by auto
  have s1: "phydev s1 = phydev s" "phys s1 = ps" "mac_reg s1 = m" "hw s1 = h"
    by (simp_all add: s1_def mac)
  have r2: "r2 = (if sp = None then - EINVAL else 0)"
    using adjust_link_result [of s1] by (simp add: adj sp s1)
  have cmd: "m + UMAC_CMD \<in> R" using R by (simp add: ctl_regs_def)
  have h2: "peek h2 b = (if b = m + UMAC_CMD \<and> sp \<noteq> None then push_bit 2 (the sp) else peek (hw s) b)"
    if "b \<in> rx_regs m \<union> ctl_regs m" for b
  proof -
    have "b \<in> R" "b \<noteq> m + EXT_RGMII_OOB_CTRL" using that R oob_apart by blast+
    with adjust_link_peek [of s1 b] show ?thesis
      by (auto simp: adj s1 sp keeps split: option.split)
  qed
  have r: "r = (if pr \<noteq> 0 then pr else r2)" and s': "s' =
      (if pr \<noteq> 0 then s1 else if r2 \<noteq> 0 then s1\<lparr>hw := h2\<rparr>
       else s1\<lparr>hw := io_setbits_32 e (m + UMAC_CMD) (CMD_TX_EN OR CMD_RX_EN) h2\<rparr>)"
    using run mac by (auto simp: start_link_def phy adj [unfolded s1_def] s1_def split: if_splits)
  show "r = (if pr \<noteq> 0 then pr else if sp = None then - EINVAL else 0)"
    by (simp add: r r2)
  have nobit: "\<not> bit (peek h2 (m + UMAC_CMD) OR (CMD_TX_EN OR CMD_RX_EN)) 13" if "sp \<noteq> None"
    using that h2 [of "m + UMAC_CMD"] sp
    by (auto simp: ctl_regs_def CMD_TX_EN_def CMD_RX_EN_def dest: umac_speed_bits)
  have some: "sp \<noteq> None" if "r2 = 0" using that r2 by (auto simp: EINVAL_def split: if_splits)
  show "configured m (peek (hw s')) s'"
  proof (rule configured_cong [OF _ conf])
    fix b assume b: "b \<in> rx_regs m \<union> ctl_regs m" "b \<noteq> m + UMAC_CMD"
    with R have "b \<in> R" by blast
    with b h2 [OF b(1)] show "peek (hw s') b = peek (hw s) b"
      using setbits_cmd [OF cmd \<open>b \<in> R\<close> nobit] some by (simp add: s' s1_def keeps)
  qed (simp_all add: s' s1_def)
  assume "r = 0"
  then have "pr = 0" "r2 = 0" by (simp_all add: r split: if_splits)
  with some have "sp \<noteq> None" by blast
  with \<open>pr = 0\<close> \<open>r2 = 0\<close> show "peek (hw s') (m + UMAC_CMD) = push_bit 2 (the sp) OR 3"
    using setbits_cmd [OF cmd cmd nobit] h2 [of "m + UMAC_CMD"]
    by (simp add: s' ctl_regs_def CMD_TX_EN_def CMD_RX_EN_def)
qed

end

section \<open>Probing\<close>

lemma phy_init_result:
  assumes "run_state (bcmgenet_phy_init e) s = (r, s')"
  shows "r = 0 \<Longrightarrow> phydev s' \<noteq> 0" "r \<noteq> 0 \<Longrightarrow> phydev s' = phydev s" "buses s' = buses s"
  using assms by (auto simp: bcmgenet_phy_init_def Let_def ENODEV_def split: prod.splits if_splits)

lemma mdio_init_result:
  assumes "run_state (bcmgenet_mdio_init e name priv) s = (r, s')"
  shows "r = 0 \<Longrightarrow> \<exists>b. b \<noteq> 0 \<and> buses s' b = \<lparr>bus_read = Fn_bcmgenet_mdio_read, bus_write = Fn_bcmgenet_mdio_write,
      bus_name = snprintf_name e name, bus_priv = priv\<rparr>" "phydev s' = phydev s"
  using assms by (auto simp: bcmgenet_mdio_init_def Let_def ENOMEM_def split: prod.splits if_splits)

section \<open>Properties\<close>

text \<open>
  C18: Whatever the hardware does, sending a frame writes the address and then the length and status
  of the current transmit descriptor, then the incremented producer index, then polls the consumer
  index at most a hundred times; the driver moves to the next descriptor, and it returns 0 exactly
  when one of the polls shows a consumer index (16 bits) that has reached the new producer index,
  and \<open>-ETIMEDOUT\<close> otherwise.
\<close>

theorem send_posts_then_polls:
  "\<exists>j\<le>100. \<exists>r.
     run_state (bcmgenet_gmac_eth_send e packet len) s =
       (r, s\<lparr>tx_index := next_index TX_DESCS (tx_index s),
             hw := (read_step e (mac_reg s + TDMA_CONS_INDEX) ^^ j) (tx_rung e packet len s)\<rparr>) \<and>
     r \<in> {0, - ETIMEDOUT} \<and>
     (r = 0 \<longleftrightarrow> (\<exists>k<100. fst (io_readl e (mac_reg s + TDMA_PROD_INDEX) (hw s)) + 1
                      \<le> nth_read e (mac_reg s + TDMA_CONS_INDEX) (tx_rung e packet len s) k AND 0xffff))"
proof -
  let ?p = "fst (io_readl e (mac_reg s + TDMA_PROD_INDEX) (hw s)) + 1"
  let ?c = "\<lambda>k. nth_read e (mac_reg s + TDMA_CONS_INDEX) (tx_rung e packet len s) k AND 0xffff"
  obtain j r where j: "j \<le> 100"
    and run: "run_state (bcmgenet_gmac_eth_send e packet len) s =
       (r, s\<lparr>tx_index := next_index TX_DESCS (tx_index s),
             hw := (read_step e (mac_reg s + TDMA_CONS_INDEX) ^^ j) (tx_rung e packet len s)\<rparr>)"
    and r: "r = (if \<forall>k<100. ?c k < ?p then - ETIMEDOUT else 0)"
    by (rule send_run [where e = e and s = s and packet = packet and len = len])
  have "(\<forall>k<100. ?c k < ?p) \<longleftrightarrow> \<not> (\<exists>k<100. ?p \<le> ?c k)"
    by (meson not_less)
  with r have "r \<in> {0, - ETIMEDOUT} \<and> (r = 0 \<longleftrightarrow> (\<exists>k<100. ?p \<le> ?c k))"
    by (simp add: ETIMEDOUT_def)
  with j run show ?thesis by blast
qed

text \<open>
  C26: When the doorbell is rung, the current transmit descriptor, one of the 256 at \<open>GENET_TX_OFF\<close>,
  describes exactly the frame: its two address words make up the packet's address, its length field
  is the length, and it is marked as start and end of a packet with the checksum appended by the MAC.
\<close>

theorem send_descriptor:
  assumes "genet_regs e peek R (mac_reg s)" "ring_inv s" "len < 4096"
    and d: "d = mac_reg s + GENET_TX_OFF + of_nat (12 * unat (tx_index s))" "{d, d + 4, d + 8} \<subseteq> R"
  shows "\<exists>h. \<exists>j\<le>100.
    hw (snd (run_state (bcmgenet_gmac_eth_send e packet len) s)) =
      (read_step e (mac_reg s + TDMA_CONS_INDEX) ^^ j)
        (io_writel e (fst (io_readl e (mac_reg s + TDMA_PROD_INDEX) (hw s)) + 1) (mac_reg s + TDMA_PROD_INDEX) h) \<and>
    unat (tx_index s) < 256 \<and>
    push_bit 32 (ucast (peek h (d + DMA_DESC_ADDRESS_HI))) OR ucast (peek h (d + DMA_DESC_ADDRESS_LO)) = packet \<and>
    extract32 (peek h (d + DMA_DESC_LENGTH_STATUS)) 16 12 = len \<and>
    peek h (d + DMA_DESC_LENGTH_STATUS) AND (DMA_SOP OR DMA_EOP OR DMA_TX_APPEND_CRC) = DMA_SOP OR DMA_EOP OR DMA_TX_APPEND_CRC"
proof -
  have len: "take_bit 12 len = len"
    using assms(3) by (simp add: word_unat_eq_iff unsigned_take_bit_eq word_less_nat_alt take_bit_nat_eq_self)
  have P: "peek (tx_prepared e packet len s) b =
    ((peek (hw s))(d + DMA_DESC_ADDRESS_LO := ucast packet, d + DMA_DESC_ADDRESS_HI := ucast (drop_bit 32 packet),
       d + DMA_DESC_LENGTH_STATUS := tx_len_stat len)) b" if "b \<in> {d, d + 4, d + 8}" for b
    using genet_regs.tx_prepared_peek [OF assms(1) refl assms(2) d(1)] that d(2) by blast
  have i: "unat (tx_index s) < 256" using assms(2) by (simp add: ring_inv_def)
  obtain j r where "j \<le> 100"
    and "run_state (bcmgenet_gmac_eth_send e packet len) s =
       (r, s\<lparr>tx_index := next_index TX_DESCS (tx_index s),
             hw := (read_step e (mac_reg s + TDMA_CONS_INDEX) ^^ j) (tx_rung e packet len s)\<rparr>)"
    by (rule send_run [where e = e and s = s and packet = packet and len = len])
  with i show ?thesis
    by (intro exI [of _ "tx_prepared e packet len s"] exI [of _ j])
      (simp add: tx_rung_def P DMA_DESC_ADDRESS_LO_def DMA_DESC_ADDRESS_HI_def DMA_DESC_LENGTH_STATUS_def join_halves
        tx_len_stat_fields len)
qed

theorem send_descriptor_witness:
  "\<exists>h. \<exists>j\<le>100.
    hw (snd (run_state (bcmgenet_gmac_eth_send demo_env 0x123456789 60) demo_genet)) =
      (read_step demo_env TDMA_CONS_INDEX ^^ j) (io_writel demo_env 8 TDMA_PROD_INDEX h) \<and>
    push_bit 32 (ucast (h (0x4054 + DMA_DESC_ADDRESS_HI))) OR ucast (h (0x4054 + DMA_DESC_ADDRESS_LO)) = (0x123456789 :: u64) \<and>
    extract32 (h (0x4054 + DMA_DESC_LENGTH_STATUS)) 16 12 = 60"
proof -
  have "0x4054 = mac_reg demo_genet + GENET_TX_OFF + of_nat (12 * unat (tx_index demo_genet))"
    by (simp add: reg_vals)
  from send_descriptor [where R = UNIV and len = 60 and packet = "0x123456789", OF demo_genet_regs demo_ring_inv _ this]
  show ?thesis by (simp add: demo_prod_index) blast
qed

text \<open>
  C39: Once the 16-bit producer index has reached its last value, sending never succeeds again on
  hardware that stores the producer index register as written: the driver compares the consumer
  index, masked to 16 bits, with the unmasked 32-bit sum, so every following send polls to the end and
  reports a time-out, however fast the frames are consumed.
\<close>

theorem send_past_wrap_fails:
  assumes "genet_regs e peek R (mac_reg s)" "mac_reg s + TDMA_PROD_INDEX \<in> R"
    and "0xffff \<le> unat (peek (hw s) (mac_reg s + TDMA_PROD_INDEX))"
    and "unat (peek (hw s) (mac_reg s + TDMA_PROD_INDEX)) + length fs < 2 ^ 32"
  shows "fst (run_state (send_all e fs) s) = replicate (length fs) (- ETIMEDOUT)"
  by (rule genet_regs.send_all_past_wrap [OF assms(1) refl assms(2-4)])

theorem send_past_wrap_fails_witness:
  "fst (run_state (send_all demo_env [(0x1000, 60), (0x2000, 1514)]) (demo_genet\<lparr>hw := demo_hw(TDMA_PROD_INDEX := 0xffff)\<rparr>)) =
     [- ETIMEDOUT, - ETIMEDOUT]"
  using send_past_wrap_fails [where R = UNIV and fs = "[(0x1000, 60), (0x2000, 1514)]" and
      s = "demo_genet\<lparr>hw := demo_hw(TDMA_PROD_INDEX := 0xffff)\<rparr>", OF demo_genet_regs]
  by (simp del: send_all.simps)

text \<open>
  C21: After a start, through every sequence of send, receive, free, address and stop calls and
  whatever the hardware answers, both ring indices stay below 256, the receive index is the consumer
  index modulo 256, and the descriptor pointers are those of the MAC; so the descriptors the driver
  touches are entry \<open>tx_index\<close> of the transmit table and entry \<open>c_index mod 256\<close> of the receive table.
\<close>

theorem running_rings_in_bounds:
  assumes "drv_running e s"
  shows "unat (tx_index s) < 256 \<and> unat (rx_index s) = unat (c_index s) mod 256 \<and>
    desc_addr (tx_desc_base s) (tx_index s) = mac_reg s + GENET_TX_OFF + of_nat (12 * unat (tx_index s)) \<and>
    desc_addr (rx_desc_base s) (rx_index s) = mac_reg s + GENET_RX_OFF + of_nat (12 * (unat (c_index s) mod 256))"
proof -
  have "ring_inv s" using assms by (rule running_ring_inv)
  then show ?thesis by (simp add: ring_inv_def desc_addr_index)
qed

theorem running_rings_in_bounds_witness:
  "let s = snd (run_state (bcmgenet_gmac_free_pkt demo_env) (snd (run_state (bcmgenet_gmac_eth_start demo_env) demo_genet))) in
    unat (tx_index s) < 256 \<and> unat (rx_index s) = unat (c_index s) mod 256 \<and>
    desc_addr (tx_desc_base s) (tx_index s) = mac_reg s + GENET_TX_OFF + of_nat (12 * unat (tx_index s)) \<and>
    desc_addr (rx_desc_base s) (rx_index s) = mac_reg s + GENET_RX_OFF + of_nat (12 * (unat (c_index s) mod 256))"
  unfolding Let_def by (rule running_rings_in_bounds [where e = demo_env]) (intro drv_running.intros)

text \<open>
  C8: Frames are received in the order the hardware produced them.  If the producer index is \<open>n\<close>
  ahead of the driver's consumer index (modulo 2^16), receiving until there is nothing left yields
  exactly \<open>n\<close> frames, those of descriptors \<open>c\<close>, \<open>c + 1\<close>, ... modulo 256, each with its length less the
  two bytes of padding and its address two bytes into the buffer; then both the driver's consumer index
  and, if there was a frame, the one published to the MAC are the producer index.
\<close>

theorem receive_in_order:
  assumes "genet_regs e peek R (mac_reg s)" "rx_regs (mac_reg s) \<subseteq> R" "ring_inv s"
    and "unat (c_index s) < 65536" "n < 65536"
    and "unat (peek (hw s) (mac_reg s + RDMA_PROD_INDEX)) = (unat (c_index s) + n) mod 65536"
  shows "let (frames, s') = run_state (drain e (Suc n)) s; prod_index = peek (hw s) (mac_reg s + RDMA_PROD_INDEX) in
    frames = map (\<lambda>j. rx_packet (mac_reg s) (peek (hw s)) ((unat (c_index s) + j) mod 256)) [0..<n] \<and>
    c_index s' = prod_index \<and>
    peek (hw s') (mac_reg s + RDMA_CONS_INDEX) = (if n = 0 then peek (hw s) (mac_reg s + RDMA_CONS_INDEX) else prod_index)"
  using genet_regs.drain_run [OF assms(1) refl assms(2-6), of "Suc n"] by (simp add: case_prod_beta Let_def)

theorem receive_in_order_witness:
  "let (frames, s') = run_state (drain demo_env 3) demo_genet in
    frames = [(58, 0x1002), (98, 0x1802)] \<and> c_index s' = 2 \<and> hw s' RDMA_CONS_INDEX = 2"
  using receive_in_order [where R = UNIV and n = 2 and s = demo_genet, OF demo_genet_regs _ demo_ring_inv]
  by (simp add: Let_def case_prod_beta demo_hw_def reg_vals rx_packet_def extract32_def RX_BUF_OFFSET_def upt_rec del: drain.simps)

text \<open>
  C16: What a start leaves behind, on hardware whose registers keep what is written to them (a reset
  through \<open>UMAC_CMD\<close> excepted) and with a PHY library that only talks over MDIO.  The result is the
  error of the PHY library, \<open>-EINVAL\<close> for a speed other than 10, 100 and 1000, or 0.  In every case
  the MAC address is programmed byte by byte, both rings span all 256 descriptors, receive descriptor
  \<open>i\<close> owns the \<open>i\<close>-th 2048-byte buffer, DMA is enabled for queue 16 only, and the driver's indices agree
  with those of the hardware, so nothing is pending.  On success the MAC runs at the PHY's speed with
  transmitter and receiver on.
\<close>

theorem start_configures:
  assumes regs: "genet_regs e peek R (mac_reg s)" and R: "rx_regs (mac_reg s) \<union> ctl_regs (mac_reg s) \<subseteq> R"
    and phy: "\<And>p ps h b. b \<in> R \<Longrightarrow> peek (snd (snd (io_phy_startup e p ps h))) b = peek h b"
  shows "let s0 = snd (run_state (start_setup e) s);
             (pr, ps, h) = io_phy_startup e (phydev s0) (phys s0) (hw s0);
             sp = umac_speed e (phy_speed (ps (phydev s0)));
             (r, s') = run_state (bcmgenet_gmac_eth_start e) s
         in r = (if pr \<noteq> 0 then pr else if sp = None then - EINVAL else 0) \<and>
            configured (mac_reg s) (peek (hw s')) s' \<and>
            (r = 0 \<longrightarrow> peek (hw s') (mac_reg s + UMAC_CMD) = push_bit 2 (the sp) OR 3)"
proof -
  define s0 where "s0 = snd (run_state (start_setup e) s)"
  obtain pr ps h where st: "io_phy_startup e (phydev s0) (phys s0) (hw s0) = (pr, ps, h)" by (metis prod_cases3)
  obtain r s' where run: "run_state (start_link e) s0 = (r, s')" by (cases "run_state (start_link e) s0")
  have start: "run_state (bcmgenet_gmac_eth_start e) s = (r, s')"
    by (simp add: start_split case_prod_beta run flip: s0_def)
  have mac: "mac_reg s0 = mac_reg s" using start_setup_own [of e s] by (auto simp: s0_def)
  have conf: "configured (mac_reg s) (peek (hw s0)) s0"
    unfolding s0_def by (rule genet_regs.setup_configured [OF regs refl R])
  have keeps: "peek h b = peek (hw s0) b" if "b \<in> R" for b
    using phy [OF that, of "phydev s0" "phys s0" "hw s0"] by (simp add: st)
  note link = genet_regs.start_link_regs [OF regs mac R conf keeps st refl run]
  show ?thesis
    unfolding start Let_def s0_def [symmetric] st prod.case using link by blast
qed

theorem start_configures_witness:
  "let (r, s') = run_state (bcmgenet_gmac_eth_start demo_env) demo_genet in
     r = 0 \<and> configured 0 (hw s') s' \<and> hw s' UMAC_CMD = 11"
  using start_configures [where R = UNIV and s = demo_genet, OF demo_genet_regs] start_setup_own [of demo_env demo_genet]
  by (auto simp: Let_def case_prod_beta demo_phy_startup demo_umac_speed)

text \<open>
  C40: Probing accepts only what the driver supports.  With another major revision than 6 it returns
  \<open>-ENODEV\<close>, with a PHY mode other than RGMII or RGMII-RXID \<open>-EINVAL\<close>, and in both cases it has
  written no register.  If it returns 0, the revision and the mode were right, an MDIO bus with the
  driver's read and write functions is set up, and a PHY is connected; if it returns an error, the
  PHY pointer is the one from before.
\<close>

theorem probe_outcomes:
  "let m = io_map_physmem e (iobase (plat s)) 0x10000;
       (reg, h) = io_readl_relaxed e (m + SYS_REV_CTRL) (hw s);
       s1 = s\<lparr>mac_reg := m, interface := plat_phy_interface (plat s), speed := max_speed (plat s), hw := h\<rparr>;
       v5 = (drop_bit 24 reg AND 0x0f = 6);
       rgmii = (interface s1 \<in> {PHY_INTERFACE_MODE_RGMII e, PHY_INTERFACE_MODE_RGMII_RXID e});
       (r, s') = run_state (bcmgenet_eth_probe e) s
   in (\<not> v5 \<longrightarrow> r = - ENODEV \<and> s' = s1) \<and> (v5 \<and> \<not> rgmii \<longrightarrow> r = - EINVAL \<and> s' = s1) \<and>
      (r = 0 \<longrightarrow> v5 \<and> rgmii \<and> phydev s' \<noteq> 0 \<and>
         (\<exists>b. b \<noteq> 0 \<and> buses s' b = \<lparr>bus_read = Fn_bcmgenet_mdio_read, bus_write = Fn_bcmgenet_mdio_write,
            bus_name = snprintf_name e (mdio_node_name e), bus_priv = dev_ptr e\<rparr>)) \<and>
      (r \<noteq> 0 \<longrightarrow> phydev s' = phydev s)"
proof -
  obtain m where m: "io_map_physmem e (iobase (plat s)) 0x10000 = m" by blast
  obtain reg h where rd: "io_readl_relaxed e (m + SYS_REV_CTRL) (hw s) = (reg, h)"
    by (cases "io_readl_relaxed e (m + SYS_REV_CTRL) (hw s)")
  define s1 where "s1 = s\<lparr>mac_reg := m, interface := plat_phy_interface (plat s), speed := max_speed (plat s), hw := h\<rparr>"
  define s2 where "s2 = s1\<lparr>hw := io_writel e (CMD_SW_RESET OR CMD_LCL_LOOP_EN) (m + UMAC_CMD) (io_writel e 0 (m + UMAC_CMD)
      (io_udelay e 10 (io_writel e 0 (m + SYS_RBUF_FLUSH_CTRL) (io_writel e PORT_MODE_EXT_GPHY (m + SYS_PORT_CTRL) h))))\<rparr>"
  let ?v5 = "drop_bit 24 reg AND 0x0f = 6"
  let ?rgmii = "interface s1 \<in> {PHY_INTERFACE_MODE_RGMII e, PHY_INTERFACE_MODE_RGMII_RXID e}"
  obtain r3 s3 where mdio: "run_state (bcmgenet_mdio_init e (mdio_node_name e) (dev_ptr e)) s2 = (r3, s3)"
    by (cases "run_state (bcmgenet_mdio_init e (mdio_node_name e) (dev_ptr e)) s2")
  define s4 where "s4 = s3\<lparr>bus := io_miiphy_get_dev_by_name e (mdio_node_name e) (hw s3)\<rparr>"
  obtain r5 s5 where phy: "run_state (bcmgenet_phy_init e) s4 = (r5, s5)" by (cases "run_state (bcmgenet_phy_init e) s4")
  have run: "run_state (bcmgenet_eth_probe e) s =
      (if \<not> ?v5 then (- ENODEV, s1) else if \<not> ?rgmii then (- EINVAL, s1) else if r3 \<noteq> 0 then (r3, s3) else (r5, s5))"
    using mdio phy by (simp add: bcmgenet_eth_probe_def bcmgenet_interface_set_def m rd s1_def s2_def s4_def Let_def EINVAL_def)
  have keep: "phydev s3 = phydev s" "phydev s4 = phydev s3" "buses s4 = buses s3"
    using mdio_init_result(2) [OF mdio] by (simp_all add: s1_def s2_def s4_def)
  show ?thesis
    using run mdio_init_result(1) [OF mdio] phy_init_result [OF phy] keep
    unfolding m Let_def rd prod.case s1_def [symmetric]
    by (cases ?v5; cases ?rgmii; cases "r3 = 0") (auto simp: ENODEV_def EINVAL_def s1_def)
qed

theorem probe_outcomes_witness:
  "let (r, s') = run_state (bcmgenet_eth_probe demo_env) demo_genet in
     r = 0 \<and> phydev s' \<noteq> 0 \<and>
     fst (run_state (bcmgenet_eth_probe demo_env) (demo_genet\<lparr>hw := demo_hw(SYS_REV_CTRL := 0x05000000)\<rparr>)) = - ENODEV"
proof -
  have r: "fst (run_state (bcmgenet_eth_probe demo_env) demo_genet) = 0"
    by (simp add: bcmgenet_eth_probe_def bcmgenet_interface_set_def bcmgenet_mdio_init_def bcmgenet_phy_init_def Let_def
        demo_env_def regfile_env_def demo_genet_def demo_hw_def reg_vals)
  have base: "io_map_physmem demo_env (iobase (plat demo_genet)) 0x10000 = 0"
    by (simp add: demo_env_def regfile_env_def demo_genet_def)
  show ?thesis
    using probe_outcomes [of demo_env demo_genet] r
      probe_outcomes [of demo_env "demo_genet\<lparr>hw := demo_hw(SYS_REV_CTRL := 0x05000000)\<rparr>"]
    by (simp add: Let_def case_prod_beta base)
qed

end
