(* ===== verification/Bcm2838_Board.thy ===== *)
theory Bcm2838_Board
  imports Raspi_Platform
begin

text \<open>
  The BCM2838 peripheral block (\<open>qemu-bcm2838-peripherals.c\<close> and \<open>.h\<close>) and the Raspberry Pi 4B machine
  (\<open>qemu-raspi4b.c\<close>): which devices are created, where their registers are mapped, how their
  interrupt outputs are wired to the interrupt controller, and how the guest's device tree is changed.
  The object model is a record of what has been set up; whether a device can be realized, the size
  of its registers, the part common to all BCM283x chips and the device-tree library are parameters.
\<close>

section \<open>Constants\<close>

definition CLOCK_ISP_OFFSET :: nat where "CLOCK_ISP_OFFSET = 0xc11000"
definition CLOCK_ISP_SIZE :: nat where "CLOCK_ISP_SIZE = 0x100"
definition BCM2838_VC_PERI_LOW_BASE :: nat where "BCM2838_VC_PERI_LOW_BASE = 0x7c000000"
definition BCM2835_SDHC_CAPAREG :: nat where "BCM2835_SDHC_CAPAREG = 0x52134b4"

definition gic_spi_interrupts :: "(string \<times> nat) list" where
  "gic_spi_interrupts =
     [(''MBOX'', 33), (''MPHI'', 40), (''DWC2'', 73), (''DMA_0'', 80), (''DMA_6'', 86), (''DMA_7_8'', 87),
      (''DMA_9_10'', 88), (''AUX_UART1'', 93), (''SDHOST'', 120), (''UART0'', 121), (''RNG200'', 125),
      (''EMMC_EMMC2'', 126), (''PCI_INT_A'', 143), (''GENET_A'', 157), (''GENET_B'', 158)]"

definition GPU_INTERRUPT_DMA0 :: nat where "GPU_INTERRUPT_DMA0 = 16"
definition GPU_INTERRUPT_DMA7_8 :: nat where "GPU_INTERRUPT_DMA7_8 = 23"
definition GPU_INTERRUPT_DMA9_10 :: nat where "GPU_INTERRUPT_DMA9_10 = 24"
definition GPU_INTERRUPT_DMA11 :: nat where "GPU_INTERRUPT_DMA11 = 25"
definition GPU_INTERRUPT_DMA15 :: nat where "GPU_INTERRUPT_DMA15 = 31"

definition gpu_dma_interrupts :: "(string \<times> nat) list" where
  "gpu_dma_interrupts =
     [(''DMA0'', 16), (''DMA1'', 17), (''DMA2'', 18), (''DMA3'', 19), (''DMA4'', 20), (''DMA5'', 21), (''DMA6'', 22),
      (''DMA7_8'', 23), (''DMA9_10'', 24), (''DMA11'', 25), (''DMA12'', 26), (''DMA13'', 27), (''DMA14'', 28),
      (''DMA15'', 31)]"

definition BCM2838_MPHI_OFFSET :: nat where "BCM2838_MPHI_OFFSET = 0xb200"
definition BCM2838_MPHI_SIZE :: nat where "BCM2838_MPHI_SIZE = 0x200"

lemmas board_defs =
  CLOCK_ISP_OFFSET_def CLOCK_ISP_SIZE_def BCM2838_VC_PERI_LOW_BASE_def GPU_INTERRUPT_DMA0_def GPU_INTERRUPT_DMA7_8_def
  GPU_INTERRUPT_DMA9_10_def GPU_INTERRUPT_DMA11_def GPU_INTERRUPT_DMA15_def BCM2838_MPHI_OFFSET_def BCM2838_MPHI_SIZE_def

section \<open>State\<close>

datatype orgate = Mmc_irq_orgate | Dma_7_8_irq_orgate | Dma_9_10_irq_orgate

text \<open>Interrupt outputs and the inputs they can be connected to.\<close>

datatype irq_out = Dma_irq nat | Emmc2_irq | Sdhci_irq | Orgate_out orgate | Other_irq nat
datatype irq_in = Gpu_irq nat | Orgate_in orgate nat | Other_in nat

datatype container = Peri_mr | Gpu_bus_mr

record region =
  r_container :: container
  r_offset :: nat
  r_size :: nat
  r_name :: string

record periph =
  peri_low_size :: nat
  peri_size :: nat
  children :: "string list"
  links :: "(string \<times> string \<times> string) list"
  num_lines :: "orgate \<Rightarrow> nat"
  props :: "(string \<times> string \<times> nat) list"
  regions :: "region list"
  wires :: "irq_out \<rightharpoonup> irq_in"
  errp :: bool

record periph_env =
  can_realize :: "string \<Rightarrow> bool"
  mmio_size :: "string \<Rightarrow> nat"
  common_realize :: "periph \<Rightarrow> periph"

definition bcm2838_peripherals_class_init :: "periph \<Rightarrow> periph" where
  "bcm2838_peripherals_class_init s = s\<lparr>peri_low_size := 0x2000000, peri_size := 0x1800000\<rparr>"

definition add_child :: "string \<Rightarrow> periph \<Rightarrow> periph" where
  "add_child n s = s\<lparr>children := children s @ [n]\<rparr>"

definition bcm2838_peripherals_init :: "periph \<Rightarrow> periph" where
  "bcm2838_peripherals_init s0 =
     (let s = add_child ''gpio'' (add_child ''emmc2'' s0);
          s = s\<lparr>links := links s @ [(''gpio'', ''sdbus-sdhci'', ''sdhci.sdbus''), (''gpio'', ''sdbus-sdhost'', ''sdhost.sdbus'')]\<rparr>;
          s = add_child ''mmc_irq_orgate'' s;
          s = s\<lparr>num_lines := (num_lines s)(Mmc_irq_orgate := 2)\<rparr>;
          s = add_child ''dma_7_8_irq_orgate'' s;
          s = s\<lparr>num_lines := (num_lines s)(Dma_7_8_irq_orgate := 2)\<rparr>;
          s = add_child ''dma_9_10_irq_orgate'' s
      in s\<lparr>num_lines := (num_lines s)(Dma_9_10_irq_orgate := 2)\<rparr>)"

section \<open>Realizing the block\<close>

definition connect :: "irq_out \<Rightarrow> irq_in \<Rightarrow> periph \<Rightarrow> periph" where
  "connect a b s = s\<lparr>wires := (wires s)(a \<mapsto> b)\<rparr>"

definition add_region :: "container \<Rightarrow> nat \<Rightarrow> nat \<Rightarrow> string \<Rightarrow> periph \<Rightarrow> periph" where
  "add_region c off sz n s =
     s\<lparr>regions := regions s @ [\<lparr>r_container = c, r_offset = off, r_size = sz, r_name = n\<rparr>]\<rparr>"

definition realize_step :: "periph_env \<Rightarrow> string \<Rightarrow> (periph \<Rightarrow> periph) \<Rightarrow> periph \<Rightarrow> periph" where
  "realize_step e n k s = (if can_realize e n then k s else s\<lparr>errp := True\<rparr>)"

definition realize_emmc2_props :: "periph \<Rightarrow> periph" where
  "realize_emmc2_props s =
     s\<lparr>props := props s @ [(''emmc2'', ''sd-spec-version'', 3), (''emmc2'', ''capareg'', BCM2835_SDHC_CAPAREG),
         (''emmc2'', ''pending-insert-quirk'', 1)]\<rparr>"

definition wire_mmc :: "periph \<Rightarrow> periph" where
  "wire_mmc s =
     connect (Orgate_out Mmc_irq_orgate) (Gpu_irq INTERRUPT_ARASANSDIO)
       (connect Sdhci_irq (Orgate_in Mmc_irq_orgate 1) (connect Emmc2_irq (Orgate_in Mmc_irq_orgate 0) s))"

definition wire_dma_0_6 :: "periph \<Rightarrow> periph" where
  "wire_dma_0_6 s = fold (\<lambda>n. connect (Dma_irq n) (Gpu_irq (GPU_INTERRUPT_DMA0 + n))) [0..<7] s"

definition wire_dma_7_8 :: "periph \<Rightarrow> periph" where
  "wire_dma_7_8 s =
     connect (Orgate_out Dma_7_8_irq_orgate) (Gpu_irq GPU_INTERRUPT_DMA7_8)
       (connect (Dma_irq 8) (Orgate_in Dma_7_8_irq_orgate 1) (connect (Dma_irq 7) (Orgate_in Dma_7_8_irq_orgate 0) s))"

definition wire_dma_9_10 :: "periph \<Rightarrow> periph" where
  "wire_dma_9_10 s =
     connect (Orgate_out Dma_9_10_irq_orgate) (Gpu_irq GPU_INTERRUPT_DMA9_10)
       (connect (Dma_irq 10) (Orgate_in Dma_9_10_irq_orgate 1) (connect (Dma_irq 9) (Orgate_in Dma_9_10_irq_orgate 0) s))"

definition wire_dma_11_15 :: "periph \<Rightarrow> periph" where
  "wire_dma_11_15 s =
     connect (Dma_irq 15) (Gpu_irq GPU_INTERRUPT_DMA15)
       (fold (\<lambda>n. connect (Dma_irq n) (Gpu_irq (GPU_INTERRUPT_DMA11 + n - 11))) [11..<15] s)"

text \<open>
  \<open>bcm_soc_peripherals_common_realize\<close> reports an error through \<open>errp\<close>, which the source does not
  look at before it goes on.
\<close>

definition bcm2838_peripherals_realize :: "periph_env \<Rightarrow> periph \<Rightarrow> periph" where
  "bcm2838_peripherals_realize e s0 =
     (let s = common_realize e s0;
          s = add_region Gpu_bus_mr BCM2838_VC_PERI_LOW_BASE (peri_low_size s) ''bcm2838-peripherals'' s;
          s = realize_emmc2_props s
      in realize_step e ''emmc2'' (\<lambda>s.
         let s = add_region Peri_mr EMMC2_OFFSET (mmio_size e ''emmc2'') ''emmc2'' s
         in realize_step e ''mmc_irq_orgate'' (\<lambda>s.
            let s = wire_dma_0_6 (wire_mmc s)
            in realize_step e ''dma_7_8_irq_orgate'' (\<lambda>s.
               let s = wire_dma_7_8 s
               in realize_step e ''dma_9_10_irq_orgate'' (\<lambda>s.
                  let s = wire_dma_11_15 (wire_dma_9_10 s);
                      s = add_region Peri_mr BCM2838_MPHI_OFFSET BCM2838_MPHI_SIZE ''mphi'' s;
                      s = add_region Peri_mr CLOCK_ISP_OFFSET CLOCK_ISP_SIZE ''bcm2835-clkisp'' s
                  in realize_step e ''gpio'' (\<lambda>s.
                     let s = add_region Peri_mr GPIO_OFFSET (mmio_size e ''gpio'') ''gpio'' s;
                         s = s\<lparr>links := links s @ [('''', ''sd-bus'', ''gpio.sd-bus'')]\<rparr>
                     in add_region Peri_mr BRDG_OFFSET 0x24 ''bcm2838-asb'' s) s) s) s) s) s)"

section \<open>The Raspberry Pi 4B machine\<close>

record boot_info =
  info_ram_size :: u64
  info_board_id :: u32

text \<open>
  The device-tree library.  \<open>fdt_fatal\<close> is a failed assertion or \<open>error_fatal\<close>: the emulator ends.
\<close>

record 'f fdt_env =
  fdt_node_offset_by_compatible :: "'f \<Rightarrow> string \<Rightarrow> int"
  fdt_nop_node :: "'f \<Rightarrow> int \<Rightarrow> int \<times> 'f"
  qemu_fdt_getprop_cell :: "'f \<Rightarrow> string \<Rightarrow> string \<Rightarrow> u32 option"
  qemu_fdt_add_subnode :: "'f \<Rightarrow> string \<Rightarrow> 'f"
  qemu_fdt_setprop_string :: "'f \<Rightarrow> string \<Rightarrow> string \<Rightarrow> string \<Rightarrow> 'f"
  qemu_fdt_setprop_sized_cells :: "'f \<Rightarrow> string \<Rightarrow> string \<Rightarrow> u32 \<Rightarrow> u64 \<Rightarrow> u32 \<Rightarrow> u64 \<Rightarrow> 'f"
  memory_node_name :: "u64 \<Rightarrow> string"
  board_ram_size :: "u32 \<Rightarrow> u64"
  UPPER_RAM_BASE :: u64

definition raspi_add_memory_node :: "'f fdt_env \<Rightarrow> 'f \<Rightarrow> u64 \<Rightarrow> u64 \<Rightarrow> 'f option" where
  "raspi_add_memory_node e fdt mem_base mem_len =
     (let nodename = memory_node_name e mem_base
      in case (qemu_fdt_getprop_cell e fdt ''/'' ''#address-cells'', qemu_fdt_getprop_cell e fdt ''/'' ''#size-cells'') of
           (Some acells, Some scells) \<Rightarrow>
             (if acells = 0 \<or> scells = 0 then None
              else
                let fdt = qemu_fdt_add_subnode e fdt nodename;
                    fdt = qemu_fdt_setprop_string e fdt nodename ''device_type'' ''memory''
                in Some (qemu_fdt_setprop_sized_cells e fdt nodename ''reg'' acells mem_base scells mem_len))
         | _ \<Rightarrow> None)"

definition nodes_to_remove :: "string list" where
  "nodes_to_remove =
     [''brcm,bcm2711-pcie'', ''brcm,bcm2711-rng200'', ''brcm,bcm2711-thermal'', ''brcm,bcm2711-genet-v5'']"

definition disable_node :: "'f fdt_env \<Rightarrow> string \<Rightarrow> 'f \<Rightarrow> 'f" where
  "disable_node e dev_str fdt =
     (let offset = fdt_node_offset_by_compatible e fdt dev_str
      in if offset \<ge> 0 then snd (fdt_nop_node e fdt offset) else fdt)"

definition raspi4_modify_dtb :: "'f fdt_env \<Rightarrow> boot_info \<Rightarrow> 'f \<Rightarrow> 'f option" where
  "raspi4_modify_dtb e info fdt =
     (let fdt = fold (disable_node e) nodes_to_remove fdt;
          ram_size = board_ram_size e (info_board_id info)
      in if info_ram_size info > UPPER_RAM_BASE e
         then raspi_add_memory_node e fdt (UPPER_RAM_BASE e) (ram_size - UPPER_RAM_BASE e)
         else Some fdt)"

record machine =
  host_long_bits :: nat
  board_rev :: u32
  auto_create_sdcard :: bool
  binfo_modify_dtb :: bool
  binfo_board_id :: u32
  soc_type :: string

definition raspi4b_machine_class_init :: "(u32 \<Rightarrow> machine \<Rightarrow> machine) \<Rightarrow> machine \<Rightarrow> machine" where
  "raspi4b_machine_class_init common_init mc =
     (let mc = mc\<lparr>board_rev := if host_long_bits mc = 32 then 0xa03111 else 0xb03115\<rparr>;
          mc = common_init (board_rev mc) mc
      in mc\<lparr>auto_create_sdcard := True\<rparr>)"

definition raspi4b_machine_init :: "(u32 \<Rightarrow> string) \<Rightarrow> (machine \<Rightarrow> machine) \<Rightarrow> machine \<Rightarrow> machine" where
  "raspi4b_machine_init board_soc_type base_init mc =
     base_init (mc\<lparr>binfo_modify_dtb := True, binfo_board_id := board_rev mc, soc_type := board_soc_type (board_rev mc)\<rparr>)"

end
