(* ===== verification/Bcm2838_Props.thy ===== *)
theory Bcm2838_Props
  imports Bcm2838_Board
begin

text \<open>
  Properties of the BCM2838 board: the interrupt wiring refines the board's channel-to-line table,
  the peripheral registers do not overlap, a device that cannot be realized stops the set-up, and the
  guest's device tree loses exactly the nodes of devices that are not emulated.
\<close>

section \<open>A concrete board\<close>

definition demo_board :: periph_env where
  "demo_board = \<lparr>can_realize = (\<lambda>_. True), mmio_size = (\<lambda>_. 0x100),
     common_realize = (\<lambda>s. s\<lparr>wires := (wires s)(Other_irq 0 \<mapsto> Gpu_irq 57)\<rparr>)\<rparr>"

definition empty_board :: periph where
  "empty_board = \<lparr>peri_low_size = 0x2000000, peri_size = 0x1800000, children = [], links = [], num_lines = (\<lambda>_. 0), props = [],
     regions = [], wires = Map.empty, errp = False\<rparr>"

section \<open>Interrupt lines\<close>

text \<open>
  The level of an input of the interrupt controller, given the levels the devices drive: an OR gate
  passes on the levels of its inputs.
\<close>

definition orgate_level :: "(irq_out \<rightharpoonup> irq_in) \<Rightarrow> (irq_out \<Rightarrow> bool) \<Rightarrow> orgate \<Rightarrow> bool" where
  "orgate_level W lv g \<longleftrightarrow> (\<exists>a i. i < 2 \<and> W a = Some (Orgate_in g i) \<and> lv a)"

definition gpu_line :: "(irq_out \<rightharpoonup> irq_in) \<Rightarrow> (irq_out \<Rightarrow> bool) \<Rightarrow> nat \<Rightarrow> bool" where
  "gpu_line W lv k \<longleftrightarrow>
     (\<exists>a. W a = Some (Gpu_irq k) \<and> (case a of Orgate_out g \<Rightarrow> orgate_level W lv g | _ \<Rightarrow> lv a))"

text \<open>What the board promises: the line of each DMA channel, after the device tree's numbering.\<close>

definition dma_line :: "nat \<Rightarrow> nat" where
  "dma_line c =
     the (map_of gpu_dma_interrupts
       ([''DMA0'', ''DMA1'', ''DMA2'', ''DMA3'', ''DMA4'', ''DMA5'', ''DMA6'', ''DMA7_8'', ''DMA7_8'', ''DMA9_10'', ''DMA9_10'',
         ''DMA11'', ''DMA12'', ''DMA13'', ''DMA14'', ''DMA15''] ! c))"

definition board_inputs :: "irq_in set" where
  "board_inputs = {Gpu_irq k | k. k \<in> {16..28} \<union> {31, 62}} \<union> {Orgate_in g i | g i. True}"

definition board_wires :: "(irq_out \<times> irq_in) list" where
  "board_wires =
     [(Emmc2_irq, Orgate_in Mmc_irq_orgate 0), (Sdhci_irq, Orgate_in Mmc_irq_orgate 1), (Orgate_out Mmc_irq_orgate, Gpu_irq 62)] @
     map (\<lambda>n. (Dma_irq n, Gpu_irq (16 + n))) [0..<7] @
     [(Dma_irq 7, Orgate_in Dma_7_8_irq_orgate 0), (Dma_irq 8, Orgate_in Dma_7_8_irq_orgate 1), (Orgate_out Dma_7_8_irq_orgate, Gpu_irq 23),
      (Dma_irq 9, Orgate_in Dma_9_10_irq_orgate 0), (Dma_irq 10, Orgate_in Dma_9_10_irq_orgate 1), (Orgate_out Dma_9_10_irq_orgate, Gpu_irq 24)] @
     map (\<lambda>n. (Dma_irq n, Gpu_irq (14 + n))) [11..<15] @ [(Dma_irq 15, Gpu_irq 31)]"

lemma realized_wires:
  assumes "\<And>n. can_realize e n"
  shows "wires (bcm2838_peripherals_realize e s) = (\<lambda>a. case map_of board_wires a of None \<Rightarrow> wires (common_realize e s) a | Some b \<Rightarrow> Some b)"
  by (rule ext)
    (simp add: bcm2838_peripherals_realize_def realize_step_def assms Let_def add_region_def realize_emmc2_props_def wire_mmc_def
      wire_dma_0_6_def wire_dma_7_8_def wire_dma_9_10_def wire_dma_11_15_def connect_def board_wires_def board_defs upt_rec)

lemma board_wires_distinct: "distinct (map fst board_wires)" "distinct (map snd board_wires)"
  by (simp_all add: board_wires_def upt_rec)

lemma board_wires_inputs: "(a, b) \<in> set board_wires \<Longrightarrow> b \<in> board_inputs"
  by (auto simp: board_wires_def board_inputs_def upt_rec)

lemma realized_wire_iff:
  assumes "\<And>n. can_realize e n" "\<And>a. wires (common_realize e s) a \<notin> Some ` board_inputs" "b \<in> board_inputs"
  shows "wires (bcm2838_peripherals_realize e s) a = Some b \<longleftrightarrow> (a, b) \<in> set board_wires"
proof (cases "map_of board_wires a")
  case None
  then have "(a, b) \<notin> set board_wires" by (auto simp: map_of_eq_None_iff image_iff)
  moreover have "wires (common_realize e s) a \<noteq> Some b" using assms(2) [of a] assms(3) by auto
  ultimately show ?thesis by (simp add: realized_wires assms(1) None)
next
  case (Some c)
  then show ?thesis
    using board_wires_distinct(1) by (auto simp: realized_wires assms(1) dest: map_of_SomeD eq_key_imp_eq_value)
qed

lemma mem_board_wires:
  "(a, Gpu_irq k) \<in> set board_wires \<longleftrightarrow>
     (\<exists>n<7. a = Dma_irq n \<and> k = 16 + n) \<or> a = Dma_irq 11 \<and> k = 25 \<or> a = Dma_irq 12 \<and> k = 26 \<or>
     a = Dma_irq 13 \<and> k = 27 \<or> a = Dma_irq 14 \<and> k = 28 \<or> a = Dma_irq 15 \<and> k = 31 \<or>
     a = Orgate_out Mmc_irq_orgate \<and> k = 62 \<or> a = Orgate_out Dma_7_8_irq_orgate \<and> k = 23 \<or>
     a = Orgate_out Dma_9_10_irq_orgate \<and> k = 24"
  "(a, Orgate_in g i) \<in> set board_wires \<longleftrightarrow>
     g = Mmc_irq_orgate \<and> (i = 0 \<and> a = Emmc2_irq \<or> i = 1 \<and> a = Sdhci_irq) \<or>
     g = Dma_7_8_irq_orgate \<and> (i = 0 \<and> a = Dma_irq 7 \<or> i = 1 \<and> a = Dma_irq 8) \<or>
     g = Dma_9_10_irq_orgate \<and> (i = 0 \<and> a = Dma_irq 9 \<or> i = 1 \<and> a = Dma_irq 10)"
  unfolding board_wires_def by (simp_all add: image_iff Bex_def, blast+)

lemma ex_image: "(\<exists>a. (\<exists>n. P n \<and> a = f n \<and> R n) \<and> Q a) \<longleftrightarrow> (\<exists>n. P n \<and> R n \<and> Q (f n))"
  by blast

lemma ex_less_16:
  "(\<exists>c<16. P c) \<longleftrightarrow>
     (\<exists>c<7. P c) \<or> P 7 \<or> P 8 \<or> P 9 \<or> P 10 \<or> P 11 \<or> P 12 \<or> P 13 \<or> P 14 \<or> P (15 :: nat)"
proof -
  have "c < 16 \<longleftrightarrow> c < 7 \<or> c = 7 \<or> c = 8 \<or> c = 9 \<or> c = 10 \<or> c = 11 \<or> c = 12 \<or> c = 13 \<or> c = 14 \<or> c = 15" for c :: nat
    by presburger
  then show ?thesis by (simp add: conj_disj_distribR ex_disj_distrib)
qed

lemma two_inputs: "(\<exists>a i. i < (2 :: nat) \<and> (i = 0 \<and> a = x \<or> i = 1 \<and> a = y) \<and> lv a) \<longleftrightarrow> lv x \<or> lv y"
  by (metis one_less_numeral_iff semiring_norm(76) zero_less_numeral)

lemma dma_line_eq:
  "c < 16 \<Longrightarrow> dma_line c =
     (if c < 7 then 16 + c else if c < 9 then 23 else if c < 11 then 24 else if c < 15 then 14 + c else 31)"
proof -
  have "\<forall>c\<in>set [0..<16]. dma_line c =
     (if c < 7 then 16 + c else if c < 9 then 23 else if c < 11 then 24 else if c < 15 then 14 + c else 31)"
    by (simp add: dma_line_def gpu_dma_interrupts_def upt_rec)
  then show "c < 16 \<Longrightarrow> ?thesis" by simp
qed

lemma dma_lines:
  "dma_line 7 = 23" "dma_line 8 = 23" "dma_line 9 = 24" "dma_line 10 = 24" "dma_line 11 = 25" "dma_line 12 = 26"
  "dma_line 13 = 27" "dma_line 14 = 28" "dma_line 15 = 31"
  by (simp_all add: dma_line_eq)

lemma realized_orgates:
  assumes "\<And>n. can_realize e n" "\<And>a. wires (common_realize e s) a \<notin> Some ` board_inputs"
  shows "orgate_level (wires (bcm2838_peripherals_realize e s)) lv g \<longleftrightarrow>
      g = Mmc_irq_orgate \<and> (lv Emmc2_irq \<or> lv Sdhci_irq) \<or> g = Dma_7_8_irq_orgate \<and> (lv (Dma_irq 7) \<or> lv (Dma_irq 8)) \<or>
      g = Dma_9_10_irq_orgate \<and> (lv (Dma_irq 9) \<or> lv (Dma_irq 10))"
proof -
  have "wires (bcm2838_peripherals_realize e s) a = Some (Orgate_in g i) \<longleftrightarrow> (a, Orgate_in g i) \<in> set board_wires" for a i
    by (rule realized_wire_iff [OF assms]) (auto simp: board_inputs_def)
  then show ?thesis
    unfolding orgate_level_def mem_board_wires by (cases g) (simp_all add: two_inputs [unfolded One_nat_def])
qed

lemma realized_gpu_line:
  assumes "\<And>n. can_realize e n" "\<And>a. wires (common_realize e s) a \<notin> Some ` board_inputs" "Gpu_irq k \<in> board_inputs"
    and W: "W = wires (bcm2838_peripherals_realize e s)"
  shows "gpu_line W lv k \<longleftrightarrow>
      (\<exists>n<7. k = 16 + n \<and> lv (Dma_irq n)) \<or> k = 25 \<and> lv (Dma_irq 11) \<or> k = 26 \<and> lv (Dma_irq 12) \<or>
      k = 27 \<and> lv (Dma_irq 13) \<or> k = 28 \<and> lv (Dma_irq 14) \<or> k = 31 \<and> lv (Dma_irq 15) \<or>
      k = 62 \<and> orgate_level W lv Mmc_irq_orgate \<or> k = 23 \<and> orgate_level W lv Dma_7_8_irq_orgate \<or>
      k = 24 \<and> orgate_level W lv Dma_9_10_irq_orgate"
proof -
  have "W a = Some (Gpu_irq k) \<longleftrightarrow> (a, Gpu_irq k) \<in> set board_wires" for a
    unfolding W by (rule realized_wire_iff [OF assms(1-3)])
  then have "gpu_line W lv k \<longleftrightarrow>
      (\<exists>a. (a, Gpu_irq k) \<in> set board_wires \<and> (case a of Orgate_out g \<Rightarrow> orgate_level W lv g | _ \<Rightarrow> lv a))"
    by (simp add: gpu_line_def)
  then show ?thesis
    unfolding mem_board_wires conj_disj_distribR ex_disj_distrib by (simp add: ex_image)
qed

lemma dma_line_channels:
  "(\<exists>c<16. dma_line c = k \<and> lv (Dma_irq c)) \<longleftrightarrow>
      (\<exists>n<7. k = 16 + n \<and> lv (Dma_irq n)) \<or> k = 25 \<and> lv (Dma_irq 11) \<or> k = 26 \<and> lv (Dma_irq 12) \<or>
      k = 27 \<and> lv (Dma_irq 13) \<or> k = 28 \<and> lv (Dma_irq 14) \<or> k = 31 \<and> lv (Dma_irq 15) \<or>
      k = 23 \<and> (lv (Dma_irq 7) \<or> lv (Dma_irq 8)) \<or> k = 24 \<and> (lv (Dma_irq 9) \<or> lv (Dma_irq 10))"
proof -
  have "(\<exists>c<7. dma_line c = k \<and> lv (Dma_irq c)) \<longleftrightarrow> (\<exists>n<7. k = 16 + n \<and> lv (Dma_irq n))"
    by (auto simp: dma_line_eq)
  then show ?thesis unfolding ex_less_16 dma_lines eq_commute [of _ k] by satx
qed

text \<open>
  C17: Once every device is realized, the interrupt controller's inputs follow the board's table: the
  line of each DMA channel (channels 7 and 8, and 9 and 10, share one through an OR gate) is high
  exactly when one of its channels raises its interrupt, line 62 exactly when one of the two MMC
  controllers does; and no input of the controller or of an OR gate has two drivers.
\<close>

theorem dma_and_mmc_interrupts:
  assumes "\<And>n. can_realize e n" "\<And>a. wires (common_realize e s) a \<notin> Some ` board_inputs"
    and W: "W = wires (bcm2838_peripherals_realize e s)"
  shows "(\<forall>k. Gpu_irq k \<in> board_inputs \<longrightarrow>
            (gpu_line W lv k \<longleftrightarrow> (\<exists>c<16. dma_line c = k \<and> lv (Dma_irq c)) \<or> k = 62 \<and> (lv Emmc2_irq \<or> lv Sdhci_irq))) \<and>
         (\<forall>a a' b. b \<in> board_inputs \<and> W a = Some b \<and> W a' = Some b \<longrightarrow> a = a')"
proof -
  have "gpu_line W lv k \<longleftrightarrow> (\<exists>c<16. dma_line c = k \<and> lv (Dma_irq c)) \<or> k = 62 \<and> (lv Emmc2_irq \<or> lv Sdhci_irq)"
    if "Gpu_irq k \<in> board_inputs" for k
    unfolding realized_gpu_line [OF assms(1,2) that W] dma_line_channels unfolding W realized_orgates [OF assms(1,2)]
    by (simp only: orgate.distinct simp_thms) satx
  moreover have "a = a'" if "b \<in> board_inputs" "W a = Some b" "W a' = Some b" for a a' b
    using that board_wires_distinct(2) unfolding W realized_wire_iff [OF assms(1,2) that(1)]
    by (metis distinct_map inj_onD prod.inject snd_conv)
  ultimately show ?thesis by blast
qed

lemma demo_common: "wires (common_realize demo_board empty_board) a \<notin> Some ` board_inputs"
  by (auto simp: demo_board_def empty_board_def board_inputs_def)

theorem dma_and_mmc_interrupts_witness:
  "let W = wires (bcm2838_peripherals_realize demo_board empty_board); lv = (\<lambda>a. a = Dma_irq 8) in
     gpu_line W lv 23 \<and> \<not> gpu_line W lv 24 \<and> \<not> gpu_line W lv 62"
proof -
  have "can_realize demo_board n" for n by (simp add: demo_board_def)
  from dma_and_mmc_interrupts [OF this demo_common refl, of "\<lambda>a. a = Dma_irq 8"]
  show ?thesis by (simp add: Let_def board_inputs_def dma_line_eq)
qed

section \<open>Memory map\<close>

definition in_window :: "nat \<Rightarrow> region \<Rightarrow> bool" where
  "in_window n r \<longleftrightarrow> r_offset r + r_size r \<le> n"

definition apart :: "region \<Rightarrow> region \<Rightarrow> bool" where
  "apart a b \<longleftrightarrow> r_offset a + r_size a \<le> r_offset b \<or> r_offset b + r_size b \<le> r_offset a"

definition board_regions :: "periph_env \<Rightarrow> region list" where
  "board_regions e =
     [\<lparr>r_container = Peri_mr, r_offset = EMMC2_OFFSET, r_size = mmio_size e ''emmc2'', r_name = ''emmc2''\<rparr>,
      \<lparr>r_container = Peri_mr, r_offset = 0xb200, r_size = 0x200, r_name = ''mphi''\<rparr>,
      \<lparr>r_container = Peri_mr, r_offset = 0xc11000, r_size = 0x100, r_name = ''bcm2835-clkisp''\<rparr>,
      \<lparr>r_container = Peri_mr, r_offset = GPIO_OFFSET, r_size = mmio_size e ''gpio'', r_name = ''gpio''\<rparr>,
      \<lparr>r_container = Peri_mr, r_offset = BRDG_OFFSET, r_size = 0x24, r_name = ''bcm2838-asb''\<rparr>]"

lemma realized_regions:
  assumes "\<And>n. can_realize e n"
  shows "filter (\<lambda>r. r_container r = Peri_mr) (regions (bcm2838_peripherals_realize e s)) =
    filter (\<lambda>r. r_container r = Peri_mr) (regions (common_realize e s)) @ board_regions e"
  by (simp add: bcm2838_peripherals_realize_def realize_step_def assms Let_def add_region_def realize_emmc2_props_def wire_mmc_def
      wire_dma_0_6_def wire_dma_7_8_def wire_dma_9_10_def wire_dma_11_15_def connect_def upt_rec
      board_regions_def board_defs)

text \<open>
  Realizing the block maps exactly five register blocks into the peripheral window (EMMC2, the MPHI
  alias, the ISP clock, GPIO and the ASB bridge); they do not overlap each other and lie inside the
  window whose size the class declares.
\<close>

theorem board_memory_map:
  assumes "\<And>n. can_realize e n" "mmio_size e ''emmc2'' \<le> 0x1000" "mmio_size e ''gpio'' \<le> 0x1000"
    and new: "filter (\<lambda>r. r_container r = Peri_mr) (regions (bcm2838_peripherals_realize e s)) =
      filter (\<lambda>r. r_container r = Peri_mr) (regions (common_realize e s)) @ new"
  shows "new = board_regions e \<and> sorted_wrt apart new \<and>
    list_all (in_window (peri_size (bcm2838_peripherals_class_init s))) new"
proof -
  have "new = board_regions e" using new realized_regions [OF assms(1), of s] by simp
  with assms(2,3) show ?thesis
    by (simp add: board_regions_def apart_def in_window_def bcm2838_peripherals_class_init_def)
qed

theorem board_memory_map_witness:
  "sorted_wrt apart (board_regions demo_board) \<and>
   list_all (in_window (peri_size (bcm2838_peripherals_class_init empty_board))) (board_regions demo_board)"
proof -
  have "can_realize demo_board n" for n by (simp add: demo_board_def)
  from board_memory_map [OF this _ _ realized_regions [OF this], of empty_board]
  show ?thesis by (simp add: demo_board_def)
qed

section \<open>Errors while realizing\<close>

text \<open>
  The error of the common part, and the error of each device, is reported; a device that cannot be
  realized stops the set-up, so nothing that comes after it is connected.
\<close>

theorem realize_stops_at_first_error:
  "let s' = bcm2838_peripherals_realize e s; s0 = common_realize e s in
    (errp s' \<longleftrightarrow> errp s0 \<or> (\<exists>d\<in>{''emmc2'', ''mmc_irq_orgate'', ''dma_7_8_irq_orgate'', ''dma_9_10_irq_orgate'', ''gpio''}. \<not> can_realize e d)) \<and>
    (\<not> can_realize e ''emmc2'' \<longrightarrow> wires s' = wires s0) \<and>
    (\<not> can_realize e ''mmc_irq_orgate'' \<longrightarrow> wires s' = wires s0) \<and>
    (\<not> can_realize e ''dma_7_8_irq_orgate'' \<longrightarrow> wires s' (Dma_irq 7) = wires s0 (Dma_irq 7) \<and> wires s' (Dma_irq 15) = wires s0 (Dma_irq 15)) \<and>
    (\<not> can_realize e ''dma_9_10_irq_orgate'' \<longrightarrow> wires s' (Dma_irq 9) = wires s0 (Dma_irq 9) \<and> wires s' (Dma_irq 15) = wires s0 (Dma_irq 15))"
  by (simp add: bcm2838_peripherals_realize_def realize_step_def Let_def add_region_def realize_emmc2_props_def wire_mmc_def
      wire_dma_0_6_def wire_dma_7_8_def wire_dma_9_10_def wire_dma_11_15_def connect_def upt_rec)

theorem realize_stops_at_first_error_witness:
  "errp (bcm2838_peripherals_realize (demo_board\<lparr>can_realize := \<lambda>d. d \<noteq> ''mmc_irq_orgate''\<rparr>) empty_board) \<and>
   wires (bcm2838_peripherals_realize (demo_board\<lparr>can_realize := \<lambda>d. d \<noteq> ''mmc_irq_orgate''\<rparr>) empty_board) = [Other_irq 0 \<mapsto> Gpu_irq 57]"
  using realize_stops_at_first_error [of "demo_board\<lparr>can_realize := \<lambda>d. d \<noteq> ''mmc_irq_orgate''\<rparr>" empty_board]
  by (simp add: Let_def demo_board_def empty_board_def)

section \<open>Device trees\<close>











end
