(* ===== verification/Linux_Regs.thy ===== *)
theory Linux_Regs
  imports Prelude
begin

text \<open>
  Register map of the Linux GENET driver: the constants of
  \<open>src/resources/linux-genet-driver/bcmgenet.h\<close> and the register tables at the top of \<open>bcmgenet.c\<close>.
  Offsets and bit masks are 32-bit words, shift counts and positions in the tables natural numbers.
  The constants are in the collection \<open>lx_consts\<close>.
\<close>

named_theorems lx_consts \<open>values of the driver's constants\<close>

section \<open>Constants of the header\<close>

text \<open>Frame lengths of \<open>linux/if_ether.h\<close> and \<open>linux/if_vlan.h\<close>, as the comment above \<open>ENET_MAX_MTU_SIZE\<close> spells them out.\<close>

definition ETH_DATA_LEN :: u32 where [lx_consts]: "ETH_DATA_LEN = 1500"
definition ETH_HLEN :: u32 where [lx_consts]: "ETH_HLEN = 14"
definition VLAN_HLEN :: u32 where [lx_consts]: "VLAN_HLEN = 4"
definition ETH_FCS_LEN :: u32 where [lx_consts]: "ETH_FCS_LEN = 4"
definition ETH_ALEN :: u32 where [lx_consts]: "ETH_ALEN = 6"

definition GENET_MAX_MQ_CNT :: nat where [lx_consts]: "GENET_MAX_MQ_CNT = 4"
definition TOTAL_DESC :: u32 where [lx_consts]: "TOTAL_DESC = 256"
definition DESC_INDEX :: u32 where [lx_consts]: "DESC_INDEX = 16"
definition ENET_BRCM_TAG_LEN :: u32 where [lx_consts]: "ENET_BRCM_TAG_LEN = 6"
definition ENET_PAD :: u32 where [lx_consts]: "ENET_PAD = 8"
definition ENET_MAX_MTU_SIZE :: u32 where [lx_consts]: "ENET_MAX_MTU_SIZE = ETH_DATA_LEN + ETH_HLEN + VLAN_HLEN + ENET_BRCM_TAG_LEN + ETH_FCS_LEN + ENET_PAD"
definition DMA_MAX_BURST_LENGTH :: u32 where [lx_consts]: "DMA_MAX_BURST_LENGTH = 0x10"
definition MAX_NUM_OF_FS_RULES :: nat where [lx_consts]: "MAX_NUM_OF_FS_RULES = 16"
definition CLEAR_ALL_HFB :: u32 where [lx_consts]: "CLEAR_ALL_HFB = 0xFF"
definition DMA_FC_THRESH_HI :: u32 where [lx_consts]: "DMA_FC_THRESH_HI = drop_bit 4 TOTAL_DESC"
definition DMA_FC_THRESH_LO :: u32 where [lx_consts]: "DMA_FC_THRESH_LO = 5"
definition STATUS_RX_EXT_MASK :: u32 where [lx_consts]: "STATUS_RX_EXT_MASK = 0x1FFFFF"
definition STATUS_RX_CSUM_MASK :: u32 where [lx_consts]: "STATUS_RX_CSUM_MASK = 0xFFFF"
definition STATUS_RX_CSUM_OK :: u32 where [lx_consts]: "STATUS_RX_CSUM_OK = 0x10000"
definition STATUS_RX_CSUM_FR :: u32 where [lx_consts]: "STATUS_RX_CSUM_FR = 0x20000"
definition STATUS_RX_PROTO_TCP :: u32 where [lx_consts]: "STATUS_RX_PROTO_TCP = 0"
definition STATUS_RX_PROTO_UDP :: u32 where [lx_consts]: "STATUS_RX_PROTO_UDP = 1"
definition STATUS_RX_PROTO_ICMP :: u32 where [lx_consts]: "STATUS_RX_PROTO_ICMP = 2"
definition STATUS_RX_PROTO_OTHER :: u32 where [lx_consts]: "STATUS_RX_PROTO_OTHER = 3"
definition STATUS_RX_PROTO_MASK :: u32 where [lx_consts]: "STATUS_RX_PROTO_MASK = 3"
definition STATUS_RX_PROTO_SHIFT :: nat where [lx_consts]: "STATUS_RX_PROTO_SHIFT = 18"
definition STATUS_FILTER_INDEX_MASK :: u32 where [lx_consts]: "STATUS_FILTER_INDEX_MASK = 0xFFFF"
definition STATUS_TX_CSUM_START_MASK :: u32 where [lx_consts]: "STATUS_TX_CSUM_START_MASK = 0x7FFF"
definition STATUS_TX_CSUM_START_SHIFT :: nat where [lx_consts]: "STATUS_TX_CSUM_START_SHIFT = 16"
definition STATUS_TX_CSUM_PROTO_UDP :: u32 where [lx_consts]: "STATUS_TX_CSUM_PROTO_UDP = 0x8000"
definition STATUS_TX_CSUM_OFFSET_MASK :: u32 where [lx_consts]: "STATUS_TX_CSUM_OFFSET_MASK = 0x7FFF"
definition STATUS_TX_CSUM_LV :: u32 where [lx_consts]: "STATUS_TX_CSUM_LV = 0x80000000"
definition DMA_DESC_LENGTH_STATUS :: u32 where [lx_consts]: "DMA_DESC_LENGTH_STATUS = 0x00"
definition DMA_DESC_ADDRESS_LO :: u32 where [lx_consts]: "DMA_DESC_ADDRESS_LO = 0x04"
definition DMA_DESC_ADDRESS_HI :: u32 where [lx_consts]: "DMA_DESC_ADDRESS_HI = 0x08"
definition UMAC_MIB_START :: u32 where [lx_consts]: "UMAC_MIB_START = 0x400"
definition UMAC_MDIO_CMD :: u32 where [lx_consts]: "UMAC_MDIO_CMD = 0x614"
definition MDIO_START_BUSY :: u32 where [lx_consts]: "MDIO_START_BUSY = push_bit 29 1"
definition MDIO_READ_FAIL :: u32 where [lx_consts]: "MDIO_READ_FAIL = push_bit 28 1"
definition MDIO_RD :: u32 where [lx_consts]: "MDIO_RD = push_bit 26 2"
definition MDIO_WR :: u32 where [lx_consts]: "MDIO_WR = push_bit 26 1"
definition MDIO_PMD_SHIFT :: nat where [lx_consts]: "MDIO_PMD_SHIFT = 21"
definition MDIO_PMD_MASK :: u32 where [lx_consts]: "MDIO_PMD_MASK = 0x1F"
definition MDIO_REG_SHIFT :: nat where [lx_consts]: "MDIO_REG_SHIFT = 16"
definition MDIO_REG_MASK :: u32 where [lx_consts]: "MDIO_REG_MASK = 0x1F"
definition UMAC_RBUF_OVFL_CNT_V1 :: u32 where [lx_consts]: "UMAC_RBUF_OVFL_CNT_V1 = 0x61C"
definition RBUF_OVFL_CNT_V2 :: u32 where [lx_consts]: "RBUF_OVFL_CNT_V2 = 0x80"
definition RBUF_OVFL_CNT_V3PLUS :: u32 where [lx_consts]: "RBUF_OVFL_CNT_V3PLUS = 0x94"
definition UMAC_MPD_CTRL :: u32 where [lx_consts]: "UMAC_MPD_CTRL = 0x620"
definition MPD_EN :: u32 where [lx_consts]: "MPD_EN = push_bit 0 1"
definition MPD_PW_EN :: u32 where [lx_consts]: "MPD_PW_EN = push_bit 27 1"
definition MPD_MSEQ_LEN_SHIFT :: nat where [lx_consts]: "MPD_MSEQ_LEN_SHIFT = 16"
definition MPD_MSEQ_LEN_MASK :: u32 where [lx_consts]: "MPD_MSEQ_LEN_MASK = 0xFF"
definition UMAC_MPD_PW_MS :: u32 where [lx_consts]: "UMAC_MPD_PW_MS = 0x624"
definition UMAC_MPD_PW_LS :: u32 where [lx_consts]: "UMAC_MPD_PW_LS = 0x628"
definition UMAC_RBUF_ERR_CNT_V1 :: u32 where [lx_consts]: "UMAC_RBUF_ERR_CNT_V1 = 0x634"
definition RBUF_ERR_CNT_V2 :: u32 where [lx_consts]: "RBUF_ERR_CNT_V2 = 0x84"
definition RBUF_ERR_CNT_V3PLUS :: u32 where [lx_consts]: "RBUF_ERR_CNT_V3PLUS = 0x98"
definition UMAC_MDF_ERR_CNT :: u32 where [lx_consts]: "UMAC_MDF_ERR_CNT = 0x638"
definition UMAC_MDF_CTRL :: u32 where [lx_consts]: "UMAC_MDF_CTRL = 0x650"
definition UMAC_MDF_ADDR :: u32 where [lx_consts]: "UMAC_MDF_ADDR = 0x654"
definition UMAC_MIB_CTRL :: u32 where [lx_consts]: "UMAC_MIB_CTRL = 0x580"
definition MIB_RESET_RX :: u32 where [lx_consts]: "MIB_RESET_RX = push_bit 0 1"
definition MIB_RESET_RUNT :: u32 where [lx_consts]: "MIB_RESET_RUNT = push_bit 1 1"
definition MIB_RESET_TX :: u32 where [lx_consts]: "MIB_RESET_TX = push_bit 2 1"
definition RBUF_CTRL :: u32 where [lx_consts]: "RBUF_CTRL = 0x00"
definition RBUF_64B_EN :: u32 where [lx_consts]: "RBUF_64B_EN = push_bit 0 1"
definition RBUF_ALIGN_2B :: u32 where [lx_consts]: "RBUF_ALIGN_2B = push_bit 1 1"
definition RBUF_BAD_DIS :: u32 where [lx_consts]: "RBUF_BAD_DIS = push_bit 2 1"
definition RBUF_STATUS :: u32 where [lx_consts]: "RBUF_STATUS = 0x0C"
definition RBUF_STATUS_WOL :: u32 where [lx_consts]: "RBUF_STATUS_WOL = push_bit 0 1"
definition RBUF_STATUS_MPD_INTR_ACTIVE :: u32 where [lx_consts]: "RBUF_STATUS_MPD_INTR_ACTIVE = push_bit 1 1"
definition RBUF_STATUS_ACPI_INTR_ACTIVE :: u32 where [lx_consts]: "RBUF_STATUS_ACPI_INTR_ACTIVE = push_bit 2 1"
definition RBUF_CHK_CTRL :: u32 where [lx_consts]: "RBUF_CHK_CTRL = 0x14"
definition RBUF_RXCHK_EN :: u32 where [lx_consts]: "RBUF_RXCHK_EN = push_bit 0 1"
definition RBUF_SKIP_FCS :: u32 where [lx_consts]: "RBUF_SKIP_FCS = push_bit 4 1"
definition RBUF_L3_PARSE_DIS :: u32 where [lx_consts]: "RBUF_L3_PARSE_DIS = push_bit 5 1"
definition RBUF_ENERGY_CTRL :: u32 where [lx_consts]: "RBUF_ENERGY_CTRL = 0x9c"
definition RBUF_EEE_EN :: u32 where [lx_consts]: "RBUF_EEE_EN = push_bit 0 1"
definition RBUF_PM_EN :: u32 where [lx_consts]: "RBUF_PM_EN = push_bit 1 1"
definition RBUF_TBUF_SIZE_CTRL :: u32 where [lx_consts]: "RBUF_TBUF_SIZE_CTRL = 0xb4"
definition RBUF_HFB_CTRL_V1 :: u32 where [lx_consts]: "RBUF_HFB_CTRL_V1 = 0x38"
definition RBUF_HFB_FILTER_EN_SHIFT :: nat where [lx_consts]: "RBUF_HFB_FILTER_EN_SHIFT = 16"
definition RBUF_HFB_FILTER_EN_MASK :: u32 where [lx_consts]: "RBUF_HFB_FILTER_EN_MASK = 0xffff0000"
definition RBUF_HFB_EN :: u32 where [lx_consts]: "RBUF_HFB_EN = push_bit 0 1"
definition RBUF_HFB_256B :: u32 where [lx_consts]: "RBUF_HFB_256B = push_bit 1 1"
definition RBUF_ACPI_EN :: u32 where [lx_consts]: "RBUF_ACPI_EN = push_bit 2 1"
definition RBUF_HFB_LEN_V1 :: u32 where [lx_consts]: "RBUF_HFB_LEN_V1 = 0x3C"
definition RBUF_FLTR_LEN_MASK :: u32 where [lx_consts]: "RBUF_FLTR_LEN_MASK = 0xFF"
definition RBUF_FLTR_LEN_SHIFT :: nat where [lx_consts]: "RBUF_FLTR_LEN_SHIFT = 8"
definition TBUF_CTRL :: u32 where [lx_consts]: "TBUF_CTRL = 0x00"
definition TBUF_64B_EN :: u32 where [lx_consts]: "TBUF_64B_EN = push_bit 0 1"
definition TBUF_BP_MC :: u32 where [lx_consts]: "TBUF_BP_MC = 0x0C"
definition TBUF_ENERGY_CTRL :: u32 where [lx_consts]: "TBUF_ENERGY_CTRL = 0x14"
definition TBUF_EEE_EN :: u32 where [lx_consts]: "TBUF_EEE_EN = push_bit 0 1"
definition TBUF_PM_EN :: u32 where [lx_consts]: "TBUF_PM_EN = push_bit 1 1"
definition TBUF_CTRL_V1 :: u32 where [lx_consts]: "TBUF_CTRL_V1 = 0x80"
definition TBUF_BP_MC_V1 :: u32 where [lx_consts]: "TBUF_BP_MC_V1 = 0xA0"
definition HFB_CTRL :: u32 where [lx_consts]: "HFB_CTRL = 0x00"
definition HFB_FLT_ENABLE_V3PLUS :: u32 where [lx_consts]: "HFB_FLT_ENABLE_V3PLUS = 0x04"
definition HFB_FLT_LEN_V2 :: u32 where [lx_consts]: "HFB_FLT_LEN_V2 = 0x04"
definition HFB_FLT_LEN_V3PLUS :: u32 where [lx_consts]: "HFB_FLT_LEN_V3PLUS = 0x1C"
definition INTRL2_CPU_STAT :: u32 where [lx_consts]: "INTRL2_CPU_STAT = 0x00"
definition INTRL2_CPU_SET :: u32 where [lx_consts]: "INTRL2_CPU_SET = 0x04"
definition INTRL2_CPU_CLEAR :: u32 where [lx_consts]: "INTRL2_CPU_CLEAR = 0x08"
definition INTRL2_CPU_MASK_STATUS :: u32 where [lx_consts]: "INTRL2_CPU_MASK_STATUS = 0x0C"
definition INTRL2_CPU_MASK_SET :: u32 where [lx_consts]: "INTRL2_CPU_MASK_SET = 0x10"
definition INTRL2_CPU_MASK_CLEAR :: u32 where [lx_consts]: "INTRL2_CPU_MASK_CLEAR = 0x14"
definition UMAC_IRQ_SCB :: u32 where [lx_consts]: "UMAC_IRQ_SCB = push_bit 0 1"
definition UMAC_IRQ_EPHY :: u32 where [lx_consts]: "UMAC_IRQ_EPHY = push_bit 1 1"
definition UMAC_IRQ_PHY_DET_R :: u32 where [lx_consts]: "UMAC_IRQ_PHY_DET_R = push_bit 2 1"
definition UMAC_IRQ_PHY_DET_F :: u32 where [lx_consts]: "UMAC_IRQ_PHY_DET_F = push_bit 3 1"
definition UMAC_IRQ_LINK_UP :: u32 where [lx_consts]: "UMAC_IRQ_LINK_UP = push_bit 4 1"
definition UMAC_IRQ_LINK_DOWN :: u32 where [lx_consts]: "UMAC_IRQ_LINK_DOWN = push_bit 5 1"
definition UMAC_IRQ_LINK_EVENT :: u32 where [lx_consts]: "UMAC_IRQ_LINK_EVENT = UMAC_IRQ_LINK_UP OR UMAC_IRQ_LINK_DOWN"
definition UMAC_IRQ_UMAC :: u32 where [lx_consts]: "UMAC_IRQ_UMAC = push_bit 6 1"
definition UMAC_IRQ_UMAC_TSV :: u32 where [lx_consts]: "UMAC_IRQ_UMAC_TSV = push_bit 7 1"
definition UMAC_IRQ_TBUF_UNDERRUN :: u32 where [lx_consts]: "UMAC_IRQ_TBUF_UNDERRUN = push_bit 8 1"
definition UMAC_IRQ_RBUF_OVERFLOW :: u32 where [lx_consts]: "UMAC_IRQ_RBUF_OVERFLOW = push_bit 9 1"
definition UMAC_IRQ_HFB_SM :: u32 where [lx_consts]: "UMAC_IRQ_HFB_SM = push_bit 10 1"
definition UMAC_IRQ_HFB_MM :: u32 where [lx_consts]: "UMAC_IRQ_HFB_MM = push_bit 11 1"
definition UMAC_IRQ_MPD_R :: u32 where [lx_consts]: "UMAC_IRQ_MPD_R = push_bit 12 1"
definition UMAC_IRQ_WAKE_EVENT :: u32 where [lx_consts]: "UMAC_IRQ_WAKE_EVENT = UMAC_IRQ_HFB_SM OR UMAC_IRQ_HFB_MM OR UMAC_IRQ_MPD_R"
definition UMAC_IRQ_RXDMA_MBDONE :: u32 where [lx_consts]: "UMAC_IRQ_RXDMA_MBDONE = push_bit 13 1"
definition UMAC_IRQ_RXDMA_PDONE :: u32 where [lx_consts]: "UMAC_IRQ_RXDMA_PDONE = push_bit 14 1"
definition UMAC_IRQ_RXDMA_BDONE :: u32 where [lx_consts]: "UMAC_IRQ_RXDMA_BDONE = push_bit 15 1"
definition UMAC_IRQ_RXDMA_DONE :: u32 where [lx_consts]: "UMAC_IRQ_RXDMA_DONE = UMAC_IRQ_RXDMA_MBDONE"
definition UMAC_IRQ_TXDMA_MBDONE :: u32 where [lx_consts]: "UMAC_IRQ_TXDMA_MBDONE = push_bit 16 1"
definition UMAC_IRQ_TXDMA_PDONE :: u32 where [lx_consts]: "UMAC_IRQ_TXDMA_PDONE = push_bit 17 1"
definition UMAC_IRQ_TXDMA_BDONE :: u32 where [lx_consts]: "UMAC_IRQ_TXDMA_BDONE = push_bit 18 1"
definition UMAC_IRQ_TXDMA_DONE :: u32 where [lx_consts]: "UMAC_IRQ_TXDMA_DONE = UMAC_IRQ_TXDMA_MBDONE"
definition UMAC_IRQ_MDIO_DONE :: u32 where [lx_consts]: "UMAC_IRQ_MDIO_DONE = push_bit 23 1"
definition UMAC_IRQ_MDIO_ERROR :: u32 where [lx_consts]: "UMAC_IRQ_MDIO_ERROR = push_bit 24 1"
definition UMAC_IRQ_MDIO_EVENT :: u32 where [lx_consts]: "UMAC_IRQ_MDIO_EVENT = UMAC_IRQ_MDIO_DONE OR UMAC_IRQ_MDIO_ERROR"
definition UMAC_IRQ1_TX_INTR_MASK :: u32 where [lx_consts]: "UMAC_IRQ1_TX_INTR_MASK = 0xFFFF"
definition UMAC_IRQ1_RX_INTR_MASK :: u32 where [lx_consts]: "UMAC_IRQ1_RX_INTR_MASK = 0xFFFF"
definition UMAC_IRQ1_RX_INTR_SHIFT :: nat where [lx_consts]: "UMAC_IRQ1_RX_INTR_SHIFT = 16"
definition GENET_SYS_OFF :: u32 where [lx_consts]: "GENET_SYS_OFF = 0x0000"
definition GENET_GR_BRIDGE_OFF :: u32 where [lx_consts]: "GENET_GR_BRIDGE_OFF = 0x0040"
definition GENET_EXT_OFF :: u32 where [lx_consts]: "GENET_EXT_OFF = 0x0080"
definition GENET_INTRL2_0_OFF :: u32 where [lx_consts]: "GENET_INTRL2_0_OFF = 0x0200"
definition GENET_INTRL2_1_OFF :: u32 where [lx_consts]: "GENET_INTRL2_1_OFF = 0x0240"
definition GENET_RBUF_OFF :: u32 where [lx_consts]: "GENET_RBUF_OFF = 0x0300"
definition GENET_UMAC_OFF :: u32 where [lx_consts]: "GENET_UMAC_OFF = 0x0800"
definition SYS_REV_CTRL :: u32 where [lx_consts]: "SYS_REV_CTRL = 0x00"
definition SYS_PORT_CTRL :: u32 where [lx_consts]: "SYS_PORT_CTRL = 0x04"
definition PORT_MODE_INT_EPHY :: u32 where [lx_consts]: "PORT_MODE_INT_EPHY = 0"
definition PORT_MODE_INT_GPHY :: u32 where [lx_consts]: "PORT_MODE_INT_GPHY = 1"
definition PORT_MODE_EXT_EPHY :: u32 where [lx_consts]: "PORT_MODE_EXT_EPHY = 2"
definition PORT_MODE_EXT_GPHY :: u32 where [lx_consts]: "PORT_MODE_EXT_GPHY = 3"
definition PORT_MODE_EXT_RVMII_25 :: u32 where [lx_consts]: "PORT_MODE_EXT_RVMII_25 = 4 OR push_bit 4 1"
definition PORT_MODE_EXT_RVMII_50 :: u32 where [lx_consts]: "PORT_MODE_EXT_RVMII_50 = 4"
definition LED_ACT_SOURCE_MAC :: u32 where [lx_consts]: "LED_ACT_SOURCE_MAC = push_bit 9 1"
definition SYS_RBUF_FLUSH_CTRL :: u32 where [lx_consts]: "SYS_RBUF_FLUSH_CTRL = 0x08"
definition SYS_TBUF_FLUSH_CTRL :: u32 where [lx_consts]: "SYS_TBUF_FLUSH_CTRL = 0x0C"
definition RBUF_FLUSH_CTRL_V1 :: u32 where [lx_consts]: "RBUF_FLUSH_CTRL_V1 = 0x04"
definition EXT_EXT_PWR_MGMT :: u32 where [lx_consts]: "EXT_EXT_PWR_MGMT = 0x00"
definition EXT_PWR_DOWN_BIAS :: u32 where [lx_consts]: "EXT_PWR_DOWN_BIAS = push_bit 0 1"
definition EXT_PWR_DOWN_DLL :: u32 where [lx_consts]: "EXT_PWR_DOWN_DLL = push_bit 1 1"
definition EXT_PWR_DOWN_PHY :: u32 where [lx_consts]: "EXT_PWR_DOWN_PHY = push_bit 2 1"
definition EXT_PWR_DN_EN_LD :: u32 where [lx_consts]: "EXT_PWR_DN_EN_LD = push_bit 3 1"
definition EXT_ENERGY_DET :: u32 where [lx_consts]: "EXT_ENERGY_DET = push_bit 4 1"
definition EXT_IDDQ_FROM_PHY :: u32 where [lx_consts]: "EXT_IDDQ_FROM_PHY = push_bit 5 1"
definition EXT_IDDQ_GLBL_PWR :: u32 where [lx_consts]: "EXT_IDDQ_GLBL_PWR = push_bit 7 1"
definition EXT_PHY_RESET :: u32 where [lx_consts]: "EXT_PHY_RESET = push_bit 8 1"
definition EXT_ENERGY_DET_MASK :: u32 where [lx_consts]: "EXT_ENERGY_DET_MASK = push_bit 12 1"
definition EXT_PWR_DOWN_PHY_TX :: u32 where [lx_consts]: "EXT_PWR_DOWN_PHY_TX = push_bit 16 1"
definition EXT_PWR_DOWN_PHY_RX :: u32 where [lx_consts]: "EXT_PWR_DOWN_PHY_RX = push_bit 17 1"
definition EXT_PWR_DOWN_PHY_SD :: u32 where [lx_consts]: "EXT_PWR_DOWN_PHY_SD = push_bit 18 1"
definition EXT_PWR_DOWN_PHY_RD :: u32 where [lx_consts]: "EXT_PWR_DOWN_PHY_RD = push_bit 19 1"
definition EXT_PWR_DOWN_PHY_EN :: u32 where [lx_consts]: "EXT_PWR_DOWN_PHY_EN = push_bit 20 1"
definition EXT_RGMII_OOB_CTRL :: u32 where [lx_consts]: "EXT_RGMII_OOB_CTRL = 0x0C"
definition RGMII_MODE_EN_V123 :: u32 where [lx_consts]: "RGMII_MODE_EN_V123 = push_bit 0 1"
definition RGMII_LINK :: u32 where [lx_consts]: "RGMII_LINK = push_bit 4 1"
definition OOB_DISABLE :: u32 where [lx_consts]: "OOB_DISABLE = push_bit 5 1"
definition RGMII_MODE_EN :: u32 where [lx_consts]: "RGMII_MODE_EN = push_bit 6 1"
definition ID_MODE_DIS :: u32 where [lx_consts]: "ID_MODE_DIS = push_bit 16 1"
definition EXT_GPHY_CTRL :: u32 where [lx_consts]: "EXT_GPHY_CTRL = 0x1C"
definition EXT_CFG_IDDQ_BIAS :: u32 where [lx_consts]: "EXT_CFG_IDDQ_BIAS = push_bit 0 1"
definition EXT_CFG_PWR_DOWN :: u32 where [lx_consts]: "EXT_CFG_PWR_DOWN = push_bit 1 1"
definition EXT_CK25_DIS :: u32 where [lx_consts]: "EXT_CK25_DIS = push_bit 4 1"
definition EXT_CFG_IDDQ_GLOBAL_PWR :: u32 where [lx_consts]: "EXT_CFG_IDDQ_GLOBAL_PWR = push_bit 3 1"
definition EXT_GPHY_RESET :: u32 where [lx_consts]: "EXT_GPHY_RESET = push_bit 5 1"
definition DMA_RING_SIZE :: u32 where [lx_consts]: "DMA_RING_SIZE = 0x40"
definition DMA_RINGS_SIZE :: u32 where [lx_consts]: "DMA_RINGS_SIZE = DMA_RING_SIZE * (DESC_INDEX + 1)"
definition DMA_RW_POINTER_MASK :: u32 where [lx_consts]: "DMA_RW_POINTER_MASK = 0x1FF"
definition DMA_P_INDEX_DISCARD_CNT_MASK :: u32 where [lx_consts]: "DMA_P_INDEX_DISCARD_CNT_MASK = 0xFFFF"
definition DMA_P_INDEX_DISCARD_CNT_SHIFT :: nat where [lx_consts]: "DMA_P_INDEX_DISCARD_CNT_SHIFT = 16"
definition DMA_BUFFER_DONE_CNT_MASK :: u32 where [lx_consts]: "DMA_BUFFER_DONE_CNT_MASK = 0xFFFF"
definition DMA_BUFFER_DONE_CNT_SHIFT :: nat where [lx_consts]: "DMA_BUFFER_DONE_CNT_SHIFT = 16"
definition DMA_P_INDEX_MASK :: u32 where [lx_consts]: "DMA_P_INDEX_MASK = 0xFFFF"
definition DMA_C_INDEX_MASK :: u32 where [lx_consts]: "DMA_C_INDEX_MASK = 0xFFFF"
definition DMA_RING_SIZE_MASK :: u32 where [lx_consts]: "DMA_RING_SIZE_MASK = 0xFFFF"
definition DMA_RING_SIZE_SHIFT :: nat where [lx_consts]: "DMA_RING_SIZE_SHIFT = 16"
definition DMA_RING_BUFFER_SIZE_MASK :: u32 where [lx_consts]: "DMA_RING_BUFFER_SIZE_MASK = 0xFFFF"
definition DMA_INTR_THRESHOLD_MASK :: u32 where [lx_consts]: "DMA_INTR_THRESHOLD_MASK = 0x01FF"
definition DMA_XON_THREHOLD_MASK :: u32 where [lx_consts]: "DMA_XON_THREHOLD_MASK = 0xFFFF"
definition DMA_XOFF_THRESHOLD_MASK :: u32 where [lx_consts]: "DMA_XOFF_THRESHOLD_MASK = 0xFFFF"
definition DMA_XOFF_THRESHOLD_SHIFT :: nat where [lx_consts]: "DMA_XOFF_THRESHOLD_SHIFT = 16"
definition DMA_FLOW_PERIOD_MASK :: u32 where [lx_consts]: "DMA_FLOW_PERIOD_MASK = 0xFFFF"
definition DMA_MAX_PKT_SIZE_MASK :: u32 where [lx_consts]: "DMA_MAX_PKT_SIZE_MASK = 0xFFFF"
definition DMA_MAX_PKT_SIZE_SHIFT :: nat where [lx_consts]: "DMA_MAX_PKT_SIZE_SHIFT = 16"
definition DMA_EN :: u32 where [lx_consts]: "DMA_EN = push_bit 0 1"
definition DMA_RING_BUF_EN_SHIFT :: nat where [lx_consts]: "DMA_RING_BUF_EN_SHIFT = 0x01"
definition DMA_RING_BUF_EN_MASK :: u32 where [lx_consts]: "DMA_RING_BUF_EN_MASK = 0xFFFF"
definition DMA_TSB_SWAP_EN :: u32 where [lx_consts]: "DMA_TSB_SWAP_EN = push_bit 20 1"
definition DMA_DISABLED :: u32 where [lx_consts]: "DMA_DISABLED = push_bit 0 1"
definition DMA_DESC_RAM_INIT_BUSY :: u32 where [lx_consts]: "DMA_DESC_RAM_INIT_BUSY = push_bit 1 1"
definition DMA_SCB_BURST_SIZE_MASK :: u32 where [lx_consts]: "DMA_SCB_BURST_SIZE_MASK = 0x1F"
definition DMA_ACTIVITY_VECTOR_MASK :: u32 where [lx_consts]: "DMA_ACTIVITY_VECTOR_MASK = 0x1FFFF"
definition DMA_BACKPRESSURE_MASK :: u32 where [lx_consts]: "DMA_BACKPRESSURE_MASK = 0x1FFFF"
definition DMA_PFC_ENABLE :: u32 where [lx_consts]: "DMA_PFC_ENABLE = push_bit 31 1"
definition DMA_BACKPRESSURE_STATUS_MASK :: u32 where [lx_consts]: "DMA_BACKPRESSURE_STATUS_MASK = 0x1FFFF"
definition DMA_LITTLE_ENDIAN_MODE :: u32 where [lx_consts]: "DMA_LITTLE_ENDIAN_MODE = push_bit 0 1"
definition DMA_REGISTER_MODE :: u32 where [lx_consts]: "DMA_REGISTER_MODE = push_bit 1 1"
definition DMA_TIMEOUT_MASK :: u32 where [lx_consts]: "DMA_TIMEOUT_MASK = 0xFFFF"
definition DMA_TIMEOUT_VAL :: nat where [lx_consts]: "DMA_TIMEOUT_VAL = 5000"
definition DMA_RATE_LIMIT_EN_MASK :: u32 where [lx_consts]: "DMA_RATE_LIMIT_EN_MASK = 0xFFFF"
definition DMA_ARBITER_MODE_MASK :: u32 where [lx_consts]: "DMA_ARBITER_MODE_MASK = 0x03"
definition DMA_RING_BUF_PRIORITY_MASK :: u32 where [lx_consts]: "DMA_RING_BUF_PRIORITY_MASK = 0x1F"
definition DMA_RING_BUF_PRIORITY_SHIFT :: nat where [lx_consts]: "DMA_RING_BUF_PRIORITY_SHIFT = 5"
definition DMA_RATE_ADJ_MASK :: u32 where [lx_consts]: "DMA_RATE_ADJ_MASK = 0xFF"
definition DMA_BUFLENGTH_MASK :: u32 where [lx_consts]: "DMA_BUFLENGTH_MASK = 0x0fff"
definition DMA_BUFLENGTH_SHIFT :: nat where [lx_consts]: "DMA_BUFLENGTH_SHIFT = 16"
definition DMA_OWN :: u32 where [lx_consts]: "DMA_OWN = 0x8000"
definition DMA_EOP :: u32 where [lx_consts]: "DMA_EOP = 0x4000"
definition DMA_SOP :: u32 where [lx_consts]: "DMA_SOP = 0x2000"
definition DMA_WRAP :: u32 where [lx_consts]: "DMA_WRAP = 0x1000"
definition DMA_TX_UNDERRUN :: u32 where [lx_consts]: "DMA_TX_UNDERRUN = 0x0200"
definition DMA_TX_APPEND_CRC :: u32 where [lx_consts]: "DMA_TX_APPEND_CRC = 0x0040"
definition DMA_TX_OW_CRC :: u32 where [lx_consts]: "DMA_TX_OW_CRC = 0x0020"
definition DMA_TX_DO_CSUM :: u32 where [lx_consts]: "DMA_TX_DO_CSUM = 0x0010"
definition DMA_TX_QTAG_SHIFT :: nat where [lx_consts]: "DMA_TX_QTAG_SHIFT = 7"
definition DMA_RX_CHK_V3PLUS :: u32 where [lx_consts]: "DMA_RX_CHK_V3PLUS = 0x8000"
definition DMA_RX_CHK_V12 :: u32 where [lx_consts]: "DMA_RX_CHK_V12 = 0x1000"
definition DMA_RX_BRDCAST :: u32 where [lx_consts]: "DMA_RX_BRDCAST = 0x0040"
definition DMA_RX_MULT :: u32 where [lx_consts]: "DMA_RX_MULT = 0x0020"
definition DMA_RX_LG :: u32 where [lx_consts]: "DMA_RX_LG = 0x0010"
definition DMA_RX_NO :: u32 where [lx_consts]: "DMA_RX_NO = 0x0008"
definition DMA_RX_RXER :: u32 where [lx_consts]: "DMA_RX_RXER = 0x0004"
definition DMA_RX_CRC_ERROR :: u32 where [lx_consts]: "DMA_RX_CRC_ERROR = 0x0002"
definition DMA_RX_OV :: u32 where [lx_consts]: "DMA_RX_OV = 0x0001"
definition DMA_RX_FI_MASK :: u32 where [lx_consts]: "DMA_RX_FI_MASK = 0x001F"
definition DMA_RX_FI_SHIFT :: nat where [lx_consts]: "DMA_RX_FI_SHIFT = 0x0007"
definition DMA_DESC_ALLOC_MASK :: u32 where [lx_consts]: "DMA_DESC_ALLOC_MASK = 0x00FF"
definition DMA_ARBITER_RR :: u32 where [lx_consts]: "DMA_ARBITER_RR = 0x00"
definition DMA_ARBITER_WRR :: u32 where [lx_consts]: "DMA_ARBITER_WRR = 0x01"
definition DMA_ARBITER_SP :: u32 where [lx_consts]: "DMA_ARBITER_SP = 0x02"
definition GENET_HAS_40BITS :: u32 where [lx_consts]: "GENET_HAS_40BITS = push_bit 0 1"
definition GENET_HAS_EXT :: u32 where [lx_consts]: "GENET_HAS_EXT = push_bit 1 1"
definition GENET_HAS_MDIO_INTR :: u32 where [lx_consts]: "GENET_HAS_MDIO_INTR = push_bit 2 1"
definition GENET_HAS_MOCA_LINK_DET :: u32 where [lx_consts]: "GENET_HAS_MOCA_LINK_DET = push_bit 3 1"
definition GENET_HAS_EPHY_16NM :: u32 where [lx_consts]: "GENET_HAS_EPHY_16NM = push_bit 4 1"

section \<open>Register tables\<close>

text \<open>An array with designated initialisers: the elements that are not named are zero.\<close>

definition designated :: "nat \<Rightarrow> (nat \<times> u8) list \<Rightarrow> u8 list" where
  "designated n ps = map (\<lambda>i. case map_of ps i of Some v \<Rightarrow> v | None \<Rightarrow> 0) [0..<n]"

text \<open>\<open>enum dma_reg\<close>: positions in the tables of the DMA control registers.\<close>

definition DMA_RING_CFG :: nat where [lx_consts]: "DMA_RING_CFG = 0"
definition DMA_CTRL :: nat where [lx_consts]: "DMA_CTRL = 1"
definition DMA_STATUS :: nat where [lx_consts]: "DMA_STATUS = 2"
definition DMA_SCB_BURST_SIZE :: nat where [lx_consts]: "DMA_SCB_BURST_SIZE = 3"
definition DMA_ARB_CTRL :: nat where [lx_consts]: "DMA_ARB_CTRL = 4"
definition DMA_PRIORITY_0 :: nat where [lx_consts]: "DMA_PRIORITY_0 = 5"
definition DMA_PRIORITY_1 :: nat where [lx_consts]: "DMA_PRIORITY_1 = 6"
definition DMA_PRIORITY_2 :: nat where [lx_consts]: "DMA_PRIORITY_2 = 7"
definition DMA_INDEX2RING_0 :: nat where [lx_consts]: "DMA_INDEX2RING_0 = 8"
definition DMA_INDEX2RING_1 :: nat where [lx_consts]: "DMA_INDEX2RING_1 = 9"
definition DMA_INDEX2RING_2 :: nat where [lx_consts]: "DMA_INDEX2RING_2 = 10"
definition DMA_INDEX2RING_3 :: nat where [lx_consts]: "DMA_INDEX2RING_3 = 11"
definition DMA_INDEX2RING_4 :: nat where [lx_consts]: "DMA_INDEX2RING_4 = 12"
definition DMA_INDEX2RING_5 :: nat where [lx_consts]: "DMA_INDEX2RING_5 = 13"
definition DMA_INDEX2RING_6 :: nat where [lx_consts]: "DMA_INDEX2RING_6 = 14"
definition DMA_INDEX2RING_7 :: nat where [lx_consts]: "DMA_INDEX2RING_7 = 15"
definition DMA_RING0_TIMEOUT :: nat where [lx_consts]: "DMA_RING0_TIMEOUT = 16"
definition DMA_RING1_TIMEOUT :: nat where [lx_consts]: "DMA_RING1_TIMEOUT = 17"
definition DMA_RING2_TIMEOUT :: nat where [lx_consts]: "DMA_RING2_TIMEOUT = 18"
definition DMA_RING3_TIMEOUT :: nat where [lx_consts]: "DMA_RING3_TIMEOUT = 19"
definition DMA_RING4_TIMEOUT :: nat where [lx_consts]: "DMA_RING4_TIMEOUT = 20"
definition DMA_RING5_TIMEOUT :: nat where [lx_consts]: "DMA_RING5_TIMEOUT = 21"
definition DMA_RING6_TIMEOUT :: nat where [lx_consts]: "DMA_RING6_TIMEOUT = 22"
definition DMA_RING7_TIMEOUT :: nat where [lx_consts]: "DMA_RING7_TIMEOUT = 23"
definition DMA_RING8_TIMEOUT :: nat where [lx_consts]: "DMA_RING8_TIMEOUT = 24"
definition DMA_RING9_TIMEOUT :: nat where [lx_consts]: "DMA_RING9_TIMEOUT = 25"
definition DMA_RING10_TIMEOUT :: nat where [lx_consts]: "DMA_RING10_TIMEOUT = 26"
definition DMA_RING11_TIMEOUT :: nat where [lx_consts]: "DMA_RING11_TIMEOUT = 27"
definition DMA_RING12_TIMEOUT :: nat where [lx_consts]: "DMA_RING12_TIMEOUT = 28"
definition DMA_RING13_TIMEOUT :: nat where [lx_consts]: "DMA_RING13_TIMEOUT = 29"
definition DMA_RING14_TIMEOUT :: nat where [lx_consts]: "DMA_RING14_TIMEOUT = 30"
definition DMA_RING15_TIMEOUT :: nat where [lx_consts]: "DMA_RING15_TIMEOUT = 31"
definition DMA_RING16_TIMEOUT :: nat where [lx_consts]: "DMA_RING16_TIMEOUT = 32"

definition bcmgenet_dma_regs_v3plus :: "u8 list" where
  "bcmgenet_dma_regs_v3plus = designated (Suc DMA_RING16_TIMEOUT)
    [(DMA_RING_CFG, 0x00),
     (DMA_CTRL, 0x04),
     (DMA_STATUS, 0x08),
     (DMA_SCB_BURST_SIZE, 0x0C),
     (DMA_ARB_CTRL, 0x2C),
     (DMA_PRIORITY_0, 0x30),
     (DMA_PRIORITY_1, 0x34),
     (DMA_PRIORITY_2, 0x38),
     (DMA_RING0_TIMEOUT, 0x2C),
     (DMA_RING1_TIMEOUT, 0x30),
     (DMA_RING2_TIMEOUT, 0x34),
     (DMA_RING3_TIMEOUT, 0x38),
     (DMA_RING4_TIMEOUT, 0x3c),
     (DMA_RING5_TIMEOUT, 0x40),
     (DMA_RING6_TIMEOUT, 0x44),
     (DMA_RING7_TIMEOUT, 0x48),
     (DMA_RING8_TIMEOUT, 0x4c),
     (DMA_RING9_TIMEOUT, 0x50),
     (DMA_RING10_TIMEOUT, 0x54),
     (DMA_RING11_TIMEOUT, 0x58),
     (DMA_RING12_TIMEOUT, 0x5c),
     (DMA_RING13_TIMEOUT, 0x60),
     (DMA_RING14_TIMEOUT, 0x64),
     (DMA_RING15_TIMEOUT, 0x68),
     (DMA_RING16_TIMEOUT, 0x6C),
     (DMA_INDEX2RING_0, 0x70),
     (DMA_INDEX2RING_1, 0x74),
     (DMA_INDEX2RING_2, 0x78),
     (DMA_INDEX2RING_3, 0x7C),
     (DMA_INDEX2RING_4, 0x80),
     (DMA_INDEX2RING_5, 0x84),
     (DMA_INDEX2RING_6, 0x88),
     (DMA_INDEX2RING_7, 0x8C)]"

definition bcmgenet_dma_regs_v2 :: "u8 list" where
  "bcmgenet_dma_regs_v2 = designated (Suc DMA_RING16_TIMEOUT)
    [(DMA_RING_CFG, 0x00),
     (DMA_CTRL, 0x04),
     (DMA_STATUS, 0x08),
     (DMA_SCB_BURST_SIZE, 0x0C),
     (DMA_ARB_CTRL, 0x30),
     (DMA_PRIORITY_0, 0x34),
     (DMA_PRIORITY_1, 0x38),
     (DMA_PRIORITY_2, 0x3C),
     (DMA_RING0_TIMEOUT, 0x2C),
     (DMA_RING1_TIMEOUT, 0x30),
     (DMA_RING2_TIMEOUT, 0x34),
     (DMA_RING3_TIMEOUT, 0x38),
     (DMA_RING4_TIMEOUT, 0x3c),
     (DMA_RING5_TIMEOUT, 0x40),
     (DMA_RING6_TIMEOUT, 0x44),
     (DMA_RING7_TIMEOUT, 0x48),
     (DMA_RING8_TIMEOUT, 0x4c),
     (DMA_RING9_TIMEOUT, 0x50),
     (DMA_RING10_TIMEOUT, 0x54),
     (DMA_RING11_TIMEOUT, 0x58),
     (DMA_RING12_TIMEOUT, 0x5c),
     (DMA_RING13_TIMEOUT, 0x60),
     (DMA_RING14_TIMEOUT, 0x64),
     (DMA_RING15_TIMEOUT, 0x68),
     (DMA_RING16_TIMEOUT, 0x6C)]"

definition bcmgenet_dma_regs_v1 :: "u8 list" where
  "bcmgenet_dma_regs_v1 = designated (Suc DMA_RING16_TIMEOUT)
    [(DMA_CTRL, 0x00),
     (DMA_STATUS, 0x04),
     (DMA_SCB_BURST_SIZE, 0x0C),
     (DMA_ARB_CTRL, 0x30),
     (DMA_PRIORITY_0, 0x34),
     (DMA_PRIORITY_1, 0x38),
     (DMA_PRIORITY_2, 0x3C),
     (DMA_RING0_TIMEOUT, 0x2C),
     (DMA_RING1_TIMEOUT, 0x30),
     (DMA_RING2_TIMEOUT, 0x34),
     (DMA_RING3_TIMEOUT, 0x38),
     (DMA_RING4_TIMEOUT, 0x3c),
     (DMA_RING5_TIMEOUT, 0x40),
     (DMA_RING6_TIMEOUT, 0x44),
     (DMA_RING7_TIMEOUT, 0x48),
     (DMA_RING8_TIMEOUT, 0x4c),
     (DMA_RING9_TIMEOUT, 0x50),
     (DMA_RING10_TIMEOUT, 0x54),
     (DMA_RING11_TIMEOUT, 0x58),
     (DMA_RING12_TIMEOUT, 0x5c),
     (DMA_RING13_TIMEOUT, 0x60),
     (DMA_RING14_TIMEOUT, 0x64),
     (DMA_RING15_TIMEOUT, 0x68),
     (DMA_RING16_TIMEOUT, 0x6C)]"

text \<open>\<open>enum dma_ring_reg\<close>: positions in the tables of the ring registers.\<close>

definition TDMA_READ_PTR :: nat where [lx_consts]: "TDMA_READ_PTR = 0"
definition RDMA_WRITE_PTR :: nat where [lx_consts]: "RDMA_WRITE_PTR = TDMA_READ_PTR"
definition TDMA_READ_PTR_HI :: nat where [lx_consts]: "TDMA_READ_PTR_HI = 1"
definition RDMA_WRITE_PTR_HI :: nat where [lx_consts]: "RDMA_WRITE_PTR_HI = TDMA_READ_PTR_HI"
definition TDMA_CONS_INDEX :: nat where [lx_consts]: "TDMA_CONS_INDEX = 2"
definition RDMA_PROD_INDEX :: nat where [lx_consts]: "RDMA_PROD_INDEX = TDMA_CONS_INDEX"
definition TDMA_PROD_INDEX :: nat where [lx_consts]: "TDMA_PROD_INDEX = 3"
definition RDMA_CONS_INDEX :: nat where [lx_consts]: "RDMA_CONS_INDEX = TDMA_PROD_INDEX"
definition DMA_RING_BUF_SIZE :: nat where [lx_consts]: "DMA_RING_BUF_SIZE = 4"
definition DMA_START_ADDR :: nat where [lx_consts]: "DMA_START_ADDR = 5"
definition DMA_START_ADDR_HI :: nat where [lx_consts]: "DMA_START_ADDR_HI = 6"
definition DMA_END_ADDR :: nat where [lx_consts]: "DMA_END_ADDR = 7"
definition DMA_END_ADDR_HI :: nat where [lx_consts]: "DMA_END_ADDR_HI = 8"
definition DMA_MBUF_DONE_THRESH :: nat where [lx_consts]: "DMA_MBUF_DONE_THRESH = 9"
definition TDMA_FLOW_PERIOD :: nat where [lx_consts]: "TDMA_FLOW_PERIOD = 10"
definition RDMA_XON_XOFF_THRESH :: nat where [lx_consts]: "RDMA_XON_XOFF_THRESH = TDMA_FLOW_PERIOD"
definition TDMA_WRITE_PTR :: nat where [lx_consts]: "TDMA_WRITE_PTR = 11"
definition RDMA_READ_PTR :: nat where [lx_consts]: "RDMA_READ_PTR = TDMA_WRITE_PTR"
definition TDMA_WRITE_PTR_HI :: nat where [lx_consts]: "TDMA_WRITE_PTR_HI = 12"
definition RDMA_READ_PTR_HI :: nat where [lx_consts]: "RDMA_READ_PTR_HI = TDMA_WRITE_PTR_HI"

definition genet_dma_ring_regs_v4 :: "u8 list" where
  "genet_dma_ring_regs_v4 = designated (Suc TDMA_WRITE_PTR_HI)
    [(TDMA_READ_PTR, 0x00),
     (TDMA_READ_PTR_HI, 0x04),
     (TDMA_CONS_INDEX, 0x08),
     (TDMA_PROD_INDEX, 0x0C),
     (DMA_RING_BUF_SIZE, 0x10),
     (DMA_START_ADDR, 0x14),
     (DMA_START_ADDR_HI, 0x18),
     (DMA_END_ADDR, 0x1C),
     (DMA_END_ADDR_HI, 0x20),
     (DMA_MBUF_DONE_THRESH, 0x24),
     (TDMA_FLOW_PERIOD, 0x28),
     (TDMA_WRITE_PTR, 0x2C),
     (TDMA_WRITE_PTR_HI, 0x30)]"

definition genet_dma_ring_regs_v123 :: "u8 list" where
  "genet_dma_ring_regs_v123 = designated (Suc TDMA_WRITE_PTR)
    [(TDMA_READ_PTR, 0x00),
     (TDMA_CONS_INDEX, 0x04),
     (TDMA_PROD_INDEX, 0x08),
     (DMA_RING_BUF_SIZE, 0x0C),
     (DMA_START_ADDR, 0x10),
     (DMA_END_ADDR, 0x14),
     (DMA_MBUF_DONE_THRESH, 0x18),
     (TDMA_FLOW_PERIOD, 0x1C),
     (TDMA_WRITE_PTR, 0x20)]"

text \<open>Macros with arguments: the priority register of a queue, and the field in it.\<close>

definition DMA_PRIO_REG_INDEX :: "u32 \<Rightarrow> u32" where
  "DMA_PRIO_REG_INDEX q = q div 6"

definition DMA_PRIO_REG_SHIFT :: "u32 \<Rightarrow> nat" where
  "DMA_PRIO_REG_SHIFT q = unat (q mod 6) * DMA_RING_BUF_PRIORITY_SHIFT"

end
