(* ===== verification/Linux_State.thy ===== *)
theory Linux_State
  imports Linux_Regs "HOL-Library.State_Monad"
begin

text \<open>
  State of the Linux GENET driver (\<open>src/resources/linux-genet-driver/bcmgenet.h\<close>) and its access to
  the world outside.  The record \<open>bcmgenet_priv\<close> has the fields of \<open>struct bcmgenet_priv\<close>, the
  driver's control buffer of every \<open>sk_buff\<close> (\<open>GENET_CB\<close>), and the history of the driver's
  interactions with the hardware and the kernel, newest first.

  The hardware and the kernel are not in the repository.  They are the environment \<open>linux_env\<close>: what a
  register read, a kernel call or a field of a kernel structure yields is any function of the history,
  so a statement about all environments is one about any hardware and any kernel.  Constants of the
  kernel's headers and of \<open>unimac.h\<close> are fields of the environment too.

  A function of the driver is a computation of the state monad.  An \<open>int\<close> is a 32-bit word read as two's
  complement; pointers are 64-bit words and 0 is \<open>NULL\<close>; a control block is named by its position in
  \<open>tx_cbs\<close> or \<open>rx_cbs\<close>.  Fields of type \<open>u8\<close> and \<open>u16\<close> in the parameter tables have the width they are
  promoted to.  Messages to the kernel log are left out.
\<close>

section \<open>Interactions\<close>

datatype (plugins only: code size) napi_id = Tx_napi u32 | Rx_napi u32

datatype lock_id = Ring_lock u32 | Reg_lock | Irq_lock | Phy_lock | Addr_lock

datatype clk_id = Clk | Clk_wol | Clk_eee

datatype dma_dir = DMA_TO_DEVICE | DMA_FROM_DEVICE

datatype work_id = Irq_work | Dim_work u32

datatype phy_state = PHY_READY | PHY_RUNNING | PHY_NOLINK

text \<open>Calls into the kernel that have an effect outside the driver, by the part of the kernel.\<close>

datatype (plugins only: code size) dma_call =
    Dma_map_single u64 u32 dma_dir
  | Skb_frag_dma_map u64 u32 u32 dma_dir
  | Dma_unmap_single u64 u32 dma_dir
  | Dma_unmap_page u64 u32 dma_dir
  | Dma_set_mask_and_coherent nat

datatype (plugins only: code size) skb_call =
    Dev_consume_skb_any u64
  | Dev_kfree_skb_any u64
  | Dev_kfree_skb u64
  | Skb_realloc_headroom u64 u32
  | Netdev_alloc_skb u32
  | Skb_push u64 u32
  | Skb_pull_raw u64 u32
  | Skb_pull u64 u32
  | Skb_put u64 u32
  | Skb_trim u64 u32
  | Set_tx_csum_info u64 u32
  | Set_csum_complete u64 u16
  | Eth_type_trans u64
  | Skb_tx_timestamp u64
  | Napi_gro_receive u32 u64

datatype (plugins only: code size) queue_call =
    Netif_tx_stop_queue u32
  | Netif_tx_wake_queue u32
  | Netdev_tx_sent_queue u32 u32
  | Netdev_tx_completed_queue u32 u32 u32
  | Netdev_tx_reset_queue u32
  | Netif_tx_disable
  | Netif_tx_start_all_queues
  | Netif_tx_wake_all_queues
  | Netif_trans_update
  | Netif_carrier_on
  | Netif_carrier_off
  | Netif_device_attach
  | Netif_device_detach
  | Netif_set_real_num_tx_queues u32
  | Netif_set_real_num_rx_queues u32

datatype (plugins only: code size) napi_call =
    Napi_enable napi_id
  | Napi_disable napi_id
  | Napi_complete napi_id
  | Napi_complete_done napi_id u32
  | Napi_schedule_prep napi_id
  | Napi_schedule_irqoff napi_id
  | Netif_napi_add napi_id
  | Netif_napi_del napi_id
  | Net_dim u32 u16 u64 u64

datatype (plugins only: code size) irq_call =
    Request_irq u32
  | Devm_request_irq u32
  | Free_irq u32
  | Enable_irq u32
  | Disable_irq u32
  | Enable_irq_wake u32
  | Disable_irq_wake u32
  | Schedule_work work_id
  | Cancel_work_sync work_id
  | Wake_up
  | Wait_event_timeout
  | Pm_wakeup_event
  | Device_set_wakeup_enable bool
  | Device_set_wakeup_capable

datatype (plugins only: code size) phy_call =
    Phy_start
  | Phy_stop
  | Phy_disconnect
  | Phy_detach
  | Phy_init_hw
  | Genphy_config_aneg
  | Phy_mac_interrupt
  | Phy_start_aneg
  | Phy_start_machine
  | Phy_resume
  | Phy_support_eee
  | Phy_set_max_speed u32
  | Set_pause_advertising bool
  | Set_asym_pause_advertising bool
  | Fixed_phy_set_link_update
  | Set_phydev_state phy_state
  | Set_phydev_flags u32
  | Set_phydev_mac_interrupt
  | Set_phydev_mac_managed_pm

datatype (plugins only: code size) phy_op =
    Phy_connect u64 u32 u32
  | Phy_connect_direct u64 u32
  | Mdio_find_bus u32
  | Phy_find_first u64
  | Put_device u64
  | Of_phy_find_device
  | Phy_ethtool_ksettings_get
  | Phy_ethtool_ksettings_set
  | Phy_ethtool_get_eee
  | Phy_ethtool_set_eee
  | Phy_ethtool_get_wol
  | Phy_ethtool_set_wol u32
  | Of_phy_register_fixed_link
  | Of_phy_deregister_fixed_link
  | Moca_link_down

datatype (plugins only: code size) dev_call =
    Alloc_etherdev_mqs nat nat
  | Free_netdev
  | Register_netdev
  | Unregister_netdev
  | Platform_get_irq nat
  | Platform_get_irq_optional nat
  | Ioremap_resource nat
  | Clk_get_optional clk_id
  | Eth_hw_addr_set "u8 list"
  | Eth_hw_addr_random
  | Device_get_ethdev_address
  | Set_drvdata bool
  | Setup_netdev
  | Add_needed_headroom u32

datatype (plugins only: code size) mdio_call =
    Platform_device_alloc u32
  | Platform_device_add_resources u64 u64
  | Platform_device_add_data bool
  | Platform_device_add
  | Platform_device_put
  | Platform_device_unregister
  | Of_get_compatible_child u32
  | Of_parse_phandle
  | Of_node_get
  | Of_node_put

datatype (plugins only: code size) kcall =
    Dma_call dma_call
  | Skb_call skb_call
  | Queue_call queue_call
  | Napi_call napi_call
  | Irq_call irq_call
  | Phy_call phy_call
  | Phy_op phy_op
  | Dev_call dev_call
  | Mdio_call mdio_call
  | Clk_prepare_enable clk_id
  | Clk_disable_unprepare clk_id
  | Spin_lock lock_id
  | Spin_unlock lock_id
  | Udelay u32
  | Mdelay u32
  | Usleep_range u32 u32
  | Kzalloc u32
  | Kfree u64

text \<open>
  A register read with the value it gave, a register write, a call with its result.  The flag tells the
  byte-order preserving accessor (\<open>__raw_readl\<close>) from the little-endian one (\<open>readl_relaxed\<close>).
\<close>

datatype (plugins only: code size) event = Rd bool u64 u32 | Wr bool u64 u32 | Call kcall u64

section \<open>Data of the driver\<close>

datatype bcmgenet_version = GENET_V1 | GENET_V2 | GENET_V3 | GENET_V4 | GENET_V5

datatype bcmgenet_power_mode = GENET_POWER_CABLE_SENSE | GENET_POWER_PASSIVE | GENET_POWER_WOL_MAGIC

record bcmgenet_hw_params =
  tx_queues :: u32
  tx_bds_per_q :: u32
  rx_queues :: u32
  rx_bds_per_q :: u32
  bp_in_en_shift :: nat
  bp_in_mask :: u32
  hfb_filter_cnt :: u32
  hfb_filter_size :: u32
  qtag_mask :: u32
  tbuf_offset :: u32
  hfb_offset :: u32
  hfb_reg_offset :: u32
  rdma_offset :: u32
  tdma_offset :: u32
  words_per_bd :: u32

text \<open>\<open>struct bcmgenet_plat_data\<close>\<close>

record bcmgenet_plat_data =
  pd_version :: bcmgenet_version
  pd_dma_max_burst_length :: u32
  pd_flags :: u32

record enet_cb =
  cb_skb :: u64
  cb_bd_addr :: u64
  cb_dma_addr :: u64
  cb_dma_len :: u32

record bcmgenet_skb_cb =
  first_cb :: u32
  last_cb :: u32
  bytes_sent :: u32

record bcmgenet_tx_stats64 =
  ts_packets :: u64
  ts_bytes :: u64
  ts_errors :: u64
  ts_dropped :: u64

record bcmgenet_rx_stats64 =
  rs_bytes :: u64
  rs_packets :: u64
  rs_errors :: u64
  rs_dropped :: u64
  rs_multicast :: u64
  rs_broadcast :: u64
  rs_missed :: u64
  rs_length_errors :: u64
  rs_over_errors :: u64
  rs_crc_errors :: u64
  rs_frame_errors :: u64
  rs_fragmented_errors :: u64

record bcmgenet_tx_ring =
  t_stats64 :: bcmgenet_tx_stats64
  t_index :: u32
  t_cbs :: u32
  t_size :: u32
  t_clean_ptr :: u32
  t_c_index :: u32
  t_free_bds :: u32
  t_write_ptr :: u32
  t_prod_index :: u32
  t_cb_ptr :: u32
  t_end_ptr :: u32

record bcmgenet_net_dim =
  use_dim :: bool
  event_ctr :: u16
  dim_packets :: u64
  dim_bytes :: u64
  dim_mode :: u8

record bcmgenet_rx_ring =
  r_stats64 :: bcmgenet_rx_stats64
  r_index :: u32
  r_cbs :: u32
  r_size :: u32
  r_c_index :: u32
  r_read_ptr :: u32
  r_cb_ptr :: u32
  r_end_ptr :: u32
  r_old_discards :: u32
  r_dim :: bcmgenet_net_dim
  rx_max_coalesced_frames :: u32
  rx_coalesce_usecs :: u32

datatype bcmgenet_rxnfc_state =
  BCMGENET_RXNFC_STATE_UNUSED | BCMGENET_RXNFC_STATE_DISABLED | BCMGENET_RXNFC_STATE_ENABLED

text \<open>
  \<open>struct ethtool_rx_flow_spec\<close> as far as the driver reads it: the union is its Ethernet or its IPv4
  part according to \<open>flow_type\<close>; multi-byte fields are their bytes in memory order.
\<close>

record flow_fields =
  h_dest :: "u8 list"
  h_source :: "u8 list"
  h_proto :: "u8 list"
  ip4src :: "u8 list"
  ip4dst :: "u8 list"
  l4_4_bytes :: "u8 list"
  tos :: u8
  ip_ver :: u8
  proto :: u8
  ext_h_dest :: "u8 list"
  vlan_etype :: "u8 list"
  vlan_tci :: "u8 list"
  ext_data :: "u32 \<times> u32"

record ethtool_rx_flow_spec =
  flow_type :: u32
  flow_h :: flow_fields
  flow_m :: flow_fields
  ring_cookie :: u64
  location :: u32

record bcmgenet_rxnfc_rule =
  fs :: ethtool_rx_flow_spec
  rule_state :: bcmgenet_rxnfc_state

text \<open>
  The device context.  \<open>dma_regs\<close> and \<open>ring_regs\<close> are the two file-level table pointers; the counters of
  \<open>mib\<close> are named by their field; \<open>rxnfc_list\<close> holds the positions of the linked rules.
\<close>

record bcmgenet_priv =
  trace :: "event list"
  dma_regs :: "u8 list"
  ring_regs :: "u8 list"
  skb_cb :: "u64 \<Rightarrow> bcmgenet_skb_cb"
  base :: u64
  version :: bcmgenet_version
  tx_bds :: u64
  tx_cbs_alloc :: u64
  tx_cbs :: "u32 \<Rightarrow> enet_cb"
  num_tx_bds :: u32
  tx_rings :: "u32 \<Rightarrow> bcmgenet_tx_ring"
  rx_bds :: u64
  rx_cbs_alloc :: u64
  rx_cbs :: "u32 \<Rightarrow> enet_cb"
  num_rx_bds :: u32
  rx_buf_len :: u32
  rxnfc_rules :: "u32 \<Rightarrow> bcmgenet_rxnfc_rule"
  rxnfc_list :: "u32 list"
  rx_rings :: "u32 \<Rightarrow> bcmgenet_rx_ring"
  hw_params :: bcmgenet_hw_params
  flags :: u32
  autoneg_pause :: bool
  tx_pause :: bool
  rx_pause :: bool
  internal_phy :: bool
  phy_dn :: u64
  mdio_dn :: u64
  gphy_rev :: u16
  clk_eee_enabled :: bool
  phy_interface :: u32
  ext_phy :: bool
  irq0 :: u32
  irq1 :: u32
  wol_irq :: u32
  wol_irq_disabled :: bool
  irq0_stat :: u32
  crc_fwd_en :: bool
  dma_max_burst_length :: u32
  msg_enable :: u32
  mii_pdev :: u64
  wolopts :: u32
  sopass :: "u8 list"
  mib :: "string \<Rightarrow> u32"

end
