(* ===== verification/Linux_Io.thy ===== *)
theory Linux_Io
  imports Linux_State
begin

text \<open>
  The environment of the Linux GENET driver and the accessors at the top of \<open>bcmgenet.c\<close> and at the end
  of \<open>bcmgenet.h\<close>: register blocks, descriptors, DMA control registers and ring registers.
\<close>

named_theorems lx_io \<open>the accessors of the register blocks\<close>

section \<open>The environment\<close>

text \<open>Constants of \<open>drivers/net/ethernet/broadcom/unimac.h\<close>.\<close>

record unimac_h =
  UMAC_CMD :: u32
  CMD_TX_EN :: u32
  CMD_RX_EN :: u32
  CMD_SPEED_10 :: u32
  CMD_SPEED_100 :: u32
  CMD_SPEED_1000 :: u32
  CMD_SPEED_MASK :: u32
  CMD_SPEED_SHIFT :: nat
  CMD_PROMISC :: u32
  CMD_CRC_FWD :: u32
  CMD_RX_PAUSE_IGNORE :: u32
  CMD_TX_PAUSE_IGNORE :: u32
  CMD_HD_EN :: u32
  CMD_SW_RESET :: u32
  UMAC_MAC0 :: u32
  UMAC_MAC1 :: u32
  UMAC_MAX_FRAME_LEN :: u32
  UMAC_MODE :: u32
  MODE_LINK_STATUS :: u32
  UMAC_EEE_CTRL :: u32
  EEE_EN :: u32
  UMAC_EEE_LPI_TIMER :: u32
  UMAC_TX_FLUSH :: u32

text \<open>Constants of the kernel's headers.\<close>

record kernel_h =
  MAX_SKB_FRAGS :: u32
  ETH_P_IP_be :: u16
  ETH_P_IPV6_be :: u16
  IPPROTO_UDP :: u8
  NETIF_F_RXCSUM :: u64
  IFF_PROMISC :: u32
  IFF_ALLMULTI :: u32
  FLOW_EXT :: u32
  FLOW_MAC_EXT :: u32
  ETHER_FLOW :: u32
  IP_USER_FLOW :: u32
  RX_CLS_LOC_ANY :: u32
  RX_CLS_LOC_SPECIAL :: u32
  RX_CLS_FLOW_WAKE :: u64
  RX_CLS_FLOW_DISC :: u64
  ETHTOOL_SRXCLSRLINS :: u32
  ETHTOOL_SRXCLSRLDEL :: u32
  ETHTOOL_GRXCLSRLCNT :: u32
  ETHTOOL_GRXCLSRULE :: u32
  ETHTOOL_GRXCLSRLALL :: u32
  ETH_SS_STATS :: u32
  DIM_CQ_PERIOD_MODE_START_FROM_EQE :: u8
  AUTONEG_ENABLE :: u32
  SPEED_1000 :: u32
  SPEED_100 :: u32
  DUPLEX_FULL :: u32
  PHY_INTERFACE_MODE_INTERNAL :: u32
  PHY_INTERFACE_MODE_MOCA :: u32
  PHY_INTERFACE_MODE_MII :: u32
  PHY_INTERFACE_MODE_REVMII :: u32
  PHY_INTERFACE_MODE_RGMII :: u32
  PHY_INTERFACE_MODE_RGMII_ID :: u32
  PHY_INTERFACE_MODE_RGMII_TXID :: u32
  PHY_INTERFACE_MODE_RGMII_RXID :: u32
  PHY_BRCM_AUTO_PWRDWN_ENABLE :: u32
  PHY_BRCM_DIS_TXCRXC_NOENRGY :: u32
  PHY_BRCM_IDDQ_SUSPEND :: u32
  WAKE_MAGIC :: u32
  WAKE_MAGICSECURE :: u32
  WAKE_FILTER :: u32
  GENET_MSG_DEFAULT_INIT :: u32

text \<open>Fields of a \<open>phy_device\<close> and of a \<open>net_device\<close> the driver reads.\<close>

record phy_device =
  phy_speed :: u32
  phy_duplex :: u32
  phy_link :: bool
  phy_autoneg :: u32
  phy_pause :: "bool \<times> bool"
  phy_enable_tx_lpi :: bool
  phy_supports_1000_full :: bool

record net_device =
  dev_phydev :: bool
  dev_running :: bool
  dev_carrier_ok :: bool
  dev_flags :: u32
  dev_features :: u64
  dev_addr :: "u8 list"
  dev_broadcast :: "u8 list"
  dev_uc :: "u8 list list"
  dev_mc :: "u8 list list"

text \<open>Fields of an \<open>sk_buff\<close> the driver reads.\<close>

record sk_buff =
  sk_len :: u32
  sk_headlen :: u32
  sk_data :: u64
  sk_headroom :: u32
  sk_frags :: "u32 list"
  sk_queue_mapping :: u32
  sk_csum_partial :: bool
  sk_protocol :: u16
  sk_ip_protocol :: u8
  sk_nexthdr :: u8
  sk_csum_start_offset :: u32
  sk_csum_offset :: u16

text \<open>The part of the 64-byte receive status block the driver reads.\<close>

record rx_status =
  length_status :: u32
  rx_csum :: u32

record linux_env =
  uh :: unimac_h
  kh :: kernel_h
  CONFIG_MIPS :: bool
  CONFIG_CPU_BIG_ENDIAN :: bool
  CONFIG_PHYS_ADDR_T_64BIT :: bool
  CONFIG_64BIT :: bool
  mmio_value :: "bool \<Rightarrow> u64 \<Rightarrow> event list \<Rightarrow> u32"
  kresult :: "kcall \<Rightarrow> event list \<Rightarrow> u64"
  skb_of :: "u64 \<Rightarrow> event list \<Rightarrow> sk_buff"
  rx_status_of :: "u64 \<Rightarrow> event list \<Rightarrow> rx_status"
  netdev :: "event list \<Rightarrow> net_device"
  phydev :: "event list \<Rightarrow> phy_device"
  dma_mapping_error :: "u64 \<Rightarrow> bool"
  netif_tx_queue_stopped :: "u32 \<Rightarrow> event list \<Rightarrow> bool"
  netif_xmit_stopped :: "u32 \<Rightarrow> event list \<Rightarrow> bool"
  netdev_xmit_more :: "event list \<Rightarrow> bool"
  netif_is_multiqueue :: "event list \<Rightarrow> bool"
  netif_msg_tx_err :: "u32 \<Rightarrow> bool"
  net_dim_get_def_rx_moderation :: "u8 \<Rightarrow> u32 \<times> u32"
  net_dim_get_rx_moderation :: "u32 \<Rightarrow> event list \<Rightarrow> u32 \<times> u32"
  device_can_wakeup :: "event list \<Rightarrow> bool"
  device_may_wakeup :: "event list \<Rightarrow> bool"
  phy_validate_pause :: "bool \<Rightarrow> bool \<Rightarrow> bool \<Rightarrow> event list \<Rightarrow> bool"
  phy_is_pseudo_fixed_link :: "event list \<Rightarrow> bool"
  of_node :: u64
  has_acpi_companion :: bool
  device_get_phy_mode :: u32
  of_phy_is_fixed_link :: bool
  is_valid_ether_addr :: "u8 list \<Rightarrow> bool"
  pdev_id :: u32
  of_alias_get_id :: u32
  resource_start :: "u64 option"
  phy_wol :: "event list \<Rightarrow> u32 \<times> u32 \<times> u8 list"
  dev_get_stats :: "event list \<Rightarrow> string \<Rightarrow> u64"
  device_get_match_data :: "bcmgenet_plat_data option"

type_synonym 'a drv = "(bcmgenet_priv, 'a) state"

section \<open>Access to the state and to the world\<close>

abbreviation ret :: "'a \<Rightarrow> 'a drv" where
  "ret \<equiv> State_Monad.return"

definition asks :: "(bcmgenet_priv \<Rightarrow> 'a) \<Rightarrow> 'a drv" where
  "asks f = State (\<lambda>s. (f s, s))"

definition modify :: "(bcmgenet_priv \<Rightarrow> bcmgenet_priv) \<Rightarrow> unit drv" where
  "modify f = State (\<lambda>s. ((), f s))"

abbreviation qry :: "(event list \<Rightarrow> 'a) \<Rightarrow> 'a drv" where
  "qry f \<equiv> asks (\<lambda>s. f (trace s))"

abbreviation emit :: "event \<Rightarrow> bcmgenet_priv \<Rightarrow> bcmgenet_priv" where
  "emit ev s \<equiv> s\<lparr>trace := ev # trace s\<rparr>"

definition kcall :: "linux_env \<Rightarrow> kcall \<Rightarrow> u64 drv" where
  "kcall e c = State (\<lambda>s. let r = kresult e c (trace s) in (r, emit (Call c r) s))"

definition kdo :: "kcall \<Rightarrow> unit drv" where
  "kdo c = modify (emit (Call c 0))"

definition mmio_read :: "linux_env \<Rightarrow> bool \<Rightarrow> u64 \<Rightarrow> u32 drv" where
  "mmio_read e raw a = State (\<lambda>s. let v = mmio_value e raw a (trace s) in (v, emit (Rd raw a v) s))"

definition mmio_write :: "bool \<Rightarrow> u64 \<Rightarrow> u32 \<Rightarrow> unit drv" where
  "mmio_write raw a v = modify (emit (Wr raw a v))"

lemma run_asks_lx [simp]: "run_state (asks f) s = (f s, s)"
  by (simp add: asks_def)

lemma run_modify_lx [simp]: "run_state (modify f) s = ((), f s)"
  by (simp add: modify_def)

lemma run_kcall [simp]:
  "run_state (kcall e c) s = (kresult e c (trace s), emit (Call c (kresult e c (trace s))) s)"
  by (simp add: kcall_def Let_def)

lemma run_kdo [simp]: "run_state (kdo c) s = ((), emit (Call c 0) s)"
  by (simp add: kdo_def)

lemma run_mmio_read [simp]:
  "run_state (mmio_read e raw a) s = (mmio_value e raw a (trace s), emit (Rd raw a (mmio_value e raw a (trace s))) s)"
  by (simp add: mmio_read_def Let_def)

lemma run_mmio_write [simp]: "run_state (mmio_write raw a v) s = ((), emit (Wr raw a v) s)"
  by (simp add: mmio_write_def)

lemma run_bind_lx [simp]:
  "run_state (State_Monad.bind m f) s = (case run_state m s of (x, s') \<Rightarrow> run_state (f x) s')" for m :: "'a drv"
  by (simp add: State_Monad.bind_def)

text \<open>A \<open>for\<close> loop over the indices of a list; \<open>for (i = 0; i < n; i++)\<close> runs over \<open>upto_word n\<close>.\<close>

primrec for_list :: "('i \<Rightarrow> unit drv) \<Rightarrow> 'i list \<Rightarrow> unit drv" where
  "for_list f [] = ret ()"
| "for_list f (i # xs) = do { f i; for_list f xs }"

definition upto_word :: "u32 \<Rightarrow> u32 list" where
  "upto_word n = map of_nat [0..<unat n]"

lemma for_list_append: "run_state (for_list f (xs @ ys)) s = run_state (for_list f ys) (snd (run_state (for_list f xs) s))"
  by (induction xs arbitrary: s) (simp_all split: prod.split)

definition upd_tx :: "u32 \<Rightarrow> (bcmgenet_tx_ring \<Rightarrow> bcmgenet_tx_ring) \<Rightarrow> unit drv" where
  "upd_tx q f = modify (\<lambda>s. s\<lparr>tx_rings := (tx_rings s)(q := f (tx_rings s q))\<rparr>)"

definition upd_rx :: "u32 \<Rightarrow> (bcmgenet_rx_ring \<Rightarrow> bcmgenet_rx_ring) \<Rightarrow> unit drv" where
  "upd_rx q f = modify (\<lambda>s. s\<lparr>rx_rings := (rx_rings s)(q := f (rx_rings s q))\<rparr>)"

definition upd_txcb :: "u32 \<Rightarrow> (enet_cb \<Rightarrow> enet_cb) \<Rightarrow> unit drv" where
  "upd_txcb i f = modify (\<lambda>s. s\<lparr>tx_cbs := (tx_cbs s)(i := f (tx_cbs s i))\<rparr>)"

definition upd_rxcb :: "u32 \<Rightarrow> (enet_cb \<Rightarrow> enet_cb) \<Rightarrow> unit drv" where
  "upd_rxcb i f = modify (\<lambda>s. s\<lparr>rx_cbs := (rx_cbs s)(i := f (rx_cbs s i))\<rparr>)"

definition upd_skb_cb :: "u64 \<Rightarrow> (bcmgenet_skb_cb \<Rightarrow> bcmgenet_skb_cb) \<Rightarrow> unit drv" where
  "upd_skb_cb p f = modify (\<lambda>s. s\<lparr>skb_cb := (skb_cb s)(p := f (skb_cb s p))\<rparr>)"

definition mib_inc :: "string \<Rightarrow> unit drv" where
  "mib_inc n = modify (\<lambda>s. s\<lparr>mib := (mib s)(n := mib s n + 1)\<rparr>)"

lemma run_upd [simp]:
  "run_state (upd_tx q f) s = ((), s\<lparr>tx_rings := (tx_rings s)(q := f (tx_rings s q))\<rparr>)"
  "run_state (upd_rx q g) s = ((), s\<lparr>rx_rings := (rx_rings s)(q := g (rx_rings s q))\<rparr>)"
  "run_state (upd_txcb i h) s = ((), s\<lparr>tx_cbs := (tx_cbs s)(i := h (tx_cbs s i))\<rparr>)"
  "run_state (upd_rxcb i h) s = ((), s\<lparr>rx_cbs := (rx_cbs s)(i := h (rx_cbs s i))\<rparr>)"
  "run_state (upd_skb_cb p k) s = ((), s\<lparr>skb_cb := (skb_cb s)(p := k (skb_cb s p))\<rparr>)"
  "run_state (mib_inc n) s = ((), s\<lparr>mib := (mib s)(n := mib s n + 1)\<rparr>)"
  by (simp_all add: upd_tx_def upd_rx_def upd_txcb_def upd_rxcb_def upd_skb_cb_def mib_inc_def)

text \<open>Updates of different fields commute; they are kept in the order history, buffers, rings.\<close>

lemma priv_upd_order [simp]:
  "s\<lparr>skb_cb := k, trace := tr\<rparr> = s\<lparr>trace := tr, skb_cb := k\<rparr>"
  "s\<lparr>tx_cbs := c, trace := tr\<rparr> = s\<lparr>trace := tr, tx_cbs := c\<rparr>"
  "s\<lparr>tx_rings := r, trace := tr\<rparr> = s\<lparr>trace := tr, tx_rings := r\<rparr>"
  "s\<lparr>mib := m, trace := tr\<rparr> = s\<lparr>trace := tr, mib := m\<rparr>"
  "s\<lparr>rx_cbs := d, trace := tr\<rparr> = s\<lparr>trace := tr, rx_cbs := d\<rparr>"
  "s\<lparr>rx_rings := u, trace := tr\<rparr> = s\<lparr>trace := tr, rx_rings := u\<rparr>"
  "s\<lparr>tx_cbs := c, skb_cb := k\<rparr> = s\<lparr>skb_cb := k, tx_cbs := c\<rparr>"
  "s\<lparr>tx_rings := r, skb_cb := k\<rparr> = s\<lparr>skb_cb := k, tx_rings := r\<rparr>"
  "s\<lparr>mib := m, skb_cb := k\<rparr> = s\<lparr>skb_cb := k, mib := m\<rparr>"
  "s\<lparr>rx_cbs := d, skb_cb := k\<rparr> = s\<lparr>skb_cb := k, rx_cbs := d\<rparr>"
  "s\<lparr>rx_rings := u, skb_cb := k\<rparr> = s\<lparr>skb_cb := k, rx_rings := u\<rparr>"
  "s\<lparr>tx_rings := r, tx_cbs := c\<rparr> = s\<lparr>tx_cbs := c, tx_rings := r\<rparr>"
  "s\<lparr>mib := m, tx_cbs := c\<rparr> = s\<lparr>tx_cbs := c, mib := m\<rparr>"
  "s\<lparr>rx_cbs := d, tx_cbs := c\<rparr> = s\<lparr>tx_cbs := c, rx_cbs := d\<rparr>"
  "s\<lparr>rx_rings := u, tx_cbs := c\<rparr> = s\<lparr>tx_cbs := c, rx_rings := u\<rparr>"
  "s\<lparr>mib := m, tx_rings := r\<rparr> = s\<lparr>tx_rings := r, mib := m\<rparr>"
  "s\<lparr>rx_cbs := d, tx_rings := r\<rparr> = s\<lparr>tx_rings := r, rx_cbs := d\<rparr>"
  "s\<lparr>rx_rings := u, tx_rings := r\<rparr> = s\<lparr>tx_rings := r, rx_rings := u\<rparr>"
  "s\<lparr>rx_cbs := d, mib := m\<rparr> = s\<lparr>mib := m, rx_cbs := d\<rparr>"
  "s\<lparr>rx_rings := u, mib := m\<rparr> = s\<lparr>mib := m, rx_rings := u\<rparr>"
  "s\<lparr>rx_rings := u, rx_cbs := d\<rparr> = s\<lparr>rx_cbs := d, rx_rings := u\<rparr>"
  by simp_all

section \<open>Register accessors\<close>

definition GENET_IS_V12 :: "bcmgenet_priv \<Rightarrow> bool" where
  "GENET_IS_V12 s \<longleftrightarrow> version s = GENET_V1 \<or> version s = GENET_V2"

definition GENET_IS_V123 :: "bcmgenet_priv \<Rightarrow> bool" where
  "GENET_IS_V123 s \<longleftrightarrow> version s = GENET_V1 \<or> version s = GENET_V2 \<or> version s = GENET_V3"

definition bcmgenet_has_40bits :: "bcmgenet_priv \<Rightarrow> bool" where
  "bcmgenet_has_40bits s \<longleftrightarrow> flags s AND GENET_HAS_40BITS \<noteq> 0"

definition bcmgenet_has_ext :: "bcmgenet_priv \<Rightarrow> bool" where
  "bcmgenet_has_ext s \<longleftrightarrow> flags s AND GENET_HAS_EXT \<noteq> 0"

definition bcmgenet_has_mdio_intr :: "bcmgenet_priv \<Rightarrow> bool" where
  "bcmgenet_has_mdio_intr s \<longleftrightarrow> flags s AND GENET_HAS_MDIO_INTR \<noteq> 0"

definition bcmgenet_has_moca_link_det :: "bcmgenet_priv \<Rightarrow> bool" where
  "bcmgenet_has_moca_link_det s \<longleftrightarrow> flags s AND GENET_HAS_MOCA_LINK_DET \<noteq> 0"

definition bcmgenet_has_ephy_16nm :: "bcmgenet_priv \<Rightarrow> bool" where
  "bcmgenet_has_ephy_16nm s \<longleftrightarrow> flags s AND GENET_HAS_EPHY_16NM \<noteq> 0"

definition native_endian :: "linux_env \<Rightarrow> bool" where
  "native_endian e \<longleftrightarrow> CONFIG_MIPS e \<and> CONFIG_CPU_BIG_ENDIAN e"

definition bcmgenet_writel :: "linux_env \<Rightarrow> u32 \<Rightarrow> u64 \<Rightarrow> unit drv" where
  "bcmgenet_writel e val a = (if native_endian e then mmio_write True a val else mmio_write False a val)"

definition bcmgenet_readl :: "linux_env \<Rightarrow> u64 \<Rightarrow> u32 drv" where
  "bcmgenet_readl e a = (if native_endian e then mmio_read e True a else mmio_read e False a)"

lemma run_bcmgenet_writel [simp]:
  "run_state (bcmgenet_writel e val a) s = ((), emit (Wr (native_endian e) a val) s)"
  by (simp add: bcmgenet_writel_def)

abbreviation mmio :: "linux_env \<Rightarrow> u64 \<Rightarrow> event list \<Rightarrow> u32" where
  "mmio e a tr \<equiv> mmio_value e (native_endian e) a tr"

lemma run_bcmgenet_readl [simp]:
  "run_state (bcmgenet_readl e a) s = (mmio e a (trace s), emit (Rd (native_endian e) a (mmio e a (trace s))) s)"
  by (simp add: bcmgenet_readl_def)

text \<open>\<open>GENET_IO_MACRO\<close>: the accessors of a register block at an offset from the base.\<close>

definition genet_io_readl :: "linux_env \<Rightarrow> (bcmgenet_priv \<Rightarrow> u32) \<Rightarrow> u32 \<Rightarrow> u32 drv" where
  "genet_io_readl e offset off = do {
     a \<leftarrow> asks (\<lambda>s. base s + ucast (offset s) + ucast off);
     bcmgenet_readl e a
   }"

definition genet_io_writel :: "linux_env \<Rightarrow> (bcmgenet_priv \<Rightarrow> u32) \<Rightarrow> u32 \<Rightarrow> u32 \<Rightarrow> unit drv" where
  "genet_io_writel e offset val off = do {
     a \<leftarrow> asks (\<lambda>s. base s + ucast (offset s) + ucast off);
     bcmgenet_writel e val a
   }"

abbreviation io_addr :: "bcmgenet_priv \<Rightarrow> (bcmgenet_priv \<Rightarrow> u32) \<Rightarrow> u32 \<Rightarrow> u64" where
  "io_addr s offset off \<equiv> base s + ucast (offset s) + ucast off"

lemma run_genet_io [simp]:
  "run_state (genet_io_readl e offset off) s =
     (mmio e (io_addr s offset off) (trace s),
      emit (Rd (native_endian e) (io_addr s offset off) (mmio e (io_addr s offset off) (trace s))) s)"
  "run_state (genet_io_writel e offset val off) s = ((), emit (Wr (native_endian e) (io_addr s offset off) val) s)"
  by (simp_all add: genet_io_readl_def genet_io_writel_def)

definition bcmgenet_ext_readl :: "linux_env \<Rightarrow> u32 \<Rightarrow> u32 drv" where [lx_io]:
  "bcmgenet_ext_readl e = genet_io_readl e (\<lambda>s. GENET_EXT_OFF)"

definition bcmgenet_ext_writel :: "linux_env \<Rightarrow> u32 \<Rightarrow> u32 \<Rightarrow> unit drv" where [lx_io]:
  "bcmgenet_ext_writel e = genet_io_writel e (\<lambda>s. GENET_EXT_OFF)"

definition bcmgenet_umac_readl :: "linux_env \<Rightarrow> u32 \<Rightarrow> u32 drv" where [lx_io]:
  "bcmgenet_umac_readl e = genet_io_readl e (\<lambda>s. GENET_UMAC_OFF)"

definition bcmgenet_umac_writel :: "linux_env \<Rightarrow> u32 \<Rightarrow> u32 \<Rightarrow> unit drv" where [lx_io]:
  "bcmgenet_umac_writel e = genet_io_writel e (\<lambda>s. GENET_UMAC_OFF)"

definition bcmgenet_sys_readl :: "linux_env \<Rightarrow> u32 \<Rightarrow> u32 drv" where [lx_io]:
  "bcmgenet_sys_readl e = genet_io_readl e (\<lambda>s. GENET_SYS_OFF)"

definition bcmgenet_sys_writel :: "linux_env \<Rightarrow> u32 \<Rightarrow> u32 \<Rightarrow> unit drv" where [lx_io]:
  "bcmgenet_sys_writel e = genet_io_writel e (\<lambda>s. GENET_SYS_OFF)"

definition bcmgenet_intrl2_0_readl :: "linux_env \<Rightarrow> u32 \<Rightarrow> u32 drv" where [lx_io]:
  "bcmgenet_intrl2_0_readl e = genet_io_readl e (\<lambda>s. GENET_INTRL2_0_OFF)"

definition bcmgenet_intrl2_0_writel :: "linux_env \<Rightarrow> u32 \<Rightarrow> u32 \<Rightarrow> unit drv" where [lx_io]:
  "bcmgenet_intrl2_0_writel e = genet_io_writel e (\<lambda>s. GENET_INTRL2_0_OFF)"

definition bcmgenet_intrl2_1_readl :: "linux_env \<Rightarrow> u32 \<Rightarrow> u32 drv" where [lx_io]:
  "bcmgenet_intrl2_1_readl e = genet_io_readl e (\<lambda>s. GENET_INTRL2_1_OFF)"

definition bcmgenet_intrl2_1_writel :: "linux_env \<Rightarrow> u32 \<Rightarrow> u32 \<Rightarrow> unit drv" where [lx_io]:
  "bcmgenet_intrl2_1_writel e = genet_io_writel e (\<lambda>s. GENET_INTRL2_1_OFF)"

definition bcmgenet_hfb_readl :: "linux_env \<Rightarrow> u32 \<Rightarrow> u32 drv" where [lx_io]:
  "bcmgenet_hfb_readl e = genet_io_readl e (\<lambda>s. hfb_offset (hw_params s))"

definition bcmgenet_hfb_writel :: "linux_env \<Rightarrow> u32 \<Rightarrow> u32 \<Rightarrow> unit drv" where [lx_io]:
  "bcmgenet_hfb_writel e = genet_io_writel e (\<lambda>s. hfb_offset (hw_params s))"

definition bcmgenet_hfb_reg_readl :: "linux_env \<Rightarrow> u32 \<Rightarrow> u32 drv" where [lx_io]:
  "bcmgenet_hfb_reg_readl e = genet_io_readl e (\<lambda>s. hfb_reg_offset (hw_params s))"

definition bcmgenet_hfb_reg_writel :: "linux_env \<Rightarrow> u32 \<Rightarrow> u32 \<Rightarrow> unit drv" where [lx_io]:
  "bcmgenet_hfb_reg_writel e = genet_io_writel e (\<lambda>s. hfb_reg_offset (hw_params s))"

definition bcmgenet_rbuf_readl :: "linux_env \<Rightarrow> u32 \<Rightarrow> u32 drv" where [lx_io]:
  "bcmgenet_rbuf_readl e = genet_io_readl e (\<lambda>s. GENET_RBUF_OFF)"

definition bcmgenet_rbuf_writel :: "linux_env \<Rightarrow> u32 \<Rightarrow> u32 \<Rightarrow> unit drv" where [lx_io]:
  "bcmgenet_rbuf_writel e = genet_io_writel e (\<lambda>s. GENET_RBUF_OFF)"

section \<open>Descriptors and control registers\<close>

definition dmadesc_set_length_status :: "linux_env \<Rightarrow> u64 \<Rightarrow> u32 \<Rightarrow> unit drv" where
  "dmadesc_set_length_status e d val = bcmgenet_writel e val (d + ucast DMA_DESC_LENGTH_STATUS)"

definition dmadesc_set_addr :: "linux_env \<Rightarrow> u64 \<Rightarrow> u64 \<Rightarrow> unit drv" where
  "dmadesc_set_addr e d addr = do {
     bcmgenet_writel e (ucast addr) (d + ucast DMA_DESC_ADDRESS_LO);
     has40 \<leftarrow> asks bcmgenet_has_40bits;
     if CONFIG_PHYS_ADDR_T_64BIT e \<and> has40
     then bcmgenet_writel e (ucast (drop_bit 32 addr)) (d + ucast DMA_DESC_ADDRESS_HI)
     else ret ()
   }"

definition dmadesc_set :: "linux_env \<Rightarrow> u64 \<Rightarrow> u64 \<Rightarrow> u32 \<Rightarrow> unit drv" where
  "dmadesc_set e d addr val = do { dmadesc_set_addr e d addr; dmadesc_set_length_status e d val }"

definition bcmgenet_rbuf_ctrl_get :: "linux_env \<Rightarrow> u32 drv" where
  "bcmgenet_rbuf_ctrl_get e = do {
     v \<leftarrow> asks version;
     if v = GENET_V1 then bcmgenet_rbuf_readl e RBUF_FLUSH_CTRL_V1
     else bcmgenet_sys_readl e SYS_RBUF_FLUSH_CTRL
   }"

definition bcmgenet_rbuf_ctrl_set :: "linux_env \<Rightarrow> u32 \<Rightarrow> unit drv" where
  "bcmgenet_rbuf_ctrl_set e val = do {
     v \<leftarrow> asks version;
     if v = GENET_V1 then bcmgenet_rbuf_writel e val RBUF_FLUSH_CTRL_V1
     else bcmgenet_sys_writel e val SYS_RBUF_FLUSH_CTRL
   }"

definition tbuf_addr :: "u32 \<Rightarrow> u64 drv" where
  "tbuf_addr off = asks (\<lambda>s. base s + ucast (tbuf_offset (hw_params s)) + ucast off)"

definition bcmgenet_tbuf_ctrl_get :: "linux_env \<Rightarrow> u32 drv" where
  "bcmgenet_tbuf_ctrl_get e = do {
     v \<leftarrow> asks version;
     if v = GENET_V1 then bcmgenet_rbuf_readl e TBUF_CTRL_V1
     else do { a \<leftarrow> tbuf_addr TBUF_CTRL; bcmgenet_readl e a }
   }"

definition bcmgenet_tbuf_ctrl_set :: "linux_env \<Rightarrow> u32 \<Rightarrow> unit drv" where
  "bcmgenet_tbuf_ctrl_set e val = do {
     v \<leftarrow> asks version;
     if v = GENET_V1 then bcmgenet_rbuf_writel e val TBUF_CTRL_V1
     else do { a \<leftarrow> tbuf_addr TBUF_CTRL; bcmgenet_writel e val a }
   }"

definition bcmgenet_bp_mc_get :: "linux_env \<Rightarrow> u32 drv" where
  "bcmgenet_bp_mc_get e = do {
     v \<leftarrow> asks version;
     if v = GENET_V1 then bcmgenet_rbuf_readl e TBUF_BP_MC_V1
     else do { a \<leftarrow> tbuf_addr TBUF_BP_MC; bcmgenet_readl e a }
   }"

definition bcmgenet_bp_mc_set :: "linux_env \<Rightarrow> u32 \<Rightarrow> unit drv" where
  "bcmgenet_bp_mc_set e val = do {
     v \<leftarrow> asks version;
     if v = GENET_V1 then bcmgenet_rbuf_writel e val TBUF_BP_MC_V1
     else do { a \<leftarrow> tbuf_addr TBUF_BP_MC; bcmgenet_writel e val a }
   }"

text \<open>\<open>GENET_TDMA_REG_OFF\<close> and \<open>GENET_RDMA_REG_OFF\<close>: the registers follow the 256 descriptors.\<close>

definition DMA_DESC_SIZE :: "bcmgenet_priv \<Rightarrow> u32" where
  "DMA_DESC_SIZE s = words_per_bd (hw_params s) * 4"

definition GENET_TDMA_REG_OFF :: "bcmgenet_priv \<Rightarrow> u32" where
  "GENET_TDMA_REG_OFF s = tdma_offset (hw_params s) + TOTAL_DESC * DMA_DESC_SIZE s"

definition GENET_RDMA_REG_OFF :: "bcmgenet_priv \<Rightarrow> u32" where
  "GENET_RDMA_REG_OFF s = rdma_offset (hw_params s) + TOTAL_DESC * DMA_DESC_SIZE s"

definition dma_addr :: "(bcmgenet_priv \<Rightarrow> u32) \<Rightarrow> nat \<Rightarrow> bcmgenet_priv \<Rightarrow> u64" where
  "dma_addr blk r s = base s + ucast (blk s) + ucast DMA_RINGS_SIZE + ucast (dma_regs s ! r)"

definition ring_addr :: "(bcmgenet_priv \<Rightarrow> u32) \<Rightarrow> u32 \<Rightarrow> nat \<Rightarrow> bcmgenet_priv \<Rightarrow> u64" where
  "ring_addr blk ring r s = base s + ucast (blk s) + ucast (DMA_RING_SIZE * ring) + ucast (ring_regs s ! r)"

definition bcmgenet_tdma_readl :: "linux_env \<Rightarrow> nat \<Rightarrow> u32 drv" where [lx_io]:
  "bcmgenet_tdma_readl e r = do { a \<leftarrow> asks (dma_addr GENET_TDMA_REG_OFF r); bcmgenet_readl e a }"

definition bcmgenet_tdma_writel :: "linux_env \<Rightarrow> u32 \<Rightarrow> nat \<Rightarrow> unit drv" where [lx_io]:
  "bcmgenet_tdma_writel e val r = do { a \<leftarrow> asks (dma_addr GENET_TDMA_REG_OFF r); bcmgenet_writel e val a }"

definition bcmgenet_tdma_ring_readl :: "linux_env \<Rightarrow> u32 \<Rightarrow> nat \<Rightarrow> u32 drv" where [lx_io]:
  "bcmgenet_tdma_ring_readl e ring r = do { a \<leftarrow> asks (ring_addr GENET_TDMA_REG_OFF ring r); bcmgenet_readl e a }"

definition bcmgenet_tdma_ring_writel :: "linux_env \<Rightarrow> u32 \<Rightarrow> u32 \<Rightarrow> nat \<Rightarrow> unit drv" where [lx_io]:
  "bcmgenet_tdma_ring_writel e ring val r = do { a \<leftarrow> asks (ring_addr GENET_TDMA_REG_OFF ring r); bcmgenet_writel e val a }"

definition bcmgenet_rdma_readl :: "linux_env \<Rightarrow> nat \<Rightarrow> u32 drv" where [lx_io]:
  "bcmgenet_rdma_readl e r = do { a \<leftarrow> asks (dma_addr GENET_RDMA_REG_OFF r); bcmgenet_readl e a }"

definition bcmgenet_rdma_writel :: "linux_env \<Rightarrow> u32 \<Rightarrow> nat \<Rightarrow> unit drv" where [lx_io]:
  "bcmgenet_rdma_writel e val r = do { a \<leftarrow> asks (dma_addr GENET_RDMA_REG_OFF r); bcmgenet_writel e val a }"

definition bcmgenet_rdma_ring_readl :: "linux_env \<Rightarrow> u32 \<Rightarrow> nat \<Rightarrow> u32 drv" where [lx_io]:
  "bcmgenet_rdma_ring_readl e ring r = do { a \<leftarrow> asks (ring_addr GENET_RDMA_REG_OFF ring r); bcmgenet_readl e a }"

definition bcmgenet_rdma_ring_writel :: "linux_env \<Rightarrow> u32 \<Rightarrow> u32 \<Rightarrow> nat \<Rightarrow> unit drv" where [lx_io]:
  "bcmgenet_rdma_ring_writel e ring val r = do { a \<leftarrow> asks (ring_addr GENET_RDMA_REG_OFF ring r); bcmgenet_writel e val a }"

text \<open>Interrupt masks of a ring.\<close>

definition bcmgenet_rx_ring_int_disable :: "linux_env \<Rightarrow> u32 \<Rightarrow> unit drv" where
  "bcmgenet_rx_ring_int_disable e q = do {
     i \<leftarrow> asks (\<lambda>s. r_index (rx_rings s q));
     bcmgenet_intrl2_1_writel e (push_bit (UMAC_IRQ1_RX_INTR_SHIFT + unat i) 1) INTRL2_CPU_MASK_SET
   }"

definition bcmgenet_rx_ring_int_enable :: "linux_env \<Rightarrow> u32 \<Rightarrow> unit drv" where
  "bcmgenet_rx_ring_int_enable e q = do {
     i \<leftarrow> asks (\<lambda>s. r_index (rx_rings s q));
     bcmgenet_intrl2_1_writel e (push_bit (UMAC_IRQ1_RX_INTR_SHIFT + unat i) 1) INTRL2_CPU_MASK_CLEAR
   }"

definition bcmgenet_tx_ring_int_enable :: "linux_env \<Rightarrow> u32 \<Rightarrow> unit drv" where
  "bcmgenet_tx_ring_int_enable e q = do {
     i \<leftarrow> asks (\<lambda>s. t_index (tx_rings s q));
     bcmgenet_intrl2_1_writel e (push_bit (unat i) 1) INTRL2_CPU_MASK_CLEAR
   }"

definition bcmgenet_tx_ring_int_disable :: "linux_env \<Rightarrow> u32 \<Rightarrow> unit drv" where
  "bcmgenet_tx_ring_int_disable e q = do {
     i \<leftarrow> asks (\<lambda>s. t_index (tx_rings s q));
     bcmgenet_intrl2_1_writel e (push_bit (unat i) 1) INTRL2_CPU_MASK_SET
   }"

text \<open>Error numbers.\<close>

definition EPERM :: u32 where "EPERM = 1"
definition ENOENT :: u32 where "ENOENT = 2"
definition EIO :: u32 where "EIO = 5"
definition ENOMEM :: u32 where "ENOMEM = 12"
definition EBUSY :: u32 where "EBUSY = 16"
definition ENODEV :: u32 where "ENODEV = 19"
definition EINVAL :: u32 where "EINVAL = 22"
definition ENOSPC :: u32 where "ENOSPC = 28"
definition EOPNOTSUPP :: u32 where "EOPNOTSUPP = 95"
definition ETIMEDOUT :: u32 where "ETIMEDOUT = 110"
definition EPROBE_DEFER :: u32 where "EPROBE_DEFER = 517"
definition ENOTSUPP :: u32 where "ENOTSUPP = 524"

lemmas lx_errno = EPERM_def ENOENT_def EIO_def ENOMEM_def EBUSY_def ENODEV_def EINVAL_def ENOSPC_def
  EOPNOTSUPP_def ETIMEDOUT_def EPROBE_DEFER_def ENOTSUPP_def

end
