(* ===== verification/Linux_Tx.thy ===== *)
theory Linux_Tx
  imports Linux_Io
begin

text \<open>
  Transmission in the Linux GENET driver (\<open>bcmgenet.c\<close>, from \<open>bcmgenet_get_txcb\<close> to \<open>bcmgenet_xmit\<close>):
  posting the fragments of an \<open>sk_buff\<close> on a ring and reclaiming them.  A ring is named by its number
  in \<open>tx_rings\<close>, which is also the number of its transmit queue.
\<close>

section \<open>Control blocks\<close>

text \<open>\<open>tx_cb_ptr = ring->cbs + (write_ptr - cb_ptr)\<close>\<close>

definition txcb_at_write :: "bcmgenet_tx_ring \<Rightarrow> u32" where
  "txcb_at_write r = t_cbs r + (t_write_ptr r - t_cb_ptr r)"

definition bcmgenet_get_txcb :: "u32 \<Rightarrow> u32 drv" where
  "bcmgenet_get_txcb q = do {
     cb \<leftarrow> asks (\<lambda>s. txcb_at_write (tx_rings s q));
     upd_tx q (\<lambda>r. r\<lparr>t_write_ptr := (if t_write_ptr r = t_end_ptr r then t_cb_ptr r else t_write_ptr r + 1)\<rparr>);
     ret cb
   }"

definition bcmgenet_put_txcb :: "u32 \<Rightarrow> u32 drv" where
  "bcmgenet_put_txcb q = do {
     cb \<leftarrow> asks (\<lambda>s. txcb_at_write (tx_rings s q));
     upd_tx q (\<lambda>r. r\<lparr>t_write_ptr := (if t_write_ptr r = t_cb_ptr r then t_end_ptr r else t_write_ptr r - 1)\<rparr>);
     ret cb
   }"

definition bcmgenet_free_tx_cb :: "u32 \<Rightarrow> u64 drv" where
  "bcmgenet_free_tx_cb i = do {
     cb \<leftarrow> asks (\<lambda>s. tx_cbs s i);
     let skb = cb_skb cb;
     if skb \<noteq> 0 then do {
       upd_txcb i (\<lambda>cb. cb\<lparr>cb_skb := 0\<rparr>);
       fcb \<leftarrow> asks (\<lambda>s. first_cb (skb_cb s skb));
       (if i = fcb then kdo (Dma_call (Dma_unmap_single (cb_dma_addr cb) (cb_dma_len cb) DMA_TO_DEVICE))
        else kdo (Dma_call (Dma_unmap_page (cb_dma_addr cb) (cb_dma_len cb) DMA_TO_DEVICE)));
       upd_txcb i (\<lambda>cb. cb\<lparr>cb_dma_addr := 0\<rparr>);
       lcb \<leftarrow> asks (\<lambda>s. last_cb (skb_cb s skb));
       ret (if i = lcb then skb else 0)
     }
     else if cb_dma_addr cb \<noteq> 0 then do {
       kdo (Dma_call (Dma_unmap_page (cb_dma_addr cb) (cb_dma_len cb) DMA_TO_DEVICE));
       upd_txcb i (\<lambda>cb. cb\<lparr>cb_dma_addr := 0\<rparr>);
       ret 0
     }
     else ret 0
   }"

section \<open>Reclaiming transmitted buffers\<close>

definition advance_clean :: "bcmgenet_tx_ring \<Rightarrow> bcmgenet_tx_ring" where
  "advance_clean r = r\<lparr>t_clean_ptr := (if t_clean_ptr r < t_end_ptr r then t_clean_ptr r + 1 else t_cb_ptr r)\<rparr>"

text \<open>The loop over the transmitted descriptors, with the packets and bytes completed so far.\<close>

primrec tx_reclaim_loop :: "u32 \<Rightarrow> nat \<Rightarrow> u32 \<Rightarrow> u32 \<Rightarrow> (u32 \<times> u32) drv" where
  "tx_reclaim_loop q 0 pkts bytes = ret (pkts, bytes)"
| "tx_reclaim_loop q (Suc n) pkts bytes = do {
     i \<leftarrow> asks (\<lambda>s. t_clean_ptr (tx_rings s q));
     skb \<leftarrow> bcmgenet_free_tx_cb i;
     b \<leftarrow> asks (\<lambda>s. bytes_sent (skb_cb s skb));
     (if skb \<noteq> 0 then kdo (Skb_call (Dev_consume_skb_any skb)) else ret ());
     upd_tx q advance_clean;
     tx_reclaim_loop q n (if skb \<noteq> 0 then pkts + 1 else pkts) (if skb \<noteq> 0 then bytes + b else bytes)
   }"

text \<open>\<open>__bcmgenet_tx_reclaim\<close>\<close>

definition bcmgenet_tx_reclaim_unlocked :: "linux_env \<Rightarrow> u32 \<Rightarrow> u32 drv" where
  "bcmgenet_tx_reclaim_unlocked e q = do {
     idx \<leftarrow> asks (\<lambda>s. t_index (tx_rings s q));
     bcmgenet_intrl2_1_writel e (push_bit (unat idx) 1) INTRL2_CPU_CLEAR;
     reg \<leftarrow> bcmgenet_tdma_ring_readl e idx TDMA_CONS_INDEX;
     let c_index = reg AND DMA_C_INDEX_MASK;
     old \<leftarrow> asks (\<lambda>s. t_c_index (tx_rings s q));
     let txbds_ready = (c_index - old) AND DMA_C_INDEX_MASK;
     (pkts_compl, bytes_compl) \<leftarrow> tx_reclaim_loop q (unat txbds_ready) 0 0;
     upd_tx q (\<lambda>r. r\<lparr>t_free_bds := t_free_bds r + txbds_ready\<rparr>);
     upd_tx q (\<lambda>r. r\<lparr>t_c_index := c_index\<rparr>);
     upd_tx q (\<lambda>r. r\<lparr>t_stats64 := (t_stats64 r)
        \<lparr>ts_packets := ts_packets (t_stats64 r) + ucast pkts_compl,
         ts_bytes := ts_bytes (t_stats64 r) + ucast bytes_compl\<rparr>\<rparr>);
     kdo (Queue_call (Netdev_tx_completed_queue idx pkts_compl bytes_compl));
     ret txbds_ready
   }"

text \<open>The loop that drops what the hardware has not sent; \<open>skb\<close> is the packet still to be consumed.\<close>

primrec tx_drop_loop :: "u32 \<Rightarrow> nat \<Rightarrow> u64 \<Rightarrow> u64 drv" where
  "tx_drop_loop q 0 skb = ret skb"
| "tx_drop_loop q (Suc n) skb = do {
     i \<leftarrow> bcmgenet_put_txcb q;
     skb \<leftarrow> asks (\<lambda>s. cb_skb (tx_cbs s i));
     bcmgenet_free_tx_cb i;
     fcb \<leftarrow> asks (\<lambda>s. first_cb (skb_cb s skb));
     if skb \<noteq> 0 \<and> i = fcb then do {
       kdo (Skb_call (Dev_consume_skb_any skb));
       tx_drop_loop q n 0
     }
     else tx_drop_loop q n skb
   }"

definition bcmgenet_tx_reclaim :: "linux_env \<Rightarrow> u32 \<Rightarrow> bool \<Rightarrow> u32 drv" where
  "bcmgenet_tx_reclaim e q all_bufs = do {
     kdo (Spin_lock (Ring_lock q));
     released \<leftarrow> bcmgenet_tx_reclaim_unlocked e q;
     released \<leftarrow> (if all_bufs then do {
       drop_cnt \<leftarrow> asks (\<lambda>s. (t_prod_index (tx_rings s q) - t_c_index (tx_rings s q)) AND DMA_C_INDEX_MASK);
       upd_tx q (\<lambda>r. r\<lparr>t_prod_index := t_c_index r AND DMA_C_INDEX_MASK\<rparr>);
       skb \<leftarrow> tx_drop_loop q (unat drop_cnt) 0;
       (if skb \<noteq> 0 then kdo (Skb_call (Dev_consume_skb_any skb)) else ret ());
       r \<leftarrow> asks (\<lambda>s. tx_rings s q);
       bcmgenet_tdma_ring_writel e (t_index r) (t_prod_index r) TDMA_PROD_INDEX;
       words \<leftarrow> asks (\<lambda>s. words_per_bd (hw_params s));
       let wr_ptr = t_write_ptr r * words;
       bcmgenet_tdma_ring_writel e (t_index r) wr_ptr TDMA_WRITE_PTR;
       ret (released + drop_cnt)
     } else ret released);
     kdo (Spin_unlock (Ring_lock q));
     ret released
   }"

definition bcmgenet_tx_poll :: "linux_env \<Rightarrow> u32 \<Rightarrow> u32 \<Rightarrow> u32 drv" where
  "bcmgenet_tx_poll e q budget = do {
     kdo (Spin_lock (Ring_lock q));
     work_done \<leftarrow> bcmgenet_tx_reclaim_unlocked e q;
     r \<leftarrow> asks (\<lambda>s. tx_rings s q);
     (if t_free_bds r > MAX_SKB_FRAGS (kh e) + 1
      then kdo (Queue_call (Netif_tx_wake_queue (t_index r))) else ret ());
     kdo (Spin_unlock (Ring_lock q));
     if work_done = 0 then do {
       kdo (Napi_call (Napi_complete (Tx_napi q)));
       bcmgenet_tx_ring_int_enable e q;
       ret 0
     }
     else ret budget
   }"

text \<open>\<open>do \<dots> while (i <= tx_queues && netif_is_multiqueue(dev))\<close>; the ring numbers after 0 are passed over.\<close>

primrec tx_reclaim_rings :: "linux_env \<Rightarrow> u32 list \<Rightarrow> unit drv" where
  "tx_reclaim_rings e [] = ret ()"
| "tx_reclaim_rings e (i # is) = do {
     multi \<leftarrow> qry (netif_is_multiqueue e);
     if multi then do { bcmgenet_tx_reclaim e i True; tx_reclaim_rings e is } else ret ()
   }"

definition bcmgenet_tx_reclaim_all :: "linux_env \<Rightarrow> unit drv" where
  "bcmgenet_tx_reclaim_all e = do {
     bcmgenet_tx_reclaim e 0 True;
     n \<leftarrow> asks (\<lambda>s. tx_queues (hw_params s));
     tx_reclaim_rings e (tl (upto_word (n + 1)))
   }"

section \<open>Transmitting\<close>

text \<open>\<open>sizeof(struct status_64)\<close>\<close>

definition status_64_size :: u32 where
  "status_64_size = 64"

definition tsb_csum_info :: "linux_env \<Rightarrow> sk_buff \<Rightarrow> u32" where
  "tsb_csum_info e k =
     (let ip_proto = (if sk_protocol k = ETH_P_IP_be (kh e) then sk_ip_protocol k
                      else if sk_protocol k = ETH_P_IPV6_be (kh e) then sk_nexthdr k else 0);
          offset = (ucast (sk_csum_start_offset k - status_64_size) :: u16);
          info = push_bit STATUS_TX_CSUM_START_SHIFT (ucast offset) OR
                 (ucast offset + ucast (sk_csum_offset k)) OR STATUS_TX_CSUM_LV
      in if ip_proto = IPPROTO_UDP (kh e) then info OR STATUS_TX_CSUM_PROTO_UDP else info)"

text \<open>
  The result is the (possibly reallocated) buffer, or 0 when there is none.  \<open>skb_realloc_headroom\<close>
  copies the control buffer of the original.
\<close>

definition bcmgenet_add_tsb :: "linux_env \<Rightarrow> u64 \<Rightarrow> u32 \<Rightarrow> u64 drv" where
  "bcmgenet_add_tsb e skb q = do {
     k \<leftarrow> qry (skb_of e skb);
     skb \<leftarrow> (if sk_headroom k < status_64_size then do {
       new_skb \<leftarrow> kcall e (Skb_call (Skb_realloc_headroom skb status_64_size));
       if new_skb = 0 then do {
         kdo (Skb_call (Dev_kfree_skb_any skb));
         mib_inc ''tx_realloc_tsb_failed'';
         upd_tx q (\<lambda>r. r\<lparr>t_stats64 := (t_stats64 r)\<lparr>ts_dropped := ts_dropped (t_stats64 r) + 1\<rparr>\<rparr>);
         ret 0
       }
       else do {
         cb \<leftarrow> asks (\<lambda>s. skb_cb s skb);
         upd_skb_cb new_skb (\<lambda>_. cb);
         kdo (Skb_call (Dev_consume_skb_any skb));
         mib_inc ''tx_realloc_tsb'';
         ret new_skb
       }
     } else ret skb);
     if skb = 0 then ret 0
     else do {
       kdo (Skb_call (Skb_push skb status_64_size));
       k \<leftarrow> qry (skb_of e skb);
       (if sk_csum_partial k then kdo (Skb_call (Set_tx_csum_info skb (tsb_csum_info e k))) else ret ());
       ret skb
     }
   }"

definition bcmgenet_hide_tsb :: "u64 \<Rightarrow> unit drv" where
  "bcmgenet_hide_tsb skb = kdo (Skb_call (Skb_pull_raw skb status_64_size))"

text \<open>The length and status word of fragment \<open>i\<close> out of \<open>nr_frags + 1\<close>.\<close>

definition tx_len_stat :: "u32 \<Rightarrow> u32 \<Rightarrow> bool \<Rightarrow> nat \<Rightarrow> nat \<Rightarrow> u32" where
  "tx_len_stat qtag sz partial i nr_frags =
     (let st = push_bit DMA_BUFLENGTH_SHIFT sz OR push_bit DMA_TX_QTAG_SHIFT qtag OR DMA_TX_APPEND_CRC;
          st = (if i = 0 then (if partial then st OR DMA_SOP OR DMA_TX_DO_CSUM else st OR DMA_SOP) else st)
      in if i = nr_frags then st OR DMA_EOP else st)"

text \<open>DMA mapping of the linear part (\<open>i = 0\<close>) or of a fragment: its size and its bus address.\<close>

definition tx_map :: "linux_env \<Rightarrow> u64 \<Rightarrow> u32 \<Rightarrow> nat \<Rightarrow> (u32 \<times> u64) drv" where
  "tx_map e skb cb i =
     (if i = 0 then do {
        upd_skb_cb skb (\<lambda>k. k\<lparr>first_cb := cb\<rparr>);
        k \<leftarrow> qry (skb_of e skb);
        mapping \<leftarrow> kcall e (Dma_call (Dma_map_single (sk_data k) (sk_headlen k) DMA_TO_DEVICE));
        ret (sk_headlen k, mapping)
      }
      else do {
        k \<leftarrow> qry (skb_of e skb);
        let sz = sk_frags k ! (i - 1);
        mapping \<leftarrow> kcall e (Dma_call (Skb_frag_dma_map skb (of_nat (i - 1)) sz DMA_TO_DEVICE));
        ret (sz, mapping)
      })"

text \<open>
  The loop over the fragments \<open>is\<close> still to be posted; \<open>Inl i\<close>: the mapping of fragment \<open>i\<close> failed,
  \<open>Inr cb\<close>: the last control block used.
\<close>

primrec xmit_frags :: "linux_env \<Rightarrow> u32 \<Rightarrow> u64 \<Rightarrow> nat \<Rightarrow> nat list \<Rightarrow> u32 \<Rightarrow> (nat + u32) drv" where
  "xmit_frags e q skb nr_frags [] cb = ret (Inr cb)"
| "xmit_frags e q skb nr_frags (i # is) cb = do {
     cb \<leftarrow> bcmgenet_get_txcb q;
     (sz, mapping) \<leftarrow> tx_map e skb cb i;
     if dma_mapping_error e mapping then do {
       mib_inc ''tx_dma_failed'';
       ret (Inl i)
     }
     else do {
       upd_txcb cb (\<lambda>c. c\<lparr>cb_dma_addr := mapping, cb_dma_len := sz\<rparr>);
       upd_txcb cb (\<lambda>c. c\<lparr>cb_skb := skb\<rparr>);
       k \<leftarrow> qry (skb_of e skb);
       qtag \<leftarrow> asks (\<lambda>s. qtag_mask (hw_params s));
       d \<leftarrow> asks (\<lambda>s. cb_bd_addr (tx_cbs s cb));
       dmadesc_set e d mapping (tx_len_stat qtag sz (sk_csum_partial k) i nr_frags);
       xmit_frags e q skb nr_frags is cb
     }
   }"

datatype netdev_tx = NETDEV_TX_OK | NETDEV_TX_BUSY

text \<open>\<open>out_unmap_frags\<close>: \<open>while (i-- > 0)\<close> after the control block that failed.\<close>

primrec unmap_frags :: "u32 \<Rightarrow> nat \<Rightarrow> unit drv" where
  "unmap_frags q 0 = ret ()"
| "unmap_frags q (Suc i) = do {
     cb \<leftarrow> bcmgenet_put_txcb q;
     bcmgenet_free_tx_cb cb;
     unmap_frags q i
   }"

definition xmit_out_unmap :: "u32 \<Rightarrow> u64 \<Rightarrow> nat \<Rightarrow> netdev_tx drv" where
  "xmit_out_unmap q skb i = do {
     bcmgenet_put_txcb q;
     unmap_frags q i;
     kdo (Skb_call (Dev_kfree_skb skb));
     ret NETDEV_TX_OK
   }"

text \<open>All fragments are posted: account for them and tell the hardware.\<close>

definition xmit_publish :: "linux_env \<Rightarrow> u32 \<Rightarrow> u64 \<Rightarrow> nat \<Rightarrow> u32 \<Rightarrow> netdev_tx drv" where
  "xmit_publish e q skb nr_frags cb = do {
     upd_skb_cb skb (\<lambda>c. c\<lparr>last_cb := cb\<rparr>);
     bcmgenet_hide_tsb skb;
     kdo (Skb_call (Skb_tx_timestamp skb));
     upd_tx q (\<lambda>r. r\<lparr>t_free_bds := t_free_bds r - (of_nat nr_frags + 1)\<rparr>);
     upd_tx q (\<lambda>r. r\<lparr>t_prod_index := t_prod_index r + (of_nat nr_frags + 1)\<rparr>);
     upd_tx q (\<lambda>r. r\<lparr>t_prod_index := t_prod_index r AND DMA_P_INDEX_MASK\<rparr>);
     sent \<leftarrow> asks (\<lambda>s. bytes_sent (skb_cb s skb));
     kdo (Queue_call (Netdev_tx_sent_queue q sent));
     r \<leftarrow> asks (\<lambda>s. tx_rings s q);
     (if t_free_bds r \<le> MAX_SKB_FRAGS (kh e) + 1
      then kdo (Queue_call (Netif_tx_stop_queue q)) else ret ());
     more \<leftarrow> qry (netdev_xmit_more e);
     stopped \<leftarrow> qry (netif_xmit_stopped e q);
     (if \<not> more \<or> stopped
      then bcmgenet_tdma_ring_writel e (t_index r) (t_prod_index r) TDMA_PROD_INDEX else ret ());
     ret NETDEV_TX_OK
   }"

definition bcmgenet_xmit :: "linux_env \<Rightarrow> u64 \<Rightarrow> netdev_tx drv" where
  "bcmgenet_xmit e skb = do {
     k \<leftarrow> qry (skb_of e skb);
     let q = sk_queue_mapping k;
     let nr_frags = length (sk_frags k);
     kdo (Spin_lock (Ring_lock q));
     free \<leftarrow> asks (\<lambda>s. t_free_bds (tx_rings s q));
     res \<leftarrow> (if free \<le> of_nat nr_frags + 1 then do {
       stopped \<leftarrow> qry (netif_tx_queue_stopped e q);
       (if \<not> stopped then kdo (Queue_call (Netif_tx_stop_queue q)) else ret ());
       ret NETDEV_TX_BUSY
     }
     else do {
       upd_skb_cb skb (\<lambda>c. c\<lparr>bytes_sent := sk_len k\<rparr>);
       skb \<leftarrow> bcmgenet_add_tsb e skb q;
       if skb = 0 then ret NETDEV_TX_OK
       else do {
         r \<leftarrow> xmit_frags e q skb nr_frags [0..<Suc nr_frags] 0;
         case r of
           Inl i \<Rightarrow> xmit_out_unmap q skb i
         | Inr cb \<Rightarrow> xmit_publish e q skb nr_frags cb
       }
     });
     kdo (Spin_unlock (Ring_lock q));
     ret res
   }"

end
