(* ===== verification/Linux_Rx.thy ===== *)
theory Linux_Rx
  imports Linux_Io
begin

text \<open>
  Reception in the Linux GENET driver (\<open>bcmgenet.c\<close>, \<open>bcmgenet_free_rx_cb\<close> and from
  \<open>bcmgenet_rx_refill\<close> to \<open>bcmgenet_free_rx_buffers\<close>) and the coalescing parameters of a receive ring.
  A ring is named by its number in \<open>rx_rings\<close>.
\<close>

section \<open>Buffers\<close>

definition RX_BUF_LENGTH :: u32 where
  "RX_BUF_LENGTH = 2048"

definition SKB_ALIGNMENT :: u32 where
  "SKB_ALIGNMENT = 32"

definition bcmgenet_free_rx_cb :: "u32 \<Rightarrow> u64 drv" where
  "bcmgenet_free_rx_cb i = do {
     cb \<leftarrow> asks (\<lambda>s. rx_cbs s i);
     upd_rxcb i (\<lambda>cb. cb\<lparr>cb_skb := 0\<rparr>);
     (if cb_dma_addr cb \<noteq> 0 then do {
        kdo (Dma_call (Dma_unmap_single (cb_dma_addr cb) (cb_dma_len cb) DMA_FROM_DEVICE));
        upd_rxcb i (\<lambda>cb. cb\<lparr>cb_dma_addr := 0\<rparr>)
      } else ret ());
     ret (cb_skb cb)
   }"

definition bcmgenet_rx_refill :: "linux_env \<Rightarrow> u32 \<Rightarrow> u64 drv" where
  "bcmgenet_rx_refill e i = do {
     len \<leftarrow> asks rx_buf_len;
     skb \<leftarrow> kcall e (Skb_call (Netdev_alloc_skb (len + SKB_ALIGNMENT)));
     if skb = 0 then do {
       mib_inc ''alloc_rx_buff_failed'';
       ret 0
     }
     else do {
       k \<leftarrow> qry (skb_of e skb);
       mapping \<leftarrow> kcall e (Dma_call (Dma_map_single (sk_data k) len DMA_FROM_DEVICE));
       if dma_mapping_error e mapping then do {
         mib_inc ''rx_dma_failed'';
         kdo (Skb_call (Dev_kfree_skb_any skb));
         ret 0
       }
       else do {
         rx_skb \<leftarrow> bcmgenet_free_rx_cb i;
         upd_rxcb i (\<lambda>cb. cb\<lparr>cb_skb := skb\<rparr>);
         upd_rxcb i (\<lambda>cb. cb\<lparr>cb_dma_addr := mapping, cb_dma_len := len\<rparr>);
         d \<leftarrow> asks (\<lambda>s. cb_bd_addr (rx_cbs s i));
         dmadesc_set_addr e d mapping;
         ret rx_skb
       }
     }
   }"

section \<open>Receiving\<close>

definition upd_rx_stats :: "u32 \<Rightarrow> (bcmgenet_rx_stats64 \<Rightarrow> bcmgenet_rx_stats64) \<Rightarrow> unit drv" where
  "upd_rx_stats q f = upd_rx q (\<lambda>r. r\<lparr>r_stats64 := f (r_stats64 r)\<rparr>)"

text \<open>Frames the hardware discarded since the last look; its counter is cleared at three quarters of its range.\<close>

definition rx_discards :: "linux_env \<Rightarrow> u32 \<Rightarrow> u32 \<Rightarrow> unit drv" where
  "rx_discards e q p_index = do {
     old \<leftarrow> asks (\<lambda>s. r_old_discards (rx_rings s q));
     let discards = drop_bit DMA_P_INDEX_DISCARD_CNT_SHIFT p_index AND DMA_P_INDEX_DISCARD_CNT_MASK;
     if discards > old then do {
       let discards = discards - old;
       upd_rx_stats q (\<lambda>st. st\<lparr>rs_missed := rs_missed st + ucast discards\<rparr>);
       upd_rx q (\<lambda>r. r\<lparr>r_old_discards := r_old_discards r + discards\<rparr>);
       r \<leftarrow> asks (\<lambda>s. rx_rings s q);
       if r_old_discards r \<ge> 0xC000 then do {
         upd_rx q (\<lambda>r. r\<lparr>r_old_discards := 0\<rparr>);
         bcmgenet_rdma_ring_writel e (r_index r) 0 RDMA_PROD_INDEX
       } else ret ()
     } else ret ()
   }"

definition DMA_RX_ERRORS :: u32 where
  "DMA_RX_ERRORS = DMA_RX_CRC_ERROR OR DMA_RX_OV OR DMA_RX_NO OR DMA_RX_LG OR DMA_RX_RXER"

definition rx_error_stats :: "u32 \<Rightarrow> bcmgenet_rx_stats64 \<Rightarrow> bcmgenet_rx_stats64" where
  "rx_error_stats dma_flag st =
     (let st = (if dma_flag AND DMA_RX_CRC_ERROR \<noteq> 0 then st\<lparr>rs_crc_errors := rs_crc_errors st + 1\<rparr> else st);
          st = (if dma_flag AND DMA_RX_OV \<noteq> 0 then st\<lparr>rs_over_errors := rs_over_errors st + 1\<rparr> else st);
          st = (if dma_flag AND DMA_RX_NO \<noteq> 0 then st\<lparr>rs_frame_errors := rs_frame_errors st + 1\<rparr> else st);
          st = (if dma_flag AND DMA_RX_LG \<noteq> 0 then st\<lparr>rs_length_errors := rs_length_errors st + 1\<rparr> else st)
      in if dma_flag AND DMA_RX_ERRORS = DMA_RX_RXER then st\<lparr>rs_errors := rs_errors st + 1\<rparr> else st)"

definition rx_good_stats :: "u32 \<Rightarrow> u32 \<Rightarrow> bcmgenet_rx_stats64 \<Rightarrow> bcmgenet_rx_stats64" where
  "rx_good_stats dma_flag len st =
     (let st = st\<lparr>rs_packets := rs_packets st + 1, rs_bytes := rs_bytes st + scast len\<rparr>
      in if dma_flag AND DMA_RX_MULT \<noteq> 0 then st\<lparr>rs_multicast := rs_multicast st + 1\<rparr>
         else if dma_flag AND DMA_RX_BRDCAST \<noteq> 0 then st\<lparr>rs_broadcast := rs_broadcast st + 1\<rparr>
         else st)"

text \<open>
  What is done with the buffer \<open>skb\<close> taken off the ring (0 when no new buffer could be put in its place);
  the result is the number of bytes handed to the kernel.  The receive checksum is 16 bits in network
  order, \<open>ntohs\<close> swaps it on a little-endian processor.
\<close>

definition ntohs :: "linux_env \<Rightarrow> u16 \<Rightarrow> u16" where
  "ntohs e v = (if CONFIG_CPU_BIG_ENDIAN e then v else push_bit 8 v OR drop_bit 8 v)"

definition rx_frame :: "linux_env \<Rightarrow> u32 \<Rightarrow> u64 \<Rightarrow> u32 drv" where
  "rx_frame e q skb =
     (if skb = 0 then do {
        upd_rx_stats q (\<lambda>st. st\<lparr>rs_dropped := rs_dropped st + 1\<rparr>);
        ret 0
      }
      else do {
        status \<leftarrow> qry (rx_status_of e skb);
        dev \<leftarrow> qry (netdev e);
        let csum = (ucast (rx_csum status) :: u16);
        (if dev_features dev AND NETIF_F_RXCSUM (kh e) \<noteq> 0 \<and> csum \<noteq> 0
         then kdo (Skb_call (Set_csum_complete skb (ntohs e csum))) else ret ());
        let dma_flag = length_status status AND 0xffff;
        let len = drop_bit DMA_BUFLENGTH_SHIFT (length_status status);
        if len > RX_BUF_LENGTH then do {
          upd_rx_stats q (\<lambda>st. st\<lparr>rs_length_errors := rs_length_errors st + 1\<rparr>);
          kdo (Skb_call (Dev_kfree_skb_any skb));
          ret 0
        }
        else if dma_flag AND DMA_EOP = 0 \<or> dma_flag AND DMA_SOP = 0 then do {
          upd_rx_stats q (\<lambda>st. st\<lparr>rs_fragmented_errors := rs_fragmented_errors st + 1\<rparr>);
          kdo (Skb_call (Dev_kfree_skb_any skb));
          ret 0
        }
        else if dma_flag AND DMA_RX_ERRORS \<noteq> 0 then do {
          upd_rx_stats q (rx_error_stats dma_flag);
          kdo (Skb_call (Dev_kfree_skb_any skb));
          ret 0
        }
        else do {
          kdo (Skb_call (Skb_put skb len));
          kdo (Skb_call (Skb_pull skb 66));
          let len = len - 66;
          crc \<leftarrow> asks crc_fwd_en;
          (if crc then kdo (Skb_call (Skb_trim skb (len - ETH_FCS_LEN))) else ret ());
          let len = (if crc then len - ETH_FCS_LEN else len);
          kdo (Skb_call (Eth_type_trans skb));
          upd_rx_stats q (rx_good_stats dma_flag len);
          kdo (Skb_call (Napi_gro_receive q skb));
          ret len
        }
      })"

definition advance_read :: "bcmgenet_rx_ring \<Rightarrow> bcmgenet_rx_ring" where
  "advance_read r = r\<lparr>r_read_ptr := (if r_read_ptr r < r_end_ptr r then r_read_ptr r + 1 else r_cb_ptr r)\<rparr>"

text \<open>One round of the loop, and the loop: it runs \<open>min(rxpkttoprocess, budget)\<close> rounds.\<close>

definition desc_rx_step :: "linux_env \<Rightarrow> u32 \<Rightarrow> u32 drv" where
  "desc_rx_step e q = do {
     i \<leftarrow> asks (\<lambda>s. r_read_ptr (rx_rings s q));
     skb \<leftarrow> bcmgenet_rx_refill e i;
     len \<leftarrow> rx_frame e q skb;
     upd_rx q advance_read;
     upd_rx q (\<lambda>r. r\<lparr>r_c_index := (r_c_index r + 1) AND DMA_C_INDEX_MASK\<rparr>);
     r \<leftarrow> asks (\<lambda>s. rx_rings s q);
     bcmgenet_rdma_ring_writel e (r_index r) (r_c_index r) RDMA_CONS_INDEX;
     ret len
   }"

primrec desc_rx_loop :: "linux_env \<Rightarrow> u32 \<Rightarrow> nat \<Rightarrow> u32 \<Rightarrow> u32 drv" where
  "desc_rx_loop e q 0 bytes = ret bytes"
| "desc_rx_loop e q (Suc n) bytes = do {
     len \<leftarrow> desc_rx_step e q;
     desc_rx_loop e q n (bytes + len)
   }"

definition bcmgenet_desc_rx :: "linux_env \<Rightarrow> u32 \<Rightarrow> u32 \<Rightarrow> u32 drv" where
  "bcmgenet_desc_rx e q budget = do {
     idx \<leftarrow> asks (\<lambda>s. r_index (rx_rings s q));
     bcmgenet_intrl2_1_writel e (push_bit (UMAC_IRQ1_RX_INTR_SHIFT + unat idx) 1) INTRL2_CPU_CLEAR;
     p_index \<leftarrow> bcmgenet_rdma_ring_readl e idx RDMA_PROD_INDEX;
     rx_discards e q p_index;
     c_index \<leftarrow> asks (\<lambda>s. r_c_index (rx_rings s q));
     let rxpkttoprocess = ((p_index AND DMA_P_INDEX_MASK) - c_index) AND DMA_C_INDEX_MASK;
     let rxpktprocessed = min rxpkttoprocess budget;
     bytes_processed \<leftarrow> desc_rx_loop e q (unat rxpktprocessed) 0;
     upd_rx q (\<lambda>r. r\<lparr>r_dim := (r_dim r)\<lparr>dim_bytes := ucast bytes_processed, dim_packets := ucast rxpktprocessed\<rparr>\<rparr>);
     ret rxpktprocessed
   }"

definition bcmgenet_rx_poll :: "linux_env \<Rightarrow> u32 \<Rightarrow> u32 \<Rightarrow> u32 drv" where
  "bcmgenet_rx_poll e q budget = do {
     work_done \<leftarrow> bcmgenet_desc_rx e q budget;
     (if work_done < budget then do {
        completed \<leftarrow> kcall e (Napi_call (Napi_complete_done (Rx_napi q) work_done));
        if completed \<noteq> 0 then bcmgenet_rx_ring_int_enable e q else ret ()
      } else ret ());
     dim \<leftarrow> asks (\<lambda>s. r_dim (rx_rings s q));
     (if use_dim dim
      then kdo (Napi_call (Net_dim q (event_ctr dim) (dim_packets dim) (dim_bytes dim))) else ret ());
     ret work_done
   }"

section \<open>Filling and emptying a ring\<close>

primrec alloc_rx_loop :: "linux_env \<Rightarrow> u32 list \<Rightarrow> u32 drv" where
  "alloc_rx_loop e [] = ret 0"
| "alloc_rx_loop e (i # is) = do {
     skb \<leftarrow> bcmgenet_rx_refill e i;
     (if skb \<noteq> 0 then kdo (Skb_call (Dev_consume_skb_any skb)) else ret ());
     cb \<leftarrow> asks (\<lambda>s. rx_cbs s i);
     if cb_skb cb = 0 then ret (- ENOMEM) else alloc_rx_loop e is
   }"

definition bcmgenet_alloc_rx_buffers :: "linux_env \<Rightarrow> u32 \<Rightarrow> u32 drv" where
  "bcmgenet_alloc_rx_buffers e q = do {
     r \<leftarrow> asks (\<lambda>s. rx_rings s q);
     alloc_rx_loop e (map (\<lambda>i. r_cbs r + i) (upto_word (r_size r)))
   }"

definition bcmgenet_free_rx_buffers :: "unit drv" where
  "bcmgenet_free_rx_buffers = do {
     n \<leftarrow> asks num_rx_bds;
     for_list (\<lambda>i. do {
       skb \<leftarrow> bcmgenet_free_rx_cb i;
       if skb \<noteq> 0 then kdo (Skb_call (Dev_consume_skb_any skb)) else ret ()
     }) (upto_word n)
   }"

section \<open>Interrupt coalescing\<close>

text \<open>\<open>DIV_ROUND_UP(usecs * 1000, 8192)\<close>\<close>

definition rx_timeout :: "u32 \<Rightarrow> u32" where
  "rx_timeout usecs = (usecs * 1000 + 8192 - 1) div 8192"

definition bcmgenet_set_rx_coalesce :: "linux_env \<Rightarrow> u32 \<Rightarrow> u32 \<Rightarrow> u32 \<Rightarrow> unit drv" where
  "bcmgenet_set_rx_coalesce e q usecs pkts = do {
     i \<leftarrow> asks (\<lambda>s. r_index (rx_rings s q));
     bcmgenet_rdma_ring_writel e i pkts DMA_MBUF_DONE_THRESH;
     reg \<leftarrow> bcmgenet_rdma_readl e (DMA_RING0_TIMEOUT + unat i);
     bcmgenet_rdma_writel e (reg AND NOT DMA_TIMEOUT_MASK OR rx_timeout usecs) (DMA_RING0_TIMEOUT + unat i)
   }"

text \<open>The fields of \<open>struct ethtool_coalesce\<close> the driver uses.\<close>

record ethtool_coalesce =
  ec_tx_max_coalesced_frames :: u32
  ec_rx_max_coalesced_frames :: u32
  ec_rx_coalesce_usecs :: u32
  ec_use_adaptive_rx_coalesce :: bool

definition bcmgenet_get_coalesce :: "linux_env \<Rightarrow> ethtool_coalesce \<Rightarrow> ethtool_coalesce drv" where
  "bcmgenet_get_coalesce e ec = do {
     tx_frames \<leftarrow> bcmgenet_tdma_ring_readl e 0 DMA_MBUF_DONE_THRESH;
     rx_frames \<leftarrow> bcmgenet_rdma_ring_readl e 0 DMA_MBUF_DONE_THRESH;
     tmo \<leftarrow> bcmgenet_rdma_readl e DMA_RING0_TIMEOUT;
     n \<leftarrow> asks (\<lambda>s. rx_queues (hw_params s));
     rings \<leftarrow> asks rx_rings;
     ret (ec\<lparr>ec_tx_max_coalesced_frames := tx_frames, ec_rx_max_coalesced_frames := rx_frames,
             ec_rx_coalesce_usecs := tmo * 8192 div 1000,
             ec_use_adaptive_rx_coalesce :=
               fold (\<lambda>i a. a \<or> use_dim (r_dim (rings i))) (upto_word (n + 1)) (ec_use_adaptive_rx_coalesce ec)\<rparr>)
   }"

definition bcmgenet_set_ring_rx_coalesce :: "linux_env \<Rightarrow> u32 \<Rightarrow> ethtool_coalesce \<Rightarrow> unit drv" where
  "bcmgenet_set_ring_rx_coalesce e q ec = do {
     upd_rx q (\<lambda>r. r\<lparr>rx_coalesce_usecs := ec_rx_coalesce_usecs ec, rx_max_coalesced_frames := ec_rx_max_coalesced_frames ec\<rparr>);
     r \<leftarrow> asks (\<lambda>s. rx_rings s q);
     let (usecs, pkts) = (if ec_use_adaptive_rx_coalesce ec \<and> \<not> use_dim (r_dim r)
       then net_dim_get_def_rx_moderation e (dim_mode (r_dim r))
       else (rx_coalesce_usecs r, rx_max_coalesced_frames r));
     upd_rx q (\<lambda>r. r\<lparr>r_dim := (r_dim r)\<lparr>use_dim := ec_use_adaptive_rx_coalesce ec\<rparr>\<rparr>);
     bcmgenet_set_rx_coalesce e q usecs pkts
   }"

definition bcmgenet_set_coalesce :: "linux_env \<Rightarrow> ethtool_coalesce \<Rightarrow> u32 drv" where
  "bcmgenet_set_coalesce e ec =
     (if ec_tx_max_coalesced_frames ec > DMA_INTR_THRESHOLD_MASK \<or> ec_tx_max_coalesced_frames ec = 0 \<or>
         ec_rx_max_coalesced_frames ec > DMA_INTR_THRESHOLD_MASK \<or>
         ec_rx_coalesce_usecs ec > DMA_TIMEOUT_MASK * 8 + 1
      then ret (- EINVAL)
      else if ec_rx_coalesce_usecs ec = 0 \<and> ec_rx_max_coalesced_frames ec = 0 then ret (- EINVAL)
      else do {
        nt \<leftarrow> asks (\<lambda>s. tx_queues (hw_params s));
        for_list (\<lambda>i. bcmgenet_tdma_ring_writel e i (ec_tx_max_coalesced_frames ec) DMA_MBUF_DONE_THRESH) (upto_word (nt + 1));
        nr \<leftarrow> asks (\<lambda>s. rx_queues (hw_params s));
        for_list (\<lambda>i. bcmgenet_set_ring_rx_coalesce e i ec) (upto_word (nr + 1));
        ret 0
      })"

definition bcmgenet_dim_work :: "linux_env \<Rightarrow> u32 \<Rightarrow> unit drv" where
  "bcmgenet_dim_work e q = do {
     (usecs, pkts) \<leftarrow> qry (net_dim_get_rx_moderation e q);
     bcmgenet_set_rx_coalesce e q usecs pkts
   }"

definition bcmgenet_init_dim :: "linux_env \<Rightarrow> u32 \<Rightarrow> unit drv" where
  "bcmgenet_init_dim e q = upd_rx q (\<lambda>r. r\<lparr>r_dim := (r_dim r)
     \<lparr>dim_mode := DIM_CQ_PERIOD_MODE_START_FROM_EQE (kh e), event_ctr := 0, dim_packets := 0, dim_bytes := 0\<rparr>\<rparr>)"

definition bcmgenet_init_rx_coalesce :: "linux_env \<Rightarrow> u32 \<Rightarrow> unit drv" where
  "bcmgenet_init_rx_coalesce e q = do {
     r \<leftarrow> asks (\<lambda>s. rx_rings s q);
     let (usecs, pkts) = (if use_dim (r_dim r) then net_dim_get_def_rx_moderation e (dim_mode (r_dim r))
       else (rx_coalesce_usecs r, rx_max_coalesced_frames r));
     bcmgenet_set_rx_coalesce e q usecs pkts
   }"

end
