(* ===== verification/Linux_Dma.thy ===== *)
theory Linux_Dma
  imports Linux_Tx Linux_Rx
begin

text \<open>
  Descriptor rings of the Linux GENET driver (\<open>bcmgenet.c\<close>, from \<open>bcmgenet_init_tx_ring\<close> to
  \<open>bcmgenet_init_dma\<close>, and the parameter tables): the 256 descriptors of each direction are divided over
  the default ring 0 and the priority rings.
\<close>

section \<open>Hardware parameters\<close>

definition bcmgenet_hw_params_v1 :: bcmgenet_hw_params where
  "bcmgenet_hw_params_v1 = \<lparr>tx_queues = 0, tx_bds_per_q = 0, rx_queues = 0, rx_bds_per_q = 0,
     bp_in_en_shift = 16, bp_in_mask = 0xffff, hfb_filter_cnt = 16, hfb_filter_size = 64, qtag_mask = 0x1F, tbuf_offset = 0,
     hfb_offset = 0x1000, hfb_reg_offset = GENET_RBUF_OFF + RBUF_HFB_CTRL_V1, rdma_offset = 0x2000, tdma_offset = 0x3000,
     words_per_bd = 2\<rparr>"

definition bcmgenet_hw_params_v2 :: bcmgenet_hw_params where
  "bcmgenet_hw_params_v2 = \<lparr>tx_queues = 4, tx_bds_per_q = 32, rx_queues = 0, rx_bds_per_q = 0,
     bp_in_en_shift = 16, bp_in_mask = 0xffff, hfb_filter_cnt = 16, hfb_filter_size = 64, qtag_mask = 0x1F, tbuf_offset = 0x0600,
     hfb_offset = 0x1000, hfb_reg_offset = 0x2000, rdma_offset = 0x3000, tdma_offset = 0x4000, words_per_bd = 2\<rparr>"

definition bcmgenet_hw_params_v3 :: bcmgenet_hw_params where
  "bcmgenet_hw_params_v3 = \<lparr>tx_queues = 4, tx_bds_per_q = 32, rx_queues = 0, rx_bds_per_q = 0,
     bp_in_en_shift = 17, bp_in_mask = 0x1ffff, hfb_filter_cnt = 48, hfb_filter_size = 128, qtag_mask = 0x3F, tbuf_offset = 0x0600,
     hfb_offset = 0x8000, hfb_reg_offset = 0xfc00, rdma_offset = 0x10000, tdma_offset = 0x11000, words_per_bd = 2\<rparr>"

definition bcmgenet_hw_params_v4 :: bcmgenet_hw_params where
  "bcmgenet_hw_params_v4 = \<lparr>tx_queues = 4, tx_bds_per_q = 32, rx_queues = 0, rx_bds_per_q = 0,
     bp_in_en_shift = 17, bp_in_mask = 0x1ffff, hfb_filter_cnt = 48, hfb_filter_size = 128, qtag_mask = 0x3F, tbuf_offset = 0x0600,
     hfb_offset = 0x8000, hfb_reg_offset = 0xfc00, rdma_offset = 0x2000, tdma_offset = 0x4000, words_per_bd = 3\<rparr>"

text \<open>The table and the register maps a version uses.\<close>

definition params_of :: "bcmgenet_version \<Rightarrow> bcmgenet_hw_params \<times> u8 list \<times> u8 list" where
  "params_of v = (case v of
       GENET_V3 \<Rightarrow> (bcmgenet_hw_params_v3, bcmgenet_dma_regs_v3plus, genet_dma_ring_regs_v123)
     | GENET_V2 \<Rightarrow> (bcmgenet_hw_params_v2, bcmgenet_dma_regs_v2, genet_dma_ring_regs_v123)
     | GENET_V1 \<Rightarrow> (bcmgenet_hw_params_v1, bcmgenet_dma_regs_v1, genet_dma_ring_regs_v123)
     | _ \<Rightarrow> (bcmgenet_hw_params_v4, bcmgenet_dma_regs_v3plus, genet_dma_ring_regs_v4))"

definition bcmgenet_set_hw_params :: "linux_env \<Rightarrow> unit drv" where
  "bcmgenet_set_hw_params e = do {
     v \<leftarrow> asks version;
     let (params, dregs, rregs) = params_of v;
     modify (\<lambda>s. s\<lparr>hw_params := params, dma_regs := dregs, ring_regs := rregs\<rparr>);
     reg \<leftarrow> bcmgenet_sys_readl e SYS_REV_CTRL;
     let rev = (ucast (reg AND 0xffff) :: u16);
     if v = GENET_V5 then ret ()
     else if rev = 0 \<or> rev = 0x01ff then ret ()
     else if rev AND 0xf0 \<noteq> 0 then modify (\<lambda>s. s\<lparr>gphy_rev := push_bit 8 rev\<rparr>)
     else if rev AND 0xff00 \<noteq> 0 then modify (\<lambda>s. s\<lparr>gphy_rev := rev\<rparr>)
     else ret ()
   }"

definition GENET_Q0_RX_BD_CNT :: "bcmgenet_hw_params \<Rightarrow> u32" where
  "GENET_Q0_RX_BD_CNT p = TOTAL_DESC - rx_queues p * rx_bds_per_q p"

definition GENET_Q0_TX_BD_CNT :: "bcmgenet_hw_params \<Rightarrow> u32" where
  "GENET_Q0_TX_BD_CNT p = TOTAL_DESC - tx_queues p * tx_bds_per_q p"

definition GENET_Q1_PRIORITY :: u32 where "GENET_Q1_PRIORITY = 0"
definition GENET_Q0_PRIORITY :: u32 where "GENET_Q0_PRIORITY = 1"

section \<open>Transmit rings\<close>

definition bcmgenet_init_tx_ring :: "linux_env \<Rightarrow> u32 \<Rightarrow> u32 \<Rightarrow> u32 \<Rightarrow> u32 \<Rightarrow> unit drv" where
  "bcmgenet_init_tx_ring e index sz start_ptr end_ptr = do {
     words \<leftarrow> asks (\<lambda>s. words_per_bd (hw_params s));
     upd_tx index (\<lambda>r. r\<lparr>t_index := index, t_cbs := start_ptr, t_size := sz, t_clean_ptr := start_ptr, t_c_index := 0,
       t_free_bds := sz, t_write_ptr := start_ptr, t_cb_ptr := start_ptr, t_end_ptr := end_ptr - 1, t_prod_index := 0\<rparr>);
     let flow_period_val = (if index \<noteq> 0 then push_bit 16 ENET_MAX_MTU_SIZE else 0);
     bcmgenet_tdma_ring_writel e index 0 TDMA_PROD_INDEX;
     bcmgenet_tdma_ring_writel e index 0 TDMA_CONS_INDEX;
     bcmgenet_tdma_ring_writel e index 1 DMA_MBUF_DONE_THRESH;
     bcmgenet_tdma_ring_writel e index flow_period_val TDMA_FLOW_PERIOD;
     bcmgenet_tdma_ring_writel e index (push_bit DMA_RING_SIZE_SHIFT sz OR RX_BUF_LENGTH) DMA_RING_BUF_SIZE;
     bcmgenet_tdma_ring_writel e index (start_ptr * words) DMA_START_ADDR;
     bcmgenet_tdma_ring_writel e index (start_ptr * words) TDMA_READ_PTR;
     bcmgenet_tdma_ring_writel e index (start_ptr * words) TDMA_WRITE_PTR;
     bcmgenet_tdma_ring_writel e index (end_ptr * words - 1) DMA_END_ADDR;
     kdo (Napi_call (Netif_napi_add (Tx_napi index)))
   }"

text \<open>The loop over the transmit rings, with the first and the last descriptor of the next one.\<close>

primrec init_tx_loop :: "linux_env \<Rightarrow> u32 list \<Rightarrow> u32 \<Rightarrow> u32 \<Rightarrow> unit drv" where
  "init_tx_loop e [] start end_ptr = ret ()"
| "init_tx_loop e (i # is) start end_ptr = do {
     bcmgenet_init_tx_ring e i (end_ptr - start) start end_ptr;
     per_q \<leftarrow> asks (\<lambda>s. tx_bds_per_q (hw_params s));
     init_tx_loop e is end_ptr (end_ptr + per_q)
   }"

text \<open>\<open>dma_priority[n]\<close> after the loop.\<close>

definition dma_priority :: "u32 list \<Rightarrow> u32 \<Rightarrow> u32" where
  "dma_priority is n = fold (\<lambda>i p. if DMA_PRIO_REG_INDEX i = n
     then p OR push_bit (DMA_PRIO_REG_SHIFT i) (if i \<noteq> 0 then GENET_Q1_PRIORITY else GENET_Q0_PRIORITY) else p) is 0"

definition bcmgenet_init_tx_queues :: "linux_env \<Rightarrow> unit drv" where
  "bcmgenet_init_tx_queues e = do {
     p \<leftarrow> asks hw_params;
     let is = upto_word (tx_queues p + 1);
     bcmgenet_tdma_writel e DMA_ARBITER_SP DMA_ARB_CTRL;
     init_tx_loop e is 0 (GENET_Q0_TX_BD_CNT p);
     bcmgenet_tdma_writel e (dma_priority is 0) DMA_PRIORITY_0;
     bcmgenet_tdma_writel e (dma_priority is 1) DMA_PRIORITY_1;
     bcmgenet_tdma_writel e (dma_priority is 2) DMA_PRIORITY_2;
     let ring_mask = push_bit (unat (tx_queues p + 1)) 1 - 1;
     bcmgenet_tdma_writel e ring_mask DMA_RING_CFG;
     bcmgenet_tdma_writel e (push_bit DMA_RING_BUF_EN_SHIFT ring_mask) DMA_CTRL
   }"

definition each_tx :: "(u32 \<Rightarrow> unit drv) \<Rightarrow> unit drv" where
  "each_tx f = do { n \<leftarrow> asks (\<lambda>s. tx_queues (hw_params s)); for_list f (upto_word (n + 1)) }"

definition each_rx :: "(u32 \<Rightarrow> unit drv) \<Rightarrow> unit drv" where
  "each_rx f = do { n \<leftarrow> asks (\<lambda>s. rx_queues (hw_params s)); for_list f (upto_word (n + 1)) }"

definition bcmgenet_enable_tx_napi :: "linux_env \<Rightarrow> unit drv" where
  "bcmgenet_enable_tx_napi e = each_tx (\<lambda>i. do { kdo (Napi_call (Napi_enable (Tx_napi i))); bcmgenet_tx_ring_int_enable e i })"

definition bcmgenet_disable_tx_napi :: "unit drv" where
  "bcmgenet_disable_tx_napi = each_tx (\<lambda>i. kdo (Napi_call (Napi_disable (Tx_napi i))))"

definition bcmgenet_fini_tx_napi :: "unit drv" where
  "bcmgenet_fini_tx_napi = each_tx (\<lambda>i. kdo (Napi_call (Netif_napi_del (Tx_napi i))))"

section \<open>Receive rings\<close>

definition bcmgenet_init_rx_ring :: "linux_env \<Rightarrow> u32 \<Rightarrow> u32 \<Rightarrow> u32 \<Rightarrow> u32 \<Rightarrow> u32 drv" where
  "bcmgenet_init_rx_ring e index sz start_ptr end_ptr = do {
     words \<leftarrow> asks (\<lambda>s. words_per_bd (hw_params s));
     upd_rx index (\<lambda>r. r\<lparr>r_index := index, r_cbs := start_ptr, r_size := sz, r_c_index := 0,
       r_read_ptr := start_ptr, r_cb_ptr := start_ptr, r_end_ptr := end_ptr - 1\<rparr>);
     err \<leftarrow> bcmgenet_alloc_rx_buffers e index;
     if err \<noteq> 0 then ret err
     else do {
       bcmgenet_init_dim e index;
       bcmgenet_init_rx_coalesce e index;
       kdo (Napi_call (Netif_napi_add (Rx_napi index)));
       bcmgenet_rdma_ring_writel e index 0 RDMA_PROD_INDEX;
       bcmgenet_rdma_ring_writel e index 0 RDMA_CONS_INDEX;
       bcmgenet_rdma_ring_writel e index (push_bit DMA_RING_SIZE_SHIFT sz OR RX_BUF_LENGTH) DMA_RING_BUF_SIZE;
       bcmgenet_rdma_ring_writel e index (push_bit DMA_XOFF_THRESHOLD_SHIFT DMA_FC_THRESH_LO OR DMA_FC_THRESH_HI) RDMA_XON_XOFF_THRESH;
       bcmgenet_rdma_ring_writel e index (start_ptr * words) DMA_START_ADDR;
       bcmgenet_rdma_ring_writel e index (start_ptr * words) RDMA_READ_PTR;
       bcmgenet_rdma_ring_writel e index (start_ptr * words) RDMA_WRITE_PTR;
       bcmgenet_rdma_ring_writel e index (end_ptr * words - 1) DMA_END_ADDR;
       ret 0
     }
   }"

primrec init_rx_loop :: "linux_env \<Rightarrow> u32 list \<Rightarrow> u32 \<Rightarrow> u32 \<Rightarrow> u32 drv" where
  "init_rx_loop e [] start end_ptr = ret 0"
| "init_rx_loop e (i # is) start end_ptr = do {
     err \<leftarrow> bcmgenet_init_rx_ring e i (end_ptr - start) start end_ptr;
     if err \<noteq> 0 then ret err
     else do {
       per_q \<leftarrow> asks (\<lambda>s. rx_bds_per_q (hw_params s));
       init_rx_loop e is end_ptr (end_ptr + per_q)
     }
   }"

definition bcmgenet_init_rx_queues :: "linux_env \<Rightarrow> u32 drv" where
  "bcmgenet_init_rx_queues e = do {
     p \<leftarrow> asks hw_params;
     err \<leftarrow> init_rx_loop e (upto_word (rx_queues p + 1)) 0 (GENET_Q0_RX_BD_CNT p);
     if err \<noteq> 0 then ret err
     else do {
       let ring_mask = push_bit (unat (rx_queues p + 1)) 1 - 1;
       bcmgenet_rdma_writel e ring_mask DMA_RING_CFG;
       bcmgenet_rdma_writel e (push_bit DMA_RING_BUF_EN_SHIFT ring_mask) DMA_CTRL;
       ret 0
     }
   }"

definition bcmgenet_enable_rx_napi :: "linux_env \<Rightarrow> unit drv" where
  "bcmgenet_enable_rx_napi e = each_rx (\<lambda>i. do { kdo (Napi_call (Napi_enable (Rx_napi i))); bcmgenet_rx_ring_int_enable e i })"

definition bcmgenet_disable_rx_napi :: "unit drv" where
  "bcmgenet_disable_rx_napi = each_rx (\<lambda>i. do {
     kdo (Napi_call (Napi_disable (Rx_napi i)));
     kdo (Irq_call (Cancel_work_sync (Dim_work i)))
   })"

definition bcmgenet_fini_rx_napi :: "unit drv" where
  "bcmgenet_fini_rx_napi = each_rx (\<lambda>i. kdo (Napi_call (Netif_napi_del (Rx_napi i))))"

section \<open>The DMA engines\<close>

text \<open>Waiting for the status register of an engine, at most \<open>DMA_TIMEOUT_VAL\<close> reads.\<close>

primrec dma_disable_loop :: "u32 drv \<Rightarrow> u32 \<Rightarrow> nat \<Rightarrow> u32 drv" where
  "dma_disable_loop status m 0 = ret (- ETIMEDOUT)"
| "dma_disable_loop status m (Suc n) = do {
     reg \<leftarrow> status;
     if reg AND m = m then ret 0
     else do { kdo (Udelay 1); dma_disable_loop status m n }
   }"

definition dma_ring_mask :: "u32 \<Rightarrow> u32" where
  "dma_ring_mask queues = push_bit DMA_RING_BUF_EN_SHIFT (push_bit (unat (queues + 1)) 1 - 1) OR DMA_EN"

definition bcmgenet_tdma_disable :: "linux_env \<Rightarrow> u32 drv" where
  "bcmgenet_tdma_disable e = do {
     reg \<leftarrow> bcmgenet_tdma_readl e DMA_CTRL;
     m \<leftarrow> asks (\<lambda>s. dma_ring_mask (tx_queues (hw_params s)));
     bcmgenet_tdma_writel e (reg AND NOT m) DMA_CTRL;
     dma_disable_loop (bcmgenet_tdma_readl e DMA_STATUS) m DMA_TIMEOUT_VAL
   }"

definition bcmgenet_rdma_disable :: "linux_env \<Rightarrow> u32 drv" where
  "bcmgenet_rdma_disable e = do {
     reg \<leftarrow> bcmgenet_rdma_readl e DMA_CTRL;
     m \<leftarrow> asks (\<lambda>s. dma_ring_mask (rx_queues (hw_params s)));
     bcmgenet_rdma_writel e (reg AND NOT m) DMA_CTRL;
     dma_disable_loop (bcmgenet_rdma_readl e DMA_STATUS) m DMA_TIMEOUT_VAL
   }"

definition bcmgenet_dma_teardown :: "linux_env \<Rightarrow> u32 drv" where
  "bcmgenet_dma_teardown e = do {
     t \<leftarrow> bcmgenet_tdma_disable e;
     kdo (Usleep_range 10000 20000);
     r \<leftarrow> bcmgenet_rdma_disable e;
     ret (if t = - ETIMEDOUT \<or> r = - ETIMEDOUT then - ETIMEDOUT else 0)
   }"

definition bcmgenet_fini_dma :: "unit drv" where
  "bcmgenet_fini_dma = do {
     bcmgenet_fini_rx_napi;
     bcmgenet_fini_tx_napi;
     each_tx (\<lambda>i. kdo (Queue_call (Netdev_tx_reset_queue i)));
     bcmgenet_free_rx_buffers;
     a \<leftarrow> asks rx_cbs_alloc;
     kdo (Kfree a);
     a \<leftarrow> asks tx_cbs_alloc;
     kdo (Kfree a)
   }"

text \<open>\<open>kzalloc\<close> of the control blocks of a direction and their descriptors.\<close>

definition fresh_cbs :: "u64 \<Rightarrow> u32 \<Rightarrow> u32 \<Rightarrow> enet_cb" where
  "fresh_cbs bds desc_size i = \<lparr>cb_skb = 0, cb_bd_addr = bds + ucast (i * desc_size), cb_dma_addr = 0, cb_dma_len = 0\<rparr>"

definition init_rx_cbs :: "linux_env \<Rightarrow> bool drv" where
  "init_rx_cbs e = do {
     modify (\<lambda>s. s\<lparr>rx_bds := base s + ucast (rdma_offset (hw_params s)), num_rx_bds := TOTAL_DESC\<rparr>);
     p \<leftarrow> kcall e (Kzalloc TOTAL_DESC);
     modify (\<lambda>s. s\<lparr>rx_cbs_alloc := p\<rparr>);
     if p = 0 then ret False
     else do {
       modify (\<lambda>s. s\<lparr>rx_cbs := fresh_cbs (rx_bds s) (DMA_DESC_SIZE s)\<rparr>);
       ret True
     }
   }"

definition init_tx_cbs :: "linux_env \<Rightarrow> bool drv" where
  "init_tx_cbs e = do {
     modify (\<lambda>s. s\<lparr>tx_bds := base s + ucast (tdma_offset (hw_params s)), num_tx_bds := TOTAL_DESC\<rparr>);
     p \<leftarrow> kcall e (Kzalloc TOTAL_DESC);
     modify (\<lambda>s. s\<lparr>tx_cbs_alloc := p\<rparr>);
     if p = 0 then ret False
     else do {
       modify (\<lambda>s. s\<lparr>tx_cbs := fresh_cbs (tx_bds s) (DMA_DESC_SIZE s)\<rparr>);
       ret True
     }
   }"

definition dma_flush :: "linux_env \<Rightarrow> bool \<Rightarrow> unit drv" where
  "dma_flush e flush_rx = do {
     bcmgenet_umac_writel e 1 (UMAC_TX_FLUSH (uh e));
     kdo (Udelay 10);
     bcmgenet_umac_writel e 0 (UMAC_TX_FLUSH (uh e));
     (if flush_rx then do {
        reg \<leftarrow> bcmgenet_rbuf_ctrl_get e;
        bcmgenet_rbuf_ctrl_set e (reg OR push_bit 0 1);
        kdo (Udelay 10);
        bcmgenet_rbuf_ctrl_set e reg;
        kdo (Udelay 10)
      } else ret ())
   }"

definition init_dma_rings :: "linux_env \<Rightarrow> u32 drv" where
  "init_dma_rings e = do {
     burst \<leftarrow> asks dma_max_burst_length;
     bcmgenet_rdma_writel e burst DMA_SCB_BURST_SIZE;
     err \<leftarrow> bcmgenet_init_rx_queues e;
     if err \<noteq> 0 then do {
       bcmgenet_free_rx_buffers;
       a \<leftarrow> asks rx_cbs_alloc;
       kdo (Kfree a);
       a \<leftarrow> asks tx_cbs_alloc;
       kdo (Kfree a);
       ret err
     }
     else do {
       bcmgenet_tdma_writel e burst DMA_SCB_BURST_SIZE;
       bcmgenet_init_tx_queues e;
       reg \<leftarrow> bcmgenet_rdma_readl e DMA_CTRL;
       bcmgenet_rdma_writel e (reg OR DMA_EN) DMA_CTRL;
       reg \<leftarrow> bcmgenet_tdma_readl e DMA_CTRL;
       bcmgenet_tdma_writel e (reg OR DMA_EN) DMA_CTRL;
       ret 0
     }
   }"

definition bcmgenet_init_dma :: "linux_env \<Rightarrow> bool \<Rightarrow> u32 drv" where
  "bcmgenet_init_dma e flush_rx = do {
     err \<leftarrow> bcmgenet_tdma_disable e;
     if err \<noteq> 0 then ret err
     else do {
       err \<leftarrow> bcmgenet_rdma_disable e;
       if err \<noteq> 0 then ret err
       else do {
         dma_flush e flush_rx;
         ok \<leftarrow> init_rx_cbs e;
         if \<not> ok then ret (- ENOMEM)
         else do {
           ok \<leftarrow> init_tx_cbs e;
           if \<not> ok then do { a \<leftarrow> asks rx_cbs_alloc; kdo (Kfree a); ret (- ENOMEM) }
           else init_dma_rings e
         }
       }
     }
   }"

end
