(* ===== verification/Linux_Hfb.thy ===== *)
theory Linux_Hfb
  imports Linux_Io
begin

text \<open>
  The hardware filter block and the receive flow rules of the Linux GENET driver (\<open>bcmgenet.c\<close>, from
  \<open>bcmgenet_hfb_enable_filter\<close> to \<open>bcmgenet_hfb_init\<close> and from \<open>bcmgenet_validate_flow\<close> to
  \<open>bcmgenet_get_rxnfc\<close>).  A rule is named by its position in \<open>rxnfc_rules\<close>; rule \<open>n\<close> uses filter \<open>n + 1\<close>.
\<close>

section \<open>Filters\<close>

definition bcmgenet_hfb_enable_filter :: "linux_env \<Rightarrow> u32 \<Rightarrow> unit drv" where
  "bcmgenet_hfb_enable_filter e f_index = do {
     v12 \<leftarrow> asks GENET_IS_V12;
     if v12 then do {
       reg \<leftarrow> bcmgenet_hfb_reg_readl e HFB_CTRL;
       bcmgenet_hfb_reg_writel e (reg OR push_bit (unat (f_index mod 32) + RBUF_HFB_FILTER_EN_SHIFT) 1 OR RBUF_HFB_EN) HFB_CTRL
     }
     else do {
       let offset = HFB_FLT_ENABLE_V3PLUS + (if f_index < 32 then 4 else 0);
       reg \<leftarrow> bcmgenet_hfb_reg_readl e offset;
       bcmgenet_hfb_reg_writel e (reg OR push_bit (unat (f_index mod 32)) 1) offset;
       reg \<leftarrow> bcmgenet_hfb_reg_readl e HFB_CTRL;
       bcmgenet_hfb_reg_writel e (reg OR RBUF_HFB_EN) HFB_CTRL
     }
   }"

definition bcmgenet_hfb_disable_filter :: "linux_env \<Rightarrow> u32 \<Rightarrow> unit drv" where
  "bcmgenet_hfb_disable_filter e f_index = do {
     v12 \<leftarrow> asks GENET_IS_V12;
     if v12 then do {
       reg \<leftarrow> bcmgenet_hfb_reg_readl e HFB_CTRL;
       let reg = reg AND NOT (push_bit (unat (f_index mod 32) + RBUF_HFB_FILTER_EN_SHIFT) 1);
       let reg = (if reg AND RBUF_HFB_FILTER_EN_MASK = 0 then reg AND NOT RBUF_HFB_EN else reg);
       bcmgenet_hfb_reg_writel e reg HFB_CTRL
     }
     else do {
       let offset = HFB_FLT_ENABLE_V3PLUS;
       reg \<leftarrow> bcmgenet_hfb_reg_readl e offset;
       reg1 \<leftarrow> bcmgenet_hfb_reg_readl e (offset + 4);
       let bit = push_bit (unat (f_index mod 32)) 1;
       let reg1' = (if f_index < 32 then reg1 AND NOT bit else reg1);
       let reg' = (if f_index < 32 then reg else reg AND NOT bit);
       (if f_index < 32 then bcmgenet_hfb_reg_writel e reg1' (offset + 4)
        else bcmgenet_hfb_reg_writel e reg' offset);
       if reg' = 0 \<and> reg1' = 0 then do {
         reg \<leftarrow> bcmgenet_hfb_reg_readl e HFB_CTRL;
         bcmgenet_hfb_reg_writel e (reg AND NOT RBUF_HFB_EN) HFB_CTRL
       } else ret ()
     }
   }"

definition bcmgenet_hfb_set_filter_rx_queue_mapping :: "linux_env \<Rightarrow> u32 \<Rightarrow> u32 \<Rightarrow> unit drv" where
  "bcmgenet_hfb_set_filter_rx_queue_mapping e f_index rx_queue = do {
     v12 \<leftarrow> asks GENET_IS_V12;
     if v12 then ret ()
     else do {
       let r = DMA_INDEX2RING_0 + unat (f_index div 8);
       let sh = unat (4 * (f_index mod 8));
       reg \<leftarrow> bcmgenet_rdma_readl e r;
       bcmgenet_rdma_writel e (reg AND NOT (push_bit sh 0xF) OR push_bit sh (rx_queue AND 0xF)) r
     }
   }"

definition bcmgenet_hfb_set_filter_length :: "linux_env \<Rightarrow> u32 \<Rightarrow> u32 \<Rightarrow> unit drv" where
  "bcmgenet_hfb_set_filter_length e f_index f_length = do {
     v12 \<leftarrow> asks GENET_IS_V12;
     cnt \<leftarrow> asks (\<lambda>s. hfb_filter_cnt (hw_params s));
     let offset = (if v12 then HFB_FLT_LEN_V2 else HFB_FLT_LEN_V3PLUS) + 4 * ((cnt - 1 - f_index) div 4);
     let sh = unat (8 * (f_index mod 4));
     reg \<leftarrow> bcmgenet_hfb_reg_readl e offset;
     bcmgenet_hfb_reg_writel e (reg AND NOT (push_bit sh 0xFF) OR push_bit sh (f_length AND 0xFF)) offset
   }"

text \<open>Masks the hardware can express: whole nibbles of a byte.\<close>

primrec bcmgenet_hfb_validate_mask :: "u8 list \<Rightarrow> u32" where
  "bcmgenet_hfb_validate_mask [] = 0"
| "bcmgenet_hfb_validate_mask (m # ms) =
     (if m = 0x00 \<or> m = 0x0f \<or> m = 0xf0 \<or> m = 0xff then bcmgenet_hfb_validate_mask ms else - EINVAL)"

text \<open>
  A word of a filter holds two bytes of the pattern, the one at the even offset in bits 15 to 8, and an
  enable bit per nibble.
\<close>

definition hfb_put_odd :: "u32 \<Rightarrow> u8 \<Rightarrow> u8 \<Rightarrow> u32" where
  "hfb_put_odd tmp v m =
     (tmp AND NOT 0x300FF) OR ucast v OR
     (if m = 0xFF then 0x30000 else if m = 0xF0 then 0x20000 else if m = 0x0F then 0x10000 else 0)"

definition hfb_put_even :: "u32 \<Rightarrow> u8 \<Rightarrow> u8 \<Rightarrow> u32" where
  "hfb_put_even tmp v m =
     (tmp AND NOT 0xCFF00) OR push_bit 8 (ucast v) OR
     (if m = 0xFF then 0xC0000 else if m = 0xF0 then 0x80000 else if m = 0x0F then 0x40000 else 0)"

text \<open>The loop over the bytes of the value and of the mask that are left.\<close>

fun hfb_insert_loop :: "linux_env \<Rightarrow> u32 \<Rightarrow> u32 \<Rightarrow> u32 \<Rightarrow> (u8 \<times> u8) list \<Rightarrow> unit drv" where
  "hfb_insert_loop e offset index tmp [] = ret ()"
| "hfb_insert_loop e offset index tmp ((v, m) # rest) =
     (if offset AND 1 \<noteq> 0 then do {
        bcmgenet_hfb_writel e (hfb_put_odd tmp v m) (index * 4);
        tmp \<leftarrow> (if rest \<noteq> [] then bcmgenet_hfb_readl e ((index + 1) * 4) else ret (hfb_put_odd tmp v m));
        hfb_insert_loop e (offset + 1) (index + 1) tmp rest
      }
      else do {
        let tmp = hfb_put_even tmp v m;
        (if rest = [] then bcmgenet_hfb_writel e tmp (index * 4) else ret ());
        hfb_insert_loop e (offset + 1) index tmp rest
      })"

definition bcmgenet_hfb_insert_data :: "linux_env \<Rightarrow> u32 \<Rightarrow> u32 \<Rightarrow> u8 list \<Rightarrow> u8 list \<Rightarrow> unit drv" where
  "bcmgenet_hfb_insert_data e f_index offset val msk = do {
     sz \<leftarrow> asks (\<lambda>s. hfb_filter_size (hw_params s));
     let index = f_index * sz + offset div 2;
     tmp \<leftarrow> bcmgenet_hfb_readl e (index * 4);
     hfb_insert_loop e offset index tmp (zip val msk)
   }"

section \<open>The filter of a rule\<close>

definition flow_kind :: "linux_env \<Rightarrow> ethtool_rx_flow_spec \<Rightarrow> u32" where
  "flow_kind e f = flow_type f AND NOT (FLOW_EXT (kh e) OR FLOW_MAC_EXT (kh e))"

definition bytes_set :: "u8 list \<Rightarrow> bool" where
  "bytes_set bs \<longleftrightarrow> (\<exists>b\<in>set bs. b \<noteq> 0)"

text \<open>The VLAN part of a rule: whether there is one decides the offset of what follows.\<close>

definition hfb_vlan :: "linux_env \<Rightarrow> ethtool_rx_flow_spec \<Rightarrow> bool" where
  "hfb_vlan e f \<longleftrightarrow> flow_type f AND FLOW_EXT (kh e) \<noteq> 0 \<and> (bytes_set (vlan_etype (flow_m f)) \<or> bytes_set (vlan_tci (flow_m f)))"

definition hfb_ether :: "linux_env \<Rightarrow> ethtool_rx_flow_spec \<Rightarrow> u32 \<Rightarrow> u32 \<Rightarrow> u32 \<Rightarrow> u32 drv" where
  "hfb_ether e sp f offset f_length = do {
     bcmgenet_hfb_insert_data e f 0 (h_dest (flow_h sp)) (h_dest (flow_m sp));
     bcmgenet_hfb_insert_data e f ETH_ALEN (h_source (flow_h sp)) (h_source (flow_m sp));
     bcmgenet_hfb_insert_data e f (2 * ETH_ALEN + offset) (h_proto (flow_h sp)) (h_proto (flow_m sp));
     ret (f_length + (ETH_HLEN + 2 - 1) div 2)
   }"

definition hfb_ip :: "linux_env \<Rightarrow> ethtool_rx_flow_spec \<Rightarrow> u32 \<Rightarrow> u32 \<Rightarrow> u32 \<Rightarrow> u32 drv" where
  "hfb_ip e sp f offset f_length = do {
     let f_length = f_length + (ETH_HLEN + 20 + 2 - 1) div 2;
     bcmgenet_hfb_insert_data e f (2 * ETH_ALEN + offset) [0x08, 0x00] [0xFF, 0xFF];
     bcmgenet_hfb_insert_data e f (15 + offset) [tos (flow_h sp)] [tos (flow_m sp)];
     bcmgenet_hfb_insert_data e f (23 + offset) [proto (flow_h sp)] [proto (flow_m sp)];
     bcmgenet_hfb_insert_data e f (26 + offset) (ip4src (flow_h sp)) (ip4src (flow_m sp));
     bcmgenet_hfb_insert_data e f (30 + offset) (ip4dst (flow_h sp)) (ip4dst (flow_m sp));
     if \<not> bytes_set (l4_4_bytes (flow_m sp)) then ret f_length
     else do {
       bcmgenet_hfb_insert_data e f (ETH_HLEN + offset) [0x45] [0xFF];
       bcmgenet_hfb_insert_data e f (ETH_HLEN + 20 + offset) (l4_4_bytes (flow_h sp)) (l4_4_bytes (flow_m sp));
       ret (f_length + (4 + 2 - 1) div 2)
     }
   }"

definition upd_rule :: "u32 \<Rightarrow> (bcmgenet_rxnfc_rule \<Rightarrow> bcmgenet_rxnfc_rule) \<Rightarrow> unit drv" where
  "upd_rule i f = modify (\<lambda>s. s\<lparr>rxnfc_rules := (rxnfc_rules s)(i := f (rxnfc_rules s i))\<rparr>)"

definition bcmgenet_hfb_create_rxnfc_filter :: "linux_env \<Rightarrow> u32 \<Rightarrow> unit drv" where
  "bcmgenet_hfb_create_rxnfc_filter e i = do {
     sp \<leftarrow> asks (\<lambda>s. fs (rxnfc_rules s i));
     let f = location sp + 1;
     (if flow_type sp AND FLOW_MAC_EXT (kh e) \<noteq> 0
      then bcmgenet_hfb_insert_data e f 0 (ext_h_dest (flow_h sp)) (ext_h_dest (flow_m sp)) else ret ());
     (if hfb_vlan e sp then do {
        bcmgenet_hfb_insert_data e f 12 (vlan_etype (flow_h sp)) (vlan_etype (flow_m sp));
        bcmgenet_hfb_insert_data e f 14 (vlan_tci (flow_h sp)) (vlan_tci (flow_m sp))
      } else ret ());
     let offset = (if hfb_vlan e sp then VLAN_HLEN else 0);
     let f_length = (if hfb_vlan e sp then (VLAN_HLEN + 2 - 1) div 2 else 0);
     f_length \<leftarrow> (if flow_kind e sp = ETHER_FLOW (kh e) then hfb_ether e sp f offset f_length
       else if flow_kind e sp = IP_USER_FLOW (kh e) then hfb_ip e sp f offset f_length
       else ret f_length);
     bcmgenet_hfb_set_filter_length e f (2 * f_length);
     n \<leftarrow> asks (\<lambda>s. rx_queues (hw_params s));
     let q = (if ring_cookie sp = RX_CLS_FLOW_WAKE (kh e) then 0
              else if ring_cookie sp = RX_CLS_FLOW_DISC (kh e) then n + 1
              else ucast (ring_cookie sp));
     bcmgenet_hfb_set_filter_rx_queue_mapping e f q;
     bcmgenet_hfb_enable_filter e f;
     upd_rule i (\<lambda>r. r\<lparr>rule_state := BCMGENET_RXNFC_STATE_ENABLED\<rparr>)
   }"

definition bcmgenet_hfb_clear_filter :: "linux_env \<Rightarrow> u32 \<Rightarrow> unit drv" where
  "bcmgenet_hfb_clear_filter e f_index = do {
     bcmgenet_hfb_set_filter_length e f_index 0;
     sz \<leftarrow> asks (\<lambda>s. hfb_filter_size (hw_params s));
     let base = f_index * sz;
     for_list (\<lambda>i. bcmgenet_hfb_writel e 0 ((base + i) * 4)) (upto_word sz)
   }"

definition bcmgenet_hfb_clear :: "linux_env \<Rightarrow> unit drv" where
  "bcmgenet_hfb_clear e = do {
     bcmgenet_hfb_reg_writel e 0 HFB_CTRL;
     v12 \<leftarrow> asks GENET_IS_V12;
     (if \<not> v12 then do {
        bcmgenet_hfb_reg_writel e 0 HFB_FLT_ENABLE_V3PLUS;
        bcmgenet_hfb_reg_writel e 0 (HFB_FLT_ENABLE_V3PLUS + 4);
        for_list (\<lambda>i. bcmgenet_rdma_writel e 0 i) [DMA_INDEX2RING_0..<Suc DMA_INDEX2RING_7]
      } else ret ());
     cnt \<leftarrow> asks (\<lambda>s. hfb_filter_cnt (hw_params s));
     for_list (bcmgenet_hfb_clear_filter e) (upto_word cnt);
     bcmgenet_hfb_set_filter_length e 0 4;
     bcmgenet_hfb_enable_filter e 0
   }"

definition bcmgenet_hfb_init :: "linux_env \<Rightarrow> unit drv" where
  "bcmgenet_hfb_init e = do {
     modify (\<lambda>s. s\<lparr>rxnfc_list := []\<rparr>);
     for_list (\<lambda>i. upd_rule i (\<lambda>r. r\<lparr>rule_state := BCMGENET_RXNFC_STATE_UNUSED\<rparr>)) (upto_word (of_nat MAX_NUM_OF_FS_RULES));
     bcmgenet_hfb_clear e
   }"

section \<open>Flow rules\<close>

text \<open>The fields of \<open>struct ethtool_rxnfc\<close> the driver uses.\<close>

record ethtool_rxnfc =
  nfc_cmd :: u32
  nfc_fs :: ethtool_rx_flow_spec
  nfc_rule_cnt :: u32
  nfc_data :: u64

definition bcmgenet_validate_flow :: "linux_env \<Rightarrow> ethtool_rx_flow_spec \<Rightarrow> u32" where
  "bcmgenet_validate_flow e sp =
     (let bad = (\<lambda>m. bcmgenet_hfb_validate_mask m \<noteq> 0); m = flow_m sp in
      if location sp \<ge> of_nat MAX_NUM_OF_FS_RULES \<and> location sp \<noteq> RX_CLS_LOC_ANY (kh e) then - EINVAL
      else if flow_kind e sp = IP_USER_FLOW (kh e) \<and>
              (bad (ip4src m) \<or> bad (ip4dst m) \<or> bad (l4_4_bytes m) \<or> bad [proto m] \<or> bad [ip_ver m] \<or> bad [tos m])
           then - EINVAL
      else if flow_kind e sp \<noteq> IP_USER_FLOW (kh e) \<and> flow_kind e sp = ETHER_FLOW (kh e) \<and>
              (bad (h_dest m) \<or> bad (h_source m) \<or> bad (h_proto m)) then - EINVAL
      else if flow_kind e sp \<noteq> IP_USER_FLOW (kh e) \<and> flow_kind e sp \<noteq> ETHER_FLOW (kh e) then - EINVAL
      else if flow_type sp AND FLOW_EXT (kh e) \<noteq> 0 \<and>
              (bad (vlan_etype m) \<or> bad (vlan_tci m) \<or> fst (ext_data m) \<noteq> 0 \<or> snd (ext_data m) \<noteq> 0) then - EINVAL
      else if flow_type sp AND FLOW_MAC_EXT (kh e) \<noteq> 0 \<and> bad (ext_h_dest m) then - EINVAL
      else 0)"

text \<open>
  Where a rule with location \<open>RX_CLS_LOC_ANY\<close> goes: \<open>Inl l\<close> when a linked rule at location \<open>l\<close> is the same,
  otherwise the first unused position, or none.
\<close>

definition same_rule :: "ethtool_rx_flow_spec \<Rightarrow> ethtool_rx_flow_spec \<Rightarrow> bool" where
  "same_rule r f \<longleftrightarrow> r = f\<lparr>location := location r\<rparr>"

definition choose_location :: "ethtool_rx_flow_spec \<Rightarrow> bcmgenet_priv \<Rightarrow> u32 + u32 option" where
  "choose_location f s =
     (case find (\<lambda>l. same_rule (fs (rxnfc_rules s l)) f) (rxnfc_list s) of
        Some l \<Rightarrow> Inl (location (fs (rxnfc_rules s l)))
      | None \<Rightarrow> Inr (find (\<lambda>i. rule_state (rxnfc_rules s i) = BCMGENET_RXNFC_STATE_UNUSED) (upto_word (of_nat MAX_NUM_OF_FS_RULES))))"

text \<open>Taking the rule at a location out: its filter is disabled and cleared and the rule unlinked.\<close>

definition remove_rule :: "linux_env \<Rightarrow> u32 \<Rightarrow> unit drv" where
  "remove_rule e loc = do {
     st \<leftarrow> asks (\<lambda>s. rule_state (rxnfc_rules s loc));
     (if st = BCMGENET_RXNFC_STATE_ENABLED then bcmgenet_hfb_disable_filter e (loc + 1) else ret ());
     (if st \<noteq> BCMGENET_RXNFC_STATE_UNUSED then do {
        modify (\<lambda>s. s\<lparr>rxnfc_list := remove1 loc (rxnfc_list s)\<rparr>);
        bcmgenet_hfb_clear_filter e (loc + 1)
      } else ret ());
     upd_rule loc (\<lambda>r. r\<lparr>rule_state := BCMGENET_RXNFC_STATE_UNUSED\<rparr>)
   }"

definition store_rule :: "linux_env \<Rightarrow> ethtool_rx_flow_spec \<Rightarrow> unit drv" where
  "store_rule e f = do {
     remove_rule e (location f);
     upd_rule (location f) (\<lambda>r. r\<lparr>fs := f\<rparr>);
     bcmgenet_hfb_create_rxnfc_filter e (location f);
     modify (\<lambda>s. s\<lparr>rxnfc_list := rxnfc_list s @ [location f]\<rparr>)
   }"

text \<open>The result of an operation: its error and the command structure, which it may change.\<close>

definition bcmgenet_insert_flow :: "linux_env \<Rightarrow> ethtool_rxnfc \<Rightarrow> (u32 \<times> ethtool_rxnfc) drv" where
  "bcmgenet_insert_flow e cmd = do {
     hw \<leftarrow> asks hw_params;
     let f = nfc_fs cmd;
     let err = bcmgenet_validate_flow e f;
     if hfb_filter_size hw < 128 then ret (- EINVAL, cmd)
     else if ring_cookie f > ucast (rx_queues hw) \<and> ring_cookie f \<noteq> RX_CLS_FLOW_WAKE (kh e) \<and>
             ring_cookie f \<noteq> RX_CLS_FLOW_DISC (kh e) then ret (- EINVAL, cmd)
     else if err \<noteq> 0 then ret (err, cmd)
     else if location f = RX_CLS_LOC_ANY (kh e) then do {
       c \<leftarrow> asks (choose_location f);
       case c of
         Inl l \<Rightarrow> ret (0, cmd\<lparr>nfc_fs := f\<lparr>location := l\<rparr>\<rparr>)
       | Inr None \<Rightarrow> ret (- ENOSPC, cmd)
       | Inr (Some i) \<Rightarrow> do {
           store_rule e (f\<lparr>location := i\<rparr>);
           ret (0, cmd\<lparr>nfc_fs := f\<lparr>location := i\<rparr>\<rparr>)
         }
     }
     else do { store_rule e f; ret (0, cmd) }
   }"

definition no_flow_fields :: flow_fields where
  "no_flow_fields = \<lparr>h_dest = replicate 6 0, h_source = replicate 6 0, h_proto = replicate 2 0, ip4src = replicate 4 0,
     ip4dst = replicate 4 0, l4_4_bytes = replicate 4 0, tos = 0, ip_ver = 0, proto = 0, ext_h_dest = replicate 6 0,
     vlan_etype = replicate 2 0, vlan_tci = replicate 2 0, ext_data = (0, 0)\<rparr>"

definition zero_flow :: ethtool_rx_flow_spec where
  "zero_flow = \<lparr>flow_type = 0, flow_h = no_flow_fields, flow_m = no_flow_fields, ring_cookie = 0, location = 0\<rparr>"

definition bcmgenet_delete_flow :: "linux_env \<Rightarrow> ethtool_rxnfc \<Rightarrow> u32 drv" where
  "bcmgenet_delete_flow e cmd = do {
     let loc = location (nfc_fs cmd);
     st \<leftarrow> asks (\<lambda>s. rule_state (rxnfc_rules s loc));
     if loc \<ge> of_nat MAX_NUM_OF_FS_RULES then ret (- EINVAL)
     else if st = BCMGENET_RXNFC_STATE_UNUSED then ret (- ENOENT)
     else do {
       remove_rule e loc;
       upd_rule loc (\<lambda>r. r\<lparr>fs := zero_flow\<rparr>);
       ret 0
     }
   }"

definition bcmgenet_set_rxnfc :: "linux_env \<Rightarrow> ethtool_rxnfc \<Rightarrow> (u32 \<times> ethtool_rxnfc) drv" where
  "bcmgenet_set_rxnfc e cmd =
     (if nfc_cmd cmd = ETHTOOL_SRXCLSRLINS (kh e) then bcmgenet_insert_flow e cmd
      else if nfc_cmd cmd = ETHTOOL_SRXCLSRLDEL (kh e) then do { err \<leftarrow> bcmgenet_delete_flow e cmd; ret (err, cmd) }
      else ret (- EINVAL, cmd))"

definition bcmgenet_get_flow :: "ethtool_rxnfc \<Rightarrow> u32 \<Rightarrow> (u32 \<times> ethtool_rxnfc) drv" where
  "bcmgenet_get_flow cmd loc = do {
     r \<leftarrow> asks (\<lambda>s. rxnfc_rules s loc);
     ret (if loc <s 0 \<or> of_nat MAX_NUM_OF_FS_RULES \<le>s loc then (- EINVAL, cmd)
          else if rule_state r = BCMGENET_RXNFC_STATE_UNUSED then (- ENOENT, cmd)
          else (0, cmd\<lparr>nfc_fs := fs r\<rparr>))
   }"

definition bcmgenet_get_num_flows :: "u32 drv" where
  "bcmgenet_get_num_flows = asks (\<lambda>s. of_nat (length (rxnfc_list s)))"

definition bcmgenet_get_rx_ring_count :: "u32 drv" where
  "bcmgenet_get_rx_ring_count = asks (\<lambda>s. if rx_queues (hw_params s) \<noteq> 0 then rx_queues (hw_params s) else 1)"

text \<open>The result also holds the locations written to \<open>rule_locs\<close>.\<close>

definition bcmgenet_get_rxnfc :: "linux_env \<Rightarrow> ethtool_rxnfc \<Rightarrow> (u32 \<times> ethtool_rxnfc \<times> u32 list) drv" where
  "bcmgenet_get_rxnfc e cmd =
     (if nfc_cmd cmd = ETHTOOL_GRXCLSRLCNT (kh e) then do {
        n \<leftarrow> bcmgenet_get_num_flows;
        ret (0, cmd\<lparr>nfc_rule_cnt := n, nfc_data := ucast (of_nat MAX_NUM_OF_FS_RULES OR RX_CLS_LOC_SPECIAL (kh e))\<rparr>, [])
      }
      else if nfc_cmd cmd = ETHTOOL_GRXCLSRULE (kh e) then do {
        (err, cmd) \<leftarrow> bcmgenet_get_flow cmd (location (nfc_fs cmd));
        ret (err, cmd, [])
      }
      else if nfc_cmd cmd = ETHTOOL_GRXCLSRLALL (kh e) then do {
        locs \<leftarrow> asks (\<lambda>s. take (unat (nfc_rule_cnt cmd)) (map (\<lambda>l. location (fs (rxnfc_rules s l))) (rxnfc_list s)));
        ret (0, cmd\<lparr>nfc_rule_cnt := of_nat (length locs), nfc_data := of_nat MAX_NUM_OF_FS_RULES\<rparr>, locs)
      }
      else ret (- EOPNOTSUPP, cmd, []))"

end
