(* ===== verification/Linux_Phy.thy ===== *)
theory Linux_Phy
  imports Linux_Io
begin

text \<open>
  Link, PHY and power management of the Linux GENET driver: \<open>bcmmii.c\<close>, \<open>bcmgenet_wol.c\<close>, and from
  \<open>bcmgenet.c\<close> energy efficient Ethernet, pause parameters and the power states.
\<close>

text \<open>Read, change and write back a register.\<close>

definition ext_modify :: "linux_env \<Rightarrow> (u32 \<Rightarrow> u32) \<Rightarrow> u32 \<Rightarrow> unit drv" where
  "ext_modify e f off = do { reg \<leftarrow> bcmgenet_ext_readl e off; bcmgenet_ext_writel e (f reg) off }"

definition umac_modify :: "linux_env \<Rightarrow> (u32 \<Rightarrow> u32) \<Rightarrow> u32 \<Rightarrow> unit drv" where
  "umac_modify e f off = do { reg \<leftarrow> bcmgenet_umac_readl e off; bcmgenet_umac_writel e (f reg) off }"

definition rbuf_modify :: "linux_env \<Rightarrow> (u32 \<Rightarrow> u32) \<Rightarrow> u32 \<Rightarrow> unit drv" where
  "rbuf_modify e f off = do { reg \<leftarrow> bcmgenet_rbuf_readl e off; bcmgenet_rbuf_writel e (f reg) off }"

section \<open>Energy efficient Ethernet\<close>

definition bcmgenet_eee_enable_set :: "linux_env \<Rightarrow> bool \<Rightarrow> unit drv" where
  "bcmgenet_eee_enable_set e enable = do {
     on \<leftarrow> asks clk_eee_enabled;
     (if enable \<and> \<not> on then do {
        kcall e (Clk_prepare_enable Clk_eee);
        modify (\<lambda>s. s\<lparr>clk_eee_enabled := True\<rparr>)
      } else ret ());
     umac_modify e (\<lambda>reg. if enable then reg OR EEE_EN (uh e) else reg AND NOT (EEE_EN (uh e))) (UMAC_EEE_CTRL (uh e));
     a \<leftarrow> asks (\<lambda>s. base s + ucast (tbuf_offset (hw_params s) + TBUF_ENERGY_CTRL));
     reg \<leftarrow> bcmgenet_readl e a;
     bcmgenet_writel e (if enable then reg OR (TBUF_EEE_EN OR TBUF_PM_EN) else reg AND NOT (TBUF_EEE_EN OR TBUF_PM_EN)) a;
     rbuf_modify e (\<lambda>reg. if enable then reg OR (RBUF_EEE_EN OR RBUF_PM_EN) else reg AND NOT (RBUF_EEE_EN OR RBUF_PM_EN)) RBUF_ENERGY_CTRL;
     on \<leftarrow> asks clk_eee_enabled;
     (if \<not> enable \<and> on then do {
        kdo (Clk_disable_unprepare Clk_eee);
        modify (\<lambda>s. s\<lparr>clk_eee_enabled := False\<rparr>)
      } else ret ())
   }"

text \<open>The result of \<open>bcmgenet_get_eee\<close> is its error and the value of \<open>tx_lpi_timer\<close>.\<close>

definition bcmgenet_get_eee :: "linux_env \<Rightarrow> (u32 \<times> u32 option) drv" where
  "bcmgenet_get_eee e = do {
     v \<leftarrow> asks version;
     dev \<leftarrow> qry (netdev e);
     if v = GENET_V1 then ret (- EOPNOTSUPP, None)
     else if \<not> dev_phydev dev then ret (- ENODEV, None)
     else do {
       r \<leftarrow> kcall e (Phy_op Phy_ethtool_get_eee);
       if (ucast r :: u32) \<noteq> 0 then ret (ucast r, None)
       else do {
         tx_lpi_timer \<leftarrow> bcmgenet_umac_readl e (UMAC_EEE_LPI_TIMER (uh e));
         ret (0, Some tx_lpi_timer)
       }
     }
   }"

definition bcmgenet_set_eee :: "linux_env \<Rightarrow> u32 \<Rightarrow> u32 drv" where
  "bcmgenet_set_eee e tx_lpi_timer = do {
     v \<leftarrow> asks version;
     dev \<leftarrow> qry (netdev e);
     if v = GENET_V1 then ret (- EOPNOTSUPP)
     else if \<not> dev_phydev dev then ret (- ENODEV)
     else do {
       bcmgenet_umac_writel e tx_lpi_timer (UMAC_EEE_LPI_TIMER (uh e));
       r \<leftarrow> kcall e (Phy_op Phy_ethtool_set_eee);
       ret (ucast r)
     }
   }"

section \<open>Link state\<close>

text \<open>The bits of \<open>UMAC_CMD\<close> for the state the PHY reports.\<close>

definition mac_cmd_bits :: "linux_env \<Rightarrow> phy_device \<Rightarrow> bcmgenet_priv \<Rightarrow> u32" where
  "mac_cmd_bits e phy s =
     (let u = uh e;
          speed = push_bit (CMD_SPEED_SHIFT u)
            (if phy_speed phy = SPEED_1000 (kh e) then CMD_SPEED_1000 u
             else if phy_speed phy = SPEED_100 (kh e) then CMD_SPEED_100 u else CMD_SPEED_10 u)
      in if phy_duplex phy \<noteq> DUPLEX_FULL (kh e)
         then speed OR CMD_HD_EN u OR CMD_RX_PAUSE_IGNORE u OR CMD_TX_PAUSE_IGNORE u
         else
           let (tx, rx) = (if phy_autoneg phy \<noteq> 0 then phy_pause phy else (False, False));
               neg = (if autoneg_pause s
                 then (if \<not> tx then CMD_TX_PAUSE_IGNORE u else 0) OR (if \<not> rx then CMD_RX_PAUSE_IGNORE u else 0) else 0)
           in speed OR neg OR (if \<not> rx_pause s then CMD_RX_PAUSE_IGNORE u else 0) OR
              (if \<not> tx_pause s then CMD_TX_PAUSE_IGNORE u else 0))"

definition bcmgenet_mac_config :: "linux_env \<Rightarrow> unit drv" where
  "bcmgenet_mac_config e = do {
     let u = uh e;
     phy \<leftarrow> qry (phydev e);
     cmd_bits \<leftarrow> asks (mac_cmd_bits e phy);
     ext_modify e (\<lambda>reg. reg OR RGMII_LINK) EXT_RGMII_OOB_CTRL;
     kdo (Spin_lock Reg_lock);
     reg \<leftarrow> bcmgenet_umac_readl e (UMAC_CMD u);
     let reg = (reg AND NOT (push_bit (CMD_SPEED_SHIFT u) (CMD_SPEED_MASK u) OR CMD_HD_EN u OR
                  CMD_RX_PAUSE_IGNORE u OR CMD_TX_PAUSE_IGNORE u)) OR cmd_bits;
     (if reg AND CMD_SW_RESET u \<noteq> 0 then do {
        let reg = reg AND NOT (CMD_SW_RESET u);
        bcmgenet_umac_writel e reg (UMAC_CMD u);
        kdo (Udelay 2);
        bcmgenet_umac_writel e (reg OR (CMD_TX_EN u OR CMD_RX_EN u)) (UMAC_CMD u)
      } else bcmgenet_umac_writel e reg (UMAC_CMD u));
     kdo (Spin_unlock Reg_lock)
   }"

definition bcmgenet_mii_setup :: "linux_env \<Rightarrow> unit drv" where
  "bcmgenet_mii_setup e = do {
     phy \<leftarrow> qry (phydev e);
     (if phy_link phy then bcmgenet_mac_config e
      else ext_modify e (\<lambda>reg. reg AND NOT RGMII_LINK) EXT_RGMII_OOB_CTRL);
     phy \<leftarrow> qry (phydev e);
     bcmgenet_eee_enable_set e (phy_enable_tx_lpi phy)
   }"

text \<open>The callback of a fixed PHY: the new link state, when it is set.\<close>

definition bcmgenet_fixed_phy_link_update :: "linux_env \<Rightarrow> bool \<Rightarrow> bool option drv" where
  "bcmgenet_fixed_phy_link_update e has_status = do {
     dev \<leftarrow> qry (netdev e);
     if dev_phydev dev \<and> has_status then do {
       reg \<leftarrow> bcmgenet_umac_readl e (UMAC_MODE (uh e));
       ret (Some (reg AND MODE_LINK_STATUS (uh e) \<noteq> 0))
     } else ret None
   }"

definition bcmgenet_phy_pause_set :: "linux_env \<Rightarrow> bool \<Rightarrow> bool \<Rightarrow> unit drv" where
  "bcmgenet_phy_pause_set e rx tx = do {
     kdo (Phy_call (Set_pause_advertising rx));
     kdo (Phy_call (Set_asym_pause_advertising (rx \<or> tx)));
     kdo (Phy_call Phy_start_aneg);
     kdo (Spin_lock Phy_lock);
     phy \<leftarrow> qry (phydev e);
     (if phy_link phy then bcmgenet_mac_config e else ret ());
     kdo (Spin_unlock Phy_lock)
   }"

text \<open>The fields of \<open>struct ethtool_pauseparam\<close>: \<open>autoneg\<close>, \<open>rx_pause\<close>, \<open>tx_pause\<close>.\<close>

definition bcmgenet_get_pauseparam :: "linux_env \<Rightarrow> (bool \<times> bool \<times> bool) drv" where
  "bcmgenet_get_pauseparam e = do {
     autoneg \<leftarrow> asks autoneg_pause;
     dev \<leftarrow> qry (netdev e);
     if dev_carrier_ok dev then do {
       umac_cmd \<leftarrow> bcmgenet_umac_readl e (UMAC_CMD (uh e));
       ret (autoneg, umac_cmd AND CMD_RX_PAUSE_IGNORE (uh e) = 0, umac_cmd AND CMD_TX_PAUSE_IGNORE (uh e) = 0)
     }
     else asks (\<lambda>s. (autoneg, rx_pause s, tx_pause s))
   }"

definition bcmgenet_set_pauseparam :: "linux_env \<Rightarrow> bool \<Rightarrow> bool \<Rightarrow> bool \<Rightarrow> u32 drv" where
  "bcmgenet_set_pauseparam e autoneg rx tx = do {
     dev \<leftarrow> qry (netdev e);
     valid \<leftarrow> qry (phy_validate_pause e autoneg rx tx);
     if \<not> dev_phydev dev then ret (- ENODEV)
     else if \<not> valid then ret (- EINVAL)
     else do {
       modify (\<lambda>s. s\<lparr>autoneg_pause := autoneg, tx_pause := tx, rx_pause := rx\<rparr>);
       bcmgenet_phy_pause_set e rx tx;
       ret 0
     }
   }"

section \<open>The PHY and its bus\<close>

definition bcmgenet_phy_power_set :: "linux_env \<Rightarrow> bool \<Rightarrow> unit drv" where
  "bcmgenet_phy_power_set e enable = do {
     gphy \<leftarrow> asks (\<lambda>s. version s = GENET_V4 \<or> bcmgenet_has_ephy_16nm s);
     if gphy then do {
       reg \<leftarrow> bcmgenet_ext_readl e EXT_GPHY_CTRL;
       let pwr = EXT_CFG_IDDQ_BIAS OR EXT_CFG_PWR_DOWN OR EXT_CFG_IDDQ_GLOBAL_PWR;
       reg \<leftarrow> (if enable then do {
         let reg = reg AND NOT EXT_CK25_DIS;
         bcmgenet_ext_writel e reg EXT_GPHY_CTRL;
         kdo (Mdelay 1);
         let reg = (reg AND NOT pwr) OR EXT_GPHY_RESET;
         bcmgenet_ext_writel e reg EXT_GPHY_CTRL;
         kdo (Mdelay 1);
         ret (reg AND NOT EXT_GPHY_RESET)
       } else do {
         let reg = reg OR EXT_GPHY_RESET;
         bcmgenet_ext_writel e reg EXT_GPHY_CTRL;
         kdo (Mdelay 1);
         let reg = reg OR pwr;
         bcmgenet_ext_writel e reg EXT_GPHY_CTRL;
         kdo (Mdelay 1);
         ret (reg OR EXT_CK25_DIS)
       });
       bcmgenet_ext_writel e reg EXT_GPHY_CTRL;
       kdo (Udelay 60)
     }
     else kdo (Mdelay 1)
   }"

definition bcmgenet_moca_phy_setup :: "unit drv" where
  "bcmgenet_moca_phy_setup = do {
     m \<leftarrow> asks bcmgenet_has_moca_link_det;
     if m then kdo (Phy_call Fixed_phy_set_link_update) else ret ()
   }"

text \<open>The port mode and the \<open>id_mode_dis\<close> bit of a PHY interface; \<open>None\<close> for an unknown one.\<close>

definition port_mode :: "linux_env \<Rightarrow> phy_device \<Rightarrow> bcmgenet_priv \<Rightarrow> (u32 \<times> u32) option" where
  "port_mode e phy s =
     (let k = kh e; i = phy_interface s; int = (if version s = GENET_V4 then PORT_MODE_INT_GPHY else PORT_MODE_INT_EPHY) in
      if i = PHY_INTERFACE_MODE_INTERNAL k then Some (int, 0)
      else if i = PHY_INTERFACE_MODE_MOCA k
           then Some (if version s \<noteq> GENET_V5 then int OR LED_ACT_SOURCE_MAC else int, 0)
      else if i = PHY_INTERFACE_MODE_MII k then Some (PORT_MODE_EXT_EPHY, 0)
      else if i = PHY_INTERFACE_MODE_REVMII k
           then Some (if phy_supports_1000_full phy then PORT_MODE_EXT_RVMII_50 else PORT_MODE_EXT_RVMII_25, 0)
      else if i = PHY_INTERFACE_MODE_RGMII k then Some (PORT_MODE_EXT_GPHY, push_bit 16 1)
      else if i = PHY_INTERFACE_MODE_RGMII_TXID k \<or> i = PHY_INTERFACE_MODE_RGMII_RXID k then Some (PORT_MODE_EXT_GPHY, 0)
      else None)"

definition bcmgenet_mii_config :: "linux_env \<Rightarrow> u32 drv" where
  "bcmgenet_mii_config e = do {
     i \<leftarrow> asks phy_interface;
     let k = kh e;
     (if i = PHY_INTERFACE_MODE_MOCA k \<and> i \<noteq> PHY_INTERFACE_MODE_INTERNAL k then bcmgenet_moca_phy_setup
      else if i = PHY_INTERFACE_MODE_MII k \<and> i \<noteq> PHY_INTERFACE_MODE_INTERNAL k then kdo (Phy_call (Phy_set_max_speed (SPEED_100 k)))
      else ret ());
     phy \<leftarrow> qry (phydev e);
     mode \<leftarrow> asks (port_mode e phy);
     case mode of
       None \<Rightarrow> ret (- EINVAL)
     | Some (port_ctrl, id_mode_dis) \<Rightarrow> do {
         bcmgenet_sys_writel e port_ctrl SYS_PORT_CTRL;
         modify (\<lambda>s. s\<lparr>ext_phy := \<not> internal_phy s \<and> phy_interface s \<noteq> PHY_INTERFACE_MODE_MOCA k\<rparr>);
         kdo (Spin_lock Phy_lock);
         ext \<leftarrow> asks ext_phy;
         v123 \<leftarrow> asks GENET_IS_V123;
         ext_modify e (\<lambda>reg. let reg = reg AND NOT OOB_DISABLE in
           if ext then ((reg AND NOT ID_MODE_DIS) OR id_mode_dis) OR (if v123 then RGMII_MODE_EN_V123 else RGMII_MODE_EN)
           else reg) EXT_RGMII_OOB_CTRL;
         kdo (Spin_unlock Phy_lock);
         ret 0
       }
   }"

definition phy_iface_quirk :: "linux_env \<Rightarrow> u32 \<Rightarrow> u32" where
  "phy_iface_quirk e i =
     (if i = PHY_INTERFACE_MODE_RGMII (kh e) then PHY_INTERFACE_MODE_RGMII_ID (kh e)
      else if i = PHY_INTERFACE_MODE_RGMII_TXID (kh e) then PHY_INTERFACE_MODE_RGMII_RXID (kh e) else i)"

text \<open>Attaching the PHY: from the device tree, over ACPI, or the one the device already has.\<close>

definition mii_attach :: "linux_env \<Rightarrow> u32 \<Rightarrow> u32 \<Rightarrow> u32 drv" where
  "mii_attach e phy_flags phy_iface =
     (if of_node e \<noteq> 0 then do {
        dn \<leftarrow> asks phy_dn;
        p \<leftarrow> kcall e (Phy_op (Phy_connect dn phy_flags phy_iface));
        ret (if p = 0 then - ENODEV else 0)
      }
      else do {
        p \<leftarrow> (if has_acpi_companion e then do {
          bus \<leftarrow> kcall e (Phy_op (Mdio_find_bus (pdev_id e)));
          if bus = 0 then ret None
          else do {
            p \<leftarrow> kcall e (Phy_op (Phy_find_first bus));
            kdo (Phy_op (Put_device bus));
            ret (if p = 0 then None else Some p)
          }
        } else ret (Some 0));
        case p of
          None \<Rightarrow> ret (- ENODEV)
        | Some p \<Rightarrow> do {
            kdo (Phy_call (Set_phydev_flags phy_flags));
            r \<leftarrow> kcall e (Phy_op (Phy_connect_direct p phy_iface));
            ret (if (ucast r :: u32) \<noteq> 0 then - ENODEV else 0)
          }
      })"

definition bcmgenet_mii_probe :: "linux_env \<Rightarrow> u32 drv" where
  "bcmgenet_mii_probe e = do {
     s0 \<leftarrow> asks (\<lambda>s. (phy_interface s, internal_phy s, gphy_rev s));
     let (i, int, rev) = s0;
     let phy_flags = (if int then ucast rev else PHY_BRCM_AUTO_PWRDWN_ENABLE (kh e) OR
           PHY_BRCM_DIS_TXCRXC_NOENRGY (kh e) OR PHY_BRCM_IDDQ_SUSPEND (kh e));
     r \<leftarrow> mii_attach e phy_flags (phy_iface_quirk e i);
     if r \<noteq> 0 then ret r
     else do {
       r \<leftarrow> bcmgenet_mii_config e;
       if r \<noteq> 0 then do { kdo (Phy_call Phy_disconnect); ret r }
       else do {
         v \<leftarrow> asks version;
         (if int \<and> v \<noteq> GENET_V5 then kdo (Phy_call Set_phydev_mac_interrupt) else ret ());
         kdo (Phy_call Set_phydev_mac_managed_pm);
         (if v \<noteq> GENET_V1 then kdo (Phy_call Phy_support_eee) else ret ());
         ret 0
       }
     }
   }"

text \<open>\<open>priv->version\<close> as the integer the enumeration gives it.\<close>

definition version_number :: "bcmgenet_version \<Rightarrow> u32" where
  "version_number v = (case v of GENET_V1 \<Rightarrow> 1 | GENET_V2 \<Rightarrow> 2 | GENET_V3 \<Rightarrow> 3 | GENET_V4 \<Rightarrow> 4 | GENET_V5 \<Rightarrow> 5)"

text \<open>The string \<open>kasprintf\<close> makes is an allocation whose size is left open.\<close>

definition bcmgenet_mii_of_find_mdio :: "linux_env \<Rightarrow> u64 drv" where
  "bcmgenet_mii_of_find_mdio e = do {
     v \<leftarrow> asks version;
     compat \<leftarrow> kcall e (Kzalloc 0);
     if compat = 0 then ret 0
     else do {
       dn \<leftarrow> kcall e (Mdio_call (Of_get_compatible_child (version_number v)));
       modify (\<lambda>s. s\<lparr>mdio_dn := dn\<rparr>);
       kdo (Kfree compat);
       ret dn
     }
   }"

text \<open>
  \<open>wait_event_timeout\<close> checks the condition, and again after each of the wake-ups that come in time; the
  answer to the call is the number of these wake-ups.
\<close>

primrec mii_wait_loop :: "linux_env \<Rightarrow> nat \<Rightarrow> unit drv" where
  "mii_wait_loop e 0 = ret ()"
| "mii_wait_loop e (Suc n) = do {
     reg \<leftarrow> bcmgenet_umac_readl e UMAC_MDIO_CMD;
     if reg AND MDIO_START_BUSY = 0 then ret () else mii_wait_loop e n
   }"

definition bcmgenet_mii_wait :: "linux_env \<Rightarrow> u32 drv" where
  "bcmgenet_mii_wait e = do {
     n \<leftarrow> kcall e (Irq_call Wait_event_timeout);
     mii_wait_loop e (Suc (unat n));
     ret 0
   }"

definition bcmgenet_mii_register :: "linux_env \<Rightarrow> u32 drv" where
  "bcmgenet_mii_register e =
     (case resource_start e of
        None \<Rightarrow> ret (- EINVAL)
      | Some start \<Rightarrow> do {
          let first = start + ucast GENET_UMAC_OFF + ucast UMAC_MDIO_CMD;
          let id = (if of_node e \<noteq> 0 then of_alias_get_id e else pdev_id e);
          ppdev \<leftarrow> kcall e (Mdio_call (Platform_device_alloc id));
          if ppdev = 0 then ret (- ENOMEM)
          else do {
            modify (\<lambda>s. s\<lparr>mii_pdev := ppdev\<rparr>);
            (if of_node e \<noteq> 0 then do { bcmgenet_mii_of_find_mdio e; ret () } else ret ());
            r \<leftarrow> kcall e (Mdio_call (Platform_device_add_resources first (first + 8)));
            r \<leftarrow> (if (ucast r :: u32) \<noteq> 0 then ret r else kcall e (Mdio_call (Platform_device_add_data (of_node e = 0))));
            r \<leftarrow> (if (ucast r :: u32) \<noteq> 0 then ret r else kcall e (Mdio_call Platform_device_add));
            if (ucast r :: u32) \<noteq> 0 then do { kdo (Mdio_call Platform_device_put); ret (ucast r) }
            else ret 0
          }
        })"

definition bcmgenet_phy_interface_init :: "linux_env \<Rightarrow> u32 drv" where
  "bcmgenet_phy_interface_init e =
     (let phy_mode = device_get_phy_mode e in
      if phy_mode <s 0 then ret phy_mode
      else do {
        modify (\<lambda>s. s\<lparr>phy_interface := phy_mode\<rparr>);
        (if phy_mode = PHY_INTERFACE_MODE_INTERNAL (kh e) then modify (\<lambda>s. s\<lparr>internal_phy := True\<rparr>) else ret ());
        ret 0
      })"

definition bcmgenet_mii_of_init :: "linux_env \<Rightarrow> u32 drv" where
  "bcmgenet_mii_of_init e = do {
     dn \<leftarrow> kcall e (Mdio_call Of_parse_phandle);
     modify (\<lambda>s. s\<lparr>phy_dn := dn\<rparr>);
     r \<leftarrow> (if dn = 0 \<and> of_phy_is_fixed_link e then do {
       r \<leftarrow> kcall e (Phy_op Of_phy_register_fixed_link);
       if (ucast r :: u32) \<noteq> 0 then ret (ucast r)
       else do {
         kdo (Mdio_call Of_node_get);
         modify (\<lambda>s. s\<lparr>phy_dn := of_node e\<rparr>);
         ret (0 :: u32)
       }
     } else ret 0);
     if r \<noteq> 0 then ret r
     else do {
       r \<leftarrow> bcmgenet_phy_interface_init e;
       if r \<noteq> 0 then ret r
       else do {
         i \<leftarrow> asks phy_interface;
         (if i = PHY_INTERFACE_MODE_MOCA (kh e) then do {
            p \<leftarrow> kcall e (Phy_op Of_phy_find_device);
            if p \<noteq> 0 then do { kdo (Phy_op Moca_link_down); kdo (Phy_op (Put_device p)) } else ret ()
          } else ret ());
         ret 0
       }
     }
   }"

definition bcmgenet_mii_bus_init :: "linux_env \<Rightarrow> u32 drv" where
  "bcmgenet_mii_bus_init e =
     (if of_node e \<noteq> 0 then bcmgenet_mii_of_init e
      else if has_acpi_companion e then bcmgenet_phy_interface_init e
      else ret (- EINVAL))"

definition bcmgenet_mii_exit :: "linux_env \<Rightarrow> unit drv" where
  "bcmgenet_mii_exit e = do {
     (if of_phy_is_fixed_link e then kdo (Phy_op Of_phy_deregister_fixed_link) else ret ());
     kdo (Mdio_call Of_node_put);
     kdo (Mdio_call Platform_device_unregister)
   }"

definition bcmgenet_mii_init :: "linux_env \<Rightarrow> u32 drv" where
  "bcmgenet_mii_init e = do {
     r \<leftarrow> bcmgenet_mii_register e;
     if r \<noteq> 0 then ret r
     else do {
       r \<leftarrow> bcmgenet_mii_bus_init e;
       if r \<noteq> 0 then do { bcmgenet_mii_exit e; ret r } else ret 0
     }
   }"

end
