(* ===== verification/Linux_Power.thy ===== *)
theory Linux_Power
  imports Linux_Phy
begin

text \<open>
  Wake-on-LAN (\<open>bcmgenet_wol.c\<close>) and the power states of the Linux GENET driver
  (\<open>bcmgenet_power_down\<close>, \<open>bcmgenet_power_up\<close>).
\<close>

section \<open>Wake-on-LAN\<close>

record ethtool_wolinfo =
  wol_supported :: u32
  wol_wolopts :: u32
  wol_sopass :: "u8 list"

definition WAKE_MAC :: "linux_env \<Rightarrow> u32" where
  "WAKE_MAC e = WAKE_MAGIC (kh e) OR WAKE_MAGICSECURE (kh e) OR WAKE_FILTER (kh e)"

definition bcmgenet_get_wol :: "linux_env \<Rightarrow> ethtool_wolinfo \<Rightarrow> ethtool_wolinfo drv" where
  "bcmgenet_get_wol e wol = do {
     dev \<leftarrow> qry (netdev e);
     (if dev_phydev dev then kdo (Phy_op Phy_ethtool_get_wol) else ret ());
     p \<leftarrow> qry (phy_wol e);
     let wol = (if dev_phydev dev then wol\<lparr>wol_supported := fst p, wol_wolopts := fst (snd p), wol_sopass := snd (snd p)\<rparr> else wol);
     let phy_wolopts = (if dev_phydev dev then wol_wolopts wol else 0);
     can \<leftarrow> qry (device_can_wakeup e);
     s \<leftarrow> asks (\<lambda>s. (wolopts s, sopass s));
     let mac = wol\<lparr>wol_supported := wol_supported wol OR WAKE_MAC e, wol_wolopts := wol_wolopts wol OR fst s\<rparr>;
     ret (if \<not> can then wol
          else if phy_wolopts AND WAKE_MAGICSECURE (kh e) \<noteq> 0 then mac
          else if wol_wolopts mac AND WAKE_MAGICSECURE (kh e) \<noteq> 0 then mac\<lparr>wol_sopass := snd s\<rparr>
          else mac\<lparr>wol_sopass := replicate 6 0\<rparr>)
   }"

definition bcmgenet_set_wol :: "linux_env \<Rightarrow> ethtool_wolinfo \<Rightarrow> u32 drv" where
  "bcmgenet_set_wol e wol = do {
     dev \<leftarrow> qry (netdev e);
     r \<leftarrow> (if dev_phydev dev then do { r \<leftarrow> kcall e (Phy_op (Phy_ethtool_set_wol (wol_wolopts wol))); ret (ucast r :: u32) }
          else ret (- EOPNOTSUPP));
     if dev_phydev dev \<and> r \<noteq> - EOPNOTSUPP \<and> wol_wolopts wol \<noteq> 0 then ret r
     else do {
       can \<leftarrow> qry (device_can_wakeup e);
       if \<not> can then ret (- ENOTSUPP)
       else if wol_wolopts wol AND NOT (WAKE_MAC e) \<noteq> 0 then ret (- EINVAL)
       else do {
         (if wol_wolopts wol AND WAKE_MAGICSECURE (kh e) \<noteq> 0 then modify (\<lambda>s. s\<lparr>sopass := wol_sopass wol\<rparr>) else ret ());
         let on = wol_wolopts wol \<noteq> 0;
         kdo (Irq_call (Device_set_wakeup_enable on));
         irqs \<leftarrow> asks (\<lambda>s. (wol_irq_disabled s, wol_irq s, irq0 s));
         let (disabled, wirq, irq) = irqs;
         (if on \<and> disabled then do {
            kdo (Irq_call (Enable_irq_wake wirq));
            kdo (Irq_call (Enable_irq_wake irq))
          }
          else if \<not> on \<and> \<not> disabled then do {
            kdo (Irq_call (Disable_irq_wake wirq));
            kdo (Irq_call (Disable_irq_wake irq))
          } else ret ());
         modify (\<lambda>s. s\<lparr>wol_irq_disabled := \<not> on\<rparr>);
         modify (\<lambda>s. s\<lparr>wolopts := wol_wolopts wol\<rparr>);
         ret 0
       }
     }
   }"

text \<open>\<open>n\<close> rounds are left before the 51st failure gives up; the result counts the retries.\<close>

primrec poll_wol_loop :: "linux_env \<Rightarrow> nat \<Rightarrow> u32 \<Rightarrow> u32 drv" where
  "poll_wol_loop e 0 retries = ret (- ETIMEDOUT)"
| "poll_wol_loop e (Suc n) retries = do {
     reg \<leftarrow> bcmgenet_rbuf_readl e RBUF_STATUS;
     if reg AND RBUF_STATUS_WOL \<noteq> 0 then ret retries
     else if n = 0 then ret (- ETIMEDOUT)
     else do { kdo (Mdelay 1); poll_wol_loop e n (retries + 1) }
   }"

definition bcmgenet_poll_wol_status :: "linux_env \<Rightarrow> u32 drv" where
  "bcmgenet_poll_wol_status e = poll_wol_loop e 51 0"

text \<open>\<open>get_unaligned_be16\<close> and \<open>get_unaligned_be32\<close> on a byte array, and back.\<close>

definition get_unaligned_be16 :: "u8 list \<Rightarrow> nat \<Rightarrow> u32" where
  "get_unaligned_be16 b i = push_bit 8 (ucast (b ! i)) OR ucast (b ! (i + 1))"

definition get_unaligned_be32 :: "u8 list \<Rightarrow> nat \<Rightarrow> u32" where
  "get_unaligned_be32 b i = push_bit 24 (ucast (b ! i)) OR push_bit 16 (ucast (b ! (i + 1))) OR
     push_bit 8 (ucast (b ! (i + 2))) OR ucast (b ! (i + 3))"

definition put_unaligned_be16 :: "u32 \<Rightarrow> u8 list" where
  "put_unaligned_be16 v = [ucast (drop_bit 8 v), ucast v]"

definition put_unaligned_be32 :: "u32 \<Rightarrow> u8 list" where
  "put_unaligned_be32 v = [ucast (drop_bit 24 v), ucast (drop_bit 16 v), ucast (drop_bit 8 v), ucast v]"

definition bcmgenet_set_mpd_password :: "linux_env \<Rightarrow> unit drv" where
  "bcmgenet_set_mpd_password e = do {
     pw \<leftarrow> asks sopass;
     bcmgenet_umac_writel e (get_unaligned_be16 pw 0) UMAC_MPD_PW_MS;
     bcmgenet_umac_writel e (get_unaligned_be32 pw 2) UMAC_MPD_PW_LS
   }"

definition bcmgenet_wol_power_down_cfg :: "linux_env \<Rightarrow> bcmgenet_power_mode \<Rightarrow> u32 drv" where
  "bcmgenet_wol_power_down_cfg e mode =
     (if mode \<noteq> GENET_POWER_WOL_MAGIC then ret (- EINVAL)
      else do {
        opts \<leftarrow> asks wolopts;
        (if opts AND (WAKE_MAGIC (kh e) OR WAKE_MAGICSECURE (kh e)) \<noteq> 0 then do {
           reg \<leftarrow> bcmgenet_umac_readl e UMAC_MPD_CTRL;
           (if opts AND WAKE_MAGICSECURE (kh e) \<noteq> 0 then bcmgenet_set_mpd_password e else ret ());
           bcmgenet_umac_writel e
             (if opts AND WAKE_MAGICSECURE (kh e) \<noteq> 0 then reg OR MPD_EN OR MPD_PW_EN else reg OR MPD_EN) UMAC_MPD_CTRL
         } else ret ());
        hfb_ctrl_reg \<leftarrow> bcmgenet_hfb_reg_readl e HFB_CTRL;
        bcmgenet_hfb_reg_writel e (hfb_ctrl_reg OR RBUF_ACPI_EN) HFB_CTRL;
        retries \<leftarrow> bcmgenet_poll_wol_status e;
        if retries <s 0 then do {
          umac_modify e (\<lambda>reg. reg AND NOT (MPD_EN OR MPD_PW_EN)) UMAC_MPD_CTRL;
          bcmgenet_hfb_reg_writel e hfb_ctrl_reg HFB_CTRL;
          ret retries
        }
        else do {
          kdo (Spin_lock Phy_lock);
          kdo (Phy_call (Set_phydev_state PHY_READY));
          kdo (Spin_unlock Phy_lock);
          kcall e (Clk_prepare_enable Clk_wol);
          kdo (Spin_lock Reg_lock);
          reg \<leftarrow> bcmgenet_umac_readl e (UMAC_CMD (uh e));
          modify (\<lambda>s. s\<lparr>crc_fwd_en := True\<rparr>);
          bcmgenet_umac_writel e (((reg OR CMD_CRC_FWD (uh e)) AND NOT (CMD_SW_RESET (uh e))) OR CMD_RX_EN (uh e)) (UMAC_CMD (uh e));
          kdo (Spin_unlock Reg_lock);
          bcmgenet_intrl2_0_writel e
            (if hfb_ctrl_reg AND RBUF_HFB_EN \<noteq> 0 then UMAC_IRQ_MPD_R OR (UMAC_IRQ_HFB_SM OR UMAC_IRQ_HFB_MM) else UMAC_IRQ_MPD_R)
            INTRL2_CPU_MASK_CLEAR;
          ret 0
        }
      })"

definition bcmgenet_wol_power_up_cfg :: "linux_env \<Rightarrow> bcmgenet_power_mode \<Rightarrow> u32 drv" where
  "bcmgenet_wol_power_up_cfg e mode =
     (if mode \<noteq> GENET_POWER_WOL_MAGIC then ret (- EINVAL)
      else do {
        kdo (Clk_disable_unprepare Clk_wol);
        modify (\<lambda>s. s\<lparr>crc_fwd_en := False\<rparr>);
        bcmgenet_intrl2_0_writel e UMAC_IRQ_WAKE_EVENT INTRL2_CPU_MASK_SET;
        mdio \<leftarrow> asks bcmgenet_has_mdio_intr;
        (if mdio then bcmgenet_intrl2_0_writel e UMAC_IRQ_MDIO_EVENT INTRL2_CPU_MASK_CLEAR else ret ());
        opts \<leftarrow> asks wolopts;
        gone \<leftarrow> (if opts AND (WAKE_MAGIC (kh e) OR WAKE_MAGICSECURE (kh e)) \<noteq> 0 then do {
          reg \<leftarrow> bcmgenet_umac_readl e UMAC_MPD_CTRL;
          if reg AND MPD_EN = 0 then ret True
          else do {
            bcmgenet_umac_writel e (reg AND NOT (MPD_EN OR MPD_PW_EN)) UMAC_MPD_CTRL;
            ret False
          }
        } else ret False);
        if gone then ret (- EPERM)
        else do {
          reg \<leftarrow> bcmgenet_hfb_reg_readl e HFB_CTRL;
          if reg AND RBUF_ACPI_EN = 0 then ret (- EPERM)
          else do {
            bcmgenet_hfb_reg_writel e (reg AND NOT RBUF_ACPI_EN) HFB_CTRL;
            kdo (Spin_lock Reg_lock);
            umac_modify e (\<lambda>reg. reg AND NOT (CMD_CRC_FWD (uh e))) (UMAC_CMD (uh e));
            kdo (Spin_unlock Reg_lock);
            kdo (Spin_lock Phy_lock);
            phy \<leftarrow> qry (phydev e);
            kdo (Phy_call (Set_phydev_state (if phy_link phy then PHY_RUNNING else PHY_NOLINK)));
            kdo (Spin_unlock Phy_lock);
            ret 0
          }
        }
      })"

section \<open>Power states\<close>

definition EXT_PWR_DOWN_PHY_V5 :: u32 where
  "EXT_PWR_DOWN_PHY_V5 = EXT_PWR_DOWN_PHY_EN OR EXT_PWR_DOWN_PHY_RD OR EXT_PWR_DOWN_PHY_SD OR
     EXT_PWR_DOWN_PHY_RX OR EXT_PWR_DOWN_PHY_TX OR EXT_IDDQ_GLBL_PWR"

definition v5_phy :: "bcmgenet_priv \<Rightarrow> bool" where
  "v5_phy s \<longleftrightarrow> version s = GENET_V5 \<and> \<not> bcmgenet_has_ephy_16nm s"

definition bcmgenet_power_down :: "linux_env \<Rightarrow> bcmgenet_power_mode \<Rightarrow> u32 drv" where
  "bcmgenet_power_down e mode =
     (case mode of
        GENET_POWER_CABLE_SENSE \<Rightarrow> do { kdo (Phy_call Phy_detach); ret 0 }
      | GENET_POWER_WOL_MAGIC \<Rightarrow> bcmgenet_wol_power_down_cfg e mode
      | GENET_POWER_PASSIVE \<Rightarrow> do {
          ext \<leftarrow> asks bcmgenet_has_ext;
          v5 \<leftarrow> asks v5_phy;
          (if ext then do {
             ext_modify e (\<lambda>reg. reg OR (if v5 then EXT_PWR_DOWN_PHY_V5 else EXT_PWR_DOWN_PHY) OR
               (EXT_PWR_DOWN_DLL OR EXT_PWR_DOWN_BIAS)) EXT_EXT_PWR_MGMT;
             bcmgenet_phy_power_set e False
           } else ret ());
          ret 0
        })"

definition bcmgenet_power_up :: "linux_env \<Rightarrow> bcmgenet_power_mode \<Rightarrow> u32 drv" where
  "bcmgenet_power_up e mode = do {
     ext \<leftarrow> asks bcmgenet_has_ext;
     if \<not> ext then ret 0
     else do {
       reg \<leftarrow> bcmgenet_ext_readl e EXT_EXT_PWR_MGMT;
       case mode of
         GENET_POWER_PASSIVE \<Rightarrow> do {
           let reg = reg AND NOT (EXT_PWR_DOWN_DLL OR EXT_PWR_DOWN_BIAS OR EXT_ENERGY_DET_MASK);
           v5 \<leftarrow> asks v5_phy;
           (if v5 then do {
              let reg = (reg AND NOT EXT_PWR_DOWN_PHY_V5) OR EXT_PHY_RESET;
              bcmgenet_ext_writel e reg EXT_EXT_PWR_MGMT;
              kdo (Mdelay 1);
              bcmgenet_ext_writel e (reg AND NOT EXT_PHY_RESET) EXT_EXT_PWR_MGMT
            }
            else bcmgenet_ext_writel e ((reg AND NOT EXT_PWR_DOWN_PHY) OR EXT_PWR_DN_EN_LD) EXT_EXT_PWR_MGMT);
           bcmgenet_phy_power_set e True;
           ret 0
         }
       | GENET_POWER_CABLE_SENSE \<Rightarrow> do {
           v \<leftarrow> asks version;
           (if v \<noteq> GENET_V5 then bcmgenet_ext_writel e (reg OR EXT_PWR_DN_EN_LD) EXT_EXT_PWR_MGMT else ret ());
           ret 0
         }
       | GENET_POWER_WOL_MAGIC \<Rightarrow> bcmgenet_wol_power_up_cfg e mode
     }
   }"

end
