(* ===== verification/Linux_Ethtool.thy ===== *)
theory Linux_Ethtool
  imports Linux_Io
begin

text \<open>
  Statistics and the simple ethtool operations of the Linux GENET driver (\<open>bcmgenet.c\<close>, from
  \<open>bcmgenet_begin\<close> to \<open>bcmgenet_set_msglevel\<close> and from \<open>enum bcmgenet_stat_type\<close> to
  \<open>bcmgenet_get_ethtool_stats\<close>, and \<open>bcmgenet_get_stats64\<close>).
\<close>

section \<open>Clocks, settings and features\<close>

definition bcmgenet_begin :: "linux_env \<Rightarrow> u32 drv" where
  "bcmgenet_begin e = do { r \<leftarrow> kcall e (Clk_prepare_enable Clk); ret (ucast r) }"

definition bcmgenet_complete :: "unit drv" where
  "bcmgenet_complete = kdo (Clk_disable_unprepare Clk)"

definition bcmgenet_get_link_ksettings :: "linux_env \<Rightarrow> u32 drv" where
  "bcmgenet_get_link_ksettings e = do {
     dev \<leftarrow> qry (netdev e);
     if \<not> dev_running dev then ret (- EINVAL)
     else if \<not> dev_phydev dev then ret (- ENODEV)
     else do { kdo (Phy_op Phy_ethtool_ksettings_get); ret 0 }
   }"

definition bcmgenet_set_link_ksettings :: "linux_env \<Rightarrow> u32 drv" where
  "bcmgenet_set_link_ksettings e = do {
     dev \<leftarrow> qry (netdev e);
     if \<not> dev_running dev then ret (- EINVAL)
     else if \<not> dev_phydev dev then ret (- ENODEV)
     else do { r \<leftarrow> kcall e (Phy_op Phy_ethtool_ksettings_set); ret (ucast r) }
   }"

definition bcmgenet_set_features :: "linux_env \<Rightarrow> u32 drv" where
  "bcmgenet_set_features e = do {
     r \<leftarrow> kcall e (Clk_prepare_enable Clk);
     if (ucast r :: u32) \<noteq> 0 then ret (ucast r)
     else do {
       reg \<leftarrow> bcmgenet_umac_readl e (UMAC_CMD (uh e));
       modify (\<lambda>s. s\<lparr>crc_fwd_en := (reg AND CMD_CRC_FWD (uh e) \<noteq> 0)\<rparr>);
       kdo (Clk_disable_unprepare Clk);
       ret 0
     }
   }"

definition bcmgenet_get_msglevel :: "u32 drv" where
  "bcmgenet_get_msglevel = asks msg_enable"

definition bcmgenet_set_msglevel :: "u32 \<Rightarrow> unit drv" where
  "bcmgenet_set_msglevel level = modify (\<lambda>s. s\<lparr>msg_enable := level\<rparr>)"

definition bcmgenet_get_drvinfo :: string where
  "bcmgenet_get_drvinfo = ''bcmgenet''"

section \<open>The table of statistics\<close>

text \<open>
  Where a counter comes from: the network device, the receive, transmit, runt or other counters of the
  hardware (with their field of \<open>mib\<close>), a counter of the driver, or a counter of a ring.
\<close>

datatype bcmgenet_stat =
    Stat_RTNL
  | Stat_MIB_RX string
  | Stat_MIB_TX string
  | Stat_RUNT string
  | Stat_MISC string u32
  | Stat_SOFT string
  | Stat_SOFT64 "bcmgenet_priv \<Rightarrow> u64"

definition BCMGENET_STAT_OFFSET :: u32 where
  "BCMGENET_STAT_OFFSET = 0xc"

definition queue_stats :: "u32 \<Rightarrow> string \<Rightarrow> (string \<times> bcmgenet_stat) list" where
  "queue_stats q num = [
     (''txq'' @ num @ ''_packets'', Stat_SOFT64 (\<lambda>s. ts_packets (t_stats64 (tx_rings s q)))),
     (''txq'' @ num @ ''_bytes'', Stat_SOFT64 (\<lambda>s. ts_bytes (t_stats64 (tx_rings s q)))),
     (''txq'' @ num @ ''_errors'', Stat_SOFT64 (\<lambda>s. ts_errors (t_stats64 (tx_rings s q)))),
     (''txq'' @ num @ ''_dropped'', Stat_SOFT64 (\<lambda>s. ts_dropped (t_stats64 (tx_rings s q)))),
     (''rxq'' @ num @ ''_bytes'', Stat_SOFT64 (\<lambda>s. rs_bytes (r_stats64 (rx_rings s q)))),
     (''rxq'' @ num @ ''_packets'', Stat_SOFT64 (\<lambda>s. rs_packets (r_stats64 (rx_rings s q)))),
     (''rxq'' @ num @ ''_errors'', Stat_SOFT64 (\<lambda>s. rs_errors (r_stats64 (rx_rings s q)))),
     (''rxq'' @ num @ ''_dropped'', Stat_SOFT64 (\<lambda>s. rs_dropped (r_stats64 (rx_rings s q)))),
     (''rxq'' @ num @ ''_multicast'', Stat_SOFT64 (\<lambda>s. rs_multicast (r_stats64 (rx_rings s q)))),
     (''rxq'' @ num @ ''_missed'', Stat_SOFT64 (\<lambda>s. rs_missed (r_stats64 (rx_rings s q)))),
     (''rxq'' @ num @ ''_length_errors'', Stat_SOFT64 (\<lambda>s. rs_length_errors (r_stats64 (rx_rings s q)))),
     (''rxq'' @ num @ ''_over_errors'', Stat_SOFT64 (\<lambda>s. rs_over_errors (r_stats64 (rx_rings s q)))),
     (''rxq'' @ num @ ''_crc_errors'', Stat_SOFT64 (\<lambda>s. rs_crc_errors (r_stats64 (rx_rings s q)))),
     (''rxq'' @ num @ ''_frame_errors'', Stat_SOFT64 (\<lambda>s. rs_frame_errors (r_stats64 (rx_rings s q)))),
     (''rxq'' @ num @ ''_fragmented_errors'', Stat_SOFT64 (\<lambda>s. rs_fragmented_errors (r_stats64 (rx_rings s q)))),
     (''rxq'' @ num @ ''_broadcast'', Stat_SOFT64 (\<lambda>s. rs_broadcast (r_stats64 (rx_rings s q))))
]"

definition bcmgenet_gstrings_stats :: "(string \<times> bcmgenet_stat) list" where
  "bcmgenet_gstrings_stats = [
     (''rx_packets'', Stat_RTNL), (''tx_packets'', Stat_RTNL), (''rx_bytes'', Stat_RTNL), (''tx_bytes'', Stat_RTNL),
     (''rx_errors'', Stat_RTNL), (''tx_errors'', Stat_RTNL), (''rx_dropped'', Stat_RTNL), (''tx_dropped'', Stat_RTNL),
     (''multicast'', Stat_RTNL), (''rx_missed_errors'', Stat_RTNL), (''rx_length_errors'', Stat_RTNL),
     (''rx_over_errors'', Stat_RTNL), (''rx_crc_errors'', Stat_RTNL), (''rx_frame_errors'', Stat_RTNL),
     (''rx_64_octets'', Stat_MIB_RX ''rx.pkt_cnt.cnt_64''), (''rx_65_127_oct'', Stat_MIB_RX ''rx.pkt_cnt.cnt_127''),
     (''rx_128_255_oct'', Stat_MIB_RX ''rx.pkt_cnt.cnt_255''), (''rx_256_511_oct'', Stat_MIB_RX ''rx.pkt_cnt.cnt_511''),
     (''rx_512_1023_oct'', Stat_MIB_RX ''rx.pkt_cnt.cnt_1023''),
     (''rx_1024_1518_oct'', Stat_MIB_RX ''rx.pkt_cnt.cnt_1518''),
     (''rx_vlan_1519_1522_oct'', Stat_MIB_RX ''rx.pkt_cnt.cnt_mgv''),
     (''rx_1522_2047_oct'', Stat_MIB_RX ''rx.pkt_cnt.cnt_2047''),
     (''rx_2048_4095_oct'', Stat_MIB_RX ''rx.pkt_cnt.cnt_4095''),
     (''rx_4096_9216_oct'', Stat_MIB_RX ''rx.pkt_cnt.cnt_9216''), (''rx_pkts'', Stat_MIB_RX ''rx.pkt''),
     (''rx_bytes'', Stat_MIB_RX ''rx.bytes''), (''rx_multicast'', Stat_MIB_RX ''rx.mca''),
     (''rx_broadcast'', Stat_MIB_RX ''rx.bca''), (''rx_fcs'', Stat_MIB_RX ''rx.fcs''),
     (''rx_control'', Stat_MIB_RX ''rx.cf''), (''rx_pause'', Stat_MIB_RX ''rx.pf''),
     (''rx_unknown'', Stat_MIB_RX ''rx.uo''), (''rx_align'', Stat_MIB_RX ''rx.aln''),
     (''rx_outrange'', Stat_MIB_RX ''rx.flr''), (''rx_code'', Stat_MIB_RX ''rx.cde''),
     (''rx_carrier'', Stat_MIB_RX ''rx.fcr''), (''rx_oversize'', Stat_MIB_RX ''rx.ovr''),
     (''rx_jabber'', Stat_MIB_RX ''rx.jbr''), (''rx_mtu_err'', Stat_MIB_RX ''rx.mtue''),
     (''rx_good_pkts'', Stat_MIB_RX ''rx.pok''), (''rx_unicast'', Stat_MIB_RX ''rx.uc''),
     (''rx_ppp'', Stat_MIB_RX ''rx.ppp''), (''rx_crc'', Stat_MIB_RX ''rx.rcrc''),
     (''tx_64_octets'', Stat_MIB_TX ''tx.pkt_cnt.cnt_64''), (''tx_65_127_oct'', Stat_MIB_TX ''tx.pkt_cnt.cnt_127''),
     (''tx_128_255_oct'', Stat_MIB_TX ''tx.pkt_cnt.cnt_255''), (''tx_256_511_oct'', Stat_MIB_TX ''tx.pkt_cnt.cnt_511''),
     (''tx_512_1023_oct'', Stat_MIB_TX ''tx.pkt_cnt.cnt_1023''),
     (''tx_1024_1518_oct'', Stat_MIB_TX ''tx.pkt_cnt.cnt_1518''),
     (''tx_vlan_1519_1522_oct'', Stat_MIB_TX ''tx.pkt_cnt.cnt_mgv''),
     (''tx_1522_2047_oct'', Stat_MIB_TX ''tx.pkt_cnt.cnt_2047''),
     (''tx_2048_4095_oct'', Stat_MIB_TX ''tx.pkt_cnt.cnt_4095''),
     (''tx_4096_9216_oct'', Stat_MIB_TX ''tx.pkt_cnt.cnt_9216''), (''tx_pkts'', Stat_MIB_TX ''tx.pkts''),
     (''tx_multicast'', Stat_MIB_TX ''tx.mca''), (''tx_broadcast'', Stat_MIB_TX ''tx.bca''),
     (''tx_pause'', Stat_MIB_TX ''tx.pf''), (''tx_control'', Stat_MIB_TX ''tx.cf''),
     (''tx_fcs_err'', Stat_MIB_TX ''tx.fcs''), (''tx_oversize'', Stat_MIB_TX ''tx.ovr''),
     (''tx_defer'', Stat_MIB_TX ''tx.drf''), (''tx_excess_defer'', Stat_MIB_TX ''tx.edf''),
     (''tx_single_col'', Stat_MIB_TX ''tx.scl''), (''tx_multi_col'', Stat_MIB_TX ''tx.mcl''),
     (''tx_late_col'', Stat_MIB_TX ''tx.lcl''), (''tx_excess_col'', Stat_MIB_TX ''tx.ecl''),
     (''tx_frags'', Stat_MIB_TX ''tx.frg''), (''tx_total_col'', Stat_MIB_TX ''tx.ncl''),
     (''tx_jabber'', Stat_MIB_TX ''tx.jbr''), (''tx_bytes'', Stat_MIB_TX ''tx.bytes''),
     (''tx_good_pkts'', Stat_MIB_TX ''tx.pok''), (''tx_unicast'', Stat_MIB_TX ''tx.uc''),
     (''rx_runt_pkts'', Stat_RUNT ''rx_runt_cnt''), (''rx_runt_valid_fcs'', Stat_RUNT ''rx_runt_fcs''),
     (''rx_runt_inval_fcs_align'', Stat_RUNT ''rx_runt_fcs_align''), (''rx_runt_bytes'', Stat_RUNT ''rx_runt_bytes''),
     (''rbuf_ovflow_cnt'', Stat_MISC ''rbuf_ovflow_cnt'' UMAC_RBUF_OVFL_CNT_V1),
     (''rbuf_err_cnt'', Stat_MISC ''rbuf_err_cnt'' UMAC_RBUF_ERR_CNT_V1),
     (''mdf_err_cnt'', Stat_MISC ''mdf_err_cnt'' UMAC_MDF_ERR_CNT),
     (''alloc_rx_buff_failed'', Stat_SOFT ''alloc_rx_buff_failed''), (''rx_dma_failed'', Stat_SOFT ''rx_dma_failed''),
     (''tx_dma_failed'', Stat_SOFT ''tx_dma_failed''), (''tx_realloc_tsb'', Stat_SOFT ''tx_realloc_tsb''),
     (''tx_realloc_tsb_failed'', Stat_SOFT ''tx_realloc_tsb_failed'')] @
     queue_stats 0 ''0'' @ queue_stats 1 ''1'' @ queue_stats 2 ''2'' @ queue_stats 3 ''3'' @ queue_stats 4 ''4''"

definition BCMGENET_STATS_LEN :: nat where
  "BCMGENET_STATS_LEN = length bcmgenet_gstrings_stats"

definition bcmgenet_get_sset_count :: "linux_env \<Rightarrow> u32 \<Rightarrow> u32" where
  "bcmgenet_get_sset_count e string_set =
     (if string_set = ETH_SS_STATS (kh e) then of_nat BCMGENET_STATS_LEN else - EOPNOTSUPP)"

definition bcmgenet_get_strings :: "linux_env \<Rightarrow> u32 \<Rightarrow> string list" where
  "bcmgenet_get_strings e stringset =
     (if stringset = ETH_SS_STATS (kh e) then map fst bcmgenet_gstrings_stats else [])"

section \<open>Reading the counters\<close>

definition bcmgenet_update_stat_misc :: "linux_env \<Rightarrow> u32 \<Rightarrow> u32 drv" where
  "bcmgenet_update_stat_misc e offset = do {
     v \<leftarrow> asks version;
     if offset = UMAC_RBUF_OVFL_CNT_V1 \<or> offset = UMAC_RBUF_ERR_CNT_V1 then do {
       let new_offset = (if offset = UMAC_RBUF_OVFL_CNT_V1
         then (if v = GENET_V2 then RBUF_OVFL_CNT_V2 else RBUF_OVFL_CNT_V3PLUS)
         else (if v = GENET_V2 then RBUF_ERR_CNT_V2 else RBUF_ERR_CNT_V3PLUS));
       val \<leftarrow> bcmgenet_rbuf_readl e new_offset;
       (if val = NOT 0 then bcmgenet_rbuf_writel e 0 new_offset else ret ());
       ret val
     }
     else do {
       val \<leftarrow> bcmgenet_umac_readl e offset;
       (if val = NOT 0 then bcmgenet_umac_writel e 0 offset else ret ());
       ret val
     }
   }"

text \<open>The field of \<open>mib\<close> a counter of the hardware is kept in, and where it is read from.\<close>

fun hw_stat :: "bcmgenet_stat \<Rightarrow> (string \<times> (u32 + u32)) option" where
  "hw_stat (Stat_MIB_RX f) = Some (f, Inl 0)"
| "hw_stat (Stat_MIB_TX f) = Some (f, Inl BCMGENET_STAT_OFFSET)"
| "hw_stat (Stat_RUNT f) = Some (f, Inl (BCMGENET_STAT_OFFSET + BCMGENET_STAT_OFFSET))"
| "hw_stat (Stat_MISC f off) = Some (f, Inr off)"
| "hw_stat _ = None"

primrec update_mib_loop :: "linux_env \<Rightarrow> (string \<times> bcmgenet_stat) list \<Rightarrow> u32 \<Rightarrow> unit drv" where
  "update_mib_loop e [] j = ret ()"
| "update_mib_loop e (st # rest) j =
     (case hw_stat (snd st) of
        None \<Rightarrow> update_mib_loop e rest j
      | Some (f, src) \<Rightarrow> do {
          val \<leftarrow> (case src of
              Inl offset \<Rightarrow> bcmgenet_umac_readl e (UMAC_MIB_START + j + offset)
            | Inr reg_offset \<Rightarrow> do {
                v \<leftarrow> asks version;
                if v = GENET_V1 then do {
                  val \<leftarrow> bcmgenet_umac_readl e reg_offset;
                  (if val = NOT 0 then bcmgenet_umac_writel e 0 reg_offset else ret ());
                  ret val
                }
                else bcmgenet_update_stat_misc e reg_offset
              });
          modify (\<lambda>s. s\<lparr>mib := (mib s)(f := val)\<rparr>);
          update_mib_loop e rest (j + 4)
        })"

definition bcmgenet_update_mib_counters :: "linux_env \<Rightarrow> unit drv" where
  "bcmgenet_update_mib_counters e = update_mib_loop e bcmgenet_gstrings_stats 0"

text \<open>
  A 64-bit counter of the network device is read as an \<open>unsigned long\<close>, or as the 32-bit word at its
  address where that is not 64 bits wide.
\<close>

definition read_rtnl :: "linux_env \<Rightarrow> u64 \<Rightarrow> u64" where
  "read_rtnl e v = (if CONFIG_64BIT e then v
     else if CONFIG_CPU_BIG_ENDIAN e then drop_bit 32 v else take_bit 32 v)"

fun stat_value :: "linux_env \<Rightarrow> (string \<Rightarrow> u64) \<Rightarrow> bcmgenet_priv \<Rightarrow> string \<times> bcmgenet_stat \<Rightarrow> u64" where
  "stat_value e st s (n, Stat_SOFT64 f) = f s"
| "stat_value e st s (n, Stat_RTNL) = read_rtnl e (st n)"
| "stat_value e st s (n, Stat_MIB_RX f) = ucast (mib s f)"
| "stat_value e st s (n, Stat_MIB_TX f) = ucast (mib s f)"
| "stat_value e st s (n, Stat_RUNT f) = ucast (mib s f)"
| "stat_value e st s (n, Stat_MISC f _) = ucast (mib s f)"
| "stat_value e st s (n, Stat_SOFT f) = ucast (mib s f)"

definition bcmgenet_get_ethtool_stats :: "linux_env \<Rightarrow> u64 list drv" where
  "bcmgenet_get_ethtool_stats e = do {
     dev \<leftarrow> qry (netdev e);
     (if dev_running dev then bcmgenet_update_mib_counters e else ret ());
     st \<leftarrow> qry (dev_get_stats e);
     asks (\<lambda>s. map (stat_value e st s) bcmgenet_gstrings_stats)
   }"

text \<open>\<open>struct rtnl_link_stats64\<close>, as far as the driver adds to it.\<close>

record rtnl_link_stats64 =
  st_rx_packets :: u64
  st_tx_packets :: u64
  st_rx_bytes :: u64
  st_tx_bytes :: u64
  st_rx_errors :: u64
  st_tx_errors :: u64
  st_rx_dropped :: u64
  st_tx_dropped :: u64
  st_multicast :: u64
  st_rx_length_errors :: u64
  st_rx_over_errors :: u64
  st_rx_crc_errors :: u64
  st_rx_frame_errors :: u64
  st_rx_missed_errors :: u64

definition add_tx_stats :: "bcmgenet_tx_stats64 \<Rightarrow> rtnl_link_stats64 \<Rightarrow> rtnl_link_stats64" where
  "add_tx_stats t st = st\<lparr>st_tx_bytes := st_tx_bytes st + ts_bytes t, st_tx_packets := st_tx_packets st + ts_packets t,
     st_tx_errors := st_tx_errors st + ts_errors t, st_tx_dropped := st_tx_dropped st + ts_dropped t\<rparr>"

definition add_rx_stats :: "bcmgenet_rx_stats64 \<Rightarrow> rtnl_link_stats64 \<Rightarrow> rtnl_link_stats64" where
  "add_rx_stats r st =
     (let rx_errors = rs_errors r + rs_length_errors r + rs_crc_errors r + rs_frame_errors r + rs_fragmented_errors r in
      st\<lparr>st_rx_bytes := st_rx_bytes st + rs_bytes r, st_rx_packets := st_rx_packets st + rs_packets r,
         st_rx_errors := st_rx_errors st + rx_errors, st_rx_dropped := st_rx_dropped st + rs_dropped r,
         st_rx_missed_errors := st_rx_missed_errors st + rs_missed r,
         st_rx_length_errors := st_rx_length_errors st + rs_length_errors r,
         st_rx_over_errors := st_rx_over_errors st + rs_over_errors r,
         st_rx_crc_errors := st_rx_crc_errors st + rs_crc_errors r,
         st_rx_frame_errors := st_rx_frame_errors st + rs_frame_errors r,
         st_multicast := st_multicast st + rs_multicast r\<rparr>)"

definition bcmgenet_get_stats64 :: "rtnl_link_stats64 \<Rightarrow> rtnl_link_stats64 drv" where
  "bcmgenet_get_stats64 st = asks (\<lambda>s.
     fold (\<lambda>q. add_rx_stats (r_stats64 (rx_rings s q))) (upto_word (rx_queues (hw_params s) + 1))
       (fold (\<lambda>q. add_tx_stats (t_stats64 (tx_rings s q))) (upto_word (tx_queues (hw_params s) + 1)) st))"

end
