(* ===== verification/Linux_Dev.thy ===== *)
theory Linux_Dev
  imports Linux_Dma Linux_Hfb Linux_Power Linux_Ethtool
begin

text \<open>
  The device of the Linux GENET driver (\<open>bcmgenet.c\<close>): the MAC and its address filter, interrupts, and
  the operations of the network device and of the platform driver.
\<close>

section \<open>The MAC\<close>

definition umac_enable_set :: "linux_env \<Rightarrow> u32 \<Rightarrow> bool \<Rightarrow> unit drv" where
  "umac_enable_set e m enable = do {
     kdo (Spin_lock Reg_lock);
     reg \<leftarrow> bcmgenet_umac_readl e (UMAC_CMD (uh e));
     if reg AND CMD_SW_RESET (uh e) \<noteq> 0 then kdo (Spin_unlock Reg_lock)
     else do {
       bcmgenet_umac_writel e (if enable then reg OR m else reg AND NOT m) (UMAC_CMD (uh e));
       kdo (Spin_unlock Reg_lock);
       (if \<not> enable then kdo (Usleep_range 1000 2000) else ret ())
     }
   }"

definition reset_umac :: "linux_env \<Rightarrow> unit drv" where
  "reset_umac e = do {
     bcmgenet_rbuf_ctrl_set e 0;
     kdo (Udelay 10);
     kdo (Spin_lock Reg_lock);
     bcmgenet_umac_writel e (CMD_SW_RESET (uh e)) (UMAC_CMD (uh e));
     kdo (Udelay 2);
     kdo (Spin_unlock Reg_lock)
   }"

definition bcmgenet_intr_disable :: "linux_env \<Rightarrow> unit drv" where
  "bcmgenet_intr_disable e = do {
     bcmgenet_intrl2_0_writel e 0xFFFFFFFF INTRL2_CPU_MASK_SET;
     bcmgenet_intrl2_0_writel e 0xFFFFFFFF INTRL2_CPU_CLEAR;
     bcmgenet_intrl2_1_writel e 0xFFFFFFFF INTRL2_CPU_MASK_SET;
     bcmgenet_intrl2_1_writel e 0xFFFFFFFF INTRL2_CPU_CLEAR
   }"

definition link_int0_enable :: "linux_env \<Rightarrow> bcmgenet_priv \<Rightarrow> u32" where
  "link_int0_enable e s =
     (if internal_phy s then (if GENET_IS_V123 s then UMAC_IRQ_LINK_EVENT OR UMAC_IRQ_PHY_DET_R else UMAC_IRQ_LINK_EVENT)
      else if ext_phy s then UMAC_IRQ_LINK_EVENT
      else if phy_interface s = PHY_INTERFACE_MODE_MOCA (kh e) \<and> bcmgenet_has_moca_link_det s then UMAC_IRQ_LINK_EVENT
      else 0)"

definition bcmgenet_link_intr_enable :: "linux_env \<Rightarrow> unit drv" where
  "bcmgenet_link_intr_enable e = do {
     v \<leftarrow> asks (link_int0_enable e);
     bcmgenet_intrl2_0_writel e v INTRL2_CPU_MASK_CLEAR
   }"

definition init_umac :: "linux_env \<Rightarrow> unit drv" where
  "init_umac e = do {
     reset_umac e;
     bcmgenet_umac_writel e (MIB_RESET_RX OR MIB_RESET_TX OR MIB_RESET_RUNT) UMAC_MIB_CTRL;
     bcmgenet_umac_writel e 0 UMAC_MIB_CTRL;
     bcmgenet_umac_writel e ENET_MAX_MTU_SIZE (UMAC_MAX_FRAME_LEN (uh e));
     reg \<leftarrow> bcmgenet_tbuf_ctrl_get e;
     bcmgenet_tbuf_ctrl_set e (reg OR TBUF_64B_EN);
     rbuf_modify e (\<lambda>reg. reg OR (RBUF_ALIGN_2B OR RBUF_64B_EN)) RBUF_CTRL;
     crc \<leftarrow> asks crc_fwd_en;
     rbuf_modify e (\<lambda>reg. let reg = reg OR (RBUF_RXCHK_EN OR RBUF_L3_PARSE_DIS) in
       if crc then reg OR RBUF_SKIP_FCS else reg AND NOT RBUF_SKIP_FCS) RBUF_CHK_CTRL;
     v12 \<leftarrow> asks GENET_IS_V12;
     (if \<not> v12 then bcmgenet_rbuf_writel e 1 RBUF_TBUF_SIZE_CTRL else ret ());
     bcmgenet_intr_disable e;
     i \<leftarrow> asks phy_interface;
     (if i = PHY_INTERFACE_MODE_MOCA (kh e) then do {
        p \<leftarrow> asks hw_params;
        reg \<leftarrow> bcmgenet_bp_mc_get e;
        let reg = reg OR push_bit (bp_in_en_shift p) 1;
        multi \<leftarrow> qry (netif_is_multiqueue e);
        bcmgenet_bp_mc_set e (if multi then reg OR bp_in_mask p else reg AND NOT (bp_in_mask p))
      } else ret ());
     mdio \<leftarrow> asks bcmgenet_has_mdio_intr;
     bcmgenet_intrl2_0_writel e (if mdio then UMAC_IRQ_MDIO_EVENT else 0) INTRL2_CPU_MASK_CLEAR
   }"

definition bcmgenet_umac_reset :: "linux_env \<Rightarrow> unit drv" where
  "bcmgenet_umac_reset e = do {
     reg \<leftarrow> bcmgenet_rbuf_ctrl_get e;
     let reg = reg OR push_bit 1 1;
     bcmgenet_rbuf_ctrl_set e reg;
     kdo (Udelay 10);
     bcmgenet_rbuf_ctrl_set e (reg AND NOT (push_bit 1 1));
     kdo (Udelay 10)
   }"

definition bcmgenet_set_hw_addr :: "linux_env \<Rightarrow> u8 list \<Rightarrow> unit drv" where
  "bcmgenet_set_hw_addr e addr = do {
     bcmgenet_umac_writel e (get_unaligned_be32 addr 0) (UMAC_MAC0 (uh e));
     bcmgenet_umac_writel e (get_unaligned_be16 addr 4) (UMAC_MAC1 (uh e))
   }"

definition bcmgenet_get_hw_addr :: "linux_env \<Rightarrow> u8 list drv" where
  "bcmgenet_get_hw_addr e = do {
     m0 \<leftarrow> bcmgenet_umac_readl e (UMAC_MAC0 (uh e));
     m1 \<leftarrow> bcmgenet_umac_readl e (UMAC_MAC1 (uh e));
     ret (put_unaligned_be32 m0 @ put_unaligned_be16 m1)
   }"

section \<open>The address filter\<close>

definition MAX_MDF_FILTER :: nat where
  "MAX_MDF_FILTER = 17"

text \<open>One filter takes two registers; the result is the number of the next register.\<close>

definition bcmgenet_set_mdf_addr :: "linux_env \<Rightarrow> u8 list \<Rightarrow> u32 \<Rightarrow> u32 drv" where
  "bcmgenet_set_mdf_addr e addr i = do {
     bcmgenet_umac_writel e (push_bit 8 (ucast (addr ! 0)) OR ucast (addr ! 1)) (UMAC_MDF_ADDR + i * 4);
     bcmgenet_umac_writel e (push_bit 24 (ucast (addr ! 2)) OR push_bit 16 (ucast (addr ! 3)) OR
       push_bit 8 (ucast (addr ! 4)) OR ucast (addr ! 5)) (UMAC_MDF_ADDR + (i + 1) * 4);
     ret (i + 2)
   }"

primrec set_mdf_addrs :: "linux_env \<Rightarrow> u8 list list \<Rightarrow> u32 \<Rightarrow> u32 drv" where
  "set_mdf_addrs e [] i = ret i"
| "set_mdf_addrs e (a # as) i = do { i \<leftarrow> bcmgenet_set_mdf_addr e a i; set_mdf_addrs e as i }"

text \<open>\<open>GENMASK(h, l)\<close>\<close>

definition GENMASK :: "nat \<Rightarrow> nat \<Rightarrow> u32" where
  "GENMASK h l = push_bit l (NOT 0) AND drop_bit (31 - h) (NOT 0)"

definition bcmgenet_set_rx_mode :: "linux_env \<Rightarrow> unit drv" where
  "bcmgenet_set_rx_mode e = do {
     dev \<leftarrow> qry (netdev e);
     let nfilter = length (dev_uc dev) + length (dev_mc dev) + 2;
     kdo (Spin_lock Reg_lock);
     reg \<leftarrow> bcmgenet_umac_readl e (UMAC_CMD (uh e));
     if dev_flags dev AND (IFF_PROMISC (kh e) OR IFF_ALLMULTI (kh e)) \<noteq> 0 \<or> nfilter > MAX_MDF_FILTER then do {
       bcmgenet_umac_writel e (reg OR CMD_PROMISC (uh e)) (UMAC_CMD (uh e));
       kdo (Spin_unlock Reg_lock);
       bcmgenet_umac_writel e 0 UMAC_MDF_CTRL
     }
     else do {
       bcmgenet_umac_writel e (reg AND NOT (CMD_PROMISC (uh e))) (UMAC_CMD (uh e));
       kdo (Spin_unlock Reg_lock);
       set_mdf_addrs e ([dev_broadcast dev, dev_addr dev] @ dev_uc dev @ dev_mc dev) 0;
       bcmgenet_umac_writel e (GENMASK (MAX_MDF_FILTER - 1) (MAX_MDF_FILTER - nfilter)) UMAC_MDF_CTRL
     }
   }"

definition bcmgenet_set_mac_addr :: "linux_env \<Rightarrow> u8 list \<Rightarrow> u32 drv" where
  "bcmgenet_set_mac_addr e addr = do {
     dev \<leftarrow> qry (netdev e);
     if dev_running dev then ret (- EBUSY)
     else do { kdo (Dev_call (Eth_hw_addr_set addr)); ret 0 }
   }"

definition bcmgenet_change_carrier :: "linux_env \<Rightarrow> bool \<Rightarrow> u32 drv" where
  "bcmgenet_change_carrier e new_carrier = do {
     dev \<leftarrow> qry (netdev e);
     fixed \<leftarrow> qry (phy_is_pseudo_fixed_link e);
     i \<leftarrow> asks phy_interface;
     if \<not> dev_phydev dev \<or> \<not> fixed \<or> i \<noteq> PHY_INTERFACE_MODE_MOCA (kh e) then ret (- EOPNOTSUPP)
     else do { kdo (Queue_call (if new_carrier then Netif_carrier_on else Netif_carrier_off)); ret 0 }
   }"

section \<open>Interrupts\<close>

definition bcmgenet_irq_task :: "linux_env \<Rightarrow> unit drv" where
  "bcmgenet_irq_task e = do {
     kdo (Spin_lock Irq_lock);
     status \<leftarrow> asks irq0_stat;
     modify (\<lambda>s. s\<lparr>irq0_stat := 0\<rparr>);
     kdo (Spin_unlock Irq_lock);
     phy \<leftarrow> qry (phydev e);
     (if status AND UMAC_IRQ_PHY_DET_R \<noteq> 0 \<and> phy_autoneg phy \<noteq> AUTONEG_ENABLE (kh e) then do {
        kdo (Phy_call Phy_init_hw);
        kdo (Phy_call Genphy_config_aneg)
      } else ret ());
     (if status AND UMAC_IRQ_LINK_EVENT \<noteq> 0 then kdo (Phy_call Phy_mac_interrupt) else ret ())
   }"

text \<open>Scheduling the poll function of a ring, when it is not scheduled yet.\<close>

definition napi_kick :: "linux_env \<Rightarrow> napi_id \<Rightarrow> unit drv \<Rightarrow> unit drv" where
  "napi_kick e n int_disable = do {
     prep \<leftarrow> kcall e (Napi_call (Napi_schedule_prep n));
     if prep \<noteq> 0 then do { int_disable; kdo (Napi_call (Napi_schedule_irqoff n)) } else ret ()
   }"

definition bcmgenet_isr1 :: "linux_env \<Rightarrow> unit drv" where
  "bcmgenet_isr1 e = do {
     stat \<leftarrow> bcmgenet_intrl2_1_readl e INTRL2_CPU_STAT;
     masked \<leftarrow> bcmgenet_intrl2_1_readl e INTRL2_CPU_MASK_STATUS;
     let status = stat AND NOT masked;
     bcmgenet_intrl2_1_writel e status INTRL2_CPU_CLEAR;
     each_rx (\<lambda>i. if bit status (UMAC_IRQ1_RX_INTR_SHIFT + unat i) then do {
         upd_rx i (\<lambda>r. r\<lparr>r_dim := (r_dim r)\<lparr>event_ctr := event_ctr (r_dim r) + 1\<rparr>\<rparr>);
         napi_kick e (Rx_napi i) (bcmgenet_rx_ring_int_disable e i)
       } else ret ());
     each_tx (\<lambda>i. if bit status (unat i) then napi_kick e (Tx_napi i) (bcmgenet_tx_ring_int_disable e i) else ret ())
   }"

definition bcmgenet_isr0 :: "linux_env \<Rightarrow> unit drv" where
  "bcmgenet_isr0 e = do {
     stat \<leftarrow> bcmgenet_intrl2_0_readl e INTRL2_CPU_STAT;
     masked \<leftarrow> bcmgenet_intrl2_0_readl e INTRL2_CPU_MASK_STATUS;
     let status = stat AND NOT masked;
     bcmgenet_intrl2_0_writel e status INTRL2_CPU_CLEAR;
     mdio \<leftarrow> asks bcmgenet_has_mdio_intr;
     (if mdio \<and> status AND UMAC_IRQ_MDIO_EVENT \<noteq> 0 then kdo (Irq_call Wake_up) else ret ());
     let status = status AND (UMAC_IRQ_LINK_EVENT OR UMAC_IRQ_PHY_DET_R);
     (if status \<noteq> 0 then do {
        kdo (Spin_lock Irq_lock);
        modify (\<lambda>s. s\<lparr>irq0_stat := irq0_stat s OR status\<rparr>);
        kdo (Spin_unlock Irq_lock);
        kdo (Irq_call (Schedule_work Irq_work))
      } else ret ())
   }"

section \<open>Opening and closing the device\<close>

definition bcmgenet_netif_start :: "linux_env \<Rightarrow> unit drv" where
  "bcmgenet_netif_start e = do {
     kdo (Spin_lock Addr_lock);
     bcmgenet_set_rx_mode e;
     kdo (Spin_unlock Addr_lock);
     bcmgenet_enable_rx_napi e;
     umac_enable_set e (CMD_TX_EN (uh e) OR CMD_RX_EN (uh e)) True;
     bcmgenet_enable_tx_napi e;
     bcmgenet_link_intr_enable e;
     kdo (Phy_call Phy_start)
   }"

text \<open>The labels at the end of \<open>bcmgenet_open\<close>.\<close>

definition open_err_clk :: "linux_env \<Rightarrow> u32 \<Rightarrow> u32 drv" where
  "open_err_clk e err = do {
     int \<leftarrow> asks internal_phy;
     (if int then do { bcmgenet_power_down e GENET_POWER_PASSIVE; ret () } else ret ());
     kdo (Clk_disable_unprepare Clk);
     ret err
   }"

definition open_err_dma :: "linux_env \<Rightarrow> u32 \<Rightarrow> u32 drv" where
  "open_err_dma e err = do {
     bcmgenet_dma_teardown e;
     bcmgenet_fini_dma;
     open_err_clk e err
   }"

definition open_err_irq0 :: "linux_env \<Rightarrow> u32 \<Rightarrow> u32 drv" where
  "open_err_irq0 e err = do {
     i \<leftarrow> asks irq0;
     kdo (Irq_call (Free_irq i));
     open_err_dma e err
   }"

definition open_err_irq1 :: "linux_env \<Rightarrow> u32 \<Rightarrow> u32 drv" where
  "open_err_irq1 e err = do {
     i \<leftarrow> asks irq1;
     kdo (Irq_call (Free_irq i));
     open_err_irq0 e err
   }"

definition bcmgenet_open :: "linux_env \<Rightarrow> u32 drv" where
  "bcmgenet_open e = do {
     kcall e (Clk_prepare_enable Clk);
     int \<leftarrow> asks internal_phy;
     (if int then do { bcmgenet_power_up e GENET_POWER_PASSIVE; ret () } else ret ());
     bcmgenet_umac_reset e;
     init_umac e;
     bcmgenet_set_features e;
     dev \<leftarrow> qry (netdev e);
     bcmgenet_set_hw_addr e (dev_addr dev);
     bcmgenet_hfb_init e;
     err \<leftarrow> bcmgenet_init_dma e True;
     if err \<noteq> 0 then open_err_clk e err
     else do {
       i \<leftarrow> asks irq0;
       r \<leftarrow> kcall e (Irq_call (Request_irq i));
       if (ucast r :: u32) <s 0 then open_err_dma e (ucast r)
       else do {
         i \<leftarrow> asks irq1;
         r \<leftarrow> kcall e (Irq_call (Request_irq i));
         if (ucast r :: u32) <s 0 then open_err_irq0 e (ucast r)
         else do {
           err \<leftarrow> bcmgenet_mii_probe e;
           if err \<noteq> 0 then open_err_irq1 e err
           else do {
             p \<leftarrow> asks (\<lambda>s. (rx_pause s, tx_pause s));
             bcmgenet_phy_pause_set e (fst p) (snd p);
             bcmgenet_netif_start e;
             kdo (Queue_call Netif_tx_start_all_queues);
             ret 0
           }
         }
       }
     }
   }"

definition bcmgenet_netif_stop :: "linux_env \<Rightarrow> bool \<Rightarrow> unit drv" where
  "bcmgenet_netif_stop e stop_phy = do {
     kdo (Queue_call Netif_tx_disable);
     bcmgenet_hfb_reg_writel e 0 HFB_CTRL;
     umac_enable_set e (CMD_RX_EN (uh e)) False;
     (if stop_phy then kdo (Phy_call Phy_stop) else ret ());
     bcmgenet_dma_teardown e;
     umac_enable_set e (CMD_TX_EN (uh e)) False;
     bcmgenet_disable_tx_napi;
     bcmgenet_disable_rx_napi;
     bcmgenet_intr_disable e;
     kdo (Irq_call (Cancel_work_sync Irq_work));
     bcmgenet_tx_reclaim_all e;
     bcmgenet_fini_dma
   }"

definition bcmgenet_close :: "linux_env \<Rightarrow> u32 drv" where
  "bcmgenet_close e = do {
     bcmgenet_netif_stop e False;
     kdo (Phy_call Phy_disconnect);
     i \<leftarrow> asks irq0;
     kdo (Irq_call (Free_irq i));
     i \<leftarrow> asks irq1;
     kdo (Irq_call (Free_irq i));
     int \<leftarrow> asks internal_phy;
     r \<leftarrow> (if int then bcmgenet_power_down e GENET_POWER_PASSIVE else ret 0);
     kdo (Clk_disable_unprepare Clk);
     ret r
   }"

definition bcmgenet_dump_tx_queue :: "linux_env \<Rightarrow> u32 \<Rightarrow> unit drv" where
  "bcmgenet_dump_tx_queue e q = do {
     m \<leftarrow> asks msg_enable;
     if \<not> netif_msg_tx_err e m then ret ()
     else do {
       kdo (Spin_lock (Ring_lock q));
       idx \<leftarrow> asks (\<lambda>s. t_index (tx_rings s q));
       bcmgenet_intrl2_1_readl e INTRL2_CPU_MASK_STATUS;
       bcmgenet_tdma_ring_readl e idx TDMA_CONS_INDEX;
       bcmgenet_tdma_ring_readl e idx TDMA_PROD_INDEX;
       kdo (Spin_unlock (Ring_lock q))
     }
   }"

definition bcmgenet_timeout :: "linux_env \<Rightarrow> u32 \<Rightarrow> unit drv" where
  "bcmgenet_timeout e txqueue = do {
     each_tx (bcmgenet_dump_tx_queue e);
     bcmgenet_tx_reclaim_all e;
     n \<leftarrow> asks (\<lambda>s. tx_queues (hw_params s));
     bcmgenet_intrl2_1_writel e (fold (\<lambda>q v. v OR push_bit (unat q) 1) (upto_word (n + 1)) 0) INTRL2_CPU_MASK_CLEAR;
     kdo (Queue_call Netif_trans_update);
     upd_tx txqueue (\<lambda>r. r\<lparr>t_stats64 := (t_stats64 r)\<lparr>ts_errors := ts_errors (t_stats64 r) + 1\<rparr>\<rparr>);
     kdo (Queue_call Netif_tx_wake_all_queues)
   }"

end
