(* ===== verification/Linux_Driver.thy ===== *)
theory Linux_Driver
  imports Linux_Dev
begin

text \<open>
  The platform driver of the Linux GENET driver (\<open>bcmgenet.c\<close>, from \<open>struct bcmgenet_plat_data\<close> on):
  probe, remove, suspend and resume.
\<close>

section \<open>Platform data\<close>

definition GENET_V4_FLAGS :: u32 where
  "GENET_V4_FLAGS = GENET_HAS_40BITS OR GENET_HAS_EXT OR GENET_HAS_MDIO_INTR OR GENET_HAS_MOCA_LINK_DET"

definition v1_plat_data :: bcmgenet_plat_data where
  "v1_plat_data = \<lparr>pd_version = GENET_V1, pd_dma_max_burst_length = DMA_MAX_BURST_LENGTH, pd_flags = 0\<rparr>"

definition v2_plat_data :: bcmgenet_plat_data where
  "v2_plat_data = \<lparr>pd_version = GENET_V2, pd_dma_max_burst_length = DMA_MAX_BURST_LENGTH, pd_flags = GENET_HAS_EXT\<rparr>"

definition v3_plat_data :: bcmgenet_plat_data where
  "v3_plat_data = \<lparr>pd_version = GENET_V3, pd_dma_max_burst_length = DMA_MAX_BURST_LENGTH,
     pd_flags = GENET_HAS_EXT OR GENET_HAS_MDIO_INTR OR GENET_HAS_MOCA_LINK_DET\<rparr>"

definition v4_plat_data :: bcmgenet_plat_data where
  "v4_plat_data = \<lparr>pd_version = GENET_V4, pd_dma_max_burst_length = DMA_MAX_BURST_LENGTH, pd_flags = GENET_V4_FLAGS\<rparr>"

definition v5_plat_data :: bcmgenet_plat_data where
  "v5_plat_data = \<lparr>pd_version = GENET_V5, pd_dma_max_burst_length = DMA_MAX_BURST_LENGTH, pd_flags = GENET_V4_FLAGS\<rparr>"

definition bcm2711_plat_data :: bcmgenet_plat_data where
  "bcm2711_plat_data = \<lparr>pd_version = GENET_V5, pd_dma_max_burst_length = 0x08, pd_flags = GENET_V4_FLAGS\<rparr>"

definition bcm7712_plat_data :: bcmgenet_plat_data where
  "bcm7712_plat_data = \<lparr>pd_version = GENET_V5, pd_dma_max_burst_length = DMA_MAX_BURST_LENGTH,
     pd_flags = GENET_V4_FLAGS OR GENET_HAS_EPHY_16NM\<rparr>"

definition bcmgenet_match :: "(string \<times> bcmgenet_plat_data) list" where
  "bcmgenet_match = [(''brcm,genet-v1'', v1_plat_data), (''brcm,genet-v2'', v2_plat_data),
     (''brcm,genet-v3'', v3_plat_data), (''brcm,genet-v4'', v4_plat_data), (''brcm,genet-v5'', v5_plat_data),
     (''brcm,bcm2711-genet-v5'', bcm2711_plat_data), (''brcm,bcm7712-genet-v5'', bcm7712_plat_data)]"

section \<open>Probe and remove\<close>

text \<open>\<open>IS_ERR\<close> and \<open>PTR_ERR\<close>\<close>

definition IS_ERR :: "u64 \<Rightarrow> bool" where
  "IS_ERR p \<longleftrightarrow> p \<ge> - 4095"

definition PTR_ERR :: "u64 \<Rightarrow> u32" where
  "PTR_ERR p = ucast p"

text \<open>The labels at the end of \<open>bcmgenet_probe\<close>.\<close>

definition probe_err :: "u32 \<Rightarrow> u32 drv" where
  "probe_err err = do { kdo (Dev_call Free_netdev); ret err }"

definition probe_err_clk :: "u32 \<Rightarrow> u32 drv" where
  "probe_err_clk err = do { kdo (Clk_disable_unprepare Clk); probe_err err }"

text \<open>Interrupts and registers; 0, or the error.\<close>

definition probe_resources :: "linux_env \<Rightarrow> u32 drv" where
  "probe_resources e = do {
     r \<leftarrow> kcall e (Dev_call (Platform_get_irq 0));
     modify (\<lambda>s. s\<lparr>irq0 := ucast r\<rparr>);
     if (ucast r :: u32) <s 0 then ret (ucast r)
     else do {
       r \<leftarrow> kcall e (Dev_call (Platform_get_irq 1));
       modify (\<lambda>s. s\<lparr>irq1 := ucast r\<rparr>);
       if (ucast r :: u32) <s 0 then ret (ucast r)
       else do {
         r \<leftarrow> kcall e (Dev_call (Platform_get_irq_optional 2));
         modify (\<lambda>s. s\<lparr>wol_irq := ucast r\<rparr>);
         if (ucast r :: u32) = - EPROBE_DEFER then ret (ucast r)
         else do {
           b \<leftarrow> kcall e (Dev_call (Ioremap_resource 0));
           modify (\<lambda>s. s\<lparr>base := b\<rparr>);
           ret (if IS_ERR b then PTR_ERR b else 0)
         }
       }
     }
   }"

text \<open>Defaults of the device, the wake-up interrupt and the platform data.\<close>

definition probe_defaults :: "linux_env \<Rightarrow> unit drv" where
  "probe_defaults e = do {
     modify (\<lambda>s. s\<lparr>autoneg_pause := True, tx_pause := True, rx_pause := True\<rparr>);
     kdo (Dev_call (Set_drvdata True));
     modify (\<lambda>s. s\<lparr>msg_enable := GENET_MSG_DEFAULT_INIT (kh e)\<rparr>);
     kdo (Dev_call Setup_netdev);
     modify (\<lambda>s. s\<lparr>wol_irq_disabled := True\<rparr>);
     i \<leftarrow> asks wol_irq;
     (if 0 <s i then do {
        r \<leftarrow> kcall e (Irq_call (Devm_request_irq i));
        if (ucast r :: u32) = 0 then kdo (Irq_call Device_set_wakeup_capable) else ret ()
      } else ret ());
     kdo (Dev_call (Add_needed_headroom 64));
     (case device_get_match_data e of
        Some pd \<Rightarrow> modify (\<lambda>s. s\<lparr>version := pd_version pd, dma_max_burst_length := pd_dma_max_burst_length pd, flags := pd_flags pd\<rparr>)
      | None \<Rightarrow> ret ())
   }"

definition probe_dma_mask :: "linux_env \<Rightarrow> u32 drv" where
  "probe_dma_mask e = do {
     has40 \<leftarrow> asks bcmgenet_has_40bits;
     err \<leftarrow> (if has40 then do { r \<leftarrow> kcall e (Dma_call (Dma_set_mask_and_coherent 40)); ret (ucast r) } else ret (- EIO));
     if err \<noteq> 0 then do { r \<leftarrow> kcall e (Dma_call (Dma_set_mask_and_coherent 32)); ret (ucast r) } else ret err
   }"

definition probe_address :: "linux_env \<Rightarrow> unit drv" where
  "probe_address e = do {
     r \<leftarrow> kcall e (Dev_call Device_get_ethdev_address);
     (if (ucast r :: u32) \<noteq> 0 \<and> has_acpi_companion e then do {
        addr \<leftarrow> bcmgenet_get_hw_addr e;
        kdo (Dev_call (Eth_hw_addr_set addr))
      } else ret ());
     dev \<leftarrow> qry (netdev e);
     (if \<not> is_valid_ether_addr e (dev_addr dev) then kdo (Dev_call Eth_hw_addr_random) else ret ())
   }"

text \<open>From the MII bus to the registration of the network device.\<close>

definition probe_register :: "linux_env \<Rightarrow> u32 drv" where
  "probe_register e = do {
     p \<leftarrow> asks hw_params;
     kdo (Queue_call (Netif_set_real_num_tx_queues (tx_queues p + 1)));
     kdo (Queue_call (Netif_set_real_num_rx_queues (rx_queues p + 1)));
     each_rx (\<lambda>i. upd_rx i (\<lambda>r. r\<lparr>rx_max_coalesced_frames := 1\<rparr>));
     kdo (Queue_call Netif_carrier_off);
     kdo (Clk_disable_unprepare Clk);
     r \<leftarrow> kcall e (Dev_call Register_netdev);
     if (ucast r :: u32) \<noteq> 0 then do { bcmgenet_mii_exit e; probe_err (ucast r) } else ret 0
   }"

definition bcmgenet_probe :: "linux_env \<Rightarrow> u32 drv" where
  "bcmgenet_probe e = do {
     dev \<leftarrow> kcall e (Dev_call (Alloc_etherdev_mqs (GENET_MAX_MQ_CNT + 1) (GENET_MAX_MQ_CNT + 1)));
     if dev = 0 then ret (- ENOMEM)
     else do {
       err \<leftarrow> probe_resources e;
       if err \<noteq> 0 then probe_err err
       else do {
         probe_defaults e;
         clk \<leftarrow> kcall e (Dev_call (Clk_get_optional Clk));
         if IS_ERR clk then probe_err (PTR_ERR clk)
         else do {
           r \<leftarrow> kcall e (Clk_prepare_enable Clk);
           if (ucast r :: u32) \<noteq> 0 then probe_err (ucast r)
           else do {
             bcmgenet_set_hw_params e;
             err \<leftarrow> probe_dma_mask e;
             if err \<noteq> 0 then probe_err_clk err
             else do {
               modify (\<lambda>s. s\<lparr>rx_buf_len := RX_BUF_LENGTH\<rparr>);
               clk \<leftarrow> kcall e (Dev_call (Clk_get_optional Clk_wol));
               if IS_ERR clk then probe_err_clk (PTR_ERR clk)
               else do {
                 clk \<leftarrow> kcall e (Dev_call (Clk_get_optional Clk_eee));
                 if IS_ERR clk then probe_err_clk (PTR_ERR clk)
                 else do {
                   (if device_get_phy_mode e = PHY_INTERFACE_MODE_INTERNAL (kh e)
                    then do { bcmgenet_power_up e GENET_POWER_PASSIVE; ret () } else ret ());
                   probe_address e;
                   reset_umac e;
                   err \<leftarrow> bcmgenet_mii_init e;
                   if err \<noteq> 0 then probe_err_clk err else probe_register e
                 }
               }
             }
           }
         }
       }
     }
   }"

definition bcmgenet_remove :: "linux_env \<Rightarrow> unit drv" where
  "bcmgenet_remove e = do {
     kdo (Dev_call (Set_drvdata False));
     kdo (Dev_call Unregister_netdev);
     bcmgenet_mii_exit e;
     kdo (Dev_call Free_netdev)
   }"

definition bcmgenet_shutdown :: "linux_env \<Rightarrow> unit drv" where
  "bcmgenet_shutdown e = bcmgenet_remove e"

section \<open>Suspend and resume\<close>

definition wakes :: "linux_env \<Rightarrow> bool drv" where
  "wakes e = do { may \<leftarrow> qry (device_may_wakeup e); opts \<leftarrow> asks wolopts; ret (may \<and> opts \<noteq> 0) }"

definition bcmgenet_resume_noirq :: "linux_env \<Rightarrow> u32 drv" where
  "bcmgenet_resume_noirq e = do {
     dev \<leftarrow> qry (netdev e);
     if \<not> dev_running dev then ret 0
     else do {
       r \<leftarrow> kcall e (Clk_prepare_enable Clk);
       if (ucast r :: u32) \<noteq> 0 then ret (ucast r)
       else do {
         wol \<leftarrow> wakes e;
         awake \<leftarrow> (if wol then do {
           bcmgenet_intrl2_0_readl e INTRL2_CPU_STAT;
           reg \<leftarrow> bcmgenet_intrl2_0_readl e INTRL2_CPU_STAT;
           (if reg AND UMAC_IRQ_WAKE_EVENT \<noteq> 0 then kdo (Irq_call Pm_wakeup_event) else ret ());
           r \<leftarrow> bcmgenet_power_up e GENET_POWER_WOL_MAGIC;
           ret (r = 0)
         } else ret False);
         if awake then ret 0
         else do {
           int \<leftarrow> asks internal_phy;
           (if int then do { bcmgenet_power_up e GENET_POWER_PASSIVE; ret () } else ret ());
           bcmgenet_umac_reset e;
           ret 0
         }
       }
     }
   }"

definition resume_flows :: "linux_env \<Rightarrow> unit drv" where
  "resume_flows e = do {
     rules \<leftarrow> asks rxnfc_list;
     for_list (\<lambda>i. do {
       r \<leftarrow> asks (\<lambda>s. rxnfc_rules s i);
       if rule_state r = BCMGENET_RXNFC_STATE_ENABLED then bcmgenet_hfb_enable_filter e (location (fs r) + 1) else ret ()
     }) rules;
     bcmgenet_hfb_enable_filter e 0;
     bcmgenet_set_rx_mode e;
     bcmgenet_enable_rx_napi e;
     bcmgenet_tdma_disable e;
     bcmgenet_init_tx_queues e;
     reg \<leftarrow> bcmgenet_tdma_readl e DMA_CTRL;
     bcmgenet_tdma_writel e (reg OR DMA_EN) DMA_CTRL;
     bcmgenet_enable_tx_napi e;
     bcmgenet_link_intr_enable e;
     kdo (Phy_call Phy_start_machine);
     kdo (Queue_call Netif_device_attach);
     i \<leftarrow> asks irq1;
     kdo (Irq_call (Enable_irq i))
   }"

definition resume_restart :: "linux_env \<Rightarrow> u32 drv" where
  "resume_restart e = do {
     init_umac e;
     kdo (Phy_call Phy_init_hw);
     kdo (Phy_call Genphy_config_aneg);
     bcmgenet_mii_config e;
     bcmgenet_set_features e;
     dev \<leftarrow> qry (netdev e);
     bcmgenet_set_hw_addr e (dev_addr dev);
     bcmgenet_hfb_clear e;
     rules \<leftarrow> asks rxnfc_list;
     for_list (\<lambda>i. do {
       r \<leftarrow> asks (\<lambda>s. rxnfc_rules s i);
       if rule_state r \<noteq> BCMGENET_RXNFC_STATE_UNUSED then bcmgenet_hfb_create_rxnfc_filter e i else ret ()
     }) rules;
     err \<leftarrow> bcmgenet_init_dma e False;
     if err \<noteq> 0 then open_err_clk e err
     else do {
       may \<leftarrow> qry (device_may_wakeup e);
       (if \<not> may then kdo (Phy_call Phy_resume) else ret ());
       bcmgenet_netif_start e;
       kdo (Queue_call Netif_device_attach);
       ret 0
     }
   }"

definition bcmgenet_resume :: "linux_env \<Rightarrow> u32 drv" where
  "bcmgenet_resume e = do {
     dev \<leftarrow> qry (netdev e);
     if \<not> dev_running dev then ret 0
     else do {
       wol \<leftarrow> wakes e;
       if wol then do {
         reg \<leftarrow> bcmgenet_umac_readl e (UMAC_CMD (uh e));
         if reg AND CMD_RX_EN (uh e) \<noteq> 0 then do { resume_flows e; ret 0 }
         else do {
           umac_enable_set e (CMD_RX_EN (uh e) OR CMD_TX_EN (uh e)) False;
           bcmgenet_rdma_disable e;
           bcmgenet_intr_disable e;
           bcmgenet_fini_dma;
           i \<leftarrow> asks irq1;
           kdo (Irq_call (Enable_irq i));
           resume_restart e
         }
       }
       else resume_restart e
     }
   }"

text \<open>The filters that stay enabled while asleep: one bit per rule that wakes.\<close>

definition wake_filters :: "linux_env \<Rightarrow> bcmgenet_priv \<Rightarrow> u32" where
  "wake_filters e s =
     (if wolopts s AND WAKE_FILTER (kh e) = 0 then 0
      else fold (\<lambda>i v. let r = rxnfc_rules s i in
        if ring_cookie (fs r) = RX_CLS_FLOW_WAKE (kh e) \<and> rule_state r = BCMGENET_RXNFC_STATE_ENABLED
        then v OR push_bit (unat (location (fs r))) 1 else v) (rxnfc_list s) 0)"

definition suspend_flows :: "linux_env \<Rightarrow> unit drv" where
  "suspend_flows e = do {
     kdo (Queue_call Netif_tx_disable);
     hfb_enable \<leftarrow> asks (wake_filters e);
     reg \<leftarrow> bcmgenet_hfb_reg_readl e HFB_CTRL;
     v12 \<leftarrow> asks GENET_IS_V12;
     (if \<not> v12 then bcmgenet_hfb_reg_writel e (push_bit 1 hfb_enable) (HFB_FLT_ENABLE_V3PLUS + 4) else ret ());
     let reg = (if v12 then (reg AND NOT RBUF_HFB_FILTER_EN_MASK) OR push_bit (RBUF_HFB_FILTER_EN_SHIFT + 1) hfb_enable else reg);
     bcmgenet_hfb_reg_writel e (if hfb_enable = 0 then reg AND NOT RBUF_HFB_EN else reg) HFB_CTRL;
     bcmgenet_intrl2_0_writel e 0xFFFFFFFF INTRL2_CPU_MASK_SET;
     bcmgenet_intrl2_0_writel e 0xFFFFFFFF INTRL2_CPU_CLEAR;
     bcmgenet_tdma_disable e;
     bcmgenet_disable_tx_napi;
     bcmgenet_disable_rx_napi;
     i \<leftarrow> asks irq1;
     kdo (Irq_call (Disable_irq i));
     bcmgenet_tx_reclaim_all e;
     bcmgenet_fini_tx_napi
   }"

definition bcmgenet_suspend :: "linux_env \<Rightarrow> u32 drv" where
  "bcmgenet_suspend e = do {
     dev \<leftarrow> qry (netdev e);
     if \<not> dev_running dev then ret 0
     else do {
       kdo (Queue_call Netif_device_detach);
       wol \<leftarrow> wakes e;
       (if wol then suspend_flows e else bcmgenet_netif_stop e True);
       ret 0
     }
   }"

definition bcmgenet_suspend_noirq :: "linux_env \<Rightarrow> u32 drv" where
  "bcmgenet_suspend_noirq e = do {
     dev \<leftarrow> qry (netdev e);
     if \<not> dev_running dev then ret 0
     else do {
       wol \<leftarrow> wakes e;
       int \<leftarrow> asks internal_phy;
       r \<leftarrow> (if wol then bcmgenet_power_down e GENET_POWER_WOL_MAGIC
             else if int then bcmgenet_power_down e GENET_POWER_PASSIVE else ret 0);
       if r \<noteq> 0 then ret r
       else do { kdo (Clk_disable_unprepare Clk); ret 0 }
     }
   }"

end
