(* ===== verification/Linux_Lib.thy ===== *)
theory Linux_Lib
  imports Linux_Io
begin

text \<open>
  Lemmas on loops, index ranges and words shared by the proofs about the Linux driver, and the computations
  that only talk to the hardware and the kernel.
\<close>

lemma for_list_trace:
  assumes "\<And>i s. \<exists>evs. run_state (m i) s = ((), s\<lparr>trace := evs @ trace s\<rparr>)"
  shows "\<exists>evs. run_state (for_list m xs) s = ((), s\<lparr>trace := evs @ trace s\<rparr>)"
proof (induction xs arbitrary: s)
  case Nil
  then show ?case by (intro exI [of _ "[]"]) simp
next
  case (Cons x xs)
  obtain evs where r1: "run_state (m x) s = ((), s\<lparr>trace := evs @ trace s\<rparr>)" using assms by blast
  obtain evs' where "run_state (for_list m xs) (s\<lparr>trace := evs @ trace s\<rparr>) = ((), s\<lparr>trace := evs' @ evs @ trace s\<rparr>)"
    using Cons.IH [of "s\<lparr>trace := evs @ trace s\<rparr>"] by auto
  then show ?case by (intro exI [of _ "evs' @ evs"]) (simp add: r1)
qed

lemma for_list_rx:
  assumes "\<And>i s. \<exists>evs. run_state (m i) s = ((), s\<lparr>trace := evs @ trace s, rx_rings := (rx_rings s)(i := g (rx_rings s i))\<rparr>)"
    and "distinct xs"
  shows "\<exists>evs. run_state (for_list m xs) s =
    ((), s\<lparr>trace := evs @ trace s, rx_rings := (\<lambda>i. if i \<in> set xs then g (rx_rings s i) else rx_rings s i)\<rparr>)"
  using assms(2)
proof (induction xs arbitrary: s)
  case Nil
  then show ?case by (intro exI [of _ "[]"]) simp
next
  case (Cons x xs)
  obtain evs where r1: "run_state (m x) s = ((), s\<lparr>trace := evs @ trace s, rx_rings := (rx_rings s)(x := g (rx_rings s x))\<rparr>)" (is "_ = ((), ?s1)")
    using assms(1) by blast
  obtain evs' where r2: "run_state (for_list m xs) ?s1 =
    ((), ?s1\<lparr>trace := evs' @ trace ?s1, rx_rings := (\<lambda>i. if i \<in> set xs then g (rx_rings ?s1 i) else rx_rings ?s1 i)\<rparr>)"
    using Cons.IH [of ?s1] Cons.prems by auto
  have f: "(\<lambda>i. if i \<in> set xs then g (rx_rings ?s1 i) else rx_rings ?s1 i) =
      (\<lambda>i. if i \<in> set (x # xs) then g (rx_rings s i) else rx_rings s i)"
    using Cons.prems by auto
  show ?case
    by (intro exI [of _ "evs' @ evs"]) (use r2 in \<open>simp add: r1 f\<close>)
qed

lemma distinct_upto_word [simp]: "distinct (upto_word n)"
proof -
  have "inj_on (of_nat :: nat \<Rightarrow> u32) {0..<unat n}"
  proof (rule inj_onI)
    fix i j assume "i \<in> {0..<unat n}" "j \<in> {0..<unat n}" "(of_nat i :: u32) = of_nat j"
    moreover have "unat n < 2 ^ 32" using unsigned_less [of n] by simp
    ultimately show "i = j" by (simp add: word_of_nat_eq_iff take_bit_nat_eq_self)
  qed
  then show ?thesis by (simp add: upto_word_def distinct_map)
qed

lemma set_upto_word: "i \<in> set (upto_word n) \<longleftrightarrow> i < n"
proof -
  have "i \<in> set (upto_word n) \<longleftrightarrow> (\<exists>k<unat n. i = of_nat k)" by (auto simp: upto_word_def)
  also have "\<dots> \<longleftrightarrow> i < n"
  proof
    assume "\<exists>k<unat n. i = of_nat k"
    then obtain k where k: "k < unat n" "i = of_nat k" by blast
    moreover have "unat n < 2 ^ 32" using unsigned_less [of n] by simp
    ultimately show "i < n" by (simp add: word_less_nat_alt unsigned_of_nat take_bit_nat_eq_self)
  next
    assume "i < n"
    then show "\<exists>k<unat n. i = of_nat k" by (intro exI [of _ "unat i"]) (simp add: word_less_nat_alt)
  qed
  finally show ?thesis .
qed

lemma word_take_bit_small: "unat w < 2 ^ n \<Longrightarrow> take_bit n w = w" for w :: u32
  by (simp add: word_unat_eq_iff unsigned_take_bit_eq take_bit_nat_eq_self)

lemma ring_addr_emit [simp]: "ring_addr blk i r (s\<lparr>trace := tr\<rparr>) = base s + ucast (blk (s\<lparr>trace := tr\<rparr>)) + ucast (DMA_RING_SIZE * i) + ucast (ring_regs s ! r)"
  by (simp add: ring_addr_def)

lemma dma_off_emit [simp]:
  "GENET_TDMA_REG_OFF (s\<lparr>trace := tr\<rparr>) = GENET_TDMA_REG_OFF s" "GENET_RDMA_REG_OFF (s\<lparr>trace := tr\<rparr>) = GENET_RDMA_REG_OFF s"
  by (simp_all add: GENET_TDMA_REG_OFF_def GENET_RDMA_REG_OFF_def DMA_DESC_SIZE_def)

section \<open>Producer and consumer index\<close>

lemma index_mask: "w AND DMA_C_INDEX_MASK = take_bit 16 w" "w AND DMA_P_INDEX_MASK = take_bit 16 w" for w :: u32
proof -
  have "mask 16 = (0xFFFF :: u32)" by (simp add: mask_eq_exp_minus_1)
  then show "w AND DMA_C_INDEX_MASK = take_bit 16 w" "w AND DMA_P_INDEX_MASK = take_bit 16 w"
    by (simp_all add: take_bit_eq_mask lx_consts)
qed

lemma take_bit_add_left: "take_bit 16 (take_bit 16 a + b) = take_bit 16 (a + b)" for a b :: u32
  by transfer (simp add: take_bit_take_bit min_def take_bit_eq_mod mod_simps)

lemma take_bit_diff_left: "take_bit 16 (take_bit 16 a - b) = take_bit 16 (a - b)" for a b :: u32
  by transfer (simp add: take_bit_take_bit min_def take_bit_eq_mod mod_simps)

lemma index_distance:
  fixes c :: u32
  assumes "n < 2 ^ 16"
  shows "take_bit 16 (take_bit 16 (c + of_nat n) - c) = of_nat n"
proof -
  have "take_bit 16 (take_bit 16 (c + of_nat n) - c) = take_bit 16 (c + of_nat n - c)"
    by (rule take_bit_diff_left)
  also have "\<dots> = of_nat n"
    using assms by (simp add: take_bit_of_nat take_bit_nat_eq_self)
  finally show ?thesis .
qed

lemma index_advance:
  fixes c c' :: u32
  assumes "take_bit 16 (c' - c) = of_nat m" "m \<le> n"
  shows "take_bit 16 (c' + of_nat (n - m)) = take_bit 16 (c + of_nat n)"
proof -
  have "c' + of_nat (n - m) = (c' - c) + (c + of_nat (n - m))" by simp
  then have "take_bit 16 (c' + of_nat (n - m)) = take_bit 16 (take_bit 16 (c' - c) + (c + of_nat (n - m)))"
    by (simp only: take_bit_add_left)
  also have "\<dots> = take_bit 16 (of_nat m + (c + of_nat (n - m)))"
    using assms(1) by simp
  also have "of_nat m + (c + of_nat (n - m)) = c + of_nat n"
    using assms(2) by (simp add: of_nat_diff)
  finally show ?thesis .
qed

lemma index_post:
  fixes c :: u32
  shows "take_bit 16 (take_bit 16 (c + of_nat n) + of_nat m) = take_bit 16 (c + of_nat (n + m))"
  by (simp add: take_bit_add_left add.assoc)

text \<open>The state after a computation.\<close>

abbreviation after :: "'a drv \<Rightarrow> bcmgenet_priv \<Rightarrow> bcmgenet_priv" where
  "after m s \<equiv> snd (run_state m s)"

section \<open>Computations that only talk to the hardware and the kernel\<close>

definition trace_only :: "'a drv \<Rightarrow> bool" where
  "trace_only m \<longleftrightarrow> (\<forall>s. \<exists>x evs. run_state m s = (x, s\<lparr>trace := evs @ trace s\<rparr>))"

named_theorems trace_only_intros \<open>computations that leave the driver's data alone\<close>

lemma trace_only_unit:
  assumes "trace_only (m :: unit drv)"
  obtains evs where "run_state m s = ((), s\<lparr>trace := evs @ trace s\<rparr>)"
  using assms by (auto simp: trace_only_def)

lemma trace_only_basic [trace_only_intros]:
  "trace_only (ret x)" "trace_only (asks f)" "trace_only (kdo c)" "trace_only (kcall e c)"
  "trace_only (bcmgenet_readl e a)" "trace_only (bcmgenet_writel e v a)"
  "trace_only (genet_io_readl e off o1)" "trace_only (genet_io_writel e off v o1)"
  by (auto simp: trace_only_def intro: exI [of _ "[]"] exI [of _ "[_]"])

lemma trace_only_bind [trace_only_intros]:
  assumes "trace_only m" "\<And>x. trace_only (f x)"
  shows "trace_only (State_Monad.bind m f)"
  unfolding trace_only_def
proof
  fix s
  obtain x evs where 1: "run_state m s = (x, s\<lparr>trace := evs @ trace s\<rparr>)" using assms(1) unfolding trace_only_def by blast
  obtain y evs' where 2: "run_state (f x) (s\<lparr>trace := evs @ trace s\<rparr>) =
      (y, (s\<lparr>trace := evs @ trace s\<rparr>)\<lparr>trace := evs' @ trace (s\<lparr>trace := evs @ trace s\<rparr>)\<rparr>)"
    using assms(2) [of x] unfolding trace_only_def by blast
  show "\<exists>x evs. run_state (State_Monad.bind m f) s = (x, s\<lparr>trace := evs @ trace s\<rparr>)"
    by (rule exI [of _ y], rule exI [of _ "evs' @ evs"]) (simp add: 1 2)
qed

lemma trace_only_if [trace_only_intros]:
  "trace_only m \<Longrightarrow> trace_only m' \<Longrightarrow> trace_only (if c then m else m')"
  by simp

lemma trace_only_let [trace_only_intros]: "(\<And>x. trace_only (f x)) \<Longrightarrow> trace_only (Let a f)"
  by simp

lemma trace_only_prod [trace_only_intros]: "(\<And>x y. trace_only (f x y)) \<Longrightarrow> trace_only (case p of (x, y) \<Rightarrow> f x y)"
  by (cases p) simp

lemma trace_only_for_list [trace_only_intros]: "(\<And>i. trace_only (m i)) \<Longrightarrow> trace_only (for_list m xs)"
  by (induction xs) (auto intro: trace_only_intros)

lemma trace_only_io [trace_only_intros]:
  "trace_only (bcmgenet_hfb_readl e off)" "trace_only (bcmgenet_hfb_writel e v off)"
  "trace_only (bcmgenet_hfb_reg_readl e off)" "trace_only (bcmgenet_hfb_reg_writel e v off)"
  "trace_only (bcmgenet_rdma_readl e r)" "trace_only (bcmgenet_rdma_writel e v r)"
  "trace_only (bcmgenet_rdma_ring_readl e i r)" "trace_only (bcmgenet_rdma_ring_writel e i v r)"
  "trace_only (bcmgenet_tdma_readl e r)" "trace_only (bcmgenet_tdma_writel e v r)"
  "trace_only (bcmgenet_tdma_ring_readl e i r)" "trace_only (bcmgenet_tdma_ring_writel e i v r)"
  "trace_only (bcmgenet_umac_readl e off)" "trace_only (bcmgenet_umac_writel e v off)"
  "trace_only (bcmgenet_ext_readl e off)" "trace_only (bcmgenet_ext_writel e v off)"
  "trace_only (bcmgenet_sys_readl e off)" "trace_only (bcmgenet_sys_writel e v off)"
  "trace_only (bcmgenet_rbuf_readl e off)" "trace_only (bcmgenet_rbuf_writel e v off)"
  "trace_only (bcmgenet_intrl2_0_readl e off)" "trace_only (bcmgenet_intrl2_0_writel e v off)"
  "trace_only (bcmgenet_intrl2_1_readl e off)" "trace_only (bcmgenet_intrl2_1_writel e v off)"
  by (simp_all add: lx_io) (intro trace_only_intros)+

text \<open>The same, followed by one change of the driver's data.\<close>

definition trace_upd :: "(bcmgenet_priv \<Rightarrow> bcmgenet_priv) \<Rightarrow> 'a drv \<Rightarrow> bool" where
  "trace_upd u m \<longleftrightarrow> (\<forall>s. \<exists>x evs. run_state m s = (x, u (s\<lparr>trace := evs @ trace s\<rparr>)))"

lemma trace_upd_bind:
  assumes "trace_only m" "\<And>x. trace_upd u (f x)"
  shows "trace_upd u (State_Monad.bind m f)"
  unfolding trace_upd_def
proof
  fix s
  obtain x evs where 1: "run_state m s = (x, s\<lparr>trace := evs @ trace s\<rparr>)" using assms(1) unfolding trace_only_def by blast
  obtain y evs' where 2: "run_state (f x) (s\<lparr>trace := evs @ trace s\<rparr>) =
      (y, u ((s\<lparr>trace := evs @ trace s\<rparr>)\<lparr>trace := evs' @ trace (s\<lparr>trace := evs @ trace s\<rparr>)\<rparr>))"
    using assms(2) [of x] unfolding trace_upd_def by blast
  show "\<exists>x evs. run_state (State_Monad.bind m f) s = (x, u (s\<lparr>trace := evs @ trace s\<rparr>))"
    by (rule exI [of _ y], rule exI [of _ "evs' @ evs"]) (simp add: 1 2)
qed

lemma trace_upd_modify: "trace_upd u (modify u)"
  unfolding trace_upd_def by (auto intro: exI [of _ "[]"])

lemma trace_upd_let: "(\<And>x. trace_upd u (f x)) \<Longrightarrow> trace_upd u (Let a f)"
  by simp

lemmas trace_upd_intros = trace_upd_modify trace_upd_let trace_upd_bind

end
