(* ===== verification/Linux_Tx_Ring.thy ===== *)
theory Linux_Tx_Ring
  imports Linux_Tx Linux_Lib
begin

text \<open>
  The transmit ring of the Linux driver as a queue of descriptors: positions of the ring, the relation
  between the ring and the queue of descriptors in flight, and one lemma per operation.
\<close>

section \<open>Positions of a ring\<close>

text \<open>
  A ring occupies the control blocks from \<open>t_cb_ptr\<close> to \<open>t_end_ptr\<close>; \<open>ring_pos r j\<close> is where the \<open>j\<close>-th
  descriptor ever posted goes.
\<close>

definition ring_pos :: "bcmgenet_tx_ring \<Rightarrow> nat \<Rightarrow> u32" where
  "ring_pos r j = t_cb_ptr r + of_nat (j mod unat (t_size r))"

definition tx_geom :: "bcmgenet_tx_ring \<Rightarrow> bool" where
  "tx_geom r \<longleftrightarrow> t_cbs r = t_cb_ptr r \<and> 0 < unat (t_size r) \<and>
     unat (t_cb_ptr r) + unat (t_size r) \<le> 256 \<and> unat (t_end_ptr r) = unat (t_cb_ptr r) + unat (t_size r) - 1"

lemma unat_ring_pos:
  assumes "tx_geom r"
  shows "unat (ring_pos r j) = unat (t_cb_ptr r) + j mod unat (t_size r)"
proof -
  have "j mod unat (t_size r) < unat (t_size r)" and "unat (t_cb_ptr r) + unat (t_size r) \<le> 256"
    using assms by (auto simp: tx_geom_def)
  then have lt: "unat (t_cb_ptr r) + j mod unat (t_size r) < 2 ^ 32" by simp
  then have "unat (of_nat (j mod unat (t_size r)) :: u32) = j mod unat (t_size r)"
    by (simp add: unsigned_of_nat take_bit_nat_eq_self)
  with lt show ?thesis
    unfolding ring_pos_def by (subst unat_add_lem [THEN iffD1]) simp_all
qed

lemma ring_pos_lt: "tx_geom r \<Longrightarrow> unat (ring_pos r j) < unat (t_cb_ptr r) + unat (t_size r)"
  by (simp add: unat_ring_pos) (simp add: tx_geom_def)

lemma ring_pos_eq_iff:
  assumes "tx_geom r"
  shows "ring_pos r i = ring_pos r j \<longleftrightarrow> i mod unat (t_size r) = j mod unat (t_size r)"
  by (metis add_left_imp_eq assms ring_pos_def unat_ring_pos)

lemma ring_pos_inj:
  assumes "tx_geom r" "i < unat (t_size r)" "j < unat (t_size r)" "ring_pos r (h + i) = ring_pos r (h + j)"
  shows "i = j"
proof (rule ccontr)
  have main: False if "i' < j'" "j' < unat (t_size r)" "(h + i') mod unat (t_size r) = (h + j') mod unat (t_size r)" for i' j'
  proof -
    from that have "unat (t_size r) dvd (h + j') - (h + i')"
      by (metis mod_eq_dvd_iff_nat add_le_cancel_left less_imp_le)
    with that show False by (simp add: nat_dvd_not_less)
  qed
  assume "i \<noteq> j"
  then show False
    using assms main [of i j] main [of j i] by (metis nat_neq_iff ring_pos_eq_iff)
qed

lemma ring_pos_end:
  assumes "tx_geom r"
  shows "ring_pos r j = t_end_ptr r \<longleftrightarrow> Suc j mod unat (t_size r) = 0"
proof -
  have pos: "0 < unat (t_size r)" using assms by (simp add: tx_geom_def)
  have "ring_pos r j = t_end_ptr r \<longleftrightarrow> j mod unat (t_size r) = unat (t_size r) - 1"
    using assms pos by (auto simp: unat_ring_pos word_unat_eq_iff tx_geom_def)
  also have "\<dots> \<longleftrightarrow> Suc j mod unat (t_size r) = 0"
    using pos by (auto simp: mod_Suc)
  finally show ?thesis .
qed

lemma ring_pos_less_end:
  assumes "tx_geom r"
  shows "ring_pos r j < t_end_ptr r \<longleftrightarrow> Suc j mod unat (t_size r) \<noteq> 0"
proof -
  have "ring_pos r j \<le> t_end_ptr r"
    using assms ring_pos_lt [OF assms, of j] by (auto simp: word_le_nat_alt tx_geom_def)
  then show ?thesis
    using ring_pos_end [OF assms, of j] by auto
qed

lemma ring_pos_Suc:
  assumes "tx_geom r"
  shows "(if ring_pos r j = t_end_ptr r then t_cb_ptr r else ring_pos r j + 1) = ring_pos r (Suc j)"
proof (cases "Suc j mod unat (t_size r) = 0")
  case True
  then show ?thesis using ring_pos_end [OF assms, of j] by (simp add: ring_pos_def)
next
  case False
  have "Suc j mod unat (t_size r) = Suc (j mod unat (t_size r))"
    using False by (simp add: mod_Suc split: if_splits)
  then show ?thesis
    using False ring_pos_end [OF assms, of j] by (simp add: ring_pos_def)
qed

lemma ring_pos_pred:
  assumes "tx_geom r"
  shows "(if ring_pos r (Suc j) = t_cb_ptr r then t_end_ptr r else ring_pos r (Suc j) - 1) = ring_pos r j"
proof (cases "Suc j mod unat (t_size r) = 0")
  case True
  then show ?thesis
    using ring_pos_end [OF assms, of j] by (simp add: ring_pos_def)
next
  case False
  have S: "Suc j mod unat (t_size r) = Suc (j mod unat (t_size r))"
    using False by (simp add: mod_Suc split: if_splits)
  have "ring_pos r (Suc j) \<noteq> t_cb_ptr r"
    using unat_ring_pos [OF assms, of "Suc j"] S by (metis add_eq_self_zero nat.discI)
  then show ?thesis
    using S by (simp add: ring_pos_def)
qed

text \<open>The pointers and counters of a ring are not part of its geometry.\<close>

lemma ring_pos_upd [simp]:
  "ring_pos (r\<lparr>t_write_ptr := a\<rparr>) j = ring_pos r j" "ring_pos (r\<lparr>t_clean_ptr := a\<rparr>) j = ring_pos r j"
  "ring_pos (r\<lparr>t_free_bds := a\<rparr>) j = ring_pos r j" "ring_pos (r\<lparr>t_c_index := a\<rparr>) j = ring_pos r j"
  "ring_pos (r\<lparr>t_prod_index := a\<rparr>) j = ring_pos r j" "ring_pos (r\<lparr>t_stats64 := st\<rparr>) j = ring_pos r j"
  by (simp_all add: ring_pos_def)

lemma tx_geom_upd [simp]:
  "tx_geom (r\<lparr>t_write_ptr := a\<rparr>) = tx_geom r" "tx_geom (r\<lparr>t_clean_ptr := a\<rparr>) = tx_geom r"
  "tx_geom (r\<lparr>t_free_bds := a\<rparr>) = tx_geom r" "tx_geom (r\<lparr>t_c_index := a\<rparr>) = tx_geom r"
  "tx_geom (r\<lparr>t_prod_index := a\<rparr>) = tx_geom r" "tx_geom (r\<lparr>t_stats64 := st\<rparr>) = tx_geom r"
  by (simp_all add: tx_geom_def)

section \<open>Moving the pointers\<close>

lemma advance_clean_pos:
  "tx_geom r \<Longrightarrow> t_clean_ptr r = ring_pos r h \<Longrightarrow> advance_clean r = r\<lparr>t_clean_ptr := ring_pos r (Suc h)\<rparr>"
  using ring_pos_Suc [of r h] ring_pos_end [of r h] ring_pos_less_end [of r h]
  by (auto simp: advance_clean_def split: if_splits)

lemma run_get_txcb:
  assumes "tx_geom (tx_rings s q)" "t_write_ptr (tx_rings s q) = ring_pos (tx_rings s q) w"
  shows "run_state (bcmgenet_get_txcb q) s =
    (ring_pos (tx_rings s q) w,
     s\<lparr>tx_rings := (tx_rings s)(q := (tx_rings s q)\<lparr>t_write_ptr := ring_pos (tx_rings s q) (Suc w)\<rparr>)\<rparr>)"
  using assms ring_pos_Suc [of "tx_rings s q" w]
  by (simp add: bcmgenet_get_txcb_def txcb_at_write_def tx_geom_def split: if_splits)

lemma run_put_txcb:
  assumes "tx_geom (tx_rings s q)" "t_write_ptr (tx_rings s q) = ring_pos (tx_rings s q) (Suc w)"
  shows "run_state (bcmgenet_put_txcb q) s =
    (ring_pos (tx_rings s q) (Suc w),
     s\<lparr>tx_rings := (tx_rings s)(q := (tx_rings s q)\<lparr>t_write_ptr := ring_pos (tx_rings s q) w\<rparr>)\<rparr>)"
  using assms ring_pos_pred [of "tx_rings s q" w]
  by (simp add: bcmgenet_put_txcb_def txcb_at_write_def tx_geom_def split: if_splits)

section \<open>Descriptors in flight\<close>

text \<open>
  What the driver remembers of a posted descriptor: its packet, its DMA mapping, whether it is the first
  or the last of the packet and how many bytes the packet counts for.
\<close>

record tx_desc =
  d_skb :: u64
  d_addr :: u64
  d_len :: u32
  d_first :: bool
  d_last :: bool
  d_bytes :: u32

definition cb_holds :: "bcmgenet_priv \<Rightarrow> u32 \<Rightarrow> tx_desc \<Rightarrow> bool" where
  "cb_holds s i d \<longleftrightarrow> d_skb d \<noteq> 0 \<and> cb_skb (tx_cbs s i) = d_skb d \<and>
     cb_dma_addr (tx_cbs s i) = d_addr d \<and> cb_dma_len (tx_cbs s i) = d_len d \<and>
     (i = first_cb (skb_cb s (d_skb d)) \<longleftrightarrow> d_first d) \<and> (i = last_cb (skb_cb s (d_skb d)) \<longleftrightarrow> d_last d) \<and>
     bytes_sent (skb_cb s (d_skb d)) = d_bytes d"

definition cb_free :: "bcmgenet_priv \<Rightarrow> u32 \<Rightarrow> bool" where
  "cb_free s i \<longleftrightarrow> cb_skb (tx_cbs s i) = 0 \<and> cb_dma_addr (tx_cbs s i) = 0"

abbreviation cleared :: "enet_cb \<Rightarrow> enet_cb" where
  "cleared c \<equiv> c\<lparr>cb_skb := 0, cb_dma_addr := 0\<rparr>"

definition unmap_call :: "tx_desc \<Rightarrow> dma_call" where
  "unmap_call d = (if d_first d then Dma_unmap_single (d_addr d) (d_len d) DMA_TO_DEVICE
                   else Dma_unmap_page (d_addr d) (d_len d) DMA_TO_DEVICE)"

lemma run_free_tx_cb:
  assumes "cb_holds s i d"
  shows "run_state (bcmgenet_free_tx_cb i) s =
    (if d_last d then d_skb d else 0,
     s\<lparr>trace := Call (Dma_call (unmap_call d)) 0 # trace s, tx_cbs := (tx_cbs s)(i := cleared (tx_cbs s i))\<rparr>)"
proof -
  have a: "d_skb d \<noteq> 0" "cb_skb (tx_cbs s i) = d_skb d" "cb_dma_addr (tx_cbs s i) = d_addr d" "cb_dma_len (tx_cbs s i) = d_len d"
    and f: "(i = first_cb (skb_cb s (d_skb d))) = d_first d" "(i = last_cb (skb_cb s (d_skb d))) = d_last d"
    using assms by (simp_all add: cb_holds_def)
  show ?thesis
    by (simp add: bcmgenet_free_tx_cb_def Let_def unmap_call_def a f)
qed

lemma run_free_tx_cb_free: "cb_free s i \<Longrightarrow> run_state (bcmgenet_free_tx_cb i) s = (0, s)"
  by (simp add: bcmgenet_free_tx_cb_def cb_free_def)

section \<open>The reclaim loop\<close>

definition reclaim_events :: "tx_desc \<Rightarrow> event list" where
  "reclaim_events d = (if d_last d then [Call (Skb_call (Dev_consume_skb_any (d_skb d))) 0] else []) @
     [Call (Dma_call (unmap_call d)) 0]"

definition done_events :: "tx_desc list \<Rightarrow> event list" where
  "done_events ds = concat (rev (map reclaim_events ds))"

lemma done_events_Cons: "done_events (d # ds) @ tr = done_events ds @ reclaim_events d @ tr"
  by (simp add: done_events_def)

definition clear_cbs :: "u32 set \<Rightarrow> (u32 \<Rightarrow> enet_cb) \<Rightarrow> u32 \<Rightarrow> enet_cb" where
  "clear_cbs A f i = (if i \<in> A then cleared (f i) else f i)"

definition ring_slots :: "bcmgenet_tx_ring \<Rightarrow> nat \<Rightarrow> nat \<Rightarrow> u32 set" where
  "ring_slots r h n = ring_pos r ` {h..<h + n}"

text \<open>The slots from \<open>h\<close> on hold the descriptors \<open>ds\<close>.\<close>

definition slots_hold :: "bcmgenet_priv \<Rightarrow> u32 \<Rightarrow> nat \<Rightarrow> tx_desc list \<Rightarrow> bool" where
  "slots_hold s q h ds \<longleftrightarrow> (\<forall>k<length ds. cb_holds s (ring_pos (tx_rings s q) (h + k)) (ds ! k))"

lemma slots_hold_Cons:
  "slots_hold s q h (d # ds) \<longleftrightarrow> cb_holds s (ring_pos (tx_rings s q) h) d \<and> slots_hold s q (Suc h) ds"
  by (auto simp: slots_hold_def nth_Cons split: nat.splits)

lemma ring_slots_Suc: "ring_slots r h (Suc n) = insert (ring_pos r h) (ring_slots r (Suc h) n)"
proof -
  have "{h..<h + Suc n} = insert h {Suc h..<Suc h + n}" by auto
  then show ?thesis by (simp add: ring_slots_def)
qed

lemma ring_slots_0 [simp]: "ring_slots r h 0 = {}"
  by (simp add: ring_slots_def)

lemma ring_slots_upd [simp]:
  "ring_slots (r\<lparr>t_write_ptr := a\<rparr>) h n = ring_slots r h n" "ring_slots (r\<lparr>t_clean_ptr := a\<rparr>) h n = ring_slots r h n"
  by (simp_all add: ring_slots_def)

lemma ring_pos_notin_slots:
  assumes "tx_geom r" "n < unat (t_size r)"
  shows "ring_pos r h \<notin> ring_slots r (Suc h) n"
proof
  assume "ring_pos r h \<in> ring_slots r (Suc h) n"
  then obtain x where x: "Suc h \<le> x" "x < Suc h + n" "ring_pos r h = ring_pos r x"
    by (auto simp: ring_slots_def)
  obtain j where "x = Suc h + j" using le_Suc_ex [OF x(1)] by blast
  with x assms show False
    using ring_pos_inj [of r 0 "Suc j" h] by simp
qed

lemma clear_cbs_insert: "i \<notin> A \<Longrightarrow> clear_cbs A (f(i := cleared (f i))) = clear_cbs (insert i A) f"
  by (auto simp: clear_cbs_def fun_eq_iff)

lemma clear_cbs_empty [simp]: "clear_cbs {} f = f"
  by (auto simp: clear_cbs_def fun_eq_iff)

lemma cb_holds_cong:
  "tx_cbs s' i = tx_cbs s i \<Longrightarrow> skb_cb s' = skb_cb s \<Longrightarrow> cb_holds s' i d = cb_holds s i d"
  by (simp add: cb_holds_def)

lemma slots_hold_clear:
  assumes "tx_geom (tx_rings s q)" "slots_hold s q (Suc h) ds" "length ds < unat (t_size (tx_rings s q))"
    and "tx_rings s' q = (tx_rings s q)\<lparr>t_clean_ptr := a\<rparr>" "skb_cb s' = skb_cb s"
    and "tx_cbs s' = (tx_cbs s)(ring_pos (tx_rings s q) h := c)"
  shows "slots_hold s' q (Suc h) ds"
  unfolding slots_hold_def
proof (intro allI impI)
  fix k assume k: "k < length ds"
  then have "ring_pos (tx_rings s q) (Suc h + k) \<noteq> ring_pos (tx_rings s q) h"
    using assms(1,3) ring_pos_inj [of "tx_rings s q" "Suc k" 0 h] by auto
  with k assms(2,5,6) show "cb_holds s' (ring_pos (tx_rings s' q) (Suc h + k)) (ds ! k)"
    by (simp add: assms(4) slots_hold_def cb_holds_def)
qed

definition pkts_of :: "tx_desc list \<Rightarrow> u32" where
  "pkts_of ds = of_nat (length (filter d_last ds))"

definition bytes_of :: "tx_desc list \<Rightarrow> u32" where
  "bytes_of ds = sum_list (map d_bytes (filter d_last ds))"

lemma run_tx_reclaim_loop:
  assumes "tx_geom (tx_rings s q)" "t_clean_ptr (tx_rings s q) = ring_pos (tx_rings s q) h"
    and "slots_hold s q h ds" "length ds \<le> unat (t_size (tx_rings s q))"
  shows "run_state (tx_reclaim_loop q (length ds) p b) s =
    ((p + pkts_of ds, b + bytes_of ds),
     s\<lparr>trace := done_events ds @ trace s, tx_cbs := clear_cbs (ring_slots (tx_rings s q) h (length ds)) (tx_cbs s),
       tx_rings := (tx_rings s)(q := (tx_rings s q)\<lparr>t_clean_ptr := ring_pos (tx_rings s q) (h + length ds)\<rparr>)\<rparr>)"
  using assms
proof (induction ds arbitrary: s h p b)
  case Nil
  have "(tx_rings s)(q := (tx_rings s q)\<lparr>t_clean_ptr := ring_pos (tx_rings s q) h\<rparr>) = tx_rings s"
    unfolding Nil.prems(2) [symmetric] by simp
  then show ?case by (simp add: done_events_def pkts_of_def bytes_of_def)
next
  case (Cons d ds)
  let ?r = "tx_rings s q"
  let ?s1 = "s\<lparr>trace := reclaim_events d @ trace s,
    tx_cbs := (tx_cbs s)(ring_pos ?r h := cleared (tx_cbs s (ring_pos ?r h))),
    tx_rings := (tx_rings s)(q := ?r\<lparr>t_clean_ptr := ring_pos ?r (Suc h)\<rparr>)\<rparr>"
  have hd: "cb_holds s (ring_pos ?r h) d" and tl: "slots_hold s q (Suc h) ds"
    using Cons.prems(3) by (simp_all add: slots_hold_Cons)
  have len: "length ds < unat (t_size ?r)" using Cons.prems(4) by simp
  have tl1: "slots_hold ?s1 q (Suc h) ds"
    by (rule slots_hold_clear [OF Cons.prems(1) tl len]) simp_all
  have IH: "run_state (tx_reclaim_loop q (length ds) p' b') ?s1 =
    ((p' + pkts_of ds, b' + bytes_of ds),
     ?s1\<lparr>trace := done_events ds @ trace ?s1,
       tx_cbs := clear_cbs (ring_slots (tx_rings ?s1 q) (Suc h) (length ds)) (tx_cbs ?s1),
       tx_rings := (tx_rings ?s1)(q := (tx_rings ?s1 q)\<lparr>t_clean_ptr := ring_pos (tx_rings ?s1 q) (Suc h + length ds)\<rparr>)\<rparr>)"
    for p' b'
    using Cons.prems(1,2) len tl1 by (intro Cons.IH) simp_all
  have step: "run_state (tx_reclaim_loop q (length (d # ds)) p b) s =
    run_state (tx_reclaim_loop q (length ds) (if d_last d then p + 1 else p) (if d_last d then b + d_bytes d else b)) ?s1"
    using hd Cons.prems(1,2)
    by (simp add: run_free_tx_cb [OF hd] advance_clean_pos reclaim_events_def cb_holds_def)
  show ?case
    unfolding step IH
    using ring_pos_notin_slots [OF Cons.prems(1) len, of h]
    by (simp add: done_events_Cons ring_slots_Suc clear_cbs_insert pkts_of_def bytes_of_def)
       (simp add: fun_upd_def)
qed

section \<open>The ring as a queue\<close>

text \<open>
  Ring \<open>q\<close> holds the queue \<open>D\<close> of descriptors in flight, the first of them at position \<open>h\<close>: pointers,
  indices and the number of free descriptors agree, the slots of \<open>D\<close> hold its descriptors and all other
  slots of the ring are empty.
\<close>

definition tx_rel :: "bcmgenet_priv \<Rightarrow> u32 \<Rightarrow> nat \<Rightarrow> tx_desc list \<Rightarrow> bool" where
  "tx_rel s q h D \<longleftrightarrow> tx_geom (tx_rings s q) \<and>
     t_clean_ptr (tx_rings s q) = ring_pos (tx_rings s q) h \<and>
     t_write_ptr (tx_rings s q) = ring_pos (tx_rings s q) (h + length D) \<and>
     length D \<le> unat (t_size (tx_rings s q)) \<and>
     t_free_bds (tx_rings s q) = t_size (tx_rings s q) - of_nat (length D) \<and>
     t_c_index (tx_rings s q) = take_bit 16 (t_c_index (tx_rings s q)) \<and>
     t_prod_index (tx_rings s q) = take_bit 16 (t_c_index (tx_rings s q) + of_nat (length D)) \<and>
     slots_hold s q h D \<and>
     (\<forall>k. length D \<le> k \<and> k < unat (t_size (tx_rings s q)) \<longrightarrow> cb_free s (ring_pos (tx_rings s q) (h + k)))"

lemma tx_relD:
  assumes "tx_rel s q h D"
  shows "tx_geom (tx_rings s q)" "t_clean_ptr (tx_rings s q) = ring_pos (tx_rings s q) h"
    "t_write_ptr (tx_rings s q) = ring_pos (tx_rings s q) (h + length D)"
    "length D \<le> unat (t_size (tx_rings s q))" "unat (t_size (tx_rings s q)) \<le> 256"
    "t_free_bds (tx_rings s q) = t_size (tx_rings s q) - of_nat (length D)"
    "t_c_index (tx_rings s q) = take_bit 16 (t_c_index (tx_rings s q))"
    "t_prod_index (tx_rings s q) = take_bit 16 (t_c_index (tx_rings s q) + of_nat (length D))"
    "slots_hold s q h D"
    "\<And>k. length D \<le> k \<Longrightarrow> k < unat (t_size (tx_rings s q)) \<Longrightarrow> cb_free s (ring_pos (tx_rings s q) (h + k))"
  using assms unfolding tx_rel_def tx_geom_def by auto

text \<open>What \<open>prod_index - c_index\<close> says is the number of descriptors in flight.\<close>

lemma in_flight:
  assumes "tx_rel s q h D"
  shows "(t_prod_index (tx_rings s q) - t_c_index (tx_rings s q)) AND DMA_C_INDEX_MASK = of_nat (length D)"
  using tx_relD(4,5,8) [OF assms] index_distance [of "length D" "t_c_index (tx_rings s q)"]
  by (simp add: index_mask)

text \<open>The consumer index the hardware reports, and how many descriptors it has sent since the last look.\<close>

definition cons_reported :: "linux_env \<Rightarrow> u32 \<Rightarrow> bcmgenet_priv \<Rightarrow> u32" where
  "cons_reported e q s = mmio e (ring_addr GENET_TDMA_REG_OFF (t_index (tx_rings s q)) TDMA_CONS_INDEX s)
     (Wr (native_endian e) (io_addr s (\<lambda>s. GENET_INTRL2_1_OFF) INTRL2_CPU_CLEAR)
        (push_bit (unat (t_index (tx_rings s q))) 1) # trace s)"

definition tx_ready :: "linux_env \<Rightarrow> u32 \<Rightarrow> bcmgenet_priv \<Rightarrow> nat" where
  "tx_ready e q s = unat (take_bit 16 (take_bit 16 (cons_reported e q s) - t_c_index (tx_rings s q)))"

lemma tx_ready_index:
  assumes "tx_ready e q s \<le> n" "n \<le> 256"
  shows "take_bit 16 (take_bit 16 (cons_reported e q s) - t_c_index (tx_rings s q)) = of_nat (tx_ready e q s)"
  by (simp add: tx_ready_def)

text \<open>The state after \<open>n\<close> descriptors from position \<open>h\<close> on have been reclaimed.\<close>

definition reclaimed :: "u32 \<Rightarrow> nat \<Rightarrow> u32 \<Rightarrow> tx_desc list \<Rightarrow> event list \<Rightarrow> bcmgenet_priv \<Rightarrow> bcmgenet_priv" where
  "reclaimed q h c ds tr s =
     (let r = tx_rings s q; n = length ds; st = t_stats64 r in
      s\<lparr>trace := tr, tx_cbs := clear_cbs (ring_slots r h n) (tx_cbs s),
        tx_rings := (tx_rings s)(q := r\<lparr>t_clean_ptr := ring_pos r (h + n), t_free_bds := t_free_bds r + of_nat n,
          t_c_index := c, t_stats64 := st\<lparr>ts_packets := ts_packets st + ucast (pkts_of ds),
            ts_bytes := ts_bytes st + ucast (bytes_of ds)\<rparr>\<rparr>)\<rparr>)"

definition reclaim_trace :: "linux_env \<Rightarrow> u32 \<Rightarrow> tx_desc list \<Rightarrow> bcmgenet_priv \<Rightarrow> event list" where
  "reclaim_trace e q ds s =
     Call (Queue_call (Netdev_tx_completed_queue (t_index (tx_rings s q)) (pkts_of ds) (bytes_of ds))) 0 #
     done_events ds @
     [Rd (native_endian e) (ring_addr GENET_TDMA_REG_OFF (t_index (tx_rings s q)) TDMA_CONS_INDEX s) (cons_reported e q s),
      Wr (native_endian e) (io_addr s (\<lambda>s. GENET_INTRL2_1_OFF) INTRL2_CPU_CLEAR)
        (push_bit (unat (t_index (tx_rings s q))) 1)]"

lemma slots_hold_take: "slots_hold s q h D \<Longrightarrow> slots_hold s q h (take n D)"
  by (simp add: slots_hold_def)

lemma run_tx_reclaim_unlocked:
  assumes rel: "tx_rel s q h D" and hw: "tx_ready e q s \<le> length D"
  shows "run_state (bcmgenet_tx_reclaim_unlocked e q) s =
    (of_nat (tx_ready e q s),
     reclaimed q h (take_bit 16 (cons_reported e q s)) (take (tx_ready e q s) D)
       (reclaim_trace e q (take (tx_ready e q s) D) s @ trace s) s)"
proof -
  let ?n = "tx_ready e q s" and ?r = "tx_rings s q"
  let ?ds = "take ?n D"
  let ?ev = "[Rd (native_endian e) (ring_addr GENET_TDMA_REG_OFF (t_index ?r) TDMA_CONS_INDEX s) (cons_reported e q s),
      Wr (native_endian e) (io_addr s (\<lambda>s. GENET_INTRL2_1_OFF) INTRL2_CPU_CLEAR) (push_bit (unat (t_index ?r)) 1)]"
  let ?s1 = "s\<lparr>trace := ?ev @ trace s\<rparr>"
  note d = tx_relD [OF rel]
  have len: "length ?ds = ?n" using hw by simp
  have ready: "(take_bit 16 (cons_reported e q s) - t_c_index ?r) AND DMA_C_INDEX_MASK = of_nat ?n"
    by (simp add: index_mask tx_ready_def)
  have un: "unat (of_nat ?n :: u32) = ?n"
    using hw d(4,5) by (simp add: unsigned_of_nat take_bit_nat_eq_self)
  have hold: "slots_hold ?s1 q h ?ds"
    using slots_hold_take [OF d(9)] by (simp add: slots_hold_def cb_holds_def)
  have loop: "run_state (tx_reclaim_loop q ?n 0 0) ?s1 =
    ((pkts_of ?ds, bytes_of ?ds),
     s\<lparr>trace := done_events ?ds @ ?ev @ trace s, tx_cbs := clear_cbs (ring_slots ?r h ?n) (tx_cbs s),
       tx_rings := (tx_rings s)(q := ?r\<lparr>t_clean_ptr := ring_pos ?r (h + ?n)\<rparr>)\<rparr>)"
    using run_tx_reclaim_loop [of ?s1 q h ?ds 0 0] hold d(1,2) hw d(4) unfolding len by simp
  have rd: "run_state (bcmgenet_tdma_ring_readl e (t_index ?r) TDMA_CONS_INDEX)
      (emit (Wr (native_endian e) (io_addr s (\<lambda>s. GENET_INTRL2_1_OFF) INTRL2_CPU_CLEAR) (push_bit (unat (t_index ?r)) 1)) s)
    = (cons_reported e q s, ?s1)"
    by (simp add: bcmgenet_tdma_ring_readl_def cons_reported_def ring_addr_def)
  show ?thesis
    unfolding bcmgenet_tx_reclaim_unlocked_def
    by (simp add: bcmgenet_intrl2_1_writel_def rd [simplified] Let_def index_mask(1) ready [unfolded index_mask] un
         loop [simplified] reclaimed_def reclaim_trace_def min_absorb2 [OF hw])
qed

lemma ring_pos_wrap: "ring_pos r (j + unat (t_size r)) = ring_pos r j"
  by (simp add: ring_pos_def)

lemma ring_slots_iff:
  assumes "tx_geom r" "n \<le> unat (t_size r)" "k < unat (t_size r)"
  shows "ring_pos r (h + k) \<in> ring_slots r h n \<longleftrightarrow> k < n"
proof
  assume "ring_pos r (h + k) \<in> ring_slots r h n"
  then obtain x where x: "h \<le> x" "x < h + n" "ring_pos r (h + k) = ring_pos r x"
    by (auto simp: ring_slots_def)
  obtain j where "x = h + j" using le_Suc_ex [OF x(1)] by blast
  with x assms show "k < n" using ring_pos_inj [of r k j h] by auto
qed (auto simp: ring_slots_def)

lemma tx_rel_reclaimed:
  assumes rel: "tx_rel s q h D" and n: "n \<le> length D"
    and idx: "take_bit 16 (c - t_c_index (tx_rings s q)) = of_nat n" and c: "c = take_bit 16 c"
  shows "tx_rel (reclaimed q h c (take n D) tr s) q (h + n) (drop n D)"
proof -
  let ?r = "tx_rings s q" and ?s = "reclaimed q h c (take n D) tr s"
  note d = tx_relD [OF rel]
  have len: "length (take n D) = n" using n by simp
  have slot: "ring_pos ?r (h + k) \<in> ring_slots ?r h n \<longleftrightarrow> k < n" if "k < unat (t_size ?r)" for k
    using ring_slots_iff [OF d(1) _ that] n d(4) by simp
  have pos: "ring_pos (tx_rings ?s q) j = ring_pos ?r j" for j
    by (simp add: reclaimed_def Let_def)
  have hold: "slots_hold ?s q (h + n) (drop n D)"
    unfolding slots_hold_def pos
  proof (intro allI impI)
    fix k assume k: "k < length (drop n D)"
    then have nk: "n + k < length D" by simp
    with d(4) have "ring_pos ?r (h + (n + k)) \<notin> ring_slots ?r h n" using slot [of "n + k"] by simp
    with d(9) nk show "cb_holds ?s (ring_pos ?r (h + n + k)) (drop n D ! k)"
      by (simp add: slots_hold_def reclaimed_def Let_def len clear_cbs_def cb_holds_def add.assoc)
  qed
  have free: "cb_free ?s (ring_pos ?r (h + n + k))"
    if k: "length (drop n D) \<le> k" "k < unat (t_size ?r)" for k
  proof (cases "n + k < unat (t_size ?r)")
    case True
    then have "cb_free s (ring_pos ?r (h + (n + k)))" using d(10) [of "n + k"] k by simp
    then show ?thesis
      by (simp add: cb_free_def reclaimed_def Let_def clear_cbs_def add.assoc)
  next
    case False
    define k' where "k' = n + k - unat (t_size ?r)"
    have "h + n + k = h + k' + unat (t_size ?r)" and k': "k' < n" "k' < unat (t_size ?r)"
      using False k n d(4) by (simp_all add: k'_def)
    then have eq: "ring_pos ?r (h + n + k) = ring_pos ?r (h + k')"
      using ring_pos_wrap by metis
    show ?thesis
      unfolding eq using slot [OF k'(2)] k'(1)
      by (simp add: cb_free_def reclaimed_def Let_def clear_cbs_def min_absorb2 [OF n])
  qed
  have prod: "t_prod_index ?r = take_bit 16 (c + of_nat (length D - n))"
    using index_advance [OF idx n] d(8) by simp
  have fb: "t_free_bds ?r + of_nat n = t_size ?r - of_nat (length D - n)"
    using d(6) n by (simp add: of_nat_diff)
  show ?thesis
    unfolding tx_rel_def pos
    using d hold free prod fb c n
    by (simp add: reclaimed_def Let_def len)
qed

lemma reclaim_refines:
  assumes rel: "tx_rel s q h D" and hw: "tx_ready e q s \<le> length D"
  shows "tx_rel (snd (run_state (bcmgenet_tx_reclaim_unlocked e q) s)) q (h + tx_ready e q s) (drop (tx_ready e q s) D)"
  unfolding run_tx_reclaim_unlocked [OF rel hw]
  using tx_rel_reclaimed [OF rel hw, of "take_bit 16 (cons_reported e q s)"]
  by (simp add: tx_ready_def)

section \<open>What the history says about buffers\<close>

text \<open>Bus addresses mapped and unmapped for transmission, packets posted and packets consumed by an event.\<close>

definition mapped1 :: "event \<Rightarrow> u64 list" where
  "mapped1 ev = (case ev of
     Call (Dma_call (Dma_map_single _ _ DMA_TO_DEVICE)) a \<Rightarrow> [a]
   | Call (Dma_call (Skb_frag_dma_map _ _ _ _)) a \<Rightarrow> [a]
   | _ \<Rightarrow> [])"

definition unmapped1 :: "event \<Rightarrow> u64 list" where
  "unmapped1 ev = (case ev of
     Call (Dma_call (Dma_unmap_single a _ DMA_TO_DEVICE)) _ \<Rightarrow> [a]
   | Call (Dma_call (Dma_unmap_page a _ _)) _ \<Rightarrow> [a]
   | _ \<Rightarrow> [])"

definition posted1 :: "event \<Rightarrow> u64 list" where
  "posted1 ev = (case ev of Call (Skb_call (Skb_tx_timestamp p)) _ \<Rightarrow> [p] | _ \<Rightarrow> [])"

definition consumed1 :: "event \<Rightarrow> u64 list" where
  "consumed1 ev = (case ev of Call (Skb_call (Dev_consume_skb_any p)) _ \<Rightarrow> [p] | _ \<Rightarrow> [])"

lemmas history1 = mapped1_def unmapped1_def posted1_def consumed1_def

text \<open>The same for a history, oldest first.\<close>

definition mapped :: "event list \<Rightarrow> u64 list" where
  "mapped tr = concat (map mapped1 (rev tr))"

definition unmapped :: "event list \<Rightarrow> u64 list" where
  "unmapped tr = concat (map unmapped1 (rev tr))"

definition posted :: "event list \<Rightarrow> u64 list" where
  "posted tr = concat (map posted1 (rev tr))"

text \<open>
  Packets whose transmission completed: those consumed, except the original of a buffer that was just
  copied to make room for the status block.
\<close>

definition is_clone :: "event list \<Rightarrow> bool" where
  "is_clone tr = (case tr of Call (Skb_call (Skb_realloc_headroom _ _)) _ # _ \<Rightarrow> True | _ \<Rightarrow> False)"

primrec completed :: "event list \<Rightarrow> u64 list" where
  "completed [] = []"
| "completed (ev # tr) = completed tr @ (if is_clone tr then [] else consumed1 ev)"

lemma history_append:
  "mapped (xs @ ys) = mapped ys @ mapped xs" "unmapped (xs @ ys) = unmapped ys @ unmapped xs"
  "posted (xs @ ys) = posted ys @ posted xs"
  by (simp_all add: mapped_def unmapped_def posted_def)

lemma completed_append:
  "xs \<noteq> [] \<Longrightarrow> consumed1 (last xs) = [] \<Longrightarrow> completed (xs @ ys) = completed ys @ completed xs"
proof (induction xs)
  case (Cons x xs)
  then show ?case by (cases xs) (simp_all add: is_clone_def)
qed simp

text \<open>Events that neither post, unmap nor consume anything.\<close>

definition quiet :: "event list \<Rightarrow> bool" where
  "quiet evs = list_all (\<lambda>ev. posted1 ev = [] \<and> unmapped1 ev = [] \<and> consumed1 ev = []) evs"

lemma quiet_simps [simp]:
  "quiet []" "quiet (ev # evs) \<longleftrightarrow> posted1 ev = [] \<and> unmapped1 ev = [] \<and> consumed1 ev = [] \<and> quiet evs"
  "quiet (xs @ ys) \<longleftrightarrow> quiet xs \<and> quiet ys"
  by (auto simp: quiet_def)

lemma quiet_history: "quiet evs \<Longrightarrow> posted evs = []" "quiet evs \<Longrightarrow> unmapped evs = []" "quiet evs \<Longrightarrow> completed evs = []"
  by (induction evs) (simp_all add: posted_def unmapped_def)

lemma done_history:
  "mapped (done_events ds) = [] \<and> posted (done_events ds) = [] \<and> unmapped (done_events ds) = map d_addr ds \<and>
   completed (done_events ds) = map d_skb (filter d_last ds)"
proof (induction ds)
  case (Cons d ds)
  have split: "done_events (d # ds) = done_events ds @ reclaim_events d" by (simp add: done_events_def)
  have c: "completed (xs @ reclaim_events d) = completed (reclaim_events d) @ completed xs" for xs
  proof (induction xs)
    case (Cons x xs)
    then show ?case by (cases xs) (simp_all add: is_clone_def reclaim_events_def)
  qed simp
  show ?case
    using Cons
    by (simp add: split c history_append)
       (simp add: reclaim_events_def mapped_def posted_def unmapped_def is_clone_def history1 unmap_call_def)
qed (simp add: done_events_def mapped_def posted_def unmapped_def)

end
