(* ===== verification/Linux_Tx_Post.thy ===== *)
theory Linux_Tx_Post
  imports Linux_Tx_Ring
begin

text \<open>
  Posting packets on a transmit ring of the Linux driver: the loop over the fragments, its failure path
  and the whole of \<open>bcmgenet_xmit\<close>.
\<close>

lemma fun_upd_fold: "(\<lambda>a. if a = q then x else f a) = f(q := x)"
  by (simp add: fun_upd_def)

section \<open>Writing a descriptor\<close>

definition desc_events :: "linux_env \<Rightarrow> bool \<Rightarrow> u64 \<Rightarrow> u64 \<Rightarrow> u32 \<Rightarrow> event list" where
  "desc_events e has40 d addr val =
     Wr (native_endian e) (d + ucast DMA_DESC_LENGTH_STATUS) val #
     (if CONFIG_PHYS_ADDR_T_64BIT e \<and> has40
      then [Wr (native_endian e) (d + ucast DMA_DESC_ADDRESS_HI) (ucast (drop_bit 32 addr))] else []) @
     [Wr (native_endian e) (d + ucast DMA_DESC_ADDRESS_LO) (ucast addr)]"

lemma run_dmadesc_set:
  "run_state (dmadesc_set e d addr val) s = ((), s\<lparr>trace := desc_events e (bcmgenet_has_40bits s) d addr val @ trace s\<rparr>)"
  by (simp add: dmadesc_set_def dmadesc_set_addr_def dmadesc_set_length_status_def desc_events_def bcmgenet_has_40bits_def)

lemma history_Cons:
  "mapped (ev # tr) = mapped tr @ mapped1 ev" "unmapped (ev # tr) = unmapped tr @ unmapped1 ev"
  "posted (ev # tr) = posted tr @ posted1 ev"
  by (simp_all add: mapped_def unmapped_def posted_def)

lemma history1_simps [simp]:
  "mapped1 (Wr b a v) = []" "unmapped1 (Wr b a v) = []" "posted1 (Wr b a v) = []" "consumed1 (Wr b a v) = []"
  "mapped1 (Rd b a v) = []" "unmapped1 (Rd b a v) = []" "posted1 (Rd b a v) = []" "consumed1 (Rd b a v) = []"
  "mapped1 (Call (Queue_call c) r) = []" "unmapped1 (Call (Queue_call c) r) = []"
  "posted1 (Call (Queue_call c) r) = []" "consumed1 (Call (Queue_call c) r) = []"
  "mapped1 (Call (Spin_lock l) r) = []" "unmapped1 (Call (Spin_lock l) r) = []"
  "posted1 (Call (Spin_lock l) r) = []" "consumed1 (Call (Spin_lock l) r) = []"
  "mapped1 (Call (Spin_unlock l) r) = []" "unmapped1 (Call (Spin_unlock l) r) = []"
  "posted1 (Call (Spin_unlock l) r) = []" "consumed1 (Call (Spin_unlock l) r) = []"
  "mapped1 (Call (Skb_call k) r) = []" "unmapped1 (Call (Skb_call k) r) = []"
  "posted1 (Call (Dma_call m) r) = []" "consumed1 (Call (Dma_call m) r) = []"
  "mapped1 (Call (Napi_call n) r) = []" "unmapped1 (Call (Napi_call n) r) = []"
  "posted1 (Call (Napi_call n) r) = []" "consumed1 (Call (Napi_call n) r) = []"
  by (simp_all add: history1)

lemma desc_events_quiet [simp]: "quiet (desc_events e b d addr val)" "mapped (desc_events e b d addr val) = []"
  by (simp_all add: desc_events_def mapped_def)

section \<open>The loop over the fragments\<close>

text \<open>An environment whose DMA mappings never fail.\<close>

definition maps_ok :: "linux_env \<Rightarrow> bool" where
  "maps_ok e \<longleftrightarrow> (\<forall>c tr. \<not> dma_mapping_error e (kresult e (Dma_call c) tr))"

primrec put_cbs :: "bcmgenet_tx_ring \<Rightarrow> nat \<Rightarrow> u64 \<Rightarrow> (u64 \<times> u32) list \<Rightarrow> (u32 \<Rightarrow> enet_cb) \<Rightarrow> u32 \<Rightarrow> enet_cb" where
  "put_cbs r w skb [] f = f"
| "put_cbs r w skb (a # as) f = put_cbs r (Suc w) skb as
     (f(ring_pos r w := (f (ring_pos r w))\<lparr>cb_dma_addr := fst a, cb_dma_len := snd a, cb_skb := skb\<rparr>))"

lemma put_cbs_upd [simp]: "put_cbs (r\<lparr>t_write_ptr := x\<rparr>) w skb as f = put_cbs r w skb as f"
  by (induction as arbitrary: w f) simp_all

text \<open>Length of a fragment and the call that maps it.\<close>

definition map_req :: "linux_env \<Rightarrow> u64 \<Rightarrow> nat \<Rightarrow> event list \<Rightarrow> u32 \<times> dma_call" where
  "map_req e skb i tr = (let k = skb_of e skb tr in
     if i = 0 then (sk_headlen k, Dma_map_single (sk_data k) (sk_headlen k) DMA_TO_DEVICE)
     else (sk_frags k ! (i - 1), Skb_frag_dma_map skb (of_nat (i - 1)) (sk_frags k ! (i - 1)) DMA_TO_DEVICE))"

lemma run_tx_map:
  "run_state (tx_map e skb cb i) s =
     (let c = Dma_call (snd (map_req e skb i (trace s))); a = kresult e c (trace s) in
     ((fst (map_req e skb i (trace s)), a), s\<lparr>trace := Call c a # trace s,
        skb_cb := (if i = 0 then (skb_cb s)(skb := (skb_cb s skb)\<lparr>first_cb := cb\<rparr>) else skb_cb s)\<rparr>))"
  by (simp add: tx_map_def map_req_def Let_def)

lemma map_req_history:
  "mapped1 (Call (Dma_call (snd (map_req e skb i tr))) a) = [a]"
  "unmapped1 (Call (Dma_call (snd (map_req e skb i tr))) a) = []"
  by (simp_all add: map_req_def Let_def history1)

lemma xmit_frags_step:
  assumes "tx_geom (tx_rings s q)" "t_write_ptr (tx_rings s q) = ring_pos (tx_rings s q) w"
  obtains a l evs where
    "\<not> dma_mapping_error e a \<Longrightarrow>
     run_state (xmit_frags e q skb nr (i # is) cb) s =
       run_state (xmit_frags e q skb nr is (ring_pos (tx_rings s q) w))
         (s\<lparr>trace := evs @ trace s,
            skb_cb := (if i = 0 then (skb_cb s)(skb := (skb_cb s skb)\<lparr>first_cb := ring_pos (tx_rings s q) w\<rparr>) else skb_cb s),
            tx_cbs := put_cbs (tx_rings s q) w skb [(a, l)] (tx_cbs s),
            tx_rings := (tx_rings s)(q := (tx_rings s q)\<lparr>t_write_ptr := ring_pos (tx_rings s q) (Suc w)\<rparr>)\<rparr>)"
    "\<not> dma_mapping_error e a \<Longrightarrow> quiet evs \<and> mapped evs = [a]"
    "dma_mapping_error e a \<Longrightarrow>
     \<exists>c. mapped1 (Call (Dma_call c) a) = [a] \<and> unmapped1 (Call (Dma_call c) a) = [] \<and>
     run_state (xmit_frags e q skb nr (i # is) cb) s =
       (Inl i, s\<lparr>trace := Call (Dma_call c) a # trace s,
            skb_cb := (if i = 0 then (skb_cb s)(skb := (skb_cb s skb)\<lparr>first_cb := ring_pos (tx_rings s q) w\<rparr>) else skb_cb s),
            tx_rings := (tx_rings s)(q := (tx_rings s q)\<lparr>t_write_ptr := ring_pos (tx_rings s q) (Suc w)\<rparr>),
            mib := (mib s)(''tx_dma_failed'' := mib s ''tx_dma_failed'' + 1)\<rparr>)"
    "\<exists>c tr. a = kresult e (Dma_call c) tr"
proof -
  let ?r = "tx_rings s q"
  let ?s1 = "s\<lparr>tx_rings := (tx_rings s)(q := ?r\<lparr>t_write_ptr := ring_pos ?r (Suc w)\<rparr>)\<rparr>"
  let ?l = "fst (map_req e skb i (trace s))" and ?c = "snd (map_req e skb i (trace s))"
  define a where "a = kresult e (Dma_call ?c) (trace s)"
  have m: "run_state (tx_map e skb (ring_pos ?r w) i) ?s1 =
     ((?l, a), ?s1\<lparr>trace := Call (Dma_call ?c) a # trace s,
        skb_cb := (if i = 0 then (skb_cb s)(skb := (skb_cb s skb)\<lparr>first_cb := ring_pos ?r w\<rparr>) else skb_cb s)\<rparr>)"
    by (simp add: run_tx_map Let_def a_def)
  note h = map_req_history [of e skb i "trace s" a]
  let ?tr = "Call (Dma_call ?c) a # trace s"
  let ?ev = "desc_events e (flags s AND GENET_HAS_40BITS \<noteq> 0) (cb_bd_addr (tx_cbs s (ring_pos ?r w))) a
      (tx_len_stat (qtag_mask (hw_params s)) ?l (sk_csum_partial (skb_of e skb ?tr)) i nr) @ [Call (Dma_call ?c) a]"
  show thesis
  proof (rule that [of a ?l ?ev])
    show "run_state (xmit_frags e q skb nr (i # is) cb) s =
       run_state (xmit_frags e q skb nr is (ring_pos ?r w))
         (s\<lparr>trace := ?ev @ trace s,
            skb_cb := (if i = 0 then (skb_cb s)(skb := (skb_cb s skb)\<lparr>first_cb := ring_pos ?r w\<rparr>) else skb_cb s),
            tx_cbs := put_cbs ?r w skb [(a, ?l)] (tx_cbs s),
            tx_rings := (tx_rings s)(q := ?r\<lparr>t_write_ptr := ring_pos ?r (Suc w)\<rparr>)\<rparr>)"
      if "\<not> dma_mapping_error e a"
      using that by (simp add: run_get_txcb [OF assms] m run_dmadesc_set bcmgenet_has_40bits_def)
  next
    show "quiet ?ev \<and> mapped ?ev = [a]" using h(1,2) by (simp add: history_append) (simp add: mapped_def)
  next
    assume "dma_mapping_error e a"
    then show "\<exists>c. mapped1 (Call (Dma_call c) a) = [a] \<and> unmapped1 (Call (Dma_call c) a) = [] \<and>
      run_state (xmit_frags e q skb nr (i # is) cb) s =
       (Inl i, s\<lparr>trace := Call (Dma_call c) a # trace s,
            skb_cb := (if i = 0 then (skb_cb s)(skb := (skb_cb s skb)\<lparr>first_cb := ring_pos ?r w\<rparr>) else skb_cb s),
            tx_rings := (tx_rings s)(q := ?r\<lparr>t_write_ptr := ring_pos ?r (Suc w)\<rparr>),
            mib := (mib s)(''tx_dma_failed'' := mib s ''tx_dma_failed'' + 1)\<rparr>)"
      using h(1,2) by (intro exI [of _ ?c]) (simp add: run_get_txcb [OF assms] m)
  next
    show "\<exists>c tr. a = kresult e (Dma_call c) tr" using a_def by blast
  qed
qed

text \<open>
  The state after \<open>as\<close> have been posted from position \<open>w\<close> on, with the write pointer at \<open>v\<close>.
\<close>

abbreviation posted_state :: "bcmgenet_priv \<Rightarrow> u32 \<Rightarrow> nat \<Rightarrow> nat \<Rightarrow> u64 \<Rightarrow> (u64 \<times> u32) list \<Rightarrow> event list \<Rightarrow> bcmgenet_priv" where
  "posted_state s q w v skb as evs \<equiv>
     s\<lparr>trace := evs @ trace s, tx_cbs := put_cbs (tx_rings s q) w skb as (tx_cbs s),
       tx_rings := (tx_rings s)(q := (tx_rings s q)\<lparr>t_write_ptr := ring_pos (tx_rings s q) v\<rparr>)\<rparr>"

text \<open>
  The remaining fragments are all mapped, or the mapping of one of them fails after those before it.
\<close>

definition frags_posted :: "linux_env \<Rightarrow> u32 \<Rightarrow> u64 \<Rightarrow> nat \<Rightarrow> nat list \<Rightarrow> u32 \<Rightarrow> nat \<Rightarrow> bcmgenet_priv \<Rightarrow> bool" where
  "frags_posted e q skb nr is cb w s \<longleftrightarrow>
     (\<exists>as evs. length as = length is \<and> quiet evs \<and> mapped evs = map fst as \<and>
        run_state (xmit_frags e q skb nr is cb) s =
          (Inr (if is = [] then cb else ring_pos (tx_rings s q) (w + length is - 1)),
           posted_state s q w (w + length is) skb as evs))"

definition frags_failed :: "linux_env \<Rightarrow> u32 \<Rightarrow> u64 \<Rightarrow> nat \<Rightarrow> nat list \<Rightarrow> u32 \<Rightarrow> nat \<Rightarrow> bcmgenet_priv \<Rightarrow> bool" where
  "frags_failed e q skb nr is cb w s \<longleftrightarrow>
     (\<exists>as evs a. length as < length is \<and> quiet evs \<and> mapped evs = map fst as @ [a] \<and>
        dma_mapping_error e a \<and> (\<exists>c tr. a = kresult e (Dma_call c) tr) \<and>
        run_state (xmit_frags e q skb nr is cb) s =
          (Inl (is ! length as), (posted_state s q w (Suc (w + length as)) skb as evs)
             \<lparr>mib := (mib s)(''tx_dma_failed'' := mib s ''tx_dma_failed'' + 1)\<rparr>))"

lemma xmit_frags_outcome:
  assumes "0 \<notin> set is" and "tx_geom (tx_rings s q)" "t_write_ptr (tx_rings s q) = ring_pos (tx_rings s q) w"
  shows "frags_posted e q skb nr is cb w s \<or> frags_failed e q skb nr is cb w s"
  using assms
proof (induction "is" arbitrary: s w cb)
  case Nil
  have "(tx_rings s)(q := (tx_rings s q)\<lparr>t_write_ptr := ring_pos (tx_rings s q) w\<rparr>) = tx_rings s"
    unfolding Nil.prems(3) [symmetric] by simp
  then show ?case by (simp add: frags_posted_def mapped_def exI [of _ "[]"])
next
  case (Cons i "is")
  let ?r = "tx_rings s q"
  obtain a l evs where
    step: "\<not> dma_mapping_error e a \<Longrightarrow>
     run_state (xmit_frags e q skb nr (i # is) cb) s =
       run_state (xmit_frags e q skb nr is (ring_pos ?r w))
         (s\<lparr>trace := evs @ trace s,
            skb_cb := (if i = 0 then (skb_cb s)(skb := (skb_cb s skb)\<lparr>first_cb := ring_pos ?r w\<rparr>) else skb_cb s),
            tx_cbs := put_cbs ?r w skb [(a, l)] (tx_cbs s),
            tx_rings := (tx_rings s)(q := ?r\<lparr>t_write_ptr := ring_pos ?r (Suc w)\<rparr>)\<rparr>)"
    and ev: "\<not> dma_mapping_error e a \<Longrightarrow> quiet evs \<and> mapped evs = [a]"
    and fail: "dma_mapping_error e a \<Longrightarrow>
     \<exists>c. mapped1 (Call (Dma_call c) a) = [a] \<and> unmapped1 (Call (Dma_call c) a) = [] \<and>
     run_state (xmit_frags e q skb nr (i # is) cb) s =
       (Inl i, s\<lparr>trace := Call (Dma_call c) a # trace s,
            skb_cb := (if i = 0 then (skb_cb s)(skb := (skb_cb s skb)\<lparr>first_cb := ring_pos ?r w\<rparr>) else skb_cb s),
            tx_rings := (tx_rings s)(q := ?r\<lparr>t_write_ptr := ring_pos ?r (Suc w)\<rparr>),
            mib := (mib s)(''tx_dma_failed'' := mib s ''tx_dma_failed'' + 1)\<rparr>)"
    and src: "\<exists>c tr. a = kresult e (Dma_call c) tr"
    by (rule xmit_frags_step [OF Cons.prems(2,3), of e skb nr i "is" cb]) blast
  have i0: "i \<noteq> 0" using Cons.prems(1) by auto
  show ?case
  proof (cases "dma_mapping_error e a")
    case True
    with fail obtain c where c: "mapped1 (Call (Dma_call c) a) = [a]" "unmapped1 (Call (Dma_call c) a) = []"
      and run: "run_state (xmit_frags e q skb nr (i # is) cb) s =
       (Inl i, s\<lparr>trace := Call (Dma_call c) a # trace s,
            tx_rings := (tx_rings s)(q := ?r\<lparr>t_write_ptr := ring_pos ?r (Suc w)\<rparr>),
            mib := (mib s)(''tx_dma_failed'' := mib s ''tx_dma_failed'' + 1)\<rparr>)"
      using i0 by (auto simp del: xmit_frags.simps)
    have "frags_failed e q skb nr (i # is) cb w s"
      unfolding frags_failed_def run using c True src
      by (intro exI [of _ "[]"] exI [of _ "[Call (Dma_call c) a]"] exI [of _ a])
         (simp add: history_Cons, simp add: mapped_def fun_upd_fold)
    then show ?thesis ..
  next
    case False
    let ?s1 = "posted_state s q w (Suc w) skb [(a, l)] evs"
    have e1: "run_state (xmit_frags e q skb nr (i # is) cb) s = run_state (xmit_frags e q skb nr is (ring_pos ?r w)) ?s1"
      using step [OF False] i0 by (simp del: xmit_frags.simps)
    have ps: "posted_state ?s1 q (Suc w) v skb as evs' = posted_state s q w v skb ((a, l) # as) (evs' @ evs)" for v as evs'
      by simp
    have rp: "ring_pos (tx_rings ?s1 q) v = ring_pos ?r v" for v by simp
    have "frags_posted e q skb nr is (ring_pos ?r w) (Suc w) ?s1 \<or> frags_failed e q skb nr is (ring_pos ?r w) (Suc w) ?s1"
      using Cons.prems by (intro Cons.IH) simp_all
    then show ?thesis
    proof
      assume "frags_posted e q skb nr is (ring_pos ?r w) (Suc w) ?s1"
      then obtain as evs' where IH: "length as = length is" "quiet evs'" "mapped evs' = map fst as"
        and raw: "run_state (xmit_frags e q skb nr is (ring_pos ?r w)) ?s1 =
          (Inr (if is = [] then ring_pos ?r w else ring_pos (tx_rings ?s1 q) (Suc w + length is - 1)),
           posted_state ?s1 q (Suc w) (Suc w + length is) skb as evs')"
        unfolding frags_posted_def by blast
      have IH4: "run_state (xmit_frags e q skb nr is (ring_pos ?r w)) ?s1 =
          (Inr (ring_pos ?r (w + length is)), posted_state s q w (w + Suc (length is)) skb ((a, l) # as) (evs' @ evs))"
        unfolding raw by (cases "is") simp_all
      then have "frags_posted e q skb nr (i # is) cb w s"
        unfolding frags_posted_def e1 IH4 using IH ev [OF False]
        by (intro exI [of _ "(a, l) # as"] exI [of _ "evs' @ evs"]) (simp add: history_append)
      then show ?thesis ..
    next
      assume "frags_failed e q skb nr is (ring_pos ?r w) (Suc w) ?s1"
      then obtain as evs' a' where IH: "length as < length is" "quiet evs'" "mapped evs' = map fst as @ [a']"
        "dma_mapping_error e a'" "\<exists>c tr. a' = kresult e (Dma_call c) tr"
        and raw: "run_state (xmit_frags e q skb nr is (ring_pos ?r w)) ?s1 =
          (Inl (is ! length as), (posted_state ?s1 q (Suc w) (Suc (Suc w + length as)) skb as evs')
             \<lparr>mib := (mib ?s1)(''tx_dma_failed'' := mib ?s1 ''tx_dma_failed'' + 1)\<rparr>)"
        unfolding frags_failed_def by blast
      have IH6: "run_state (xmit_frags e q skb nr is (ring_pos ?r w)) ?s1 =
          (Inl (is ! length as), (posted_state s q w (Suc (w + Suc (length as))) skb ((a, l) # as) (evs' @ evs))
             \<lparr>mib := (mib s)(''tx_dma_failed'' := mib s ''tx_dma_failed'' + 1)\<rparr>)"
        unfolding raw by simp
      have "frags_failed e q skb nr (i # is) cb w s"
        unfolding frags_failed_def e1 IH6 using IH ev [OF False]
        by (intro exI [of _ "(a, l) # as"] exI [of _ "evs' @ evs"] exI [of _ a']) (simp add: history_append)
      then show ?thesis ..
    qed
  qed
qed

lemma put_cbs_other:
  "i \<notin> ring_slots r w (length as) \<Longrightarrow> put_cbs r w skb as f i = f i"
  by (induction as arbitrary: w f) (simp_all add: ring_slots_Suc)

lemma put_cbs_at:
  assumes "tx_geom r" "length as \<le> unat (t_size r)" "k < length as"
  shows "put_cbs r w skb as f (ring_pos r (w + k)) =
    (f (ring_pos r (w + k)))\<lparr>cb_dma_addr := fst (as ! k), cb_dma_len := snd (as ! k), cb_skb := skb\<rparr>"
  using assms(2,3)
proof (induction as arbitrary: w f k)
  case (Cons a as)
  show ?case
  proof (cases k)
    case 0
    then show ?thesis
      using put_cbs_other [OF ring_pos_notin_slots [OF assms(1)]] Cons.prems by simp
  next
    case (Suc k')
    then have "ring_pos r (w + k) \<noteq> ring_pos r w"
      using Cons.prems ring_pos_inj [OF assms(1), of k 0 w] by auto
    then show ?thesis
      using Suc Cons.IH [of k' "Suc w"] Cons.prems by simp
  qed
qed simp

text \<open>The whole packet: all its fragments are mapped, or fragment \<open>length as\<close> is the first that is not.\<close>

abbreviation packet_state :: "bcmgenet_priv \<Rightarrow> u32 \<Rightarrow> nat \<Rightarrow> nat \<Rightarrow> u64 \<Rightarrow> (u64 \<times> u32) list \<Rightarrow> event list \<Rightarrow> bcmgenet_priv" where
  "packet_state s q w v skb as evs \<equiv>
     s\<lparr>trace := evs @ trace s, skb_cb := (skb_cb s)(skb := (skb_cb s skb)\<lparr>first_cb := ring_pos (tx_rings s q) w\<rparr>),
       tx_cbs := put_cbs (tx_rings s q) w skb as (tx_cbs s),
       tx_rings := (tx_rings s)(q := (tx_rings s q)\<lparr>t_write_ptr := ring_pos (tx_rings s q) v\<rparr>)\<rparr>"

definition packet_posted :: "linux_env \<Rightarrow> u32 \<Rightarrow> u64 \<Rightarrow> nat \<Rightarrow> u32 \<Rightarrow> nat \<Rightarrow> bcmgenet_priv \<Rightarrow> bool" where
  "packet_posted e q skb nr cb w s \<longleftrightarrow>
     (\<exists>as evs. length as = Suc nr \<and> quiet evs \<and> mapped evs = map fst as \<and>
        run_state (xmit_frags e q skb nr [0..<Suc nr] cb) s =
          (Inr (ring_pos (tx_rings s q) (w + nr)), packet_state s q w (w + Suc nr) skb as evs))"

definition packet_failed :: "linux_env \<Rightarrow> u32 \<Rightarrow> u64 \<Rightarrow> nat \<Rightarrow> u32 \<Rightarrow> nat \<Rightarrow> bcmgenet_priv \<Rightarrow> bool" where
  "packet_failed e q skb nr cb w s \<longleftrightarrow>
     (\<exists>as evs a. length as \<le> nr \<and> quiet evs \<and> mapped evs = map fst as @ [a] \<and>
        dma_mapping_error e a \<and> (\<exists>c tr. a = kresult e (Dma_call c) tr) \<and>
        run_state (xmit_frags e q skb nr [0..<Suc nr] cb) s =
          (Inl (length as), (packet_state s q w (Suc (w + length as)) skb as evs)
             \<lparr>mib := (mib s)(''tx_dma_failed'' := mib s ''tx_dma_failed'' + 1)\<rparr>))"

lemma xmit_packet_outcome:
  assumes g: "tx_geom (tx_rings s q)" "t_write_ptr (tx_rings s q) = ring_pos (tx_rings s q) w"
  shows "packet_posted e q skb nr cb w s \<or> packet_failed e q skb nr cb w s"
proof -
  let ?r = "tx_rings s q"
  let ?k = "(skb_cb s)(skb := (skb_cb s skb)\<lparr>first_cb := ring_pos ?r w\<rparr>)"
  have idx: "[0..<Suc nr] = 0 # [1..<Suc nr]" by (simp add: upt_conv_Cons)
  obtain a l evs where
    step: "\<not> dma_mapping_error e a \<Longrightarrow>
     run_state (xmit_frags e q skb nr (0 # [1..<Suc nr]) cb) s =
       run_state (xmit_frags e q skb nr [1..<Suc nr] (ring_pos ?r w))
         (s\<lparr>trace := evs @ trace s,
            skb_cb := (if (0::nat) = 0 then ?k else skb_cb s),
            tx_cbs := put_cbs ?r w skb [(a, l)] (tx_cbs s),
            tx_rings := (tx_rings s)(q := ?r\<lparr>t_write_ptr := ring_pos ?r (Suc w)\<rparr>)\<rparr>)"
    and ev: "\<not> dma_mapping_error e a \<Longrightarrow> quiet evs \<and> mapped evs = [a]"
    and fail: "dma_mapping_error e a \<Longrightarrow>
     \<exists>c. mapped1 (Call (Dma_call c) a) = [a] \<and> unmapped1 (Call (Dma_call c) a) = [] \<and>
     run_state (xmit_frags e q skb nr (0 # [1..<Suc nr]) cb) s =
       (Inl 0, s\<lparr>trace := Call (Dma_call c) a # trace s,
            skb_cb := (if (0::nat) = 0 then ?k else skb_cb s),
            tx_rings := (tx_rings s)(q := ?r\<lparr>t_write_ptr := ring_pos ?r (Suc w)\<rparr>),
            mib := (mib s)(''tx_dma_failed'' := mib s ''tx_dma_failed'' + 1)\<rparr>)"
    and src: "\<exists>c tr. a = kresult e (Dma_call c) tr"
    by (rule xmit_frags_step [OF g, of e skb nr 0 "[1..<Suc nr]" cb]) blast
  show ?thesis
  proof (cases "dma_mapping_error e a")
    case True
    with fail obtain c where c: "mapped1 (Call (Dma_call c) a) = [a]" "unmapped1 (Call (Dma_call c) a) = []"
      and run: "run_state (xmit_frags e q skb nr (0 # [1..<Suc nr]) cb) s =
       (Inl 0, s\<lparr>trace := Call (Dma_call c) a # trace s, skb_cb := ?k,
            tx_rings := (tx_rings s)(q := ?r\<lparr>t_write_ptr := ring_pos ?r (Suc w)\<rparr>),
            mib := (mib s)(''tx_dma_failed'' := mib s ''tx_dma_failed'' + 1)\<rparr>)"
      by (auto simp del: xmit_frags.simps upt_Suc)
    have "packet_failed e q skb nr cb w s"
      unfolding packet_failed_def idx run using c True src
      by (intro exI [of _ "[]"] exI [of _ "[Call (Dma_call c) a]"] exI [of _ a])
         (simp add: history_Cons, simp add: mapped_def fun_upd_fold)
    then show ?thesis ..
  next
    case False
    let ?s1 = "packet_state s q w (Suc w) skb [(a, l)] evs"
    have e1: "run_state (xmit_frags e q skb nr [0..<Suc nr] cb) s = run_state (xmit_frags e q skb nr [1..<Suc nr] (ring_pos ?r w)) ?s1"
      unfolding idx using step [OF False] by (simp del: xmit_frags.simps upt_Suc)
    have "frags_posted e q skb nr [1..<Suc nr] (ring_pos ?r w) (Suc w) ?s1 \<or> frags_failed e q skb nr [1..<Suc nr] (ring_pos ?r w) (Suc w) ?s1"
      using g by (intro xmit_frags_outcome) simp_all
    then show ?thesis
    proof
      assume "frags_posted e q skb nr [1..<Suc nr] (ring_pos ?r w) (Suc w) ?s1"
      then obtain as evs' where IH: "length as = length [1..<Suc nr]" "quiet evs'" "mapped evs' = map fst as"
        and raw: "run_state (xmit_frags e q skb nr [1..<Suc nr] (ring_pos ?r w)) ?s1 =
          (Inr (if [1..<Suc nr] = [] then ring_pos ?r w else ring_pos (tx_rings ?s1 q) (Suc w + length [1..<Suc nr] - 1)),
           posted_state ?s1 q (Suc w) (Suc w + length [1..<Suc nr]) skb as evs')"
        unfolding frags_posted_def by blast
      have IH4: "run_state (xmit_frags e q skb nr [1..<Suc nr] (ring_pos ?r w)) ?s1 =
          (Inr (ring_pos ?r (w + nr)), packet_state s q w (w + Suc nr) skb ((a, l) # as) (evs' @ evs))"
        unfolding raw by (cases nr) (simp_all add: Suc_le_eq)
      have "packet_posted e q skb nr cb w s"
        unfolding packet_posted_def e1 IH4 using IH ev [OF False]
        by (intro exI [of _ "(a, l) # as"] exI [of _ "evs' @ evs"]) (simp add: history_append)
      then show ?thesis ..
    next
      assume "frags_failed e q skb nr [1..<Suc nr] (ring_pos ?r w) (Suc w) ?s1"
      then obtain as evs' a' where IH: "length as < length [1..<Suc nr]" "quiet evs'" "mapped evs' = map fst as @ [a']"
        "dma_mapping_error e a'" "\<exists>c tr. a' = kresult e (Dma_call c) tr"
        and raw: "run_state (xmit_frags e q skb nr [1..<Suc nr] (ring_pos ?r w)) ?s1 =
          (Inl ([1..<Suc nr] ! length as), (posted_state ?s1 q (Suc w) (Suc (Suc w + length as)) skb as evs')
             \<lparr>mib := (mib ?s1)(''tx_dma_failed'' := mib ?s1 ''tx_dma_failed'' + 1)\<rparr>)"
        unfolding frags_failed_def by blast
      have nth: "[1..<Suc nr] ! length as = Suc (length as)" using IH(1) by (simp del: upt_Suc)
      have IH6: "run_state (xmit_frags e q skb nr [1..<Suc nr] (ring_pos ?r w)) ?s1 =
          (Inl (Suc (length as)), (packet_state s q w (Suc (w + Suc (length as))) skb ((a, l) # as) (evs' @ evs))
             \<lparr>mib := (mib s)(''tx_dma_failed'' := mib s ''tx_dma_failed'' + 1)\<rparr>)"
        unfolding raw nth by simp
      have "packet_failed e q skb nr cb w s"
        unfolding packet_failed_def e1 IH6 using IH ev [OF False]
        by (intro exI [of _ "(a, l) # as"] exI [of _ "evs' @ evs"] exI [of _ a']) (simp add: history_append del: upt_Suc)
      then show ?thesis ..
    qed
  qed
qed

text \<open>All fragments of a packet are mapped.\<close>

lemma xmit_frags_all:
  assumes ok: "maps_ok e" and g: "tx_geom (tx_rings s q)" "t_write_ptr (tx_rings s q) = ring_pos (tx_rings s q) w"
  obtains as evs where "length as = Suc nr" "quiet evs" "mapped evs = map fst as"
    "run_state (xmit_frags e q skb nr [0..<Suc nr] cb) s =
      (Inr (ring_pos (tx_rings s q) (w + nr)), packet_state s q w (w + Suc nr) skb as evs)"
proof -
  have "\<not> packet_failed e q skb nr cb w s"
    using ok by (auto simp: packet_failed_def maps_ok_def)
  then show thesis
    using xmit_packet_outcome [OF g, of e skb nr cb] that by (auto simp: packet_posted_def simp del: xmit_frags.simps upt_Suc)
qed

section \<open>The transmit status block\<close>

text \<open>Events that leave every account as it is and can be put before any history.\<close>

definition silent :: "event list \<Rightarrow> bool" where
  "silent evs \<longleftrightarrow> evs \<noteq> [] \<and> consumed1 (last evs) = [] \<and> mapped evs = [] \<and> unmapped evs = [] \<and> posted evs = [] \<and> completed evs = []"

lemma silent_history:
  assumes "silent evs"
  shows "mapped (evs @ tr) = mapped tr" "unmapped (evs @ tr) = unmapped tr" "posted (evs @ tr) = posted tr"
    "completed (evs @ tr) = completed tr"
  using assms by (simp_all add: silent_def history_append completed_append)

text \<open>The buffer that is posted: the given one, or its copy with more headroom, or none.\<close>

definition tsb_skb :: "linux_env \<Rightarrow> u64 \<Rightarrow> event list \<Rightarrow> u64" where
  "tsb_skb e skb tr = (if sk_headroom (skb_of e skb tr) < status_64_size
     then kresult e (Skb_call (Skb_realloc_headroom skb status_64_size)) tr else skb)"

definition tsb_events :: "linux_env \<Rightarrow> u64 \<Rightarrow> event list \<Rightarrow> event list" where
  "tsb_events e skb tr =
     (let p = tsb_skb e skb tr;
          re = (if sk_headroom (skb_of e skb tr) < status_64_size
                then [Call (Skb_call (Dev_consume_skb_any skb)) 0, Call (Skb_call (Skb_realloc_headroom skb status_64_size)) p]
                else []);
          pu = Call (Skb_call (Skb_push p status_64_size)) 0 # re;
          k = skb_of e p (pu @ tr)
      in (if sk_csum_partial k then [Call (Skb_call (Set_tx_csum_info p (tsb_csum_info e k))) 0] else []) @ pu)"

lemma tsb_events_silent: "silent (tsb_events e skb tr)"
  by (simp add: silent_def tsb_events_def Let_def mapped_def unmapped_def posted_def is_clone_def history1)

lemma run_add_tsb:
  assumes "skb \<noteq> 0" "tsb_skb e skb (trace s) \<noteq> 0"
  obtains m where "run_state (bcmgenet_add_tsb e skb q) s = (tsb_skb e skb (trace s),
    s\<lparr>trace := tsb_events e skb (trace s) @ trace s,
      skb_cb := (skb_cb s)(tsb_skb e skb (trace s) := skb_cb s skb), mib := m\<rparr>)"
proof (cases "sk_headroom (skb_of e skb (trace s)) < status_64_size")
  case True
  have "run_state (bcmgenet_add_tsb e skb q) s = (tsb_skb e skb (trace s),
    s\<lparr>trace := tsb_events e skb (trace s) @ trace s,
      skb_cb := (skb_cb s)(tsb_skb e skb (trace s) := skb_cb s skb),
      mib := (mib s)(''tx_realloc_tsb'' := mib s ''tx_realloc_tsb'' + 1)\<rparr>)"
    using True assms(2) by (simp add: bcmgenet_add_tsb_def tsb_events_def tsb_skb_def Let_def)
  then show thesis by (rule that)
next
  case False
  have "run_state (bcmgenet_add_tsb e skb q) s = (tsb_skb e skb (trace s),
    s\<lparr>trace := tsb_events e skb (trace s) @ trace s,
      skb_cb := (skb_cb s)(tsb_skb e skb (trace s) := skb_cb s skb), mib := mib s\<rparr>)"
    using False assms by (simp add: bcmgenet_add_tsb_def tsb_events_def tsb_skb_def Let_def)
  then show thesis by (rule that)
qed

lemma run_add_tsb_none:
  assumes "skb \<noteq> 0" "tsb_skb e skb (trace s) = 0"
  obtains evs m st where "run_state (bcmgenet_add_tsb e skb q) s =
    (0, s\<lparr>trace := evs @ trace s, tx_rings := (tx_rings s)(q := (tx_rings s q)\<lparr>t_stats64 := st\<rparr>), mib := m\<rparr>)"
    "silent evs"
proof -
  let ?evs = "[Call (Skb_call (Dev_kfree_skb_any skb)) 0, Call (Skb_call (Skb_realloc_headroom skb status_64_size)) 0]"
  let ?st = "t_stats64 (tx_rings s q)"
  have "run_state (bcmgenet_add_tsb e skb q) s =
    (0, s\<lparr>trace := ?evs @ trace s,
       tx_rings := (tx_rings s)(q := (tx_rings s q)\<lparr>t_stats64 := ?st\<lparr>ts_dropped := ts_dropped ?st + 1\<rparr>\<rparr>),
       mib := (mib s)(''tx_realloc_tsb_failed'' := mib s ''tx_realloc_tsb_failed'' + 1)\<rparr>)"
    using assms by (auto simp: bcmgenet_add_tsb_def tsb_skb_def split: if_splits)
  then show thesis
    by (rule that) (simp add: silent_def mapped_def unmapped_def posted_def is_clone_def history1)
qed

section \<open>Posting a packet\<close>

abbreviation xmit_queue :: "linux_env \<Rightarrow> u64 \<Rightarrow> bcmgenet_priv \<Rightarrow> u32" where
  "xmit_queue e skb s \<equiv> sk_queue_mapping (skb_of e skb (trace s))"

abbreviation xmit_frag_count :: "linux_env \<Rightarrow> u64 \<Rightarrow> bcmgenet_priv \<Rightarrow> nat" where
  "xmit_frag_count e skb s \<equiv> length (sk_frags (skb_of e skb (trace s)))"

text \<open>The buffer \<open>bcmgenet_xmit\<close> posts for \<open>skb\<close>.\<close>

definition xmit_skb :: "linux_env \<Rightarrow> u64 \<Rightarrow> bcmgenet_priv \<Rightarrow> u64" where
  "xmit_skb e skb s = tsb_skb e skb (Call (Spin_lock (Ring_lock (xmit_queue e skb s))) 0 # trace s)"

text \<open>The state in which the fragments are posted.\<close>

lemma xmit_prepared:
  assumes q: "q = xmit_queue e skb s" and nz: "skb \<noteq> 0" "xmit_skb e skb s \<noteq> 0"
    and room: "\<not> t_free_bds (tx_rings s q) \<le> of_nat (xmit_frag_count e skb s) + 1"
  obtains evs K m where "silent evs"
    "\<And>x. x \<noteq> skb \<Longrightarrow> x \<noteq> xmit_skb e skb s \<Longrightarrow> K x = skb_cb s x"
    "bytes_sent (K (xmit_skb e skb s)) = sk_len (skb_of e skb (trace s))"
    "run_state (bcmgenet_xmit e skb) s =
      (let p = xmit_skb e skb s; nr = xmit_frag_count e skb s in
       case run_state (xmit_frags e q p nr [0..<Suc nr] 0) (s\<lparr>trace := evs @ trace s, skb_cb := K, mib := m\<rparr>) of (r, s2) \<Rightarrow>
         (case run_state (case r of Inl i \<Rightarrow> xmit_out_unmap q p i | Inr cb \<Rightarrow> xmit_publish e q p nr cb) s2 of
           (res, s3) \<Rightarrow> (res, emit (Call (Spin_unlock (Ring_lock q)) 0) s3)))"
proof -
  let ?s0 = "s\<lparr>trace := Call (Spin_lock (Ring_lock q)) 0 # trace s,
    skb_cb := (skb_cb s)(skb := (skb_cb s skb)\<lparr>bytes_sent := sk_len (skb_of e skb (trace s))\<rparr>)\<rparr>"
  have p: "tsb_skb e skb (trace ?s0) = xmit_skb e skb s" by (simp add: xmit_skb_def q)
  obtain m where tsb: "run_state (bcmgenet_add_tsb e skb q) ?s0 = (tsb_skb e skb (trace ?s0),
    ?s0\<lparr>trace := tsb_events e skb (trace ?s0) @ trace ?s0,
      skb_cb := (skb_cb ?s0)(tsb_skb e skb (trace ?s0) := skb_cb ?s0 skb), mib := m\<rparr>)"
    using nz p by (auto intro: run_add_tsb [of skb e ?s0 q])
  let ?evs = "tsb_events e skb (trace ?s0) @ [Call (Spin_lock (Ring_lock q)) 0]"
  let ?K = "(skb_cb ?s0)(xmit_skb e skb s := skb_cb ?s0 skb)"
  show thesis
  proof (rule that [of ?evs ?K m])
    show "silent ?evs"
      using tsb_events_silent [of e skb "trace ?s0"]
      by (auto simp: silent_def history_append completed_append) (simp_all add: mapped_def unmapped_def posted_def is_clone_def)
  next
    show "run_state (bcmgenet_xmit e skb) s =
      (let p = xmit_skb e skb s; nr = xmit_frag_count e skb s in
       case run_state (xmit_frags e q p nr [0..<Suc nr] 0) (s\<lparr>trace := ?evs @ trace s, skb_cb := ?K, mib := m\<rparr>) of (r, s2) \<Rightarrow>
         (case run_state (case r of Inl i \<Rightarrow> xmit_out_unmap q p i | Inr cb \<Rightarrow> xmit_publish e q p nr cb) s2 of
           (res, s3) \<Rightarrow> (res, emit (Call (Spin_unlock (Ring_lock q)) 0) s3)))"
      using room nz
      by (simp add: bcmgenet_xmit_def q [symmetric] tsb [unfolded p] Let_def del: upt_Suc split: prod.split sum.split)
  qed (auto simp: p)
qed

lemma run_when:
  "run_state (if c then kdo k else ret ()) s = ((), s\<lparr>trace := (if c then [Call k 0] else []) @ trace s\<rparr>)"
  by simp

lemma run_when_ring:
  "run_state (if c then bcmgenet_tdma_ring_writel e i v r else ret ()) s =
     ((), s\<lparr>trace := (if c then [Wr (native_endian e) (ring_addr GENET_TDMA_REG_OFF i r s) v] else []) @ trace s\<rparr>)"
  by (simp add: bcmgenet_tdma_ring_writel_def)

lemma run_xmit_publish:
  assumes p: "p = take_bit 16 (t_prod_index (tx_rings s q) + (of_nat nr + 1))"
  obtains evs where "silent evs"
    "run_state (xmit_publish e q skb nr cb) s = (NETDEV_TX_OK,
       s\<lparr>trace := evs @ Call (Skb_call (Skb_tx_timestamp skb)) 0 # Call (Skb_call (Skb_pull_raw skb status_64_size)) 0 # trace s,
         skb_cb := (skb_cb s)(skb := (skb_cb s skb)\<lparr>last_cb := cb\<rparr>),
         tx_rings := (tx_rings s)(q := (tx_rings s q)
           \<lparr>t_free_bds := t_free_bds (tx_rings s q) - (of_nat nr + 1), t_prod_index := p\<rparr>)\<rparr>)"
proof -
  let ?r = "(tx_rings s q)\<lparr>t_free_bds := t_free_bds (tx_rings s q) - (of_nat nr + 1), t_prod_index := p\<rparr>"
  let ?ev1 = "Call (Queue_call (Netdev_tx_sent_queue q (bytes_sent (skb_cb s skb)))) 0"
  let ?ev2 = "(if t_free_bds ?r \<le> MAX_SKB_FRAGS (kh e) + 1 then [Call (Queue_call (Netif_tx_stop_queue q)) 0] else []) @ [?ev1]"
  let ?tr = "?ev2 @ Call (Skb_call (Skb_tx_timestamp skb)) 0 # Call (Skb_call (Skb_pull_raw skb status_64_size)) 0 # trace s"
  let ?ev3 = "(if \<not> netdev_xmit_more e ?tr \<or> netif_xmit_stopped e q ?tr
     then [Wr (native_endian e) (ring_addr GENET_TDMA_REG_OFF (t_index (tx_rings s q)) TDMA_PROD_INDEX s) p] else []) @ ?ev2"
  have "run_state (xmit_publish e q skb nr cb) s = (NETDEV_TX_OK,
       s\<lparr>trace := ?ev3 @ Call (Skb_call (Skb_tx_timestamp skb)) 0 # Call (Skb_call (Skb_pull_raw skb status_64_size)) 0 # trace s,
         skb_cb := (skb_cb s)(skb := (skb_cb s skb)\<lparr>last_cb := cb\<rparr>), tx_rings := (tx_rings s)(q := ?r)\<rparr>)"
    unfolding xmit_publish_def assms
    by (simp add: bcmgenet_hide_tsb_def index_mask run_when run_when_ring ring_addr_def GENET_TDMA_REG_OFF_def
        DMA_DESC_SIZE_def cong: if_cong split del: if_split)
  moreover have "silent ?ev3"
    by (simp add: silent_def mapped_def unmapped_def posted_def is_clone_def)
  ultimately show thesis by (intro that)
qed

section \<open>Posting refines appending to the queue\<close>

definition new_descs :: "u64 \<Rightarrow> u32 \<Rightarrow> (u64 \<times> u32) list \<Rightarrow> tx_desc list" where
  "new_descs p bytes as = map (\<lambda>k. \<lparr>d_skb = p, d_addr = fst (as ! k), d_len = snd (as ! k), d_first = (k = 0),
     d_last = (Suc k = length as), d_bytes = bytes\<rparr>) [0..<length as]"

lemma new_descs_simps [simp]:
  "length (new_descs p b as) = length as" "map d_addr (new_descs p b as) = map fst as"
  "k < length as \<Longrightarrow> d_skb (new_descs p b as ! k) = p" "k < length as \<Longrightarrow> d_addr (new_descs p b as ! k) = fst (as ! k)"
  "k < length as \<Longrightarrow> d_len (new_descs p b as ! k) = snd (as ! k)" "k < length as \<Longrightarrow> d_first (new_descs p b as ! k) = (k = 0)"
  "k < length as \<Longrightarrow> d_last (new_descs p b as ! k) = (Suc k = length as)" "k < length as \<Longrightarrow> d_bytes (new_descs p b as ! k) = b"
  by (simp_all add: new_descs_def o_def) (rule nth_equalityI, simp_all)

lemma new_descs_last: "as \<noteq> [] \<Longrightarrow> map d_skb (filter d_last (new_descs p b as)) = [p]"
proof -
  assume "as \<noteq> []"
  then obtain n where n: "length as = Suc n" by (cases as) auto
  have "filter (\<lambda>k. Suc k = length as) [0..<length as] = [n]"
    unfolding n by (simp add: filter_empty_conv)
  then show ?thesis by (simp add: new_descs_def filter_map o_def)
qed

text \<open>
  The relation holds of the longer queue when its slots are written and the ring fields advanced; the
  control buffers of the packets already in flight are not touched.
\<close>

lemma tx_rel_posted:
  assumes rel: "tx_rel s q h D" and len: "as \<noteq> []" "length D + length as \<le> unat (t_size (tx_rings s q))"
    and p: "p \<noteq> 0" "\<And>d. d \<in> set D \<Longrightarrow> skb_cb s' (d_skb d) = skb_cb s (d_skb d)"
    and k: "first_cb (skb_cb s' p) = ring_pos (tx_rings s q) (h + length D)"
      "last_cb (skb_cb s' p) = ring_pos (tx_rings s q) (h + length D + (length as - 1))" "bytes_sent (skb_cb s' p) = b"
    and cbs: "tx_cbs s' = put_cbs (tx_rings s q) (h + length D) p as (tx_cbs s)"
    and ring: "tx_rings s' q = (tx_rings s q)\<lparr>t_write_ptr := ring_pos (tx_rings s q) (h + length D + length as),
      t_free_bds := t_free_bds (tx_rings s q) - of_nat (length as),
      t_prod_index := take_bit 16 (t_prod_index (tx_rings s q) + of_nat (length as))\<rparr>"
  shows "tx_rel s' q h (D @ new_descs p b as)"
proof -
  let ?r = "tx_rings s q" and ?n = "length D" and ?m = "length as"
  note d = tx_relD [OF rel]
  obtain m where m: "length as = Suc m" using len(1) by (cases as) auto
  have pos: "ring_pos (tx_rings s' q) j = ring_pos ?r j" for j by (simp add: ring)
  have slot: "ring_pos ?r (h + i) \<in> ring_slots ?r (h + ?n) ?m \<longleftrightarrow> ?n \<le> i \<and> i < ?n + ?m" if "i < unat (t_size ?r)" for i
  proof (cases "?n \<le> i")
    case True
    then obtain j where j: "i = ?n + j" using le_Suc_ex by blast
    have sz: "?m \<le> unat (t_size ?r)" "j < unat (t_size ?r)" using len(2) that j by auto
    show ?thesis using ring_slots_iff [OF d(1) sz, of "h + ?n"] j by (simp add: add.assoc)
  next
    case False
    have "ring_pos ?r (h + i) \<noteq> ring_pos ?r (h + (?n + j))" if "j < ?m" for j
      using ring_pos_inj [OF d(1), of i "?n + j" h] that len(2) False \<open>i < unat (t_size ?r)\<close> by auto
    then show ?thesis
      using False by (fastforce simp: ring_slots_def add.assoc dest!: le_Suc_ex)
  qed
  have old: "tx_cbs s' (ring_pos ?r (h + i)) = tx_cbs s (ring_pos ?r (h + i))"
    if "i < ?n \<or> ?n + ?m \<le> i" "i < unat (t_size ?r)" for i
    using put_cbs_other [of "ring_pos ?r (h + i)" ?r "h + ?n" as p "tx_cbs s"] slot [OF that(2)] that(1) cbs by auto
  have hold: "slots_hold s' q h (D @ new_descs p b as)"
    unfolding slots_hold_def pos
  proof (intro allI impI)
    fix i assume i: "i < length (D @ new_descs p b as)"
    then have isz: "i < unat (t_size ?r)" using len(2) by simp
    show "cb_holds s' (ring_pos ?r (h + i)) ((D @ new_descs p b as) ! i)"
    proof (cases "i < ?n")
      case True
      then have "cb_holds s (ring_pos ?r (h + i)) (D ! i)" using d(9) by (simp add: slots_hold_def)
      then show ?thesis
        using True old [OF _ isz] p(2) [of "D ! i"] by (simp add: cb_holds_def nth_append)
    next
      case False
      then obtain j where j: "i = ?n + j" "j < ?m" using i by (auto dest!: leI le_Suc_ex)
      have inj: "ring_pos ?r (h + ?n + j) = ring_pos ?r (h + ?n + j') \<longleftrightarrow> j = j'" if "j' < ?m" for j'
        using ring_pos_inj [OF d(1), of j j' "h + ?n"] len(2) j(2) that by auto
      show ?thesis
        using j put_cbs_at [OF d(1) _ j(2), of "h + ?n" p "tx_cbs s"] len p(1) k inj [of 0] inj [of m] cbs m
        by (simp add: cb_holds_def nth_append add.assoc)
    qed
  qed
  have free: "cb_free s' (ring_pos ?r (h + i))" if "?n + ?m \<le> i" "i < unat (t_size ?r)" for i
    using old [of i] d(10) [of i] that by (simp add: cb_free_def)
  have idx: "t_prod_index (tx_rings s' q) = take_bit 16 (t_c_index ?r + of_nat (?n + ?m))"
    using index_post [of "t_c_index ?r" ?n ?m] d(8) by (simp add: ring)
  show ?thesis
    unfolding tx_rel_def pos
    using d hold free idx len(2) by (simp add: ring add.assoc)
qed

lemma free_bds_nat:
  assumes "tx_rel s q h D"
  shows "unat (t_free_bds (tx_rings s q)) = unat (t_size (tx_rings s q)) - length D"
proof -
  note d = tx_relD [OF assms]
  have un: "unat (of_nat (length D) :: u32) = length D"
    using d(4,5) by (simp add: unsigned_of_nat take_bit_nat_eq_self)
  have "of_nat (length D) \<le> t_size (tx_rings s q)"
    using d(4) un by (simp add: word_le_nat_alt)
  then show ?thesis using un d(6) by (simp add: unat_sub)
qed

lemma room_nat:
  assumes "tx_rel s q h D" "nr < 256"
  shows "t_free_bds (tx_rings s q) \<le> of_nat nr + 1 \<longleftrightarrow> unat (t_size (tx_rings s q)) \<le> length D + Suc nr"
proof -
  have "unat (of_nat nr + 1 :: u32) = Suc nr"
    using assms(2) by (simp add: unsigned_of_nat take_bit_nat_eq_self unat_word_ariths)
  then show ?thesis
    using free_bds_nat [OF assms(1)] tx_relD(4) [OF assms(1)] by (auto simp: word_le_nat_alt)
qed

text \<open>The relation only depends on the ring, its control blocks and the control buffers in flight.\<close>

lemma tx_rel_cong:
  assumes "tx_rel s q h D" "\<And>d. d \<in> set D \<Longrightarrow> skb_cb s' (d_skb d) = skb_cb s (d_skb d)" "tx_cbs s' = tx_cbs s"
    and "tx_rings s' q = (tx_rings s q)\<lparr>t_stats64 := st\<rparr>"
  shows "tx_rel s' q h D"
  using assms unfolding tx_rel_def slots_hold_def cb_holds_def cb_free_def by simp

definition fresh_skb :: "linux_env \<Rightarrow> u64 \<Rightarrow> bcmgenet_priv \<Rightarrow> tx_desc list \<Rightarrow> bool" where
  "fresh_skb e skb s D \<longleftrightarrow> skb \<noteq> 0 \<and> (\<forall>d\<in>set D. d_skb d \<noteq> skb \<and> d_skb d \<noteq> xmit_skb e skb s)"

lemma xmit_busy:
  assumes q: "q = xmit_queue e skb s" and full: "t_free_bds (tx_rings s q) \<le> of_nat (xmit_frag_count e skb s) + 1"
  obtains evs where "run_state (bcmgenet_xmit e skb) s = (NETDEV_TX_BUSY, s\<lparr>trace := evs @ trace s\<rparr>)" "silent evs"
proof -
  let ?evs = "Call (Spin_unlock (Ring_lock q)) 0 #
    (if \<not> netif_tx_queue_stopped e q (Call (Spin_lock (Ring_lock q)) 0 # trace s)
     then [Call (Queue_call (Netif_tx_stop_queue q)) 0] else []) @ [Call (Spin_lock (Ring_lock q)) 0]"
  have "run_state (bcmgenet_xmit e skb) s = (NETDEV_TX_BUSY, s\<lparr>trace := ?evs @ trace s\<rparr>)"
    using full by (simp add: bcmgenet_xmit_def q [symmetric] Let_def)
  then show thesis
    by (rule that) (simp add: silent_def posted_def mapped_def unmapped_def is_clone_def)
qed

lemma silent_locked:
  "silent evs \<Longrightarrow> silent (Call (Spin_unlock (Ring_lock q)) 0 # evs @ [Call (Spin_lock (Ring_lock q)) 0])"
  by (auto simp: silent_def history_append completed_append is_clone_def split: list.splits)
     (simp_all add: mapped_def unmapped_def posted_def)

lemma xmit_none:
  assumes q: "q = xmit_queue e skb s" and nz: "skb \<noteq> 0" and none: "xmit_skb e skb s = 0"
    and room: "\<not> t_free_bds (tx_rings s q) \<le> of_nat (xmit_frag_count e skb s) + 1"
  obtains evs m st where "run_state (bcmgenet_xmit e skb) s = (NETDEV_TX_OK, s\<lparr>trace := evs @ trace s,
      skb_cb := (skb_cb s)(skb := (skb_cb s skb)\<lparr>bytes_sent := sk_len (skb_of e skb (trace s))\<rparr>),
      tx_rings := (tx_rings s)(q := (tx_rings s q)\<lparr>t_stats64 := st\<rparr>), mib := m\<rparr>)" "silent evs"
proof -
  let ?s0 = "s\<lparr>trace := Call (Spin_lock (Ring_lock q)) 0 # trace s,
    skb_cb := (skb_cb s)(skb := (skb_cb s skb)\<lparr>bytes_sent := sk_len (skb_of e skb (trace s))\<rparr>)\<rparr>"
  have p: "tsb_skb e skb (trace ?s0) = 0" using none by (simp add: xmit_skb_def q)
  obtain evs m st where tsb: "run_state (bcmgenet_add_tsb e skb q) ?s0 =
    (0, ?s0\<lparr>trace := evs @ trace ?s0, tx_rings := (tx_rings ?s0)(q := (tx_rings ?s0 q)\<lparr>t_stats64 := st\<rparr>), mib := m\<rparr>)"
    and sil: "silent evs" by (rule run_add_tsb_none [OF nz p])
  let ?evs = "Call (Spin_unlock (Ring_lock q)) 0 # evs @ [Call (Spin_lock (Ring_lock q)) 0]"
  have "run_state (bcmgenet_xmit e skb) s = (NETDEV_TX_OK, s\<lparr>trace := ?evs @ trace s,
      skb_cb := (skb_cb s)(skb := (skb_cb s skb)\<lparr>bytes_sent := sk_len (skb_of e skb (trace s))\<rparr>),
      tx_rings := (tx_rings s)(q := (tx_rings s q)\<lparr>t_stats64 := st\<rparr>), mib := m\<rparr>)"
    using room by (simp add: bcmgenet_xmit_def q [symmetric] Let_def tsb)
  then show thesis by (rule that) (rule silent_locked [OF sil])
qed

lemma posted_events:
  assumes "silent evs1" "quiet evs2" "silent evs3"
  shows "let evs = Call (Spin_unlock (Ring_lock q)) 0 # evs3 @ Call (Skb_call (Skb_tx_timestamp p)) 0 #
      Call (Skb_call (Skb_pull_raw p n)) 0 # evs2 @ evs1 in
    posted evs = [p] \<and> mapped evs = mapped evs2 \<and> unmapped evs = [] \<and> completed evs = [] \<and>
    evs \<noteq> [] \<and> consumed1 (last evs) = []"
proof -
  let ?mid = "Call (Skb_call (Skb_tx_timestamp p)) 0 # Call (Skb_call (Skb_pull_raw p n)) 0 # evs2 @ evs1"
  have c2: "completed (evs2 @ evs1) = []"
    using assms(1,2) by (induction evs2) (simp_all add: silent_def is_clone_def)
  note s1 = assms(1) [unfolded silent_def] and s3 = assms(3) [unfolded silent_def]
  have mid: "posted ?mid = [p]" "mapped ?mid = mapped evs2" "unmapped ?mid = []" "completed ?mid = []"
    using s1 c2 quiet_history [OF assms(2)] by (simp_all add: history_Cons history_append) (simp_all add: history1)
  show ?thesis
    using s1 mid silent_history [OF assms(3), of ?mid] by (simp add: Let_def history_Cons)
qed

lemma xmit_posts:
  assumes ok: "maps_ok e" and q: "q = xmit_queue e skb s" and nz: "skb \<noteq> 0" "xmit_skb e skb s \<noteq> 0"
    and g: "tx_geom (tx_rings s q)" "t_write_ptr (tx_rings s q) = ring_pos (tx_rings s q) w"
    and room: "\<not> t_free_bds (tx_rings s q) \<le> of_nat (xmit_frag_count e skb s) + 1"
  obtains as evs K m where "length as = Suc (xmit_frag_count e skb s)"
    "posted evs = [xmit_skb e skb s]" "mapped evs = map fst as" "unmapped evs = []" "completed evs = []"
    "evs \<noteq> []" "consumed1 (last evs) = []"
    "\<And>x. x \<noteq> skb \<Longrightarrow> x \<noteq> xmit_skb e skb s \<Longrightarrow> K x = skb_cb s x"
    "K (xmit_skb e skb s) = \<lparr>first_cb = ring_pos (tx_rings s q) w,
       last_cb = ring_pos (tx_rings s q) (w + xmit_frag_count e skb s), bytes_sent = sk_len (skb_of e skb (trace s))\<rparr>"
    "run_state (bcmgenet_xmit e skb) s = (NETDEV_TX_OK, s\<lparr>trace := evs @ trace s, skb_cb := K,
       tx_cbs := put_cbs (tx_rings s q) w (xmit_skb e skb s) as (tx_cbs s),
       tx_rings := (tx_rings s)(q := (tx_rings s q)\<lparr>t_write_ptr := ring_pos (tx_rings s q) (w + length as),
         t_free_bds := t_free_bds (tx_rings s q) - of_nat (length as),
         t_prod_index := take_bit 16 (t_prod_index (tx_rings s q) + of_nat (length as))\<rparr>), mib := m\<rparr>)"
proof -
  let ?r = "tx_rings s q" and ?nr = "xmit_frag_count e skb s" and ?p = "xmit_skb e skb s"
  obtain evs1 K m where sil: "silent evs1" and K: "\<And>x. x \<noteq> skb \<Longrightarrow> x \<noteq> ?p \<Longrightarrow> K x = skb_cb s x"
    "bytes_sent (K ?p) = sk_len (skb_of e skb (trace s))"
    and run: "run_state (bcmgenet_xmit e skb) s =
    (let p = ?p; nr = ?nr in
     case run_state (xmit_frags e q p nr [0..<Suc nr] 0) (s\<lparr>trace := evs1 @ trace s, skb_cb := K, mib := m\<rparr>) of (r, s2) \<Rightarrow>
       (case run_state (case r of Inl i \<Rightarrow> xmit_out_unmap q p i | Inr cb \<Rightarrow> xmit_publish e q p nr cb) s2 of
         (res, s3) \<Rightarrow> (res, emit (Call (Spin_unlock (Ring_lock q)) 0) s3)))"
    by (rule xmit_prepared [OF q nz room]) blast
  let ?s1 = "s\<lparr>trace := evs1 @ trace s, skb_cb := K, mib := m\<rparr>"
  have g1: "tx_geom (tx_rings ?s1 q)" "t_write_ptr (tx_rings ?s1 q) = ring_pos (tx_rings ?s1 q) w" using g by simp_all
  obtain as evs2 where as: "length as = Suc ?nr" "quiet evs2" "mapped evs2 = map fst as"
    and frags: "run_state (xmit_frags e q ?p ?nr [0..<Suc ?nr] 0) ?s1 =
    (Inr (ring_pos (tx_rings ?s1 q) (w + ?nr)),
     ?s1\<lparr>trace := evs2 @ trace ?s1, skb_cb := (skb_cb ?s1)(?p := (skb_cb ?s1 ?p)\<lparr>first_cb := ring_pos (tx_rings ?s1 q) w\<rparr>),
       tx_cbs := put_cbs (tx_rings ?s1 q) w ?p as (tx_cbs ?s1),
       tx_rings := (tx_rings ?s1)(q := (tx_rings ?s1 q)\<lparr>t_write_ptr := ring_pos (tx_rings ?s1 q) (w + Suc ?nr)\<rparr>)\<rparr>)"
    by (rule xmit_frags_all [OF ok g1])
  let ?s2 = "s\<lparr>trace := evs2 @ evs1 @ trace s, skb_cb := K(?p := (K ?p)\<lparr>first_cb := ring_pos ?r w\<rparr>),
       tx_cbs := put_cbs ?r w ?p as (tx_cbs s),
       tx_rings := (tx_rings s)(q := ?r\<lparr>t_write_ptr := ring_pos ?r (w + Suc ?nr)\<rparr>), mib := m\<rparr>"
  define pi where "pi = take_bit 16 (t_prod_index (tx_rings ?s2 q) + (of_nat ?nr + 1))"
  obtain evs3 where pub: "silent evs3"
    "run_state (xmit_publish e q ?p ?nr (ring_pos ?r (w + ?nr))) ?s2 = (NETDEV_TX_OK,
     ?s2\<lparr>trace := evs3 @ Call (Skb_call (Skb_tx_timestamp ?p)) 0 # Call (Skb_call (Skb_pull_raw ?p status_64_size)) 0 # trace ?s2,
       skb_cb := (skb_cb ?s2)(?p := (skb_cb ?s2 ?p)\<lparr>last_cb := ring_pos ?r (w + ?nr)\<rparr>),
       tx_rings := (tx_rings ?s2)(q := (tx_rings ?s2 q)
         \<lparr>t_free_bds := t_free_bds (tx_rings ?s2 q) - (of_nat ?nr + 1), t_prod_index := pi\<rparr>)\<rparr>)"
    by (rule run_xmit_publish [OF pi_def])
  let ?evs = "Call (Spin_unlock (Ring_lock q)) 0 # evs3 @ Call (Skb_call (Skb_tx_timestamp ?p)) 0 #
      Call (Skb_call (Skb_pull_raw ?p status_64_size)) 0 # evs2 @ evs1"
  let ?K = "K(?p := (K ?p)\<lparr>first_cb := ring_pos ?r w, last_cb := ring_pos ?r (w + ?nr)\<rparr>)"
  have frags': "run_state (xmit_frags e q ?p ?nr [0..<Suc ?nr] 0) ?s1 = (Inr (ring_pos ?r (w + ?nr)), ?s2)"
    unfolding frags by simp
  have run': "run_state (bcmgenet_xmit e skb) s = (NETDEV_TX_OK, s\<lparr>trace := ?evs @ trace s, skb_cb := ?K,
       tx_cbs := put_cbs ?r w ?p as (tx_cbs s),
       tx_rings := (tx_rings s)(q := ?r\<lparr>t_write_ptr := ring_pos ?r (w + length as),
         t_free_bds := t_free_bds ?r - of_nat (length as),
         t_prod_index := take_bit 16 (t_prod_index ?r + of_nat (length as))\<rparr>), mib := m\<rparr>)"
    unfolding run Let_def frags' prod.case sum.case pub(2) by (simp add: pi_def as(1) add.commute)
  show thesis
    using posted_events [OF sil as(2) pub(1), of q ?p status_64_size] K as(1,3)
    by (intro that [of as ?evs ?K m] run') (simp_all add: Let_def)
qed

lemma xmit_refines:
  assumes rel: "tx_rel s q h D" and q: "q = xmit_queue e skb s" and nr: "xmit_frag_count e skb s < 256"
    and ok: "maps_ok e" and fresh: "fresh_skb e skb s D"
  obtains evs new where "trace (snd (run_state (bcmgenet_xmit e skb) s)) = evs @ trace s"
    "tx_rel (snd (run_state (bcmgenet_xmit e skb) s)) q h (D @ new)"
    "posted evs = map d_skb (filter d_last new)" "mapped evs = map d_addr new" "unmapped evs = []" "completed evs = []"
    "evs \<noteq> []" "consumed1 (last evs) = []"
    "fst (run_state (bcmgenet_xmit e skb) s) = (if unat (t_size (tx_rings s q)) \<le> length D + Suc (xmit_frag_count e skb s)
       then NETDEV_TX_BUSY else NETDEV_TX_OK)"
proof -
  let ?r = "tx_rings s q" and ?nr = "xmit_frag_count e skb s" and ?p = "xmit_skb e skb s"
  note d = tx_relD [OF rel]
  have nz: "skb \<noteq> 0" using fresh by (simp add: fresh_skb_def)
  note room = room_nat [OF rel nr]
  consider (busy) "unat (t_size ?r) \<le> length D + Suc ?nr"
    | (none) "\<not> unat (t_size ?r) \<le> length D + Suc ?nr" "?p = 0"
    | (post) "\<not> unat (t_size ?r) \<le> length D + Suc ?nr" "?p \<noteq> 0" by blast
  then show thesis
  proof cases
    case busy
    then obtain evs where "run_state (bcmgenet_xmit e skb) s = (NETDEV_TX_BUSY, s\<lparr>trace := evs @ trace s\<rparr>)" "silent evs"
      using xmit_busy [OF q] room by metis
    then show thesis
      using tx_rel_cong [OF rel, of "s\<lparr>trace := evs @ trace s\<rparr>" "t_stats64 ?r"] busy
      by (intro that [of evs "[]"]) (simp_all add: silent_def)
  next
    case none
    then obtain evs m st where "run_state (bcmgenet_xmit e skb) s = (NETDEV_TX_OK, s\<lparr>trace := evs @ trace s,
      skb_cb := (skb_cb s)(skb := (skb_cb s skb)\<lparr>bytes_sent := sk_len (skb_of e skb (trace s))\<rparr>),
      tx_rings := (tx_rings s)(q := ?r\<lparr>t_stats64 := st\<rparr>), mib := m\<rparr>)" (is "_ = (_, ?s)") "silent evs"
      using xmit_none [OF q nz] room by metis
    moreover have "tx_rel ?s q h D"
      using fresh by (intro tx_rel_cong [OF rel]) (auto simp: fresh_skb_def)
    ultimately show thesis
      using none(1) by (intro that [of evs "[]"]) (simp_all add: silent_def)
  next
    case post
    then have "\<not> t_free_bds ?r \<le> of_nat ?nr + 1" using room by simp
    then obtain as evs K m where as: "length as = Suc ?nr"
      and ev: "posted evs = [?p]" "mapped evs = map fst as" "unmapped evs = []" "completed evs = []" "evs \<noteq> []" "consumed1 (last evs) = []"
      and K: "\<And>x. x \<noteq> skb \<Longrightarrow> x \<noteq> ?p \<Longrightarrow> K x = skb_cb s x"
      "K ?p = \<lparr>first_cb = ring_pos ?r (h + length D), last_cb = ring_pos ?r (h + length D + ?nr), bytes_sent = sk_len (skb_of e skb (trace s))\<rparr>"
      and run: "run_state (bcmgenet_xmit e skb) s = (NETDEV_TX_OK, s\<lparr>trace := evs @ trace s, skb_cb := K,
       tx_cbs := put_cbs ?r (h + length D) ?p as (tx_cbs s),
       tx_rings := (tx_rings s)(q := ?r\<lparr>t_write_ptr := ring_pos ?r (h + length D + length as),
         t_free_bds := t_free_bds ?r - of_nat (length as),
         t_prod_index := take_bit 16 (t_prod_index ?r + of_nat (length as))\<rparr>), mib := m\<rparr>)" (is "_ = (_, ?s)")
      using xmit_posts [OF ok q nz post(2) d(1,3)] by metis
    have ne: "as \<noteq> []" using as by auto
    have "tx_rel ?s q h (D @ new_descs ?p (sk_len (skb_of e skb (trace s))) as)"
      using ne as post K fresh by (intro tx_rel_posted [OF rel]) (auto simp: fresh_skb_def)
    then show thesis
      using ev as post(1) new_descs_last [OF ne]
      by (intro that [of evs "new_descs ?p (sk_len (skb_of e skb (trace s))) as"]) (simp_all add: run)
  qed
qed

end
