(* ===== verification/Linux_Tx_Rewind.thy ===== *)
theory Linux_Tx_Rewind
  imports Linux_Tx_Post
begin

text \<open>
  The two loops of the Linux driver that take the write pointer of a transmit ring back: the error path of
  \<open>bcmgenet_xmit\<close> and the loop of \<open>bcmgenet_tx_reclaim\<close> that drops what was not sent.
\<close>

section \<open>Rewinding the write pointer\<close>

text \<open>What \<open>bcmgenet_free_tx_cb\<close> does to any control block.\<close>

definition freed :: "enet_cb \<Rightarrow> u64 list" where
  "freed c = (if cb_skb c = 0 \<and> cb_dma_addr c = 0 then [] else [cb_dma_addr c])"

lemma free_tx_cb_any:
  obtains evs x where "mapped evs = []" "posted evs = []" "unmapped evs = freed (tx_cbs s i)"
    "run_state (bcmgenet_free_tx_cb i) s =
      (x, s\<lparr>trace := evs @ trace s, tx_cbs := (tx_cbs s)(i := cleared (tx_cbs s i))\<rparr>)"
proof -
  let ?c = "tx_cbs s i"
  let ?page = "Call (Dma_call (Dma_unmap_page (cb_dma_addr ?c) (cb_dma_len ?c) DMA_TO_DEVICE)) 0"
  let ?single = "Call (Dma_call (Dma_unmap_single (cb_dma_addr ?c) (cb_dma_len ?c) DMA_TO_DEVICE)) 0"
  have one: "mapped [?page] = []" "posted [?page] = []" "unmapped [?page] = [cb_dma_addr ?c]"
    "mapped [?single] = []" "posted [?single] = []" "unmapped [?single] = [cb_dma_addr ?c]"
    by (simp_all add: mapped_def posted_def unmapped_def history1)
  consider (skb) "cb_skb ?c \<noteq> 0" | (page) "cb_skb ?c = 0" "cb_dma_addr ?c \<noteq> 0" | (none) "cb_skb ?c = 0" "cb_dma_addr ?c = 0" by blast
  then show thesis
  proof cases
    case skb
    then show thesis
      using one by (cases "i = first_cb (skb_cb s (cb_skb ?c))")
        (auto intro: that [of "[?single]"] that [of "[?page]"] simp: bcmgenet_free_tx_cb_def Let_def freed_def)
  next
    case page
    then have eq: "?c\<lparr>cb_dma_addr := 0\<rparr> = cleared ?c" by simp
    have "run_state (bcmgenet_free_tx_cb i) s =
      (0, s\<lparr>trace := [?page] @ trace s, tx_cbs := (tx_cbs s)(i := ?c\<lparr>cb_dma_addr := 0\<rparr>)\<rparr>)"
      using page by (simp add: bcmgenet_free_tx_cb_def Let_def)
    then show thesis
      unfolding eq using one page by (intro that [of "[?page]" 0]) (auto simp: freed_def)
  next
    case none
    then have "cleared ?c = ?c" by simp
    then have "(tx_cbs s)(i := cleared ?c) = tx_cbs s" by (simp only: fun_upd_triv)
    with none show thesis
      by (intro that [of "[]" 0])
        (simp_all add: bcmgenet_free_tx_cb_def freed_def mapped_def posted_def unmapped_def)
  qed
qed

text \<open>
  The write pointer goes back from \<open>w + n\<close> to \<open>w\<close>.  Because \<open>bcmgenet_put_txcb\<close> returns the block the
  pointer leaves, the blocks that are freed are \<open>w + n\<close> down to \<open>w + 1\<close>.
\<close>

definition rewound :: "bcmgenet_priv \<Rightarrow> u32 \<Rightarrow> nat \<Rightarrow> nat \<Rightarrow> bcmgenet_priv \<Rightarrow> bool" where
  "rewound s q w n s' \<longleftrightarrow> (\<exists>evs. mapped evs = [] \<and> posted evs = [] \<and>
     unmapped evs = concat (map (\<lambda>j. freed (tx_cbs s (ring_pos (tx_rings s q) (w + j)))) (rev [1..<Suc n])) \<and>
     s' = s\<lparr>trace := evs @ trace s, tx_cbs := clear_cbs (ring_slots (tx_rings s q) (Suc w) n) (tx_cbs s),
       tx_rings := (tx_rings s)(q := (tx_rings s q)\<lparr>t_write_ptr := ring_pos (tx_rings s q) w\<rparr>)\<rparr>)"

definition rewindable :: "bcmgenet_priv \<Rightarrow> u32 \<Rightarrow> nat \<Rightarrow> nat \<Rightarrow> bool" where
  "rewindable s q w n \<longleftrightarrow> tx_geom (tx_rings s q) \<and>
     t_write_ptr (tx_rings s q) = ring_pos (tx_rings s q) (w + n) \<and> n \<le> unat (t_size (tx_rings s q))"

lemma rewound_0: "rewindable s q w 0 \<Longrightarrow> rewound s q w 0 s"
proof -
  assume "rewindable s q w 0"
  then have "(tx_rings s)(q := (tx_rings s q)\<lparr>t_write_ptr := ring_pos (tx_rings s q) w\<rparr>) = tx_rings s"
    by (simp add: rewindable_def fun_upd_idem)
  then show ?thesis unfolding rewound_def
    by (intro exI [of _ "[]"]) (simp add: mapped_def posted_def unmapped_def)
qed

lemma rewind_step:
  assumes "rewindable s q w (Suc n)"
  obtains i s0 x s1 where "run_state (bcmgenet_put_txcb q) s = (i, s0)" "run_state (bcmgenet_free_tx_cb i) s0 = (x, s1)"
    "\<And>tr. rewindable (s1\<lparr>trace := tr\<rparr>) q w n"
    "\<And>ex s'. mapped ex = [] \<Longrightarrow> posted ex = [] \<Longrightarrow> unmapped ex = [] \<Longrightarrow>
       rewound (s1\<lparr>trace := ex @ trace s1\<rparr>) q w n s' \<Longrightarrow> rewound s q w (Suc n) s'"
proof -
  let ?r = "tx_rings s q"
  let ?i = "ring_pos ?r (w + Suc n)"
  let ?s0 = "s\<lparr>tx_rings := (tx_rings s)(q := ?r\<lparr>t_write_ptr := ring_pos ?r (w + n)\<rparr>)\<rparr>"
  have g: "tx_geom ?r" and sz: "Suc n \<le> unat (t_size ?r)" using assms by (simp_all add: rewindable_def)
  have put: "run_state (bcmgenet_put_txcb q) s = (?i, ?s0)"
    using run_put_txcb [of s q "w + n"] assms by (simp add: rewindable_def)
  obtain ev x where ev: "mapped ev = []" "posted ev = []" "unmapped ev = freed (tx_cbs ?s0 ?i)"
    and free: "run_state (bcmgenet_free_tx_cb ?i) ?s0 = (x, ?s0\<lparr>trace := ev @ trace ?s0, tx_cbs := (tx_cbs ?s0)(?i := cleared (tx_cbs ?s0 ?i))\<rparr>)"
    by (rule free_tx_cb_any)
  let ?s1 = "s\<lparr>trace := ev @ trace s, tx_cbs := (tx_cbs s)(?i := cleared (tx_cbs s ?i)),
    tx_rings := (tx_rings s)(q := ?r\<lparr>t_write_ptr := ring_pos ?r (w + n)\<rparr>)\<rparr>"
  have ne: "ring_pos ?r (w + j) \<noteq> ?i" if "0 < j" "j < Suc n" for j
  proof
    assume "ring_pos ?r (w + j) = ?i"
    moreover have "j - 1 < unat (t_size ?r)" "n < unat (t_size ?r)" "w + j = Suc w + (j - 1)" "w + Suc n = Suc w + n"
      using that sz by linarith+
    ultimately have "j - 1 = n" using ring_pos_inj [OF g, of "j - 1" n "Suc w"] by metis
    then show False using that by linarith
  qed
  have same: "map (\<lambda>j. freed (tx_cbs (?s1\<lparr>trace := tr\<rparr>) (ring_pos (tx_rings (?s1\<lparr>trace := tr\<rparr>) q) (w + j)))) (rev [1..<Suc n]) =
      map (\<lambda>j. freed (tx_cbs s (ring_pos ?r (w + j)))) (rev [1..<Suc n])" for tr
    by (rule map_cong [OF refl]) (use ne in \<open>auto simp del: upt_Suc\<close>)
  have ni: "?i \<notin> ring_slots ?r (Suc w) n"
    using ring_slots_iff [OF g, of n n "Suc w"] sz by simp
  have sl: "ring_slots ?r (Suc w) (Suc n) = insert ?i (ring_slots ?r (Suc w) n)"
    by (auto simp: ring_slots_def less_Suc_eq)
  have rev: "rev [1..<Suc (Suc n)] = Suc n # rev [1..<Suc n]" by simp
  show thesis
  proof (rule that [OF put])
    show "run_state (bcmgenet_free_tx_cb ?i) ?s0 = (x, ?s1)" using free by simp
  next
    show "rewindable (?s1\<lparr>trace := tr\<rparr>) q w n" for tr using assms by (simp add: rewindable_def)
  next
    fix ex s'
    assume ex: "mapped ex = []" "posted ex = []" "unmapped ex = []"
    assume "rewound (?s1\<lparr>trace := ex @ trace ?s1\<rparr>) q w n s'"
    then obtain evs where IH: "mapped evs = []" "posted evs = []"
      "unmapped evs = concat (map (\<lambda>j. freed (tx_cbs s (ring_pos ?r (w + j)))) (rev [1..<Suc n]))"
      and s': "s' = (?s1\<lparr>trace := ex @ trace ?s1\<rparr>)\<lparr>trace := evs @ trace (?s1\<lparr>trace := ex @ trace ?s1\<rparr>),
         tx_cbs := clear_cbs (ring_slots (tx_rings (?s1\<lparr>trace := ex @ trace ?s1\<rparr>) q) (Suc w) n) (tx_cbs (?s1\<lparr>trace := ex @ trace ?s1\<rparr>)),
         tx_rings := (tx_rings (?s1\<lparr>trace := ex @ trace ?s1\<rparr>))(q := (tx_rings (?s1\<lparr>trace := ex @ trace ?s1\<rparr>) q)
           \<lparr>t_write_ptr := ring_pos (tx_rings (?s1\<lparr>trace := ex @ trace ?s1\<rparr>) q) w\<rparr>)\<rparr>"
      unfolding rewound_def same by blast
    have "unmapped (evs @ ex @ ev) = concat (map (\<lambda>j. freed (tx_cbs s (ring_pos ?r (w + j)))) (rev [1..<Suc (Suc n)]))"
      unfolding history_append IH(3) rev using ev(3) ex(3) by (simp del: upt_Suc)
    moreover have "s' = s\<lparr>trace := (evs @ ex @ ev) @ trace s, tx_cbs := clear_cbs (ring_slots ?r (Suc w) (Suc n)) (tx_cbs s),
       tx_rings := (tx_rings s)(q := ?r\<lparr>t_write_ptr := ring_pos ?r w\<rparr>)\<rparr>"
      unfolding s' sl using clear_cbs_insert [OF ni, of "tx_cbs s"] by simp
    moreover have "mapped (evs @ ex @ ev) = []" "posted (evs @ ex @ ev) = []"
      using IH(1,2) ev(1,2) ex by (simp_all add: history_append)
    ultimately show "rewound s q w (Suc n) s'"
      unfolding rewound_def by blast
  qed
qed

lemma run_unmap_frags:
  "rewindable s q w n \<Longrightarrow> rewound s q w n (snd (run_state (unmap_frags q n) s))"
proof (induction n arbitrary: s)
  case 0
  then show ?case by (simp add: rewound_0)
next
  case (Suc n)
  obtain i s0 x s1 where r: "run_state (bcmgenet_put_txcb q) s = (i, s0)" "run_state (bcmgenet_free_tx_cb i) s0 = (x, s1)"
    "\<And>tr. rewindable (s1\<lparr>trace := tr\<rparr>) q w n"
    and step: "\<And>ex s'. mapped ex = [] \<Longrightarrow> posted ex = [] \<Longrightarrow> unmapped ex = [] \<Longrightarrow>
       rewound (s1\<lparr>trace := ex @ trace s1\<rparr>) q w n s' \<Longrightarrow> rewound s q w (Suc n) s'"
    by (rule rewind_step [OF Suc.prems]) blast
  show ?case
    using step [of "[]"] Suc.IH [of s1] r(3) [of "trace s1"] by (simp add: r(1,2)) (simp add: mapped_def posted_def unmapped_def)
qed

lemma run_tx_drop_loop:
  "rewindable s q w n \<Longrightarrow> rewound s q w n (snd (run_state (tx_drop_loop q n skb) s))"
proof (induction n arbitrary: s skb)
  case 0
  then show ?case by (simp add: rewound_0)
next
  case (Suc n)
  obtain i s0 x s1 where r: "run_state (bcmgenet_put_txcb q) s = (i, s0)" "run_state (bcmgenet_free_tx_cb i) s0 = (x, s1)"
    "\<And>tr. rewindable (s1\<lparr>trace := tr\<rparr>) q w n"
    and step: "\<And>ex s'. mapped ex = [] \<Longrightarrow> posted ex = [] \<Longrightarrow> unmapped ex = [] \<Longrightarrow>
       rewound (s1\<lparr>trace := ex @ trace s1\<rparr>) q w n s' \<Longrightarrow> rewound s q w (Suc n) s'"
    by (rule rewind_step [OF Suc.prems]) blast
  let ?k = "cb_skb (tx_cbs s0 i)"
  let ?c = "Call (Skb_call (Dev_consume_skb_any ?k)) 0"
  have c: "mapped [?c] = []" "posted [?c] = []" "unmapped [?c] = []" "mapped [] = []" "posted [] = []" "unmapped [] = []"
    by (simp_all add: mapped_def posted_def unmapped_def history1)
  have t: "s1\<lparr>trace := trace s1\<rparr> = s1" by simp
  show ?case
  proof (cases "?k \<noteq> 0 \<and> i = first_cb (skb_cb s1 ?k)")
    case True
    then show ?thesis
      using step [OF c(1-3)] Suc.IH [OF r(3) [of "?c # trace s1"], of 0] by (simp add: r(1,2))
  next
    case False
    then show ?thesis
      using step [OF c(4-6)] Suc.IH [OF r(3) [of "trace s1"], of ?k] by (simp add: r(1,2)) blast
  qed
qed

lemma put_cbs_cleared_rest:
  assumes g: "tx_geom r" and n: "length as < unat (t_size r)" "as \<noteq> []"
    and free: "\<And>k. k \<le> length as \<Longrightarrow> cb_skb (f (ring_pos r (w + k))) = 0 \<and> cb_dma_addr (f (ring_pos r (w + k))) = 0"
    and p: "p \<noteq> 0"
  shows "concat (map (\<lambda>j. freed (put_cbs r w p as f (ring_pos r (w + j)))) (rev [1..<Suc (length as)])) = rev (tl (map fst as))"
proof -
  have last: "freed (put_cbs r w p as f (ring_pos r (w + length as))) = []"
    using put_cbs_other [of "ring_pos r (w + length as)" r w as p f] ring_slots_iff [OF g, of "length as" "length as" w] n free [of "length as"]
    by (simp add: freed_def)
  have each: "freed (put_cbs r w p as f (ring_pos r (w + j))) = [fst (as ! j)]" if "j < length as" for j
    using put_cbs_at [OF g _ that, of w p f] n that p by (simp add: freed_def)
  have idx: "[1..<Suc (length as)] = [1..<length as] @ [length as]" using n(2) by (simp add: Suc_le_eq)
  have m: "map (\<lambda>j. freed (put_cbs r w p as f (ring_pos r (w + j)))) (rev [1..<length as]) =
      map (\<lambda>j. [fst (as ! j)]) (rev [1..<length as])"
    by (rule map_cong [OF refl]) (use each in auto)
  have c: "concat (map (\<lambda>j. [g j]) xs) = map g xs" for g :: "nat \<Rightarrow> u64" and xs by (induction xs) simp_all
  have tl: "map (\<lambda>j. fst (as ! j)) [1..<length as] = tl (map fst as)"
    by (rule nth_equalityI) (simp_all add: nth_tl)
  have "concat (map (\<lambda>j. freed (put_cbs r w p as f (ring_pos r (w + j)))) (rev [1..<length as])) = rev (tl (map fst as))"
    unfolding m c by (simp only: rev_map [symmetric] tl)
  then show ?thesis
    unfolding idx by (simp add: last del: map_map)
qed

lemma run_unit: "run_state m s = ((), snd (run_state m s))" for m :: "unit drv"
  by (metis old.unit.exhaust surjective_pairing)

lemma xmit_unmaps:
  assumes rel: "tx_rel s q h D" and q: "q = xmit_queue e skb s" and nr: "xmit_frag_count e skb s < 256"
    and nz: "skb \<noteq> 0" "xmit_skb e skb s \<noteq> 0"
    and room: "length D + Suc (xmit_frag_count e skb s) < unat (t_size (tx_rings s q))"
  obtains (posts) evs where "trace (snd (run_state (bcmgenet_xmit e skb) s)) = evs @ trace s" "posted evs \<noteq> []"
  | (fails) as a evs where "posted evs = []" "mapped evs = map fst as @ [a]" "unmapped evs = rev (tl (map fst as))"
    "Call (Skb_call (Dev_kfree_skb (xmit_skb e skb s))) 0 \<in> set evs"
    "fst (run_state (bcmgenet_xmit e skb) s) = NETDEV_TX_OK"
    "trace (snd (run_state (bcmgenet_xmit e skb) s)) = evs @ trace s"
    "tx_rings (snd (run_state (bcmgenet_xmit e skb) s)) = tx_rings s"
    "tx_cbs (snd (run_state (bcmgenet_xmit e skb) s)) =
       clear_cbs (ring_slots (tx_rings s q) (Suc (h + length D)) (length as))
         (put_cbs (tx_rings s q) (h + length D) (xmit_skb e skb s) as (tx_cbs s))"
    "length as \<le> xmit_frag_count e skb s"
proof -
  let ?r = "tx_rings s q" and ?nr = "xmit_frag_count e skb s" and ?p = "xmit_skb e skb s" and ?w = "h + length D"
  note d = tx_relD [OF rel]
  have room': "\<not> t_free_bds ?r \<le> of_nat ?nr + 1" using room_nat [OF rel nr] room by simp
  obtain evs1 K m where sil: "silent evs1"
    and run: "run_state (bcmgenet_xmit e skb) s =
    (let p = ?p; nr = ?nr in
     case run_state (xmit_frags e q p nr [0..<Suc nr] 0) (s\<lparr>trace := evs1 @ trace s, skb_cb := K, mib := m\<rparr>) of (r, s2) \<Rightarrow>
       (case run_state (case r of Inl i \<Rightarrow> xmit_out_unmap q p i | Inr cb \<Rightarrow> xmit_publish e q p nr cb) s2 of
         (res, s3) \<Rightarrow> (res, emit (Call (Spin_unlock (Ring_lock q)) 0) s3)))"
    by (rule xmit_prepared [OF q nz room']) blast
  let ?s1 = "s\<lparr>trace := evs1 @ trace s, skb_cb := K, mib := m\<rparr>"
  have g1: "tx_geom (tx_rings ?s1 q)" "t_write_ptr (tx_rings ?s1 q) = ring_pos (tx_rings ?s1 q) ?w" using d(1,3) by simp_all
  from xmit_packet_outcome [OF g1, of e ?p ?nr 0] show thesis
  proof
    assume "packet_posted e q ?p ?nr 0 ?w ?s1"
    then obtain as evs2 where "length as = Suc ?nr" "quiet evs2" "mapped evs2 = map fst as"
      and raw: "run_state (xmit_frags e q ?p ?nr [0..<Suc ?nr] 0) ?s1 =
          (Inr (ring_pos (tx_rings ?s1 q) (?w + ?nr)), packet_state ?s1 q ?w (?w + Suc ?nr) ?p as evs2)"
      unfolding packet_posted_def by blast
    let ?s2 = "packet_state ?s1 q ?w (?w + Suc ?nr) ?p as evs2"
    define pi where "pi = take_bit 16 (t_prod_index (tx_rings ?s2 q) + (of_nat ?nr + 1))"
    obtain evs3 where pub: "silent evs3"
      "run_state (xmit_publish e q ?p ?nr (ring_pos (tx_rings ?s1 q) (?w + ?nr))) ?s2 = (NETDEV_TX_OK,
       ?s2\<lparr>trace := evs3 @ Call (Skb_call (Skb_tx_timestamp ?p)) 0 # Call (Skb_call (Skb_pull_raw ?p status_64_size)) 0 # trace ?s2,
         skb_cb := (skb_cb ?s2)(?p := (skb_cb ?s2 ?p)\<lparr>last_cb := ring_pos (tx_rings ?s1 q) (?w + ?nr)\<rparr>),
         tx_rings := (tx_rings ?s2)(q := (tx_rings ?s2 q)
           \<lparr>t_free_bds := t_free_bds (tx_rings ?s2 q) - (of_nat ?nr + 1), t_prod_index := pi\<rparr>)\<rparr>)"
      by (rule run_xmit_publish [OF pi_def])
    show thesis
      by (rule posts [of "Call (Spin_unlock (Ring_lock q)) 0 # evs3 @ Call (Skb_call (Skb_tx_timestamp ?p)) 0 #
          Call (Skb_call (Skb_pull_raw ?p status_64_size)) 0 # evs2 @ evs1"])
         (unfold run Let_def raw prod.case sum.case pub(2), simp_all add: history_Cons history_append, simp add: posted1_def)
  next
    assume "packet_failed e q ?p ?nr 0 ?w ?s1"
    then obtain as evs2 a where as: "length as \<le> ?nr" "quiet evs2" "mapped evs2 = map fst as @ [a]"
      and raw: "run_state (xmit_frags e q ?p ?nr [0..<Suc ?nr] 0) ?s1 =
          (Inl (length as), (packet_state ?s1 q ?w (Suc (?w + length as)) ?p as evs2)
             \<lparr>mib := (mib ?s1)(''tx_dma_failed'' := mib ?s1 ''tx_dma_failed'' + 1)\<rparr>)"
      unfolding packet_failed_def by blast
    let ?s2 = "(packet_state ?s1 q ?w (Suc (?w + length as)) ?p as evs2)
             \<lparr>mib := (mib ?s1)(''tx_dma_failed'' := mib ?s1 ''tx_dma_failed'' + 1)\<rparr>"
    let ?s3 = "(packet_state ?s1 q ?w (?w + length as) ?p as evs2)
             \<lparr>mib := (mib ?s1)(''tx_dma_failed'' := mib ?s1 ''tx_dma_failed'' + 1)\<rparr>"
    have put: "run_state (bcmgenet_put_txcb q) ?s2 = (ring_pos ?r (Suc (?w + length as)), ?s3)"
      using run_put_txcb [of ?s2 q "?w + length as"] d(1) by simp
    have "rewindable ?s3 q ?w (length as)"
      using d(1) as(1) room by (simp add: rewindable_def)
    then obtain evs3 where un: "mapped evs3 = []" "posted evs3 = []"
      "unmapped evs3 = concat (map (\<lambda>j. freed (tx_cbs ?s3 (ring_pos (tx_rings ?s3 q) (?w + j)))) (rev [1..<Suc (length as)]))"
      and un4: "snd (run_state (unmap_frags q (length as)) ?s3) = ?s3\<lparr>trace := evs3 @ trace ?s3,
         tx_cbs := clear_cbs (ring_slots (tx_rings ?s3 q) (Suc ?w) (length as)) (tx_cbs ?s3),
         tx_rings := (tx_rings ?s3)(q := (tx_rings ?s3 q)\<lparr>t_write_ptr := ring_pos (tx_rings ?s3 q) ?w\<rparr>)\<rparr>"
      using run_unmap_frags [unfolded rewound_def] by blast
    have ring: "(tx_rings s)(q := ?r\<lparr>t_write_ptr := ring_pos ?r ?w\<rparr>) = tx_rings s"
      using d(3) by (simp add: fun_upd_idem)
    have free: "cb_skb (tx_cbs s (ring_pos ?r (?w + k))) = 0 \<and> cb_dma_addr (tx_cbs s (ring_pos ?r (?w + k))) = 0" if "k \<le> length as" for k
      using d(10) [of "length D + k"] that as(1) room by (simp add: cb_free_def add.assoc)
    have tlu: "unmapped evs3 = rev (tl (map fst as))"
    proof (cases "as = []")
      case True
      then show ?thesis using un(3) by simp
    next
      case False
      show ?thesis
        using un(3) put_cbs_cleared_rest [of ?r as "tx_cbs s" ?w ?p, OF d(1) _ False free nz(2)] as(1) room by (simp del: upt_Suc)
    qed
    let ?evs = "Call (Spin_unlock (Ring_lock q)) 0 # Call (Skb_call (Dev_kfree_skb ?p)) 0 # evs3 @ evs2 @ evs1"
    have fin: "run_state (bcmgenet_xmit e skb) s = (NETDEV_TX_OK, s\<lparr>trace := ?evs @ trace s,
        skb_cb := K(?p := (K ?p)\<lparr>first_cb := ring_pos ?r ?w\<rparr>),
        tx_cbs := clear_cbs (ring_slots ?r (Suc ?w) (length as)) (put_cbs ?r ?w ?p as (tx_cbs s)),
        tx_rings := tx_rings s, mib := m(''tx_dma_failed'' := m ''tx_dma_failed'' + 1)\<rparr>)"
      unfolding run Let_def raw prod.case sum.case xmit_out_unmap_def
      using put ring run_unit [of "unmap_frags q (length as)" ?s3, unfolded un4] by simp
    have acc: "posted ?evs = []" "mapped ?evs = map fst as @ [a]" "unmapped ?evs = rev (tl (map fst as))"
      using un(1,2) tlu as(3) quiet_history [OF as(2)] sil by (simp_all add: history_Cons history_append silent_def) (simp_all add: history1)
    show thesis
      by (rule fails [OF acc]) (simp_all add: fin as(1))
  qed
qed

end
