(* ===== verification/Linux_Demo.thy ===== *)
theory Linux_Demo
  imports Linux_Io
begin

text \<open>
  Concrete environments, devices and rings on which the theorems on the Linux driver are applied: the
  constants of the headers at their values, a kernel that answers 0, and zeroed structures.
\<close>

definition demo_unimac_h :: unimac_h where
  "demo_unimac_h = \<lparr>UMAC_CMD = 0x8, CMD_TX_EN = 1, CMD_RX_EN = 2, CMD_SPEED_10 = 0, CMD_SPEED_100 = 1,
    CMD_SPEED_1000 = 2, CMD_SPEED_MASK = 3, CMD_SPEED_SHIFT = 2, CMD_PROMISC = 0x10, CMD_CRC_FWD = 0x40,
    CMD_RX_PAUSE_IGNORE = 0x100, CMD_TX_PAUSE_IGNORE = 0x10000000, CMD_HD_EN = 0x400, CMD_SW_RESET = 0x2000,
    UMAC_MAC0 = 0xC, UMAC_MAC1 = 0x10, UMAC_MAX_FRAME_LEN = 0x14, UMAC_MODE = 0x44, MODE_LINK_STATUS = 0x20,
    UMAC_EEE_CTRL = 0x64, EEE_EN = 8, UMAC_EEE_LPI_TIMER = 0x68, UMAC_TX_FLUSH = 0x334\<rparr>"

definition demo_kernel_h :: kernel_h where
  "demo_kernel_h = \<lparr>MAX_SKB_FRAGS = 17, ETH_P_IP_be = 0x8, ETH_P_IPV6_be = 0xDD86, IPPROTO_UDP = 17,
    NETIF_F_RXCSUM = 0x10000000000, IFF_PROMISC = 0x100, IFF_ALLMULTI = 0x200, FLOW_EXT = 0x80000000,
    FLOW_MAC_EXT = 0x40000000, ETHER_FLOW = 0x12, IP_USER_FLOW = 0xD, RX_CLS_LOC_ANY = 0xFFFFFFFF,
    RX_CLS_LOC_SPECIAL = 0x80000000, RX_CLS_FLOW_WAKE = 0xFFFFFFFFFFFFFFFE,
    RX_CLS_FLOW_DISC = 0xFFFFFFFFFFFFFFFF, ETHTOOL_SRXCLSRLINS = 0x32, ETHTOOL_SRXCLSRLDEL = 0x31,
    ETHTOOL_GRXCLSRLCNT = 0x2E, ETHTOOL_GRXCLSRULE = 0x2F, ETHTOOL_GRXCLSRLALL = 0x30, ETH_SS_STATS = 1,
    DIM_CQ_PERIOD_MODE_START_FROM_EQE = 0, AUTONEG_ENABLE = 1, SPEED_1000 = 1000, SPEED_100 = 100,
    DUPLEX_FULL = 1, PHY_INTERFACE_MODE_INTERNAL = 1, PHY_INTERFACE_MODE_MOCA = 20, PHY_INTERFACE_MODE_MII = 2,
    PHY_INTERFACE_MODE_REVMII = 6, PHY_INTERFACE_MODE_RGMII = 8, PHY_INTERFACE_MODE_RGMII_ID = 9,
    PHY_INTERFACE_MODE_RGMII_TXID = 11, PHY_INTERFACE_MODE_RGMII_RXID = 10, PHY_BRCM_AUTO_PWRDWN_ENABLE = 1,
    PHY_BRCM_DIS_TXCRXC_NOENRGY = 0x100, PHY_BRCM_IDDQ_SUSPEND = 0x10000, WAKE_MAGIC = 0x20,
    WAKE_MAGICSECURE = 0x40, WAKE_FILTER = 0x80, GENET_MSG_DEFAULT_INIT = 0\<rparr>"

definition demo_phy :: phy_device where
  "demo_phy = \<lparr>phy_speed = 0, phy_duplex = 0, phy_link = False, phy_autoneg = 0,
    phy_pause = (False, False), phy_enable_tx_lpi = False, phy_supports_1000_full = False\<rparr>"

definition demo_netdev :: net_device where
  "demo_netdev = \<lparr>dev_phydev = False, dev_running = False, dev_carrier_ok = False, dev_flags = 0,
    dev_features = 0, dev_addr = [], dev_broadcast = [], dev_uc = [], dev_mc = []\<rparr>"

definition demo_sk_buff :: sk_buff where
  "demo_sk_buff = \<lparr>sk_len = 0, sk_headlen = 0, sk_data = 0, sk_headroom = 0, sk_frags = [],
    sk_queue_mapping = 0, sk_csum_partial = False, sk_protocol = 0, sk_ip_protocol = 0, sk_nexthdr = 0,
    sk_csum_start_offset = 0, sk_csum_offset = 0\<rparr>"

definition demo_rx_status :: rx_status where
  "demo_rx_status = \<lparr>length_status = 0, rx_csum = 0\<rparr>"

definition demo_plat_data :: bcmgenet_plat_data where
  "demo_plat_data = \<lparr>pd_version = GENET_V5, pd_dma_max_burst_length = 0, pd_flags = 0\<rparr>"

definition demo_env :: linux_env where
  "demo_env = \<lparr>uh = demo_unimac_h, kh = demo_kernel_h, CONFIG_MIPS = False, CONFIG_CPU_BIG_ENDIAN = False,
    CONFIG_PHYS_ADDR_T_64BIT = False, CONFIG_64BIT = False, mmio_value = (\<lambda>_ _ _. 0),
    kresult = (\<lambda>_ _. 0), skb_of = (\<lambda>_ _. demo_sk_buff),
    rx_status_of = (\<lambda>_ _. demo_rx_status), netdev = (\<lambda>_. demo_netdev),
    phydev = (\<lambda>_. demo_phy), dma_mapping_error = (\<lambda>_. False),
    netif_tx_queue_stopped = (\<lambda>_ _. False), netif_xmit_stopped = (\<lambda>_ _. False),
    netdev_xmit_more = (\<lambda>_. False), netif_is_multiqueue = (\<lambda>_. False),
    netif_msg_tx_err = (\<lambda>_. False), net_dim_get_def_rx_moderation = (\<lambda>_. (0, 0)),
    net_dim_get_rx_moderation = (\<lambda>_ _. (0, 0)), device_can_wakeup = (\<lambda>_. False),
    device_may_wakeup = (\<lambda>_. False), phy_validate_pause = (\<lambda>_ _ _ _. False),
    phy_is_pseudo_fixed_link = (\<lambda>_. False), of_node = 0, has_acpi_companion = False,
    device_get_phy_mode = 0, of_phy_is_fixed_link = False, is_valid_ether_addr = (\<lambda>_. False),
    pdev_id = 0, of_alias_get_id = 0, resource_start = None, phy_wol = (\<lambda>_. (0, 0, [])),
    dev_get_stats = (\<lambda>_ _. 0), device_get_match_data = None\<rparr>"

definition demo_hw_params :: bcmgenet_hw_params where
  "demo_hw_params = \<lparr>tx_queues = 0, tx_bds_per_q = 0, rx_queues = 0, rx_bds_per_q = 0, bp_in_en_shift = 0,
    bp_in_mask = 0, hfb_filter_cnt = 0, hfb_filter_size = 0, qtag_mask = 0, tbuf_offset = 0, hfb_offset = 0,
    hfb_reg_offset = 0, rdma_offset = 0, tdma_offset = 0, words_per_bd = 0\<rparr>"

definition demo_cb :: enet_cb where
  "demo_cb = \<lparr>cb_skb = 0, cb_bd_addr = 0, cb_dma_addr = 0, cb_dma_len = 0\<rparr>"

definition demo_skb_cb :: bcmgenet_skb_cb where
  "demo_skb_cb = \<lparr>first_cb = 0, last_cb = 0, bytes_sent = 0\<rparr>"

definition demo_tx_stats :: bcmgenet_tx_stats64 where
  "demo_tx_stats = \<lparr>ts_packets = 0, ts_bytes = 0, ts_errors = 0, ts_dropped = 0\<rparr>"

definition demo_rx_stats :: bcmgenet_rx_stats64 where
  "demo_rx_stats = \<lparr>rs_bytes = 0, rs_packets = 0, rs_errors = 0, rs_dropped = 0, rs_multicast = 0,
    rs_broadcast = 0, rs_missed = 0, rs_length_errors = 0, rs_over_errors = 0, rs_crc_errors = 0,
    rs_frame_errors = 0, rs_fragmented_errors = 0\<rparr>"

definition demo_tx_ring :: bcmgenet_tx_ring where
  "demo_tx_ring = \<lparr>t_stats64 = demo_tx_stats, t_index = 0, t_cbs = 0, t_size = 0, t_clean_ptr = 0,
    t_c_index = 0, t_free_bds = 0, t_write_ptr = 0, t_prod_index = 0, t_cb_ptr = 0, t_end_ptr = 0\<rparr>"

definition demo_net_dim :: bcmgenet_net_dim where
  "demo_net_dim = \<lparr>use_dim = False, event_ctr = 0, dim_packets = 0, dim_bytes = 0, dim_mode = 0\<rparr>"

definition demo_rx_ring :: bcmgenet_rx_ring where
  "demo_rx_ring = \<lparr>r_stats64 = demo_rx_stats, r_index = 0, r_cbs = 0, r_size = 0, r_c_index = 0,
    r_read_ptr = 0, r_cb_ptr = 0, r_end_ptr = 0, r_old_discards = 0, r_dim = demo_net_dim,
    rx_max_coalesced_frames = 0, rx_coalesce_usecs = 0\<rparr>"

definition no_fields :: flow_fields where
  "no_fields = \<lparr>h_dest = [], h_source = [], h_proto = [], ip4src = [], ip4dst = [], l4_4_bytes = [],
    tos = 0, ip_ver = 0, proto = 0, ext_h_dest = [], vlan_etype = [], vlan_tci = [], ext_data = (0, 0)\<rparr>"

definition no_flow :: ethtool_rx_flow_spec where
  "no_flow = \<lparr>flow_type = 0, flow_h = no_fields, flow_m = no_fields, ring_cookie = 0, location = 0\<rparr>"

definition no_rule :: bcmgenet_rxnfc_rule where
  "no_rule = \<lparr>fs = no_flow, rule_state = BCMGENET_RXNFC_STATE_UNUSED\<rparr>"

definition demo_priv :: bcmgenet_priv where
  "demo_priv = \<lparr>trace = [], dma_regs = replicate 30 0, ring_regs = replicate 15 0,
    skb_cb = (\<lambda>_. demo_skb_cb), base = 0, version = GENET_V5, tx_bds = 0, tx_cbs_alloc = 0,
    tx_cbs = (\<lambda>_. demo_cb), num_tx_bds = 0, tx_rings = (\<lambda>_. demo_tx_ring), rx_bds = 0,
    rx_cbs_alloc = 0, rx_cbs = (\<lambda>_. demo_cb), num_rx_bds = 0, rx_buf_len = 0,
    rxnfc_rules = (\<lambda>_. no_rule), rxnfc_list = [], rx_rings = (\<lambda>_. demo_rx_ring),
    hw_params = demo_hw_params, flags = 0, autoneg_pause = False, tx_pause = False, rx_pause = False,
    internal_phy = False, phy_dn = 0, mdio_dn = 0, gphy_rev = 0, clk_eee_enabled = False, phy_interface = 0,
    ext_phy = False, irq0 = 0, irq1 = 0, wol_irq = 0, wol_irq_disabled = False, irq0_stat = 0,
    crc_fwd_en = False, dma_max_burst_length = 0, msg_enable = 0, mii_pdev = 0, wolopts = 0, sopass = [],
    mib = (\<lambda>_. 0)\<rparr>"

lemmas demo_consts = demo_unimac_h_def demo_kernel_h_def demo_phy_def demo_netdev_def demo_sk_buff_def demo_rx_status_def demo_plat_data_def demo_env_def demo_hw_params_def demo_cb_def demo_skb_cb_def demo_tx_stats_def demo_rx_stats_def demo_tx_ring_def demo_net_dim_def demo_rx_ring_def no_fields_def no_flow_def no_rule_def demo_priv_def

end
