(* ===== verification/Linux_Tx_Props.thy ===== *)
theory Linux_Tx_Props
  imports Linux_Tx_Rewind Linux_Demo
begin

text \<open>
  Correctness of transmission in the Linux GENET driver: over any run of transmissions, reclaims and
  polls a ring is a queue of packets, and what the two error paths that rewind the write pointer do.
\<close>

section \<open>Runs of a ring\<close>

text \<open>
  The hardware does not report more descriptors than were posted, and the buffer handed over is not
  one the driver still holds.
\<close>

definition hw_sane :: "linux_env \<Rightarrow> u32 \<Rightarrow> bcmgenet_priv \<Rightarrow> bool" where
  "hw_sane e q s \<longleftrightarrow> tx_ready e q (emit (Call (Spin_lock (Ring_lock q)) 0) s) \<le>
     unat ((t_prod_index (tx_rings s q) - t_c_index (tx_rings s q)) AND DMA_C_INDEX_MASK)"





lemma tx_rel_emit: "tx_rel (s\<lparr>trace := tr\<rparr>) q h D = tx_rel s q h D"
  by (simp add: tx_rel_def slots_hold_def cb_holds_def cb_free_def)

lemma hw_sane_ready:
  assumes "tx_rel s q h D" "hw_sane e q s"
  shows "tx_ready e q (emit (Call (Spin_lock (Ring_lock q)) 0) s) \<le> length D"
  using assms in_flight [OF assms(1)] tx_relD(4,5) [OF assms(1)]
  by (simp add: hw_sane_def unsigned_of_nat take_bit_nat_eq_self)



abbreviation lock_ev :: "u32 \<Rightarrow> event" where
  "lock_ev q \<equiv> Call (Spin_lock (Ring_lock q)) 0"


lemma reclaimed_emit: "reclaimed q h c ds tr (s\<lparr>trace := x\<rparr>) = reclaimed q h c ds tr s"
  by (simp add: reclaimed_def Let_def)





section \<open>Two error paths\<close>

text \<open>
  C14: When the DMA mapping of a fragment after the first fails, \<open>bcmgenet_xmit\<close> frees the packet, posts
  nothing and leaves the ring record as it was, but it does not undo all of its work: every mapping is
  released except the first and the failed one, and the control block of the first fragment keeps a
  pointer to the freed packet and its mapping.
\<close>
theorem tx_map_failure_leaks:
  assumes "tx_rel s q h D" "q = sk_queue_mapping (skb_of e skb (trace s))" "length (sk_frags (skb_of e skb (trace s))) < 256"
    and "skb \<noteq> 0" "xmit_skb e skb s \<noteq> 0"
    and "length D + Suc (length (sk_frags (skb_of e skb (trace s)))) < unat (t_size (tx_rings s q))"
    and "run_state (bcmgenet_xmit e skb) s = (res, s')" "trace s' = evs @ trace s" "posted evs = []" "1 < length (mapped evs)"
  shows "res = NETDEV_TX_OK \<and> tx_rings s' = tx_rings s \<and> Call (Skb_call (Dev_kfree_skb (xmit_skb e skb s))) 0 \<in> set evs \<and>
    unmapped evs = rev (butlast (tl (mapped evs))) \<and>
    cb_skb (tx_cbs s' (t_write_ptr (tx_rings s q))) = xmit_skb e skb s \<and>
    cb_dma_addr (tx_cbs s' (t_write_ptr (tx_rings s q))) = hd (mapped evs)"
  using assms(1-6)
proof (cases rule: xmit_unmaps)
  case (posts evs')
  then show ?thesis using assms(7-9) by simp
next
  case (fails as a evs')
  let ?r = "tx_rings s q" and ?w = "h + length D"
  note d = tx_relD [OF assms(1)]
  have eq: "evs' = evs" using fails(6) assms(7,8) by simp
  then have as: "as \<noteq> []" using fails(2) assms(10) by auto
  have len: "length as < unat (t_size ?r)"
    using fails(9) assms(6) by simp
  have cbs: "tx_cbs s' = clear_cbs (ring_slots ?r (Suc ?w) (length as)) (put_cbs ?r ?w (xmit_skb e skb s) as (tx_cbs s))"
    using fails(8) assms(7) by simp
  have "tx_cbs s' (ring_pos ?r ?w) = put_cbs ?r ?w (xmit_skb e skb s) as (tx_cbs s) (ring_pos ?r (?w + 0))"
    using ring_pos_notin_slots [OF d(1) len] by (simp add: cbs clear_cbs_def)
  also have "\<dots> = (tx_cbs s (ring_pos ?r ?w))\<lparr>cb_dma_addr := fst (as ! 0), cb_dma_len := snd (as ! 0), cb_skb := xmit_skb e skb s\<rparr>"
    using put_cbs_at [OF d(1), of as 0] len as by simp
  finally have cb: "tx_cbs s' (ring_pos ?r ?w) = \<dots>" .
  show ?thesis
    using fails(2-7) as assms(7) cb d(3) unfolding eq by (cases as) (simp_all add: butlast_append)
qed

text \<open>
  C15: \<open>bcmgenet_tx_reclaim\<close> with \<open>all_bufs\<close>, which the timeout handler uses, on a ring with descriptors in
  flight: the producer index and the write pointer are taken back, but the dropped descriptors are not
  counted as free again and the oldest of them keeps its buffer and mapping, so that afterwards the ring
  is in no state that belongs to a queue: it has lost that many descriptors.
\<close>
theorem reclaim_all_loses_descriptors:
  assumes "tx_rel s q h D" "hw_sane e q s" "run_state (bcmgenet_tx_reclaim e q True) s = (released, s')"
    and "length D < unat (t_size (tx_rings s q))"
  shows "let dropped = drop (tx_ready e q (emit (Call (Spin_lock (Ring_lock q)) 0) s)) D in
    t_prod_index (tx_rings s' q) = t_c_index (tx_rings s' q) \<and> t_write_ptr (tx_rings s' q) = t_clean_ptr (tx_rings s' q) \<and>
    released = of_nat (length D) \<and> t_free_bds (tx_rings s' q) = t_size (tx_rings s' q) - of_nat (length dropped) \<and>
    (dropped \<noteq> [] \<longrightarrow> cb_skb (tx_cbs s' (t_clean_ptr (tx_rings s' q))) = d_skb (hd dropped) \<and>
       cb_dma_addr (tx_cbs s' (t_clean_ptr (tx_rings s' q))) = d_addr (hd dropped) \<and> (\<forall>h' D'. \<not> tx_rel s' q h' D'))"
proof -
  let ?s = "emit (lock_ev q) s"
  let ?n = "tx_ready e q ?s"
  have n: "?n \<le> length D" by (rule hw_sane_ready [OF assms(1,2)])
  have rel: "tx_rel ?s q h D" using assms(1) by (simp add: tx_rel_emit)
  note run = run_tx_reclaim_unlocked [OF rel n] and ref = reclaim_refines [OF rel n]
  define s1 where "s1 = snd (run_state (bcmgenet_tx_reclaim_unlocked e q) ?s)"
  have r1: "run_state (bcmgenet_tx_reclaim_unlocked e q) ?s = (of_nat ?n, s1)" by (simp add: run s1_def)
  define DD where "DD = drop ?n D"
  have len: "length D = ?n + length DD" using n by (simp add: DD_def)
  have rel1: "tx_rel s1 q (h + ?n) DD" using ref by (simp add: s1_def DD_def)
  note d = tx_relD [OF rel1] and fl = in_flight [OF rel1]
  have un: "unat (of_nat (length DD) :: u32) = length DD"
    using d(4,5) by (simp add: unsigned_of_nat take_bit_nat_eq_self)
  let ?r = "tx_rings s1 q"
  let ?s2 = "s1\<lparr>tx_rings := (tx_rings s1)(q := ?r\<lparr>t_prod_index := t_c_index ?r\<rparr>)\<rparr>"
  have "rewindable ?s2 q (h + ?n) (length DD)" using d(1,3,4) by (simp add: rewindable_def)
  then obtain evs where s3: "snd (run_state (tx_drop_loop q (length DD) 0) ?s2) =
     ?s2\<lparr>trace := evs @ trace ?s2, tx_cbs := clear_cbs (ring_slots (tx_rings ?s2 q) (Suc (h + ?n)) (length DD)) (tx_cbs ?s2),
       tx_rings := (tx_rings ?s2)(q := (tx_rings ?s2 q)\<lparr>t_write_ptr := ring_pos (tx_rings ?s2 q) (h + ?n)\<rparr>)\<rparr>"
    using run_tx_drop_loop [unfolded rewound_def] by blast
  obtain x where drop: "run_state (tx_drop_loop q (length DD) 0) ?s2 = (x, ?s2\<lparr>trace := evs @ trace ?s2,
       tx_cbs := clear_cbs (ring_slots (tx_rings ?s2 q) (Suc (h + ?n)) (length DD)) (tx_cbs ?s2),
       tx_rings := (tx_rings ?s2)(q := (tx_rings ?s2 q)\<lparr>t_write_ptr := ring_pos (tx_rings ?s2 q) (h + ?n)\<rparr>)\<rparr>)"
    using s3 by (metis prod.collapse)
  have cm: "t_c_index ?r AND DMA_C_INDEX_MASK = t_c_index ?r" using d(7) by (simp add: index_mask)
  have fin: "released = of_nat (length D)" "tx_cbs s' = clear_cbs (ring_slots ?r (Suc (h + ?n)) (length DD)) (tx_cbs s1)"
    "tx_rings s' q = ?r\<lparr>t_prod_index := t_c_index ?r, t_write_ptr := ring_pos ?r (h + ?n)\<rparr>"
    using assms(3) unfolding bcmgenet_tx_reclaim_def
    by (auto simp: r1 fl cm un drop len run_when bcmgenet_tdma_ring_writel_def ring_slots_def ring_pos_def)
  show ?thesis
  proof (unfold Let_def DD_def [symmetric], intro conjI impI allI)
    show "t_prod_index (tx_rings s' q) = t_c_index (tx_rings s' q)" by (simp add: fin(3))
    show "t_write_ptr (tx_rings s' q) = t_clean_ptr (tx_rings s' q)" by (simp add: fin(3) d(2))
    show "released = of_nat (length D)" by (rule fin(1))
    show "t_free_bds (tx_rings s' q) = t_size (tx_rings s' q) - of_nat (length DD)" by (simp add: fin(3) d(6))
  next
    assume ne: "DD \<noteq> []"
    have hd: "cb_holds s1 (ring_pos ?r (h + ?n)) (hd DD)"
      using d(9) ne by (cases DD) (auto simp: slots_hold_Cons)
    have sz: "t_size ?r = t_size (tx_rings s q)" by (simp add: s1_def run reclaimed_def Let_def)
    have "length DD < unat (t_size ?r)" using assms(4) len sz by simp
    then have cb: "tx_cbs s' (ring_pos ?r (h + ?n)) = tx_cbs s1 (ring_pos ?r (h + ?n))"
      using ring_pos_notin_slots [OF d(1)] by (simp add: fin(2) clear_cbs_def)
    show "cb_skb (tx_cbs s' (t_clean_ptr (tx_rings s' q))) = d_skb (hd DD)"
      "cb_dma_addr (tx_cbs s' (t_clean_ptr (tx_rings s' q))) = d_addr (hd DD)"
      using hd by (simp_all add: fin(3) d(2) cb cb_holds_def)
    fix h' D'
    show "\<not> tx_rel s' q h' D'"
    proof
      assume r': "tx_rel s' q h' D'"
      note d' = tx_relD [OF r']
      have "(of_nat (length D') :: u32) = 0" using in_flight [OF r'] by (simp add: fin(3))
      then have "t_free_bds (tx_rings s' q) = t_size (tx_rings s' q)" using d'(6) by simp
      then have "(of_nat (length DD) :: u32) = 0" by (simp add: fin(3) d(6))
      then have "length DD = 0" using un by simp
      then show False using ne by simp
    qed
  qed
qed

section \<open>Concrete runs\<close>

text \<open>A ring of 32 descriptors, one packet in buffer 7 with the given fragments, every register reads \<open>v\<close>.\<close>

definition demo_tx_priv :: bcmgenet_priv where
  "demo_tx_priv = demo_priv\<lparr>tx_rings := \<lambda>_. demo_tx_ring\<lparr>t_size := 32, t_free_bds := 32, t_end_ptr := 31\<rparr>\<rparr>"

definition demo_tx_env :: "u32 \<Rightarrow> u32 list \<Rightarrow> bool \<Rightarrow> linux_env" where
  "demo_tx_env v frags full = demo_env
     \<lparr>mmio_value := \<lambda>_ _ _. v,
      kresult := \<lambda>c _. (case c of Dma_call (Dma_map_single _ _ _) \<Rightarrow> 0x1000
        | Dma_call (Skb_frag_dma_map _ i _ _) \<Rightarrow> if full then - 1 else 0x2000 | _ \<Rightarrow> 0),
      skb_of := \<lambda>_ _. demo_sk_buff\<lparr>sk_len := 60, sk_headlen := 60, sk_headroom := 64, sk_frags := frags\<rparr>,
      dma_mapping_error := \<lambda>a. a = - 1\<rparr>"

abbreviation demo_xmit :: "u32 \<Rightarrow> u32 list \<Rightarrow> bool \<Rightarrow> bcmgenet_priv" where
  "demo_xmit v frags full \<equiv> snd (run_state (bcmgenet_xmit (demo_tx_env v frags full) 7) demo_tx_priv)"

lemma demo_idle: "tx_rel demo_tx_priv q 0 []"
  by (simp add: tx_rel_def tx_geom_def slots_hold_def cb_free_def demo_tx_priv_def demo_priv_def demo_tx_ring_def demo_cb_def ring_pos_def)

lemmas demo_tx = demo_tx_priv_def demo_tx_env_def demo_consts

lemma demo_maps_ok: "maps_ok (demo_tx_env v frags False)"
  by (auto simp: maps_ok_def demo_tx split: dma_call.splits)


lemma demo_tx_env_sel [simp]:
  "mmio_value (demo_tx_env v frags full) = (\<lambda>_ _ _. v)" "netdev_xmit_more (demo_tx_env v frags full) tr = False"
  "netif_xmit_stopped (demo_tx_env v frags full) q tr = False"
  "skb_of (demo_tx_env v frags full) p tr = demo_sk_buff\<lparr>sk_len := 60, sk_headlen := 60, sk_headroom := 64, sk_frags := frags\<rparr>"
  "kresult (demo_tx_env v frags full) (Dma_call (Dma_map_single a l d)) tr = 0x1000"
  "kresult (demo_tx_env v frags full) (Dma_call (Skb_frag_dma_map p i l d)) tr = (if full then - 1 else 0x2000)"
  "dma_mapping_error (demo_tx_env v frags full) a = (a = - 1)" "MAX_SKB_FRAGS (kh (demo_tx_env v frags full)) = 17"
  "netif_tx_queue_stopped (demo_tx_env v frags full) q tr = False"
  by (simp_all add: demo_tx)

lemma demo_sk_buff_sel [simp]:
  "sk_queue_mapping demo_sk_buff = 0" "sk_data demo_sk_buff = 0" "sk_csum_partial demo_sk_buff = False"
  by (simp_all add: demo_sk_buff_def)

lemma demo_tx_priv_sel [simp]:
  "tx_rings demo_tx_priv q = demo_tx_ring\<lparr>t_size := 32, t_free_bds := 32, t_end_ptr := 31\<rparr>"
  "tx_cbs demo_tx_priv i = demo_cb" "trace demo_tx_priv = []" "skb_cb demo_tx_priv p = demo_skb_cb"
  "words_per_bd (hw_params demo_tx_priv) = 0" "qtag_mask (hw_params demo_tx_priv) = 0"
  by (simp_all add: demo_tx)

lemma demo_cb_sel [simp]: "cb_skb demo_cb = 0" "cb_dma_addr demo_cb = 0"
  by (simp_all add: demo_cb_def)

lemma demo_tx_ring_sel [simp]:
  "t_index demo_tx_ring = 0" "t_cbs demo_tx_ring = 0" "t_clean_ptr demo_tx_ring = 0" "t_c_index demo_tx_ring = 0"
  "t_write_ptr demo_tx_ring = 0" "t_prod_index demo_tx_ring = 0" "t_cb_ptr demo_tx_ring = 0"
  by (simp_all add: demo_tx_ring_def)

lemmas demo_run = bcmgenet_xmit_def Let_def bcmgenet_add_tsb_def status_64_size_def bcmgenet_get_txcb_def
  txcb_at_write_def tx_map_def run_dmadesc_set xmit_publish_def index_mask bcmgenet_hide_tsb_def run_when run_when_ring
  word_le_nat_alt


theorem tx_map_failure_leaks_witness:
  "let s = demo_xmit 0 [100] True in
   mapped (trace s) = [0x1000, - 1] \<and> unmapped (trace s) = [] \<and>
   cb_skb (tx_cbs s 0) = 7 \<and> cb_dma_addr (tx_cbs s 0) = 0x1000"
proof -
  let ?e = "demo_tx_env 0 [100] True" and ?s = "demo_xmit 0 [100] True"
  have run: "run_state (bcmgenet_xmit ?e 7) demo_tx_priv = (fst (run_state (bcmgenet_xmit ?e 7) demo_tx_priv), ?s)" by simp
  have skb: "xmit_skb ?e 7 demo_tx_priv = 7" by (simp add: xmit_skb_def tsb_skb_def status_64_size_def)
  have tr: "mapped (trace ?s) = [0x1000, - 1]" "posted (trace ?s) = []"
    by (simp_all add: bcmgenet_xmit_def Let_def bcmgenet_add_tsb_def status_64_size_def word_le_nat_alt del: xmit_frags.simps)
       (simp_all add: bcmgenet_get_txcb_def txcb_at_write_def tx_map_def run_dmadesc_set xmit_out_unmap_def
          bcmgenet_put_txcb_def bcmgenet_free_tx_cb_def history_Cons history_append quiet_history
          mapped_def [of "[]"] posted_def [of "[]"] history1)
  show ?thesis
    using tx_map_failure_leaks [OF demo_idle _ _ _ _ _ run, of 0 "trace ?s"] tr by (simp add: skb Let_def)
qed

theorem reclaim_all_loses_descriptors_witness:
  "let s = snd (run_state (bcmgenet_tx_reclaim (demo_tx_env 0 [] False) 0 True) (demo_xmit 0 [] False)) in
   \<forall>h D. \<not> tx_rel s 0 h D"
proof -
  let ?e = "demo_tx_env 0 [] False" and ?s = "demo_xmit 0 [] False"
  have idle: "tx_rel demo_tx_priv 0 0 []" by (rule demo_idle)
  have "fresh_skb ?e 7 demo_tx_priv []" by (simp add: fresh_skb_def)
  then obtain D where rel: "tx_rel ?s 0 0 D"
    using xmit_refines [where e = ?e and skb = 7, OF idle _ _ demo_maps_ok] by auto
  have "t_prod_index (tx_rings ?s 0) = 1" "t_c_index (tx_rings ?s 0) = 0" "t_size (tx_rings ?s 0) = 32"
    by (simp_all add: demo_run)
  then have D: "(of_nat (length D) :: u32) = 1" and sz: "t_size (tx_rings ?s 0) = 32"
    using in_flight [OF rel] by (simp_all add: index_mask)
  have un: "unat (of_nat (length D) :: u32) = length D"
    using tx_relD(4,5) [OF rel] by (simp add: unsigned_of_nat take_bit_nat_eq_self)
  have ready: "tx_ready ?e 0 (emit (Call (Spin_lock (Ring_lock 0)) 0) ?s) = 0"
    by (simp add: tx_ready_def cons_reported_def demo_run)
  have "hw_sane ?e 0 ?s" by (simp add: hw_sane_def ready)
  have "length D = 1"
    using D un by (metis unsigned_1)
  then have lt: "length D < unat (t_size (tx_rings ?s 0))" and ne: "D \<noteq> []" using sz by auto
  show ?thesis
    using reclaim_all_loses_descriptors [OF rel \<open>hw_sane ?e 0 ?s\<close> surjective_pairing lt] ne
    by (simp add: ready Let_def)
qed

end
