(* ===== verification/Linux_Dma_Props.thy ===== *)
theory Linux_Dma_Props
  imports Linux_Dma Linux_Tx_Ring Linux_Lib Linux_Demo
begin

text \<open>
  The set-up of the rings of the Linux driver: the descriptors are divided over the rings, and interrupt
  coalescing.
\<close>

section \<open>The transmit rings\<close>

text \<open>The descriptor after the last one of ring \<open>i\<close>, and the first one of ring \<open>i\<close>.\<close>

definition tx_ring_end :: "bcmgenet_hw_params \<Rightarrow> nat \<Rightarrow> u32" where
  "tx_ring_end p i = GENET_Q0_TX_BD_CNT p + of_nat i * tx_bds_per_q p"

definition tx_ring_start :: "bcmgenet_hw_params \<Rightarrow> nat \<Rightarrow> u32" where
  "tx_ring_start p i = (if i = 0 then 0 else tx_ring_end p (i - 1))"

definition fresh_tx_ring :: "u32 \<Rightarrow> u32 \<Rightarrow> u32 \<Rightarrow> bcmgenet_tx_ring \<Rightarrow> bcmgenet_tx_ring" where
  "fresh_tx_ring i start end_ptr r = r\<lparr>t_index := i, t_cbs := start, t_size := end_ptr - start, t_clean_ptr := start, t_c_index := 0,
     t_free_bds := end_ptr - start, t_write_ptr := start, t_cb_ptr := start, t_end_ptr := end_ptr - 1, t_prod_index := 0\<rparr>"

lemma run_init_tx_ring:
  "\<exists>evs. run_state (bcmgenet_init_tx_ring e i (en - st) st en) s =
     ((), s\<lparr>trace := evs @ trace s, tx_rings := (tx_rings s)(i := fresh_tx_ring i st en (tx_rings s i))\<rparr>)"
  by (simp add: bcmgenet_init_tx_ring_def bcmgenet_tdma_ring_writel_def fresh_tx_ring_def Let_def)
     (metis append_Cons append_Nil)

lemma run_init_tx_loop:
  assumes "m \<le> 2 ^ 32"
  shows "\<exists>evs f. run_state (init_tx_loop e (map of_nat [k..<m]) (tx_ring_start (hw_params s) k) (tx_ring_end (hw_params s) k)) s =
      ((), s\<lparr>trace := evs @ trace s, tx_rings := f\<rparr>) \<and>
    (\<forall>i<2 ^ 32. f (of_nat i) = (if k \<le> i \<and> i < m
       then fresh_tx_ring (of_nat i) (tx_ring_start (hw_params s) i) (tx_ring_end (hw_params s) i) (tx_rings s (of_nat i))
       else tx_rings s (of_nat i)))"
  using assms
proof (induction "m - k" arbitrary: k s)
  case 0
  then have "[k..<m] = []" by simp
  with 0 show ?case by (intro exI [of _ "[]"] exI [of _ "tx_rings s"]) auto
next
  case (Suc d)
  let ?p = "hw_params s"
  have k: "k < m" and idx: "[k..<m] = k # [Suc k..<m]" using Suc.hyps(2) by (simp_all add: upt_conv_Cons)
  obtain evs where r1: "run_state (bcmgenet_init_tx_ring e (of_nat k) (tx_ring_end ?p k - tx_ring_start ?p k) (tx_ring_start ?p k) (tx_ring_end ?p k)) s =
     ((), s\<lparr>trace := evs @ trace s, tx_rings := (tx_rings s)(of_nat k :=
        fresh_tx_ring (of_nat k) (tx_ring_start ?p k) (tx_ring_end ?p k) (tx_rings s (of_nat k)))\<rparr>)" (is "_ = ((), ?s1)")
    using run_init_tx_ring [of e "of_nat k" "tx_ring_end ?p k" "tx_ring_start ?p k" s] by blast
  have next_start: "tx_ring_start ?p (Suc k) = tx_ring_end ?p k" by (simp add: tx_ring_start_def)
  have next_end: "tx_ring_end ?p (Suc k) = tx_ring_end ?p k + tx_bds_per_q ?p"
    by (simp add: tx_ring_end_def algebra_simps)
  have "d = m - Suc k" using Suc.hyps(2) by simp
  then obtain evs' f where r2: "run_state (init_tx_loop e (map of_nat [Suc k..<m]) (tx_ring_start ?p (Suc k)) (tx_ring_end ?p (Suc k))) ?s1 =
      ((), ?s1\<lparr>trace := evs' @ trace ?s1, tx_rings := f\<rparr>)"
    and f: "\<forall>i<2 ^ 32. f (of_nat i) = (if Suc k \<le> i \<and> i < m
       then fresh_tx_ring (of_nat i) (tx_ring_start ?p i) (tx_ring_end ?p i) (tx_rings ?s1 (of_nat i)) else tx_rings ?s1 (of_nat i))"
    using Suc.hyps(1) [of "Suc k" ?s1] Suc.prems by auto
  have run: "run_state (init_tx_loop e (map of_nat [k..<m]) (tx_ring_start ?p k) (tx_ring_end ?p k)) s =
      ((), s\<lparr>trace := (evs' @ evs) @ trace s, tx_rings := f\<rparr>)"
    using r2 by (simp add: idx r1 next_start next_end)
  have inj: "(of_nat i :: u32) = of_nat k \<longleftrightarrow> i = k" if "i < 2 ^ 32" for i
    using that k Suc.prems by (simp add: word_of_nat_eq_iff take_bit_nat_eq_self)
  show ?case
    by (intro exI [of _ "evs' @ evs"] exI [of _ f]) (use run f inj k in auto)
qed

definition tx_params_ok :: "bcmgenet_hw_params \<Rightarrow> bool" where
  "tx_params_ok p \<longleftrightarrow> unat (tx_queues p) * unat (tx_bds_per_q p) < 256 \<and> unat (tx_queues p) < 256 \<and>
     (0 < unat (tx_queues p) \<longrightarrow> 0 < unat (tx_bds_per_q p))"

lemma params_ok_all: "tx_params_ok (fst (params_of v))"
  by (cases v) (simp_all add: params_of_def tx_params_ok_def bcmgenet_hw_params_v1_def bcmgenet_hw_params_v2_def
    bcmgenet_hw_params_v3_def bcmgenet_hw_params_v4_def)

lemma unat_tx_ring_end:
  assumes "tx_params_ok p" "i \<le> unat (tx_queues p)"
  shows "unat (tx_ring_end p i) = 256 - unat (tx_queues p) * unat (tx_bds_per_q p) + i * unat (tx_bds_per_q p)"
    "unat (tx_ring_end p i) \<le> 256"
proof -
  let ?n = "unat (tx_queues p)" and ?b = "unat (tx_bds_per_q p)"
  have nb: "?n * ?b < 256" using assms(1) by (simp add: tx_params_ok_def)
  have ib: "i * ?b \<le> ?n * ?b" using assms(2) by simp
  have "tx_ring_end p i = of_nat (256 - ?n * ?b + i * ?b)"
    unfolding tx_ring_end_def GENET_Q0_TX_BD_CNT_def TOTAL_DESC_def using nb by (simp add: of_nat_diff)
  moreover have "256 - ?n * ?b + i * ?b < 2 ^ 32"
  proof -
    have "256 - ?n * ?b + i * ?b \<le> 256" using nb ib by linarith
    also have "256 < (2 :: nat) ^ 32" by simp
    finally show ?thesis .
  qed
  ultimately show "unat (tx_ring_end p i) = 256 - ?n * ?b + i * ?b"
    by (simp add: unsigned_of_nat take_bit_nat_eq_self del: of_nat_add of_nat_diff of_nat_mult)
  then show "unat (tx_ring_end p i) \<le> 256" using nb ib by linarith
qed

lemma unat_tx_ring_start:
  assumes "tx_params_ok p" "i \<le> unat (tx_queues p)"
  shows "unat (tx_ring_start p i) = (if i = 0 then 0 else unat (tx_ring_end p (i - 1)))"
    "unat (tx_ring_start p i) < unat (tx_ring_end p i)"
proof -
  show "unat (tx_ring_start p i) = (if i = 0 then 0 else unat (tx_ring_end p (i - 1)))" by (simp add: tx_ring_start_def)
  then show "unat (tx_ring_start p i) < unat (tx_ring_end p i)"
    using assms unat_tx_ring_end(1) [OF assms] unat_tx_ring_end(1) [OF assms(1), of "i - 1"]
    by (cases i) (auto simp: tx_params_ok_def)
qed

lemma tx_rings_init:
  assumes "tx_params_ok (hw_params s)"
  shows "\<exists>evs f. run_state (bcmgenet_init_tx_queues e) s = ((), s\<lparr>trace := evs @ trace s, tx_rings := f\<rparr>) \<and>
    (\<forall>i\<le>unat (tx_queues (hw_params s)). f (of_nat i) =
       fresh_tx_ring (of_nat i) (tx_ring_start (hw_params s) i) (tx_ring_end (hw_params s) i) (tx_rings s (of_nat i)))"
proof -
  let ?p = "hw_params s"
  let ?s1 = "emit (Wr (native_endian e) (dma_addr GENET_TDMA_REG_OFF DMA_ARB_CTRL s) DMA_ARBITER_SP) s"
  have n: "unat (tx_queues ?p) < 256" using assms by (simp add: tx_params_ok_def)
  then have n1: "unat (tx_queues ?p + 1) = Suc (unat (tx_queues ?p))"
    by (simp add: unat_word_ariths)
  have l: "upto_word (tx_queues ?p + 1) = map of_nat [0..<Suc (unat (tx_queues ?p))]" by (simp add: upto_word_def n1)
  obtain evs f where r: "run_state (init_tx_loop e (map of_nat [0..<Suc (unat (tx_queues ?p))]) (tx_ring_start ?p 0) (tx_ring_end ?p 0)) ?s1 =
      ((), ?s1\<lparr>trace := evs @ trace ?s1, tx_rings := f\<rparr>)"
    and f: "\<forall>i<2 ^ 32. f (of_nat i) = (if 0 \<le> i \<and> i < Suc (unat (tx_queues ?p))
       then fresh_tx_ring (of_nat i) (tx_ring_start ?p i) (tx_ring_end ?p i) (tx_rings s (of_nat i)) else tx_rings s (of_nat i))"
    using run_init_tx_loop [of "Suc (unat (tx_queues ?p))" e 0 ?s1] n by auto
  have st: "tx_ring_start ?p 0 = 0" "tx_ring_end ?p 0 = GENET_Q0_TX_BD_CNT ?p" by (simp_all add: tx_ring_start_def tx_ring_end_def)
  have "\<exists>evs. run_state (bcmgenet_init_tx_queues e) s = ((), s\<lparr>trace := evs @ trace s, tx_rings := f\<rparr>)"
    using r by (simp add: bcmgenet_init_tx_queues_def bcmgenet_tdma_writel_def l st Let_def del: upt_Suc) (metis append_Cons append_Nil append_assoc)
  then obtain evs' where "run_state (bcmgenet_init_tx_queues e) s = ((), s\<lparr>trace := evs' @ trace s, tx_rings := f\<rparr>)" by blast
  then show ?thesis using f n by (intro exI [of _ evs'] exI [of _ f]) auto
qed

text \<open>
  C12: \<open>bcmgenet_init_tx_queues\<close> divides the 256 transmit descriptors: with hardware parameters that fit
  (as those of every version do), each of the rings 0 to \<open>tx_queues\<close> comes out idle and well formed over
  freshly allocated control blocks, the state the transmit path starts from, and every descriptor belongs
  to exactly one ring.
\<close>
theorem tx_rings_partition:
  assumes "tx_params_ok (hw_params s)" "tx_cbs s = fresh_cbs bds sz" "s' = snd (run_state (bcmgenet_init_tx_queues e) s)"
  shows "(\<forall>q\<le>unat (tx_queues (hw_params s)). tx_rel s' (of_nat q) 0 [] \<and> t_index (tx_rings s' (of_nat q)) = of_nat q) \<and>
    (\<forall>i<256. \<exists>!q. q \<le> unat (tx_queues (hw_params s)) \<and>
       unat (t_cb_ptr (tx_rings s' (of_nat q))) \<le> i \<and> i \<le> unat (t_end_ptr (tx_rings s' (of_nat q))))"
proof -
  let ?p = "hw_params s" and ?n = "unat (tx_queues (hw_params s))"
  obtain evs f where run: "run_state (bcmgenet_init_tx_queues e) s = ((), s\<lparr>trace := evs @ trace s, tx_rings := f\<rparr>)"
    and f: "\<forall>i\<le>?n. f (of_nat i) = fresh_tx_ring (of_nat i) (tx_ring_start ?p i) (tx_ring_end ?p i) (tx_rings s (of_nat i))"
    using tx_rings_init [OF assms(1)] by blast
  have s': "tx_rings s' = f" "tx_cbs s' = tx_cbs s" by (simp_all add: assms(3) run)
  note en = unat_tx_ring_end [OF assms(1)] and st = unat_tx_ring_start [OF assms(1)]
  have sz: "unat (tx_ring_end ?p q - tx_ring_start ?p q) = unat (tx_ring_end ?p q) - unat (tx_ring_start ?p q)"
    and e1: "unat (tx_ring_end ?p q - 1) = unat (tx_ring_end ?p q) - 1" if "q \<le> ?n" for q
  proof -
    have "tx_ring_start ?p q \<le> tx_ring_end ?p q" "1 \<le> tx_ring_end ?p q"
      using st(2) [OF that] by (simp_all add: word_le_nat_alt)
    then show "unat (tx_ring_end ?p q - tx_ring_start ?p q) = unat (tx_ring_end ?p q) - unat (tx_ring_start ?p q)"
      "unat (tx_ring_end ?p q - 1) = unat (tx_ring_end ?p q) - 1" by (simp_all add: unat_sub)
  qed
  have idle: "tx_rel s' (of_nat q) 0 []" if q: "q \<le> ?n" for q
    using f q st(2) [OF q] en(2) [OF q] sz [OF q] e1 [OF q] assms(2)
    by (simp add: tx_rel_def tx_geom_def s' fresh_tx_ring_def slots_hold_def cb_free_def fresh_cbs_def ring_pos_def)
  have in_ring: "unat (t_cb_ptr (tx_rings s' (of_nat q))) \<le> i \<and> i \<le> unat (t_end_ptr (tx_rings s' (of_nat q))) \<longleftrightarrow>
      unat (tx_ring_start ?p q) \<le> i \<and> i < unat (tx_ring_end ?p q)" if "q \<le> ?n" for q i
    using f that e1 [OF that] st(2) [OF that] by (auto simp: s' fresh_tx_ring_def)
  have mono: "unat (tx_ring_end ?p a) \<le> unat (tx_ring_end ?p b)" if "a \<le> b" "b \<le> ?n" for a b
    using en(1) [of a] en(1) [of b] that by simp
  have last: "unat (tx_ring_end ?p ?n) = 256" using en(1) [of ?n] assms(1) by (simp add: tx_params_ok_def)
  have ex: "\<exists>q\<le>?n. unat (tx_ring_start ?p q) \<le> i \<and> i < unat (tx_ring_end ?p q)" if "i < 256" for i
  proof -
    define q where "q = (LEAST q. i < unat (tx_ring_end ?p q))"
    have q: "i < unat (tx_ring_end ?p q)" unfolding q_def using that last by (metis LeastI)
    have qn: "q \<le> ?n" unfolding q_def using that last by (simp add: Least_le)
    have "unat (tx_ring_start ?p q) \<le> i"
    proof (cases q)
      case (Suc q')
      then have "\<not> i < unat (tx_ring_end ?p q')" unfolding q_def using not_less_Least by (metis lessI)
      then show ?thesis using Suc by (simp add: tx_ring_start_def)
    qed (simp add: tx_ring_start_def)
    with q qn show ?thesis by blast
  qed
  have un: "a = b" if "a \<le> ?n" "b \<le> ?n" "unat (tx_ring_start ?p a) \<le> i" "i < unat (tx_ring_end ?p a)"
    "unat (tx_ring_start ?p b) \<le> i" "i < unat (tx_ring_end ?p b)" for a b i
  proof -
    have no: False if "a' < b'" "b' \<le> ?n" "i < unat (tx_ring_end ?p a')" "unat (tx_ring_start ?p b') \<le> i" for a' b'
    proof -
      have "unat (tx_ring_end ?p a') \<le> unat (tx_ring_end ?p (b' - 1))" using that by (intro mono) linarith+
      then show False using that st(1) [of b'] by simp
    qed
    show ?thesis using no [of a b] no [of b a] that by (metis nat_neq_iff)
  qed
  have "\<exists>!q. q \<le> ?n \<and> unat (t_cb_ptr (tx_rings s' (of_nat q))) \<le> i \<and> i \<le> unat (t_end_ptr (tx_rings s' (of_nat q)))"
    if "i < 256" for i
    using ex [OF that] un in_ring by (metis (no_types, lifting))
  moreover have "t_index (tx_rings s' (of_nat q)) = of_nat q" if "q \<le> ?n" for q
    using f that by (simp add: s' fresh_tx_ring_def)
  ultimately show ?thesis using idle by blast
qed

theorem tx_rings_partition_witness:
  "let s = demo_priv\<lparr>hw_params := bcmgenet_hw_params_v4, tx_cbs := fresh_cbs 0 12\<rparr>;
       s' = snd (run_state (bcmgenet_init_tx_queues demo_env) s)
   in tx_rel s' 4 0 [] \<and> (\<exists>!q. q \<le> 4 \<and> unat (t_cb_ptr (tx_rings s' (of_nat q))) \<le> 200 \<and> 200 \<le> unat (t_end_ptr (tx_rings s' (of_nat q))))"
proof -
  let ?s = "demo_priv\<lparr>hw_params := bcmgenet_hw_params_v4, tx_cbs := fresh_cbs 0 12\<rparr>"
  have p: "tx_params_ok (hw_params ?s)" by (simp add: tx_params_ok_def bcmgenet_hw_params_v4_def)
  have q: "unat (tx_queues (hw_params ?s)) = 4" by (simp add: bcmgenet_hw_params_v4_def)
  have c: "tx_cbs ?s = fresh_cbs 0 12" by simp
  note t = tx_rings_partition [OF p c refl, of demo_env, unfolded q]
  have "tx_rel (snd (run_state (bcmgenet_init_tx_queues demo_env) ?s)) (of_nat 4) 0 []" using t by blast
  moreover have "\<exists>!q. q \<le> 4 \<and> unat (t_cb_ptr (tx_rings (snd (run_state (bcmgenet_init_tx_queues demo_env) ?s)) (of_nat q))) \<le> 200 \<and>
    200 \<le> unat (t_end_ptr (tx_rings (snd (run_state (bcmgenet_init_tx_queues demo_env) ?s)) (of_nat q)))"
    by (rule t [THEN conjunct2, rule_format]) simp
  ultimately show ?thesis unfolding Let_def by simp
qed

section \<open>Interrupt coalescing\<close>







end
