(* ===== verification/Linux_Hfb_Rules.thy ===== *)
theory Linux_Hfb_Rules
  imports Linux_Lib Linux_Hfb
begin

text \<open>
  The flow rules of the Linux driver: what storing and removing a rule does to the driver's tables, for any
  hardware, and the table of rules as a store of its own (the locale \<open>rule_store\<close>).
\<close>

section \<open>Programming the filters leaves the tables alone\<close>

lemma trace_only_hfb [trace_only_intros]:
  "trace_only (bcmgenet_hfb_enable_filter e f)" "trace_only (bcmgenet_hfb_disable_filter e f)"
  "trace_only (bcmgenet_hfb_set_filter_rx_queue_mapping e f q)" "trace_only (bcmgenet_hfb_set_filter_length e f l)"
  by (unfold bcmgenet_hfb_enable_filter_def bcmgenet_hfb_disable_filter_def bcmgenet_hfb_set_filter_rx_queue_mapping_def
      bcmgenet_hfb_set_filter_length_def) (intro trace_only_intros)+

lemma trace_only_insert_loop [trace_only_intros]: "trace_only (hfb_insert_loop e off idx tmp bs)"
  by (induction e off idx tmp bs rule: hfb_insert_loop.induct) (auto intro!: trace_only_intros simp: Let_def)

lemma trace_only_insert_data [trace_only_intros]: "trace_only (bcmgenet_hfb_insert_data e f off v m)"
  unfolding bcmgenet_hfb_insert_data_def by (intro trace_only_intros)

lemma trace_only_rule [trace_only_intros]:
  "trace_only (hfb_ether e sp f off l)" "trace_only (hfb_ip e sp f off l)" "trace_only (bcmgenet_hfb_clear_filter e f)"
  by (unfold hfb_ether_def hfb_ip_def bcmgenet_hfb_clear_filter_def) (intro trace_only_intros)+

lemma trace_only_hfb_clear [trace_only_intros]: "trace_only (bcmgenet_hfb_clear e)"
  unfolding bcmgenet_hfb_clear_def by (intro trace_only_intros)

lemma rule_upd_order [simp]:
  "s\<lparr>rxnfc_rules := r, trace := tr\<rparr> = s\<lparr>trace := tr, rxnfc_rules := r\<rparr>"
  "s\<lparr>rxnfc_list := l, trace := tr\<rparr> = s\<lparr>trace := tr, rxnfc_list := l\<rparr>"
  "s\<lparr>rxnfc_list := l, rxnfc_rules := r\<rparr> = s\<lparr>rxnfc_rules := r, rxnfc_list := l\<rparr>"
  by simp_all

section \<open>Storing and removing a rule\<close>

abbreviation UNUSED :: bcmgenet_rxnfc_state where
  "UNUSED \<equiv> BCMGENET_RXNFC_STATE_UNUSED"

abbreviation ENABLED :: bcmgenet_rxnfc_state where
  "ENABLED \<equiv> BCMGENET_RXNFC_STATE_ENABLED"

lemma run_upd_rule [simp]:
  "run_state (upd_rule i f) s = ((), s\<lparr>rxnfc_rules := (rxnfc_rules s)(i := f (rxnfc_rules s i))\<rparr>)"
  by (simp add: upd_rule_def)

lemma run_remove_rule:
  obtains evs where "run_state (remove_rule e l) s = ((), s\<lparr>trace := evs @ trace s,
     rxnfc_rules := (rxnfc_rules s)(l := (rxnfc_rules s l)\<lparr>rule_state := UNUSED\<rparr>),
     rxnfc_list := (if rule_state (rxnfc_rules s l) = UNUSED then rxnfc_list s else remove1 l (rxnfc_list s))\<rparr>)"
proof -
  let ?st = "rule_state (rxnfc_rules s l)"
  have "trace_only (if ?st = ENABLED then bcmgenet_hfb_disable_filter e (l + 1) else ret ())" by (intro trace_only_intros)
  then obtain ev1 where r1: "run_state (if ?st = ENABLED then bcmgenet_hfb_disable_filter e (l + 1) else ret ()) s =
      ((), s\<lparr>trace := ev1 @ trace s\<rparr>)" by (rule trace_only_unit)
  let ?s1 = "s\<lparr>trace := ev1 @ trace s, rxnfc_list := remove1 l (rxnfc_list s)\<rparr>"
  obtain ev2 where r2: "run_state (bcmgenet_hfb_clear_filter e (l + 1)) ?s1 = ((), ?s1\<lparr>trace := ev2 @ trace ?s1\<rparr>)"
    using trace_only_rule(3) by (rule trace_only_unit)
  have split: "run_state (remove_rule e l) s = run_state (do {
      (if ?st \<noteq> UNUSED then do {
        modify (\<lambda>s. s\<lparr>rxnfc_list := remove1 l (rxnfc_list s)\<rparr>);
        bcmgenet_hfb_clear_filter e (l + 1)
      } else ret ());
      upd_rule l (\<lambda>r. r\<lparr>rule_state := UNUSED\<rparr>) }) (s\<lparr>trace := ev1 @ trace s\<rparr>)"
    unfolding remove_rule_def by (simp only: run_bind_lx run_asks_lx prod.case r1)
  show thesis
  proof (cases "?st = UNUSED")
    case True
    show thesis
      by (rule that [of ev1]) (unfold split if_P [OF True] True, simp)
  next
    case False
    have "run_state (remove_rule e l) s = ((), s\<lparr>trace := ev2 @ ev1 @ trace s,
       rxnfc_rules := (rxnfc_rules s)(l := (rxnfc_rules s l)\<lparr>rule_state := UNUSED\<rparr>),
       rxnfc_list := remove1 l (rxnfc_list s)\<rparr>)"
      unfolding split using False r2 by simp
    then show thesis
      by (intro that [of "ev2 @ ev1"]) (use False in simp)
  qed
qed

lemma trace_upd_create:
  "trace_upd (\<lambda>s. s\<lparr>rxnfc_rules := (rxnfc_rules s)(l := (rxnfc_rules s l)\<lparr>rule_state := ENABLED\<rparr>)\<rparr>)
     (bcmgenet_hfb_create_rxnfc_filter e l)"
  unfolding bcmgenet_hfb_create_rxnfc_filter_def upd_rule_def
  by (intro trace_upd_intros trace_only_intros)

lemma run_create_filter:
  obtains evs where "run_state (bcmgenet_hfb_create_rxnfc_filter e l) s = ((), s\<lparr>trace := evs @ trace s,
     rxnfc_rules := (rxnfc_rules s)(l := (rxnfc_rules s l)\<lparr>rule_state := ENABLED\<rparr>)\<rparr>)"
proof -
  obtain x evs where "run_state (bcmgenet_hfb_create_rxnfc_filter e l) s = (x, s\<lparr>trace := evs @ trace s,
     rxnfc_rules := (rxnfc_rules s)(l := (rxnfc_rules s l)\<lparr>rule_state := ENABLED\<rparr>)\<rparr>)"
    using trace_upd_create [of l e] unfolding trace_upd_def by fastforce
  then show thesis by (intro that [of evs]) simp
qed

lemma run_store_rule:
  obtains evs where "run_state (store_rule e f) s = ((), s\<lparr>trace := evs @ trace s,
     rxnfc_rules := (rxnfc_rules s)(location f := \<lparr>fs = f, rule_state = ENABLED\<rparr>),
     rxnfc_list := (if rule_state (rxnfc_rules s (location f)) = UNUSED then rxnfc_list s
       else remove1 (location f) (rxnfc_list s)) @ [location f]\<rparr>)"
proof -
  let ?l = "location f"
  obtain ev1 where r1: "run_state (remove_rule e ?l) s = ((), s\<lparr>trace := ev1 @ trace s,
     rxnfc_rules := (rxnfc_rules s)(?l := (rxnfc_rules s ?l)\<lparr>rule_state := UNUSED\<rparr>),
     rxnfc_list := (if rule_state (rxnfc_rules s ?l) = UNUSED then rxnfc_list s else remove1 ?l (rxnfc_list s))\<rparr>)"
    (is "_ = ((), ?s1)") by (rule run_remove_rule)
  let ?s2 = "?s1\<lparr>rxnfc_rules := (rxnfc_rules ?s1)(?l := (rxnfc_rules ?s1 ?l)\<lparr>fs := f\<rparr>)\<rparr>"
  obtain ev2 where r2: "run_state (bcmgenet_hfb_create_rxnfc_filter e ?l) ?s2 = ((), ?s2\<lparr>trace := ev2 @ trace ?s2,
     rxnfc_rules := (rxnfc_rules ?s2)(?l := (rxnfc_rules ?s2 ?l)\<lparr>rule_state := ENABLED\<rparr>)\<rparr>)"
    by (rule run_create_filter)
  have rec: "r\<lparr>rule_state := UNUSED, fs := f, rule_state := ENABLED\<rparr> = \<lparr>fs = f, rule_state = ENABLED\<rparr>" for r by simp
  have "run_state (store_rule e f) s = ((), s\<lparr>trace := (ev2 @ ev1) @ trace s,
     rxnfc_rules := (rxnfc_rules s)(?l := (rxnfc_rules s ?l)\<lparr>rule_state := UNUSED, fs := f, rule_state := ENABLED\<rparr>),
     rxnfc_list := (if rule_state (rxnfc_rules s ?l) = UNUSED then rxnfc_list s else remove1 ?l (rxnfc_list s)) @ [?l]\<rparr>)"
    unfolding store_rule_def using r2 by (simp add: r1)
  then show thesis unfolding rec by (rule that)
qed

section \<open>A table of rules\<close>

text \<open>The table as a list of rules in the order of their insertion, at most one for each location.\<close>

definition flow_lookup :: "u32 \<Rightarrow> ethtool_rx_flow_spec list \<Rightarrow> ethtool_rx_flow_spec option" where
  "flow_lookup l t = find (\<lambda>r. location r = l) t"

definition flow_delete :: "u32 \<Rightarrow> ethtool_rx_flow_spec list \<Rightarrow> ethtool_rx_flow_spec list" where
  "flow_delete l t = filter (\<lambda>r. location r \<noteq> l) t"

definition flow_insert :: "ethtool_rx_flow_spec \<Rightarrow> ethtool_rx_flow_spec list \<Rightarrow> ethtool_rx_flow_spec list" where
  "flow_insert f t = flow_delete (location f) t @ [f]"

lemma filter_neq_id: "x \<notin> set xs \<Longrightarrow> filter (\<lambda>k. k \<noteq> x) xs = xs"
  by (induction xs) auto

lemma remove1_filter: "distinct xs \<Longrightarrow> remove1 x xs = filter (\<lambda>k. k \<noteq> x) xs"
  by (induction xs) (auto simp: filter_neq_id)

lemma find_map: "find P (map g xs) = map_option g (find (\<lambda>x. P (g x)) xs)"
  by (induction xs) auto

lemma find_cong_set: "(\<And>x. x \<in> set xs \<Longrightarrow> P x \<longleftrightarrow> Q x) \<Longrightarrow> find P xs = find Q xs"
  by (induction xs) auto

lemma flow_lookup_None: "flow_lookup l t = None \<longleftrightarrow> l \<notin> location ` set t"
  by (auto simp: flow_lookup_def find_None_iff)

lemma flow_lookup_delete: "flow_lookup k (flow_delete l t) = (if k = l then None else flow_lookup k t)"
  by (induction t) (auto simp: flow_lookup_def flow_delete_def)

lemma find_append: "find P (xs @ ys) = (case find P xs of Some x \<Rightarrow> Some x | None \<Rightarrow> find P ys)"
  by (induction xs) auto

lemma flow_lookup_insert: "flow_lookup k (flow_insert f t) = (if k = location f then Some f else flow_lookup k t)"
proof -
  have "flow_lookup k (flow_insert f t) =
      (case flow_lookup k (flow_delete (location f) t) of Some r \<Rightarrow> Some r | None \<Rightarrow> flow_lookup k [f])"
    unfolding flow_lookup_def flow_insert_def find_append ..
  moreover have "flow_lookup k [f] = (if k = location f then Some f else None)" by (simp add: flow_lookup_def)
  ultimately show ?thesis by (cases "k = location f") (simp_all add: flow_lookup_delete split: option.split)
qed

locale rule_store =
  fixes inv :: "'s \<Rightarrow> bool"
    and rules :: "'s \<Rightarrow> ethtool_rx_flow_spec list"
    and put :: "ethtool_rx_flow_spec \<Rightarrow> 's \<Rightarrow> 's"
    and del :: "u32 \<Rightarrow> 's \<Rightarrow> 's"
    and capacity :: u32
  assumes located: "inv s \<Longrightarrow> distinct (map location (rules s)) \<and> (\<forall>r\<in>set (rules s). location r < capacity)"
    and put: "inv s \<Longrightarrow> location f < capacity \<Longrightarrow> inv (put f s) \<and> rules (put f s) = flow_insert f (rules s)"
    and del: "inv s \<Longrightarrow> flow_lookup l (rules s) \<noteq> None \<Longrightarrow> inv (del l s) \<and> rules (del l s) = flow_delete l (rules s)"
begin

lemma lookup_put: "inv s \<Longrightarrow> location f < capacity \<Longrightarrow>
    flow_lookup k (rules (put f s)) = (if k = location f then Some f else flow_lookup k (rules s))"
  by (simp add: put flow_lookup_insert)

lemma lookup_del: "inv s \<Longrightarrow> flow_lookup l (rules s) \<noteq> None \<Longrightarrow>
    flow_lookup k (rules (del l s)) = (if k = l then None else flow_lookup k (rules s))"
  by (simp add: del flow_lookup_delete)

lemma lookup_location: "inv s \<Longrightarrow> flow_lookup l (rules s) = Some r \<Longrightarrow> location r = l \<and> l < capacity"
  using located [of s] by (auto simp: flow_lookup_def find_Some_iff)

lemma size_bound: "inv s \<Longrightarrow> length (rules s) \<le> unat capacity"
proof -
  assume "inv s"
  then have d: "distinct (map location (rules s))" and b: "location ` set (rules s) \<subseteq> {..<capacity}"
    using located [of s] by auto
  have "length (rules s) = card (location ` set (rules s))" using distinct_card [OF d] by simp
  also have "\<dots> \<le> card {..<capacity}" by (rule card_mono [OF _ b]) simp
  also have "\<dots> = unat capacity"
  proof -
    have "{..<capacity} = set (upto_word capacity)" by (auto simp: set_upto_word)
    then show ?thesis using distinct_card [OF distinct_upto_word, of capacity] by (simp add: upto_word_def)
  qed
  finally show ?thesis .
qed

lemma put_fresh_grows: "inv s \<Longrightarrow> location f < capacity \<Longrightarrow> flow_lookup (location f) (rules s) = None \<Longrightarrow>
    rules (put f s) = rules s @ [f]"
  by (simp add: put flow_insert_def flow_delete_def flow_lookup_None filter_id_conv) (metis image_eqI)

end

section \<open>The driver's rules as a table\<close>

abbreviation rule_slots :: u32 where
  "rule_slots \<equiv> of_nat MAX_NUM_OF_FS_RULES"

definition rules_of :: "bcmgenet_priv \<Rightarrow> ethtool_rx_flow_spec list" where
  "rules_of s = map (\<lambda>l. fs (rxnfc_rules s l)) (rxnfc_list s)"

definition rules_ok :: "bcmgenet_priv \<Rightarrow> bool" where
  "rules_ok s \<longleftrightarrow> distinct (rxnfc_list s) \<and>
     (\<forall>l\<in>set (rxnfc_list s). l < rule_slots \<and> location (fs (rxnfc_rules s l)) = l) \<and>
     (\<forall>l<rule_slots. rule_state (rxnfc_rules s l) \<noteq> UNUSED \<longleftrightarrow> l \<in> set (rxnfc_list s))"

lemma rules_of_locations: "rules_ok s \<Longrightarrow> map location (rules_of s) = rxnfc_list s"
  by (auto simp: rules_ok_def rules_of_def intro: map_idI)

lemma find_located:
  "\<forall>k\<in>set ls. location (g k) = k \<Longrightarrow> find (\<lambda>r. location r = l) (map g ls) = (if l \<in> set ls then Some (g l) else None)"
  by (induction ls) auto

lemma rules_of_lookup:
  assumes "rules_ok s" "l < rule_slots"
  shows "flow_lookup l (rules_of s) = (if rule_state (rxnfc_rules s l) = UNUSED then None else Some (fs (rxnfc_rules s l)))"
proof -
  have "flow_lookup l (rules_of s) = (if l \<in> set (rxnfc_list s) then Some (fs (rxnfc_rules s l)) else None)"
    using assms(1) unfolding rules_of_def flow_lookup_def by (intro find_located) (simp add: rules_ok_def)
  moreover have "l \<in> set (rxnfc_list s) \<longleftrightarrow> rule_state (rxnfc_rules s l) \<noteq> UNUSED"
    using assms unfolding rules_ok_def by blast
  ultimately show ?thesis by simp
qed

lemma rules_of_map: "\<forall>l\<in>set (rxnfc_list s). location (g l) = l \<Longrightarrow> filter (\<lambda>r. location r \<noteq> k) (map g (rxnfc_list s)) =
    map g (filter (\<lambda>l. l \<noteq> k) (rxnfc_list s))"
  by (auto simp: filter_map intro!: arg_cong [of _ _ "map g"] filter_cong)

lemma after_store_rule:
  assumes ok: "rules_ok s" and l: "location f < rule_slots"
  shows "rules_ok (after (store_rule e f) s)" "rules_of (after (store_rule e f) s) = flow_insert f (rules_of s)"
proof -
  let ?l = "location f"
  obtain evs where r: "run_state (store_rule e f) s = ((), s\<lparr>trace := evs @ trace s,
     rxnfc_rules := (rxnfc_rules s)(?l := \<lparr>fs = f, rule_state = ENABLED\<rparr>),
     rxnfc_list := (if rule_state (rxnfc_rules s ?l) = UNUSED then rxnfc_list s
       else remove1 ?l (rxnfc_list s)) @ [?l]\<rparr>)" by (rule run_store_rule)
  have d: "distinct (rxnfc_list s)" using ok by (simp add: rules_ok_def)
  have ls: "(if rule_state (rxnfc_rules s ?l) = UNUSED then rxnfc_list s else remove1 ?l (rxnfc_list s)) =
      filter (\<lambda>k. k \<noteq> ?l) (rxnfc_list s)"
  proof (cases "rule_state (rxnfc_rules s ?l) = UNUSED")
    case True
    then have "?l \<notin> set (rxnfc_list s)" using ok l unfolding rules_ok_def by blast
    then show ?thesis using True by (simp add: filter_neq_id)
  qed (simp add: d remove1_filter)
  have list: "rxnfc_list (after (store_rule e f) s) = filter (\<lambda>k. k \<noteq> ?l) (rxnfc_list s) @ [?l]"
    and rul: "rxnfc_rules (after (store_rule e f) s) = (rxnfc_rules s)(?l := \<lparr>fs = f, rule_state = ENABLED\<rparr>)"
    unfolding r [unfolded ls] by simp_all
  show "rules_ok (after (store_rule e f) s)" using ok l unfolding rules_ok_def list rul by auto
  have "rules_of (after (store_rule e f) s) = map (\<lambda>l. fs (rxnfc_rules s l)) (filter (\<lambda>k. k \<noteq> ?l) (rxnfc_list s)) @ [f]"
    unfolding rules_of_def list rul by (auto)
  then show "rules_of (after (store_rule e f) s) = flow_insert f (rules_of s)"
    using ok unfolding flow_insert_def flow_delete_def rules_of_def by (simp add: rules_of_map rules_ok_def)
qed

text \<open>Deleting as \<open>bcmgenet_delete_flow\<close> does it: the rule is taken out and its specification cleared.\<close>

definition drop_rule :: "linux_env \<Rightarrow> u32 \<Rightarrow> unit drv" where
  "drop_rule e l = do { remove_rule e l; upd_rule l (\<lambda>r. r\<lparr>fs := zero_flow\<rparr>) }"

lemma after_drop_rule:
  assumes ok: "rules_ok s" and l: "flow_lookup l (rules_of s) \<noteq> None"
  shows "rules_ok (after (drop_rule e l) s)" "rules_of (after (drop_rule e l) s) = flow_delete l (rules_of s)"
proof -
  obtain evs where r: "run_state (remove_rule e l) s = ((), s\<lparr>trace := evs @ trace s,
     rxnfc_rules := (rxnfc_rules s)(l := (rxnfc_rules s l)\<lparr>rule_state := UNUSED\<rparr>),
     rxnfc_list := (if rule_state (rxnfc_rules s l) = UNUSED then rxnfc_list s else remove1 l (rxnfc_list s))\<rparr>)"
    by (rule run_remove_rule)
  have "l \<in> set (rxnfc_list s)"
    using l rules_of_locations [OF ok] by (metis flow_lookup_None set_map)
  then have b: "l < rule_slots" "rule_state (rxnfc_rules s l) \<noteq> UNUSED" using ok by (auto simp: rules_ok_def)
  have d: "distinct (rxnfc_list s)" using ok by (simp add: rules_ok_def)
  have list: "rxnfc_list (after (drop_rule e l) s) = filter (\<lambda>k. k \<noteq> l) (rxnfc_list s)"
    and rul: "rxnfc_rules (after (drop_rule e l) s) = (rxnfc_rules s)(l := \<lparr>fs = zero_flow, rule_state = UNUSED\<rparr>)"
    unfolding drop_rule_def using r b d by (auto simp: remove1_filter)
  show "rules_ok (after (drop_rule e l) s)" using ok b unfolding rules_ok_def list rul by auto
  have "rules_of (after (drop_rule e l) s) = map (\<lambda>l. fs (rxnfc_rules s l)) (filter (\<lambda>k. k \<noteq> l) (rxnfc_list s))"
    unfolding rules_of_def list rul by auto
  then show "rules_of (after (drop_rule e l) s) = flow_delete l (rules_of s)"
    using ok unfolding flow_delete_def rules_of_def by (simp add: rules_of_map rules_ok_def)
qed

interpretation drv_rules: rule_store rules_ok rules_of "\<lambda>f. after (store_rule e f)" "\<lambda>l. after (drop_rule e l)" rule_slots for e
proof
  fix s assume "rules_ok s"
  then show "distinct (map location (rules_of s)) \<and> (\<forall>r\<in>set (rules_of s). location r < rule_slots)"
    by (auto simp: rules_of_locations) (auto simp: rules_ok_def rules_of_def)
qed (auto simp: after_store_rule after_drop_rule)

end
