(* ===== verification/Linux_Hfb_Props.thy ===== *)
theory Linux_Hfb_Props
  imports Linux_Hfb_Rules
begin

text \<open>The commands on flow rules and their refinement of a table of rules.\<close>

section \<open>Commands\<close>

text \<open>
  What \<open>ETHTOOL_SRXCLSRLINS\<close> and \<open>ETHTOOL_SRXCLSRLDEL\<close> mean on a table: an acceptable rule goes to its
  location and replaces what was there; with the location \<open>RX_CLS_LOC_ANY\<close> it goes nowhere if an equal rule
  is in the table and to the first free location otherwise.
\<close>

definition flow_acceptable :: "linux_env \<Rightarrow> bcmgenet_hw_params \<Rightarrow> ethtool_rx_flow_spec \<Rightarrow> bool" where
  "flow_acceptable e hw f \<longleftrightarrow> 128 \<le> hfb_filter_size hw \<and>
     (ring_cookie f \<le> ucast (rx_queues hw) \<or> ring_cookie f \<in> {RX_CLS_FLOW_WAKE (kh e), RX_CLS_FLOW_DISC (kh e)}) \<and>
     bcmgenet_validate_flow e f = 0"

definition table_set :: "linux_env \<Rightarrow> bcmgenet_hw_params \<Rightarrow> ethtool_rxnfc \<Rightarrow> ethtool_rx_flow_spec list \<Rightarrow>
    (u32 \<times> ethtool_rxnfc) \<times> ethtool_rx_flow_spec list" where
  "table_set e hw cmd t =
     (let f = nfc_fs cmd; stored = (\<lambda>l. ((0, cmd\<lparr>nfc_fs := f\<lparr>location := l\<rparr>\<rparr>), flow_insert (f\<lparr>location := l\<rparr>) t)) in
      if nfc_cmd cmd = ETHTOOL_SRXCLSRLINS (kh e) then
        if \<not> flow_acceptable e hw f then ((- EINVAL, cmd), t)
        else if location f \<noteq> RX_CLS_LOC_ANY (kh e) then stored (location f)
        else case find (\<lambda>r. same_rule r f) t of
          Some r \<Rightarrow> ((0, cmd\<lparr>nfc_fs := f\<lparr>location := location r\<rparr>\<rparr>), t)
        | None \<Rightarrow> (case find (\<lambda>l. flow_lookup l t = None) (upto_word rule_slots) of
            Some l \<Rightarrow> stored l
          | None \<Rightarrow> ((- ENOSPC, cmd), t))
      else if nfc_cmd cmd = ETHTOOL_SRXCLSRLDEL (kh e) then
        if rule_slots \<le> location f then ((- EINVAL, cmd), t)
        else if flow_lookup (location f) t = None then ((- ENOENT, cmd), t)
        else ((0, cmd), flow_delete (location f) t)
      else ((- EINVAL, cmd), t))"

definition table_get :: "linux_env \<Rightarrow> ethtool_rxnfc \<Rightarrow> ethtool_rx_flow_spec list \<Rightarrow> u32 \<times> ethtool_rxnfc \<times> u32 list" where
  "table_get e cmd t =
     (if nfc_cmd cmd = ETHTOOL_GRXCLSRLCNT (kh e) then
        (0, cmd\<lparr>nfc_rule_cnt := of_nat (length t), nfc_data := ucast (rule_slots OR RX_CLS_LOC_SPECIAL (kh e))\<rparr>, [])
      else if nfc_cmd cmd = ETHTOOL_GRXCLSRULE (kh e) then
        if rule_slots \<le> location (nfc_fs cmd) then (- EINVAL, cmd, [])
        else case flow_lookup (location (nfc_fs cmd)) t of
          None \<Rightarrow> (- ENOENT, cmd, [])
        | Some r \<Rightarrow> (0, cmd\<lparr>nfc_fs := r\<rparr>, [])
      else if nfc_cmd cmd = ETHTOOL_GRXCLSRLALL (kh e) then
        let locs = take (unat (nfc_rule_cnt cmd)) (map location t) in
        (0, cmd\<lparr>nfc_rule_cnt := of_nat (length locs), nfc_data := of_nat MAX_NUM_OF_FS_RULES\<rparr>, locs)
      else (- EOPNOTSUPP, cmd, []))"

lemma choose_location_table:
  assumes ok: "rules_ok s"
  shows "choose_location f s = (case find (\<lambda>r. same_rule r f) (rules_of s) of
      Some r \<Rightarrow> Inl (location r) | None \<Rightarrow> Inr (find (\<lambda>l. flow_lookup l (rules_of s) = None) (upto_word rule_slots)))"
proof -
  have 1: "find (\<lambda>r. same_rule r f) (rules_of s) =
      map_option (\<lambda>l. fs (rxnfc_rules s l)) (find (\<lambda>l. same_rule (fs (rxnfc_rules s l)) f) (rxnfc_list s))"
    unfolding rules_of_def find_map ..
  have 2: "find (\<lambda>i. rule_state (rxnfc_rules s i) = UNUSED) (upto_word rule_slots) =
      find (\<lambda>l. flow_lookup l (rules_of s) = None) (upto_word rule_slots)"
    by (rule find_cong_set) (simp add: set_upto_word rules_of_lookup [OF ok])
  show ?thesis unfolding choose_location_def 1 2 by (simp split: option.split)
qed

lemma validate_flow_result: "bcmgenet_validate_flow e f = 0 \<or> bcmgenet_validate_flow e f = - EINVAL"
  by (simp add: bcmgenet_validate_flow_def Let_def)

lemma validate_flow_location:
  "bcmgenet_validate_flow e f = 0 \<Longrightarrow> location f \<noteq> RX_CLS_LOC_ANY (kh e) \<Longrightarrow> location f < rule_slots"
  by (rule ccontr) (simp add: bcmgenet_validate_flow_def Let_def lx_errno not_less)

lemma store_rule_hw: "hw_params (after (store_rule e f) s) = hw_params s"
  by (rule run_store_rule [of e f s]) simp

lemma drop_rule_hw: "hw_params (after (drop_rule e l) s) = hw_params s"
  unfolding drop_rule_def by (rule run_remove_rule [of e l s]) simp

lemma insert_flow_run:
  assumes ok: "rules_ok s"
  shows "run_state (bcmgenet_insert_flow e cmd) s =
    (let f = nfc_fs cmd; stored = (\<lambda>l. ((0, cmd\<lparr>nfc_fs := f\<lparr>location := l\<rparr>\<rparr>), after (store_rule e (f\<lparr>location := l\<rparr>)) s)) in
      if \<not> flow_acceptable e (hw_params s) f then ((- EINVAL, cmd), s)
      else if location f \<noteq> RX_CLS_LOC_ANY (kh e) then stored (location f)
      else case find (\<lambda>r. same_rule r f) (rules_of s) of
        Some r \<Rightarrow> ((0, cmd\<lparr>nfc_fs := f\<lparr>location := location r\<rparr>\<rparr>), s)
      | None \<Rightarrow> (case find (\<lambda>l. flow_lookup l (rules_of s) = None) (upto_word rule_slots) of
          Some l \<Rightarrow> stored l
        | None \<Rightarrow> ((- ENOSPC, cmd), s)))"
proof -
  let ?f = "nfc_fs cmd" let ?hw = "hw_params s"
  let ?far = "ring_cookie ?f > ucast (rx_queues ?hw) \<and> ring_cookie ?f \<noteq> RX_CLS_FLOW_WAKE (kh e) \<and>
     ring_cookie ?f \<noteq> RX_CLS_FLOW_DISC (kh e)"
  show ?thesis
  proof (cases "flow_acceptable e ?hw ?f")
    case False
    then have "hfb_filter_size ?hw < 128 \<or> ?far \<or> bcmgenet_validate_flow e ?f = - EINVAL"
      using validate_flow_result [of e ?f] by (auto simp: flow_acceptable_def not_le)
    then have "run_state (bcmgenet_insert_flow e cmd) s = ((- EINVAL, cmd), s)"
      using validate_flow_result [of e ?f] unfolding bcmgenet_insert_flow_def
      by (cases "hfb_filter_size ?hw < 128"; cases ?far) (simp_all add: Let_def lx_errno)
    then show ?thesis using False by (simp add: Let_def)
  next
    case True
    then have a: "\<not> hfb_filter_size ?hw < 128" "\<not> ?far" "bcmgenet_validate_flow e ?f = 0"
      by (auto simp: flow_acceptable_def not_le)
    show ?thesis
    proof (cases "location ?f = RX_CLS_LOC_ANY (kh e)")
      case any: True
      show ?thesis unfolding bcmgenet_insert_flow_def run_bind_lx run_asks_lx prod.case Let_def if_not_P [OF a(1)] if_not_P [OF a(2)] a(3)
        using any True by (simp add: choose_location_table [OF ok] split_beta split: option.split)
    next
      case False
      show ?thesis unfolding bcmgenet_insert_flow_def run_bind_lx run_asks_lx prod.case Let_def if_not_P [OF a(1)] if_not_P [OF a(2)] a(3)
        using False True by (simp add: split_beta)
    qed
  qed
qed

lemma set_rxnfc_refines:
  assumes ok: "rules_ok s"
  shows "rules_ok (after (bcmgenet_set_rxnfc e cmd) s)"
    and "hw_params (after (bcmgenet_set_rxnfc e cmd) s) = hw_params s"
    and "(fst (run_state (bcmgenet_set_rxnfc e cmd) s), rules_of (after (bcmgenet_set_rxnfc e cmd) s)) =
      table_set e (hw_params s) cmd (rules_of s)"
proof -
  let ?f = "nfc_fs cmd" let ?m = "bcmgenet_set_rxnfc e cmd"
  consider (ins) "nfc_cmd cmd = ETHTOOL_SRXCLSRLINS (kh e)"
    | (del) "nfc_cmd cmd \<noteq> ETHTOOL_SRXCLSRLINS (kh e)" "nfc_cmd cmd = ETHTOOL_SRXCLSRLDEL (kh e)"
    | (other) "nfc_cmd cmd \<noteq> ETHTOOL_SRXCLSRLINS (kh e)" "nfc_cmd cmd \<noteq> ETHTOOL_SRXCLSRLDEL (kh e)" by blast
  then have "rules_ok (after ?m s) \<and> hw_params (after ?m s) = hw_params s \<and>
    (fst (run_state ?m s), rules_of (after ?m s)) = table_set e (hw_params s) cmd (rules_of s)"
  proof cases
    case ins
    let ?s = "\<lambda>l. after (store_rule e (?f\<lparr>location := l\<rparr>)) s"
    have st: "rules_ok (?s l) \<and> hw_params (?s l) = hw_params s \<and> rules_of (?s l) = flow_insert (?f\<lparr>location := l\<rparr>) (rules_of s)"
      if "l < rule_slots" for l
      using that after_store_rule [OF ok, of "?f\<lparr>location := l\<rparr>" e] by (simp add: store_rule_hw)
    have loc: "location ?f < rule_slots" if "flow_acceptable e (hw_params s) ?f" "location ?f \<noteq> RX_CLS_LOC_ANY (kh e)"
      using that by (intro validate_flow_location) (simp_all add: flow_acceptable_def)
    have free: "l < rule_slots" if "find (\<lambda>l. flow_lookup l (rules_of s) = None) (upto_word rule_slots) = Some l" for l
      using that by (metis find_Some_iff nth_mem set_upto_word)
    have "run_state ?m s = run_state (bcmgenet_insert_flow e cmd) s" using ins by (simp add: bcmgenet_set_rxnfc_def)
    note run = this [unfolded insert_flow_run [OF ok] Let_def]
    show ?thesis
    proof (cases "flow_acceptable e (hw_params s) ?f \<and> location ?f = RX_CLS_LOC_ANY (kh e)")
      case True
      then show ?thesis
        unfolding table_set_def if_P [OF ins] Let_def run
        by (cases "find (\<lambda>r. same_rule r ?f) (rules_of s)";
            cases "find (\<lambda>l. flow_lookup l (rules_of s) = None) (upto_word rule_slots)") (simp_all add: ok st free)
    next
      case False
      then show ?thesis
        unfolding table_set_def if_P [OF ins] Let_def run using st [OF loc]
        by (cases "flow_acceptable e (hw_params s) ?f") (simp_all add: ok)
    qed
  next
    case del
    have run: "run_state ?m s = (let (err, s') = run_state (bcmgenet_delete_flow e cmd) s in ((err, cmd), s'))"
      using del by (simp add: bcmgenet_set_rxnfc_def Let_def)
    show ?thesis
    proof (cases "rule_slots \<le> location ?f \<or> flow_lookup (location ?f) (rules_of s) = None")
      case True
      then show ?thesis using ok del unfolding run table_set_def
        by (auto simp: bcmgenet_delete_flow_def Let_def rules_of_lookup not_le split: if_splits)
    next
      case False
      then have l: "location ?f < rule_slots" and s: "rule_state (rxnfc_rules s (location ?f)) \<noteq> UNUSED"
        using rules_of_lookup [OF ok, of "location ?f"] by (auto simp: not_le)
      have "run_state (bcmgenet_delete_flow e cmd) s = (0, after (drop_rule e (location ?f)) s)"
        using False s unfolding bcmgenet_delete_flow_def drop_rule_def Let_def by (simp add: split_beta)
      then show ?thesis
        using False del after_drop_rule [OF ok, of "location ?f" e] unfolding run table_set_def
        by (auto simp: Let_def drop_rule_hw)
    qed
  next
    case other
    then show ?thesis using ok by (simp add: bcmgenet_set_rxnfc_def table_set_def Let_def)
  qed
  then show "rules_ok (after ?m s)" "hw_params (after ?m s) = hw_params s"
    "(fst (run_state ?m s), rules_of (after ?m s)) = table_set e (hw_params s) cmd (rules_of s)" by blast+
qed

lemma signed_slot: "loc <s 0 \<or> rule_slots \<le>s loc \<longleftrightarrow> rule_slots \<le> loc" for loc :: u32
proof (cases "uint loc < 2147483648")
  case True
  then have "sint loc = uint loc"
    unfolding sint_uint by (intro signed_take_bit_int_eq_self order_trans [OF _ uint_ge_0]) simp_all
  then show ?thesis by (simp add: word_sless_alt word_sle_eq word_le_def lx_consts not_less)
next
  case False
  moreover have "uint loc < 4294967296" using uint_lt2p [of loc] by simp
  ultimately have "uint loc div 2147483648 = 1" by simp
  then have "bit (uint loc) 31" by (simp add: bit_iff_odd)
  then have "sint loc < 0" by (simp add: sint_uint)
  then show ?thesis using False by (simp add: word_sless_alt word_sle_eq word_le_def lx_consts)
qed

lemma get_rxnfc_table:
  assumes ok: "rules_ok s"
  shows "run_state (bcmgenet_get_rxnfc e cmd) s = (table_get e cmd (rules_of s), s)"
proof -
  have len: "length (rules_of s) = length (rxnfc_list s)" by (simp add: rules_of_def)
  have locs: "map (\<lambda>l. location (fs (rxnfc_rules s l))) (rxnfc_list s) = map location (rules_of s)" by (simp add: rules_of_def)
  note defs = bcmgenet_get_rxnfc_def table_get_def bcmgenet_get_flow_def bcmgenet_get_num_flows_def
  show ?thesis
  proof (cases "rule_slots \<le> location (nfc_fs cmd)")
    case True
    then show ?thesis by (simp add: defs len locs signed_slot Let_def)
  next
    case False
    then have "location (nfc_fs cmd) < rule_slots" by simp
    from rules_of_lookup [OF ok this] False show ?thesis by (simp add: defs len locs signed_slot Let_def)
  qed
qed

lemma run_rules_unused:
  "run_state (for_list (\<lambda>i. upd_rule i (\<lambda>r. r\<lparr>rule_state := UNUSED\<rparr>)) xs) s =
    ((), s\<lparr>rxnfc_rules := (\<lambda>i. if i \<in> set xs then (rxnfc_rules s i)\<lparr>rule_state := UNUSED\<rparr> else rxnfc_rules s i)\<rparr>)"
  by (induction xs arbitrary: s) (auto intro!: arg_cong [of _ _ "\<lambda>r. rxnfc_rules_update (\<lambda>_. r) _"])

lemma after_hfb_init:
  "rules_ok (after (bcmgenet_hfb_init e) s) \<and> rules_of (after (bcmgenet_hfb_init e) s) = [] \<and>
   hw_params (after (bcmgenet_hfb_init e) s) = hw_params s"
proof -
  let ?s = "s\<lparr>rxnfc_rules := (\<lambda>i. if i < rule_slots then (rxnfc_rules s i)\<lparr>rule_state := UNUSED\<rparr> else rxnfc_rules s i), rxnfc_list := []\<rparr>"
  obtain evs where "run_state (bcmgenet_hfb_clear e) ?s = ((), ?s\<lparr>trace := evs @ trace ?s\<rparr>)"
    using trace_only_hfb_clear by (rule trace_only_unit)
  then have "run_state (bcmgenet_hfb_init e) s = ((), ?s\<lparr>trace := evs @ trace ?s\<rparr>)"
    unfolding bcmgenet_hfb_init_def by (simp add: run_rules_unused set_upto_word cong: if_cong)
  then show ?thesis by (simp add: rules_ok_def rules_of_def)
qed

text \<open>Any number of commands, with their answers.\<close>

primrec set_rxnfc_all :: "linux_env \<Rightarrow> ethtool_rxnfc list \<Rightarrow> (u32 \<times> ethtool_rxnfc) list drv" where
  "set_rxnfc_all e [] = ret []"
| "set_rxnfc_all e (cmd # cmds) = do {
     r \<leftarrow> bcmgenet_set_rxnfc e cmd;
     rs \<leftarrow> set_rxnfc_all e cmds;
     ret (r # rs)
   }"

primrec table_set_all :: "linux_env \<Rightarrow> bcmgenet_hw_params \<Rightarrow> ethtool_rxnfc list \<Rightarrow> ethtool_rx_flow_spec list \<Rightarrow>
    (u32 \<times> ethtool_rxnfc) list \<times> ethtool_rx_flow_spec list" where
  "table_set_all e hw [] t = ([], t)"
| "table_set_all e hw (cmd # cmds) t =
     (let (r, t) = table_set e hw cmd t; (rs, t) = table_set_all e hw cmds t in (r # rs, t))"

lemma set_rxnfc_all_refines:
  assumes "rules_ok s"
  shows "rules_ok (after (set_rxnfc_all e cmds) s) \<and>
    (fst (run_state (set_rxnfc_all e cmds) s), rules_of (after (set_rxnfc_all e cmds) s)) =
      table_set_all e (hw_params s) cmds (rules_of s)"
  using assms
proof (induction cmds arbitrary: s)
  case (Cons cmd cmds)
  obtain r s' where r: "run_state (bcmgenet_set_rxnfc e cmd) s = (r, s')" by fastforce
  have "rules_ok s'" "hw_params s' = hw_params s" "(r, rules_of s') = table_set e (hw_params s) cmd (rules_of s)"
    using set_rxnfc_refines [OF Cons.prems, of e cmd] by (simp_all add: r)
  then show ?case using Cons.IH [of s'] by (auto simp: r split_beta prod_eq_iff simp flip: )
qed simp

text \<open>
  C2: Flow rules as a table.  After \<open>bcmgenet_hfb_init\<close>, for any hardware and any sequence of commands given
  to \<open>bcmgenet_set_rxnfc\<close>, every answer and the final table are those of the table of rules
  \<open>table_set_all\<close> that starts empty: an acceptable rule replaces what its location holds, a rule for any
  location is found or put at the first free one or refused with \<open>-ENOSPC\<close>, deletion empties a location or
  answers \<open>-ENOENT\<close>.  The table never holds two rules of one location nor more than 16 rules, a stored rule is
  the one read back, and every query of \<open>bcmgenet_get_rxnfc\<close> is answered from the table and changes nothing.
\<close>

theorem flow_rules_table:
  "let s0 = snd (run_state (bcmgenet_hfb_init e) s); (answers, s1) = run_state (set_rxnfc_all e cmds) s0;
       t = rules_of s1
   in (answers, t) = table_set_all e (hw_params s) cmds [] \<and>
      distinct (map location t) \<and> length t \<le> 16 \<and>
      (\<forall>l r. flow_lookup l t = Some r \<longleftrightarrow>
         l < 16 \<and> rule_state (rxnfc_rules s1 l) \<noteq> BCMGENET_RXNFC_STATE_UNUSED \<and> fs (rxnfc_rules s1 l) = r) \<and>
      (\<forall>cmd. run_state (bcmgenet_get_rxnfc e cmd) s1 = (table_get e cmd t, s1))"
proof -
  let ?s0 = "after (bcmgenet_hfb_init e) s"
  let ?s1 = "after (set_rxnfc_all e cmds) ?s0"
  have 1: "rules_ok ?s1" "(fst (run_state (set_rxnfc_all e cmds) ?s0), rules_of ?s1) = table_set_all e (hw_params s) cmds []"
    using after_hfb_init [of e s] set_rxnfc_all_refines [of ?s0 e cmds] by simp_all
  have size: "length (rules_of ?s1) \<le> 16" using drv_rules.size_bound [OF 1(1)] by (simp add: lx_consts)
  have look: "flow_lookup l (rules_of ?s1) = Some r \<longleftrightarrow>
      l < 16 \<and> rule_state (rxnfc_rules ?s1 l) \<noteq> UNUSED \<and> fs (rxnfc_rules ?s1 l) = r" for l r
    using drv_rules.lookup_location [OF 1(1), of l r] rules_of_lookup [OF 1(1), of l]
    by (cases "l < 16") (auto simp: lx_consts)
  show ?thesis
    unfolding Let_def split_beta
    using 1(2) drv_rules.located [OF 1(1)] size look get_rxnfc_table [OF 1(1)] by simp
qed

end
