(* ===== verification/Linux_Rx_Ring.thy ===== *)
theory Linux_Rx_Ring
  imports Linux_Lib Linux_Rx "HOL-Library.Multiset"
begin

text \<open>
  A receive ring of the Linux driver as a rotating list of buffers: the list starts at the control block the
  driver looks at next, and a round of \<open>bcmgenet_desc_rx\<close> moves the head, or the buffer that
  replaces it, to the end.  The relation \<open>rx_served\<close> says what a number of rounds does to the ring,
  the statistics and the buffers of the history; it composes, so the loop follows by induction.
\<close>

section \<open>Positions of a receive ring\<close>

definition rx_geom :: "bcmgenet_rx_ring \<Rightarrow> bool" where
  "rx_geom r \<longleftrightarrow> r_cb_ptr r \<le> r_read_ptr r \<and> r_read_ptr r \<le> r_end_ptr r \<and> r_end_ptr r < 256"

definition rx_size :: "bcmgenet_rx_ring \<Rightarrow> nat" where
  "rx_size r = Suc (unat (r_end_ptr r) - unat (r_cb_ptr r))"

definition rx_pos :: "bcmgenet_rx_ring \<Rightarrow> nat \<Rightarrow> u32" where
  "rx_pos r k = of_nat (unat (r_cb_ptr r) + (unat (r_read_ptr r) - unat (r_cb_ptr r) + k) mod rx_size r)"

lemma rx_geom_nat: "rx_geom r \<longleftrightarrow> unat (r_cb_ptr r) \<le> unat (r_read_ptr r) \<and> unat (r_read_ptr r) \<le> unat (r_end_ptr r) \<and> unat (r_end_ptr r) < 256"
  by (simp add: rx_geom_def word_le_nat_alt word_less_nat_alt)

lemma rx_offset_le: "x mod rx_size r \<le> unat (r_end_ptr r) - unat (r_cb_ptr r)"
  using mod_less_divisor [of "rx_size r" x] by (simp add: rx_size_def)

lemma unat_rx_pos:
  assumes "rx_geom r"
  shows "unat (rx_pos r k) = unat (r_cb_ptr r) + (unat (r_read_ptr r) - unat (r_cb_ptr r) + k) mod rx_size r" (is "_ = _ + ?x mod _")
proof -
  have "unat (r_cb_ptr r) \<le> unat (r_end_ptr r)" "unat (r_end_ptr r) < 256" using assms by (auto simp: rx_geom_nat)
  with rx_offset_le [of ?x r] have "unat (r_cb_ptr r) + ?x mod rx_size r < 4294967296" by linarith
  then show ?thesis by (simp add: rx_pos_def unsigned_of_nat take_bit_nat_eq_self del: of_nat_add)
qed

lemma rx_pos_0:
  assumes "rx_geom r"
  shows "rx_pos r 0 = r_read_ptr r"
proof -
  have g: "unat (r_cb_ptr r) \<le> unat (r_read_ptr r)" "unat (r_read_ptr r) \<le> unat (r_end_ptr r)"
    using assms by (auto simp: rx_geom_nat)
  then have "unat (r_read_ptr r) - unat (r_cb_ptr r) < rx_size r" unfolding rx_size_def by linarith
  with g(1) show ?thesis by (simp add: word_unat_eq_iff unat_rx_pos [OF assms])
qed

lemma rx_pos_inj:
  assumes "rx_geom r" "i < rx_size r" "j < rx_size r" "rx_pos r i = rx_pos r j"
  shows "i = j"
proof -
  let ?o = "unat (r_read_ptr r) - unat (r_cb_ptr r)"
  have "(?o + i) mod rx_size r = (?o + j) mod rx_size r"
    using assms(4) unat_rx_pos [OF assms(1), of i] unat_rx_pos [OF assms(1), of j] by simp
  then have "i mod rx_size r = j mod rx_size r"
    unfolding nat_mod_eq_iff by (metis add.assoc add_left_cancel)
  then show ?thesis using assms(2,3) by simp
qed

lemma advance_read_ptr:
  assumes "rx_geom r"
  shows "unat (r_read_ptr (advance_read r)) =
    unat (r_cb_ptr r) + Suc (unat (r_read_ptr r) - unat (r_cb_ptr r)) mod rx_size r"
proof (cases "r_read_ptr r < r_end_ptr r")
  case True
  then have l: "unat (r_read_ptr r) < unat (r_end_ptr r)" by (simp add: word_less_nat_alt)
  have g: "unat (r_cb_ptr r) \<le> unat (r_read_ptr r)" "unat (r_end_ptr r) < 256" using assms by (auto simp: rx_geom_nat)
  have "unat (r_read_ptr r + 1) = Suc (unat (r_read_ptr r))"
    using l g by (simp add: unat_add_lem [THEN iffD1])
  moreover have "Suc (unat (r_read_ptr r) - unat (r_cb_ptr r)) < rx_size r"
    using l g by (simp add: rx_size_def)
  ultimately show ?thesis using True g by (simp add: advance_read_def)
next
  case False
  then have "unat (r_read_ptr r) = unat (r_end_ptr r)" using assms by (simp add: rx_geom_nat word_less_nat_alt)
  then show ?thesis using False assms by (simp add: advance_read_def rx_size_def)
qed

lemma advance_read_fields [simp]:
  "r_cb_ptr (advance_read r) = r_cb_ptr r" "r_end_ptr (advance_read r) = r_end_ptr r" "rx_size (advance_read r) = rx_size r"
  "r_index (advance_read r) = r_index r" "r_c_index (advance_read r) = r_c_index r" "r_stats64 (advance_read r) = r_stats64 r"
  by (simp_all add: advance_read_def rx_size_def)

lemma rx_geom_advance:
  assumes "rx_geom r"
  shows "rx_geom (advance_read r)"
proof -
  have "unat (r_cb_ptr r) \<le> unat (r_end_ptr r)" "unat (r_end_ptr r) < 256" using assms by (auto simp: rx_geom_nat)
  with advance_read_ptr [OF assms] rx_offset_le [of "Suc (unat (r_read_ptr r) - unat (r_cb_ptr r))" r]
  have "unat (r_cb_ptr r) \<le> unat (r_read_ptr (advance_read r))" "unat (r_read_ptr (advance_read r)) \<le> unat (r_end_ptr r)"
    by linarith+
  with \<open>unat (r_end_ptr r) < 256\<close> show ?thesis by (simp add: rx_geom_nat)
qed

lemma rx_pos_advance: "rx_geom r \<Longrightarrow> rx_pos (advance_read r) k = rx_pos r (Suc k)"
  by (simp add: rx_pos_def advance_read_ptr mod_simps)

lemma rx_pos_wrap: "rx_pos r (rx_size r) = rx_pos r 0"
  by (simp add: rx_pos_def)

text \<open>What the ring holds, from the block the driver looks at next on.\<close>

definition rx_cells :: "bcmgenet_rx_ring \<Rightarrow> (u32 \<Rightarrow> 'a) \<Rightarrow> 'a list" where
  "rx_cells r c = map (\<lambda>k. c (rx_pos r k)) [0..<rx_size r]"

lemma rx_cells_advance:
  assumes g: "rx_geom r"
  shows "rx_cells (advance_read r) (c(r_read_ptr r := x)) = tl (rx_cells r c) @ [x]"
proof -
  obtain m where m: "rx_size r = Suc m" by (simp add: rx_size_def)
  have ne: "rx_pos r (Suc k) \<noteq> r_read_ptr r" if "k < m" for k
    using rx_pos_inj [OF g, of "Suc k" 0] that m by (auto simp: rx_pos_0 [OF g])
  have "rx_cells (advance_read r) (c(r_read_ptr r := x)) =
      map (\<lambda>k. (c(r_read_ptr r := x)) (rx_pos r (Suc k))) [0..<m] @ [(c(r_read_ptr r := x)) (rx_pos r (Suc m))]"
    by (simp add: rx_cells_def m rx_pos_advance [OF g])
  also have "map (\<lambda>k. (c(r_read_ptr r := x)) (rx_pos r (Suc k))) [0..<m] = map (\<lambda>k. c (rx_pos r (Suc k))) [0..<m]"
    using ne by simp
  also have "\<dots> = tl (rx_cells r c)" by (simp add: rx_cells_def m map_upt_Suc del: upt_Suc)
  also have "(c(r_read_ptr r := x)) (rx_pos r (Suc m)) = x"
    using rx_pos_wrap [of r] by (simp add: m rx_pos_0 [OF g])
  finally show ?thesis .
qed

lemma rx_cells_hd: "rx_geom r \<Longrightarrow> hd (rx_cells r c) = c (r_read_ptr r)"
  by (simp add: rx_cells_def rx_pos_0 [symmetric] hd_map upt_rec [of 0] rx_size_def del: upt_Suc)

lemma rx_cells_length [simp]: "rx_cells r c \<noteq> []" "length (rx_cells r c) = rx_size r"
  by (simp_all add: rx_cells_def rx_size_def)

lemma rx_cells_cong: "r_cb_ptr r' = r_cb_ptr r \<Longrightarrow> r_end_ptr r' = r_end_ptr r \<Longrightarrow> r_read_ptr r' = r_read_ptr r \<Longrightarrow> rx_cells r' c = rx_cells r c"
  by (simp add: rx_cells_def rx_pos_def rx_size_def)


lemma rx_geom_cong: "r_cb_ptr r' = r_cb_ptr r \<Longrightarrow> r_end_ptr r' = r_end_ptr r \<Longrightarrow> r_read_ptr r' = r_read_ptr r \<Longrightarrow> rx_geom r' = rx_geom r"
  by (simp add: rx_geom_def)

section \<open>What the history says about receive buffers\<close>

fun allocated1 :: "event \<Rightarrow> u64 list" where
  "allocated1 (Call (Skb_call (Netdev_alloc_skb n)) b) = (if b = 0 then [] else [b])"
| "allocated1 ev = []"

fun delivered1 :: "event \<Rightarrow> u64 list" where
  "delivered1 (Call (Skb_call (Napi_gro_receive q b)) r) = [b]"
| "delivered1 ev = []"

fun kfreed1 :: "event \<Rightarrow> u64 list" where
  "kfreed1 (Call (Skb_call (Dev_kfree_skb_any b)) r) = [b]"
| "kfreed1 ev = []"

fun released1 :: "event \<Rightarrow> u64 list" where
  "released1 (Call (Skb_call (Dev_consume_skb_any b)) r) = [b]"
| "released1 ev = []"

text \<open>The same for a history, newest event first; the buffers are listed oldest first.\<close>

definition allocated :: "event list \<Rightarrow> u64 list" where
  "allocated evs = concat (map allocated1 (rev evs))"

definition delivered :: "event list \<Rightarrow> u64 list" where
  "delivered evs = concat (map delivered1 (rev evs))"

definition kfreed :: "event list \<Rightarrow> u64 list" where
  "kfreed evs = concat (map kfreed1 (rev evs))"

definition released :: "event list \<Rightarrow> u64 list" where
  "released evs = concat (map released1 (rev evs))"

lemmas rx_history_defs = allocated_def delivered_def kfreed_def released_def

lemma rx_history [simp]:
  "allocated (xs @ ys) = allocated ys @ allocated xs" "delivered (xs @ ys) = delivered ys @ delivered xs"
  "kfreed (xs @ ys) = kfreed ys @ kfreed xs"
  "allocated (x # xs) = allocated xs @ allocated1 x" "delivered (x # xs) = delivered xs @ delivered1 x"
  "kfreed (x # xs) = kfreed xs @ kfreed1 x" "released (xs @ ys) = released ys @ released xs" "released (x # xs) = released xs @ released1 x"
  "allocated [] = []" "delivered [] = []" "kfreed [] = []" "released [] = []"
  by (simp_all add: rx_history_defs)

section \<open>One round\<close>

definition rx_misses :: "(string \<Rightarrow> u32) \<Rightarrow> u32" where
  "rx_misses m = m ''alloc_rx_buff_failed'' + m ''rx_dma_failed''"

lemma run_dmadesc_set_addr:
  "\<exists>evs. run_state (dmadesc_set_addr e d a) s = ((), s\<lparr>trace := evs @ trace s\<rparr>) \<and> allocated evs = [] \<and> delivered evs = [] \<and> kfreed evs = [] \<and> released evs = []"
  by (cases "CONFIG_PHYS_ADDR_T_64BIT e \<and> bcmgenet_has_40bits s")
     (auto simp: dmadesc_set_addr_def bcmgenet_has_40bits_def intro: exI [of _ "[_]"] exI [of _ "[_, _]"])


definition rx_kept :: "enet_cb \<Rightarrow> u64 option \<Rightarrow> u64" where
  "rx_kept c f = (case f of None \<Rightarrow> cb_skb c | Some b \<Rightarrow> b)"

lemma run_free_rx_cb:
  "\<exists>evs c. run_state (bcmgenet_free_rx_cb i) s = (cb_skb (rx_cbs s i), s\<lparr>trace := evs @ trace s, rx_cbs := (rx_cbs s)(i := c)\<rparr>) \<and>
     allocated evs = [] \<and> delivered evs = [] \<and> kfreed evs = [] \<and> released evs = []"
proof (cases "cb_dma_addr (rx_cbs s i) = 0")
  case True
  then show ?thesis
    by (intro exI [of _ "[]"] exI [of _ "(rx_cbs s i)\<lparr>cb_skb := 0\<rparr>"]) (simp add: bcmgenet_free_rx_cb_def)
next
  case False
  then show ?thesis
    by (intro exI [of _ "[Call (Dma_call (Dma_unmap_single (cb_dma_addr (rx_cbs s i)) (cb_dma_len (rx_cbs s i)) DMA_FROM_DEVICE)) 0]"]
          exI [of _ "(rx_cbs s i)\<lparr>cb_skb := 0, cb_dma_addr := 0\<rparr>"]) (simp add: bcmgenet_free_rx_cb_def)
qed

lemma run_rx_refill:
  "\<exists>f evs m c. run_state (bcmgenet_rx_refill e i) s =
      ((if f = None then 0 else cb_skb (rx_cbs s i)), s\<lparr>trace := evs @ trace s, mib := m, rx_cbs := (rx_cbs s)(i := c)\<rparr>) \<and>
    cb_skb c = rx_kept (rx_cbs s i) f \<and> f \<noteq> Some 0 \<and>
    allocated evs = kfreed evs @ (case f of None \<Rightarrow> [] | Some b \<Rightarrow> [b]) \<and> delivered evs = [] \<and> released evs = [] \<and>
    (f \<noteq> None \<longrightarrow> kfreed evs = []) \<and>
    rx_misses m = rx_misses (mib s) + (if f = None then 1 else 0)"
proof -
  let ?a = "Skb_call (Netdev_alloc_skb (rx_buf_len s + SKB_ALIGNMENT))"
  let ?skb = "kresult e ?a (trace s)"
  let ?tr1 = "Call ?a ?skb # trace s"
  let ?m = "Dma_call (Dma_map_single (sk_data (skb_of e ?skb ?tr1)) (rx_buf_len s) DMA_FROM_DEVICE)"
  let ?map = "kresult e ?m ?tr1"
  consider (none) "?skb = 0" | (unmapped) "?skb \<noteq> 0" "dma_mapping_error e ?map" | (fresh) "?skb \<noteq> 0" "\<not> dma_mapping_error e ?map" by blast
  then show ?thesis
  proof cases
    case none
    then show ?thesis
      by (intro exI [of _ None] exI [of _ "[Call ?a ?skb]"] exI [of _ "(mib s)(''alloc_rx_buff_failed'' := mib s ''alloc_rx_buff_failed'' + 1)"] exI [of _ "rx_cbs s i"])
         (simp add: bcmgenet_rx_refill_def rx_kept_def rx_misses_def)
  next
    case unmapped
    then show ?thesis
      by (intro exI [of _ None] exI [of _ "[Call (Skb_call (Dev_kfree_skb_any ?skb)) 0, Call ?m ?map, Call ?a ?skb]"] exI [of _ "(mib s)(''rx_dma_failed'' := mib s ''rx_dma_failed'' + 1)"] exI [of _ "rx_cbs s i"])
         (simp add: bcmgenet_rx_refill_def rx_kept_def rx_misses_def)
  next
    case fresh
    let ?tr2 = "Call ?m ?map # ?tr1"
    obtain evs c where 1: "run_state (bcmgenet_free_rx_cb i) (s\<lparr>trace := ?tr2\<rparr>) =
        (cb_skb (rx_cbs s i), s\<lparr>trace := evs @ ?tr2, rx_cbs := (rx_cbs s)(i := c)\<rparr>)"
        "allocated evs = []" "delivered evs = []" "kfreed evs = []" "released evs = []"
      using run_free_rx_cb [of i "s\<lparr>trace := ?tr2\<rparr>"] by auto
    let ?c = "c\<lparr>cb_skb := ?skb, cb_dma_addr := ?map, cb_dma_len := rx_buf_len s\<rparr>"
    obtain evs' where 2: "run_state (dmadesc_set_addr e (cb_bd_addr c) ?map) (s\<lparr>trace := evs @ ?tr2, rx_cbs := (rx_cbs s)(i := ?c)\<rparr>) =
        ((), s\<lparr>trace := evs' @ evs @ ?tr2, rx_cbs := (rx_cbs s)(i := ?c)\<rparr>)"
        "allocated evs' = []" "delivered evs' = []" "kfreed evs' = []" "released evs' = []"
      using run_dmadesc_set_addr [of e "cb_bd_addr c" ?map "s\<lparr>trace := evs @ ?tr2, rx_cbs := (rx_cbs s)(i := ?c)\<rparr>"] by auto
    show ?thesis using fresh 1 2
      by (intro exI [of _ "Some ?skb"] exI [of _ "evs' @ evs @ [Call ?m ?map, Call ?a ?skb]"] exI [of _ "mib s"] exI [of _ ?c])
         (simp add: bcmgenet_rx_refill_def rx_kept_def)
  qed
qed


text \<open>A frame the driver passes on: it fits, is one whole frame and has no error.\<close>

definition rx_good :: "rx_status \<Rightarrow> bool" where
  "rx_good st \<longleftrightarrow> drop_bit DMA_BUFLENGTH_SHIFT (length_status st) \<le> RX_BUF_LENGTH \<and>
     (length_status st AND 0xffff) AND DMA_EOP \<noteq> 0 \<and> (length_status st AND 0xffff) AND DMA_SOP \<noteq> 0 \<and>
     (length_status st AND 0xffff) AND DMA_RX_ERRORS = 0"

lemma rx_stats_fields [simp]:
  "rs_packets (rx_error_stats fl st) = rs_packets st" "rs_dropped (rx_error_stats fl st) = rs_dropped st"
  "rs_packets (rx_good_stats fl len st) = rs_packets st + 1" "rs_dropped (rx_good_stats fl len st) = rs_dropped st"
  by (simp_all add: rx_error_stats_def rx_good_stats_def Let_def)

lemma run_rx_frame:
  "\<exists>len evs stats. run_state (rx_frame e q skb) s =
      (len, s\<lparr>trace := evs @ trace s, rx_rings := (rx_rings s)(q := (rx_rings s q)\<lparr>r_stats64 := stats\<rparr>)\<rparr>) \<and>
    allocated evs = [] \<and>
    delivered evs = (if skb \<noteq> 0 \<and> rx_good (rx_status_of e skb (trace s)) then [skb] else []) \<and>
    kfreed evs = (if skb \<noteq> 0 \<and> \<not> rx_good (rx_status_of e skb (trace s)) then [skb] else []) \<and>
    rs_packets stats = rs_packets (r_stats64 (rx_rings s q)) + (if skb \<noteq> 0 \<and> rx_good (rx_status_of e skb (trace s)) then 1 else 0) \<and>
    rs_dropped stats = rs_dropped (r_stats64 (rx_rings s q)) + (if skb = 0 then 1 else 0)"
proof (cases "skb = 0")
  case True
  then show ?thesis
    by (intro exI [of _ 0] exI [of _ "[]"] exI [of _ "(r_stats64 (rx_rings s q))\<lparr>rs_dropped := rs_dropped (r_stats64 (rx_rings s q)) + 1\<rparr>"])
       (simp add: rx_frame_def upd_rx_stats_def)
next
  case False
  define st where "st = rx_status_of e skb (trace s)"
  define fl len where "fl = length_status st AND 0xffff" and "len = drop_bit DMA_BUFLENGTH_SHIFT (length_status st)"
  obtain evs where c: "run_state (if dev_features (netdev e (trace s)) AND NETIF_F_RXCSUM (kh e) \<noteq> 0 \<and> (ucast (rx_csum st) :: u16) \<noteq> 0
      then kdo (Skb_call (Set_csum_complete skb (ntohs e (ucast (rx_csum st))))) else ret ()) s = ((), s\<lparr>trace := evs @ trace s\<rparr>)"
      "allocated evs = []" "delivered evs = []" "kfreed evs = []"
    by (cases "dev_features (netdev e (trace s)) AND NETIF_F_RXCSUM (kh e) \<noteq> 0 \<and> (ucast (rx_csum st) :: u16) \<noteq> 0")
       (auto intro: that [of "[]"] that [of "[_]"])
  note run = rx_frame_def upd_rx_stats_def Let_def st_def [symmetric] fl_def [symmetric] len_def [symmetric] c
  have good: "rx_good st \<longleftrightarrow> len \<le> RX_BUF_LENGTH \<and> \<not> (fl AND DMA_EOP = 0 \<or> fl AND DMA_SOP = 0) \<and> fl AND DMA_RX_ERRORS = 0"
    by (auto simp: rx_good_def fl_def len_def)
  have bad: ?thesis if "\<not> rx_good st" "rs_packets (u (r_stats64 (rx_rings s q))) = rs_packets (r_stats64 (rx_rings s q))"
      "rs_dropped (u (r_stats64 (rx_rings s q))) = rs_dropped (r_stats64 (rx_rings s q))"
      "run_state (rx_frame e q skb) s = run_state (do { upd_rx_stats q u; kdo (Skb_call (Dev_kfree_skb_any skb)); ret 0 }) (s\<lparr>trace := evs @ trace s\<rparr>)" for u
    using that False c
    by (intro exI [of _ 0] exI [of _ "Call (Skb_call (Dev_kfree_skb_any skb)) 0 # evs"] exI [of _ "u (r_stats64 (rx_rings s q))"])
       (simp add: st_def [symmetric] upd_rx_stats_def)
  consider (long) "len > RX_BUF_LENGTH" | (frag) "\<not> len > RX_BUF_LENGTH" "fl AND DMA_EOP = 0 \<or> fl AND DMA_SOP = 0"
    | (err) "\<not> len > RX_BUF_LENGTH" "\<not> (fl AND DMA_EOP = 0 \<or> fl AND DMA_SOP = 0)" "fl AND DMA_RX_ERRORS \<noteq> 0"
    | (ok) "rx_good st"
    using good by force
  then show ?thesis
  proof cases
    case long
    then show ?thesis by (intro bad [of "\<lambda>st. st\<lparr>rs_length_errors := rs_length_errors st + 1\<rparr>"]) (use False good in \<open>simp_all add: run linorder_not_le [symmetric]\<close>)
  next
    case frag
    then show ?thesis by (intro bad [of "\<lambda>st. st\<lparr>rs_fragmented_errors := rs_fragmented_errors st + 1\<rparr>"]) (use False good in \<open>simp_all add: run\<close>)
  next
    case err
    then show ?thesis by (intro bad [of "rx_error_stats fl"]) (use False good in \<open>simp_all add: run\<close>)
  next
    case ok
    then have o: "\<not> len > RX_BUF_LENGTH" "\<not> (fl AND DMA_EOP = 0 \<or> fl AND DMA_SOP = 0)" "\<not> fl AND DMA_RX_ERRORS \<noteq> 0"
      using good by auto
    let ?len = "if crc_fwd_en s then len - 66 - ETH_FCS_LEN else len - 66"
    let ?evs = "Call (Skb_call (Napi_gro_receive q skb)) 0 # Call (Skb_call (Eth_type_trans skb)) 0 #
      (if crc_fwd_en s then [Call (Skb_call (Skb_trim skb ?len)) 0] else []) @ Call (Skb_call (Skb_pull skb 66)) 0 # Call (Skb_call (Skb_put skb len)) 0 # evs"
    show ?thesis using False o ok
      by (intro exI [of _ ?len] exI [of _ ?evs] exI [of _ "rx_good_stats fl ?len (r_stats64 (rx_rings s q))"])
         (simp add: run)
  qed
qed


section \<open>One round and the loop\<close>

text \<open>The buffers of a ring, from the one the driver looks at next on.\<close>

definition rx_bufs :: "u32 \<Rightarrow> bcmgenet_priv \<Rightarrow> u64 list" where
  "rx_bufs q s = rx_cells (rx_rings s q) (\<lambda>i. cb_skb (rx_cbs s i))"

definition refilled :: "u64 \<Rightarrow> u64 option \<Rightarrow> u64" where
  "refilled b f = (case f of None \<Rightarrow> b | Some b' \<Rightarrow> b')"

text \<open>
  The buffers taken out of the ring when the first ones get the replacements \<open>xs\<close>: a round that has no
  replacement leaves its buffer where it is.
\<close>

definition taken :: "u64 list \<Rightarrow> u64 option list \<Rightarrow> u64 list" where
  "taken bs xs = map fst (filter (\<lambda>(b, f). f \<noteq> None) (zip bs xs))"

definition rx_served :: "(u64 \<Rightarrow> rx_status) \<Rightarrow> u32 \<Rightarrow> u64 option list \<Rightarrow> event list \<Rightarrow> bcmgenet_priv \<Rightarrow> bcmgenet_priv \<Rightarrow> bool" where
  "rx_served st q xs evs s s' \<longleftrightarrow>
     (let r = rx_rings s q; r' = rx_rings s' q; n = length xs; bs = rx_bufs q s in
      trace s' = evs @ trace s \<and> rx_geom r' \<and> r_cb_ptr r' = r_cb_ptr r \<and> r_end_ptr r' = r_end_ptr r \<and> r_index r' = r_index r \<and>
      Some 0 \<notin> set xs \<and>
      rx_bufs q s' = drop n bs @ map2 refilled (take n bs) xs \<and>
      delivered evs = filter (\<lambda>b. rx_good (st b)) (taken bs xs) \<and>
      mset (kfreed evs) + mset (map the (filter (\<lambda>f. f \<noteq> None) xs)) = mset (allocated evs) + mset (filter (\<lambda>b. \<not> rx_good (st b)) (taken bs xs)) \<and>
      take_bit 16 (r_c_index r') = take_bit 16 (r_c_index r + of_nat n) \<and>
      rs_packets (r_stats64 r') = rs_packets (r_stats64 r) + of_nat (length (delivered evs)) \<and>
      rs_dropped (r_stats64 r') = rs_dropped (r_stats64 r) + of_nat (count_list xs None) \<and>
      rx_misses (mib s') = rx_misses (mib s) + of_nat (count_list xs None) \<and>
      (\<forall>q'. q' \<noteq> q \<longrightarrow> rx_rings s' q' = rx_rings s q'))"

lemma run_rdma_ring_writel:
  "\<exists>evs. run_state (bcmgenet_rdma_ring_writel e i v r) s = ((), s\<lparr>trace := evs @ trace s\<rparr>) \<and> allocated evs = [] \<and> delivered evs = [] \<and> kfreed evs = []"
  by (rule exI [of _ "[Wr (native_endian e) (ring_addr GENET_RDMA_REG_OFF i r s) v]"]) (simp add: bcmgenet_rdma_ring_writel_def)

lemma desc_rx_step_served:
  assumes g: "rx_geom (rx_rings s q)" and st: "\<And>tr. rx_status_of e (hd (rx_bufs q s)) (tr @ trace s) = st (hd (rx_bufs q s))"
    and nz: "hd (rx_bufs q s) \<noteq> 0"
  shows "\<exists>f evs. rx_served st q [f] evs s (after (desc_rx_step e q) s)"
proof -
  let ?r = "rx_rings s q" and ?i = "r_read_ptr (rx_rings s q)"
  let ?b = "cb_skb (rx_cbs s ?i)"
  have hd: "hd (rx_bufs q s) = ?b" by (simp add: rx_bufs_def rx_cells_hd [OF g])
  obtain f evs1 m c where refill: "run_state (bcmgenet_rx_refill e ?i) s =
      ((if f = None then 0 else ?b), s\<lparr>trace := evs1 @ trace s, mib := m, rx_cbs := (rx_cbs s)(?i := c)\<rparr>)" (is "_ = (?skb, ?s1)")
    and c: "cb_skb c = rx_kept (rx_cbs s ?i) f" "f \<noteq> Some 0"
    and h1: "allocated evs1 = kfreed evs1 @ (case f of None \<Rightarrow> [] | Some b \<Rightarrow> [b])" "delivered evs1 = []" "f \<noteq> None \<longrightarrow> kfreed evs1 = []"
    and m: "rx_misses m = rx_misses (mib s) + (if f = None then 1 else 0)"
    using run_rx_refill [of e ?i s] by auto
  obtain len evs2 stats where frame: "run_state (rx_frame e q ?skb) ?s1 =
      (len, ?s1\<lparr>trace := evs2 @ evs1 @ trace s, rx_rings := (rx_rings s)(q := ?r\<lparr>r_stats64 := stats\<rparr>)\<rparr>)" (is "_ = (_, ?s2)")
    and h2: "allocated evs2 = []" "delivered evs2 = (if ?skb \<noteq> 0 \<and> rx_good (rx_status_of e ?skb (evs1 @ trace s)) then [?skb] else [])"
      "kfreed evs2 = (if ?skb \<noteq> 0 \<and> \<not> rx_good (rx_status_of e ?skb (evs1 @ trace s)) then [?skb] else [])"
    and stats: "rs_packets stats = rs_packets (r_stats64 ?r) + (if ?skb \<noteq> 0 \<and> rx_good (rx_status_of e ?skb (evs1 @ trace s)) then 1 else 0)"
      "rs_dropped stats = rs_dropped (r_stats64 ?r) + (if ?skb = 0 then 1 else 0)"
    using run_rx_frame [of e q ?skb ?s1] by auto
  define r' where "r' = (advance_read (?r\<lparr>r_stats64 := stats\<rparr>))\<lparr>r_c_index := (r_c_index ?r + 1) AND DMA_C_INDEX_MASK\<rparr>"
  obtain evs3 where wr: "run_state (bcmgenet_rdma_ring_writel e (r_index r') (r_c_index r') RDMA_CONS_INDEX) (?s2\<lparr>rx_rings := (rx_rings s)(q := r')\<rparr>) =
      ((), ?s2\<lparr>trace := evs3 @ evs2 @ evs1 @ trace s, rx_rings := (rx_rings s)(q := r')\<rparr>)" (is "_ = (_, ?s3)")
    and h3: "allocated evs3 = []" "delivered evs3 = []" "kfreed evs3 = []"
    using run_rdma_ring_writel [of e "r_index r'" "r_c_index r'" RDMA_CONS_INDEX "?s2\<lparr>rx_rings := (rx_rings s)(q := r')\<rparr>"] by auto
  have run: "after (desc_rx_step e q) s = ?s3"
    using wr by (simp add: desc_rx_step_def refill frame r'_def)
  have r': "r_cb_ptr r' = r_cb_ptr (advance_read ?r)" "r_end_ptr r' = r_end_ptr (advance_read ?r)"
    "r_read_ptr r' = r_read_ptr (advance_read ?r)" "r_index r' = r_index ?r" "r_stats64 r' = stats"
    "take_bit 16 (r_c_index r') = take_bit 16 (r_c_index ?r + 1)"
    by (simp_all add: r'_def advance_read_def index_mask)
  have cells: "(\<lambda>i. cb_skb (((rx_cbs s)(?i := c)) i)) = (\<lambda>i. cb_skb (rx_cbs s i))(?i := refilled ?b f)"
    by (auto simp: c rx_kept_def refilled_def)
  have "rx_bufs q ?s3 = rx_cells (advance_read ?r) ((\<lambda>i. cb_skb (rx_cbs s i))(?i := refilled ?b f))"
    using rx_cells_cong [OF r'(1,2,3)] by (simp add: rx_bufs_def cells [unfolded fun_upd_def] fun_upd_def)
  also have "\<dots> = tl (rx_bufs q s) @ [refilled ?b f]"
    by (simp add: rx_cells_advance [OF g] rx_bufs_def)
  finally have bufs: "rx_bufs q ?s3 = tl (rx_bufs q s) @ [refilled ?b f]" .
  obtain bs where ne: "rx_bufs q s = ?b # bs"
    using hd by (metis list.collapse rx_bufs_def rx_cells_length(1))
  have "rx_geom r'" using rx_geom_advance [OF g] rx_geom_cong [OF r'(1,2,3)] by simp
  moreover have "rx_status_of e ?b (evs1 @ trace s) = st ?b" using st by (simp add: hd)
  moreover have "?b \<noteq> 0" using nz hd by simp
  moreover note c(2)
  ultimately have "rx_served st q [f] (evs3 @ evs2 @ evs1) s ?s3"
    unfolding rx_served_def Let_def bufs ne
    by (cases f; simp add: h1 h2 h3 m stats c taken_def r')
  then show ?thesis unfolding run by blast
qed


lemma rx_servedD:
  assumes "rx_served st q xs evs s s'"
  shows "trace s' = evs @ trace s" "rx_geom (rx_rings s' q)" "r_cb_ptr (rx_rings s' q) = r_cb_ptr (rx_rings s q)"
    "r_end_ptr (rx_rings s' q) = r_end_ptr (rx_rings s q)" "r_index (rx_rings s' q) = r_index (rx_rings s q)" "Some 0 \<notin> set xs"
    and "rx_bufs q s' = drop (length xs) (rx_bufs q s) @ map2 refilled (take (length xs) (rx_bufs q s)) xs"
    and "delivered evs = filter (\<lambda>b. rx_good (st b)) (taken (rx_bufs q s) xs)"
    and "mset (kfreed evs) + mset (map the (filter (\<lambda>f. f \<noteq> None) xs)) =
      mset (allocated evs) + mset (filter (\<lambda>b. \<not> rx_good (st b)) (taken (rx_bufs q s) xs))"
    and "take_bit 16 (r_c_index (rx_rings s' q)) = take_bit 16 (r_c_index (rx_rings s q) + of_nat (length xs))"
    and "rs_packets (r_stats64 (rx_rings s' q)) = rs_packets (r_stats64 (rx_rings s q)) + of_nat (length (delivered evs))"
    and "rs_dropped (r_stats64 (rx_rings s' q)) = rs_dropped (r_stats64 (rx_rings s q)) + of_nat (count_list xs None)"
    and "rx_misses (mib s') = rx_misses (mib s) + of_nat (count_list xs None)"
    and "\<And>q'. q' \<noteq> q \<Longrightarrow> rx_rings s' q' = rx_rings s q'"
  using assms unfolding rx_served_def Let_def by blast+

lemma add_pairs: "a + b = c + d \<Longrightarrow> a' + b' = c' + d' \<Longrightarrow> (a + a') + (b + b') = (c + c') + (d + d')" for a :: "'a multiset"
  by (metis add.assoc add.left_commute)

lemma index_chain:
  "take_bit 16 c1 = take_bit 16 (c + of_nat n) \<Longrightarrow> take_bit 16 c2 = take_bit 16 (c1 + of_nat m) \<Longrightarrow>
    take_bit 16 c2 = take_bit 16 (c + of_nat (n + m))" for c c1 c2 :: u32
  using take_bit_add_left [of c1 "of_nat m"] take_bit_add_left [of "c + of_nat n" "of_nat m"] by (simp add: add.assoc)

lemma taken_append: "length as = length xs \<Longrightarrow> taken (as @ bs) (xs @ ys) = taken as xs @ taken bs ys"
  by (simp add: taken_def)

lemma taken_cut: "length ys \<le> length bs \<Longrightarrow> taken (bs @ cs) ys = taken bs ys"
  by (simp add: taken_def zip_append1)

lemma rx_served_trans:
  assumes 1: "rx_served st q xs ev s s1" and 2: "rx_served st q ys evs s1 s2" and n: "length xs + length ys \<le> length (rx_bufs q s)"
  shows "rx_served st q (xs @ ys) (evs @ ev) s s2"
proof -
  note s1 = rx_servedD [OF 1] and s2 = rx_servedD [OF 2]
  define as bs where "as = take (length xs) (rx_bufs q s)" and "bs = drop (length xs) (rx_bufs q s)"
  have bufs: "rx_bufs q s = as @ bs" and la: "length as = length xs" and lb: "length ys \<le> length bs"
    using n by (simp_all add: as_def bs_def)
  have b1: "rx_bufs q s1 = bs @ map2 refilled as xs" using s1(7) by (simp add: bufs la)
  have tk: "taken (as @ bs) (xs @ ys) = taken as xs @ taken bs ys" "taken (as @ bs) xs = taken as xs" "taken (bs @ cs) ys = taken bs ys" for cs
    using taken_append [OF la] taken_cut lb la by simp_all
  have ms: "mset (kfreed (evs @ ev)) + mset (map the (filter (\<lambda>f. f \<noteq> None) (xs @ ys))) =
      mset (allocated (evs @ ev)) + mset (filter (\<lambda>b. \<not> rx_good (st b)) (taken (as @ bs) (xs @ ys)))"
    using add_pairs [OF s1(9) s2(9)] unfolding bufs b1 tk rx_history filter_append map_append mset_append .
  have dl: "delivered (evs @ ev) = filter (\<lambda>b. rx_good (st b)) (taken (as @ bs) (xs @ ys))"
    using s1(8) s2(8) by (simp add: bufs b1 tk)
  have bf: "rx_bufs q s2 = drop (length (xs @ ys)) (as @ bs) @ map2 refilled (take (length (xs @ ys)) (as @ bs)) (xs @ ys)"
    using s2(7) lb by (simp add: b1 la)
  have pk: "rs_packets (r_stats64 (rx_rings s2 q)) = rs_packets (r_stats64 (rx_rings s q)) + of_nat (length (delivered (evs @ ev)))"
    by (simp add: s1(11) s2(11))
  have "take_bit 16 (r_c_index (rx_rings s2 q)) = take_bit 16 (r_c_index (rx_rings s q) + of_nat (length (xs @ ys)))"
    using index_chain [OF s1(10) s2(10)] by simp
  moreover have "Some 0 \<notin> set (xs @ ys)" using s1(6) s2(6) by simp
  moreover have "rs_dropped (r_stats64 (rx_rings s2 q)) = rs_dropped (r_stats64 (rx_rings s q)) + of_nat (count_list (xs @ ys) None)"
    "rx_misses (mib s2) = rx_misses (mib s) + of_nat (count_list (xs @ ys) None)"
    by (simp_all add: s1(12,13) s2(12,13))
  ultimately show ?thesis
    unfolding rx_served_def Let_def bufs using ms dl bf pk s2(2)
    by (intro conjI) (assumption | simp only: s1(1,3-5) s2(1,3-5) append_assoc | simp add: s1(14) s2(14))+
qed

lemma rx_served_none:
  assumes "rx_geom (rx_rings s q)" and tr: "trace s' = evs @ trace s" "allocated evs = []" "delivered evs = []" "kfreed evs = []"
    and s: "rx_cbs s' = rx_cbs s" "mib s' = mib s" "\<And>q'. q' \<noteq> q \<Longrightarrow> rx_rings s' q' = rx_rings s q'"
    and r: "r_cb_ptr (rx_rings s' q) = r_cb_ptr (rx_rings s q)" "r_end_ptr (rx_rings s' q) = r_end_ptr (rx_rings s q)"
      "r_read_ptr (rx_rings s' q) = r_read_ptr (rx_rings s q)" "r_index (rx_rings s' q) = r_index (rx_rings s q)"
      "r_c_index (rx_rings s' q) = r_c_index (rx_rings s q)"
      "rs_packets (r_stats64 (rx_rings s' q)) = rs_packets (r_stats64 (rx_rings s q))"
      "rs_dropped (r_stats64 (rx_rings s' q)) = rs_dropped (r_stats64 (rx_rings s q))"
  shows "rx_served st q [] evs s s'"
proof -
  have "rx_bufs q s' = rx_bufs q s" unfolding rx_bufs_def s by (rule rx_cells_cong [OF r(1-3)])
  moreover have "rx_geom (rx_rings s' q)" using assms(1) rx_geom_cong [OF r(1-3)] by simp
  ultimately show ?thesis using assms unfolding rx_served_def Let_def by (simp add: taken_def)
qed

lemma desc_rx_loop_served:
  assumes "rx_geom (rx_rings s q)" "n \<le> length (rx_bufs q s)"
    and "\<And>b. b \<in> set (take n (rx_bufs q s)) \<Longrightarrow> b \<noteq> 0 \<and> (\<forall>tr. rx_status_of e b (tr @ trace s) = st b)"
  shows "\<exists>xs evs. length xs = n \<and> rx_served st q xs evs s (after (desc_rx_loop e q n bytes) s)"
  using assms
proof (induction n arbitrary: s bytes)
  case 0
  then show ?case by (intro exI [of _ "[]"] conjI rx_served_none) simp_all
next
  case (Suc n)
  obtain b bs where bufs: "rx_bufs q s = b # bs" using Suc.prems(2) by (cases "rx_bufs q s") auto
  obtain f ev where 1: "rx_served st q [f] ev s (after (desc_rx_step e q) s)" (is "rx_served _ _ _ _ _ ?s1")
    using desc_rx_step_served [of s q e st] Suc.prems(1,3) bufs by auto
  note s1 = rx_servedD [OF 1]
  have b1: "rx_bufs q ?s1 = bs @ [refilled b f]" using s1(7) by (simp add: bufs)
  define len where "len = fst (run_state (desc_rx_step e q) s)"
  have "\<exists>xs evs. length xs = n \<and> rx_served st q xs evs ?s1 (after (desc_rx_loop e q n (bytes + len)) ?s1)"
  proof (rule Suc.IH [OF s1(2)])
    show "n \<le> length (rx_bufs q ?s1)" using Suc.prems(2) by (simp add: b1 bufs)
    show "b' \<noteq> 0 \<and> (\<forall>tr. rx_status_of e b' (tr @ trace ?s1) = st b')" if "b' \<in> set (take n (rx_bufs q ?s1))" for b'
    proof -
      have "take n (rx_bufs q ?s1) = take n bs" using Suc.prems(2) by (simp add: b1 bufs)
      then have "b' \<in> set (take (Suc n) (rx_bufs q s))" using that by (simp add: bufs)
      from Suc.prems(3) [OF this] show ?thesis by (simp add: s1(1) append_assoc [symmetric] del: append_assoc)
    qed
  qed
  then obtain xs evs where 2: "length xs = n" "rx_served st q xs evs ?s1 (after (desc_rx_loop e q n (bytes + len)) ?s1)" by blast
  have "rx_served st q ([f] @ xs) (evs @ ev) s (after (desc_rx_loop e q n (bytes + len)) ?s1)"
    by (rule rx_served_trans [OF 1 2(2)]) (use Suc.prems(2) 2(1) in simp)
  then show ?case using 2(1) by (intro exI [of _ "[f] @ xs"] exI [of _ "evs @ ev"]) (simp add: split_beta len_def)
qed


lemma rx_discards_c_index: "r_c_index (rx_rings (after (rx_discards e q p) s) q) = r_c_index (rx_rings s q)"
  by (simp add: rx_discards_def upd_rx_stats_def Let_def lx_io)

lemma run_rx_discards:
  assumes "rx_geom (rx_rings s q)"
  shows "\<exists>evs. rx_served st q [] evs s (after (rx_discards e q p) s)"
proof -
  let ?d = "drop_bit DMA_P_INDEX_DISCARD_CNT_SHIFT p AND DMA_P_INDEX_DISCARD_CNT_MASK" and ?r = "rx_rings s q"
  define r where "r = ?r\<lparr>r_stats64 := (r_stats64 ?r)\<lparr>rs_missed := rs_missed (r_stats64 ?r) + ucast (?d - r_old_discards ?r)\<rparr>,
    r_old_discards := r_old_discards ?r + (?d - r_old_discards ?r)\<rparr>"
  consider (same) "\<not> ?d > r_old_discards ?r" | (new) "?d > r_old_discards ?r" "\<not> r_old_discards r \<ge> 0xC000"
    | (wrap) "?d > r_old_discards ?r" "r_old_discards r \<ge> 0xC000" by blast
  then show ?thesis
  proof cases
    case same
    then show ?thesis using assms by (intro exI [of _ "[]"] rx_served_none) (simp_all add: rx_discards_def)
  next
    case new
    then have "after (rx_discards e q p) s = s\<lparr>rx_rings := (rx_rings s)(q := r)\<rparr>"
      by (simp add: rx_discards_def upd_rx_stats_def Let_def r_def)
    then show ?thesis using assms by (intro exI [of _ "[]"] rx_served_none) (simp_all add: r_def)
  next
    case wrap
    obtain evs where wr: "run_state (bcmgenet_rdma_ring_writel e (r_index r) 0 RDMA_PROD_INDEX) (s\<lparr>rx_rings := (rx_rings s)(q := r\<lparr>r_old_discards := 0\<rparr>)\<rparr>) =
        ((), s\<lparr>trace := evs @ trace s, rx_rings := (rx_rings s)(q := r\<lparr>r_old_discards := 0\<rparr>)\<rparr>)"
        "allocated evs = []" "delivered evs = []" "kfreed evs = []"
      using run_rdma_ring_writel [of e "r_index r" 0 RDMA_PROD_INDEX "s\<lparr>rx_rings := (rx_rings s)(q := r\<lparr>r_old_discards := 0\<rparr>)\<rparr>"] by auto
    have "after (rx_discards e q p) s = s\<lparr>trace := evs @ trace s, rx_rings := (rx_rings s)(q := r\<lparr>r_old_discards := 0\<rparr>)\<rparr>"
      using wrap wr(1) by (simp add: rx_discards_def upd_rx_stats_def Let_def r_def)
    then show ?thesis using assms wr by (intro exI [of _ evs] rx_served_none) (simp_all add: r_def)
  qed
qed

text \<open>The frames the hardware has put into the ring and the driver has not looked at yet, as a poll finds them.\<close>

definition rx_ready :: "linux_env \<Rightarrow> u32 \<Rightarrow> bcmgenet_priv \<Rightarrow> nat" where
  "rx_ready e q s =
     (let s1 = after (bcmgenet_intrl2_1_writel e (push_bit (UMAC_IRQ1_RX_INTR_SHIFT + unat (r_index (rx_rings s q))) 1) INTRL2_CPU_CLEAR) s;
          p = fst (run_state (bcmgenet_rdma_ring_readl e (r_index (rx_rings s q)) RDMA_PROD_INDEX) s1)
      in unat (take_bit 16 (p - r_c_index (rx_rings s q))))"

lemma desc_rx_served:
  assumes g: "rx_geom (rx_rings s q)" and n: "min (rx_ready e q s) (unat budget) \<le> length (rx_bufs q s)"
    and st: "\<And>b. b \<in> set (rx_bufs q s) \<Longrightarrow> b \<noteq> 0 \<and> (\<forall>tr. rx_status_of e b (tr @ trace s) = st b)"
  shows "unat (fst (run_state (bcmgenet_desc_rx e q budget) s)) = min (rx_ready e q s) (unat budget) \<and>
    (\<exists>xs evs. length xs = min (rx_ready e q s) (unat budget) \<and> rx_served st q xs evs s (after (bcmgenet_desc_rx e q budget) s))"
proof -
  let ?idx = "r_index (rx_rings s q)"
  define s1 where "s1 = after (bcmgenet_intrl2_1_writel e (2 ^ (UMAC_IRQ1_RX_INTR_SHIFT + unat ?idx)) INTRL2_CPU_CLEAR) s"
  define p where "p = fst (run_state (bcmgenet_rdma_ring_readl e ?idx RDMA_PROD_INDEX) s1)"
  define s2 where "s2 = after (bcmgenet_rdma_ring_readl e ?idx RDMA_PROD_INDEX) s1"
  define s3 where "s3 = after (rx_discards e q p) s2"
  have s2: "\<exists>evs. rx_served st q [] evs s s2"
    by (intro exI [of _ "[_, _]"] rx_served_none [OF g]) (simp add: s1_def s2_def lx_io, simp_all add: s1_def s2_def lx_io)
  then obtain ev2 where "rx_served st q [] ev2 s s2" ..
  moreover from rx_servedD(2) [OF this] obtain ev3 where "rx_served st q [] ev3 s2 s3"
    using run_rx_discards unfolding s3_def by blast
  ultimately have 3: "rx_served st q [] (ev3 @ ev2) s s3" (is "rx_served _ _ _ ?ev _ _")
    using rx_served_trans [of st q "[]" ev2 s s2 "[]" ev3 s3] by simp
  note d3 = rx_servedD [OF 3]
  have c3: "r_c_index (rx_rings s3 q) = r_c_index (rx_rings s q)"
    by (simp add: s3_def s2_def s1_def rx_discards_c_index lx_io)
  let ?n = "min (rx_ready e q s) (unat budget)" and ?w = "take_bit 16 (p - r_c_index (rx_rings s q))"
  have w: "unat (min ?w budget) = ?n"
    by (simp add: rx_ready_def Let_def p_def s1_def min_def word_le_nat_alt)
  have bufs: "rx_bufs q s3 = rx_bufs q s" using d3(7) by simp
  have "\<exists>xs evs. length xs = ?n \<and> rx_served st q xs evs s3 (after (desc_rx_loop e q ?n 0) s3)"
  proof (rule desc_rx_loop_served [OF d3(2)])
    show "?n \<le> length (rx_bufs q s3)" using n bufs by simp
    show "b \<noteq> 0 \<and> (\<forall>tr. rx_status_of e b (tr @ trace s3) = st b)" if "b \<in> set (take ?n (rx_bufs q s3))" for b
      using st [of b] in_set_takeD [OF that] by (simp add: bufs d3(1) append_assoc [symmetric] del: append_assoc)
  qed
  then obtain xs evs where xs: "length xs = ?n" and 4: "rx_served st q xs evs s3 (after (desc_rx_loop e q ?n 0) s3)" (is "rx_served _ _ _ _ _ ?s4") by blast
  have 5: "rx_served st q xs (evs @ ?ev) s ?s4" using rx_served_trans [OF 3 4] n xs by simp
  define s5 where "s5 = after (bcmgenet_desc_rx e q budget) s"
  have run: "fst (run_state (bcmgenet_desc_rx e q budget) s) = min ?w budget" "s5 = ?s4\<lparr>rx_rings := (rx_rings ?s4)(q := (rx_rings ?s4 q)
      \<lparr>r_dim := (r_dim (rx_rings ?s4 q))\<lparr>dim_bytes := ucast (fst (run_state (desc_rx_loop e q ?n 0) s3)), dim_packets := ucast (min ?w budget)\<rparr>\<rparr>)\<rparr>"
    unfolding s5_def by (simp_all add: bcmgenet_desc_rx_def split_beta Let_def index_mask take_bit_diff_left c3 w
      flip: s1_def p_def s2_def s3_def)
  have "rx_served st q [] [] ?s4 s5"
    by (rule rx_served_none [OF rx_servedD(2) [OF 4]]) (simp_all add: run)
  from rx_served_trans [OF 5 this] have "rx_served st q xs (evs @ ?ev) s s5" using n xs by simp
  with xs run(1) w show ?thesis unfolding s5_def by auto
qed

end
