(* ===== verification/Linux_Rx_Props.thy ===== *)
theory Linux_Rx_Props
  imports Linux_Rx_Ring Linux_Demo
begin

text \<open>
  The theorems on the receive rings of the Linux driver: what a poll does with the frames that are ready,
  and what filling a ring with buffers does.
\<close>

section \<open>A poll\<close>

definition rx_demo_env :: linux_env where
  "rx_demo_env = demo_env\<lparr>kresult := (\<lambda>_ _. 7), rx_status_of := (\<lambda>_ _. \<lparr>length_status = 0x8e6000, rx_csum = 0\<rparr>)\<rparr>"

definition rx_demo_ring :: bcmgenet_rx_ring where
  "rx_demo_ring = demo_rx_ring\<lparr>r_size := 2, r_end_ptr := 1, r_read_ptr := 1, r_c_index := 0xFFFF\<rparr>"

definition rx_demo_priv :: bcmgenet_priv where
  "rx_demo_priv = demo_priv\<lparr>rx_rings := (\<lambda>_. rx_demo_ring), rx_cbs := (\<lambda>i. demo_cb\<lparr>cb_skb := ucast i + 1\<rparr>)\<rparr>"

lemma rx_demo_size: "rx_size (rx_rings rx_demo_priv 0) = 2"
  by (simp add: rx_size_def rx_demo_priv_def rx_demo_ring_def demo_rx_ring_def)

lemma rx_demo_geom: "rx_geom (rx_rings rx_demo_priv 0)"
  by (simp add: rx_geom_def rx_demo_priv_def rx_demo_ring_def demo_rx_ring_def)

lemma rx_demo_bufs: "rx_bufs 0 rx_demo_priv = [2, 1]"
  by (simp add: rx_bufs_def rx_cells_def rx_demo_size rx_pos_def upt_rec)
     (simp add: rx_demo_priv_def rx_demo_ring_def demo_rx_ring_def)

lemma rx_demo_ready: "rx_ready rx_demo_env 0 rx_demo_priv = 1"
  by (simp add: rx_ready_def lx_io rx_demo_env_def demo_env_def rx_demo_priv_def rx_demo_ring_def)

lemma refilled_balance:
  "length as = length xs \<Longrightarrow> mset (map2 refilled as xs) + mset (taken as xs) = mset as + mset (map the (filter (\<lambda>f. f \<noteq> None) xs))"
proof (induction as xs rule: list_induct2)
  case (Cons a as x xs)
  then show ?case by (cases x) (simp_all add: taken_def refilled_def)
qed (simp add: taken_def)

lemma refilled_nonzero: "0 \<notin> set as \<Longrightarrow> Some 0 \<notin> set xs \<Longrightarrow> 0 \<notin> set (map2 refilled as xs)"
  by (auto simp: refilled_def split: option.splits dest: set_zip_leftD set_zip_rightD)

lemma exchange_balance:
  fixes as :: "'a multiset"
  assumes "R + T = as + P" "F + P = A + W" "T = G + W"
  shows "as + A = R + G + F"
proof -
  have "as + A + W = as + P + F" using assms(2) by (simp add: add.assoc add.commute [of P])
  also have "\<dots> = R + G + F + W" using assms(1,3) by (metis add.assoc add.commute)
  finally show ?thesis by simp
qed

text \<open>
  C3: a poll of a receive ring looks at as many frames as are ready and the budget allows, and the ring
  stays full.  The buffers of the ring, from the read pointer on, rotate: each buffer looked at goes to the end or is
  replaced there by a new one.  The buffers that were replaced are handed to the kernel in ring order when
  their status is good; every buffer of the ring or newly allocated is in the ring, handed over or
  freed exactly once.  The statistics count the frames handed over and the ones dropped for want of a new
  buffer, the consumer index moves by the number of frames modulo 65536, and no other ring changes.  The
  hardware is assumed not to have filled more than the ring holds and to leave the status of a filled
  buffer alone.
\<close>

theorem rx_ring_rotates:
  assumes "rx_geom (rx_rings s q)" and "0 \<notin> set (rx_bufs q s)" and "rx_ready e q s \<le> rx_size (rx_rings s q)"
    and "\<forall>b \<in> set (rx_bufs q s). \<forall>tr. rx_status_of e b (tr @ trace s) = st b"
  shows "let n = min (rx_ready e q s) (unat budget);
             (k, s') = run_state (bcmgenet_desc_rx e q budget) s;
             bs = rx_bufs q s; r = rx_rings s q; r' = rx_rings s' q
         in unat k = n \<and>
            (\<exists>xs evs. trace s' = evs @ trace s \<and> length xs = n \<and>
               rx_bufs q s' = drop n bs @ map2 refilled (take n bs) xs \<and> 0 \<notin> set (rx_bufs q s') \<and>
               delivered evs = filter (\<lambda>b. rx_good (st b)) (taken bs xs) \<and>
               mset bs + mset (allocated evs) = mset (rx_bufs q s') + mset (delivered evs) + mset (kfreed evs) \<and>
               rs_packets (r_stats64 r') = rs_packets (r_stats64 r) + of_nat (length (delivered evs)) \<and>
               rs_dropped (r_stats64 r') = rs_dropped (r_stats64 r) + of_nat (count_list xs None) \<and>
               rx_misses (mib s') = rx_misses (mib s) + of_nat (count_list xs None)) \<and>
            rx_geom r' \<and> rx_size r' = rx_size r \<and> take_bit 16 (r_c_index r') = take_bit 16 (r_c_index r + of_nat n) \<and>
            (\<forall>q'. q' \<noteq> q \<longrightarrow> rx_rings s' q' = rx_rings s q')"
proof -
  let ?n = "min (rx_ready e q s) (unat budget)" and ?s' = "after (bcmgenet_desc_rx e q budget) s" and ?bs = "rx_bufs q s"
  have n: "?n \<le> length ?bs" using assms(3) by (simp add: rx_bufs_def)
  have k: "unat (fst (run_state (bcmgenet_desc_rx e q budget) s)) = ?n"
    and ex: "\<exists>xs evs. length xs = ?n \<and> rx_served st q xs evs s ?s'"
    using desc_rx_served [OF assms(1) n, of st] assms(2,4) by metis+
  from ex obtain xs evs where xs: "length xs = ?n" and sv: "rx_served st q xs evs s ?s'" by blast
  note d = rx_servedD [OF sv]
  define as where "as = take ?n ?bs"
  have la: "length as = length xs" and bs: "?bs = as @ drop ?n ?bs" using n xs by (simp_all add: as_def)
  have tk: "taken ?bs xs = taken as xs" by (subst bs) (rule taken_cut, simp add: la)
  have "mset (taken as xs) = mset (filter (\<lambda>b. rx_good (st b)) (taken as xs)) + mset (filter (\<lambda>b. \<not> rx_good (st b)) (taken as xs))"
    by simp
  with exchange_balance [OF refilled_balance [OF la] d(9) [unfolded tk]]
  have "mset as + mset (allocated evs) = mset (map2 refilled as xs) + mset (delivered evs) + mset (kfreed evs)"
    unfolding d(8) tk .
  moreover have "mset ?bs = mset as + mset (drop ?n ?bs)" by (metis bs mset_append)
  moreover have "mset (rx_bufs q ?s') = mset (drop ?n ?bs) + mset (map2 refilled as xs)" unfolding d(7) xs as_def [symmetric] mset_append ..
  ultimately have bal: "mset ?bs + mset (allocated evs) = mset (rx_bufs q ?s') + mset (delivered evs) + mset (kfreed evs)"
    by (simp add: add.assoc add.left_commute)
  have "0 \<notin> set as" "0 \<notin> set (drop ?n ?bs)" using assms(2) by (auto simp: as_def dest: in_set_takeD in_set_dropD)
  then have nz: "0 \<notin> set (rx_bufs q ?s')"
    using refilled_nonzero [OF _ d(6)] unfolding d(7) xs as_def [symmetric] by simp
  have "rx_size (rx_rings ?s' q) = rx_size (rx_rings s q)" by (simp add: rx_size_def d(3,4))
  with k xs bal nz d(1,2,8,11-14) d(7,10) [unfolded xs] show ?thesis
    unfolding Let_def split_beta by (intro conjI exI [of _ xs] exI [of _ evs] allI impI) assumption+
qed

theorem rx_ring_rotates_witness:
  "unat (fst (run_state (bcmgenet_desc_rx rx_demo_env 0 4) rx_demo_priv)) = 1 \<and>
   (let s' = after (bcmgenet_desc_rx rx_demo_env 0 4) rx_demo_priv in
    hd (rx_bufs 0 s') = 1 \<and> length (rx_bufs 0 s') = 2 \<and> 0 \<notin> set (rx_bufs 0 s') \<and> take_bit 16 (r_c_index (rx_rings s' 0)) = 0)"
proof -
  let ?s' = "after (bcmgenet_desc_rx rx_demo_env 0 4) rx_demo_priv"
  have "unat (fst (run_state (bcmgenet_desc_rx rx_demo_env 0 4) rx_demo_priv)) = 1 \<and>
      (\<exists>xs. length xs = 1 \<and> rx_bufs 0 ?s' = drop 1 [2, 1] @ map2 refilled (take 1 [2, 1]) xs \<and> 0 \<notin> set (rx_bufs 0 ?s')) \<and>
      take_bit 16 (r_c_index (rx_rings ?s' 0)) = take_bit 16 (r_c_index (rx_rings rx_demo_priv 0) + of_nat 1)"
    using rx_ring_rotates [of rx_demo_priv 0 rx_demo_env "\<lambda>_. \<lparr>length_status = 0x8e6000, rx_csum = 0\<rparr>" 4]
    by (simp add: Let_def split_beta rx_demo_geom rx_demo_bufs rx_demo_ready rx_demo_size) (auto simp: rx_demo_env_def)
  then show ?thesis
    by (auto simp: Let_def length_Suc_conv rx_demo_priv_def rx_demo_ring_def)
qed

section \<open>Filling a ring\<close>

text \<open>The buffers held by a list of control blocks.\<close>

definition held :: "(u32 \<Rightarrow> enet_cb) \<Rightarrow> u32 list \<Rightarrow> u64 list" where
  "held c is = filter (\<lambda>b. b \<noteq> 0) (map (\<lambda>i. cb_skb (c i)) is)"

lemma held_Cons: "held c (i # is) = (if cb_skb (c i) = 0 then [] else [cb_skb (c i)]) @ held c is"
  by (simp add: held_def)

lemma held_upd: "i \<notin> set is \<Longrightarrow> held (c(i := x)) is = held c is"
  unfolding held_def by (intro arg_cong [where f = "filter _"] map_cong) auto

lemma held_cong: "(\<And>i. i \<in> set is \<Longrightarrow> c i = d i) \<Longrightarrow> held c is = held d is"
  unfolding held_def by (intro arg_cong [where f = "filter _"] map_cong) auto

lemma held_full: "length (held c is) = length is \<longleftrightarrow> (\<forall>i\<in>set is. cb_skb (c i) \<noteq> 0)"
proof (induction "is")
  case (Cons i "is")
  have "length (held c is) \<le> length is" by (simp add: held_def)
  with Cons show ?case by (auto simp: held_Cons)
qed (simp add: held_def)

definition rx_alloc :: "u32 list \<Rightarrow> event list \<Rightarrow> bcmgenet_priv \<Rightarrow> bcmgenet_priv \<Rightarrow> bool" where
  "rx_alloc is evs s s' \<longleftrightarrow> trace s' = evs @ trace s \<and> rx_rings s' = rx_rings s \<and>
     (\<forall>i. i \<notin> set is \<longrightarrow> rx_cbs s' i = rx_cbs s i) \<and>
     mset (held (rx_cbs s) is) + mset (allocated evs) = mset (held (rx_cbs s') is) + mset (released evs) + mset (kfreed evs)"

lemma alloc_rx_step:
  "\<exists>evs. rx_alloc [i] evs s (after (do {
     skb \<leftarrow> bcmgenet_rx_refill e i;
     (if skb \<noteq> 0 then kdo (Skb_call (Dev_consume_skb_any skb)) else ret ()) }) s)"
proof -
  obtain f evs m c where r: "run_state (bcmgenet_rx_refill e i) s =
      ((if f = None then 0 else cb_skb (rx_cbs s i)), s\<lparr>trace := evs @ trace s, mib := m, rx_cbs := (rx_cbs s)(i := c)\<rparr>)"
    "cb_skb c = rx_kept (rx_cbs s i) f" "f \<noteq> Some 0" "allocated evs = kfreed evs @ (case f of None \<Rightarrow> [] | Some b \<Rightarrow> [b])" "released evs = []"
    using run_rx_refill [of e i s] by blast
  let ?b = "cb_skb (rx_cbs s i)"
  let ?skb = "if f = None then 0 else ?b"
  let ?ev = "(if ?skb \<noteq> 0 then [Call (Skb_call (Dev_consume_skb_any ?skb)) 0] else []) @ evs"
  show ?thesis
    by (rule exI [of _ ?ev]) (cases f; use r(2-) in \<open>simp add: r(1) rx_alloc_def held_def rx_kept_def\<close>)
qed

lemma rx_alloc_trans:
  assumes "rx_alloc [i] ev s s1" "rx_alloc is evs s1 s2" "i \<notin> set is"
  shows "rx_alloc (i # is) (evs @ ev) s s2"
proof -
  have h: "held (rx_cbs s1) is = held (rx_cbs s) is" "held (rx_cbs s2) [i] = held (rx_cbs s1) [i]"
    using assms by (auto simp: rx_alloc_def intro!: held_cong)
  have c: "held c (i # is) = held c [i] @ held c is" for c by (simp add: held_def)
  have "mset (held (rx_cbs s) [i]) + mset (allocated ev) = mset (held (rx_cbs s1) [i]) + (mset (released ev) + mset (kfreed ev))"
    "mset (held (rx_cbs s1) is) + mset (allocated evs) = mset (held (rx_cbs s2) is) + (mset (released evs) + mset (kfreed evs))"
    using assms by (simp_all add: rx_alloc_def add.assoc)
  from add_pairs [OF this] show ?thesis using assms h unfolding rx_alloc_def c
    by (simp add: ac_simps)
qed

lemma alloc_rx_loop_run:
  assumes "distinct is"
  shows "\<exists>evs. rx_alloc is evs s (after (alloc_rx_loop e is) s) \<and>
    fst (run_state (alloc_rx_loop e is) s) =
      (if \<forall>i\<in>set is. cb_skb (rx_cbs (after (alloc_rx_loop e is) s) i) \<noteq> 0 then 0 else - ENOMEM)"
  using assms
proof (induction "is" arbitrary: s)
  case Nil
  then show ?case by (intro exI [of _ "[]"]) (simp add: rx_alloc_def held_def)
next
  case (Cons i "is")
  let ?step = "do { skb \<leftarrow> bcmgenet_rx_refill e i; if skb \<noteq> 0 then kdo (Skb_call (Dev_consume_skb_any skb)) else ret () }"
  define s1 where "s1 = after ?step s"
  obtain ev where 1: "rx_alloc [i] ev s s1" using alloc_rx_step unfolding s1_def by blast
  have run: "run_state (alloc_rx_loop e (i # is)) s = (if cb_skb (rx_cbs s1 i) = 0 then (- ENOMEM, s1) else run_state (alloc_rx_loop e is) s1)"
    by (simp add: s1_def split_beta)
  show ?case
  proof (cases "cb_skb (rx_cbs s1 i) = 0")
    case True
    have "rx_alloc is [] s1 s1" by (simp add: rx_alloc_def)
    from rx_alloc_trans [OF 1 this] True Cons.prems show ?thesis unfolding run by auto
  next
    case False
    obtain evs where 2: "rx_alloc is evs s1 (after (alloc_rx_loop e is) s1)"
      and k: "fst (run_state (alloc_rx_loop e is) s1) =
        (if \<forall>i\<in>set is. cb_skb (rx_cbs (after (alloc_rx_loop e is) s1) i) \<noteq> 0 then 0 else - ENOMEM)"
      using Cons by force
    have "rx_cbs (after (alloc_rx_loop e is) s1) i = rx_cbs s1 i" using 2 Cons.prems by (simp add: rx_alloc_def)
    with rx_alloc_trans [OF 1 2] False Cons.prems k show ?thesis unfolding run by auto
  qed
qed

text \<open>
  C36: filling a receive ring ends with 0 when every control block of the ring holds a buffer and with
  \<open>-ENOMEM\<close> otherwise; in both cases every buffer the blocks held before or that was allocated is held
  by a block, freed or released exactly once, and no other block and no ring changes.
\<close>

theorem alloc_rx_buffers_fills:
  "let is = map (\<lambda>i. r_cbs (rx_rings s q) + i) (upto_word (r_size (rx_rings s q)));
       (k, s') = run_state (bcmgenet_alloc_rx_buffers e q) s
   in (\<exists>evs. trace s' = evs @ trace s \<and>
         mset (held (rx_cbs s) is) + mset (allocated evs) = mset (held (rx_cbs s') is) + mset (released evs) + mset (kfreed evs)) \<and>
      k = (if length (held (rx_cbs s') is) = unat (r_size (rx_rings s q)) then 0 else - ENOMEM) \<and>
      (\<forall>i. i \<notin> set is \<longrightarrow> rx_cbs s' i = rx_cbs s i) \<and> rx_rings s' = rx_rings s"
proof -
  let ?is = "map (\<lambda>i. r_cbs (rx_rings s q) + i) (upto_word (r_size (rx_rings s q)))"
  have "distinct ?is" by (simp add: distinct_map inj_on_def)
  then obtain evs where "rx_alloc ?is evs s (after (alloc_rx_loop e ?is) s)"
    "fst (run_state (alloc_rx_loop e ?is) s) = (if \<forall>i\<in>set ?is. cb_skb (rx_cbs (after (alloc_rx_loop e ?is) s) i) \<noteq> 0 then 0 else - ENOMEM)"
    using alloc_rx_loop_run by blast
  moreover have "(\<forall>i\<in>set ?is. cb_skb (c i) \<noteq> 0) \<longleftrightarrow> length (held c ?is) = unat (r_size (rx_rings s q))" for c
    using held_full [of c ?is] by (simp add: upto_word_def)
  moreover have "run_state (bcmgenet_alloc_rx_buffers e q) s = run_state (alloc_rx_loop e ?is) s"
    by (simp add: bcmgenet_alloc_rx_buffers_def)
  ultimately show ?thesis unfolding Let_def split_beta rx_alloc_def by auto
qed

lemma rx_demo_cells: "map (\<lambda>i. r_cbs (rx_rings rx_demo_priv 0) + i) (upto_word (r_size (rx_rings rx_demo_priv 0))) = [0, 1]"
  by (simp add: upto_word_def rx_demo_priv_def rx_demo_ring_def demo_rx_ring_def upt_rec)

theorem alloc_rx_buffers_fills_witness:
  "let (k, s') = run_state (bcmgenet_alloc_rx_buffers rx_demo_env 0) rx_demo_priv
   in (\<exists>evs. mset [1, 2] + mset (allocated evs) = mset (held (rx_cbs s') [0, 1]) + mset (released evs) + mset (kfreed evs)) \<and>
      k = (if length (held (rx_cbs s') [0, 1]) = 2 then 0 else - ENOMEM) \<and>
      rx_cbs s' 2 = demo_cb\<lparr>cb_skb := 3\<rparr> \<and> rx_rings s' 0 = rx_demo_ring"
proof -
  have c: "held (rx_cbs rx_demo_priv) [0, 1] = [1, 2]" "rx_cbs rx_demo_priv 2 = demo_cb\<lparr>cb_skb := 3\<rparr>"
    "rx_rings rx_demo_priv 0 = rx_demo_ring" "r_size rx_demo_ring = 2"
    by (simp_all add: held_def rx_demo_priv_def rx_demo_ring_def)
  show ?thesis
    using alloc_rx_buffers_fills [of rx_demo_priv 0 rx_demo_env] unfolding rx_demo_cells
    by (auto simp: Let_def split_beta c)
qed

end
