(* ===== verification/Genet_Dev.thy ===== *)
theory Genet_Dev
  imports Prelude
begin

text \<open>
  The model of the GENET Ethernet controller that the patch series adds to QEMU
  (\<open>hw/net/bcm2838_genet.c\<close> and \<open>include/hw/net/bcm2838_genet.h\<close>: patch 0004 with the changes of patches
  0009 to 0015 and 0024 to 0026), every function in the order of the source.  The later patches change these
  parts: 0009 the DMA status registers (\<open>dma_ctrl_status\<close>); 0010 the ring configuration and the transmit
  status block (\<open>ring_active\<close>, \<open>xmit_start\<close>); 0011 the header before a received frame (\<open>rx_hdr_size\<close>, and the
  length written to memory); 0012 the restart of auto-negotiation (\<open>phy_write\<close>), the activity of the default
  ring and the receive interrupts (\<open>rx_interrupts\<close>); 0024 the receive checksum; 0025 the wrap of the transmit
  consumer index (\<open>tx_loop\<close> counts in 16 bits); 0026, with 0014 and 0015, the default ring and back-pressure
  (\<open>bcm2838_genet_default_rx_ring\<close>, \<open>bcm2838_genet_rdma_free_descs\<close>, \<open>write_flushes\<close>, the guard of
  \<open>bcm2838_genet_receive\<close>).

  The register block \<open>BCM2838GenetRegs\<close> consists of 32-bit words; the region accepts aligned accesses of four
  bytes only, so it is a map from byte offsets to words, and a field of the structure is its offset.  The
  PHY registers are maps from register numbers to 16-bit words.  Guest memory, the checksum functions of
  QEMU's network code and the choice of a default MAC address are arguments (\<open>genet_env\<close>).  Frames handed
  to the network and requests to flush its queue are recorded in \<open>net_out\<close>.  An access outside an array of the
  device state is undefined behaviour: \<open>out_of_bounds\<close> records that one has happened, and nothing is meant by
  the state after it.
\<close>

section \<open>Layout of the registers\<close>

definition BCM2838_GENET_DMA_DESC_CNT :: nat where "BCM2838_GENET_DMA_DESC_CNT = 256"
definition BCM2838_GENET_DMA_RING_CNT :: nat where "BCM2838_GENET_DMA_RING_CNT = 17"
definition BCM2838_GENET_DMA_RING_DEFAULT :: nat where "BCM2838_GENET_DMA_RING_DEFAULT = BCM2838_GENET_DMA_RING_CNT - 1"
definition GENET_MAX_FRAME_SIZE :: nat where "GENET_MAX_FRAME_SIZE = 0xFFF"
definition MAX_PACKET_SIZE :: nat where "MAX_PACKET_SIZE = 1518"
definition MAX_PAYLOAD_SIZE :: nat where "MAX_PAYLOAD_SIZE = 1500"
definition XMIT_STATUS_SIZE :: nat where "XMIT_STATUS_SIZE = 64"
definition ETH_HEADER_LEN :: nat where "ETH_HEADER_LEN = 14"

text \<open>Offsets of the blocks in \<open>BCM2838GenetRegs\<close>, and its size.\<close>

definition REGS_SIZE :: nat where "REGS_SIZE = 0x10000"
definition OFF_SYS_REV_CTRL :: nat where "OFF_SYS_REV_CTRL = 0x0"
definition OFF_INTRL0 :: nat where "OFF_INTRL0 = 0x200"
definition OFF_INTRL1 :: nat where "OFF_INTRL1 = 0x240"
definition OFF_RBUF :: nat where "OFF_RBUF = 0x300"
definition OFF_TBUF :: nat where "OFF_TBUF = 0x600"
definition OFF_UMAC :: nat where "OFF_UMAC = 0x800"
definition OFF_RDMA :: nat where "OFF_RDMA = 0x2000"
definition OFF_TDMA :: nat where "OFF_TDMA = 0x4000"

definition INTRL_STAT :: nat where "INTRL_STAT = 0x0"
definition INTRL_SET :: nat where "INTRL_SET = 0x4"
definition INTRL_CLEAR :: nat where "INTRL_CLEAR = 0x8"
definition INTRL_MASK_STATUS :: nat where "INTRL_MASK_STATUS = 0xc"
definition INTRL_MASK_SET :: nat where "INTRL_MASK_SET = 0x10"
definition INTRL_MASK_CLEAR :: nat where "INTRL_MASK_CLEAR = 0x14"

definition OFF_RBUF_CTRL :: nat where "OFF_RBUF_CTRL = OFF_RBUF"
definition OFF_RBUF_CHK_CTRL :: nat where "OFF_RBUF_CHK_CTRL = OFF_RBUF + 0x14"
definition OFF_TBUF_CTRL :: nat where "OFF_TBUF_CTRL = OFF_TBUF"

definition BCM2838_GENET_UMAC_CMD :: nat where "BCM2838_GENET_UMAC_CMD = OFF_UMAC + 0x8"
definition BCM2838_GENET_UMAC_MAC0 :: nat where "BCM2838_GENET_UMAC_MAC0 = OFF_UMAC + 0xc"
definition BCM2838_GENET_UMAC_MAC1 :: nat where "BCM2838_GENET_UMAC_MAC1 = OFF_UMAC + 0x10"
definition BCM2838_GENET_UMAC_MDIO_CMD :: nat where "BCM2838_GENET_UMAC_MDIO_CMD = OFF_UMAC + 0x614"

text \<open>A descriptor has three words, a ring sixteen; both DMA blocks have the same layout.\<close>

definition DESC_SIZE :: nat where "DESC_SIZE = 12"
definition RING_SIZE :: nat where "RING_SIZE = 0x40"
definition OFF_DMA_RINGS :: nat where "OFF_DMA_RINGS = BCM2838_GENET_DMA_DESC_CNT * DESC_SIZE"
definition RINGS_SIZE :: nat where "RINGS_SIZE = BCM2838_GENET_DMA_RING_CNT * RING_SIZE"
definition OFF_DMA_RING_CFG :: nat where "OFF_DMA_RING_CFG = OFF_DMA_RINGS + RINGS_SIZE"
definition OFF_DMA_CTRL :: nat where "OFF_DMA_CTRL = OFF_DMA_RING_CFG + 0x4"
definition OFF_DMA_STATUS :: nat where "OFF_DMA_STATUS = OFF_DMA_RING_CFG + 0x8"
definition DMA_BLOCK_SIZE :: nat where "DMA_BLOCK_SIZE = 0x2000"

definition DESC_LENGTH_STATUS :: nat where "DESC_LENGTH_STATUS = 0x0"
definition DESC_ADDRESS_LO :: nat where "DESC_ADDRESS_LO = 0x4"
definition DESC_ADDRESS_HI :: nat where "DESC_ADDRESS_HI = 0x8"

definition RRING_WRITE_PTR :: nat where "RRING_WRITE_PTR = 0x0"
definition RRING_WRITE_PTR_HI :: nat where "RRING_WRITE_PTR_HI = 0x4"
definition RRING_PROD_INDEX :: nat where "RRING_PROD_INDEX = 0x8"
definition RRING_CONS_INDEX :: nat where "RRING_CONS_INDEX = 0xc"
definition TRING_READ_PTR :: nat where "TRING_READ_PTR = 0x0"
definition TRING_READ_PTR_HI :: nat where "TRING_READ_PTR_HI = 0x4"
definition TRING_CONS_INDEX :: nat where "TRING_CONS_INDEX = 0x8"
definition TRING_PROD_INDEX :: nat where "TRING_PROD_INDEX = 0xc"
definition RING_BUF_SIZE :: nat where "RING_BUF_SIZE = 0x10"
definition RING_START_ADDR :: nat where "RING_START_ADDR = 0x14"
definition RING_START_ADDR_HI :: nat where "RING_START_ADDR_HI = 0x18"
definition RING_END_ADDR :: nat where "RING_END_ADDR = 0x1c"
definition RING_END_ADDR_HI :: nat where "RING_END_ADDR_HI = 0x20"

definition rdma_desc :: "nat \<Rightarrow> nat \<Rightarrow> nat" where "rdma_desc i w = OFF_RDMA + i * DESC_SIZE + w"
definition tdma_desc :: "nat \<Rightarrow> nat \<Rightarrow> nat" where "tdma_desc i w = OFF_TDMA + i * DESC_SIZE + w"
definition rdma_ring :: "nat \<Rightarrow> nat \<Rightarrow> nat" where "rdma_ring q w = OFF_RDMA + OFF_DMA_RINGS + q * RING_SIZE + w"
definition tdma_ring :: "nat \<Rightarrow> nat \<Rightarrow> nat" where "tdma_ring q w = OFF_TDMA + OFF_DMA_RINGS + q * RING_SIZE + w"

text \<open>Numbers of the PHY registers the code names.\<close>

definition BCM2838_GENET_PHY_BMCR :: nat where "BCM2838_GENET_PHY_BMCR = 0"
definition PHY_BMSR :: nat where "PHY_BMSR = 1"
definition PHY_LPA :: nat where "PHY_LPA = 5"
definition PHY_STAT1000 :: nat where "PHY_STAT1000 = 10"
definition BCM2838_GENET_EXP_DATA :: nat where "BCM2838_GENET_EXP_DATA = 21"
definition BCM2838_GENET_EXP_SEL :: nat where "BCM2838_GENET_EXP_SEL = 23"
definition BCM2838_GENET_PHY_AUX_CTL :: nat where "BCM2838_GENET_PHY_AUX_CTL = 24"
definition BCM2838_GENET_PHY_SHD :: nat where "BCM2838_GENET_PHY_SHD = 28"
definition BCM2838_GENET_PHY_AUX_CTL_MISC :: nat where "BCM2838_GENET_PHY_AUX_CTL_MISC = 7"

section \<open>Fields\<close>

definition INTRL_0_LINK_UP :: field where "INTRL_0_LINK_UP = (4, 1)"
definition INTRL_0_LINK_DOWN :: field where "INTRL_0_LINK_DOWN = (5, 1)"
definition INTRL_0_RXDMA_MBDONE :: field where "INTRL_0_RXDMA_MBDONE = (13, 1)"
definition INTRL_0_TXDMA_MBDONE :: field where "INTRL_0_TXDMA_MBDONE = (16, 1)"
definition INTRL_0_MDIO_DONE :: field where "INTRL_0_MDIO_DONE = (23, 1)"
definition INTRL_1_TX_INTRS :: field where "INTRL_1_TX_INTRS = (0, 16)"
definition INTRL_1_RX_INTRS :: field where "INTRL_1_RX_INTRS = (16, 16)"
definition UMAC_CMD_CRC_FWD :: field where "UMAC_CMD_CRC_FWD = (6, 1)"
definition UMAC_CMD_SW_RESET :: field where "UMAC_CMD_SW_RESET = (13, 1)"
definition MDIO_CMD_REG_DATA :: field where "MDIO_CMD_REG_DATA = (0, 16)"
definition MDIO_CMD_REG_ID :: field where "MDIO_CMD_REG_ID = (16, 5)"
definition MDIO_CMD_WR :: field where "MDIO_CMD_WR = (26, 1)"
definition MDIO_CMD_RD :: field where "MDIO_CMD_RD = (27, 1)"
definition MDIO_CMD_START_BUSY :: field where "MDIO_CMD_START_BUSY = (29, 1)"
definition RING_CFG_EN :: field where "RING_CFG_EN = (0, 17)"
definition CTRL_EN :: field where "CTRL_EN = (0, 1)"
definition CTRL_RING_BUF_EN :: field where "CTRL_RING_BUF_EN = (1, 17)"
definition PROD_INDEX_INDEX :: field where "PROD_INDEX_INDEX = (0, 16)"
definition CONS_INDEX_INDEX :: field where "CONS_INDEX_INDEX = (0, 16)"
definition STATUS_RXERR :: field where "STATUS_RXERR = (2, 1)"
definition STATUS_MULTICAST :: field where "STATUS_MULTICAST = (5, 1)"
definition STATUS_BROADCAST :: field where "STATUS_BROADCAST = (6, 1)"
definition STATUS_SOP :: field where "STATUS_SOP = (13, 1)"
definition STATUS_EOP :: field where "STATUS_EOP = (14, 1)"
definition STATUS_OWN :: field where "STATUS_OWN = (15, 1)"
definition STATUS_BUFLENGTH :: field where "STATUS_BUFLENGTH = (16, 12)"
definition BMCR_ANRESTART :: field where "BMCR_ANRESTART = (9, 1)"
definition BMSR_LSTATUS :: field where "BMSR_LSTATUS = (2, 1)"
definition BMSR_ANEGCOMPLETE :: field where "BMSR_ANEGCOMPLETE = (5, 1)"
definition LPA_PAUSE_CAP :: field where "LPA_PAUSE_CAP = (10, 1)"
definition LPA_PAUSE_ASYM :: field where "LPA_PAUSE_ASYM = (11, 1)"
definition LPA_LPACK :: field where "LPA_LPACK = (14, 1)"
definition STAT_1000_HALF :: field where "STAT_1000_HALF = (10, 1)"
definition STAT_1000_FULL :: field where "STAT_1000_FULL = (11, 1)"
definition AUX_CTRL_0_REG_ID_MASK :: field where "AUX_CTRL_0_REG_ID_MASK = (0, 3)"
definition AUX_CTRL_0_REG_DATA :: field where "AUX_CTRL_0_REG_DATA = (4, 8)"
definition AUX_CTRL_0_REG_ID :: field where "AUX_CTRL_0_REG_ID = (12, 3)"
definition AUX_CTRL_0_MISC_WREN :: field where "AUX_CTRL_0_MISC_WREN = (15, 1)"
definition AUX_CTRL_1_REG_DATA :: field where "AUX_CTRL_1_REG_DATA = (4, 12)"
definition PHY_SHADOW_REG_DATA :: field where "PHY_SHADOW_REG_DATA = (0, 10)"
definition PHY_SHADOW_REG_ID :: field where "PHY_SHADOW_REG_ID = (10, 5)"
definition PHY_SHADOW_WR :: field where "PHY_SHADOW_WR = (15, 1)"
definition EXP_SEL_REG_ID :: field where "EXP_SEL_REG_ID = (0, 8)"
definition EXP_SEL_BLOCK_ID :: field where "EXP_SEL_BLOCK_ID = (8, 8)"
definition SYS_REV_CTRL_MINOR_REV :: field where "SYS_REV_CTRL_MINOR_REV = (16, 4)"
definition SYS_REV_CTRL_MAJOR_REV :: field where "SYS_REV_CTRL_MAJOR_REV = (24, 4)"

text \<open>The 16-bit versions of the field macros.\<close>

definition FIELD_EX16 :: "u16 \<Rightarrow> field \<Rightarrow> u16" where
  "FIELD_EX16 v f = ucast (FIELD_EX32 (ucast v) f)"

definition FIELD_DP16 :: "u16 \<Rightarrow> field \<Rightarrow> u16 \<Rightarrow> u16" where
  "FIELD_DP16 v f x = ucast (FIELD_DP32 (ucast v) f (ucast x))"

section \<open>State and environment\<close>

datatype net_event = Send_packet "u8 list" | Flush_queued

record 'm genet_dev =
  gregs :: "nat \<Rightarrow> u32"
  genet_phy_regs :: "nat \<Rightarrow> u16"
  phy_shd_regs :: "nat \<Rightarrow> u16"
  phy_aux_ctl_shd_regs :: "nat \<Rightarrow> u16"
  phy_exp_shd_regs :: "nat \<Rightarrow> nat \<Rightarrow> u16"
  nic_macaddr :: "nat \<Rightarrow> u8"
  irq_default :: bool
  irq_prio :: bool
  tx_buffer :: "nat \<Rightarrow> u8"
  rx_buffer :: "nat \<Rightarrow> u8"
  nic_link_down :: bool
  guest_mem :: 'm
  net_out :: "net_event list"
  out_of_bounds :: bool

record 'm genet_env =
  gas_read :: "'m \<Rightarrow> u64 \<Rightarrow> nat \<Rightarrow> u8 list"
  gas_write :: "'m \<Rightarrow> u64 \<Rightarrow> u8 list \<Rightarrow> 'm"
  gas_write_ok :: "'m \<Rightarrow> u64 \<Rightarrow> nat \<Rightarrow> bool"
  csum_calculate :: "u8 list \<Rightarrow> u8 list"
  csum_add :: "u8 list \<Rightarrow> u32"
  macaddr_default_if_unset :: "(nat \<Rightarrow> u8) \<Rightarrow> nat \<Rightarrow> u8"

definition upd_reg :: "nat \<Rightarrow> (u32 \<Rightarrow> u32) \<Rightarrow> 'm genet_dev \<Rightarrow> 'm genet_dev" where
  "upd_reg a f s = s\<lparr>gregs := (gregs s)(a := f (gregs s a))\<rparr>"

definition upd_phy :: "nat \<Rightarrow> (u16 \<Rightarrow> u16) \<Rightarrow> 'm genet_dev \<Rightarrow> 'm genet_dev" where
  "upd_phy a f s = s\<lparr>genet_phy_regs := (genet_phy_regs s)(a := f (genet_phy_regs s a))\<rparr>"

text \<open>Two words as a 64-bit value: the low one and the one 4 bytes further.\<close>

definition reg64 :: "'m genet_dev \<Rightarrow> nat \<Rightarrow> u64" where
  "reg64 s a = push_bit 32 (ucast (gregs s (a + 4))) + ucast (gregs s a)"

text \<open>\<open>memcpy\<close> into and out of an array of bytes.\<close>

definition blit :: "(nat \<Rightarrow> u8) \<Rightarrow> nat \<Rightarrow> u8 list \<Rightarrow> nat \<Rightarrow> u8" where
  "blit b off bs = (\<lambda>i. if off \<le> i \<and> i < off + length bs then bs ! (i - off) else b i)"

definition slice_bytes :: "(nat \<Rightarrow> u8) \<Rightarrow> nat \<Rightarrow> nat \<Rightarrow> u8 list" where
  "slice_bytes b off n = map b [off..<off + n]"


section \<open>MAC address and interrupt lines\<close>

definition bcm2838_genet_set_qemu_mac :: "'m genet_dev \<Rightarrow> 'm genet_dev" where
  "bcm2838_genet_set_qemu_mac s =
     (let a = (\<lambda>i. ucast (nic_macaddr s i) :: u32) in
      upd_reg BCM2838_GENET_UMAC_MAC1 (\<lambda>v. FIELD_DP32 (FIELD_DP32 v (8, 8) (a 4)) (0, 8) (a 5))
       (upd_reg BCM2838_GENET_UMAC_MAC0 (\<lambda>v. FIELD_DP32 (FIELD_DP32 (FIELD_DP32 (FIELD_DP32 v (24, 8) (a 0)) (16, 8) (a 1)) (8, 8) (a 2)) (0, 8) (a 3)) s))"

definition bcm2838_genet_set_irq_default :: "'m genet_dev \<Rightarrow> 'm genet_dev" where
  "bcm2838_genet_set_irq_default s =
     s\<lparr>irq_default := gregs s (OFF_INTRL0 + INTRL_STAT) AND NOT (gregs s (OFF_INTRL0 + INTRL_MASK_STATUS)) \<noteq> 0\<rparr>"

definition bcm2838_genet_set_irq_prio :: "'m genet_dev \<Rightarrow> 'm genet_dev" where
  "bcm2838_genet_set_irq_prio s =
     s\<lparr>irq_prio := gregs s (OFF_INTRL1 + INTRL_STAT) AND NOT (gregs s (OFF_INTRL1 + INTRL_MASK_STATUS)) \<noteq> 0\<rparr>"

section \<open>PHY registers\<close>

text \<open>
  In the two branches that prepare a read the source computes a new value with \<open>FIELD_DP16\<close> and drops it, so
  the register takes the value written.
\<close>

definition bcm2838_genet_phy_aux_ctl_write :: "'m genet_dev \<Rightarrow> u16 \<Rightarrow> 'm genet_dev" where
  "bcm2838_genet_phy_aux_ctl_write s value =
     (let reg_id = unat (FIELD_EX16 value AUX_CTRL_0_REG_ID);
          reg_id_mask = unat (FIELD_EX16 value AUX_CTRL_0_REG_ID_MASK);
          misc_wren = FIELD_EX16 value AUX_CTRL_0_MISC_WREN;
          s = (if reg_id_mask = BCM2838_GENET_PHY_AUX_CTL_MISC
               then (if reg_id = BCM2838_GENET_PHY_AUX_CTL_MISC \<and> misc_wren \<noteq> 0
                     then s\<lparr>phy_aux_ctl_shd_regs := (phy_aux_ctl_shd_regs s)(reg_id_mask := FIELD_EX16 value AUX_CTRL_0_REG_DATA)\<rparr>
                     else s)
               else s\<lparr>phy_aux_ctl_shd_regs := (phy_aux_ctl_shd_regs s)(reg_id_mask := FIELD_EX16 value AUX_CTRL_1_REG_DATA)\<rparr>)
      in upd_phy BCM2838_GENET_PHY_AUX_CTL (\<lambda>_. value) s)"

definition bcm2838_genet_phy_shadow_write :: "'m genet_dev \<Rightarrow> u16 \<Rightarrow> 'm genet_dev" where
  "bcm2838_genet_phy_shadow_write s value =
     (let reg_id = unat (FIELD_EX16 value PHY_SHADOW_REG_ID);
          s = (if FIELD_EX16 value PHY_SHADOW_WR = 0 then s
               else s\<lparr>phy_shd_regs := (phy_shd_regs s)(reg_id := FIELD_EX16 value PHY_SHADOW_REG_DATA)\<rparr>)
      in upd_phy BCM2838_GENET_PHY_SHD (\<lambda>_. value) s)"

definition exp_sel :: "'m genet_dev \<Rightarrow> nat \<times> nat" where
  "exp_sel s = (unat (FIELD_EX16 (genet_phy_regs s BCM2838_GENET_EXP_SEL) EXP_SEL_BLOCK_ID),
                unat (FIELD_EX16 (genet_phy_regs s BCM2838_GENET_EXP_SEL) EXP_SEL_REG_ID))"

definition bcm2838_genet_phy_exp_shadow_write :: "'m genet_dev \<Rightarrow> u16 \<Rightarrow> 'm genet_dev" where
  "bcm2838_genet_phy_exp_shadow_write s value =
     (case exp_sel s of (b, r) \<Rightarrow>
        s\<lparr>phy_exp_shd_regs := (phy_exp_shd_regs s)(b := (phy_exp_shd_regs s b)(r := value))\<rparr>)"

definition bcm2838_genet_phy_exp_shadow_read :: "'m genet_dev \<Rightarrow> u16" where
  "bcm2838_genet_phy_exp_shadow_read s = (case exp_sel s of (b, r) \<Rightarrow> phy_exp_shd_regs s b r)"

definition bcm2838_genet_phy_update_link :: "'m genet_dev \<Rightarrow> 'm genet_dev" where
  "bcm2838_genet_phy_update_link s =
     (let lstatus = FIELD_EX16 (genet_phy_regs s PHY_BMSR) BMSR_LSTATUS \<noteq> 0;
          s = (if nic_link_down s \<and> lstatus
               then upd_reg (OFF_INTRL0 + INTRL_STAT) (\<lambda>v. FIELD_DP32 v INTRL_0_LINK_DOWN 1)
                     (upd_phy PHY_BMSR (\<lambda>v. FIELD_DP16 (FIELD_DP16 v BMSR_ANEGCOMPLETE 0) BMSR_LSTATUS 0) s)
               else if \<not> nic_link_down s \<and> \<not> lstatus
               then upd_reg (OFF_INTRL0 + INTRL_STAT) (\<lambda>v. FIELD_DP32 v INTRL_0_LINK_UP 1)
                     (upd_phy PHY_BMSR (\<lambda>v. FIELD_DP16 (FIELD_DP16 v BMSR_ANEGCOMPLETE 1) BMSR_LSTATUS 1)
                       (upd_phy PHY_LPA (\<lambda>v. FIELD_DP16 (FIELD_DP16 (FIELD_DP16 v LPA_PAUSE_CAP 1) LPA_PAUSE_ASYM 1) LPA_LPACK 1)
                         (upd_phy PHY_STAT1000 (\<lambda>v. FIELD_DP16 (FIELD_DP16 v STAT_1000_HALF 1) STAT_1000_FULL 1) s)))
               else s)
      in bcm2838_genet_set_irq_default s)"

text \<open>A write to a PHY register; restarting the negotiation completes it at once.\<close>

definition phy_write :: "'m genet_dev \<Rightarrow> nat \<Rightarrow> u16 \<Rightarrow> 'm genet_dev" where
  "phy_write s phy_reg_id phy_reg_data =
     (if phy_reg_id = BCM2838_GENET_PHY_AUX_CTL then bcm2838_genet_phy_aux_ctl_write s phy_reg_data
      else if phy_reg_id = BCM2838_GENET_PHY_SHD then bcm2838_genet_phy_shadow_write s phy_reg_data
      else if phy_reg_id = BCM2838_GENET_EXP_DATA then bcm2838_genet_phy_exp_shadow_write s phy_reg_data
      else if phy_reg_id = BCM2838_GENET_PHY_BMCR \<and> FIELD_EX16 phy_reg_data BMCR_ANRESTART = 1
      then upd_phy phy_reg_id (\<lambda>_. FIELD_DP16 phy_reg_data BMCR_ANRESTART 0) (bcm2838_genet_phy_update_link s)
      else upd_phy phy_reg_id (\<lambda>_. phy_reg_data) s)"

definition bcm2838_genet_mdio_cmd :: "'m genet_dev \<Rightarrow> u32 \<Rightarrow> u32 \<times> 'm genet_dev" where
  "bcm2838_genet_mdio_cmd s cmd =
     (let phy_reg_id = unat (FIELD_EX32 cmd MDIO_CMD_REG_ID);
          phy_reg_data = ucast (FIELD_EX32 cmd MDIO_CMD_REG_DATA)
      in if FIELD_EX32 cmd MDIO_CMD_START_BUSY = 0 then (cmd, s)
         else let cmd' = FIELD_DP32 cmd MDIO_CMD_START_BUSY 0
              in if FIELD_EX32 cmd MDIO_CMD_RD \<noteq> 0
                 then (FIELD_DP32 cmd' MDIO_CMD_REG_DATA
                         (ucast (if phy_reg_id = BCM2838_GENET_EXP_DATA then bcm2838_genet_phy_exp_shadow_read s
                                 else genet_phy_regs s phy_reg_id)), s)
                 else if FIELD_EX32 cmd MDIO_CMD_WR \<noteq> 0 then (cmd', phy_write s phy_reg_id phy_reg_data)
                 else (cmd', s))"

section \<open>Transmission\<close>

text \<open>
  Sending the \<open>size\<close> bytes gathered in \<open>tx_packet\<close>: the transmit status block is skipped when it is enabled,
  checksums are filled in, and a length field in place of the type is replaced.
\<close>

definition xmit_start :: "'m genet_dev \<Rightarrow> nat \<Rightarrow> nat" where
  "xmit_start s sz = (if bit (gregs s OFF_TBUF_CTRL) 0 \<and> sz > XMIT_STATUS_SIZE then XMIT_STATUS_SIZE else 0)"

definition be16 :: "u8 list \<Rightarrow> nat" where
  "be16 bs = 256 * unat (bs ! 0) + unat (bs ! 1)"

definition bcm2838_genet_xmit_packet :: "'m genet_env \<Rightarrow> 'm genet_dev \<Rightarrow> nat \<Rightarrow> 'm genet_dev" where
  "bcm2838_genet_xmit_packet e s sz =
     (let buf = xmit_start s sz; len = sz - buf;
          b = blit (tx_buffer s) buf (csum_calculate e (slice_bytes (tx_buffer s) buf len));
          b = (if be16 (slice_bytes b (buf + 12) 2) < MAX_PAYLOAD_SIZE
               then blit b (buf + 12) [of_nat (len div 256), of_nat len] else b)
      in s\<lparr>tx_buffer := b, net_out := net_out s @ [Send_packet (slice_bytes b buf len)]\<rparr>)"

text \<open>One descriptor: its bytes are appended at \<open>packet_off\<close>, and the packet is sent when it is the last.\<close>

definition tx_desc :: "'m genet_env \<Rightarrow> 'm genet_dev \<Rightarrow> nat \<Rightarrow> nat \<Rightarrow> nat \<times> 'm genet_dev" where
  "tx_desc e s desc_index packet_off =
     (let desc_status = gregs s (tdma_desc desc_index DESC_LENGTH_STATUS);
          data_addr = reg64 s (tdma_desc desc_index DESC_ADDRESS_LO);
          packet_off = (if FIELD_EX32 desc_status STATUS_SOP \<noteq> 0 then 0 else packet_off);
          buflength = unat (FIELD_EX32 desc_status STATUS_BUFLENGTH);
          s = (if packet_off + buflength > GENET_MAX_FRAME_SIZE then s\<lparr>out_of_bounds := True\<rparr>
               else s\<lparr>tx_buffer := blit (tx_buffer s) packet_off (gas_read e (guest_mem s) data_addr buflength)\<rparr>);
          packet_off = packet_off + buflength;
          (packet_off, s) = (if FIELD_EX32 desc_status STATUS_EOP \<noteq> 0
                             then (0, bcm2838_genet_xmit_packet e s packet_off) else (packet_off, s))
      in (packet_off, upd_reg (tdma_desc desc_index DESC_LENGTH_STATUS) (\<lambda>v. FIELD_DP32 v STATUS_OWN 1) s))"

definition next_read_ptr :: "'m genet_dev \<Rightarrow> nat \<Rightarrow> u64 \<Rightarrow> u64" where
  "next_read_ptr s q read_ptr =
     (if read_ptr = reg64 s (tdma_ring q RING_END_ADDR) + 1 - 3 then reg64 s (tdma_ring q RING_START_ADDR)
      else read_ptr + 3)"

text \<open>
  The loop over the descriptors between the consumer and the producer index.  The indices are 16-bit fields
  and wrap, so they are 16-bit words.  The result is the number of descriptors sent, the read pointer and the state.
\<close>

function tx_loop :: "'m genet_env \<Rightarrow> nat \<Rightarrow> u16 \<Rightarrow> u16 \<Rightarrow> u64 \<Rightarrow> nat \<Rightarrow> nat \<Rightarrow> 'm genet_dev \<Rightarrow> nat \<times> u64 \<times> 'm genet_dev" where
  "tx_loop e q prod_index cons_index read_ptr packet_off num_descs s =
     (if cons_index = prod_index then (num_descs, read_ptr, s)
      else
        let desc_index = unat (read_ptr div 3)
        in if desc_index \<ge> BCM2838_GENET_DMA_DESC_CNT then (num_descs, read_ptr, s)
           else case tx_desc e s desc_index packet_off of
             (packet_off, s) \<Rightarrow>
               tx_loop e q prod_index (cons_index + 1) (next_read_ptr s q read_ptr) packet_off (Suc num_descs) s)"
  by pat_completeness auto

termination
proof (relation "measure (\<lambda>(e, q, prod_index, cons_index, read_ptr, packet_off, num_descs, s). unat (prod_index - cons_index))")
  fix prod_index cons_index :: u16
  assume "cons_index \<noteq> prod_index"
  then have "prod_index - cons_index \<noteq> 0" by simp
  then have "unat (prod_index - cons_index - 1) < unat (prod_index - cons_index)" by (simp add: unat_minus_one unat_gt_0)
  then show "((e, q, prod_index, cons_index + 1, rp, off, n, s'), (e', q', prod_index, cons_index, rp', off', n', s)) \<in>
      measure (\<lambda>(e, q, prod_index, cons_index, read_ptr, packet_off, num_descs, s). unat (prod_index - cons_index))"
    for e e' :: "'m genet_env" and q q' :: nat and rp rp' :: u64 and off off' n n' :: nat and s s' :: "'m genet_dev"
    by (simp add: diff_diff_eq)
qed simp

declare tx_loop.simps [simp del]

definition bcm2838_genet_tx :: "'m genet_env \<Rightarrow> 'm genet_dev \<Rightarrow> nat \<Rightarrow> u32 \<Rightarrow> u32 \<Rightarrow> nat \<times> 'm genet_dev" where
  "bcm2838_genet_tx e s q prod_index cons_index =
     (case tx_loop e q (ucast prod_index) (ucast cons_index) (reg64 s (tdma_ring q TRING_READ_PTR)) 0 0 s of
        (num_descs, read_ptr, s) \<Rightarrow>
          (num_descs, upd_reg (tdma_ring q TRING_READ_PTR_HI) (\<lambda>_. ucast (drop_bit 32 read_ptr))
                       (upd_reg (tdma_ring q TRING_READ_PTR) (\<lambda>_. ucast read_ptr) s)))"

definition ring_active :: "u32 \<Rightarrow> u32 \<Rightarrow> nat \<Rightarrow> bool" where
  "ring_active ctrl ring_cfg q \<longleftrightarrow>
     FIELD_EX32 ctrl CTRL_EN \<noteq> 0 \<and> FIELD_EX32 ring_cfg RING_CFG_EN AND push_bit q 1 \<noteq> 0 \<and>
     FIELD_EX32 ctrl CTRL_RING_BUF_EN AND push_bit q 1 \<noteq> 0"

definition bcm2838_genet_tdma_ring_active :: "'m genet_dev \<Rightarrow> nat \<Rightarrow> bool" where
  "bcm2838_genet_tdma_ring_active s q =
     ring_active (gregs s (OFF_TDMA + OFF_DMA_CTRL)) (gregs s (OFF_TDMA + OFF_DMA_RING_CFG)) q"

definition bcm2838_genet_rdma_ring_active :: "'m genet_dev \<Rightarrow> nat \<Rightarrow> bool" where
  "bcm2838_genet_rdma_ring_active s q \<longleftrightarrow>
     (if q = BCM2838_GENET_DMA_RING_CNT - 1 then FIELD_EX32 (gregs s (OFF_RDMA + OFF_DMA_CTRL)) CTRL_EN \<noteq> 0
      else ring_active (gregs s (OFF_RDMA + OFF_DMA_CTRL)) (gregs s (OFF_RDMA + OFF_DMA_RING_CFG)) q)"

text \<open>A write of the producer index of a transmit ring sends what has been added.\<close>

definition tdma_prod_index :: "'m genet_env \<Rightarrow> 'm genet_dev \<Rightarrow> nat \<Rightarrow> u32 \<Rightarrow> 'm genet_dev" where
  "tdma_prod_index e s q prod_index =
     (let cons_index = gregs s (tdma_ring q TRING_CONS_INDEX)
      in if FIELD_EX32 cons_index CONS_INDEX_INDEX = FIELD_EX32 prod_index PROD_INDEX_INDEX then s
         else case bcm2838_genet_tx e s q prod_index cons_index of
           (num_descs_tx, s) \<Rightarrow>
             if num_descs_tx = 0 then s
             else let s = upd_reg (tdma_ring q TRING_CONS_INDEX)
                            (\<lambda>v. FIELD_DP32 v CONS_INDEX_INDEX (cons_index + of_nat num_descs_tx)) s
                  in if q = BCM2838_GENET_DMA_RING_DEFAULT
                     then upd_reg (OFF_INTRL0 + INTRL_STAT) (\<lambda>v. FIELD_DP32 v INTRL_0_TXDMA_MBDONE 1) s
                     else upd_reg (OFF_INTRL1 + INTRL_STAT)
                            (\<lambda>v. FIELD_DP32 v INTRL_1_TX_INTRS (FIELD_EX32 v INTRL_1_TX_INTRS OR push_bit q 1)) s)"

text \<open>The status register shows at once whether the engine is stopped.\<close>

definition dma_ctrl_status :: "nat \<Rightarrow> u32 \<Rightarrow> 'm genet_dev \<Rightarrow> 'm genet_dev" where
  "dma_ctrl_status block value s =
     upd_reg (block + OFF_DMA_STATUS) (\<lambda>_. if FIELD_EX32 value CTRL_EN = 0 then 0xFFFFFFFF else 0) s"

definition bcm2838_genet_tdma :: "'m genet_env \<Rightarrow> 'm genet_dev \<Rightarrow> nat \<Rightarrow> u32 \<Rightarrow> 'm genet_dev" where
  "bcm2838_genet_tdma e s offset value =
     (let rings = OFF_TDMA + OFF_DMA_RINGS
      in if rings \<le> offset \<and> offset < rings + RINGS_SIZE
         then let q = (offset - rings) div RING_SIZE
              in if bcm2838_genet_tdma_ring_active s q \<and> offset - rings - q * RING_SIZE = TRING_PROD_INDEX
                 then tdma_prod_index e s q value else s
         else if offset = OFF_TDMA + OFF_DMA_CTRL then dma_ctrl_status OFF_TDMA value s
         else s)"

section \<open>Reception\<close>

definition is_packet_broadcast :: "u8 list \<Rightarrow> bool" where
  "is_packet_broadcast buf \<longleftrightarrow> 6 \<le> length buf \<and> take 6 buf = replicate 6 0xff"

text \<open>The argument is the first byte of the buffer.\<close>

definition is_packet_multicast :: "u8 \<Rightarrow> bool" where
  "is_packet_multicast b = bit b 0"

text \<open>Bytes before the frame in a receive buffer: the status block and two bytes of padding, when enabled.\<close>

definition rx_hdr_size :: "'m genet_dev \<Rightarrow> nat" where
  "rx_hdr_size s = (if bit (gregs s OFF_RBUF_CTRL) 0 then XMIT_STATUS_SIZE else 0) + (if bit (gregs s OFF_RBUF_CTRL) 1 then 2 else 0)"

definition rx_checksum :: "'m genet_env \<Rightarrow> 'm genet_dev \<Rightarrow> u8 list \<Rightarrow> u32" where
  "rx_checksum e s frame =
     (if bit (gregs s OFF_RBUF_CHK_CTRL) 0 \<and> length frame > ETH_HEADER_LEN
      then let sum = csum_add e (drop ETH_HEADER_LEN frame);
               sum = (sum AND 0xffff) + drop_bit 16 sum
           in (sum AND 0xffff) + drop_bit 16 sum
      else 0)"

text \<open>The words of a status block the device sets: the status and, 8 bytes further, the checksum.\<close>

definition rx_status_block :: "'m genet_env \<Rightarrow> 'm genet_dev \<Rightarrow> u8 list \<Rightarrow> u32 \<Rightarrow> (nat \<Rightarrow> u8) \<Rightarrow> nat \<Rightarrow> u8" where
  "rx_status_block e s frame length_status b =
     (if bit (gregs s OFF_RBUF_CTRL) 0
      then blit (blit b 8 (le32 (rx_checksum e s frame))) 0 (le32 length_status) else b)"

text \<open>The status a descriptor gets for the bytes \<open>frame\<close> put into its buffer, which starts with \<open>first\<close>.\<close>

definition rx_desc_status :: "u32 \<Rightarrow> u8 list \<Rightarrow> u8 \<Rightarrow> bool \<Rightarrow> nat \<Rightarrow> u32" where
  "rx_desc_status v frame first eop buflength =
     FIELD_DP32 (FIELD_DP32 (FIELD_DP32 (FIELD_DP32 v STATUS_EOP (of_bool eop)) STATUS_BUFLENGTH (of_nat buflength))
       STATUS_BROADCAST (of_bool (is_packet_broadcast frame))) STATUS_MULTICAST (of_bool (is_packet_multicast first))"

text \<open>
  One round of the loop: the bytes from \<open>len\<close> on go into the buffer of descriptor \<open>write_index\<close>.  The result
  is the number of bytes done and the next descriptor, none when the descriptor has an error.
\<close>

definition rdma_step :: "'m genet_env \<Rightarrow> nat \<Rightarrow> u8 list \<Rightarrow> u64 \<Rightarrow> nat \<Rightarrow> 'm genet_dev \<Rightarrow> nat \<times> u64 option \<times> 'm genet_dev" where
  "rdma_step e q buf write_index len s =
     (let status_reg = rdma_desc (unat write_index) DESC_LENGTH_STATUS;
          ring_buf_size = gregs s (rdma_ring q RING_BUF_SIZE);
          l = min (length buf - len) (unat ring_buf_size);
          frame = take l (drop len buf);
          b = blit (rx_buffer s) (rx_hdr_size s) frame;
          len = len + l;
          buflength = l + rx_hdr_size s + (if FIELD_EX32 (gregs s BCM2838_GENET_UMAC_CMD) UMAC_CMD_CRC_FWD \<noteq> 0 then 4 else 0);
          status = rx_desc_status (gregs s status_reg) frame (b (rx_hdr_size s)) (len \<ge> length buf) buflength;
          b = rx_status_block e s frame status b;
          n = min buflength (unat (ring_buf_size AND 0xffff));
          addr = reg64 s (rdma_desc (unat write_index) DESC_ADDRESS_LO);
          ok = gas_write_ok e (guest_mem s) addr n;
          status = (if ok then status else FIELD_DP32 status STATUS_RXERR 1);
          s = upd_reg status_reg (\<lambda>_. status) (s\<lparr>rx_buffer := b, guest_mem := gas_write e (guest_mem s) addr (slice_bytes b 0 n)\<rparr>)
      in if FIELD_EX32 status STATUS_RXERR \<noteq> 0 then (len, None, s)
         else let start_index = reg64 s (rdma_ring q RING_START_ADDR) div 3;
                  end_index = reg64 s (rdma_ring q RING_END_ADDR) div 3;
                  write_index = (if write_index + 1 > end_index then start_index else write_index + 1)
              in (len, Some write_index,
                  upd_reg (rdma_ring q RRING_WRITE_PTR_HI) (\<lambda>_. ucast (drop_bit 32 (write_index * 3)))
                   (upd_reg (rdma_ring q RRING_WRITE_PTR) (\<lambda>_. ucast (write_index * 3))
                     (upd_reg (rdma_ring q RRING_PROD_INDEX)
                       (\<lambda>v. FIELD_DP32 v PROD_INDEX_INDEX (FIELD_EX32 v PROD_INDEX_INDEX + 1)) s))))"

text \<open>The loop; it may not end, and then the result is \<open>None\<close>.\<close>

partial_function (option) rdma_loop :: "'m genet_env \<Rightarrow> nat \<Rightarrow> u8 list \<Rightarrow> u64 \<Rightarrow> nat \<Rightarrow> 'm genet_dev \<Rightarrow> (nat \<times> 'm genet_dev) option" where
  "rdma_loop e q buf write_index len s =
     (if len \<ge> length buf then Some (len, s)
      else if unat write_index \<ge> BCM2838_GENET_DMA_DESC_CNT then Some (len, s\<lparr>out_of_bounds := True\<rparr>)
      else case rdma_step e q buf write_index len s of
        (len, None, s) \<Rightarrow> Some (len, s)
      | (len, Some write_index, s) \<Rightarrow> rdma_loop e q buf write_index len s)"

definition rx_interrupts :: "nat \<Rightarrow> 'm genet_dev \<Rightarrow> 'm genet_dev" where
  "rx_interrupts q s =
     (let s = upd_reg (OFF_INTRL1 + INTRL_STAT)
                (\<lambda>v. FIELD_DP32 v INTRL_1_RX_INTRS (FIELD_EX32 v INTRL_1_RX_INTRS OR push_bit q 1)) s
      in if q = BCM2838_GENET_DMA_RING_DEFAULT
         then upd_reg (OFF_INTRL0 + INTRL_STAT) (\<lambda>v. FIELD_DP32 v INTRL_0_RXDMA_MBDONE 1) s else s)"

definition bcm2838_genet_rdma :: "'m genet_env \<Rightarrow> 'm genet_dev \<Rightarrow> nat \<Rightarrow> u8 list \<Rightarrow> (int \<times> 'm genet_dev) option" where
  "bcm2838_genet_rdma e s q buf =
     (if \<not> bcm2838_genet_rdma_ring_active s q then Some (-1, s)
      else let write_index = reg64 s (rdma_ring q RRING_WRITE_PTR) div 3
           in if unat write_index \<ge> BCM2838_GENET_DMA_DESC_CNT then Some (-1, s\<lparr>out_of_bounds := True\<rparr>)
              else map_option (\<lambda>(len, s). (int len, rx_interrupts q s))
                     (rdma_loop e q buf write_index 0
                       (upd_reg (rdma_desc (unat write_index) DESC_LENGTH_STATUS) (\<lambda>v. FIELD_DP32 v STATUS_SOP 1) s)))"

definition bcm2838_genet_default_rx_ring :: "'m genet_dev \<Rightarrow> nat" where
  "bcm2838_genet_default_rx_ring s =
     (if gregs s (rdma_ring 0 RING_START_ADDR) \<noteq> 0 \<or> gregs s (rdma_ring 0 RING_END_ADDR) \<noteq> 0 then 0
      else BCM2838_GENET_DMA_RING_CNT - 1)"

definition bcm2838_genet_rdma_free_descs :: "'m genet_dev \<Rightarrow> nat \<Rightarrow> u32" where
  "bcm2838_genet_rdma_free_descs s q =
     (let start_index = reg64 s (rdma_ring q RING_START_ADDR) div 3;
          end_index = reg64 s (rdma_ring q RING_END_ADDR) div 3;
          ring_len = ucast (end_index - start_index + 1);
          used = (FIELD_EX32 (gregs s (rdma_ring q RRING_PROD_INDEX)) PROD_INDEX_INDEX -
                  FIELD_EX32 (gregs s (rdma_ring q RRING_CONS_INDEX)) CONS_INDEX_INDEX) AND field_mask PROD_INDEX_INDEX
      in if end_index < start_index then 0 else if used < ring_len then ring_len - used else 0)"

definition bcm2838_genet_can_receive :: "'m genet_dev \<Rightarrow> bool" where
  "bcm2838_genet_can_receive s \<longleftrightarrow>
     FIELD_EX32 (gregs s (OFF_RDMA + OFF_DMA_CTRL)) CTRL_EN \<noteq> 0 \<and>
     bcm2838_genet_rdma_free_descs s (bcm2838_genet_default_rx_ring s) > 0"

text \<open>The filter is a stub that matches nothing, so every frame goes to the default ring.\<close>

definition bcm2838_genet_receive :: "'m genet_env \<Rightarrow> 'm genet_dev \<Rightarrow> u8 list \<Rightarrow> (int \<times> 'm genet_dev) option" where
  "bcm2838_genet_receive e s buf =
     (let q = bcm2838_genet_default_rx_ring s; en = FIELD_EX32 (gregs s (OFF_RDMA + OFF_DMA_CTRL)) CTRL_EN \<noteq> 0
      in if en \<and> bcm2838_genet_rdma_ring_active s q \<and> bcm2838_genet_rdma_free_descs s q = 0 then Some (0, s)
         else map_option (\<lambda>(r, s). (r, bcm2838_genet_set_irq_prio (bcm2838_genet_set_irq_default s)))
                (if en \<and> length buf \<le> MAX_PACKET_SIZE then bcm2838_genet_rdma e s q buf else Some (-1, s)))"

section \<open>Reset\<close>

definition phy_reset_regs :: "(nat \<times> u16) list" where
  "phy_reset_regs = [(BCM2838_GENET_PHY_BMCR, 0x1140), (PHY_BMSR, 0x7949), (2, 0x600D), (3, 0x84A2), (4, 0x01E1), (9, 0x0200), (15, 0x3000)]"

definition bcm2838_genet_phy_reset :: "'m genet_dev \<Rightarrow> 'm genet_dev" where
  "bcm2838_genet_phy_reset s =
     bcm2838_genet_phy_update_link
       (s\<lparr>genet_phy_regs := fold (\<lambda>(r, v) p. p(r := v)) phy_reset_regs (\<lambda>_. 0),
          phy_shd_regs := (\<lambda>_. 0)(3 := 0x0200, 5 := 0x001F, 10 := 0x0001),
          phy_aux_ctl_shd_regs := (\<lambda>_. 0)(BCM2838_GENET_PHY_AUX_CTL_MISC := 0x1E)\<rparr>)"

definition bcm2838_genet_reset :: "'m genet_dev \<Rightarrow> 'm genet_dev" where
  "bcm2838_genet_reset s =
     bcm2838_genet_phy_reset (bcm2838_genet_set_qemu_mac
       (upd_reg OFF_SYS_REV_CTRL (\<lambda>v. FIELD_DP32 (FIELD_DP32 v SYS_REV_CTRL_MAJOR_REV 6) SYS_REV_CTRL_MINOR_REV 0)
         (s\<lparr>gregs := \<lambda>_. 0\<rparr>)))"

section \<open>Register accesses\<close>

definition bcm2838_genet_read :: "'m genet_dev \<Rightarrow> nat \<Rightarrow> u32" where
  "bcm2838_genet_read s offset = (if offset + 4 \<le> REGS_SIZE then gregs s offset else 0xFFFFFFFF)"

definition byte_of :: "u32 \<Rightarrow> nat \<Rightarrow> u8" where
  "byte_of v k = ucast (FIELD_EX32 v (k, 8))"

definition set_mac :: "'m genet_env \<Rightarrow> (nat \<times> u8) list \<Rightarrow> 'm genet_dev \<Rightarrow> 'm genet_dev" where
  "set_mac e bs s = s\<lparr>nic_macaddr := macaddr_default_if_unset e (fold (\<lambda>(i, v) a. a(i := v)) bs (nic_macaddr s))\<rparr>"

text \<open>What a write does before the value is stored: the value to store and the state.\<close>

definition write_effect :: "'m genet_env \<Rightarrow> 'm genet_dev \<Rightarrow> nat \<Rightarrow> u32 \<Rightarrow> u32 \<times> 'm genet_dev" where
  "write_effect e s offset value =
     (if offset = OFF_INTRL0 + INTRL_SET then (value, upd_reg (OFF_INTRL0 + INTRL_STAT) (\<lambda>v. v OR value) s)
      else if offset = OFF_INTRL0 + INTRL_CLEAR then (value, upd_reg (OFF_INTRL0 + INTRL_STAT) (\<lambda>v. v AND NOT value) s)
      else if offset = OFF_INTRL0 + INTRL_MASK_SET then (value, upd_reg (OFF_INTRL0 + INTRL_MASK_STATUS) (\<lambda>v. v OR value) s)
      else if offset = OFF_INTRL0 + INTRL_MASK_CLEAR then (value, upd_reg (OFF_INTRL0 + INTRL_MASK_STATUS) (\<lambda>v. v AND NOT value) s)
      else if offset = OFF_INTRL1 + INTRL_SET then (value, upd_reg (OFF_INTRL1 + INTRL_STAT) (\<lambda>v. v OR value) s)
      else if offset = OFF_INTRL1 + INTRL_CLEAR then (value, upd_reg (OFF_INTRL1 + INTRL_STAT) (\<lambda>v. v AND NOT value) s)
      else if offset = OFF_INTRL1 + INTRL_MASK_SET then (value, upd_reg (OFF_INTRL1 + INTRL_MASK_STATUS) (\<lambda>v. v OR value) s)
      else if offset = OFF_INTRL1 + INTRL_MASK_CLEAR then (value, upd_reg (OFF_INTRL1 + INTRL_MASK_STATUS) (\<lambda>v. v AND NOT value) s)
      else if offset = BCM2838_GENET_UMAC_CMD
      then (if FIELD_EX32 value UMAC_CMD_SW_RESET = 1 then (FIELD_DP32 value UMAC_CMD_SW_RESET 0, bcm2838_genet_reset s)
            else (value, s))
      else if offset = BCM2838_GENET_UMAC_MAC0
      then (value, set_mac e [(0, byte_of value 24), (1, byte_of value 16), (2, byte_of value 8), (3, byte_of value 0)] s)
      else if offset = BCM2838_GENET_UMAC_MAC1 then (value, set_mac e [(4, byte_of value 8), (5, byte_of value 0)] s)
      else if offset = BCM2838_GENET_UMAC_MDIO_CMD
      then (case bcm2838_genet_mdio_cmd s value of
              (value, s) \<Rightarrow> (value, upd_reg (OFF_INTRL0 + INTRL_STAT) (\<lambda>v. FIELD_DP32 v INTRL_0_MDIO_DONE 1) s))
      else if OFF_TDMA \<le> offset \<and> offset < OFF_TDMA + DMA_BLOCK_SIZE then (value, bcm2838_genet_tdma e s offset value)
      else if offset = OFF_RDMA + OFF_DMA_CTRL then (value, dma_ctrl_status OFF_RDMA value s)
      else (value, s))"

text \<open>The writes that let held frames in: enabling the receive engine and releasing a descriptor.\<close>

definition write_flushes :: "nat \<Rightarrow> u32 \<Rightarrow> bool" where
  "write_flushes offset value \<longleftrightarrow>
     offset = OFF_RDMA + OFF_DMA_CTRL \<and> FIELD_EX32 value CTRL_EN \<noteq> 0 \<or>
     OFF_RDMA + OFF_DMA_RINGS \<le> offset \<and> offset < OFF_RDMA + OFF_DMA_RINGS + RINGS_SIZE \<and>
     (offset - (OFF_RDMA + OFF_DMA_RINGS)) mod RING_SIZE = RRING_CONS_INDEX"

definition bcm2838_genet_write :: "'m genet_env \<Rightarrow> 'm genet_dev \<Rightarrow> nat \<Rightarrow> u32 \<Rightarrow> 'm genet_dev" where
  "bcm2838_genet_write e s offset value =
     (if offset + 4 \<le> REGS_SIZE
      then case write_effect e s offset value of
        (value', s) \<Rightarrow>
          let s = bcm2838_genet_set_irq_prio (bcm2838_genet_set_irq_default (upd_reg offset (\<lambda>_. value') s))
          in if write_flushes offset value \<and> bcm2838_genet_can_receive s then s\<lparr>net_out := net_out s @ [Flush_queued]\<rparr> else s
      else s)"

definition bcm2838_genet_set_link :: "bool \<Rightarrow> 'm genet_dev \<Rightarrow> 'm genet_dev" where
  "bcm2838_genet_set_link down s = bcm2838_genet_phy_update_link (s\<lparr>nic_link_down := down\<rparr>)"

definition bcm2838_genet_realize :: "'m genet_env \<Rightarrow> 'm genet_dev \<Rightarrow> 'm genet_dev" where
  "bcm2838_genet_realize e s = bcm2838_genet_set_qemu_mac (s\<lparr>nic_macaddr := macaddr_default_if_unset e (nic_macaddr s)\<rparr>)"

end
