(* ===== verification/Genet_Regs.thy ===== *)
theory Genet_Regs
  imports Genet_Dev
begin

text \<open>
  Which registers of the GENET device a write changes: the register written and, besides, interrupt, MDIO and
  DMA status and what the transmit engine moves.  \<open>write_gregs\<close> says that every other register keeps its value.
\<close>

named_theorems genet_offs \<open>the offsets and fields of the register block as numbers\<close>

lemmas genet_off_defs [genet_offs] = OFF_SYS_REV_CTRL_def OFF_INTRL0_def OFF_INTRL1_def OFF_RBUF_def OFF_TBUF_def OFF_UMAC_def OFF_RDMA_def OFF_TDMA_def
  INTRL_STAT_def INTRL_SET_def INTRL_CLEAR_def INTRL_MASK_STATUS_def INTRL_MASK_SET_def INTRL_MASK_CLEAR_def
  OFF_RBUF_CTRL_def OFF_RBUF_CHK_CTRL_def OFF_TBUF_CTRL_def BCM2838_GENET_UMAC_CMD_def BCM2838_GENET_UMAC_MAC0_def BCM2838_GENET_UMAC_MAC1_def
  BCM2838_GENET_UMAC_MDIO_CMD_def DESC_SIZE_def RING_SIZE_def OFF_DMA_RINGS_def RINGS_SIZE_def OFF_DMA_RING_CFG_def OFF_DMA_CTRL_def OFF_DMA_STATUS_def
  DMA_BLOCK_SIZE_def DESC_LENGTH_STATUS_def DESC_ADDRESS_LO_def DESC_ADDRESS_HI_def RRING_WRITE_PTR_def RRING_WRITE_PTR_HI_def RRING_PROD_INDEX_def
  RRING_CONS_INDEX_def TRING_READ_PTR_def TRING_READ_PTR_HI_def TRING_CONS_INDEX_def TRING_PROD_INDEX_def RING_BUF_SIZE_def RING_START_ADDR_def
  RING_START_ADDR_HI_def RING_END_ADDR_def RING_END_ADDR_HI_def rdma_desc_def tdma_desc_def rdma_ring_def tdma_ring_def
  BCM2838_GENET_DMA_DESC_CNT_def BCM2838_GENET_DMA_RING_CNT_def BCM2838_GENET_DMA_RING_DEFAULT_def REGS_SIZE_def

section \<open>Simple updates\<close>

lemma gregs_upd_reg [simp]: "gregs (upd_reg a f s) = (gregs s)(a := f (gregs s a))"
  by (simp add: upd_reg_def)

lemma upd_reg_fields [simp]:
  "genet_phy_regs (upd_reg a f s) = genet_phy_regs s" "nic_macaddr (upd_reg a f s) = nic_macaddr s" "tx_buffer (upd_reg a f s) = tx_buffer s"
  "rx_buffer (upd_reg a f s) = rx_buffer s" "nic_link_down (upd_reg a f s) = nic_link_down s" "guest_mem (upd_reg a f s) = guest_mem s"
  "net_out (upd_reg a f s) = net_out s" "out_of_bounds (upd_reg a f s) = out_of_bounds s"
  by (simp_all add: upd_reg_def)

lemma gregs_upd_phy [simp]: "gregs (upd_phy a f s) = gregs s"
  by (simp add: upd_phy_def)

lemma upd_phy_fields [simp]:
  "guest_mem (upd_phy a f s) = guest_mem s" "net_out (upd_phy a f s) = net_out s" "out_of_bounds (upd_phy a f s) = out_of_bounds s"
  "nic_link_down (upd_phy a f s) = nic_link_down s"
  by (simp_all add: upd_phy_def)

lemma irq_fields [simp]:
  "gregs (bcm2838_genet_set_irq_default s) = gregs s" "gregs (bcm2838_genet_set_irq_prio s) = gregs s"
  "guest_mem (bcm2838_genet_set_irq_default s) = guest_mem s" "guest_mem (bcm2838_genet_set_irq_prio s) = guest_mem s"
  "net_out (bcm2838_genet_set_irq_default s) = net_out s" "net_out (bcm2838_genet_set_irq_prio s) = net_out s"
  "out_of_bounds (bcm2838_genet_set_irq_default s) = out_of_bounds s" "out_of_bounds (bcm2838_genet_set_irq_prio s) = out_of_bounds s"
  by (simp_all add: bcm2838_genet_set_irq_default_def bcm2838_genet_set_irq_prio_def)

section \<open>Registers that a write changes besides its own\<close>

text \<open>Interrupt status and masks, DMA status, and what transmission changes: descriptor status, read pointer and consumer index.\<close>

definition tx_changed :: "nat \<Rightarrow> bool" where
  "tx_changed r \<longleftrightarrow> (\<exists>i<256. r = tdma_desc i DESC_LENGTH_STATUS) \<or>
     (\<exists>q<17. r = tdma_ring q TRING_READ_PTR \<or> r = tdma_ring q TRING_READ_PTR_HI \<or> r = tdma_ring q TRING_CONS_INDEX)"

definition volatile :: "nat \<Rightarrow> bool" where
  "volatile r \<longleftrightarrow> r \<in> {OFF_INTRL0 + INTRL_STAT, OFF_INTRL0 + INTRL_MASK_STATUS, OFF_INTRL1 + INTRL_STAT, OFF_INTRL1 + INTRL_MASK_STATUS,
     BCM2838_GENET_UMAC_MDIO_CMD, OFF_RDMA + OFF_DMA_STATUS, OFF_TDMA + OFF_DMA_STATUS} \<or> tx_changed r"

lemma update_link_gregs: "r \<noteq> OFF_INTRL0 + INTRL_STAT \<Longrightarrow> gregs (bcm2838_genet_phy_update_link s) r = gregs s r"
  by (simp add: bcm2838_genet_phy_update_link_def Let_def)

lemma phy_write_gregs: "r \<noteq> OFF_INTRL0 + INTRL_STAT \<Longrightarrow> gregs (phy_write s i v) r = gregs s r"
  by (auto simp: phy_write_def bcm2838_genet_phy_aux_ctl_write_def bcm2838_genet_phy_shadow_write_def bcm2838_genet_phy_exp_shadow_write_def
      exp_sel_def Let_def update_link_gregs)

lemma mdio_gregs: "r \<noteq> OFF_INTRL0 + INTRL_STAT \<Longrightarrow> gregs (snd (bcm2838_genet_mdio_cmd s v)) r = gregs s r"
  by (auto simp: bcm2838_genet_mdio_cmd_def Let_def phy_write_gregs)

lemma xmit_gregs [simp]: "gregs (bcm2838_genet_xmit_packet e s n) = gregs s"
  by (simp add: bcm2838_genet_xmit_packet_def Let_def)

lemma tx_desc_gregs: "gregs (snd (tx_desc e s i off)) = (gregs s)(tdma_desc i DESC_LENGTH_STATUS := FIELD_DP32 (gregs s (tdma_desc i DESC_LENGTH_STATUS)) STATUS_OWN 1)"
  by (simp add: tx_desc_def Let_def)

lemma tx_loop_gregs:
  "\<forall>i<256. r \<noteq> tdma_desc i DESC_LENGTH_STATUS \<Longrightarrow> gregs (snd (snd (tx_loop e q p c rp off n s))) r = gregs s r"
proof (induction e q p c rp off n s rule: tx_loop.induct)
  case (1 e q p c rp off n s)
  show ?case
  proof (cases "c = p \<or> unat (rp div 3) \<ge> BCM2838_GENET_DMA_DESC_CNT")
    case True
    then show ?thesis by (subst tx_loop.simps) (auto simp: Let_def)
  next
    case False
    obtain off' s' where d: "tx_desc e s (unat (rp div 3)) off = (off', s')" by fastforce
    have "gregs s' r = gregs s r"
      using tx_desc_gregs [of e s "unat (rp div 3)" off] False 1(2) by (auto simp: d BCM2838_GENET_DMA_DESC_CNT_def)
    with 1(1) [OF _ refl _ d [symmetric]] False 1(2) show ?thesis by (subst tx_loop.simps) (simp add: Let_def d)
  qed
qed

lemma tx_gregs:
  assumes "\<forall>i<256. r \<noteq> tdma_desc i DESC_LENGTH_STATUS" "r \<noteq> tdma_ring q TRING_READ_PTR" "r \<noteq> tdma_ring q TRING_READ_PTR_HI"
  shows "gregs (snd (bcm2838_genet_tx e s q p c)) r = gregs s r"
  using assms tx_loop_gregs [OF assms(1)] by (simp add: bcm2838_genet_tx_def split_beta)

text \<open>A register that a write at \<open>a\<close> in state \<open>s\<close> changes only when it is the one written.\<close>

definition unmoved :: "'m genet_dev \<Rightarrow> nat \<Rightarrow> nat \<Rightarrow> bool" where
  "unmoved s a r \<longleftrightarrow> r \<notin> {OFF_INTRL0 + INTRL_STAT, OFF_INTRL0 + INTRL_MASK_STATUS, OFF_INTRL1 + INTRL_STAT, OFF_INTRL1 + INTRL_MASK_STATUS,
     BCM2838_GENET_UMAC_MDIO_CMD, OFF_RDMA + OFF_DMA_STATUS, OFF_TDMA + OFF_DMA_STATUS} \<and>
     (\<forall>i<256. r \<noteq> tdma_desc i DESC_LENGTH_STATUS) \<and>
     (\<forall>q<17. a = tdma_ring q TRING_PROD_INDEX \<longrightarrow> bcm2838_genet_tdma_ring_active s q \<longrightarrow>
        r \<notin> {tdma_ring q TRING_READ_PTR, tdma_ring q TRING_READ_PTR_HI, tdma_ring q TRING_CONS_INDEX})"

lemma not_volatile_unmoved: "\<not> volatile r \<Longrightarrow> unmoved s a r"
  by (auto simp: volatile_def tx_changed_def unmoved_def)

lemma tdma_prod_gregs:
  assumes "\<forall>i<256. r \<noteq> tdma_desc i DESC_LENGTH_STATUS" "r \<notin> {tdma_ring q TRING_READ_PTR, tdma_ring q TRING_READ_PTR_HI, tdma_ring q TRING_CONS_INDEX}"
    "r \<noteq> OFF_INTRL0 + INTRL_STAT" "r \<noteq> OFF_INTRL1 + INTRL_STAT"
  shows "gregs (tdma_prod_index e s q v) r = gregs s r"
proof -
  have tx: "gregs (snd (bcm2838_genet_tx e s q v c)) r = gregs s r" for c
    by (rule tx_gregs) (use assms in auto)
  with assms show ?thesis unfolding tdma_prod_index_def Let_def split_beta by (cases "q = BCM2838_GENET_DMA_RING_DEFAULT") simp_all
qed

lemma tdma_gregs:
  assumes "unmoved s a r"
  shows "gregs (bcm2838_genet_tdma e s a v) r = gregs s r"
proof -
  let ?rings = "OFF_TDMA + OFF_DMA_RINGS"
  let ?q = "(a - ?rings) div RING_SIZE"
  have st: "r \<noteq> OFF_TDMA + OFF_DMA_STATUS" using assms by (simp add: unmoved_def)
  have "gregs (tdma_prod_index e s ?q v) r = gregs s r"
    if "?rings \<le> a" "a < ?rings + RINGS_SIZE" "bcm2838_genet_tdma_ring_active s ?q" "a - ?rings - ?q * RING_SIZE = TRING_PROD_INDEX"
  proof (rule tdma_prod_gregs)
    have q: "?q < 17" using that(2) by (simp add: genet_offs less_mult_imp_div_less)
    have "?q * RING_SIZE \<le> a - ?rings" by (rule div_times_less_eq_dividend)
    then have "a = tdma_ring ?q TRING_PROD_INDEX" using that(1,4) unfolding tdma_ring_def by linarith
    with q that(3) assms show "r \<notin> {tdma_ring ?q TRING_READ_PTR, tdma_ring ?q TRING_READ_PTR_HI, tdma_ring ?q TRING_CONS_INDEX}"
      unfolding unmoved_def by blast
  qed (use assms in \<open>auto simp: unmoved_def\<close>)
  with st show ?thesis unfolding bcm2838_genet_tdma_def Let_def dma_ctrl_status_def by (cases "a = OFF_TDMA + OFF_DMA_CTRL") auto
qed

text \<open>What a write does to the registers.\<close>

definition soft_reset :: "nat \<Rightarrow> u32 \<Rightarrow> bool" where
  "soft_reset a v \<longleftrightarrow> a = BCM2838_GENET_UMAC_CMD \<and> FIELD_EX32 v UMAC_CMD_SW_RESET = 1"

lemma write_effect_gregs:
  assumes "unmoved s a r" "\<not> soft_reset a v"
  shows "gregs (snd (write_effect e s a v)) r = gregs s r" "a \<noteq> BCM2838_GENET_UMAC_MDIO_CMD \<Longrightarrow> fst (write_effect e s a v) = v"
proof -
  have n: "r \<noteq> OFF_INTRL0 + INTRL_STAT" "r \<noteq> OFF_INTRL0 + INTRL_MASK_STATUS" "r \<noteq> OFF_INTRL1 + INTRL_STAT" "r \<noteq> OFF_INTRL1 + INTRL_MASK_STATUS"
    "r \<noteq> OFF_RDMA + OFF_DMA_STATUS"
    using assms(1) by (auto simp: unmoved_def)
  show "gregs (snd (write_effect e s a v)) r = gregs s r"
    using assms(2) n by (simp add: write_effect_def soft_reset_def set_mac_def dma_ctrl_status_def split_beta tdma_gregs [OF assms(1)] mdio_gregs)
  show "a \<noteq> BCM2838_GENET_UMAC_MDIO_CMD \<Longrightarrow> fst (write_effect e s a v) = v"
    using assms(2) by (simp add: write_effect_def soft_reset_def)
qed

lemma write_gregs:
  assumes "unmoved s a r" "\<not> soft_reset a v" "a + 4 \<le> REGS_SIZE"
  shows "gregs (bcm2838_genet_write e s a v) r = (if r = a then v else gregs s r)"
proof -
  have "a \<noteq> BCM2838_GENET_UMAC_MDIO_CMD \<or> r \<noteq> a" using assms(1) by (auto simp: unmoved_def)
  then show ?thesis
    using write_effect_gregs [OF assms(1,2), of e] assms(3)
    by (auto simp: bcm2838_genet_write_def split_beta Let_def)
qed

lemma tdma_ring_eq: "j < 64 \<Longrightarrow> k < 64 \<Longrightarrow> tdma_ring q j = tdma_ring p k \<longleftrightarrow> q = p \<and> j = k"
proof
  assume k: "j < 64" "k < 64" and "tdma_ring q j = tdma_ring p k"
  then have "64 * q + j = 64 * p + k" by (simp add: genet_offs mult.commute)
  moreover have "(64 * q + j) div 64 = q" "(64 * p + k) div 64 = p" using k by simp_all
  ultimately show "q = p \<and> j = k" by simp
qed simp

lemma tx_regs_unmoved:
  assumes "a = tdma_ring 16 TRING_PROD_INDEX \<longrightarrow> \<not> bit (gregs s (OFF_TDMA + OFF_DMA_CTRL)) 0" "k \<in> {0, 4, 8}"
  shows "unmoved s a (tdma_ring 16 k)"
proof -
  have "\<not> bcm2838_genet_tdma_ring_active s 16" if "\<not> bit (gregs s (OFF_TDMA + OFF_DMA_CTRL)) 0"
    using that FIELD_EX32_flag [of _ 0] by (simp add: bcm2838_genet_tdma_ring_active_def ring_active_def CTRL_EN_def)
  moreover have "tdma_ring 16 k \<noteq> tdma_ring q j" if "q \<noteq> 16" "j < 64" for q j
    using that assms(2) by (auto simp: tdma_ring_eq)
  moreover have "tdma_ring 16 k \<noteq> tdma_desc i DESC_LENGTH_STATUS" if "i < 256" for i
    using that by (simp add: genet_offs)
  ultimately show ?thesis using assms unfolding unmoved_def
    by (auto simp: genet_off_defs(30-42) tdma_ring_eq) (simp_all add: genet_offs)
qed

lemma volatile_iff: "volatile r \<longleftrightarrow> r \<in> {0x200, 0x20c, 0x240, 0x24c, 0xe14, 0x3048, 0x5048} \<or>
    0x4000 \<le> r \<and> r < 0x4c00 \<and> (r - 0x4000) mod 12 = 0 \<or> 0x4c00 \<le> r \<and> r < 0x5040 \<and> (r - 0x4c00) mod 64 \<in> {0, 4, 8}"
proof -
  have 1: "(\<exists>i<256. r = tdma_desc i DESC_LENGTH_STATUS) \<longleftrightarrow> 0x4000 \<le> r \<and> r < 0x4c00 \<and> (r - 0x4000) mod 12 = 0"
  proof
    assume "\<exists>i<256. r = tdma_desc i DESC_LENGTH_STATUS"
    then show "0x4000 \<le> r \<and> r < 0x4c00 \<and> (r - 0x4000) mod 12 = 0" by (auto simp: genet_offs)
  next
    assume r: "0x4000 \<le> r \<and> r < 0x4c00 \<and> (r - 0x4000) mod 12 = 0"
    then show "\<exists>i<256. r = tdma_desc i DESC_LENGTH_STATUS"
      by (intro exI [of _ "(r - 0x4000) div 12"]) (auto simp: genet_offs div_mult_mod_eq mult.commute minus_mod_eq_mult_div [symmetric])
  qed
  have 2: "(\<exists>q<17. r = tdma_ring q TRING_READ_PTR \<or> r = tdma_ring q TRING_READ_PTR_HI \<or> r = tdma_ring q TRING_CONS_INDEX) \<longleftrightarrow>
      0x4c00 \<le> r \<and> r < 0x5040 \<and> (r - 0x4c00) mod 64 \<in> {0, 4, 8}"
  proof
    assume "\<exists>q<17. r = tdma_ring q TRING_READ_PTR \<or> r = tdma_ring q TRING_READ_PTR_HI \<or> r = tdma_ring q TRING_CONS_INDEX"
    then show "0x4c00 \<le> r \<and> r < 0x5040 \<and> (r - 0x4c00) mod 64 \<in> {0, 4, 8}" by (auto simp: genet_offs mod_add_eq)
  next
    assume r: "0x4c00 \<le> r \<and> r < 0x5040 \<and> (r - 0x4c00) mod 64 \<in> {0, 4, 8}"
    define q k where "q = (r - 0x4c00) div 64" and "k = (r - 0x4c00) mod 64"
    have "r = 0x4c00 + (q * 64 + k)" using r unfolding q_def k_def by simp
    moreover have "q < 17" "k \<in> {0, 4, 8}" using r unfolding q_def k_def by auto
    ultimately show "\<exists>q<17. r = tdma_ring q TRING_READ_PTR \<or> r = tdma_ring q TRING_READ_PTR_HI \<or> r = tdma_ring q TRING_CONS_INDEX"
      by (intro exI [of _ q]) (auto simp: genet_offs)
  qed
  show ?thesis unfolding volatile_def tx_changed_def 1 2 by (simp add: genet_offs)
qed


end
