(* ===== verification/Genet_Bus.thy ===== *)
theory Genet_Bus
  imports Genet_Regs Uboot_Props
begin

text \<open>
  The GENET device as the hardware of the U-Boot driver: \<open>genet_bus\<close> routes the driver's accessors to the
  device's \<open>read\<close> and \<open>write\<close>, and the device satisfies the interface \<open>genet_regs\<close> the driver's lemmas are
  proved in, for every register the driver programs.
\<close>

section \<open>The device on the bus of the driver\<close>

definition dev_off :: "u64 \<Rightarrow> u64 \<Rightarrow> nat" where
  "dev_off m a = unat (a - m)"

text \<open>The region accepts aligned accesses inside the register block.\<close>

definition in_dev :: "u64 \<Rightarrow> u64 \<Rightarrow> bool" where
  "in_dev m a \<longleftrightarrow> dev_off m a < REGS_SIZE \<and> dev_off m a mod 4 = 0"

definition dev_peek :: "u64 \<Rightarrow> 'm genet_dev \<Rightarrow> u64 \<Rightarrow> u32" where
  "dev_peek m d a = (if in_dev m a then bcm2838_genet_read d (dev_off m a) else 0)"

definition dev_poke :: "'m genet_env \<Rightarrow> u64 \<Rightarrow> u32 \<Rightarrow> u64 \<Rightarrow> 'm genet_dev \<Rightarrow> 'm genet_dev" where
  "dev_poke g m v a d = (if in_dev m a then bcm2838_genet_write g d (dev_off m a) v else d)"

definition genet_bus :: "'m genet_env \<Rightarrow> u64 \<Rightarrow> 'm genet_dev uboot_env \<Rightarrow> 'm genet_dev uboot_env" where
  "genet_bus g m e = e\<lparr>io_readl := \<lambda>a h. (dev_peek m h a, h), io_writel := dev_poke g m,
     io_readl_relaxed := \<lambda>a h. (dev_peek m h a, h), io_writel_relaxed := dev_poke g m,
     io_clrbits_32 := \<lambda>a c h. dev_poke g m (dev_peek m h a AND NOT c) a h,
     io_setbits_32 := \<lambda>a c h. dev_poke g m (dev_peek m h a OR c) a h,
     io_clrsetbits_32 := \<lambda>a c d h. dev_poke g m (dev_peek m h a AND NOT c OR d) a h, io_udelay := \<lambda>_ h. h,
     io_flush_dcache_range := \<lambda>_ _ h. h, io_invalidate_dcache_range := \<lambda>_ _ h. h\<rparr>"

lemma dev_off_add [simp]: "dev_off m (m + o') = unat o'"
  by (simp add: dev_off_def)

lemma dev_off_eq: "dev_off m a = dev_off m b \<longleftrightarrow> a = b"
  by (simp add: dev_off_def word_unat_eq_iff [symmetric])

text \<open>Registers that keep what is written to them.\<close>

definition plain_regs :: "u64 \<Rightarrow> u64 set" where
  "plain_regs m = {a. in_dev m a \<and> \<not> volatile (dev_off m a)} \<union>
     {m + TDMA_READ_PTR, m + (TDMA_READ_PTR + 4), m + TDMA_CONS_INDEX}"

lemma dev_peek_gregs: "in_dev m a \<Longrightarrow> dev_peek m d a = gregs d (dev_off m a)"
  by (simp add: dev_peek_def in_dev_def bcm2838_genet_read_def REGS_SIZE_def) presburger

lemma resets_soft: "in_dev m a \<Longrightarrow> resets m a v = soft_reset (dev_off m a) v"
proof -
  have "a = m + UMAC_CMD \<longleftrightarrow> dev_off m a = BCM2838_GENET_UMAC_CMD"
    using dev_off_eq [of m a "m + UMAC_CMD"] by (auto simp: reg_vals genet_offs)
  moreover have "FIELD_EX32 v UMAC_CMD_SW_RESET = 1 \<longleftrightarrow> bit v 13"
  proof -
    have "FIELD_EX32 v (13, 1) = of_bool (bit v 13)"
      by (rule bit_word_eqI) (auto simp: FIELD_EX32_def bits_simps bit_simps)
    then show ?thesis by (simp add: UMAC_CMD_SW_RESET_def)
  qed
  ultimately show ?thesis by (auto simp: resets_def soft_reset_def)
qed

lemma genet_bus_regs: "genet_regs (genet_bus g m e) (dev_peek m) (plain_regs m) m"
proof
  fix a b :: u64 and h :: "'a genet_dev" and v :: u32
  assume b: "b \<in> plain_regs m" and nr: "\<not> resets m a v" and nd: "\<not> doorbell m (dev_peek m h) a b"
  have ib: "in_dev m b" using b by (auto simp: plain_regs_def in_dev_def reg_vals REGS_SIZE_def)
  show "dev_peek m (io_writel (genet_bus g m e) v a h) b = (if a = b then v else dev_peek m h b)"
  proof (cases "in_dev m a")
    case False
    then show ?thesis using ib by (auto simp: genet_bus_def dev_poke_def)
  next
    case True
    have room: "dev_off m a + 4 \<le> REGS_SIZE" using True by (simp add: in_dev_def REGS_SIZE_def) presburger
    have "unmoved h (dev_off m a) (dev_off m b)"
    proof (cases "b \<in> {m + TDMA_READ_PTR, m + (TDMA_READ_PTR + 4), m + TDMA_CONS_INDEX}")
      case True
      have "unmoved h (dev_off m a) (tdma_ring 16 k)" if "k \<in> {0, 4, 8}" for k
      proof (rule tx_regs_unmoved [OF impI that])
        assume "dev_off m a = tdma_ring 16 TRING_PROD_INDEX"
        then have "dev_off m a = dev_off m (m + TDMA_PROD_INDEX)" by (simp add: genet_offs reg_vals)
        then have "a = m + TDMA_PROD_INDEX" by (simp only: dev_off_eq)
        with nd True have "\<not> bit (dev_peek m h (m + (TDMA_REG_BASE + DMA_CTRL))) 0" by (auto simp: doorbell_def)
        then show "\<not> bit (gregs h (OFF_TDMA + OFF_DMA_CTRL)) 0"
          by (simp add: dev_peek_gregs in_dev_def reg_vals genet_offs)
      qed
      from this [of 0] this [of 4] this [of 8] True show ?thesis by (auto simp: genet_offs reg_vals)
    next
      case False
      then show ?thesis using b by (simp add: plain_regs_def not_volatile_unmoved)
    qed
    from write_gregs [OF this, of v g] True ib room nr show ?thesis
      by (auto simp: genet_bus_def dev_poke_def dev_peek_gregs resets_soft dev_off_eq)
  qed
qed (auto simp: genet_bus_def)

interpretation bus: genet_regs "genet_bus g m e" "dev_peek m" "plain_regs m" m for g m e
  by (rule genet_bus_regs)

lemma plain_reg: "unat o' < REGS_SIZE \<Longrightarrow> unat o' mod 4 = 0 \<Longrightarrow> \<not> volatile (unat o') \<Longrightarrow> m + o' \<in> plain_regs m"
  by (simp add: plain_regs_def in_dev_def)

lemma uboot_regs_plain: "rx_regs m \<union> ctl_regs m \<subseteq> plain_regs m"
proof -
  have "m + GENET_RX_OFF + of_nat (12 * i + k) \<in> plain_regs m" if "i < 256" "k \<in> {0, 4, 8}" for i k
  proof -
    have u: "unat (GENET_RX_OFF + of_nat (12 * i + k)) = 0x2000 + 12 * i + k"
      using that by (auto simp: unat_word_ariths unat_of_nat take_bit_nat_eq_self reg_vals simp del: of_nat_add of_nat_mult)
    have "0x2000 + 12 * i + k < 0x2c00" "(0x2000 + 12 * i + k) mod 4 = 0" using that by auto
    then have "m + (GENET_RX_OFF + of_nat (12 * i + k)) \<in> plain_regs m"
      by (intro plain_reg) (simp_all only: u volatile_iff REGS_SIZE_def, simp_all)
    then show ?thesis by (simp only: add.assoc)
  qed
  then have "rx_desc_regs m \<subseteq> plain_regs m" unfolding rx_desc_regs_def by blast
  moreover have "m + o' \<in> plain_regs m" if "o' \<in> {RDMA_PROD_INDEX, RDMA_CONS_INDEX, UMAC_CMD, UMAC_MAC0, UMAC_MAC1, RDMA_REG_BASE + DMA_CTRL,
      RDMA_REG_BASE + DMA_RING_CFG, RDMA_RING_REG_BASE + DMA_START_ADDR, RDMA_RING_REG_BASE + DMA_END_ADDR, RDMA_RING_REG_BASE + DMA_RING_BUF_SIZE,
      RDMA_WRITE_PTR, TDMA_REG_BASE + DMA_CTRL, TDMA_REG_BASE + DMA_RING_CFG, TDMA_RING_REG_BASE + DMA_START_ADDR, TDMA_RING_REG_BASE + DMA_END_ADDR,
      TDMA_PROD_INDEX}" for o'
    by (rule plain_reg) (use that in \<open>auto simp: reg_vals REGS_SIZE_def volatile_iff\<close>)
  moreover have "m + TDMA_READ_PTR \<in> plain_regs m" by (simp add: plain_regs_def)
  ultimately show ?thesis unfolding rx_regs_def ctl_regs_def add.assoc by auto
qed

end
