(* ===== verification/Genet_Tx.thy ===== *)
theory Genet_Tx
  imports Genet_Bus
begin

text \<open>
  The transmit engine of the GENET device: one descriptor with a whole frame, the loop over the ring, and the
  four register writes that post a frame.
\<close>

section \<open>Byte arrays\<close>

lemma length_slice [simp]: "length (slice_bytes b off n) = n"
  by (simp add: slice_bytes_def)

lemma slice_blit: "slice_bytes (blit b off bs) off (length bs) = bs"
  by (rule nth_equalityI) (simp_all add: slice_bytes_def blit_def)

lemma slice_blit_mid:
  assumes "off + length ys \<le> length xs" "slice_bytes b 0 (length xs) = xs"
  shows "slice_bytes (blit b off ys) 0 (length xs) = take off xs @ ys @ drop (off + length ys) xs"
proof (rule nth_equalityI)
  fix i assume "i < length (slice_bytes (blit b off ys) 0 (length xs))"
  then have i: "i < length xs" by simp
  have b: "b i = xs ! i" using assms(2) i by (metis (no_types, lifting) add_0 length_map map_nth nth_map nth_upt slice_bytes_def length_upt diff_zero)
  show "slice_bytes (blit b off ys) 0 (length xs) ! i = (take off xs @ ys @ drop (off + length ys) xs) ! i"
    using i assms(1) b by (auto simp: slice_bytes_def blit_def nth_append min_def)
qed (use assms in simp)

lemma slice_part: "slice_bytes b 0 (length xs) = xs \<Longrightarrow> off + n \<le> length xs \<Longrightarrow> slice_bytes b off n = take n (drop off xs)"
proof -
  assume a: "slice_bytes b 0 (length xs) = xs" "off + n \<le> length xs"
  have "take n (drop off (slice_bytes b 0 (length xs))) = slice_bytes b off n"
    using a(2) by (simp add: slice_bytes_def drop_map take_map drop_upt take_upt)
  then show ?thesis by (simp add: a(1))
qed

section \<open>Sending one frame\<close>

text \<open>The frame as it leaves the device: checksums filled in, and a length field instead of the type replaced.\<close>

definition genet_wire :: "'m genet_env \<Rightarrow> u8 list \<Rightarrow> u8 list" where
  "genet_wire g f =
     (let b = csum_calculate g f; n = length f
      in if be16 (drop 12 b) < MAX_PAYLOAD_SIZE then take 12 b @ [of_nat (n div 256), of_nat n] @ drop 14 b else b)"

lemma xmit_out:
  assumes buf: "slice_bytes (tx_buffer s) 0 (length f) = f" and n: "14 \<le> length f" and tsb: "\<not> bit (gregs s OFF_TBUF_CTRL) 0"
    and cs: "length (csum_calculate g f) = length f"
  shows "net_out (bcm2838_genet_xmit_packet g s (length f)) = net_out s @ [Send_packet (genet_wire g f)]"
proof -
  define b where "b = blit (tx_buffer s) 0 (csum_calculate g f)"
  have b: "slice_bytes b 0 (length f) = csum_calculate g f"
    using slice_blit [of "tx_buffer s" 0 "csum_calculate g f"] by (simp add: b_def cs)
  have t: "slice_bytes b 12 2 = take 2 (drop 12 (csum_calculate g f))"
    using slice_part [of b "csum_calculate g f" 12 2] b n cs by simp
  have be: "be16 (take 2 xs) = be16 xs" if "2 \<le> length xs" for xs using that by (simp add: be16_def)
  have tb: "be16 (slice_bytes b 12 2) = be16 (drop 12 (csum_calculate g f))"
    unfolding t by (rule be) (use n cs in simp)
  have p: "slice_bytes (blit b 12 [x, y]) 0 (length f) = take 12 (csum_calculate g f) @ [x, y] @ drop 14 (csum_calculate g f)" for x y
    using slice_blit_mid [of 12 "[x, y]" "csum_calculate g f" b] b n cs by simp
  show ?thesis
    using tsb by (simp add: bcm2838_genet_xmit_packet_def xmit_start_def buf b_def [symmetric] Let_def tb b p genet_wire_def)
qed

lemma xmit_keeps [simp]:
  "guest_mem (bcm2838_genet_xmit_packet g s n) = guest_mem s" "out_of_bounds (bcm2838_genet_xmit_packet g s n) = out_of_bounds s"
  by (simp_all add: bcm2838_genet_xmit_packet_def Let_def)

text \<open>A descriptor that holds a whole frame.\<close>

lemma tx_desc_frame:
  assumes st: "gregs s (tdma_desc i DESC_LENGTH_STATUS) = v" "FIELD_EX32 v STATUS_SOP \<noteq> 0" "FIELD_EX32 v STATUS_EOP \<noteq> 0"
    and f: "f = gas_read g (guest_mem s) (reg64 s (tdma_desc i DESC_ADDRESS_LO)) (unat (FIELD_EX32 v STATUS_BUFLENGTH))"
    and len: "length f = unat (FIELD_EX32 v STATUS_BUFLENGTH)" "14 \<le> length f" "length f \<le> GENET_MAX_FRAME_SIZE"
    and tsb: "\<not> bit (gregs s OFF_TBUF_CTRL) 0" and cs: "length (csum_calculate g f) = length f"
  shows "\<exists>s'. tx_desc g s i off = (0, s') \<and> net_out s' = net_out s @ [Send_packet (genet_wire g f)] \<and>
    guest_mem s' = guest_mem s \<and> out_of_bounds s' = out_of_bounds s \<and>
    gregs s' = (gregs s)(tdma_desc i DESC_LENGTH_STATUS := FIELD_DP32 v STATUS_OWN 1)"
proof -
  let ?s1 = "s\<lparr>tx_buffer := blit (tx_buffer s) 0 f\<rparr>"
  have "net_out (bcm2838_genet_xmit_packet g ?s1 (length f)) = net_out s @ [Send_packet (genet_wire g f)]"
    using xmit_out [of ?s1 f g] slice_blit [of "tx_buffer s" 0 f] len(2) tsb cs by simp
  then show ?thesis
    using st len by (simp add: tx_desc_def Let_def f [symmetric])
qed

lemma join_halves_add: "push_bit 32 (ucast (ucast (drop_bit 32 x) :: u32)) + ucast (ucast x :: u32) = (x :: u64)"
proof -
  have "push_bit 32 (ucast (ucast (drop_bit 32 x) :: u32)) + ucast (ucast x :: u32) =
      push_bit 32 (ucast (ucast (drop_bit 32 x) :: u32)) OR (ucast (ucast x :: u32) :: u64)"
    by (rule disjunctive_add) (auto simp: bit_simps)
  then show ?thesis by (simp only: join_halves)
qed

lemma reg64_upd: "a \<noteq> r \<Longrightarrow> a + 4 \<noteq> r \<Longrightarrow> gregs s' = (gregs s)(r := x) \<Longrightarrow> reg64 s' a = reg64 s a"
  by (simp add: reg64_def)

lemma desc_ring_apart: "i < 256 \<Longrightarrow> tdma_ring q k \<noteq> tdma_desc i DESC_LENGTH_STATUS" "i < 256 \<Longrightarrow> tdma_ring q k + 4 \<noteq> tdma_desc i DESC_LENGTH_STATUS"
  by (simp_all add: genet_offs)

lemma next_read_ptr_step:
  assumes "reg64 s (tdma_ring q RING_START_ADDR) = 0" "reg64 s (tdma_ring q RING_END_ADDR) = 767" "i < 256"
  shows "next_read_ptr s q (of_nat (3 * i)) = of_nat (3 * (Suc i mod 256))"
proof (cases "i = 255")
  case True
  then show ?thesis using assms by (simp add: next_read_ptr_def)
next
  case False
  then have "(of_nat (3 * i) :: u64) \<noteq> of_nat 765"
    using assms(3) unfolding word_of_nat_eq_iff by (simp add: take_bit_nat_eq_self)
  with False assms show ?thesis by (simp add: next_read_ptr_def)
qed

lemma tx_one:
  fixes p :: u32
  assumes rp: "i < 256"
    and d: "tx_desc g s i 0 = (0, s')"
  shows "tx_loop g q (ucast (p + 1)) (ucast p) (of_nat (3 * i)) 0 0 s = (1, next_read_ptr s' q (of_nat (3 * i)), s')"
proof -
  have u: "(ucast (p + 1 :: u32) :: u16) = ucast p + 1"
  proof -
    have m: "x mod 4294967296 mod 65536 = x mod 65536" for x :: nat by (rule mod_mod_cancel) simp
    have a: "(x + 1) mod 65536 = (x mod 65536 + 1) mod 65536" for x :: nat by (rule mod_add_left_eq [symmetric])
    have c: "unat (ucast w :: u16) = unat w mod 65536" for w :: u32 by (simp add: unsigned_ucast_eq take_bit_eq_mod)
    have "unat (p + 1) = (unat p + 1) mod 4294967296" using unat_word_ariths(1) [of p 1] by simp
    then have "unat (ucast (p + 1 :: u32) :: u16) = (unat p + 1) mod 65536" by (simp only: c m)
    also have "\<dots> = unat (ucast p + 1 :: u16)" using unat_word_ariths(1) [of "ucast p :: u16" 1] by (simp add: c a [of "unat p"] mod_Suc_eq)
    finally show ?thesis by (simp only: word_unat_eq_iff)
  qed
  have i: "unat ((of_nat (3 * i) :: u64) div 3) = i"
    using rp by (simp add: unat_div unat_of_nat take_bit_nat_eq_self del: of_nat_mult)
  have "(ucast p :: u16) \<noteq> ucast p + 1" by simp
  then show ?thesis
    unfolding u apply (subst tx_loop.simps) using rp
    by (simp add: i d BCM2838_GENET_DMA_DESC_CNT_def Let_def del: of_nat_mult) (simp add: tx_loop.simps)
qed

definition tx_status_ok :: "u32 \<Rightarrow> nat \<Rightarrow> bool" where
  "tx_status_ok v n \<longleftrightarrow> FIELD_EX32 v STATUS_SOP \<noteq> 0 \<and> FIELD_EX32 v STATUS_EOP \<noteq> 0 \<and> unat (FIELD_EX32 v STATUS_BUFLENGTH) = n \<and>
     14 \<le> n \<and> n \<le> GENET_MAX_FRAME_SIZE"

lemma doorbell_sends:
  assumes rp: "reg64 s (tdma_ring 16 TRING_READ_PTR) = of_nat (3 * i)" "i < 256"
    and ring: "reg64 s (tdma_ring 16 RING_START_ADDR) = 0" "reg64 s (tdma_ring 16 RING_END_ADDR) = 767"
    and st: "tx_status_ok (gregs s (tdma_desc i DESC_LENGTH_STATUS)) n"
    and f: "f = gas_read g (guest_mem s) (reg64 s (tdma_desc i DESC_ADDRESS_LO)) n" "length f = n" "length (csum_calculate g f) = n"
    and tsb: "\<not> bit (gregs s OFF_TBUF_CTRL) 0"
    and c: "gregs s (tdma_ring 16 TRING_CONS_INDEX) = p" "unat p < 0xffff"
  shows "\<exists>s'. tdma_prod_index g s 16 (p + 1) = s' \<and> net_out s' = net_out s @ [Send_packet (genet_wire g f)] \<and>
    guest_mem s' = guest_mem s \<and> out_of_bounds s' = out_of_bounds s \<and>
    gregs s' (tdma_ring 16 TRING_CONS_INDEX) = p + 1 \<and> reg64 s' (tdma_ring 16 TRING_READ_PTR) = of_nat (3 * (Suc i mod 256))"
proof -
  let ?v = "gregs s (tdma_desc i DESC_LENGTH_STATUS)" and ?rp = "of_nat (3 * (Suc i mod 256)) :: u64"
  obtain s1 where d: "tx_desc g s i 0 = (0, s1)" and out: "net_out s1 = net_out s @ [Send_packet (genet_wire g f)]"
    "guest_mem s1 = guest_mem s" "out_of_bounds s1 = out_of_bounds s"
    and regs: "gregs s1 = (gregs s)(tdma_desc i DESC_LENGTH_STATUS := FIELD_DP32 ?v STATUS_OWN 1)"
    using tx_desc_frame [where off = 0, OF refl, of s i f g] st f tsb unfolding tx_status_ok_def by auto
  have "next_read_ptr s1 16 (of_nat (3 * i)) = ?rp"
    by (rule next_read_ptr_step) (use ring rp(2) in \<open>simp_all add: reg64_upd [OF _ _ regs] desc_ring_apart\<close>)
  then have loop: "tx_loop g 16 (ucast (p + 1)) (ucast p) (of_nat (3 * i)) 0 0 s = (1, ?rp, s1)"
    using tx_one [OF rp(2) d] by simp
  have f16: "FIELD_EX32 x CONS_INDEX_INDEX = take_bit 16 x" "FIELD_EX32 x PROD_INDEX_INDEX = take_bit 16 x" for x
    by (simp_all add: FIELD_EX32_def extract32_def CONS_INDEX_INDEX_def PROD_INDEX_INDEX_def)
  have p1: "unat (p + 1) = Suc (unat p)" using c(2) unat_u32_add [of p 1] by simp
  have small: "take_bit 16 p = p" "take_bit 16 (p + 1) = p + 1"
    using c(2) p1 by (simp_all add: word_unat_eq_iff unsigned_take_bit_eq take_bit_nat_eq_self)
  have ne: "FIELD_EX32 p CONS_INDEX_INDEX \<noteq> FIELD_EX32 (p + 1) PROD_INDEX_INDEX"
    by (simp add: f16 small)
  have cons: "FIELD_DP32 p CONS_INDEX_INDEX (p + 1) = p + 1"
  proof (rule bit_word_eqI)
    fix n
    have "\<not> bit p n" "\<not> bit (p + 1) n" if "16 \<le> n"
      using small that by (metis bit_take_bit_iff not_less)+
    then show "bit (FIELD_DP32 p CONS_INDEX_INDEX (p + 1)) n = bit (p + 1) n"
      by (cases "n < 16") (auto simp: FIELD_DP32_def CONS_INDEX_INDEX_def bits_simps dest: bit_imp_le_length)
  qed
  have rp': "reg64 s2 (tdma_ring 16 TRING_READ_PTR) = ?rp"
    if "gregs s2 (tdma_ring 16 TRING_READ_PTR) = ucast ?rp" "gregs s2 (tdma_ring 16 TRING_READ_PTR_HI) = ucast (drop_bit 32 ?rp)" for s2 :: "'a genet_dev"
  proof -
    have "tdma_ring 16 TRING_READ_PTR + 4 = tdma_ring 16 TRING_READ_PTR_HI" by (simp add: genet_offs)
    then show ?thesis using that by (simp add: reg64_def join_halves_add del: of_nat_mult)
  qed
  define s2 where "s2 = upd_reg (tdma_ring 16 TRING_READ_PTR_HI) (\<lambda>_. ucast (drop_bit 32 ?rp)) (upd_reg (tdma_ring 16 TRING_READ_PTR) (\<lambda>_. ucast ?rp) s1)"
  define s3 where "s3 = upd_reg (OFF_INTRL0 + INTRL_STAT) (\<lambda>v. FIELD_DP32 v INTRL_0_TXDMA_MBDONE 1)
    (upd_reg (tdma_ring 16 TRING_CONS_INDEX) (\<lambda>v. FIELD_DP32 v CONS_INDEX_INDEX (p + 1)) s2)"
  have run: "tdma_prod_index g s 16 (p + 1) = s3"
    using ne loop rp(1) c(1)
    by (simp add: tdma_prod_index_def bcm2838_genet_tx_def s3_def s2_def Let_def BCM2838_GENET_DMA_RING_DEFAULT_def BCM2838_GENET_DMA_RING_CNT_def del: of_nat_mult)
  have "gregs s3 (tdma_ring 16 TRING_READ_PTR) = ucast ?rp" "gregs s3 (tdma_ring 16 TRING_READ_PTR_HI) = ucast (drop_bit 32 ?rp)"
    by (simp_all add: s3_def s2_def genet_offs del: of_nat_mult)
  moreover have "gregs s1 (tdma_ring 16 TRING_CONS_INDEX) = p" using c(1) rp(2) by (simp add: regs desc_ring_apart)
  then have "gregs s3 (tdma_ring 16 TRING_CONS_INDEX) = p + 1"
    using cons by (simp add: s3_def s2_def) (simp add: genet_offs)
  moreover have "net_out s3 = net_out s1" "guest_mem s3 = guest_mem s1" "out_of_bounds s3 = out_of_bounds s1"
    by (simp_all add: s3_def s2_def)
  ultimately show ?thesis using rp' out run by simp
qed

section \<open>The writes of one transmission\<close>

lemma desc_area_write:
  assumes "0x4000 \<le> a" "a < 0x4c00"
  shows "bcm2838_genet_write g d a v = bcm2838_genet_set_irq_prio (bcm2838_genet_set_irq_default (upd_reg a (\<lambda>_. v) d))"
  using assms by (simp add: bcm2838_genet_write_def write_effect_def bcm2838_genet_tdma_def write_flushes_def genet_offs)

lemma tx_desc_write:
  assumes "i < 256" "w \<in> {0, 4, 8}"
  shows "gregs (bcm2838_genet_write g d (tdma_desc i w) v) = (gregs d)(tdma_desc i w := v)"
    "net_out (bcm2838_genet_write g d (tdma_desc i w) v) = net_out d"
    "guest_mem (bcm2838_genet_write g d (tdma_desc i w) v) = guest_mem d"
    "out_of_bounds (bcm2838_genet_write g d (tdma_desc i w) v) = out_of_bounds d"
proof -
  have "0x4000 \<le> tdma_desc i w" "tdma_desc i w < 0x4c00" using assms by (auto simp: genet_offs)
  note w = desc_area_write [OF this]
  show
    "gregs (bcm2838_genet_write g d (tdma_desc i w) v) = (gregs d)(tdma_desc i w := v)"
    "net_out (bcm2838_genet_write g d (tdma_desc i w) v) = net_out d"
    "guest_mem (bcm2838_genet_write g d (tdma_desc i w) v) = guest_mem d"
    "out_of_bounds (bcm2838_genet_write g d (tdma_desc i w) v) = out_of_bounds d"
    by (simp_all add: w)
qed

lemma doorbell_write:
  assumes "bcm2838_genet_tdma_ring_active d 16"
  shows "bcm2838_genet_write g d (tdma_ring 16 TRING_PROD_INDEX) v =
    bcm2838_genet_set_irq_prio (bcm2838_genet_set_irq_default (upd_reg (tdma_ring 16 TRING_PROD_INDEX) (\<lambda>_. v) (tdma_prod_index g d 16 v)))"
  using assms by (simp add: bcm2838_genet_write_def write_effect_def bcm2838_genet_tdma_def write_flushes_def genet_offs)

text \<open>The device has sent everything it was given and will look at descriptor \<open>i\<close> next.\<close>

definition tx_sync :: "'m genet_dev \<Rightarrow> nat \<Rightarrow> bool" where
  "tx_sync d i \<longleftrightarrow> i < 256 \<and> reg64 d (tdma_ring 16 TRING_READ_PTR) = of_nat (3 * i) \<and>
     reg64 d (tdma_ring 16 RING_START_ADDR) = 0 \<and> reg64 d (tdma_ring 16 RING_END_ADDR) = 767 \<and>
     bcm2838_genet_tdma_ring_active d 16 \<and>
     gregs d (tdma_ring 16 TRING_CONS_INDEX) = gregs d (tdma_ring 16 TRING_PROD_INDEX) \<and> \<not> bit (gregs d OFF_TBUF_CTRL) 0"

lemma tx_sync_cong:
  assumes "tx_sync d i" "j < 256" "reg64 d' (tdma_ring 16 TRING_READ_PTR) = of_nat (3 * j)"
    "gregs d' (tdma_ring 16 TRING_CONS_INDEX) = gregs d' (tdma_ring 16 TRING_PROD_INDEX)"
    "\<And>r. r \<in> {tdma_ring 16 RING_START_ADDR, tdma_ring 16 RING_START_ADDR_HI, tdma_ring 16 RING_END_ADDR, tdma_ring 16 RING_END_ADDR_HI,
       OFF_TDMA + OFF_DMA_CTRL, OFF_TDMA + OFF_DMA_RING_CFG, OFF_TBUF_CTRL} \<Longrightarrow> gregs d' r = gregs d r"
  shows "tx_sync d' j"
proof -
  have "tdma_ring 16 RING_START_ADDR + 4 = tdma_ring 16 RING_START_ADDR_HI" "tdma_ring 16 RING_END_ADDR + 4 = tdma_ring 16 RING_END_ADDR_HI"
    by (simp_all add: genet_offs)
  with assms show ?thesis by (simp add: tx_sync_def reg64_def bcm2838_genet_tdma_ring_active_def)
qed

text \<open>A posted frame: the three words of the descriptor and the producer index.\<close>

definition tx_post :: "'m genet_env \<Rightarrow> 'm genet_dev \<Rightarrow> nat \<Rightarrow> u64 \<Rightarrow> u32 \<Rightarrow> 'm genet_dev" where
  "tx_post g d i packet st =
     bcm2838_genet_write g (bcm2838_genet_write g (bcm2838_genet_write g (bcm2838_genet_write g d
       (tdma_desc i DESC_ADDRESS_LO) (ucast packet)) (tdma_desc i DESC_ADDRESS_HI) (ucast (drop_bit 32 packet)))
       (tdma_desc i DESC_LENGTH_STATUS) st) (tdma_ring 16 TRING_PROD_INDEX) (gregs d (tdma_ring 16 TRING_PROD_INDEX) + 1)"

lemma tx_post_sends:
  assumes sync: "tx_sync d i" and st: "tx_status_ok st n" and small: "unat (gregs d (tdma_ring 16 TRING_PROD_INDEX)) < 0xffff"
    and f: "f = gas_read g (guest_mem d) packet n" "length f = n" "length (csum_calculate g f) = n"
  shows "net_out (tx_post g d i packet st) = net_out d @ [Send_packet (genet_wire g f)]"
    "guest_mem (tx_post g d i packet st) = guest_mem d" "out_of_bounds (tx_post g d i packet st) = out_of_bounds d"
    "tx_sync (tx_post g d i packet st) (Suc i mod 256)"
    "gregs (tx_post g d i packet st) (tdma_ring 16 TRING_PROD_INDEX) = gregs d (tdma_ring 16 TRING_PROD_INDEX) + 1"
    "gregs (tx_post g d i packet st) (tdma_ring 16 TRING_CONS_INDEX) = gregs d (tdma_ring 16 TRING_PROD_INDEX) + 1"
proof -
  let ?p = "gregs d (tdma_ring 16 TRING_PROD_INDEX)"
  define d3 where "d3 = bcm2838_genet_write g (bcm2838_genet_write g (bcm2838_genet_write g d
       (tdma_desc i DESC_ADDRESS_LO) (ucast packet)) (tdma_desc i DESC_ADDRESS_HI) (ucast (drop_bit 32 packet)))
       (tdma_desc i DESC_LENGTH_STATUS) st"
  have i: "i < 256" using sync by (simp add: tx_sync_def)
  have w: "DESC_ADDRESS_LO \<in> {0, 4, 8}" "DESC_ADDRESS_HI \<in> {0, 4, 8}" "DESC_LENGTH_STATUS \<in> {0, 4, 8}" by (simp_all add: genet_offs)
  note wr = tx_desc_write [OF i w(1)] tx_desc_write [OF i w(2)] tx_desc_write [OF i w(3)]
  have g3: "gregs d3 = (gregs d)(tdma_desc i DESC_ADDRESS_LO := ucast packet, tdma_desc i DESC_ADDRESS_HI := ucast (drop_bit 32 packet),
      tdma_desc i DESC_LENGTH_STATUS := st)" and o3: "net_out d3 = net_out d" "guest_mem d3 = guest_mem d" "out_of_bounds d3 = out_of_bounds d"
    by (simp_all add: d3_def wr)
  have same: "gregs d3 r = gregs d r" if "r < 0x4000 \<or> 0x4c00 \<le> r" for r
    using that i by (auto simp: g3 genet_offs)
  have ring: "0x4c00 \<le> tdma_ring 16 k" "0x4c00 \<le> tdma_ring 16 k + 4" for k by (simp_all add: genet_offs)
  have s64: "reg64 d3 (tdma_ring 16 k) = reg64 d (tdma_ring 16 k)" for k
    using ring [of k] by (simp add: reg64_def same)
  have addr: "reg64 d3 (tdma_desc i DESC_ADDRESS_LO) = packet"
    by (simp add: reg64_def g3 genet_offs join_halves_add)
  have act: "bcm2838_genet_tdma_ring_active d3 16"
    using sync by (simp add: tx_sync_def bcm2838_genet_tdma_ring_active_def same) (simp add: genet_offs same)
  have status: "gregs d3 (tdma_desc i DESC_LENGTH_STATUS) = st" by (simp add: g3)
  have tbuf: "gregs d3 OFF_TBUF_CTRL = gregs d OFF_TBUF_CTRL" by (rule same) (simp add: genet_offs)
  obtain d4 where d4: "tdma_prod_index g d3 16 (?p + 1) = d4" "net_out d4 = net_out d3 @ [Send_packet (genet_wire g f)]"
    "guest_mem d4 = guest_mem d3" "out_of_bounds d4 = out_of_bounds d3"
    "gregs d4 (tdma_ring 16 TRING_CONS_INDEX) = ?p + 1" "reg64 d4 (tdma_ring 16 TRING_READ_PTR) = of_nat (3 * (Suc i mod 256))"
    using doorbell_sends [of d3 i n f g ?p] sync st small f o3
    by (auto simp: tx_sync_def s64 addr status tbuf same ring)
  have post: "tx_post g d i packet st = bcm2838_genet_set_irq_prio (bcm2838_genet_set_irq_default
      (upd_reg (tdma_ring 16 TRING_PROD_INDEX) (\<lambda>_. ?p + 1) d4))"
    unfolding tx_post_def d3_def [symmetric] doorbell_write [OF act] d4(1) ..
  show "net_out (tx_post g d i packet st) = net_out d @ [Send_packet (genet_wire g f)]"
    "guest_mem (tx_post g d i packet st) = guest_mem d" "out_of_bounds (tx_post g d i packet st) = out_of_bounds d"
    "gregs (tx_post g d i packet st) (tdma_ring 16 TRING_PROD_INDEX) = ?p + 1"
    by (simp_all add: post d4 o3)
  have ne: "tdma_ring 16 TRING_CONS_INDEX \<noteq> tdma_ring 16 TRING_PROD_INDEX" "tdma_ring 16 TRING_READ_PTR \<noteq> tdma_ring 16 TRING_PROD_INDEX"
    "tdma_ring 16 TRING_READ_PTR + 4 \<noteq> tdma_ring 16 TRING_PROD_INDEX" by (simp_all add: genet_offs)
  then show "gregs (tx_post g d i packet st) (tdma_ring 16 TRING_CONS_INDEX) = ?p + 1"
    by (simp add: post d4)
  show "tx_sync (tx_post g d i packet st) (Suc i mod 256)"
  proof (rule tx_sync_cong [OF sync])
    show "reg64 (tx_post g d i packet st) (tdma_ring 16 TRING_READ_PTR) = of_nat (3 * (Suc i mod 256))"
      using d4(6) ne by (simp add: post reg64_def)
    show "gregs (tx_post g d i packet st) (tdma_ring 16 TRING_CONS_INDEX) = gregs (tx_post g d i packet st) (tdma_ring 16 TRING_PROD_INDEX)"
      using ne by (simp add: post d4)
  next
    fix r assume r: "r \<in> {tdma_ring 16 RING_START_ADDR, tdma_ring 16 RING_START_ADDR_HI, tdma_ring 16 RING_END_ADDR, tdma_ring 16 RING_END_ADDR_HI,
       OFF_TDMA + OFF_DMA_CTRL, OFF_TDMA + OFF_DMA_RING_CFG, OFF_TBUF_CTRL}"
    then have v: "\<not> volatile r" and ne: "r \<noteq> tdma_ring 16 TRING_PROD_INDEX" and far: "r < 0x4000 \<or> 0x4c00 \<le> r"
      by (auto simp: volatile_iff genet_offs)
    have "gregs (tx_post g d i packet st) r = gregs d3 r"
      unfolding tx_post_def d3_def [symmetric]
      using write_gregs [OF not_volatile_unmoved [OF v], of "tdma_ring 16 TRING_PROD_INDEX" "?p + 1" g d3] ne
      by (simp add: soft_reset_def) (simp add: genet_offs)
    then show "gregs (tx_post g d i packet st) r = gregs d r" by (simp add: same far)
  qed simp
qed

end
