(* ===== verification/Genet_Send.thy ===== *)
theory Genet_Send
  imports Genet_Tx
begin

text \<open>
  The U-Boot driver's \<open>send\<close> on the GENET device.
\<close>

section \<open>The driver on the device\<close>

lemma dev_off_tx_desc:
  assumes "i < 256" "k \<in> {0, 4, 8}"
  shows "dev_off m (m + GENET_TX_OFF + of_nat (12 * i) + k) = tdma_desc i (unat k)" "in_dev m (m + GENET_TX_OFF + of_nat (12 * i) + k)"
proof -
  have "unat (GENET_TX_OFF + (of_nat (12 * i) + k)) = 0x4000 + 12 * i + unat k"
    using assms by (auto simp: unat_word_ariths unat_of_nat take_bit_nat_eq_self reg_vals simp del: of_nat_mult)
  then show off: "dev_off m (m + GENET_TX_OFF + of_nat (12 * i) + k) = tdma_desc i (unat k)"
    by (simp add: add.assoc genet_offs mult.commute)
  show "in_dev m (m + GENET_TX_OFF + of_nat (12 * i) + k)"
    unfolding in_dev_def off using assms by (auto simp: genet_offs)
qed

lemma dev_off_reg:
  "unat TDMA_PROD_INDEX = tdma_ring 16 TRING_PROD_INDEX" "in_dev m (m + TDMA_PROD_INDEX)"
  "unat TDMA_CONS_INDEX = tdma_ring 16 TRING_CONS_INDEX" "in_dev m (m + TDMA_CONS_INDEX)"
  by (simp_all add: reg_vals genet_offs in_dev_def)

lemma bus_fields [simp]:
  "io_readl (genet_bus g m e) a h = (dev_peek m h a, h)" "io_writel (genet_bus g m e) v a h = dev_poke g m v a h"
  "io_flush_dcache_range (genet_bus g m e) x y h = h"
  by (simp_all add: genet_bus_def)

lemma bus_tx_rung:
  assumes "mac_reg s = m" "ring_inv s"
  shows "tx_rung (genet_bus g m e) packet len s = tx_post g (hw s) (unat (tx_index s)) packet (tx_len_stat len)"
proof -
  have i: "unat (tx_index s) < 256" using assms(2) by (simp add: ring_inv_def)
  have da: "desc_addr (tx_desc_base s) (tx_index s) = m + GENET_TX_OFF + of_nat (12 * unat (tx_index s))"
    using assms by (simp add: desc_addr_index ring_inv_def)
  note off = dev_off_tx_desc [OF i, of 0 m] dev_off_tx_desc [OF i, of 4 m] dev_off_tx_desc [OF i, of 8 m]
  show ?thesis
    using off unfolding tx_rung_def tx_prepared_def Let_def bus_fields fst_conv snd_conv da DMA_DESC_ADDRESS_LO_def DMA_DESC_ADDRESS_HI_def
      DMA_DESC_LENGTH_STATUS_def assms(1)
    by (simp add: dev_poke_def dev_peek_gregs dev_off_reg tx_post_def del: of_nat_mult) (simp add: genet_offs reg_vals)
qed

lemma bus_read_step [simp]: "read_step (genet_bus g m e) a h = h"
  by (simp add: read_step_def)

lemma bus_reads [simp]: "(read_step (genet_bus g m e) a ^^ j) h = h"
  by (induction j) simp_all

lemma bus_nth_read: "nth_read (genet_bus g m e) a h k = dev_peek m h a"
  by (simp add: nth_read_def)

lemma tx_len_stat_ok:
  assumes "14 \<le> unat len" "unat len \<le> GENET_MAX_FRAME_SIZE"
  shows "tx_status_ok (tx_len_stat len) (unat len)"
proof -
  have b: "bit (tx_len_stat len) 13" "bit (tx_len_stat len) 14"
    by (simp_all add: tx_len_stat_def bit_simps DMA_SOP_def DMA_EOP_def)
  have "take_bit 12 len = len"
    using assms(2) by (simp add: word_unat_eq_iff unsigned_take_bit_eq take_bit_nat_eq_self GENET_MAX_FRAME_SIZE_def)
  with b assms show ?thesis
    using tx_len_stat_fields(1) [of len] FIELD_EX32_flag [of "tx_len_stat len" 13] FIELD_EX32_flag [of "tx_len_stat len" 14]
    by (simp add: tx_status_ok_def FIELD_EX32_def STATUS_SOP_def STATUS_EOP_def STATUS_BUFLENGTH_def)
qed

text \<open>What a driver needs to be true to send: the device is in step with it, and the frames fit.\<close>

definition env_ok :: "'m genet_env \<Rightarrow> bool" where
  "env_ok g \<longleftrightarrow> (\<forall>mem a n. length (gas_read g mem a n) = n) \<and> (\<forall>f. length (csum_calculate g f) = length f)"

definition sendable :: "u64 \<times> u32 \<Rightarrow> bool" where
  "sendable f \<longleftrightarrow> ETH_HEADER_LEN \<le> unat (snd f) \<and> unat (snd f) \<le> GENET_MAX_FRAME_SIZE"

definition frame_at :: "'m genet_env \<Rightarrow> 'm \<Rightarrow> u64 \<times> u32 \<Rightarrow> u8 list" where
  "frame_at g mem f = gas_read g mem (fst f) (unat (snd f))"

definition tx_ready :: "u64 \<Rightarrow> 'm genet_dev genet \<Rightarrow> bool" where
  "tx_ready m s \<longleftrightarrow> mac_reg s = m \<and> ring_inv s \<and> tx_sync (hw s) (unat (tx_index s))"

lemma send_on_device:
  assumes ready: "tx_ready m s" and f: "sendable f" and g: "env_ok g" and p: "p = gregs (hw s) (tdma_ring 16 TRING_PROD_INDEX)" "unat p < 0xffff"
  shows "\<exists>s'. run_state (bcmgenet_gmac_eth_send (genet_bus g m e) (fst f) (snd f)) s = (0, s') \<and> tx_ready m s' \<and>
    net_out (hw s') = net_out (hw s) @ [Send_packet (genet_wire g (frame_at g (guest_mem (hw s)) f))] \<and>
    guest_mem (hw s') = guest_mem (hw s) \<and> out_of_bounds (hw s') = out_of_bounds (hw s) \<and>
    gregs (hw s') (tdma_ring 16 TRING_PROD_INDEX) = p + 1"
proof -
  let ?i = "unat (tx_index s)" and ?st = "tx_len_stat (snd f)"
  let ?d = "tx_post g (hw s) ?i (fst f) ?st"
  have mac: "mac_reg s = m" and inv: "ring_inv s" and sync: "tx_sync (hw s) ?i" using ready by (simp_all add: tx_ready_def)
  have st: "tx_status_ok ?st (unat (snd f))" using f by (intro tx_len_stat_ok) (simp_all add: sendable_def ETH_HEADER_LEN_def)
  have small: "unat (gregs (hw s) (tdma_ring 16 TRING_PROD_INDEX)) < 0xffff" using p by simp
  note sent = tx_post_sends [OF sync st small, where packet = "fst f" and g = g and f = "frame_at g (guest_mem (hw s)) f"]
  have sent: "net_out ?d = net_out (hw s) @ [Send_packet (genet_wire g (frame_at g (guest_mem (hw s)) f))]"
    "guest_mem ?d = guest_mem (hw s)" "out_of_bounds ?d = out_of_bounds (hw s)" "tx_sync ?d (Suc ?i mod 256)"
    "gregs ?d (tdma_ring 16 TRING_PROD_INDEX) = p + 1" "gregs ?d (tdma_ring 16 TRING_CONS_INDEX) = p + 1"
    using sent g by (simp_all add: frame_at_def env_ok_def p)
  obtain j r where run: "run_state (bcmgenet_gmac_eth_send (genet_bus g m e) (fst f) (snd f)) s =
       (r, s\<lparr>tx_index := next_index TX_DESCS (tx_index s), hw := ?d\<rparr>)"
    and r: "r = (if \<forall>k<100::nat. dev_peek m ?d (m + TDMA_CONS_INDEX) AND 0xffff < dev_peek m (hw s) (m + TDMA_PROD_INDEX) + 1
      then - ETIMEDOUT else 0)"
    by (rule send_run [where e = "genet_bus g m e" and s = s and packet = "fst f" and len = "snd f"])
      (simp add: bus_nth_read bus_tx_rung [OF mac inv] mac)
  have "dev_peek m ?d (m + TDMA_CONS_INDEX) = p + 1" "dev_peek m (hw s) (m + TDMA_PROD_INDEX) = p"
    by (simp_all add: dev_peek_gregs dev_off_reg sent p)
  moreover have "(p + 1) AND 0xffff = p + 1"
    using p(2) unat_u32_add [of p 1] by (simp add: and_ffff word_unat_eq_iff)
  ultimately have "r = 0" using r by (auto dest: spec [of _ 0])
  moreover have "tx_ready m (s\<lparr>tx_index := next_index TX_DESCS (tx_index s), hw := ?d\<rparr>)"
    using mac inv sent(4) unat_next_index [of "tx_index s"] by (simp add: tx_ready_def ring_inv_def)
  ultimately show ?thesis using run sent by simp
qed

lemma send_all_on_device:
  assumes "tx_ready m s" "list_all sendable fs" "env_ok g" "unat (gregs (hw s) (tdma_ring 16 TRING_PROD_INDEX)) + length fs \<le> 0xffff"
  shows "\<exists>s'. run_state (send_all (genet_bus g m e) fs) s = (replicate (length fs) 0, s') \<and> tx_ready m s' \<and>
    net_out (hw s') = net_out (hw s) @ map (\<lambda>f. Send_packet (genet_wire g (frame_at g (guest_mem (hw s)) f))) fs \<and>
    guest_mem (hw s') = guest_mem (hw s) \<and> out_of_bounds (hw s') = out_of_bounds (hw s)"
  using assms
proof (induction fs arbitrary: s)
  case Nil
  then show ?case by simp
next
  case (Cons f fs)
  let ?p = "gregs (hw s) (tdma_ring 16 TRING_PROD_INDEX)"
  have f: "sendable f" and fs: "list_all sendable fs" and lt: "unat ?p < 0xffff" using Cons.prems(2,4) by simp_all
  obtain s1 where s1: "run_state (bcmgenet_gmac_eth_send (genet_bus g m e) (fst f) (snd f)) s = (0, s1)" "tx_ready m s1"
    "net_out (hw s1) = net_out (hw s) @ [Send_packet (genet_wire g (frame_at g (guest_mem (hw s)) f))]"
    "guest_mem (hw s1) = guest_mem (hw s)" "out_of_bounds (hw s1) = out_of_bounds (hw s)"
    "gregs (hw s1) (tdma_ring 16 TRING_PROD_INDEX) = ?p + 1"
    using send_on_device [OF Cons.prems(1) f Cons.prems(3) refl lt, of e] by blast
  have "unat (?p + 1) = unat ?p + 1" using lt unat_u32_add [of ?p 1] by simp
  with Cons.prems(4) s1(6) have "unat (gregs (hw s1) (tdma_ring 16 TRING_PROD_INDEX)) + length fs \<le> 0xffff" by simp
  from Cons.IH [OF s1(2) fs Cons.prems(3) this] show ?case by (auto simp: s1)
qed

end
