(* ===== verification/Genet_Start.thy ===== *)
theory Genet_Start
  imports Genet_Send
begin

text \<open>
  What a reset of the device and \<open>bcmgenet_gmac_eth_start\<close> leave in the registers, and that the device is then in
  step with the driver for sending.
\<close>

section \<open>The registers a start leaves alone\<close>

text \<open>Upper halves of 64-bit pointers, the transmit consumer index, the bounds of receive ring 0, buffer control.\<close>

definition untouched :: "u64 set" where
  "untouched = {0x600, 0x300, 0x314, 0x3004, 0x3008, 0x3018, 0x3020, 0x5004, 0x5008, 0x5018, 0x5020, 0x2c14, 0x2c1c}"

context genet_regs
begin

lemma tx_ring_init_prod:
  assumes "mac_reg s = m" "m + TDMA_PROD_INDEX \<in> R" "m + TDMA_CONS_INDEX \<in> R"
  shows "peek (hw (snd (run_state (tx_ring_init e) s))) (m + TDMA_PROD_INDEX) = peek (hw s) (m + TDMA_CONS_INDEX)"
  using assms by (simp add: tx_ring_init_def case_prod_beta writel_peek readl_value keep resets_def doorbell_def reg_vals
      genet_shift_defs genet_val_defs Let_def add.assoc)

lemma setup_keeps:
  assumes "mac_reg s = m" "rx_regs m \<union> ctl_regs m \<subseteq> R" "o' \<in> untouched" "m + o' \<in> R"
  shows "setup_mem s (m + o') = peek (hw (snd (run_state (bcmgenet_umac_reset e)
      (s\<lparr>tx_desc_base := m + GENET_TX_OFF, rx_desc_base := m + GENET_RX_OFF\<rparr>)))) (m + o')"
proof -
  have mem: "m + RDMA_PROD_INDEX \<in> R" "m + TDMA_PROD_INDEX \<in> R" "m + (TDMA_REG_BASE + DMA_CTRL) \<in> R"
    using assms(2) unfolding rx_regs_def ctl_regs_def add.assoc by simp_all
  show "setup_mem s (m + o') = peek (hw (snd (run_state (bcmgenet_umac_reset e)
      (s\<lparr>tx_desc_base := m + GENET_TX_OFF, rx_desc_base := m + GENET_RX_OFF\<rparr>)))) (m + o')"
    using assms(3,4) mem assms(1) unfolding untouched_def insert_iff empty_iff
    by (elim disjE FalseE) (simp_all add: setup_simps DMA_EN_def bit_simps)
qed

lemma setup_prod:
  assumes "mac_reg s = m" "rx_regs m \<union> ctl_regs m \<subseteq> R" "m + TDMA_CONS_INDEX \<in> R"
  shows "setup_mem s (m + TDMA_PROD_INDEX) = peek (hw (snd (run_state (bcmgenet_umac_reset e)
      (s\<lparr>tx_desc_base := m + GENET_TX_OFF, rx_desc_base := m + GENET_RX_OFF\<rparr>)))) (m + TDMA_CONS_INDEX)"
proof -
  have mem: "m + RDMA_PROD_INDEX \<in> R" "m + TDMA_PROD_INDEX \<in> R" "m + (TDMA_REG_BASE + DMA_CTRL) \<in> R"
    using assms(2) unfolding rx_regs_def ctl_regs_def add.assoc by simp_all
  then show ?thesis
    using assms(1,3) by (simp add: start_setup_def case_prod_beta setup_fields ring_init_fields enable_dma_peek tx_ring_init_prod [unfolded reg_vals]
        rx_descs_other rx_ring_init_peek disable_dma_peek write_hwaddr_peek Let_def reg_vals add.assoc)
qed

lemma start_link_keeps:
  assumes mac: "mac_reg s = m" and cmd: "m + UMAC_CMD \<in> R" and b: "b \<in> R" "b \<noteq> m + UMAC_CMD" "b \<noteq> m + EXT_RGMII_OOB_CTRL"
    and phy: "\<And>p ps h b. b \<in> R \<Longrightarrow> peek (snd (snd (io_phy_startup e p ps h))) b = peek h b"
  shows "peek (hw (snd (run_state (start_link e) s))) b = peek (hw s) b"
proof -
  obtain pr ps h where st: "io_phy_startup e (phydev s) (phys s) (hw s) = (pr, ps, h)" by (metis prod_cases3)
  define s1 where "s1 = s\<lparr>phys := ps, hw := h\<rparr>"
  obtain r2 h2 where adj: "run_state (bcmgenet_adjust_link e) s1 = (r2, s1\<lparr>hw := h2\<rparr>)"
    using adjust_link_own [of e s1] by auto
  have s1: "phydev s1 = phydev s" "phys s1 = ps" "mac_reg s1 = m" "hw s1 = h"
    by (simp_all add: s1_def mac)
  have h: "peek h b = peek (hw s) b" using phy [OF b(1), of "phydev s" "phys s" "hw s"] by (simp add: st)
  let ?sp = "umac_speed e (phy_speed (ps (phydev s)))"
  have h2: "peek h2 x = (case ?sp of None \<Rightarrow> peek h x | Some sp \<Rightarrow> if x = m + UMAC_CMD then push_bit 2 sp else peek h x)"
    if "x \<in> R" "x \<noteq> m + EXT_RGMII_OOB_CTRL" for x
    using adjust_link_peek [of s1 x] that by (simp add: adj s1 split: option.split)
  have r2: "r2 = (if ?sp = None then - EINVAL else 0)"
    using adjust_link_result [of s1] by (simp add: adj s1)
  have "m + UMAC_CMD \<noteq> m + EXT_RGMII_OOB_CTRL" by (simp add: reg_vals)
  then have nobit: "\<not> bit (peek h2 (m + UMAC_CMD) OR (CMD_TX_EN OR CMD_RX_EN)) 13" if "r2 = 0"
    using that r2 h2 [OF cmd] by (auto simp: CMD_TX_EN_def CMD_RX_EN_def EINVAL_def split: if_splits dest: umac_speed_bits)
  have b2: "peek h2 b = peek (hw s) b" using h2 [OF b(1,3)] b(2) h by (simp split: option.split)
  have "hw (snd (run_state (start_link e) s)) =
      (if pr \<noteq> 0 then h else if r2 \<noteq> 0 then h2 else io_setbits_32 e (m + UMAC_CMD) (CMD_TX_EN OR CMD_RX_EN) h2)"
    using mac by (simp add: start_link_def st adj [unfolded s1_def])
  then show ?thesis using h b2 setbits_cmd [OF cmd b(1) nobit] b(2) by simp
qed

end

section \<open>The device after a reset\<close>

lemma reset_gregs:
  assumes "r \<notin> {OFF_SYS_REV_CTRL, OFF_INTRL0 + INTRL_STAT, BCM2838_GENET_UMAC_MAC0, BCM2838_GENET_UMAC_MAC1}"
  shows "gregs (bcm2838_genet_reset s) r = 0"
  using assms by (simp add: bcm2838_genet_reset_def bcm2838_genet_phy_reset_def update_link_gregs bcm2838_genet_set_qemu_mac_def Let_def)

lemma umac_cmd_reset_gregs:
  assumes "FIELD_EX32 v UMAC_CMD_SW_RESET = 1"
    "r \<notin> {OFF_SYS_REV_CTRL, OFF_INTRL0 + INTRL_STAT, BCM2838_GENET_UMAC_CMD, BCM2838_GENET_UMAC_MAC0, BCM2838_GENET_UMAC_MAC1}"
  shows "gregs (bcm2838_genet_write g s BCM2838_GENET_UMAC_CMD v) r = 0"
proof -
  have "write_effect g s BCM2838_GENET_UMAC_CMD v = (FIELD_DP32 v UMAC_CMD_SW_RESET 0, bcm2838_genet_reset s)"
    using assms(1) by (simp add: write_effect_def) (simp add: genet_offs)
  moreover have "\<not> write_flushes BCM2838_GENET_UMAC_CMD v" "BCM2838_GENET_UMAC_CMD + 4 \<le> REGS_SIZE"
    by (simp_all add: write_flushes_def genet_offs)
  ultimately show ?thesis using assms(2) by (simp add: bcm2838_genet_write_def reset_gregs)
qed

lemma poke_peek:
  "b \<in> plain_regs m \<Longrightarrow> \<not> resets m a v \<Longrightarrow> \<not> doorbell m (dev_peek m h) a b \<Longrightarrow>
     dev_peek m (dev_poke g m v a h) b = (if a = b then v else dev_peek m h b)"
  using genet_regs.writel_peek [OF genet_bus_regs, of b m a v h g] by simp

text \<open>What \<open>bcmgenet_umac_reset\<close> leaves in a register it does not itself write.\<close>

lemma bus_umac_reset:
  assumes m: "mac_reg s = m" and b: "b \<in> plain_regs m" "b \<notin> (\<lambda>x. m + x) ` {0, 0x808, 0x80c, 0x810, 0xd80, 0x814, 0x3b4}"
  shows "dev_peek m (hw (snd (run_state (bcmgenet_umac_reset (genet_bus g m e)) s))) b = (if b = m + RBUF_CTRL then 2 else 0)"
proof -
  define d where "d = dev_poke g m (CMD_SW_RESET OR CMD_LCL_LOOP_EN) (m + UMAC_CMD) (dev_poke g m 0 (m + UMAC_CMD)
     (dev_poke g m 0 (m + SYS_RBUF_FLUSH_CTRL) (dev_poke g m ((dev_peek m (hw s) (m + SYS_RBUF_FLUSH_CTRL) OR push_bit 1 1) AND NOT (push_bit 1 1))
        (m + SYS_RBUF_FLUSH_CTRL) (dev_poke g m (dev_peek m (hw s) (m + SYS_RBUF_FLUSH_CTRL) OR push_bit 1 1) (m + SYS_RBUF_FLUSH_CTRL) (hw s)))))"
  have z: "dev_peek m d c = 0" if "c \<in> plain_regs m" "c \<notin> (\<lambda>x. m + x) ` {0, 0x808, 0x80c, 0x810}" for c
  proof -
    have ic: "in_dev m c" using that(1) by (auto simp: plain_regs_def in_dev_def reg_vals REGS_SIZE_def)
    have m0: "dev_off m m = 0" by (simp add: dev_off_def)
    have off: "dev_off m c \<notin> {OFF_SYS_REV_CTRL, OFF_INTRL0 + INTRL_STAT, BCM2838_GENET_UMAC_CMD, BCM2838_GENET_UMAC_MAC0, BCM2838_GENET_UMAC_MAC1}"
      using that dev_off_eq [of m c "m + 0"] dev_off_eq [of m c "m + 0x808"] dev_off_eq [of m c "m + 0x80c"] dev_off_eq [of m c "m + 0x810"]
      by (auto simp: m0 plain_regs_def volatile_iff genet_offs reg_vals)
    have rs: "FIELD_EX32 (CMD_SW_RESET OR CMD_LCL_LOOP_EN) UMAC_CMD_SW_RESET = 1"
      by (simp add: FIELD_EX32_def extract32_def UMAC_CMD_SW_RESET_def CMD_SW_RESET_def CMD_LCL_LOOP_EN_def)
    have u: "in_dev m (m + UMAC_CMD)" "unat UMAC_CMD = BCM2838_GENET_UMAC_CMD" by (simp_all add: in_dev_def reg_vals genet_offs)
    show ?thesis by (simp add: d_def dev_poke_def u dev_peek_gregs [OF ic] umac_cmd_reset_gregs [OF rs off])
  qed
  have p: "m + RBUF_CTRL \<in> plain_regs m" by (rule plain_reg) (simp_all add: reg_vals volatile_iff genet_offs)
  define d' where "d' = dev_poke g m ENET_MAX_MTU_SIZE (m + UMAC_MAX_FRAME_LEN) (dev_poke g m 0 (m + UMAC_MIB_CTRL)
     (dev_poke g m (MIB_RESET_RX OR MIB_RESET_TX OR MIB_RESET_RUNT) (m + UMAC_MIB_CTRL) (dev_poke g m 0 (m + UMAC_CMD) d)))"
  have run: "hw (snd (run_state (bcmgenet_umac_reset (genet_bus g m e)) s)) =
      dev_poke g m 1 (m + RBUF_TBUF_SIZE_CTRL) (dev_poke g m (dev_peek m d' (m + RBUF_CTRL) OR RBUF_ALIGN_2B) (m + RBUF_CTRL) d')"
    using m by (simp add: bcmgenet_umac_reset_def d_def d'_def Let_def) (simp add: genet_bus_def)
  have d': "dev_peek m d' c = dev_peek m d c" if "c \<in> plain_regs m" "c \<notin> {m + 0x808, m + 0xd80, m + 0x814}" for c
    using that by (auto simp: d'_def poke_peek resets_def doorbell_def reg_vals)
  have "dev_peek m (hw (snd (run_state (bcmgenet_umac_reset (genet_bus g m e)) s))) b =
      (if b = m + RBUF_CTRL then dev_peek m d (m + RBUF_CTRL) OR RBUF_ALIGN_2B else dev_peek m d b)"
    using b p unfolding run by (auto simp: poke_peek resets_def doorbell_def d' reg_vals)
  then show ?thesis using z [of b] z [OF p] b by (auto simp: reg_vals RBUF_ALIGN_2B_def)
qed

section \<open>The device after a start\<close>

lemma untouched_plain: "o' \<in> untouched \<Longrightarrow> m + o' \<in> plain_regs m"
proof -
  assume o': "o' \<in> untouched"
  have "m + (TDMA_READ_PTR + 4) \<in> plain_regs m" "m + TDMA_CONS_INDEX \<in> plain_regs m" by (simp_all add: plain_regs_def)
  then have "m + 0x5004 \<in> plain_regs m" "m + 0x5008 \<in> plain_regs m" by (simp_all add: reg_vals)
  moreover have "m + o' \<in> plain_regs m" if "o' \<noteq> 0x5004" "o' \<noteq> 0x5008"
    by (rule plain_reg) (use o' that in \<open>auto simp: untouched_def volatile_iff REGS_SIZE_def\<close>)
  ultimately show ?thesis by (cases "o' = 0x5004"; cases "o' = 0x5008") simp_all
qed

text \<open>
  The PHY library outside the driver may use the MDIO registers only.
\<close>

definition phy_only_mdio :: "u64 \<Rightarrow> 'm genet_dev uboot_env \<Rightarrow> bool" where
  "phy_only_mdio m e \<longleftrightarrow> (\<forall>p ps h. \<forall>b\<in>plain_regs m. dev_peek m (snd (snd (io_phy_startup e p ps h))) b = dev_peek m h b)"

lemma start_untouched:
  assumes mac: "mac_reg s = m" and phy: "phy_only_mdio m e" and run: "run_state (bcmgenet_gmac_eth_start (genet_bus g m e)) s = (r, s')"
  shows "o' \<in> untouched \<Longrightarrow> dev_peek m (hw s') (m + o') = (if o' = RBUF_CTRL then 2 else 0)"
    "dev_peek m (hw s') (m + TDMA_PROD_INDEX) = 0"
    "configured m (dev_peek m (hw s')) s'"
    "r = 0 \<Longrightarrow> \<not> bit (dev_peek m (hw s') (m + UMAC_CMD)) 6"
    "i < 256 \<Longrightarrow> dev_peek m (hw s') (m + GENET_RX_OFF + of_nat (12 * i)) = 0x8008000"
    "mac_reg s' = m" "rxbuffer s' = rxbuffer s"
proof -
  let ?e = "genet_bus g m e" and ?s = "s\<lparr>tx_desc_base := m + GENET_TX_OFF, rx_desc_base := m + GENET_RX_OFF\<rparr>"
  define s0 where "s0 = snd (run_state (start_setup ?e) s)"
  have mac0: "mac_reg s0 = m" using start_setup_own [of ?e s] mac by (auto simp: s0_def)
  have link: "run_state (start_link ?e) s0 = (r, s')" using run by (simp add: start_split case_prod_beta s0_def)
  have phy': "dev_peek m (snd (snd (io_phy_startup ?e p ps h))) b = dev_peek m h b" if "b \<in> plain_regs m" for p ps h b
    using phy that by (simp add: phy_only_mdio_def genet_bus_def)
  have cmd: "m + UMAC_CMD \<in> plain_regs m" using uboot_regs_plain [of m] by (auto simp: ctl_regs_def)
  have oob: "m + TDMA_PROD_INDEX \<in> plain_regs m" using uboot_regs_plain [of m] by (auto simp: ctl_regs_def)
  have link_keeps: "dev_peek m (hw s') b = dev_peek m (hw s0) b"
    if "b \<in> plain_regs m" "b \<noteq> m + UMAC_CMD" "b \<noteq> m + EXT_RGMII_OOB_CTRL" for b
    using bus.start_link_keeps [OF mac0 cmd that phy'] link by simp
  have cons: "m + TDMA_CONS_INDEX \<in> plain_regs m" by (simp add: plain_regs_def)
  note reset = bus_umac_reset [of ?s m _ g e]
  show "dev_peek m (hw s') (m + o') = (if o' = RBUF_CTRL then 2 else 0)" if o': "o' \<in> untouched"
  proof -
    have "m + o' \<noteq> m + UMAC_CMD" "m + o' \<noteq> m + EXT_RGMII_OOB_CTRL" "m + o' \<notin> (\<lambda>x. m + x) ` {0, 0x808, 0x80c, 0x810, 0xd80, 0x814, 0x3b4}"
      using o' by (auto simp: untouched_def reg_vals)
    with link_keeps [OF untouched_plain [OF o']] bus.setup_keeps [OF mac uboot_regs_plain o' untouched_plain [OF o']]
      reset [OF _ untouched_plain [OF o']] mac show ?thesis by (simp add: s0_def)
  qed
  show "dev_peek m (hw s') (m + TDMA_PROD_INDEX) = 0"
  proof -
    have "m + TDMA_PROD_INDEX \<noteq> m + UMAC_CMD" "m + TDMA_PROD_INDEX \<noteq> m + EXT_RGMII_OOB_CTRL"
      "m + TDMA_CONS_INDEX \<notin> (\<lambda>x. m + x) ` {0, 0x808, 0x80c, 0x810, 0xd80, 0x814, 0x3b4}" "TDMA_CONS_INDEX \<noteq> RBUF_CTRL"
      by (auto simp: reg_vals)
    with link_keeps [OF oob] bus.setup_prod [OF mac uboot_regs_plain cons] reset [OF _ cons] mac
    show ?thesis by (simp add: s0_def untouched_def)
  qed
  show "dev_peek m (hw s') (m + GENET_RX_OFF + of_nat (12 * i)) = 0x8008000" if i: "i < 256"
  proof -
    have b: "m + GENET_RX_OFF + of_nat (12 * i) \<in> plain_regs m"
      using rx_desc_regs_mem(1) [OF i, of m] uboot_regs_plain [of m] by (auto simp: rx_regs_def)
    have "m + GENET_RX_OFF + of_nat (12 * i) \<noteq> m + UMAC_CMD" "m + GENET_RX_OFF + of_nat (12 * i) \<noteq> m + EXT_RGMII_OOB_CTRL"
      using rx_descs_apart [of UMAC_CMD i 0 m] rx_descs_apart [of EXT_RGMII_OOB_CTRL i 0 m] i by (simp_all add: reg_vals)
    with link_keeps [OF b] bus.setup_rx_desc [OF mac uboot_regs_plain i, of 0 g e] show ?thesis
      by (simp add: s0_def rx_desc_word_def)
  qed
  show "mac_reg s' = m" "rxbuffer s' = rxbuffer s"
    using link mac0 start_setup_own [of ?e s] start_link_own [of ?e s0] by (auto simp: s0_def)
  obtain pr ps h where st: "io_phy_startup ?e (phydev s0) (phys s0) (hw s0) = (pr, ps, h)" by (metis prod_cases3)
  have conf: "configured m (dev_peek m (hw s0)) s0" unfolding s0_def by (rule bus.setup_configured [OF mac uboot_regs_plain])
  have keeps: "dev_peek m h b = dev_peek m (hw s0) b" if "b \<in> plain_regs m" for b
    using phy' [OF that, of "phydev s0" "phys s0" "hw s0"] by (simp add: st)
  note regs = bus.start_link_regs [OF mac0 uboot_regs_plain conf keeps st refl link]
  show "configured m (dev_peek m (hw s')) s'" by (rule regs(2))
  show "\<not> bit (dev_peek m (hw s') (m + UMAC_CMD)) 6" if "r = 0"
  proof -
    have "umac_speed ?e (phy_speed (ps (phydev s0))) \<noteq> None" using regs(1) that by (auto simp: EINVAL_def split: if_splits)
    then obtain sp where sp: "umac_speed ?e (phy_speed (ps (phydev s0))) = Some sp" by blast
    then have "\<not> bit (push_bit 2 sp OR 3) 6"
      by (auto simp: umac_speed_def UMAC_SPEED_1000_def UMAC_SPEED_100_def UMAC_SPEED_10_def split: if_splits)
    then show ?thesis using regs(3) that sp by simp
  qed
qed

lemma start_tx_ready:
  assumes mac: "mac_reg s = m" and phy: "phy_only_mdio m e" and run: "run_state (bcmgenet_gmac_eth_start (genet_bus g m e)) s = (r, s')"
  shows "tx_ready m s'" "gregs (hw s') (tdma_ring 16 TRING_PROD_INDEX) = 0"
proof -
  note start = start_untouched [OF mac phy run]
  have g: "gregs (hw s') (unat o') = dev_peek m (hw s') (m + o')" if "unat o' < 0x10000" "unat o' mod 4 = 0" for o'
    using that by (simp add: dev_peek_gregs in_dev_def REGS_SIZE_def)
  have z: "gregs (hw s') (unat o') = 0" if "o' \<in> untouched" "o' \<noteq> RBUF_CTRL" for o'
    using start(1) [OF that(1)] that by (subst g) (auto simp: untouched_def)
  note z = z [of "0x600"] z [of "0x5004"] z [of "0x5008"] z [of "0x5018"] z [of "0x5020"]
  have prod: "gregs (hw s') 0x500c = 0" using start(2) g [of "0x500c"] by (simp add: reg_vals)
  then show "gregs (hw s') (tdma_ring 16 TRING_PROD_INDEX) = 0" by (simp add: genet_offs)
  have conf: "gregs (hw s') 0x5014 = 0" "gregs (hw s') 0x501c = 767" "gregs (hw s') 0x5000 = 0" "gregs (hw s') 0x5044 = 0x20001"
    "gregs (hw s') 0x5040 = 0x10000" "tx_index s' = 0"
    using start(2,3) g [of "0x5014"] g [of "0x501c"] g [of "0x5000"] g [of "0x5044"] g [of "0x5040"]
    by (simp_all add: configured_def tx_ring_set_def dma_on_def reg_vals DEFAULT_Q_def add.assoc)
  have "ring_inv s'" using start_ring_inv [of "genet_bus g m e" s] run by simp
  moreover have "mac_reg s' = m" by (rule start(6))
  moreover have "tx_sync (hw s') 0"
    using z prod conf by (simp add: tx_sync_def reg64_def bcm2838_genet_tdma_ring_active_def genet_offs untouched_def reg_vals ring_active_def
        FIELD_EX32_def extract32_def CTRL_EN_def RING_CFG_EN_def CTRL_RING_BUF_EN_def)
  ultimately show "tx_ready m s'" using conf(6) by (simp add: tx_ready_def)
qed

end
