(* ===== verification/Genet_Rx.thy ===== *)
theory Genet_Rx
  imports Genet_Start
begin

text \<open>
  The receive engine of the GENET device: the descriptor, the buffer, the indices and the pointer after one frame.
\<close>

section \<open>Receiving one frame\<close>

lemma slice_pad: "slice_bytes (blit b 2 f) 0 (length f + 2) = [b 0, b 1] @ f"
proof -
  have "[0..<length f + 2] = [0, 1] @ map (\<lambda>i. i + 2) [0..<length f]"
    using upt_add_eq_append [of 0 2 "length f"] upt_rec [of "Suc 0" 2]
    by (simp only: map_add_upt) (simp add: upt_rec [of 0 2] add.commute)
  moreover have "map (\<lambda>i. blit b 2 f (i + 2)) [0..<length f] = f"
    by (rule nth_equalityI) (simp_all add: blit_def)
  ultimately show ?thesis by (simp add: slice_bytes_def blit_def comp_def)
qed

lemma rx_desc_status_bits:
  "\<not> bit v 2 \<Longrightarrow> \<not> bit (rx_desc_status v f b eop n) 2"
  "n < 4096 \<Longrightarrow> extract32 (rx_desc_status v f b eop n) 16 12 = of_nat n"
proof -
  show "\<not> bit v 2 \<Longrightarrow> \<not> bit (rx_desc_status v f b eop n) 2"
    by (simp add: rx_desc_status_def FIELD_DP32_def bits_simps STATUS_EOP_def STATUS_BUFLENGTH_def STATUS_BROADCAST_def STATUS_MULTICAST_def)
  have "extract32 (rx_desc_status v f b eop n) 16 12 = take_bit 12 (of_nat n)"
    by (simp add: rx_desc_status_def FIELD_DP32_def STATUS_EOP_def STATUS_BUFLENGTH_def STATUS_BROADCAST_def STATUS_MULTICAST_def
        extract32_deposit32_other extract32_deposit32)
  then show "extract32 (rx_desc_status v f b eop n) 16 12 = of_nat n" if "n < 4096"
    using that by (simp add: take_bit_of_nat take_bit_nat_eq_self)
qed

text \<open>The receive side as the driver sets it up: ring 16 over all descriptors, 2048-byte buffers from \<open>buf\<close> on.\<close>

definition rx_setup :: "'m genet_dev \<Rightarrow> bool" where
  "rx_setup d \<longleftrightarrow> gregs d (rdma_ring 0 RING_START_ADDR) = 0 \<and> gregs d (rdma_ring 0 RING_END_ADDR) = 0 \<and>
     bit (gregs d (OFF_RDMA + OFF_DMA_CTRL)) 0 \<and> reg64 d (rdma_ring 16 RING_START_ADDR) = 0 \<and> reg64 d (rdma_ring 16 RING_END_ADDR) = 767 \<and>
     gregs d (rdma_ring 16 RING_BUF_SIZE) = 0x1000800 \<and> gregs d OFF_RBUF_CTRL = 2 \<and> \<not> bit (gregs d BCM2838_GENET_UMAC_CMD) 6"

text \<open>A received frame in descriptor \<open>i\<close>.\<close>

definition rx_filled :: "'m genet_env \<Rightarrow> 'm genet_dev \<Rightarrow> nat \<Rightarrow> u8 list \<Rightarrow> 'm genet_dev" where
  "rx_filled g s i f =
     upd_reg (rdma_ring 16 RRING_WRITE_PTR_HI) (\<lambda>_. 0)
      (upd_reg (rdma_ring 16 RRING_WRITE_PTR) (\<lambda>_. of_nat (3 * (Suc i mod 256)))
       (upd_reg (rdma_ring 16 RRING_PROD_INDEX) (\<lambda>v. FIELD_DP32 v PROD_INDEX_INDEX (FIELD_EX32 v PROD_INDEX_INDEX + 1))
        (upd_reg (rdma_desc i DESC_LENGTH_STATUS) (\<lambda>v. rx_desc_status v f (f ! 0) True (length f + 2))
         (s\<lparr>rx_buffer := blit (rx_buffer s) 2 f,
            guest_mem := gas_write g (guest_mem s) (reg64 s (rdma_desc i DESC_ADDRESS_LO)) ([rx_buffer s 0, rx_buffer s 1] @ f)\<rparr>))))"

lemma rdma_step_frame:
  assumes su: "rx_setup s" and i: "i < 256" and f: "0 < length f" "length f \<le> MAX_PACKET_SIZE"
    and st: "\<not> bit (gregs s (rdma_desc i DESC_LENGTH_STATUS)) 2" and ok: "\<And>mem a n. gas_write_ok g mem a n"
  shows "rdma_step g 16 f (of_nat i) 0 s = (length f, Some (of_nat (Suc i mod 256)), rx_filled g s i f)"
proof -
  have hdr: "rx_hdr_size s = 2" using su by (simp add: rx_hdr_size_def rx_setup_def)
  have crc: "FIELD_EX32 (gregs s BCM2838_GENET_UMAC_CMD) UMAC_CMD_CRC_FWD = 0"
    using su by (simp add: rx_setup_def UMAC_CMD_CRC_FWD_def FIELD_EX32_flag_Suc)
  have len: "length f \<le> 1518" using f(2) by (simp add: MAX_PACKET_SIZE_def)
  have u: "unat (of_nat i :: u64) = i" using i by (simp add: unat_of_nat take_bit_nat_eq_self)
  have b2: "blit (rx_buffer s) 2 f 2 = f ! 0" using f(1) by (simp add: blit_def)
  have err: "FIELD_EX32 (rx_desc_status (gregs s (rdma_desc i DESC_LENGTH_STATUS)) f (f ! 0) True (length f + 2)) STATUS_RXERR = 0"
    using rx_desc_status_bits(1) [OF st] by (simp add: STATUS_RXERR_def FIELD_EX32_flag_Suc)
  have blk: "rx_status_block g s f v b = b" for v b using su by (simp add: rx_status_block_def rx_setup_def)
  have ne: "rdma_ring 16 k \<noteq> rdma_desc i DESC_LENGTH_STATUS" "rdma_ring 16 k + 4 \<noteq> rdma_desc i DESC_LENGTH_STATUS" for k
    using i by (simp_all add: genet_offs)
  have nxt: "(if (of_nat i :: u64) + 1 > 255 then 0 else of_nat i + 1) = (of_nat (Suc i mod 256) :: u64)"
  proof (cases "i = 255")
    case False
    then have "Suc i < 256" using i by simp
    then have "unat (of_nat (Suc i) :: u64) = Suc i" by (simp add: unat_of_nat take_bit_nat_eq_self del: of_nat_Suc)
    then have "unat ((of_nat i :: u64) + 1) = Suc i" by (simp add: add.commute)
    then have "\<not> (of_nat i :: u64) + 1 > 255" using \<open>Suc i < 256\<close> unfolding word_less_nat_alt by simp
    with \<open>Suc i < 256\<close> show ?thesis by simp
  qed simp
  have w: "unat (of_nat (3 * (Suc i mod 256)) :: u64) = 3 * (Suc i mod 256)"
    by (simp add: unat_of_nat take_bit_nat_eq_self del: of_nat_mult of_nat_Suc)
  then have ptr: "(of_nat (Suc i mod 256) :: u64) * 3 = of_nat (3 * (Suc i mod 256))" by simp
  have hi: "drop_bit 32 (of_nat (3 * (Suc i mod 256)) :: u64) = 0"
    by (simp add: word_unat_eq_iff unsigned_drop_bit_eq w drop_bit_nat_def take_bit_nat_eq_self del: of_nat_mult)
  have lo: "(ucast (of_nat (3 * (Suc i mod 256)) :: u64) :: u32) = of_nat (3 * (Suc i mod 256))"
    by (simp add: word_unat_eq_iff unsigned_ucast_eq w unat_of_nat take_bit_nat_eq_self del: of_nat_mult)
  have size: "gregs s (rdma_ring 16 RING_BUF_SIZE) = 0x1000800" "reg64 s (rdma_ring 16 RING_START_ADDR) = 0" "reg64 s (rdma_ring 16 RING_END_ADDR) = 767"
    using su by (simp_all add: rx_setup_def)
  have up: "upd_reg a (\<lambda>_. F (gregs s a)) (s\<lparr>rx_buffer := b, guest_mem := c\<rparr>) = upd_reg a F (s\<lparr>rx_buffer := b, guest_mem := c\<rparr>)" for a F b c
    by (simp add: upd_reg_def)
  show ?thesis
    using len size ne ok up [of _ "\<lambda>v. rx_desc_status v f (f ! 0) True (length f + 2)"]
    by (simp add: rdma_step_def Let_def hdr crc u size b2 err [simplified] blk rx_filled_def slice_pad [simplified] reg64_def nxt ptr hi lo min_def del: of_nat_mult of_nat_Suc)
qed

lemma rx_setup_cong:
  assumes "rx_setup d" "\<And>r. r \<in> {rdma_ring 0 RING_START_ADDR, rdma_ring 0 RING_END_ADDR, OFF_RDMA + OFF_DMA_CTRL, rdma_ring 16 RING_START_ADDR,
      rdma_ring 16 RING_START_ADDR_HI, rdma_ring 16 RING_END_ADDR, rdma_ring 16 RING_END_ADDR_HI, rdma_ring 16 RING_BUF_SIZE, OFF_RBUF_CTRL,
      BCM2838_GENET_UMAC_CMD} \<Longrightarrow> gregs d' r = gregs d r"
  shows "rx_setup d'"
proof -
  have "rdma_ring 16 RING_START_ADDR + 4 = rdma_ring 16 RING_START_ADDR_HI" "rdma_ring 16 RING_END_ADDR + 4 = rdma_ring 16 RING_END_ADDR_HI"
    by (simp_all add: genet_offs)
  with assms show ?thesis by (simp add: rx_setup_def reg64_def)
qed

text \<open>Frames go to ring 16, which is enabled.\<close>

lemma rx_setup_active:
  assumes "rx_setup d"
  shows "bcm2838_genet_default_rx_ring d = 16" "FIELD_EX32 (gregs d (OFF_RDMA + OFF_DMA_CTRL)) CTRL_EN \<noteq> 0"
    "bcm2838_genet_rdma_ring_active d 16"
  using assms by (simp_all add: rx_setup_def bcm2838_genet_default_rx_ring_def bcm2838_genet_rdma_ring_active_def
      BCM2838_GENET_DMA_RING_CNT_def CTRL_EN_def FIELD_EX32_flag_Suc)

text \<open>The registers that receiving into descriptor \<open>i\<close> changes.\<close>

definition rx_written :: "nat \<Rightarrow> nat set" where
  "rx_written i = {rdma_desc i DESC_LENGTH_STATUS, rdma_ring 16 RRING_PROD_INDEX, rdma_ring 16 RRING_WRITE_PTR, rdma_ring 16 RRING_WRITE_PTR_HI,
     OFF_INTRL0 + INTRL_STAT, OFF_INTRL1 + INTRL_STAT}"

lemma rx_written_setup: "i < 256 \<Longrightarrow> r \<in> {rdma_ring 0 RING_START_ADDR, rdma_ring 0 RING_END_ADDR, OFF_RDMA + OFF_DMA_CTRL, rdma_ring 16 RING_START_ADDR,
      rdma_ring 16 RING_START_ADDR_HI, rdma_ring 16 RING_END_ADDR, rdma_ring 16 RING_END_ADDR_HI, rdma_ring 16 RING_BUF_SIZE, OFF_RBUF_CTRL,
      BCM2838_GENET_UMAC_CMD, rdma_ring 16 RRING_CONS_INDEX} \<Longrightarrow> r \<notin> rx_written i"
  by (auto simp: rx_written_def genet_offs)

lemma desc_not_written:
  assumes "i < 256" "j < 256"
  shows "j \<noteq> i \<Longrightarrow> rdma_desc j DESC_LENGTH_STATUS \<notin> rx_written i" "rdma_desc j DESC_ADDRESS_LO \<notin> rx_written i"
    "rdma_desc j DESC_ADDRESS_LO + 4 \<notin> rx_written i"
proof -
  have "j * 12 + a \<noteq> i * 12" if "a \<in> {4, 8}" for a :: nat using that by auto presburger+
  from this [of 4] this [of 8] assms
  show "j \<noteq> i \<Longrightarrow> rdma_desc j DESC_LENGTH_STATUS \<notin> rx_written i" "rdma_desc j DESC_ADDRESS_LO \<notin> rx_written i"
    "rdma_desc j DESC_ADDRESS_LO + 4 \<notin> rx_written i"
    by (auto simp: rx_written_def genet_offs)
qed

lemma rx_filled_fields [simp]:
  "net_out (rx_filled g s i f) = net_out s" "out_of_bounds (rx_filled g s i f) = out_of_bounds s"
  "guest_mem (rx_filled g s i f) = gas_write g (guest_mem s) (reg64 s (rdma_desc i DESC_ADDRESS_LO)) ([rx_buffer s 0, rx_buffer s 1] @ f)"
  "rx_buffer (rx_filled g s i f) = blit (rx_buffer s) 2 f"
  by (simp_all add: rx_filled_def)

lemma rx_filled_gregs:
  assumes "i < 256"
  shows "r \<notin> rx_written i \<Longrightarrow> gregs (rx_filled g s i f) r = gregs s r"
    "gregs (rx_filled g s i f) (rdma_desc i DESC_LENGTH_STATUS) = rx_desc_status (gregs s (rdma_desc i DESC_LENGTH_STATUS)) f (f ! 0) True (length f + 2)"
    "gregs (rx_filled g s i f) (rdma_ring 16 RRING_PROD_INDEX) =
       FIELD_DP32 (gregs s (rdma_ring 16 RRING_PROD_INDEX)) PROD_INDEX_INDEX (FIELD_EX32 (gregs s (rdma_ring 16 RRING_PROD_INDEX)) PROD_INDEX_INDEX + 1)"
    "reg64 (rx_filled g s i f) (rdma_ring 16 RRING_WRITE_PTR) = of_nat (3 * (Suc i mod 256))"
proof -
  show "r \<notin> rx_written i \<Longrightarrow> gregs (rx_filled g s i f) r = gregs s r"
    by (simp add: rx_filled_def rx_written_def)
  show "gregs (rx_filled g s i f) (rdma_desc i DESC_LENGTH_STATUS) = rx_desc_status (gregs s (rdma_desc i DESC_LENGTH_STATUS)) f (f ! 0) True (length f + 2)"
    using assms by (simp add: rx_filled_def) (simp add: genet_offs)
  show "gregs (rx_filled g s i f) (rdma_ring 16 RRING_PROD_INDEX) =
       FIELD_DP32 (gregs s (rdma_ring 16 RRING_PROD_INDEX)) PROD_INDEX_INDEX (FIELD_EX32 (gregs s (rdma_ring 16 RRING_PROD_INDEX)) PROD_INDEX_INDEX + 1)"
    using assms by (simp add: rx_filled_def) (simp add: genet_offs)
  have "rdma_ring 16 RRING_WRITE_PTR + 4 = rdma_ring 16 RRING_WRITE_PTR_HI" "rdma_ring 16 RRING_WRITE_PTR \<noteq> rdma_ring 16 RRING_WRITE_PTR_HI"
    by (simp_all add: genet_offs)
  then show "reg64 (rx_filled g s i f) (rdma_ring 16 RRING_WRITE_PTR) = of_nat (3 * (Suc i mod 256))"
    using ucast_of_nat_64 [of "3 * (Suc i mod 256)"] by (simp add: reg64_def rx_filled_def del: of_nat_mult)
qed

lemma rdma_loop_frame:
  assumes "rx_setup s" "i < 256" "0 < length f" "length f \<le> MAX_PACKET_SIZE"
    "\<not> bit (gregs s (rdma_desc i DESC_LENGTH_STATUS)) 2" "\<And>mem a n. gas_write_ok g mem a n"
  shows "rdma_loop g 16 f (of_nat i) 0 s = Some (length f, rx_filled g s i f)"
proof -
  have u: "unat (of_nat i :: u64) = i" using assms(2) by (simp add: unat_of_nat take_bit_nat_eq_self)
  have "rdma_loop g 16 f (of_nat i) 0 s = rdma_loop g 16 f (of_nat (Suc i mod 256)) (length f) (rx_filled g s i f)"
    using assms(2,3) by (subst rdma_loop.simps) (simp add: u rdma_step_frame [OF assms] BCM2838_GENET_DMA_DESC_CNT_def)
  then show ?thesis by (simp add: rdma_loop.simps)
qed

text \<open>
  The receive side of a device in step with the driver: the next frame goes into the descriptor of the
  producer index, and every descriptor has its buffer.
\<close>

definition rx_sync :: "u64 \<Rightarrow> 'm genet_dev \<Rightarrow> bool" where
  "rx_sync buf d \<longleftrightarrow> rx_setup d \<and> unat (gregs d (rdma_ring 16 RRING_PROD_INDEX)) < 65536 \<and>
     reg64 d (rdma_ring 16 RRING_WRITE_PTR) = of_nat (3 * (unat (gregs d (rdma_ring 16 RRING_PROD_INDEX)) mod 256)) \<and>
     (\<forall>i<256. \<not> bit (gregs d (rdma_desc i DESC_LENGTH_STATUS)) 2 \<and> reg64 d (rdma_desc i DESC_ADDRESS_LO) = buf + of_nat (2048 * i))"

text \<open>How many descriptors hold frames the driver has not released.\<close>

definition rx_used :: "'m genet_dev \<Rightarrow> nat" where
  "rx_used d = (unat (gregs d (rdma_ring 16 RRING_PROD_INDEX)) + 65536 - unat (gregs d (rdma_ring 16 RRING_CONS_INDEX))) mod 65536"

lemma take_bit_16_id: "unat (w :: u32) < 65536 \<Longrightarrow> take_bit 16 w = w"
  by (simp add: word_unat_eq_iff unsigned_take_bit_eq take_bit_nat_eq_self)

lemma index_field: "FIELD_EX32 w PROD_INDEX_INDEX = take_bit 16 w" "FIELD_EX32 w CONS_INDEX_INDEX = take_bit 16 w"
  by (simp_all add: FIELD_EX32_def extract32_def CONS_INDEX_INDEX_def PROD_INDEX_INDEX_def)

lemma prod_index_next:
  assumes "unat (p :: u32) < 65536"
  shows "unat (FIELD_DP32 p PROD_INDEX_INDEX (FIELD_EX32 p PROD_INDEX_INDEX + 1)) = (unat p + 1) mod 65536"
proof -
  have "FIELD_DP32 p PROD_INDEX_INDEX (p + 1) = take_bit 16 (p + 1)"
  proof (rule bit_word_eqI)
    fix n
    have "\<not> bit p n" if "16 \<le> n"
      using take_bit_16_id [OF assms] that by (metis bit_take_bit_iff not_less)
    then show "bit (FIELD_DP32 p PROD_INDEX_INDEX (p + 1)) n = bit (take_bit 16 (p + 1)) n"
      by (cases "n < 16") (auto simp: FIELD_DP32_def PROD_INDEX_INDEX_def bits_simps bit_simps)
  qed
  moreover have "unat (p + 1) = unat p + 1" using assms unat_u32_add [of p 1] by simp
  moreover have "FIELD_EX32 p PROD_INDEX_INDEX = p" by (simp add: index_field take_bit_16_id [OF assms])
  ultimately show ?thesis
    by (simp only: unsigned_take_bit_eq) (simp add: take_bit_eq_mod)
qed

lemma free_descs_used:
  assumes "rx_setup d" "unat (gregs d (rdma_ring 16 RRING_PROD_INDEX)) < 65536" "unat (gregs d (rdma_ring 16 RRING_CONS_INDEX)) < 65536"
  shows "unat (bcm2838_genet_rdma_free_descs d 16) = 256 - rx_used d"
proof -
  let ?p = "gregs d (rdma_ring 16 RRING_PROD_INDEX)" and ?c = "gregs d (rdma_ring 16 RRING_CONS_INDEX)"
  have m: "field_mask PROD_INDEX_INDEX = 0xffff" by (simp add: field_mask_def PROD_INDEX_INDEX_def mask_eq_exp_minus_1)
  have u: "unat ((?p - ?c) AND 0xffff) = rx_used d"
  proof -
    have "unat (?p - ?c) = (if unat ?c \<le> unat ?p then unat ?p - unat ?c else unat ?p + 2 ^ 32 - unat ?c)"
      by (simp add: unat_sub_if_size word_size)
    moreover have "(x + 65536 - y) mod 65536 = (if y \<le> x then x - y else x + 4294967296 - y) mod 65536" if "y < 65536" for x y :: nat
    proof (cases "y \<le> x")
      case True
      then have "x + 65536 - y = x - y + 65536" by simp
      with True show ?thesis by (simp only: mod_add_self2 if_True)
    next
      case False
      then have "x + 4294967296 - y = x + 65536 - y + 65535 * 65536" using that by simp
      with False show ?thesis by (simp only: mod_mult_self1 if_False)
    qed
    ultimately show ?thesis using assms(3) by (simp add: and_ffff rx_used_def)
  qed
  have i: "take_bit 16 ?p = ?p" "take_bit 16 ?c = ?c" using assms(2,3) by (simp_all add: take_bit_16_id)
  have r: "reg64 d (rdma_ring 16 RING_START_ADDR) = 0" "reg64 d (rdma_ring 16 RING_END_ADDR) = 767" using assms(1) by (simp_all add: rx_setup_def)
  have lt: "((?p - ?c) AND 0xffff < 256) = (rx_used d < 256)" by (simp add: word_less_nat_alt u)
  show ?thesis
  proof (cases "rx_used d < 256")
    case True
    then have "unat (256 - ((?p - ?c) AND 0xffff)) = 256 - rx_used d" using lt by (simp add: unat_sub u word_le_nat_alt)
    with True show ?thesis by (simp add: bcm2838_genet_rdma_free_descs_def Let_def r index_field i m lt)
  qed (simp add: bcm2838_genet_rdma_free_descs_def Let_def r index_field i m lt)
qed

lemma rx_sync_filled:
  assumes sync: "rx_sync buf d" and p: "unat (gregs d (rdma_ring 16 RRING_PROD_INDEX)) = p" "i = p mod 256"
    and same: "\<And>r. r \<notin> rx_written i \<Longrightarrow> gregs d' r = gregs d r"
    and st: "\<not> bit (gregs d' (rdma_desc i DESC_LENGTH_STATUS)) 2"
    and prod: "unat (gregs d' (rdma_ring 16 RRING_PROD_INDEX)) = (p + 1) mod 65536"
    and ptr: "reg64 d' (rdma_ring 16 RRING_WRITE_PTR) = of_nat (3 * (Suc i mod 256))"
  shows "rx_sync buf d'"
proof -
  have i: "i < 256" by (simp add: p(2))
  have "rx_setup d'"
    by (rule rx_setup_cong [of d]) (use sync same rx_written_setup [OF i] in \<open>auto simp: rx_sync_def\<close>)
  moreover have "Suc i mod 256 = (p + 1) mod 65536 mod 256"
    by (simp add: p(2) mod_mod_cancel mod_Suc_eq)
  moreover have "\<not> bit (gregs d' (rdma_desc j DESC_LENGTH_STATUS)) 2 \<and> reg64 d' (rdma_desc j DESC_ADDRESS_LO) = buf + of_nat (2048 * j)"
    if "j < 256" for j
    using sync that st desc_not_written [OF i that] same by (cases "j = i") (simp_all add: rx_sync_def reg64_def)
  ultimately show ?thesis using prod ptr by (simp add: rx_sync_def del: of_nat_mult)
qed

text \<open>One frame arriving at a device with a free descriptor.\<close>

lemma receive_one:
  assumes sync: "rx_sync buf d" and c: "unat (gregs d (rdma_ring 16 RRING_CONS_INDEX)) < 65536" and free: "rx_used d < 256"
    and f: "0 < length f" "length f \<le> MAX_PACKET_SIZE" and ok: "\<And>mem a n. gas_write_ok g mem a n"
    and p: "unat (gregs d (rdma_ring 16 RRING_PROD_INDEX)) = p" "i = p mod 256"
  shows "\<exists>d'. bcm2838_genet_receive g d f = Some (int (length f), d') \<and> rx_sync buf d' \<and>
    unat (gregs d' (rdma_ring 16 RRING_PROD_INDEX)) = (p + 1) mod 65536 \<and>
    (\<exists>x y. guest_mem d' = gas_write g (guest_mem d) (buf + of_nat (2048 * i)) ([x, y] @ f)) \<and>
    extract32 (gregs d' (rdma_desc i DESC_LENGTH_STATUS)) 16 12 = of_nat (length f + 2) \<and>
    (\<forall>r. r \<notin> rx_written i \<longrightarrow> gregs d' r = gregs d r) \<and>
    out_of_bounds d' = out_of_bounds d \<and> net_out d' = net_out d"
proof -
  have i: "i < 256" by (simp add: p(2))
  define s where "s = upd_reg (rdma_desc i DESC_LENGTH_STATUS) (\<lambda>v. FIELD_DP32 v STATUS_SOP 1) d"
  define d' where "d' = bcm2838_genet_set_irq_prio (bcm2838_genet_set_irq_default (rx_interrupts 16 (rx_filled g s i f)))"
  have su: "rx_setup d" and lt: "p < 65536" using sync p(1) by (simp_all add: rx_sync_def)
  note act = rx_setup_active [OF su]
  have fr: "bcm2838_genet_rdma_free_descs d 16 \<noteq> 0" using free_descs_used [OF su] lt p(1) c free by auto
  have sg: "r \<notin> rx_written i \<Longrightarrow> gregs s r = gregs d r" for r by (simp add: s_def rx_written_def)
  have ss: "rx_setup s" by (rule rx_setup_cong [OF su sg]) (rule rx_written_setup [OF i], auto)
  have bs: "\<not> bit (gregs s (rdma_desc i DESC_LENGTH_STATUS)) 2"
    using sync i by (simp add: rx_sync_def s_def FIELD_DP32_def STATUS_SOP_def bits_simps)
  have wi: "reg64 d (rdma_ring 16 RRING_WRITE_PTR) div 3 = of_nat i"
    using sync p i by (simp add: rx_sync_def word_unat_eq_iff unat_div unat_of_nat take_bit_nat_eq_self del: of_nat_mult)
  have u: "unat (of_nat i :: u64) = i" using i by (simp add: unat_of_nat take_bit_nat_eq_self)
  have run: "bcm2838_genet_receive g d f = Some (int (length f), d')"
    using fr f(2) act i rdma_loop_frame [OF ss i f bs ok]
    by (simp add: bcm2838_genet_receive_def bcm2838_genet_rdma_def Let_def wi u BCM2838_GENET_DMA_DESC_CNT_def d'_def flip: s_def)
  have irq: "r \<notin> {OFF_INTRL0 + INTRL_STAT, OFF_INTRL1 + INTRL_STAT} \<Longrightarrow> gregs d' r = gregs (rx_filled g s i f) r" for r
    by (simp add: d'_def rx_interrupts_def Let_def)
  have same: "gregs d' r = gregs d r" if "r \<notin> rx_written i" for r
    using irq [of r] that rx_filled_gregs(1) [OF i that, of g s f] sg [OF that] by (simp add: rx_written_def)
  have far: "rdma_desc i DESC_LENGTH_STATUS \<notin> {OFF_INTRL0 + INTRL_STAT, OFF_INTRL1 + INTRL_STAT}"
    "rdma_ring 16 k \<notin> {OFF_INTRL0 + INTRL_STAT, OFF_INTRL1 + INTRL_STAT}" "rdma_ring 16 k + 4 \<notin> {OFF_INTRL0 + INTRL_STAT, OFF_INTRL1 + INTRL_STAT}" for k
    by (simp_all add: genet_offs)
  have st: "gregs d' (rdma_desc i DESC_LENGTH_STATUS) = rx_desc_status (gregs s (rdma_desc i DESC_LENGTH_STATUS)) f (f ! 0) True (length f + 2)"
    by (simp only: irq [OF far(1)] rx_filled_gregs(2) [OF i])
  have "rdma_ring 16 RRING_PROD_INDEX \<noteq> rdma_desc i DESC_LENGTH_STATUS" using i by (simp add: genet_offs)
  then have "gregs s (rdma_ring 16 RRING_PROD_INDEX) = gregs d (rdma_ring 16 RRING_PROD_INDEX)" by (simp add: s_def)
  then have prod: "unat (gregs d' (rdma_ring 16 RRING_PROD_INDEX)) = (p + 1) mod 65536"
    using prod_index_next lt p(1) by (simp only: irq [OF far(2)] rx_filled_gregs(3) [OF i])
  have ptr: "reg64 d' (rdma_ring 16 RRING_WRITE_PTR) = of_nat (3 * (Suc i mod 256))"
    using rx_filled_gregs(4) [OF i, of g s f] unfolding reg64_def irq [OF far(2)] irq [OF far(3)] .
  have sync': "rx_sync buf d'"
    by (rule rx_sync_filled [OF sync p same _ prod ptr]) (simp_all add: st rx_desc_status_bits(1) [OF bs])
  have "reg64 s (rdma_desc i DESC_ADDRESS_LO) = buf + of_nat (2048 * i)"
    using sync i desc_not_written(2,3) [OF i i] sg by (simp add: rx_sync_def reg64_def)
  then have "guest_mem d' = gas_write g (guest_mem d) (buf + of_nat (2048 * i)) ([rx_buffer s 0, rx_buffer s 1] @ f)"
    by (simp add: d'_def rx_interrupts_def Let_def s_def)
  moreover have "extract32 (gregs d' (rdma_desc i DESC_LENGTH_STATUS)) 16 12 = of_nat (length f + 2)"
    using f(2) by (simp only: st rx_desc_status_bits(2)) (simp add: MAX_PACKET_SIZE_def rx_desc_status_bits(2))
  moreover have "out_of_bounds d' = out_of_bounds d" "net_out d' = net_out d"
    by (simp_all add: d'_def rx_interrupts_def Let_def s_def)
  ultimately show ?thesis using run sync' prod same by blast
qed

end
