(* ===== verification/Genet_Drain.thy ===== *)
theory Genet_Drain
  imports Genet_Rx
begin

text \<open>
  Several frames in the ring, and the U-Boot driver taking them out of it; a start leaves the device in step with
  the driver for receiving.
\<close>

section \<open>Receiving several frames\<close>

text \<open>Frames that arrive one after the other; the results in order.\<close>

primrec receive_all :: "'m genet_env \<Rightarrow> u8 list list \<Rightarrow> 'm genet_dev \<Rightarrow> (int list \<times> 'm genet_dev) option" where
  "receive_all g [] d = Some ([], d)"
| "receive_all g (f # fs) d =
     (case bcm2838_genet_receive g d f of
        None \<Rightarrow> None
      | Some (r, d) \<Rightarrow> map_option (\<lambda>(rs, d). (r # rs, d)) (receive_all g fs d))"

text \<open>What the device and the driver rely on of guest memory.\<close>

definition mem_ok :: "'m genet_env \<Rightarrow> bool" where
  "mem_ok g \<longleftrightarrow> (\<forall>mem a n. gas_write_ok g mem a n) \<and>
     (\<forall>mem a bs k n. length bs \<le> 2048 \<longrightarrow> k + n \<le> length bs \<longrightarrow> gas_read g (gas_write g mem a bs) (a + of_nat k) n = take n (drop k bs)) \<and>
     (\<forall>mem a bs b n. (\<forall>j<n. length bs \<le> unat (b + of_nat j - a)) \<longrightarrow> gas_read g (gas_write g mem a bs) b n = gas_read g mem b n)"

lemma mem_okD:
  assumes "mem_ok g"
  shows "gas_write_ok g mem a n"
    "length bs \<le> 2048 \<Longrightarrow> k + n \<le> length bs \<Longrightarrow> gas_read g (gas_write g mem a bs) (a + of_nat k) n = take n (drop k bs)"
    "(\<And>j. j < n \<Longrightarrow> length bs \<le> unat (b + of_nat j - a)) \<Longrightarrow> gas_read g (gas_write g mem a bs) b n = gas_read g mem b n"
  using assms by (simp_all add: mem_ok_def)

definition receivable :: "u8 list \<Rightarrow> bool" where
  "receivable f \<longleftrightarrow> f \<noteq> [] \<and> length f \<le> MAX_PACKET_SIZE"

lemma bufs_apart:
  assumes "i < 256" "k < 256" "i \<noteq> k" "x < 2048"
  shows "2048 \<le> unat (buf + of_nat (2048 * k) + of_nat x - (buf + of_nat (2048 * i)) :: u64)"
proof (cases "i < k")
  case True
  have "buf + of_nat (2048 * k) + of_nat x - (buf + of_nat (2048 * i)) = (of_nat (2048 * (k - i) + x) :: u64)"
    using True by (simp add: of_nat_diff algebra_simps)
  moreover have "unat (of_nat (2048 * (k - i) + x) :: u64) = 2048 * (k - i) + x"
    using assms by (simp add: unat_of_nat take_bit_nat_eq_self del: of_nat_mult of_nat_add)
  ultimately show ?thesis using True by (simp del: of_nat_mult of_nat_add)
next
  case False
  define y where "y = 2048 * (i - k) - x"
  have y: "0 < y" "y < 0x80000" using False assms by (auto simp: y_def)
  have "buf + of_nat (2048 * k) + of_nat x - (buf + of_nat (2048 * i)) = - (of_nat y :: u64)"
    using False assms by (simp add: y_def of_nat_diff algebra_simps)
  moreover have "unat (of_nat y :: u64) = y" using y by (simp add: unat_of_nat take_bit_nat_eq_self)
  then have "unat (0 - (of_nat y :: u64)) = 2 ^ 64 - y" using y unat_sub_if_size [of 0 "of_nat y :: u64"] by (simp add: word_size)
  ultimately show ?thesis using y by simp
qed

text \<open>The bytes of buffer \<open>k\<close> after the two bytes of padding.\<close>

definition buf_read :: "'m genet_env \<Rightarrow> u64 \<Rightarrow> 'm \<Rightarrow> nat \<Rightarrow> nat \<Rightarrow> u8 list" where
  "buf_read g buf mem k n = gas_read g mem (buf + of_nat (2048 * k) + 2) n"

lemma buf_read_write:
  assumes mem: "mem_ok g" and i: "i < 256" and f: "length f \<le> MAX_PACKET_SIZE"
  shows "buf_read g buf (gas_write g M (buf + of_nat (2048 * i)) ([x, y] @ f)) i (length f) = f"
    "k < 256 \<Longrightarrow> k \<noteq> i \<Longrightarrow> n \<le> 2046 \<Longrightarrow> buf_read g buf (gas_write g M (buf + of_nat (2048 * i)) ([x, y] @ f)) k n = buf_read g buf M k n"
proof -
  have len: "length ([x, y] @ f) \<le> 2048" using f by (simp add: MAX_PACKET_SIZE_def)
  have "gas_read g (gas_write g M a ([x, y] @ f)) (a + of_nat 2) (length f) = take (length f) (drop 2 ([x, y] @ f))" for a
    by (rule mem_okD(2) [OF mem len]) simp
  then show "buf_read g buf (gas_write g M (buf + of_nat (2048 * i)) ([x, y] @ f)) i (length f) = f"
    by (simp add: buf_read_def)
  assume k: "k < 256" "k \<noteq> i" "n \<le> 2046"
  have "length ([x, y] @ f) \<le> unat (buf + of_nat (2048 * k) + 2 + of_nat j - (buf + of_nat (2048 * i)))" if "j < n" for j
    using bufs_apart [OF i k(1) k(2) [symmetric], of "2 + j" buf] that k(3) len by (simp add: add.assoc)
  then show "buf_read g buf (gas_write g M (buf + of_nat (2048 * i)) ([x, y] @ f)) k n = buf_read g buf M k n"
    unfolding buf_read_def by (rule mem_okD(3) [OF mem])
qed

lemma slot_shift: "(x mod 65536 + j) mod 256 = (x + j) mod 256" for x j :: nat
proof -
  have "(x mod 65536 + j) mod 256 = (x mod 65536 mod 256 + j) mod 256" by (rule mod_add_left_eq [symmetric])
  also have "x mod 65536 mod 256 = x mod 256" by (rule mod_mod_cancel) simp
  finally show ?thesis by (simp only: mod_add_left_eq)
qed

lemma slot_differs: "0 < j \<Longrightarrow> j < 256 \<Longrightarrow> (p + j) mod 256 \<noteq> p mod 256" for p j :: nat
  using mod_eq_dvd_iff_nat [of p "p + j" 256] nat_dvd_not_less [of j 256] by auto

text \<open>The frames \<open>fs\<close> are in the buffers and descriptors from number \<open>p\<close> on.\<close>

definition holds_frames :: "'m genet_env \<Rightarrow> u64 \<Rightarrow> 'm genet_dev \<Rightarrow> nat \<Rightarrow> u8 list list \<Rightarrow> bool" where
  "holds_frames g buf d p fs \<longleftrightarrow>
     (\<forall>j<length fs. let k = (p + j) mod 256; f = fs ! j in
        extract32 (gregs d (rdma_desc k DESC_LENGTH_STATUS)) 16 12 = of_nat (length f + 2) \<and> buf_read g buf (guest_mem d) k (length f) = f)"

lemma receive_all_holds:
  assumes "rx_sync buf d" "unat (gregs d (rdma_ring 16 RRING_CONS_INDEX)) < 65536" "rx_used d + length fs \<le> 256"
    "list_all receivable fs" "mem_ok g" "unat (gregs d (rdma_ring 16 RRING_PROD_INDEX)) = p"
  shows "\<exists>d'. receive_all g fs d = Some (map (\<lambda>f. int (length f)) fs, d') \<and> rx_sync buf d' \<and>
    unat (gregs d' (rdma_ring 16 RRING_PROD_INDEX)) = (p + length fs) mod 65536 \<and>
    gregs d' (rdma_ring 16 RRING_CONS_INDEX) = gregs d (rdma_ring 16 RRING_CONS_INDEX) \<and>
    out_of_bounds d' = out_of_bounds d \<and> net_out d' = net_out d \<and> holds_frames g buf d' p fs \<and>
    (\<forall>k<256. (\<forall>j<length fs. k \<noteq> (p + j) mod 256) \<longrightarrow>
       gregs d' (rdma_desc k DESC_LENGTH_STATUS) = gregs d (rdma_desc k DESC_LENGTH_STATUS) \<and>
       (\<forall>n\<le>2046. buf_read g buf (guest_mem d') k n = buf_read g buf (guest_mem d) k n))"
  using assms
proof (induction fs arbitrary: d p)
  case Nil
  then have "p < 65536" by (simp add: rx_sync_def)
  with Nil show ?case by (simp add: holds_frames_def)
next
  case (Cons f fs)
  note prems = Cons.prems
  let ?i = "p mod 256" and ?CONS = "rdma_ring 16 RRING_CONS_INDEX"
  have f: "0 < length f" "length f \<le> MAX_PACKET_SIZE" and fs: "list_all receivable fs"
    using prems(4) by simp_all (simp_all add: receivable_def)
  have used: "rx_used d < 256" using prems(3) by simp
  obtain d1 x y where run: "bcm2838_genet_receive g d f = Some (int (length f), d1)" and s1: "rx_sync buf d1"
    and p1: "unat (gregs d1 (rdma_ring 16 RRING_PROD_INDEX)) = (p + 1) mod 65536"
    and m1: "guest_mem d1 = gas_write g (guest_mem d) (buf + of_nat (2048 * ?i)) ([x, y] @ f)"
    and st1: "extract32 (gregs d1 (rdma_desc ?i DESC_LENGTH_STATUS)) 16 12 = of_nat (length f + 2)"
    and same: "\<And>r. r \<notin> rx_written ?i \<Longrightarrow> gregs d1 r = gregs d r"
    and o1: "out_of_bounds d1 = out_of_bounds d" "net_out d1 = net_out d"
    using receive_one [OF prems(1,2) used f mem_okD(1) [OF prems(5)] prems(6) refl] by blast
  have c1: "gregs d1 ?CONS = gregs d ?CONS" by (rule same [OF rx_written_setup]) simp_all
  have lt: "p < 65536" using prems(1,6) by (simp add: rx_sync_def)
  have "rx_used d1 = (rx_used d + 1) mod 65536"
  proof -
    have "unat (gregs d ?CONS) \<le> p + 65536" using prems(2) by simp
    then have "p + 1 + 65536 - unat (gregs d ?CONS) = p + 65536 - unat (gregs d ?CONS) + 1" by simp
    moreover have "((p + 1) mod 65536 + 65536 - unat (gregs d ?CONS)) mod 65536 = (p + 1 + 65536 - unat (gregs d ?CONS)) mod 65536"
    proof (cases "p = 65535")
      case True
      have "131072 - unat (gregs d ?CONS) = 65536 - unat (gregs d ?CONS) + 65536" using prems(2) by simp
      then have "(131072 - unat (gregs d ?CONS)) mod 65536 = (65536 - unat (gregs d ?CONS)) mod 65536" by (simp only: mod_add_self2)
      with True show ?thesis by simp
    qed (use lt in simp)
    ultimately show ?thesis by (simp only: rx_used_def p1 c1 prems(6) mod_add_left_eq)
  qed
  then have u1: "rx_used d1 + length fs \<le> 256" using prems(3) by simp
  have c2: "unat (gregs d1 ?CONS) < 65536" using prems(2) c1 by simp
  obtain d2 where run2: "receive_all g fs d1 = Some (map (\<lambda>f. int (length f)) fs, d2)" and s2: "rx_sync buf d2"
    and p2: "unat (gregs d2 (rdma_ring 16 RRING_PROD_INDEX)) = ((p + 1) mod 65536 + length fs) mod 65536"
    and c2: "gregs d2 ?CONS = gregs d1 ?CONS" and o2: "out_of_bounds d2 = out_of_bounds d1" "net_out d2 = net_out d1"
    and h2: "holds_frames g buf d2 ((p + 1) mod 65536) fs"
    and rest: "\<And>k. k < 256 \<Longrightarrow> \<forall>j<length fs. k \<noteq> ((p + 1) mod 65536 + j) mod 256 \<Longrightarrow>
       gregs d2 (rdma_desc k DESC_LENGTH_STATUS) = gregs d1 (rdma_desc k DESC_LENGTH_STATUS) \<and>
       (\<forall>n\<le>2046. buf_read g buf (guest_mem d2) k n = buf_read g buf (guest_mem d1) k n)"
    using Cons.IH [OF s1 c2 u1 fs prems(5) p1] by blast
  have n: "length fs < 256" using prems(3) by simp
  have first: "gregs d2 (rdma_desc ?i DESC_LENGTH_STATUS) = gregs d1 (rdma_desc ?i DESC_LENGTH_STATUS)"
    "buf_read g buf (guest_mem d2) ?i (length f) = f"
  proof -
    have "\<forall>j<length fs. ?i \<noteq> ((p + 1) mod 65536 + j) mod 256"
      using n slot_differs [of "Suc _" p] by (metis slot_shift add.assoc plus_1_eq_Suc less_trans_Suc zero_less_Suc Suc_lessI less_trans)
    from rest [OF _ this] buf_read_write(1) [OF prems(5) _ f(2), of ?i buf "guest_mem d" x y] f(2)
    show "gregs d2 (rdma_desc ?i DESC_LENGTH_STATUS) = gregs d1 (rdma_desc ?i DESC_LENGTH_STATUS)"
      "buf_read g buf (guest_mem d2) ?i (length f) = f"
      by (simp_all add: m1 MAX_PACKET_SIZE_def)
  qed
  have "holds_frames g buf d2 p (f # fs)"
    unfolding holds_frames_def
  proof (intro allI impI)
    fix j assume j: "j < length (f # fs)"
    show "let k = (p + j) mod 256; f' = (f # fs) ! j in
        extract32 (gregs d2 (rdma_desc k DESC_LENGTH_STATUS)) 16 12 = of_nat (length f' + 2) \<and> buf_read g buf (guest_mem d2) k (length f') = f'"
    proof (cases j)
      case 0
      then show ?thesis using first st1 by (simp add: Let_def)
    next
      case (Suc j')
      then show ?thesis using h2 j by (simp add: holds_frames_def slot_shift Let_def)
    qed
  qed
  moreover have "gregs d2 (rdma_desc k DESC_LENGTH_STATUS) = gregs d (rdma_desc k DESC_LENGTH_STATUS) \<and>
       (\<forall>n\<le>2046. buf_read g buf (guest_mem d2) k n = buf_read g buf (guest_mem d) k n)"
    if k: "k < 256" "\<forall>j<length (f # fs). k \<noteq> (p + j) mod 256" for k
  proof -
    have ki: "k \<noteq> ?i" using k(2) by (metis add_0_right length_Cons zero_less_Suc)
    have "\<forall>j<length fs. k \<noteq> ((p + 1) mod 65536 + j) mod 256" using k(2) by (auto simp: slot_shift)
    from rest [OF k(1) this] desc_not_written(1) [OF _ k(1) ki] same buf_read_write(2) [OF prems(5) _ f(2) k(1) ki]
    show ?thesis by (simp add: m1)
  qed
  moreover have "((p + 1) mod 65536 + length fs) mod 65536 = (p + length (f # fs)) mod 65536"
    by (simp add: mod_simps)
  ultimately show ?case using run run2 s2 p2 c1 c2 o1 o2 by simp
qed

section \<open>The driver takes the frames\<close>

definition rx_ready :: "u64 \<Rightarrow> 'm genet_dev genet \<Rightarrow> bool" where
  "rx_ready m s \<longleftrightarrow> mac_reg s = m \<and> ring_inv s \<and> rx_sync (rxbuffer s) (hw s) \<and>
     gregs (hw s) (rdma_ring 16 RRING_PROD_INDEX) = c_index s \<and> gregs (hw s) (rdma_ring 16 RRING_CONS_INDEX) = c_index s \<and>
     unat (rxbuffer s) + 2048 * 256 \<le> 2 ^ 32"

lemma dev_off_rx_desc:
  assumes "i < 256" "k \<in> {0, 4, 8}"
  shows "dev_off m (m + GENET_RX_OFF + of_nat (12 * i) + k) = rdma_desc i (unat k)" "in_dev m (m + GENET_RX_OFF + of_nat (12 * i) + k)"
proof -
  have "unat (GENET_RX_OFF + (of_nat (12 * i) + k)) = 0x2000 + 12 * i + unat k"
    using assms by (auto simp: unat_word_ariths unat_of_nat take_bit_nat_eq_self reg_vals simp del: of_nat_mult)
  then show off: "dev_off m (m + GENET_RX_OFF + of_nat (12 * i) + k) = rdma_desc i (unat k)"
    by (simp add: add.assoc genet_offs mult.commute)
  show "in_dev m (m + GENET_RX_OFF + of_nat (12 * i) + k)"
    unfolding in_dev_def off using assms by (auto simp: genet_offs)
qed

lemma reg64_low:
  assumes "reg64 d a = A" "unat A < 2 ^ 32"
  shows "ucast (gregs d a) = A"
proof -
  let ?h = "push_bit 32 (ucast (gregs d (a + 4))) :: u64" and ?l = "ucast (gregs d a) :: u64"
  have "?h + ?l = ?h OR ?l" by (rule disjunctive_add) (auto simp: bit_simps dest: bit_imp_le_length)
  then have A: "A = ?h OR ?l" using assms(1) by (simp add: reg64_def)
  have t: "take_bit 32 A = A" using assms(2) by (simp add: word_unat_eq_iff unsigned_take_bit_eq take_bit_nat_eq_self)
  show ?thesis
  proof (rule bit_word_eqI)
    fix n
    have "bit A n \<longleftrightarrow> n < 32 \<and> bit A n" using t by (metis bit_take_bit_iff)
    then show "bit ?l n = bit A n" unfolding A by (auto simp: bit_simps dest: bit_imp_le_length)
  qed
qed

lemma bus_rx_packet:
  assumes k: "k < 256" and sync: "rx_sync buf d" and buf: "unat buf + 2048 * 256 \<le> 2 ^ 32"
    and len: "extract32 (gregs d (rdma_desc k DESC_LENGTH_STATUS)) 16 12 = of_nat (n + 2)"
  shows "rx_packet m (dev_peek m d) k = (of_nat n, buf + of_nat (2048 * k) + 2)"
proof -
  have u: "unat (buf + of_nat (2048 * k)) = unat buf + 2048 * k"
    using k buf by (simp add: unat_word_ariths unat_of_nat take_bit_nat_eq_self del: of_nat_mult)
  then have "ucast (gregs d (rdma_desc k DESC_ADDRESS_LO)) = buf + of_nat (2048 * k)"
    using sync k buf by (intro reg64_low) (simp_all add: rx_sync_def del: of_nat_mult)
  moreover have "dev_peek m d (m + GENET_RX_OFF + of_nat (12 * k)) = gregs d (rdma_desc k DESC_LENGTH_STATUS)"
    "dev_peek m d (m + GENET_RX_OFF + of_nat (12 * k) + 4) = gregs d (rdma_desc k DESC_ADDRESS_LO)"
    using dev_off_rx_desc [OF k, of 0 m] dev_off_rx_desc [OF k, of 4 m]
    by (simp_all add: dev_peek_gregs DESC_LENGTH_STATUS_def DESC_ADDRESS_LO_def del: of_nat_mult)
  ultimately show ?thesis
    by (simp add: rx_packet_def Let_def DMA_DESC_LENGTH_STATUS_def DMA_DESC_ADDRESS_LO_def len RX_BUF_OFFSET_def del: of_nat_mult)
qed

text \<open>What receiving and freeing change.\<close>

lemma drain_inv:
  assumes "\<And>s. Q s \<Longrightarrow> Q (snd (run_state (bcmgenet_gmac_eth_recv e) s))" "\<And>s. Q s \<Longrightarrow> Q (snd (run_state (bcmgenet_gmac_free_pkt e) s))"
  shows "Q s \<Longrightarrow> Q (snd (run_state (drain e n) s))"
proof (induction n arbitrary: s)
  case (Suc n)
  have "Q (snd (run_state (drain e n) (snd (run_state (bcmgenet_gmac_free_pkt e) (snd (run_state (bcmgenet_gmac_eth_recv e) s))))))"
    using Suc assms by blast
  with assms(1) [OF Suc.prems] show ?case by (auto simp: case_prod_beta split: option.split)
qed simp

lemma bus_recv: "snd (run_state (bcmgenet_gmac_eth_recv (genet_bus g m e)) s) = s"
  by (simp add: bcmgenet_gmac_eth_recv_def invalidate_dcache_check_def Let_def) (simp add: genet_bus_def)

lemma bus_free_pkt:
  "mac_reg s = m \<Longrightarrow> snd (run_state (bcmgenet_gmac_free_pkt (genet_bus g m e)) s) =
     s\<lparr>c_index := (c_index s + 1) AND 0xFFFF, hw := dev_poke g m ((c_index s + 1) AND 0xFFFF) (m + RDMA_CONS_INDEX) (hw s),
       rx_index := next_index RX_DESCS (rx_index s)\<rparr>"
  by (simp add: bcmgenet_gmac_free_pkt_def)

lemma cons_poke:
  "gregs (dev_poke g m v (m + RDMA_CONS_INDEX) d) = (gregs d)(rdma_ring 16 RRING_CONS_INDEX := v)"
  "guest_mem (dev_poke g m v (m + RDMA_CONS_INDEX) d) = guest_mem d"
  "out_of_bounds (dev_poke g m v (m + RDMA_CONS_INDEX) d) = out_of_bounds d"
proof -
  have "in_dev m (m + RDMA_CONS_INDEX)" "unat RDMA_CONS_INDEX = rdma_ring 16 RRING_CONS_INDEX"
    by (simp_all add: in_dev_def reg_vals genet_offs)
  moreover have "write_effect g d (rdma_ring 16 RRING_CONS_INDEX) v = (v, d)" "rdma_ring 16 RRING_CONS_INDEX + 4 \<le> REGS_SIZE"
    by (simp_all add: write_effect_def genet_offs)
  ultimately show
    "gregs (dev_poke g m v (m + RDMA_CONS_INDEX) d) = (gregs d)(rdma_ring 16 RRING_CONS_INDEX := v)"
    "guest_mem (dev_poke g m v (m + RDMA_CONS_INDEX) d) = guest_mem d"
    "out_of_bounds (dev_poke g m v (m + RDMA_CONS_INDEX) d) = out_of_bounds d"
    by (simp_all add: dev_poke_def bcm2838_genet_write_def Let_def)
qed

lemma drain_keeps:
  assumes "mac_reg s = m" "ring_inv s" and s': "s' = snd (run_state (drain (genet_bus g m e) n) s)"
  shows "mac_reg s' = m" "ring_inv s'" "rxbuffer s' = rxbuffer s" "guest_mem (hw s') = guest_mem (hw s)"
    "out_of_bounds (hw s') = out_of_bounds (hw s)" "r \<noteq> rdma_ring 16 RRING_CONS_INDEX \<Longrightarrow> gregs (hw s') r = gregs (hw s) r"
proof -
  define Q where "Q t \<longleftrightarrow> mac_reg t = m \<and> ring_inv t \<and> rxbuffer t = rxbuffer s \<and> guest_mem (hw t) = guest_mem (hw s) \<and>
    out_of_bounds (hw t) = out_of_bounds (hw s) \<and> (\<forall>r. r \<noteq> rdma_ring 16 RRING_CONS_INDEX \<longrightarrow> gregs (hw t) r = gregs (hw s) r)" for t :: "'a genet_dev genet"
  have "Q s'" unfolding s'
  proof (rule drain_inv)
    fix t assume "Q t"
    then show "Q (snd (run_state (bcmgenet_gmac_eth_recv (genet_bus g m e)) t))" by (simp add: bus_recv)
    from \<open>Q t\<close> have "ring_inv (snd (run_state (bcmgenet_gmac_free_pkt (genet_bus g m e)) t))" by (intro ring_inv_free_pkt) (simp add: Q_def)
    with \<open>Q t\<close> show "Q (snd (run_state (bcmgenet_gmac_free_pkt (genet_bus g m e)) t))"
      by (simp add: Q_def bus_free_pkt cons_poke)
  qed (use assms in \<open>simp add: Q_def\<close>)
  then show "mac_reg s' = m" "ring_inv s'" "rxbuffer s' = rxbuffer s" "guest_mem (hw s') = guest_mem (hw s)"
    "out_of_bounds (hw s') = out_of_bounds (hw s)" "r \<noteq> rdma_ring 16 RRING_CONS_INDEX \<Longrightarrow> gregs (hw s') r = gregs (hw s) r"
    by (simp_all add: Q_def)
qed

lemma rx_sync_cong:
  assumes "rx_sync buf d" "\<And>r. r \<noteq> rdma_ring 16 RRING_CONS_INDEX \<Longrightarrow> gregs d' r = gregs d r"
  shows "rx_sync buf d'"
proof -
  have ne: "rdma_ring 0 RING_START_ADDR \<noteq> rdma_ring 16 RRING_CONS_INDEX" "rdma_ring 0 RING_END_ADDR \<noteq> rdma_ring 16 RRING_CONS_INDEX"
    "OFF_RDMA + OFF_DMA_CTRL \<noteq> rdma_ring 16 RRING_CONS_INDEX" "OFF_RBUF_CTRL \<noteq> rdma_ring 16 RRING_CONS_INDEX"
    "BCM2838_GENET_UMAC_CMD \<noteq> rdma_ring 16 RRING_CONS_INDEX" "rdma_ring 16 RING_BUF_SIZE \<noteq> rdma_ring 16 RRING_CONS_INDEX"
    "rdma_ring 16 RRING_PROD_INDEX \<noteq> rdma_ring 16 RRING_CONS_INDEX"
    "rdma_ring 16 RING_START_ADDR \<noteq> rdma_ring 16 RRING_CONS_INDEX" "rdma_ring 16 RING_START_ADDR + 4 \<noteq> rdma_ring 16 RRING_CONS_INDEX"
    "rdma_ring 16 RING_END_ADDR \<noteq> rdma_ring 16 RRING_CONS_INDEX" "rdma_ring 16 RING_END_ADDR + 4 \<noteq> rdma_ring 16 RRING_CONS_INDEX"
    "rdma_ring 16 RRING_WRITE_PTR \<noteq> rdma_ring 16 RRING_CONS_INDEX" "rdma_ring 16 RRING_WRITE_PTR + 4 \<noteq> rdma_ring 16 RRING_CONS_INDEX"
    by (simp_all add: genet_offs)
  have "rdma_desc i w \<noteq> rdma_ring 16 RRING_CONS_INDEX" if "i < 256" "w \<le> 8" for i w
    using that by (simp add: genet_offs)
  then have "rdma_desc i DESC_LENGTH_STATUS \<noteq> rdma_ring 16 RRING_CONS_INDEX" "rdma_desc i DESC_ADDRESS_LO \<noteq> rdma_ring 16 RRING_CONS_INDEX"
    "rdma_desc i DESC_ADDRESS_LO + 4 \<noteq> rdma_ring 16 RRING_CONS_INDEX" if "i < 256" for i
    using that by (simp_all add: genet_offs)
  with assms ne show ?thesis by (simp add: rx_sync_def rx_setup_def reg64_def)
qed

lemma rx_reg_off:
  "unat RDMA_PROD_INDEX = rdma_ring 16 RRING_PROD_INDEX" "in_dev m (m + RDMA_PROD_INDEX)"
  "unat RDMA_CONS_INDEX = rdma_ring 16 RRING_CONS_INDEX" "in_dev m (m + RDMA_CONS_INDEX)"
  by (simp_all add: reg_vals genet_offs in_dev_def)

lemma receive_and_drain:
  assumes ready: "rx_ready m s" and fs: "length fs \<le> 256" "list_all receivable fs" and mem: "mem_ok g"
  shows "\<exists>d pkts s'. receive_all g fs (hw s) = Some (map (\<lambda>f. int (length f)) fs, d) \<and>
    run_state (drain (genet_bus g m e) (Suc (length fs))) (s\<lparr>hw := d\<rparr>) = (pkts, s') \<and>
    map (\<lambda>(len, a). gas_read g (guest_mem d) a (unat len)) pkts = fs \<and>
    rx_ready m s' \<and> guest_mem (hw s') = guest_mem d \<and> out_of_bounds (hw s') = out_of_bounds (hw s)"
proof -
  let ?P = "rdma_ring 16 RRING_PROD_INDEX" and ?C = "rdma_ring 16 RRING_CONS_INDEX" and ?buf = "rxbuffer s" and ?n = "length fs"
  define p where "p = unat (c_index s)"
  have sync: "rx_sync ?buf (hw s)" and P: "gregs (hw s) ?P = c_index s" and C: "gregs (hw s) ?C = c_index s"
    and mac: "mac_reg s = m" and inv: "ring_inv s" and buf: "unat ?buf + 2048 * 256 \<le> 2 ^ 32"
    using ready by (simp_all add: rx_ready_def)
  have lt: "p < 65536" using sync P by (simp add: rx_sync_def p_def)
  have "rx_used (hw s) = 0" using lt by (simp add: rx_used_def P C p_def)
  with fs(1) have used: "rx_used (hw s) + ?n \<le> 256" by simp
  have cl: "unat (gregs (hw s) ?C) < 65536" and pp: "unat (gregs (hw s) ?P) = p" using lt by (simp_all add: P C p_def)
  obtain d where run: "receive_all g fs (hw s) = Some (map (\<lambda>f. int (length f)) fs, d)" and sd: "rx_sync ?buf d"
    and pd: "unat (gregs d ?P) = (p + ?n) mod 65536" and cd: "gregs d ?C = c_index s" and od: "out_of_bounds d = out_of_bounds (hw s)"
    and holds: "holds_frames g ?buf d p fs"
    using receive_all_holds [OF sync cl used fs(2) mem pp] C by auto
  let ?s = "s\<lparr>hw := d\<rparr>"
  obtain pkts s' where dr: "run_state (drain (genet_bus g m e) (Suc ?n)) ?s = (pkts, s')" by fastforce
  have "?n < 65536" using fs(1) by simp
  moreover have peek: "dev_peek m h (m + RDMA_PROD_INDEX) = gregs h ?P" "dev_peek m h (m + RDMA_CONS_INDEX) = gregs h ?C" for h :: "'a genet_dev"
    by (simp_all add: dev_peek_gregs rx_reg_off)
  moreover have "rx_regs m \<subseteq> plain_regs m" using uboot_regs_plain by blast
  ultimately have res: "pkts = map (\<lambda>j. rx_packet m (dev_peek m d) ((p + j) mod 256)) [0..<?n]" "c_index s' = gregs d ?P"
    "gregs (hw s') ?C = (if ?n = 0 then c_index s else gregs d ?P)"
    using bus.drain_run [of ?s m ?n "Suc ?n" g e] mac inv lt pd cd dr by (simp_all add: p_def ring_inv_def del: drain.simps)
  have pk: "(\<lambda>(len, a). gas_read g (guest_mem d) a (unat len)) (rx_packet m (dev_peek m d) ((p + j) mod 256)) = fs ! j" if j: "j < ?n" for j
  proof -
    have "length (fs ! j) \<le> 1518" using fs(2) j by (simp add: list_all_length receivable_def MAX_PACKET_SIZE_def)
    then have "unat (of_nat (length (fs ! j)) :: u32) = length (fs ! j)" by (simp add: unat_of_nat take_bit_nat_eq_self)
    then show ?thesis
      using holds j bus_rx_packet [OF _ sd buf, of "(p + j) mod 256" "length (fs ! j)" m]
      by (simp add: holds_frames_def Let_def buf_read_def del: of_nat_mult)
  qed
  have "map (\<lambda>(len, a). gas_read g (guest_mem d) a (unat len)) pkts = fs"
    by (rule nth_equalityI) (use pk in \<open>simp_all add: res(1)\<close>)
  moreover have keep: "mac_reg s' = m" "ring_inv s'" "rxbuffer s' = ?buf" "guest_mem (hw s') = guest_mem d" "out_of_bounds (hw s') = out_of_bounds d"
    "r \<noteq> ?C \<Longrightarrow> gregs (hw s') r = gregs d r" for r
    using drain_keeps [of ?s m s' g e "Suc ?n"] mac inv dr by (simp_all add: ring_inv_def del: drain.simps)
  have "?P \<noteq> ?C" by (simp add: genet_offs)
  then have "gregs (hw s') ?P = c_index s'" using keep(6) by (simp add: res(2))
  moreover have "gregs (hw s') ?C = c_index s'"
    using res(2,3) pd lt by (auto simp: p_def word_unat_eq_iff)
  ultimately show ?thesis using run dr keep buf od rx_sync_cong [OF sd keep(6)] by (simp add: rx_ready_def del: drain.simps)
qed

section \<open>The receive side after a start\<close>

lemma start_rx_ready:
  assumes mac: "mac_reg s = m" and phy: "phy_only_mdio m e" and run: "run_state (bcmgenet_gmac_eth_start (genet_bus g m e)) s = (0, s')"
    and buf: "unat (rxbuffer s) + 2048 * 256 \<le> 2 ^ 32"
  shows "rx_ready m s'"
proof -
  note start = start_untouched [OF mac phy run]
  have g: "gregs (hw s') (unat o') = dev_peek m (hw s') (m + o')" if "unat o' < 0x10000" "unat o' mod 4 = 0" for o'
    using that by (simp add: dev_peek_gregs in_dev_def REGS_SIZE_def)
  have z: "gregs (hw s') (unat o') = (if o' = RBUF_CTRL then 2 else 0)" if "o' \<in> untouched" for o'
    using start(1) [OF that] that by (subst g) (auto simp: untouched_def)
  note z = z [of "0x300"] z [of "0x3004"] z [of "0x3008"] z [of "0x3018"] z [of "0x3020"] z [of "0x2c14"] z [of "0x2c1c"]
  have conf: "gregs (hw s') 0x3014 = 0" "gregs (hw s') 0x301c = 767" "gregs (hw s') 0x3000 = 0" "gregs (hw s') 0x3010 = 0x1000800"
    "gregs (hw s') 0x3044 AND 0x20001 = 0x20001" "gregs (hw s') 0x3008 = c_index s'" "gregs (hw s') 0x300c = c_index s'"
    using start(3) g [of "0x3014"] g [of "0x301c"] g [of "0x3000"] g [of "0x3010"] g [of "0x3044"] g [of "0x3008"] g [of "0x300c"]
    by (simp_all add: configured_def rx_ring_set_def dma_on_def reg_vals add.assoc)
  have en: "bit (gregs (hw s') 0x3044) 0"
  proof -
    have "bit (gregs (hw s') 0x3044 AND 0x20001) 0" by (simp only: conf(5)) simp
    then show ?thesis by (simp add: bit_and_iff)
  qed
  have crc: "\<not> bit (gregs (hw s') 0x808) 6" using start(4) g [of "0x808"] by (simp add: reg_vals)
  have su: "rx_setup (hw s')"
    using z conf en crc by (simp add: rx_setup_def reg64_def genet_offs untouched_def reg_vals)
  have desc: "\<not> bit (gregs (hw s') (rdma_desc i DESC_LENGTH_STATUS)) 2 \<and> reg64 (hw s') (rdma_desc i DESC_ADDRESS_LO) = rxbuffer s + of_nat (2048 * i)"
    if i: "i < 256" for i
  proof -
    let ?d = "m + GENET_RX_OFF + of_nat (12 * i)"
    have off: "gregs (hw s') (rdma_desc i k) = dev_peek m (hw s') (?d + of_nat k)" if "k \<in> {0, 4, 8}" for k
      using dev_off_rx_desc [OF i, of "of_nat k" m] that by (auto simp: dev_peek_gregs simp del: of_nat_mult)
    have "push_bit 32 (ucast (dev_peek m (hw s') (?d + 8))) OR ucast (dev_peek m (hw s') (?d + 4)) = rxbuffer s + of_nat (2048 * i)"
      using start(3,7) i by (simp add: configured_def rx_ring_set_def Let_def DMA_DESC_ADDRESS_HI_def DMA_DESC_ADDRESS_LO_def del: of_nat_mult)
    moreover have "push_bit 32 (ucast x) + ucast y = (push_bit 32 (ucast x) OR ucast y :: u64)" for x y :: u32
      by (rule disjunctive_add) (auto simp: bit_simps dest: bit_imp_le_length)
    moreover have "rdma_desc i DESC_ADDRESS_LO = rdma_desc i 4" "rdma_desc i DESC_ADDRESS_LO + 4 = rdma_desc i 8" "rdma_desc i DESC_LENGTH_STATUS = rdma_desc i 0"
      by (simp_all add: genet_offs)
    ultimately show ?thesis using start(5) [OF i] off [of 0] off [of 4] off [of 8] by (simp add: reg64_def del: of_nat_mult)
  qed
  have prod: "gregs (hw s') (rdma_ring 16 RRING_PROD_INDEX) = 0" "reg64 (hw s') (rdma_ring 16 RRING_WRITE_PTR) = 0"
    using z conf by (simp_all add: reg64_def genet_offs untouched_def reg_vals)
  have "ring_inv s'" using start_ring_inv [of "genet_bus g m e" s] run by simp
  then show ?thesis
    using su desc prod conf(6,7) start(6,7) buf by (simp add: rx_ready_def rx_sync_def) (simp add: genet_offs)
qed

end
