(* ===== verification/Genet_Limits.thy ===== *)
theory Genet_Limits
  imports Genet_Drain
begin

text \<open>
  The receive engine at its limits: a full ring, and a ring whose buffers have no room.
\<close>

section \<open>A full ring\<close>

lemma receive_full:
  assumes "rx_sync buf d" "unat (gregs d (rdma_ring 16 RRING_CONS_INDEX)) < 65536" "256 \<le> rx_used d"
  shows "bcm2838_genet_receive g d f = Some (0, d)"
proof -
  have su: "rx_setup d" and lt: "unat (gregs d (rdma_ring 16 RRING_PROD_INDEX)) < 65536" using assms(1) by (simp_all add: rx_sync_def)
  have "bcm2838_genet_rdma_free_descs d 16 = 0"
    using free_descs_used [OF su lt assms(2)] assms(3) by (simp add: word_unat_eq_iff)
  then show ?thesis using rx_setup_active [OF su] by (simp add: bcm2838_genet_receive_def)
qed

lemma can_receive_gregs: "gregs d = gregs d' \<Longrightarrow> bcm2838_genet_can_receive d = bcm2838_genet_can_receive d'"
  by (simp only: bcm2838_genet_can_receive_def bcm2838_genet_rdma_free_descs_def bcm2838_genet_default_rx_ring_def reg64_def)

lemma cons_write:
  "\<exists>d'. bcm2838_genet_write g d (rdma_ring 16 RRING_CONS_INDEX) v = d' \<and> gregs d' = (gregs d)(rdma_ring 16 RRING_CONS_INDEX := v) \<and>
     net_out d' = net_out d @ (if bcm2838_genet_can_receive d' then [Flush_queued] else [])"
proof -
  have "write_effect g d (rdma_ring 16 RRING_CONS_INDEX) v = (v, d)" "rdma_ring 16 RRING_CONS_INDEX + 4 \<le> REGS_SIZE"
    "write_flushes (rdma_ring 16 RRING_CONS_INDEX) v"
    by (simp_all add: write_effect_def write_flushes_def genet_offs)
  moreover have "bcm2838_genet_can_receive (x\<lparr>net_out := l\<rparr>) = bcm2838_genet_can_receive x" for x :: "'a genet_dev" and l
    by (rule can_receive_gregs) simp
  ultimately show ?thesis by (simp add: bcm2838_genet_write_def Let_def)
qed

lemma release_one:
  assumes sync: "rx_sync buf d" and c: "c = gregs d (rdma_ring 16 RRING_CONS_INDEX)" "unat c < 65536" and full: "rx_used d = 256"
    and f: "receivable f" and mem: "mem_ok g" and d': "d' = bcm2838_genet_write g d (rdma_ring 16 RRING_CONS_INDEX) ((c + 1) AND 0xffff)"
  shows "net_out d' = net_out d @ [Flush_queued]" "\<exists>d2. bcm2838_genet_receive g d' f = Some (int (length f), d2) \<and> net_out d2 = net_out d'"
proof -
  let ?C = "rdma_ring 16 RRING_CONS_INDEX" and ?P = "rdma_ring 16 RRING_PROD_INDEX"
  have g': "gregs d' = (gregs d)(?C := (c + 1) AND 0xffff)"
    and n': "net_out d' = net_out d @ (if bcm2838_genet_can_receive d' then [Flush_queued] else [])"
    using cons_write [of g d "(c + 1) AND 0xffff"] d' by auto
  have sync': "rx_sync buf d'" by (rule rx_sync_cong [OF sync]) (simp add: g')
  have su: "rx_setup d'" and lt: "unat (gregs d' ?P) < 65536" using sync' by (simp_all add: rx_sync_def)
  have u: "unat ((c + 1) AND 0xffff) = (unat c + 1) mod 65536" using c(2) unat_u32_add [of c 1] by (simp add: and_ffff)
  have c': "unat (gregs d' ?C) < 65536" by (simp add: g' u)
  have "?P \<noteq> ?C" by (simp add: genet_offs)
  then have p: "gregs d' ?P = gregs d ?P" by (simp add: g')
  have "rx_used d' = 255"
  proof -
    let ?p = "unat (gregs d ?P)"
    have lp: "?p < 65536" using lt p by simp
    have "(?p + 65536 - unat c) mod 65536 = 256" using full c(1) by (simp add: rx_used_def)
    then have "(if unat c \<le> ?p then ?p - unat c else ?p + 65536 - unat c) = 256" using lp c(2) by (auto simp: mod_if split: if_splits)
    then have "(?p + 65536 - (unat c + 1) mod 65536) mod 65536 = 255" using lp c(2) by (auto simp: mod_if split: if_splits)
    then show ?thesis using p by (simp add: rx_used_def g' u \<open>?P \<noteq> ?C\<close>)
  qed
  have "bcm2838_genet_can_receive d'"
    using rx_setup_active [OF su] free_descs_used [OF su lt c'] \<open>rx_used d' = 255\<close>
    by (simp add: bcm2838_genet_can_receive_def word_less_nat_alt)
  then show "net_out d' = net_out d @ [Flush_queued]" using n' by simp
  show "\<exists>d2. bcm2838_genet_receive g d' f = Some (int (length f), d2) \<and> net_out d2 = net_out d'"
    using receive_one [OF sync' c' _ _ _ mem_okD(1) [OF mem] refl refl, of f] f \<open>rx_used d' = 255\<close> by (auto simp: receivable_def)
qed

section \<open>A ring whose buffers have no room\<close>

text \<open>Nothing is copied in a round, and nothing stops the loop.\<close>

definition no_room :: "nat \<Rightarrow> 'm genet_dev \<Rightarrow> bool" where
  "no_room q s \<longleftrightarrow> gregs s (rdma_ring q RING_BUF_SIZE) = 0 \<and> unat (reg64 s (rdma_ring q RING_START_ADDR) div 3) < 256 \<and>
     unat (reg64 s (rdma_ring q RING_END_ADDR) div 3) < 256 \<and> (\<forall>i<256. \<not> bit (gregs s (rdma_desc i DESC_LENGTH_STATUS)) 2)"

lemma rdma_step_stuck:
  assumes nr: "no_room q s" and q: "q < 17" and w: "unat w < 256" and ok: "\<And>mem a n. gas_write_ok g mem a n"
  shows "\<exists>w' s'. rdma_step g q f w len s = (len, Some w', s') \<and> no_room q s' \<and> unat w' < 256"
proof -
  let ?st = "rdma_desc (unat w) DESC_LENGTH_STATUS"
  have ring: "rdma_ring q k \<noteq> rdma_desc i DESC_LENGTH_STATUS" "rdma_ring q k + 4 \<noteq> rdma_desc i DESC_LENGTH_STATUS" if "i < 256" for i k
    using that by (simp_all add: genet_offs)
  have size: "gregs s (rdma_ring q RING_BUF_SIZE) = 0" using nr by (simp add: no_room_def)
  define b where "b = blit (rx_buffer s) (rx_hdr_size s) []"
  define n where "n = rx_hdr_size s + (if FIELD_EX32 (gregs s BCM2838_GENET_UMAC_CMD) UMAC_CMD_CRC_FWD \<noteq> 0 then 4 else 0)"
  define st where "st = rx_desc_status (gregs s ?st) [] (b (rx_hdr_size s)) (len \<ge> length f) n"
  define s1 where "s1 = upd_reg ?st (\<lambda>_. st) (s\<lparr>rx_buffer := rx_status_block g s [] st b,
    guest_mem := gas_write g (guest_mem s) (reg64 s (rdma_desc (unat w) DESC_ADDRESS_LO)) []\<rparr>)"
  define a z where "a = reg64 s1 (rdma_ring q RING_START_ADDR) div 3" and "z = reg64 s1 (rdma_ring q RING_END_ADDR) div 3"
  define w' where "w' = (if w + 1 > z then a else w + 1)"
  define s' where "s' = upd_reg (rdma_ring q RRING_WRITE_PTR_HI) (\<lambda>_. ucast (drop_bit 32 (w' * 3)))
     (upd_reg (rdma_ring q RRING_WRITE_PTR) (\<lambda>_. ucast (w' * 3))
       (upd_reg (rdma_ring q RRING_PROD_INDEX) (\<lambda>v. FIELD_DP32 v PROD_INDEX_INDEX (FIELD_EX32 v PROD_INDEX_INDEX + 1)) s1))"
  have nb: "\<not> bit st 2" using nr w rx_desc_status_bits(1) by (simp add: no_room_def st_def)
  have err: "FIELD_EX32 st STATUS_RXERR = 0" using nb by (simp add: STATUS_RXERR_def FIELD_EX32_flag_Suc)
  have step: "rdma_step g q f w len s = (len, Some w', s')"
    unfolding rdma_step_def Let_def size
    by (simp add: ok err slice_bytes_def flip: b_def n_def st_def) (simp add: w'_def s'_def flip: s1_def a_def z_def)
  have same: "gregs s1 (rdma_ring q k) = gregs s (rdma_ring q k)" "gregs s1 (rdma_ring q k + 4) = gregs s (rdma_ring q k + 4)" for k
    using ring [OF w] by (simp_all add: s1_def)
  have az: "unat a < 256" "unat z < 256" using nr by (simp_all add: a_def z_def reg64_def same no_room_def)
  have "unat w' < 256"
  proof (cases "w + 1 > z")
    case False
    then have "unat (w + 1) \<le> unat z" by (simp add: word_less_nat_alt)
    with False az show ?thesis by (simp add: w'_def)
  qed (simp add: w'_def az)
  moreover have "no_room q s'"
  proof -
    have k: "gregs s' (rdma_ring q k) = gregs s1 (rdma_ring q k)" if "16 \<le> k" for k
      using that by (simp add: s'_def) (simp add: genet_offs)
    have h: "rdma_ring q RING_START_ADDR + 4 = rdma_ring q RING_START_ADDR_HI" "rdma_ring q RING_END_ADDR + 4 = rdma_ring q RING_END_ADDR_HI"
      "16 \<le> RING_BUF_SIZE" "16 \<le> RING_START_ADDR" "16 \<le> RING_START_ADDR_HI" "16 \<le> RING_END_ADDR" "16 \<le> RING_END_ADDR_HI"
      by (simp_all add: genet_offs)
    have "\<not> bit (gregs s' (rdma_desc i DESC_LENGTH_STATUS)) 2" if i: "i < 256" for i
    proof -
      have "gregs s' (rdma_desc i DESC_LENGTH_STATUS) = gregs s1 (rdma_desc i DESC_LENGTH_STATUS)"
        using ring(1) [OF i] by (simp add: s'_def ring(1) [OF i, symmetric])
      also have "\<not> bit \<dots> 2" using nb nr i by (simp add: s1_def no_room_def)
      finally show ?thesis .
    qed
    with nr show ?thesis by (simp add: no_room_def reg64_def k h same(1))
  qed
  ultimately show ?thesis using step by blast
qed

lemma rdma_loop_stuck:
  assumes "no_room q s" "q < 17" "unat w < 256" "len < length f" "\<And>mem a n. gas_write_ok g mem a n"
  shows "rdma_loop g q f w len s = None"
proof -
  have "\<not> (no_room q s \<and> q < 17 \<and> unat w < 256 \<and> len < length f \<and> (\<forall>mem a n. gas_write_ok g mem a n))"
    if "rdma_loop g q f w len s = Some y" for y g q f w len and s :: "'a genet_dev"
  proof (rule rdma_loop.raw_induct [OF _ that, where P = "\<lambda>g q f w len s _. \<not> (no_room q s \<and> q < 17 \<and> unat w < 256 \<and>
      len < length f \<and> (\<forall>mem a n. gas_write_ok g mem a n))"], rule notI)
    fix loop and g :: "'a genet_env" and q :: nat and f :: "u8 list" and w :: u64 and len :: nat and s :: "'a genet_dev" and y
    assume IH: "\<And>g q f w len s y. loop g q f w len s = Some y \<Longrightarrow>
        \<not> (no_room q s \<and> q < 17 \<and> unat w < 256 \<and> len < length f \<and> (\<forall>mem a n. gas_write_ok g mem a n))"
      and run: "(if length f \<le> len then Some (len, s)
        else if BCM2838_GENET_DMA_DESC_CNT \<le> unat w then Some (len, s\<lparr>out_of_bounds := True\<rparr>)
        else case rdma_step g q f w len s of (len, None, s) \<Rightarrow> Some (len, s) | (len, Some w, s) \<Rightarrow> loop g q f w len s) = Some y"
      and a: "no_room q s \<and> q < 17 \<and> unat w < 256 \<and> len < length f \<and> (\<forall>mem a n. gas_write_ok g mem a n)"
    obtain w' s' where s': "rdma_step g q f w len s = (len, Some w', s')" "no_room q s'" "unat w' < 256"
      using rdma_step_stuck [of q s w g f len] a by blast
    with run a have "loop g q f w' len s' = Some y" by (simp add: BCM2838_GENET_DMA_DESC_CNT_def)
    from IH [OF this] a s' show False by blast
  qed
  with assms show ?thesis by (metis option.exhaust)
qed

text \<open>A device set up by the driver hangs at the next frame once the buffer size of the ring is zero.\<close>

lemma receive_stuck:
  assumes sync: "rx_sync buf d" and c: "unat (gregs d (rdma_ring 16 RRING_CONS_INDEX)) < 65536" and free: "rx_used d < 256"
    and f: "receivable f" and ok: "\<And>mem a n. gas_write_ok g mem a n"
    and d': "d' = bcm2838_genet_write g d (rdma_ring 16 RING_BUF_SIZE) 0"
  shows "bcm2838_genet_receive g d' f = None"
proof -
  let ?p = "unat (gregs d (rdma_ring 16 RRING_PROD_INDEX))"
  let ?i = "?p mod 256"
  have g': "gregs d' = (gregs d)(rdma_ring 16 RING_BUF_SIZE := 0)"
    unfolding d' by (simp add: bcm2838_genet_write_def write_effect_def write_flushes_def Let_def genet_offs)
  have su: "rx_setup d" and lt: "?p < 65536" using sync by (simp_all add: rx_sync_def)
  have ne: "rdma_ring 0 RING_START_ADDR \<noteq> rdma_ring 16 RING_BUF_SIZE" "rdma_ring 0 RING_END_ADDR \<noteq> rdma_ring 16 RING_BUF_SIZE"
    "OFF_RDMA + OFF_DMA_CTRL \<noteq> rdma_ring 16 RING_BUF_SIZE" "rdma_ring 16 RRING_PROD_INDEX \<noteq> rdma_ring 16 RING_BUF_SIZE"
    "rdma_ring 16 RRING_CONS_INDEX \<noteq> rdma_ring 16 RING_BUF_SIZE"
    by (simp_all add: genet_offs)
  have k: "reg64 d' (rdma_ring 16 RING_START_ADDR) = 0" "reg64 d' (rdma_ring 16 RING_END_ADDR) = 767"
    "reg64 d' (rdma_ring 16 RRING_WRITE_PTR) = reg64 d (rdma_ring 16 RRING_WRITE_PTR)"
    using su by (simp_all add: rx_setup_def reg64_def g') (simp_all add: genet_offs)
  have q: "bcm2838_genet_default_rx_ring d' = 16"
    using su by (simp add: rx_setup_def bcm2838_genet_default_rx_ring_def BCM2838_GENET_DMA_RING_CNT_def g' ne)
  have en: "FIELD_EX32 (gregs d' (OFF_RDMA + OFF_DMA_CTRL)) CTRL_EN \<noteq> 0"
    using su by (simp add: rx_setup_def CTRL_EN_def FIELD_EX32_flag_Suc g' ne)
  then have act: "bcm2838_genet_rdma_ring_active d' 16" by (simp add: bcm2838_genet_rdma_ring_active_def BCM2838_GENET_DMA_RING_CNT_def)
  have "bcm2838_genet_rdma_free_descs d' 16 = bcm2838_genet_rdma_free_descs d 16"
    using su by (simp only: bcm2838_genet_rdma_free_descs_def k rx_setup_def) (simp add: g' ne)
  then have fr: "bcm2838_genet_rdma_free_descs d' 16 \<noteq> 0" using free_descs_used [OF su lt c] free by auto
  have wi: "reg64 d' (rdma_ring 16 RRING_WRITE_PTR) div 3 = of_nat ?i"
    using sync by (simp add: k(3) rx_sync_def word_unat_eq_iff unat_div unat_of_nat take_bit_nat_eq_self del: of_nat_mult)
  have u: "unat (of_nat ?i :: u64) = ?i" by (simp add: unat_of_nat take_bit_nat_eq_self)
  define s where "s = upd_reg (rdma_desc ?i DESC_LENGTH_STATUS) (\<lambda>v. FIELD_DP32 v STATUS_SOP 1) d'"
  have "no_room 16 s"
  proof -
    have "rdma_ring 16 j \<noteq> rdma_desc ?i DESC_LENGTH_STATUS" "rdma_ring 16 j + 4 \<noteq> rdma_desc ?i DESC_LENGTH_STATUS" for j
      by (simp_all add: genet_offs)
    moreover have "rdma_desc i DESC_LENGTH_STATUS \<noteq> rdma_ring 16 RING_BUF_SIZE" if "i < 256" for i using that by (simp add: genet_offs)
    ultimately show ?thesis
      using k(1,2) sync by (simp add: no_room_def s_def reg64_def rx_sync_def) (simp add: g' FIELD_DP32_def STATUS_SOP_def bits_simps)
  qed
  then have "rdma_loop g 16 f (of_nat ?i) 0 s = None"
    by (rule rdma_loop_stuck) (use f ok in \<open>simp_all add: u receivable_def\<close>)
  then show ?thesis
    using fr act en f by (simp add: bcm2838_genet_receive_def q bcm2838_genet_rdma_def Let_def wi u BCM2838_GENET_DMA_DESC_CNT_def receivable_def flip: s_def)
qed

end
