(* ===== verification/Genet_System.thy ===== *)
theory Genet_System
  imports Genet_Limits
begin

text \<open>
  Driver and device together: frames sent by the U-Boot driver leave the device in order, frames that
  arrive reach the driver's client in order, and what happens when the ring is full or misconfigured.
\<close>

section \<open>Bursts of frames\<close>

text \<open>
  Bursts of frames: each arrives at the device, then the driver takes what is there.  The result is the
  contents of guest memory where the driver says the frames are.
\<close>

primrec receive_bursts :: "'m genet_env \<Rightarrow> u64 \<Rightarrow> 'm genet_dev uboot_env \<Rightarrow> u8 list list list \<Rightarrow> 'm genet_dev genet \<Rightarrow>
    (u8 list list \<times> 'm genet_dev genet) option" where
  "receive_bursts g m e [] s = Some ([], s)"
| "receive_bursts g m e (fs # bs) s =
     (case receive_all g fs (hw s) of
        None \<Rightarrow> None
      | Some (_, d) \<Rightarrow>
          (case run_state (drain (genet_bus g m e) (Suc (length fs))) (s\<lparr>hw := d\<rparr>) of
             (pkts, s) \<Rightarrow>
               map_option (map_prod ((@) (map (\<lambda>(len, a). gas_read g (guest_mem d) a (unat len)) pkts)) id) (receive_bursts g m e bs s)))"

lemma bursts_delivered:
  assumes "rx_ready m s" "list_all (\<lambda>fs. length fs \<le> 256 \<and> list_all receivable fs) bs" "mem_ok g"
  shows "\<exists>s'. receive_bursts g m e bs s = Some (concat bs, s') \<and> rx_ready m s' \<and> out_of_bounds (hw s') = out_of_bounds (hw s)"
  using assms
proof (induction bs arbitrary: s)
  case Nil
  then show ?case by simp
next
  case (Cons fs bs)
  then have fs: "length fs \<le> 256" "list_all receivable fs" and bs: "list_all (\<lambda>fs. length fs \<le> 256 \<and> list_all receivable fs) bs"
    by simp_all
  obtain d pkts s1 where "receive_all g fs (hw s) = Some (map (\<lambda>f. int (length f)) fs, d)"
    "run_state (drain (genet_bus g m e) (Suc (length fs))) (s\<lparr>hw := d\<rparr>) = (pkts, s1)"
    "map (\<lambda>(len, a). gas_read g (guest_mem d) a (unat len)) pkts = fs" "rx_ready m s1" "out_of_bounds (hw s1) = out_of_bounds (hw s)"
    using receive_and_drain [OF Cons.prems(1) fs Cons.prems(3), of e] by blast
  with Cons.IH [OF this(4) bs Cons.prems(3)] show ?case by (auto simp del: drain.simps)
qed

section \<open>A concrete system\<close>

text \<open>
  Guest memory as a function from addresses to bytes, with an IPv4 frame header at 0x1000; a device fresh from
  power-on and a driver whose registers are at address 0 and whose buffers start at 1 MiB.
\<close>

definition sys_mem :: "(u64 \<Rightarrow> u8) genet_env" where
  "sys_mem = \<lparr>gas_read = (\<lambda>mem a n. map (\<lambda>i. mem (a + of_nat i)) [0..<n]),
     gas_write = (\<lambda>mem a bs x. if unat (x - a) < length bs then bs ! unat (x - a) else mem x),
     gas_write_ok = (\<lambda>mem a n. True), csum_calculate = id, csum_add = (\<lambda>_. 0), macaddr_default_if_unset = id\<rparr>"

definition sys_dev :: "(u64 \<Rightarrow> u8) genet_dev" where
  "sys_dev = \<lparr>gregs = \<lambda>_. 0, genet_phy_regs = \<lambda>_. 0, phy_shd_regs = \<lambda>_. 0, phy_aux_ctl_shd_regs = \<lambda>_. 0, phy_exp_shd_regs = \<lambda>_ _. 0,
     nic_macaddr = \<lambda>_. 0, irq_default = False, irq_prio = False, tx_buffer = \<lambda>_. 0, rx_buffer = \<lambda>_. 0, nic_link_down = False,
     guest_mem = (\<lambda>_. 0)(0x100c := 8), net_out = [], out_of_bounds = False\<rparr>"

definition sys_env :: "(u64 \<Rightarrow> u8) genet_dev uboot_env" where
  "sys_env = \<lparr>
     io_readl = (\<lambda>a h. (0, h)), io_writel = (\<lambda>v a h. h), io_readl_relaxed = (\<lambda>a h. (0, h)), io_writel_relaxed = (\<lambda>v a h. h),
     io_clrbits_32 = (\<lambda>a c h. h), io_setbits_32 = (\<lambda>a c h. h), io_clrsetbits_32 = (\<lambda>a c d h. h),
     io_udelay = (\<lambda>_ h. h), io_flush_dcache_range = (\<lambda>_ _ h. h), io_invalidate_dcache_range = (\<lambda>_ _ h. h),
     io_wait_for_bit_32 = (\<lambda>a mask set t b h. (0, h)),
     io_phy_startup = (\<lambda>p ps h. (0, ps, h)),
     io_phy_connect = (\<lambda>b a d i ps h. (0x77, ps, h)),
     io_phy_set_supported = (\<lambda>p sp ps. (0, ps)), io_phy_config = (\<lambda>p ps h. (ps, h)),
     io_mdio_alloc = (\<lambda>h. (0x55, h)), io_mdio_register = (\<lambda>b d h. (0, h)),
     io_miiphy_get_dev_by_name = (\<lambda>n h. 0x55), io_map_physmem = (\<lambda>a n. a), snprintf_name = id,
     mdio_node_name = ''mdio'', dev_read_addr = 0, dev_read_phy_mode = 8,
     dev_read_phandle = (\<lambda>_. (0, \<lambda>_. None)), dev_ptr = 1,
     roundup = (\<lambda>x y. x), rounddown = (\<lambda>x y. x), ARCH_DMA_MINALIGN = 64,
     SPEED_1000 = 1000, SPEED_100 = 100, SPEED_10 = 10,
     PHY_INTERFACE_MODE_NA = 0, PHY_INTERFACE_MODE_RGMII = 8, PHY_INTERFACE_MODE_RGMII_RXID = 10,
     PHY_GBIT_FEATURES = 0x2ff\<rparr>"

definition sys_genet :: "(u64 \<Rightarrow> u8) genet_dev genet" where
  "sys_genet = \<lparr>rxbuffer = 0x100000, mac_reg = 0, tx_desc_base = 0, rx_desc_base = 0,
     tx_index = 7, rx_index = 0, c_index = 0, phyaddr = 1, interface = 8, speed = 0, phydev = 0x77, bus = 0,
     plat = \<lparr>iobase = 0, enetaddr = of_nat, plat_phy_interface = 8, max_speed = 0\<rparr>,
     phys = (\<lambda>_. \<lparr>phy_speed = 1000, phy_interface = 8, phy_supported = 0x3ff, phy_advertising = 0\<rparr>),
     buses = (\<lambda>_. \<lparr>bus_read = Mii_unset, bus_write = Mii_unset, bus_name = [], bus_priv = 0\<rparr>),
     hw = sys_dev\<rparr>"

abbreviation sys_bus :: "(u64 \<Rightarrow> u8) genet_dev uboot_env" where
  "sys_bus \<equiv> genet_bus sys_mem 0 sys_env"

lemma sys_mem_env_ok: "env_ok sys_mem"
  by (simp add: env_ok_def sys_mem_def)

lemma sys_mem_ok: "mem_ok sys_mem"
proof -
  have "map (\<lambda>i. gas_write sys_mem mem a bs (a + of_nat k + of_nat i)) [0..<n] = take n (drop k bs)"
    if "length bs \<le> 2048" "k + n \<le> length bs" for mem a bs k n
  proof (rule nth_equalityI)
    fix i assume "i < length (map (\<lambda>i. gas_write sys_mem mem a bs (a + of_nat k + of_nat i)) [0..<n])"
    moreover from this that have "unat (of_nat k + of_nat i :: u64) = k + i"
      by (simp add: unat_of_nat take_bit_nat_eq_self flip: of_nat_add)
    ultimately show "map (\<lambda>i. gas_write sys_mem mem a bs (a + of_nat k + of_nat i)) [0..<n] ! i = take n (drop k bs) ! i"
      using that by (simp add: sys_mem_def add.assoc)
  qed (use that in simp)
  then show ?thesis unfolding mem_ok_def by (simp add: sys_mem_def) (meson atLeastLessThan_iff not_less)
qed

lemma sys_phy: "phy_only_mdio m sys_env"
  by (simp add: phy_only_mdio_def sys_env_def)

lemma sys_genet_simps [simp]: "mac_reg sys_genet = 0" "rxbuffer sys_genet = 0x100000" "hw sys_genet = sys_dev" "phydev sys_genet = 0x77"
  "phy_speed (phys sys_genet p) = 1000"
  by (simp_all add: sys_genet_def)

lemma start_link_result:
  "fst (run_state (start_link e) s) =
     (case io_phy_startup e (phydev s) (phys s) (hw s) of
        (pr, ps, _) \<Rightarrow> if pr \<noteq> 0 then pr else if umac_speed e (phy_speed (ps (phydev s))) = None then - EINVAL else 0)"
  by (simp add: start_link_def bcmgenet_adjust_link_def case_prod_beta split: option.split)

lemma sys_start: "fst (run_state (bcmgenet_gmac_eth_start sys_bus) sys_genet) = 0"
  using start_setup_own [of sys_bus sys_genet]
  by (auto simp: start_split case_prod_beta start_link_result) (simp_all add: genet_bus_def sys_env_def umac_speed_def sys_genet_def)

text \<open>A device whose 256 descriptors are all in use.\<close>

definition full_dev :: "(u64 \<Rightarrow> u8) genet_dev" where
  "full_dev = sys_dev\<lparr>gregs := \<lambda>r.
     if 0x2000 \<le> r \<and> r < 0x2c00 then (if (r - 0x2000) mod 12 = 4 then of_nat (0x100000 + 2048 * ((r - 0x2000) div 12)) else 0)
     else ((\<lambda>_. 0)(0x300 := 2, 0x3008 := 256, 0x3010 := 0x1000800, 0x301c := 767, 0x3044 := 0x20001)) r\<rparr>"

lemma full_dev_sync: "rx_sync 0x100000 full_dev" "rx_used full_dev = 256" "gregs full_dev (rdma_ring 16 RRING_CONS_INDEX) = 0" "net_out full_dev = []"
proof -
  have "reg64 full_dev (rdma_desc i DESC_ADDRESS_LO) = 0x100000 + of_nat (2048 * i)" "gregs full_dev (rdma_desc i DESC_LENGTH_STATUS) = 0" if "i < 256" for i
  proof -
    have "(8 + i * 12) mod 12 = 8" "(4 + i * 12) div 12 = i" by simp_all
    then have "reg64 full_dev (rdma_desc i DESC_ADDRESS_LO) = ucast (of_nat (0x100000 + 2048 * i) :: u32)"
      using that by (simp add: reg64_def full_dev_def genet_offs)
    also have "\<dots> = of_nat (0x100000 + 2048 * i)" using that by (intro ucast_of_nat_64) simp
    finally show "reg64 full_dev (rdma_desc i DESC_ADDRESS_LO) = 0x100000 + of_nat (2048 * i)" by simp
    show "gregs full_dev (rdma_desc i DESC_LENGTH_STATUS) = 0" using that by (simp add: full_dev_def genet_offs)
  qed
  then show "rx_sync 0x100000 full_dev"
    by (simp add: rx_sync_def rx_setup_def) (simp add: full_dev_def reg64_def genet_offs)
  show "rx_used full_dev = 256" "gregs full_dev (rdma_ring 16 RRING_CONS_INDEX) = 0" "net_out full_dev = []"
    by (simp_all add: rx_used_def full_dev_def genet_offs sys_dev_def)
qed

section \<open>Properties\<close>

text \<open>
  C4: Driver and device together, transmission.  Whatever state the device was in, after the U-Boot driver
  has been started on it each of up to 65535 sends of frames of 14 to 4095 bytes returns 0, and the device
  has handed exactly these frames to the network, in order, as they were in guest memory (checksums filled
  in; \<open>genet_wire\<close>).  Guest memory is as before, and the device has not left its arrays.
\<close>

theorem started_driver_sends:
  assumes "mac_reg s = m" "phy_only_mdio m e" "env_ok g" "list_all sendable fs" "length fs \<le> 0xffff"
  shows "let s1 = snd (run_state (bcmgenet_gmac_eth_start (genet_bus g m e)) s);
             (rs, s2) = run_state (send_all (genet_bus g m e) fs) s1
         in rs = replicate (length fs) 0 \<and>
            net_out (hw s2) = net_out (hw s1) @ map (\<lambda>f. Send_packet (genet_wire g (frame_at g (guest_mem (hw s1)) f))) fs \<and>
            guest_mem (hw s2) = guest_mem (hw s1) \<and> out_of_bounds (hw s2) = out_of_bounds (hw s1)"
proof -
  define s1 where "s1 = snd (run_state (bcmgenet_gmac_eth_start (genet_bus g m e)) s)"
  have run: "run_state (bcmgenet_gmac_eth_start (genet_bus g m e)) s = (fst (run_state (bcmgenet_gmac_eth_start (genet_bus g m e)) s), s1)"
    by (simp add: s1_def)
  note ready = start_tx_ready [OF assms(1,2) run]
  from send_all_on_device [OF ready(1) assms(4,3), of e] ready(2) assms(5) show ?thesis
    unfolding s1_def [symmetric] by (auto simp: Let_def simp del: send_all.simps)
qed

theorem started_driver_sends_witness:
  "let s1 = snd (run_state (bcmgenet_gmac_eth_start sys_bus) sys_genet); (rs, s2) = run_state (send_all sys_bus [(0x1000, 14), (0x1000, 14)]) s1
   in rs = [0, 0] \<and> length (net_out (hw s2)) = length (net_out (hw s1)) + 2"
  using started_driver_sends [of sys_genet 0 sys_env sys_mem "[(0x1000, 14), (0x1000, 14)]"] sys_phy sys_mem_env_ok
  by (auto simp: Let_def case_prod_beta sendable_def ETH_HEADER_LEN_def GENET_MAX_FRAME_SIZE_def simp del: send_all.simps)

text \<open>
  C5: Driver and device together, reception.  After the U-Boot driver has been started on the device
  successfully, with its receive buffers below 4 GiB, any number of bursts, each of at most 256 frames of at most
  1518 bytes, is delivered: for every burst the driver reports exactly as many packets, and guest memory
  holds at the reported addresses, with the reported lengths, exactly the frames that arrived, in order.  The device
  does not leave its arrays.
\<close>

theorem started_driver_receives:
  assumes "mac_reg s = m" "phy_only_mdio m e" "run_state (bcmgenet_gmac_eth_start (genet_bus g m e)) s = (0, s1)"
    "unat (rxbuffer s) + 2048 * 256 \<le> 2 ^ 32" "mem_ok g" "list_all (\<lambda>fs. length fs \<le> 256 \<and> list_all receivable fs) bursts"
  shows "\<exists>s2. receive_bursts g m e bursts s1 = Some (concat bursts, s2) \<and> out_of_bounds (hw s2) = out_of_bounds (hw s1)"
  using bursts_delivered [OF start_rx_ready [OF assms(1-4)] assms(6,5)] by blast

theorem started_driver_receives_witness:
  "\<exists>s2. receive_bursts sys_mem 0 sys_env [[[1, 2, 3], [4]], [], [[5, 6]]] (snd (run_state (bcmgenet_gmac_eth_start sys_bus) sys_genet)) =
     Some ([[1, 2, 3], [4], [5, 6]], s2)"
proof -
  have "run_state (bcmgenet_gmac_eth_start sys_bus) sys_genet = (0, snd (run_state (bcmgenet_gmac_eth_start sys_bus) sys_genet))"
    using sys_start by (metis prod.collapse)
  from started_driver_receives [OF _ sys_phy this _ sys_mem_ok, of "[[[1, 2, 3], [4]], [], [[5, 6]]]"] show ?thesis
    by (auto simp: receivable_def MAX_PACKET_SIZE_def simp del: receive_bursts.simps)
qed

text \<open>
  C10: Back-pressure.  A frame that arrives when all 256 descriptors are in use is refused with 0 and changes
  nothing, so the network keeps it.  When the driver then releases one descriptor, the device asks the network
  for the frames it holds, and the frame is accepted.
\<close>

theorem full_ring_holds_frame:
  assumes "rx_sync buf d" "c = gregs d (rdma_ring 16 RRING_CONS_INDEX)" "unat c < 65536" "rx_used d = 256" "receivable f" "mem_ok g"
  shows "bcm2838_genet_receive g d f = Some (0, d) \<and>
    (let d' = bcm2838_genet_write g d (rdma_ring 16 RRING_CONS_INDEX) ((c + 1) AND 0xffff)
     in net_out d' = net_out d @ [Flush_queued] \<and> (\<exists>d2. bcm2838_genet_receive g d' f = Some (int (length f), d2)))"
  using receive_full [of buf d g f] release_one [OF assms refl] assms by (auto simp: Let_def)

theorem full_ring_holds_frame_witness:
  "bcm2838_genet_receive sys_mem full_dev [1, 2, 3] = Some (0, full_dev) \<and>
   net_out (bcm2838_genet_write sys_mem full_dev 0x300c 1) = [Flush_queued]"
  using full_ring_holds_frame [OF full_dev_sync(1) refl _ full_dev_sync(2) _ sys_mem_ok, of "[1, 2, 3]"] full_dev_sync(3,4)
  by (simp add: receivable_def MAX_PACKET_SIZE_def Let_def) (simp add: genet_offs)

text \<open>
  C11: A guest can make the receive path run forever: on a device set up by the driver, with a free
  descriptor, one write of 0 to the buffer size of the ring makes the call for the next frame never return.
\<close>

theorem zero_buffer_size_hangs:
  assumes "rx_sync buf d" "unat (gregs d (rdma_ring 16 RRING_CONS_INDEX)) < 65536" "rx_used d < 256" "receivable f"
    "\<And>mem a n. gas_write_ok g mem a n"
  shows "bcm2838_genet_receive g (bcm2838_genet_write g d (rdma_ring 16 RING_BUF_SIZE) 0) f = None"
  by (rule receive_stuck [OF assms refl])

theorem zero_buffer_size_hangs_witness:
  "bcm2838_genet_receive sys_mem (bcm2838_genet_write sys_mem (full_dev\<lparr>gregs := (gregs full_dev)(0x300c := 1)\<rparr>) 0x3010 0) [1] = None"
proof -
  let ?d = "full_dev\<lparr>gregs := (gregs full_dev)(0x300c := 1)\<rparr>"
  have "rx_sync 0x100000 ?d" by (rule rx_sync_cong [OF full_dev_sync(1)]) (simp add: genet_offs)
  moreover have "unat (gregs ?d (rdma_ring 16 RRING_CONS_INDEX)) < 65536" "rx_used ?d < 256"
    by (simp_all add: rx_used_def full_dev_def genet_offs)
  ultimately show ?thesis
    using zero_buffer_size_hangs [of "0x100000" ?d "[1]" sys_mem] mem_okD(1) [OF sys_mem_ok]
    by (simp add: receivable_def MAX_PACKET_SIZE_def) (simp add: genet_offs)
qed

end
