(* ===== verification/Spec2Isabelle.thy ===== *)
theory Spec2Isabelle
  imports Gem_Props Property_Props Uboot_Props Bcm2838_Props Linux_Driver Linux_Tx_Props Linux_Dma_Props Linux_Hfb_Props Linux_Rx_Props Genet_System
begin

text \<open>
  Verification of the emulated and driven hardware of the Raspberry Pi QEMU repository.

  \<^bold>\<open>The program.\<close>  The repository gathers what is needed to boot a Raspberry Pi 4 under QEMU with a working
  network: reference device models of QEMU (\<open>src/resources/reference\<close>), the drivers that run against
  them in the guest (\<open>src/resources/uboot-genet-driver\<close>, \<open>src/resources/linux-genet-driver\<close>), a series
  of patches to QEMU, and build and test scripts.  The C code falls into these parts.

  \<^item> The Cadence GEM Ethernet controller (\<open>qemu-cadence-gem.c\<close>, \<open>.h\<close>): registers, receive and transmit
    descriptor rings in guest memory, address filter, queue screeners, PHY.
  \<^item> The BCM2835 property mailbox (\<open>qemu-bcm2835-property.c\<close>): the firmware interface; the guest posts a
    buffer of tags, the device walks it and answers each tag in place.
  \<^item> The BCM2838 peripheral block (\<open>qemu-bcm2838-peripherals.c\<close>, \<open>.h\<close>), the Raspberry Pi 4B machine
    (\<open>qemu-raspi4b.c\<close>) and the platform constants (\<open>qemu-raspi-platform.h\<close>): which devices exist, where they
    are mapped, how their interrupts are wired, and what the guest's device tree says.
  \<^item> The U-Boot driver of the GENET Ethernet controller (\<open>uboot-genet-driver/bcmgenet.c\<close>).
  \<^item> The Linux driver of the same controller (\<open>linux-genet-driver\<close>: \<open>bcmgenet.c\<close>, \<open>bcmgenet.h\<close>, \<open>bcmmii.c\<close>,
    \<open>bcmgenet_wol.c\<close>): up to five transmit rings and a receive ring served by interrupts and NAPI, a
    hardware filter block for flow rules, the MAC and its PHY, wake-on-LAN, suspend and resume.
  \<^item> The QEMU model of the GENET controller (\<open>ci/qemu-patches\<close>, patch 0004 and the later GENET patches, which
    together add \<open>hw/net/bcm2838_genet.c\<close> and \<open>.h\<close>): the device the two drivers run against; it meets the
    U-Boot driver in the registers, the descriptors and the buffers in guest memory.

  \<^bold>\<open>Theories.\<close>
  \<^item> \<open>Prelude\<close>: C integers as words, register fields, little-endian encoding, guest memory as the locale
    \<open>dma_bus\<close> with its instance \<open>ram\<close> (a flat byte memory).
  \<^item> \<open>Gem_Regs\<close>, \<open>Gem_State\<close>, \<open>Gem_Filter\<close>, \<open>Gem_Rx\<close>, \<open>Gem_Tx\<close>, \<open>Gem_Mmio\<close>: the model of the GEM device in
    the order of the source.  The record \<open>gem\<close> holds the fields of \<open>CadenceGEMState\<close> (register file,
    descriptor caches, PHY registers, interrupt lines) and the guest memory; \<open>gem_env\<close> holds what is outside:
    memory access, the network peer, CRC.  A call that makes C read outside an array is \<open>None\<close>.
    \<open>Gem_Tx_Props\<close>, \<open>Gem_Frame\<close> (which parts of the state each operation keeps; the locale \<open>net_layer\<close>; the
    reachable states \<open>gem_reach\<close> and their invariant), \<open>Gem_Rx_Props\<close>, \<open>Gem_Demo\<close> (concrete devices) lead
    to \<open>Gem_Props\<close>.
  \<^item> \<open>Raspi_Platform\<close>: the constant tables.  \<open>Property_Mbox\<close>: the mailbox, one function per group of tags
    (\<open>board_tag\<close>, \<open>clock_tag\<close>, \<open>fb_tag\<close>, \<open>misc_tag\<close>, \<open>otp_tag\<close>), the tag loop \<open>prop_walk\<close> and the register
    handlers.  \<open>Property_Props\<close>: the locales \<open>prop_bus\<close> and \<open>otp_store\<close>, their instances and the properties.
  \<^item> \<open>Bcm2838_Board\<close> and \<open>Bcm2838_Props\<close>: the peripheral block and the machine as updates of a record of what
    has been set up; the locale \<open>device_tree\<close> and its instance, a flat tree.
  \<^item> \<open>Uboot_Genet\<close>: the U-Boot driver, one definition per function, in the state monad over the record \<open>genet\<close>
    (\<open>struct bcmgenet_eth_priv\<close>, the platform data and the hardware).  \<open>Uboot_Rings\<close>: facts that hold for any
    hardware.  \<open>Uboot_Regs\<close>: the locale \<open>genet_regs\<close>, the registers that keep what is written to them, and
    what the set-up functions leave there.  \<open>Uboot_Drain\<close>, \<open>Uboot_Props\<close>: reception in a loop and the
    properties.
  \<^item> \<open>Linux_Regs\<close>, \<open>Linux_State\<close>, \<open>Linux_Io\<close>: constants and register tables, the record \<open>bcmgenet_priv\<close> and
    the accessors of the Linux driver.  Hardware and kernel are the record \<open>linux_env\<close> of functions of the
    history of the driver's interactions, so a theorem about every environment is one about any hardware and
    any kernel.  The functions of the driver are computations of the state monad: \<open>Linux_Tx\<close> (transmit),
    \<open>Linux_Rx\<close> (receive, coalescing), \<open>Linux_Hfb\<close> (filter block, flow rules), \<open>Linux_Phy\<close> (\<open>bcmmii.c\<close>, pause,
    energy-efficient Ethernet), \<open>Linux_Power\<close> (\<open>bcmgenet_wol.c\<close>, power), \<open>Linux_Dma\<close> (rings and DMA),
    \<open>Linux_Ethtool\<close> (statistics and settings), \<open>Linux_Dev\<close> (interrupts, open, close), \<open>Linux_Driver\<close> (probe,
    remove, suspend, resume).
  \<^item> \<open>Linux_Lib\<close> and \<open>Linux_Demo\<close>: shared lemmas and a concrete environment.  \<open>Linux_Tx_Ring\<close> (the
    ring as a queue), \<open>Linux_Tx_Post\<close> (posting a packet), \<open>Linux_Tx_Rewind\<close> (the error
    paths), \<open>Linux_Tx_Props\<close>; \<open>Linux_Dma_Props\<close>; \<open>Linux_Hfb_Rules\<close>
    (the locale \<open>rule_store\<close>, a table of rules, and its instance in the driver) and \<open>Linux_Hfb_Props\<close>;
    \<open>Linux_Rx_Ring\<close> (a receive ring as a rotating list of buffers) and \<open>Linux_Rx_Props\<close>.
  \<^item> \<open>Genet_Dev\<close>: the GENET device, one definition per function; the record \<open>genet_dev\<close> holds the register block
    as a map of offsets, the PHY registers, the packet buffers, guest memory and what went to the network.
    \<open>Genet_Regs\<close>: which registers a write changes.  \<open>Genet_Bus\<close>: the device as the hardware of the U-Boot
    driver, an instance of \<open>genet_regs\<close>.  \<open>Genet_Tx\<close>, \<open>Genet_Send\<close>: the transmit engine and the driver's send;
    \<open>Genet_Start\<close>: reset and start; \<open>Genet_Rx\<close>, \<open>Genet_Drain\<close>: the receive engine and the driver's receive;
    \<open>Genet_Limits\<close>: full rings and rings without room; \<open>Genet_System\<close>: the properties of driver and device together.

  \<^bold>\<open>What is shown.\<close>
  \<^item> GEM: a received frame arrives byte for byte in the guest's buffers with the descriptors marked as the
    hardware manual says, and a transmitted one leaves as the guest laid it out; in which cases the C code
    leaves its arrays (a screener that selects a queue above 7); no transmit descriptor makes the packet
    buffer overflow; every reachable state keeps the device's identity and accepts every register write; the
    address filter, the hash and the screeners agree with their definitions; registers, interrupts,
    statistics, PHY, reset and realize behave as declared on every branch.
  \<^item> Mailbox: a well-formed request is walked to its end and answered tag by tag; the handshake of the
    pending flag; a locked OTP stays locked; a buffer size that makes the loop stand still makes the call
    diverge; framebuffer setters report what they install.
  \<^item> Board: the wiring refines the table of interrupt lines; register blocks do not overlap; errors stop the
    set-up; the device tree loses exactly the nodes of devices that are not emulated.
  \<^item> U-Boot driver: sending posts the descriptor before the doorbell and ends after at most a hundred polls,
    for any hardware; the descriptor decodes to the frame; ring indices stay in bounds through every
    sequence of calls; frames are received in the order produced; what a start configures; the outcomes of
    probing; sending fails for good once the producer index has wrapped.
  \<^item> Linux driver: a transmit ring, for any hardware and kernel, is a bounded queue of packets under every
    sequence of transmits and completions; what the two paths that rewind a ring leave behind; the rings set
    up at start partition the descriptors; which coalescing settings are accepted and what they
    program; the flow rules are a table of
    at most sixteen rules, a
    receive ring rotates its buffers and loses none, and filling it ends with 0 exactly when it is full.
  \<^item> GENET device with the U-Boot driver: after a start on a device in any state, what the driver sends is what
    the network gets and what arrives is what the driver's client gets, in order and byte for byte; a full
    ring holds frames back and loses none; a buffer size of zero makes the receive loop run forever.

  \<^bold>\<open>Loops and fuel.\<close>  The copy loops of the GEM device and the ring loops of the drivers are structural or have
  a termination measure.  The tag loop of the mailbox may not end, because the next address is a 32-bit sum of
  guest data: it is a \<open>partial_function (option)\<close>, and both that it returns on well-formed requests and
  that it diverges on a crafted one are theorems.  The transmit loop of the GEM device follows descriptors in
  guest memory and may not end either; it is an option-valued partial function too, and the properties that
  say it transmits prove that it returns.  So is the receive loop of the GENET device: that it returns for
  every frame a started driver can get, and that it does not when the buffer size is zero, are both theorems;
  its transmit loop has a measure, the distance of two 16-bit indices.  \<open>drain\<close> takes a bound on the number of frames; the theorem about it
  needs only one more than there are.

  \<^bold>\<open>Not modelled.\<close>  Of the Linux driver: messages to the kernel log, the tables of function pointers and the
  registration of the module, the memory barriers and sequence counters of the statistics, and an interrupt
  handler that only acknowledges.
  Of the GENET device: traces, log messages and the filter, a stub that matches nothing.  The other patches of
  the series change files of a QEMU tree that is not in the repository.  Debug output, type registration, migration tables and the creation of
  I/O regions have no behaviour of their own.  Scripts, workflows and packaging are orchestration and I/O.
\<close>

end
